(* ===== verification/Cube_Prelude.thy ===== *)
theory Cube_Prelude
  imports Main "HOL-Library.Char_ord" "HOL-Library.List_Lexorder"
begin

text \<open>
  Shared ground of the development: the lemma collections, the generic facts on lists and maps
  that several components use, and the names of the types all of them share.

  Collections:
  \<^item> \<open>go_err\<close>: how the error predicates (\<open>IsNotFound\<close>, \<open>IsAlreadyExists\<close>, \<open>Cause\<close>) evaluate;
  \<^item> \<open>str_simps\<close>: the Go string functions on the shapes the components use;
  \<^item> \<open>owner_simps\<close>: controller references and ownership;
  \<^item> \<open>api_simps\<close>: the API client operations over an answer of the server.
\<close>

named_theorems go_err \<open>evaluation of the error predicates\<close>
named_theorems str_simps \<open>Go string functions\<close>
named_theorems owner_simps \<open>controller references and ownership\<close>
named_theorems api_simps \<open>API client operations\<close>

subsection \<open>Lists\<close>

lemma filter_singleton_conv:
  "length (filter P xs) = Suc 0 \<longleftrightarrow> (\<exists>x. filter P xs = [x])"
  by (cases "filter P xs") (auto simp: length_Suc_conv)

lemma list_0_1_many:
  obtains (none) "xs = []" | (one) x where "xs = [x]" | (many) "1 < length xs"
  by (cases xs rule: list.exhaust; cases "tl xs" rule: list.exhaust) auto

lemma distinct_keys_map_of:
  "distinct (map fst xs) \<Longrightarrow> (k, v) \<in> set xs \<longleftrightarrow> map_of xs k = Some v"
  by simp

subsection \<open>Strings in the order of their bytes\<close>

text \<open>
  Go compares strings bytewise; with the theories \<open>Char_ord\<close> and \<open>List_Lexorder\<close> the type
  \<open>string\<close> carries exactly that linear order, so \<open>insort\<close> and \<open>sort\<close> are Go's sorted sets.
\<close>

lemma set_insort_key_distinct:
  "distinct xs \<Longrightarrow> x \<notin> set xs \<Longrightarrow> distinct (insort x xs)"
  by (simp add: distinct_insort)

lemma set_insort_insert_str: "set (insort_insert x xs) = insert x (set xs)"
  by (rule set_insort_insert)

end
