(* ===== verification/Cube_Go.thy ===== *)
theory Cube_Go
  imports Cube_Prelude
begin

text \<open>
  The parts of Go that the server uses: error values (with the predicates of
  \<open>k8s.io/apimachinery/pkg/api/errors\<close> and the wrapping of \<open>github.com/pkg/errors\<close>), run-time
  panics as values, and the functions of package \<open>strings\<close> and \<open>encoding\<close> that the handlers call.

  A Go \<open>error\<close> is \<open>go_error option\<close>, with \<^term>\<open>None\<close> for \<open>nil\<close>.  A message built with
  \<open>fmt.Errorf\<close> keeps its format string and its string arguments; rendering them into one text is
  never inspected by the program.  Strings are byte strings, as in Go.
\<close>

section \<open>Errors\<close>

datatype status_reason =
    StatusReasonNotFound
  | StatusReasonAlreadyExists
  | StatusReasonConflict
  | StatusReasonOther string
  | StatusReasonUnknown

datatype go_error =
    StatusError status_reason string
  | Errorf string "string list"
  | WithMessage go_error string

fun ReasonForError :: "go_error option \<Rightarrow> status_reason" where
  "ReasonForError (Some (StatusError r _)) = r"
| "ReasonForError _ = StatusReasonUnknown"

definition IsNotFound :: "go_error option \<Rightarrow> bool" where
  "IsNotFound err \<longleftrightarrow> ReasonForError err = StatusReasonNotFound"

definition IsAlreadyExists :: "go_error option \<Rightarrow> bool" where
  "IsAlreadyExists err \<longleftrightarrow> ReasonForError err = StatusReasonAlreadyExists"

definition IsConflict :: "go_error option \<Rightarrow> bool" where
  "IsConflict err \<longleftrightarrow> ReasonForError err = StatusReasonConflict"

text \<open>\<open>errors.Wrap\<close> returns \<open>nil\<close> on a \<open>nil\<close> error; \<open>errors.Cause\<close> strips every layer.\<close>

fun Wrap :: "go_error option \<Rightarrow> string \<Rightarrow> go_error option" where
  "Wrap None _ = None"
| "Wrap (Some e) msg = Some (WithMessage e msg)"

fun cause_of :: "go_error \<Rightarrow> go_error" where
  "cause_of (WithMessage e _) = cause_of e"
| "cause_of e = e"

definition Cause :: "go_error option \<Rightarrow> go_error option" where
  "Cause err = map_option cause_of err"

lemma err_nil [simp]:
  "\<not> IsNotFound None" "\<not> IsAlreadyExists None" "\<not> IsConflict None" "Cause None = None"
  by (simp_all add: IsNotFound_def IsAlreadyExists_def IsConflict_def Cause_def)

lemma err_predicates [go_err]:
  "IsNotFound (Some (StatusError r m)) \<longleftrightarrow> r = StatusReasonNotFound"
  "IsAlreadyExists (Some (StatusError r m)) \<longleftrightarrow> r = StatusReasonAlreadyExists"
  "IsConflict (Some (StatusError r m)) \<longleftrightarrow> r = StatusReasonConflict"
  "\<not> IsNotFound (Some (Errorf f xs))" "\<not> IsAlreadyExists (Some (Errorf f xs))"
  "\<not> IsConflict (Some (Errorf f xs))"
  "\<not> IsNotFound (Some (WithMessage e f))" "\<not> IsAlreadyExists (Some (WithMessage e f))"
  "\<not> IsConflict (Some (WithMessage e f))"
  by (simp_all add: IsNotFound_def IsAlreadyExists_def IsConflict_def)

lemma Wrap_eq_None [simp]: "Wrap err m = None \<longleftrightarrow> err = None"
  by (cases err) auto

lemma Cause_Wrap [go_err]: "Cause (Wrap err m) = Cause err"
  by (cases err) (auto simp: Cause_def)

lemma cause_of_not_WithMessage: "cause_of e \<noteq> WithMessage e' m"
  by (induction e) auto

section \<open>Panics\<close>

datatype 'a outcome = Return 'a | Panic string

fun bind_outcome :: "'a outcome \<Rightarrow> ('a \<Rightarrow> 'b outcome) \<Rightarrow> 'b outcome" where
  "bind_outcome (Return x) f = f x"
| "bind_outcome (Panic m) f = Panic m"

lemma bind_outcome_Return_iff:
  "bind_outcome m f = Return y \<longleftrightarrow> (\<exists>x. m = Return x \<and> f x = Return y)"
  by (cases m) auto

abbreviation nil_deref :: "'a outcome" where
  "nil_deref \<equiv> Panic ''invalid memory address or nil pointer dereference''"

abbreviation index_out_of_range :: "'a outcome" where
  "index_out_of_range \<equiv> Panic ''index out of range''"

section \<open>Package strings\<close>

definition HasPrefix :: "string \<Rightarrow> string \<Rightarrow> bool" where
  "HasPrefix s p \<longleftrightarrow> length p \<le> length s \<and> take (length p) s = p"

fun split_on :: "char \<Rightarrow> string \<Rightarrow> string list" where
  "split_on c [] = [[]]"
| "split_on c (x # xs) =
     (if x = c then [] # split_on c xs
      else (case split_on c xs of [] \<Rightarrow> [[x]] | p # ps \<Rightarrow> (x # p) # ps))"

fun join_with :: "char \<Rightarrow> string list \<Rightarrow> string" where
  "join_with c [] = []"
| "join_with c [p] = p"
| "join_with c (p # q # ps) = p @ c # join_with c (q # ps)"

definition split2_on :: "char \<Rightarrow> string \<Rightarrow> string list" where
  "split2_on c s =
     (case dropWhile (\<lambda>x. x \<noteq> c) s of
        [] \<Rightarrow> [s]
      | _ # rest \<Rightarrow> [takeWhile (\<lambda>x. x \<noteq> c) s, rest])"

lemma HasPrefix_append [str_simps]: "HasPrefix (p @ s) p"
  by (simp add: HasPrefix_def)

lemma HasPrefix_iff_append: "HasPrefix s p \<longleftrightarrow> (\<exists>t. s = p @ t)"
  by (auto simp: HasPrefix_def) (metis append_take_drop_id)

lemma HasPrefix_take: "length p \<le> length s \<Longrightarrow> HasPrefix s p \<longleftrightarrow> take (length p) s = p"
  by (simp add: HasPrefix_def)

lemma HasPrefix_length: "HasPrefix s p \<Longrightarrow> length p \<le> length s"
  by (simp add: HasPrefix_def)

lemma split_on_nonempty [simp]: "split_on c s \<noteq> []"
  by (induction s) (auto split: list.splits)

lemma join_split_on: "join_with c (split_on c s) = s"
proof (induction s)
  case (Cons x xs)
  obtain p ps where "split_on c xs = p # ps"
    by (cases "split_on c xs") auto
  with Cons show ?case by (cases ps) auto
qed simp

lemma split_on_no_sep: "c \<notin> set s \<Longrightarrow> split_on c s = [s]"
  by (induction s) auto

lemma split_on_append: "c \<notin> set s \<Longrightarrow> split_on c (s @ c # t) = s # split_on c t"
  by (induction s) auto

lemma split_on_parts: "p \<in> set (split_on c s) \<Longrightarrow> c \<notin> set p"
  by (induction s arbitrary: p) (auto split: if_splits list.splits)

lemma length_split_on: "length (split_on c s) = Suc (count_list s c)"
proof (induction s)
  case (Cons x xs)
  then show ?case by (auto split: list.splits)
qed simp

lemma split_on_hd: "hd (split_on c s) = takeWhile (\<lambda>x. x \<noteq> c) s"
proof (induction s)
  case (Cons x xs)
  then show ?case by (cases "split_on c xs") auto
qed simp

lemmas split_on_simps [str_simps] = split_on_no_sep split_on_append

subsection \<open>White space and case folding\<close>

text \<open>
  \<open>strings.TrimSpace\<close> removes Unicode white space at both ends.  The list holds the UTF-8 encoding
  of every code point with the property White\_Space, so the model is exact on arbitrary bytes.
\<close>

definition bytes :: "nat list \<Rightarrow> string" where
  "bytes ns = map char_of ns"

definition white_space :: "string list" where
  "white_space = map bytes
     ([[9], [10], [11], [12], [13], [32], [194, 133], [194, 160], [225, 154, 128]]
      @ map (\<lambda>n. [226, 128, n]) [128 ..< 139]
      @ [[226, 128, 168], [226, 128, 169], [226, 128, 175], [226, 129, 159], [227, 128, 128]])"

fun strip_one :: "string list \<Rightarrow> string \<Rightarrow> string option" where
  "strip_one [] s = None"
| "strip_one (w # ws) s =
     (if w \<noteq> [] \<and> HasPrefix s w then Some (drop (length w) s) else strip_one ws s)"

lemma strip_one_shorter: "strip_one ws s = Some t \<Longrightarrow> length t < length s"
proof (induction ws s rule: strip_one.induct)
  case (2 w ws s)
  then show ?case
    by (cases w) (auto simp: HasPrefix_def split: if_splits)
qed simp

function trim_front :: "string list \<Rightarrow> string \<Rightarrow> string" where
  "trim_front ws s = (case strip_one ws s of None \<Rightarrow> s | Some t \<Rightarrow> trim_front ws t)"
  by pat_completeness auto
termination
  by (relation "measure (\<lambda>(ws, s). length s)") (auto dest: strip_one_shorter)

declare trim_front.simps [simp del]

definition TrimSpace :: "string \<Rightarrow> string" where
  "TrimSpace s = rev (trim_front (map rev white_space) (rev (trim_front white_space s)))"

text \<open>
  \<open>strings.EqualFold\<close> against an ASCII string: besides the letters of both cases only the long s
  (bytes C5 BF) and the Kelvin sign (bytes E2 84 AA) fold to an ASCII letter.
\<close>

definition ascii_lower :: "char \<Rightarrow> char" where
  "ascii_lower c =
     (let n = (of_char c :: nat) in if 65 \<le> n \<and> n \<le> 90 then char_of (n + 32) else c)"

fun fold_ascii :: "nat list \<Rightarrow> string" where
  "fold_ascii [] = []"
| "fold_ascii (n # ns) =
     (if n = 197 \<and> take 1 ns = [191] then CHR ''s'' # fold_ascii (drop 1 ns)
      else if n = 226 \<and> take 2 ns = [132, 170] then CHR ''k'' # fold_ascii (drop 2 ns)
      else ascii_lower (char_of n) # fold_ascii ns)"

definition EqualFold_ascii :: "string \<Rightarrow> string \<Rightarrow> bool" where
  "EqualFold_ascii s t \<longleftrightarrow> fold_ascii (map of_char s) = fold_ascii (map of_char t)"

lemma trim_front_no_space: "strip_one ws s = None \<Longrightarrow> trim_front ws s = s"
  by (simp add: trim_front.simps)

lemma strip_one_trim_front: "strip_one ws (trim_front ws s) = None"
proof (induction ws s rule: trim_front.induct)
  case (1 ws s)
  then show ?case
    by (cases "strip_one ws s") (simp_all add: trim_front.simps [of ws s])
qed

end
