(* ===== verification/Cube_Meta.thy ===== *)
theory Cube_Meta
  imports Cube_Go "HOL-Library.Word"
begin

text \<open>
  Object metadata and ownership (\<open>k8s.io/apimachinery/pkg/apis/meta/v1\<close>), the cache keys of
  \<open>k8s.io/client-go/tools/cache\<close>, and the group version of the server's own resources.  A Go
  \<open>map[string]string\<close> is an association list in the order the source writes it; a pointer field
  is an option.
\<close>

type_synonym int32 = "32 word"
type_synonym int64 = "64 word"
type_synonym string_map = "(string \<times> string) list"

record owner_reference =
  or_APIVersion :: string
  or_Kind :: string
  or_Name :: string
  or_UID :: string
  or_BlockOwnerDeletion :: "bool option"
  or_Controller :: "bool option"

record object_meta =
  om_Name :: string
  om_GenerateName :: string
  om_Namespace :: string
  om_UID :: string
  om_ResourceVersion :: string
  om_CreationTimestamp :: int
  om_DeletionTimestamp :: "int option"
  om_Labels :: string_map
  om_OwnerReferences :: "owner_reference list"

definition zero_meta :: object_meta where
  "zero_meta = \<lparr>om_Name = [], om_GenerateName = [], om_Namespace = [], om_UID = [],
     om_ResourceVersion = [], om_CreationTimestamp = 0, om_DeletionTimestamp = None,
     om_Labels = [], om_OwnerReferences = []\<rparr>"

lemma zero_meta_sel [simp]:
  "om_Name zero_meta = []" "om_GenerateName zero_meta = []" "om_Namespace zero_meta = []"
  "om_UID zero_meta = []" "om_ResourceVersion zero_meta = []"
  "om_CreationTimestamp zero_meta = 0" "om_DeletionTimestamp zero_meta = None"
  "om_Labels zero_meta = []" "om_OwnerReferences zero_meta = []"
  by (simp_all add: zero_meta_def)

section \<open>Group versions\<close>

record group_version_kind =
  gvk_Group :: string
  gvk_Version :: string
  gvk_Kind :: string

definition GroupVersion_String :: "group_version_kind \<Rightarrow> string" where
  "GroupVersion_String gv =
     (if gvk_Group gv = [] \<and> gvk_Version gv = [] then []
      else if gvk_Group gv = [] \<and> gvk_Version gv = ''v1'' then gvk_Version gv
      else if gvk_Group gv \<noteq> [] then gvk_Group gv @ ''/'' @ gvk_Version gv
      else gvk_Version gv)"

definition GroupName :: string where
  "GroupName = ''cube.rancher.io''"

text \<open>\<open>SchemeGroupVersion.WithKind kind\<close>, the way the controllers build it field by field.\<close>

definition cube_gvk :: "string \<Rightarrow> group_version_kind" where
  "cube_gvk kind = \<lparr>gvk_Group = GroupName, gvk_Version = ''v1alpha1'', gvk_Kind = kind\<rparr>"

section \<open>Controller references\<close>

definition NewControllerRef :: "object_meta \<Rightarrow> group_version_kind \<Rightarrow> owner_reference" where
  "NewControllerRef owner gvk =
     \<lparr>or_APIVersion = GroupVersion_String gvk, or_Kind = gvk_Kind gvk, or_Name = om_Name owner,
      or_UID = om_UID owner, or_BlockOwnerDeletion = Some True, or_Controller = Some True\<rparr>"

fun first_controller :: "owner_reference list \<Rightarrow> owner_reference option" where
  "first_controller [] = None"
| "first_controller (ref # refs) =
     (if or_Controller ref = Some True then Some ref else first_controller refs)"

definition GetControllerOf :: "object_meta \<Rightarrow> owner_reference option" where
  "GetControllerOf controllee = first_controller (om_OwnerReferences controllee)"

definition IsControlledBy :: "object_meta \<Rightarrow> object_meta \<Rightarrow> bool" where
  "IsControlledBy obj owner =
     (case GetControllerOf obj of None \<Rightarrow> False | Some ref \<Rightarrow> or_UID ref = om_UID owner)"

lemma first_controller_Some:
  "first_controller refs = Some ref \<Longrightarrow> ref \<in> set refs \<and> or_Controller ref = Some True"
  by (induction refs) (auto split: if_splits)

lemma GetControllerOf_single [owner_simps]:
  "om_OwnerReferences m = [NewControllerRef owner gvk] \<Longrightarrow>
     GetControllerOf m = Some (NewControllerRef owner gvk)"
  by (simp add: GetControllerOf_def NewControllerRef_def)

lemma IsControlledBy_single [owner_simps]:
  "om_OwnerReferences m = [NewControllerRef owner gvk] \<Longrightarrow> IsControlledBy m owner"
  by (simp add: IsControlledBy_def owner_simps) (simp add: NewControllerRef_def)

lemma not_controlled_no_refs [owner_simps]:
  "om_OwnerReferences m = [] \<Longrightarrow> \<not> IsControlledBy m owner"
  by (simp add: IsControlledBy_def GetControllerOf_def)

lemma IsControlledBy_cong:
  "om_OwnerReferences m = om_OwnerReferences m' \<Longrightarrow> om_UID o' = om_UID o'' \<Longrightarrow>
     IsControlledBy m o' = IsControlledBy m' o''"
  by (simp add: IsControlledBy_def GetControllerOf_def split: option.splits)

section \<open>Cache keys\<close>

definition MetaNamespaceKeyFunc :: "object_meta \<Rightarrow> string" where
  "MetaNamespaceKeyFunc m =
     (if 0 < length (om_Namespace m) then om_Namespace m @ ''/'' @ om_Name m else om_Name m)"

definition SplitMetaNamespaceKey :: "string \<Rightarrow> go_error + string \<times> string" where
  "SplitMetaNamespaceKey key =
     (case split_on CHR ''/'' key of
        [name] \<Rightarrow> Inr ([], name)
      | [namespace, name] \<Rightarrow> Inr (namespace, name)
      | _ \<Rightarrow> Inl (Errorf ''unexpected key format: %q'' [key]))"

text \<open>The key a namespaced lister asks its indexer for: \<open>namespace + "/" + name\<close>.\<close>

definition lister_key :: "string \<Rightarrow> string \<Rightarrow> string" where
  "lister_key namespace name = namespace @ ''/'' @ name"

lemma lister_key_MetaNamespaceKeyFunc:
  "om_Namespace m \<noteq> [] \<Longrightarrow> lister_key (om_Namespace m) (om_Name m) = MetaNamespaceKeyFunc m"
  by (simp add: lister_key_def MetaNamespaceKeyFunc_def)

lemma SplitMetaNamespaceKey_MetaNamespaceKeyFunc:
  assumes "CHR ''/'' \<notin> set (om_Namespace m)" "CHR ''/'' \<notin> set (om_Name m)"
  shows "SplitMetaNamespaceKey (MetaNamespaceKeyFunc m) = Inr (om_Namespace m, om_Name m)"
  using assms
  by (auto simp: SplitMetaNamespaceKey_def MetaNamespaceKeyFunc_def split_on_simps)

lemma SplitMetaNamespaceKey_Inr:
  assumes "SplitMetaNamespaceKey key = Inr (ns, n)"
  shows "CHR ''/'' \<notin> set ns \<and> CHR ''/'' \<notin> set n
    \<and> (if CHR ''/'' \<in> set key then key = ns @ ''/'' @ n else ns = [] \<and> key = n)"
proof -
  have parts: "\<And>p. p \<in> set (split_on CHR ''/'' key) \<Longrightarrow> CHR ''/'' \<notin> set p"
    by (rule split_on_parts)
  have joined: "join_with CHR ''/'' (split_on CHR ''/'' key) = key"
    by (rule join_split_on)
  from assms consider "split_on CHR ''/'' key = [n]" "ns = []" | "split_on CHR ''/'' key = [ns, n]"
    by (auto simp: SplitMetaNamespaceKey_def split: list.splits)
  then show ?thesis
  proof cases
    case 1
    with parts joined show ?thesis by auto
  next
    case 2
    with parts joined show ?thesis by auto
  qed
qed

text \<open>
  A lister with the empty namespace asks for a key that starts with a slash, which is the key of
  no object whose name has no slash.
\<close>

lemma lister_key_empty_namespace:
  assumes "CHR ''/'' \<notin> set (om_Name m)" "CHR ''/'' \<notin> set (om_Namespace m)"
  shows "lister_key [] name \<noteq> MetaNamespaceKeyFunc m"
proof
  assume "lister_key [] name = MetaNamespaceKeyFunc m"
  then have eq: "MetaNamespaceKeyFunc m = CHR ''/'' # name"
    by (simp add: lister_key_def)
  show False
  proof (cases "om_Namespace m")
    case Nil
    with eq have "om_Name m = CHR ''/'' # name" by (simp add: MetaNamespaceKeyFunc_def)
    with assms(1) show False by simp
  next
    case (Cons c cs)
    with eq assms(2) show False
      by (auto simp: MetaNamespaceKeyFunc_def)
  qed
qed

end
