(* ===== verification/Cube_Indexer.thy ===== *)
theory Cube_Indexer
  imports Cube_Meta "HOL-Library.AList"
begin

text \<open>
  The informer caches: \<open>threadSafeMap\<close> of \<open>k8s.io/client-go/tools/cache/thread_safe_store.go\<close>, a
  map of objects with secondary indices kept in step by every write.  All lookups of the
  controllers and of the authentication backend go through it.

  The contract of an \<open>Indexer\<close> (a lookup by an index returns exactly the objects whose index
  function yields the key, once each, in the order of their cache keys) is the locale \<open>indexer\<close>;
  the interpretation \<open>tsm\<close> discharges it for \<open>threadSafeMap\<close>.  A stored \<open>interface{}\<close> that is
  missing is \<open>nil\<close>, so a lookup answers with options.
\<close>

type_synonym 'a index_func = "'a \<Rightarrow> string list \<times> go_error option"
type_synonym 'a indexers = "(string \<times> 'a index_func) list"
type_synonym indices = "string \<Rightarrow> string \<Rightarrow> string list"

text \<open>
  \<open>sets.String\<close> is the sorted list of its members; an index that does not exist reads as empty.
\<close>

record 'a thread_safe_map =
  ts_items :: "(string \<times> 'a) list"
  ts_indexers :: "'a indexers"
  ts_indices :: indices

definition NewThreadSafeStore :: "'a indexers \<Rightarrow> 'a thread_safe_map" where
  "NewThreadSafeStore ixs =
     \<lparr>ts_items = [], ts_indexers = ixs, ts_indices = (\<lambda>_ _. [])\<rparr>"

definition run_index :: "'a index_func \<Rightarrow> 'a \<Rightarrow> string list outcome" where
  "run_index f obj =
     (case f obj of
        (vals, None) \<Rightarrow> Return vals
      | (_, Some _) \<Rightarrow> Panic ''unable to calculate an index entry'')"

fun deleteFromIndices ::
    "'a indexers \<Rightarrow> 'a \<Rightarrow> string \<Rightarrow> indices \<Rightarrow> indices outcome" where
  "deleteFromIndices [] obj key ind = Return ind"
| "deleteFromIndices ((name, f) # ixs) obj key ind =
     bind_outcome (run_index f obj) (\<lambda>vals.
       deleteFromIndices ixs obj key (ind(name :=
         fold (\<lambda>v ix. ix(v := removeAll key (ix v))) vals (ind name))))"

fun insertIntoIndices ::
    "'a indexers \<Rightarrow> 'a \<Rightarrow> string \<Rightarrow> indices \<Rightarrow> indices outcome" where
  "insertIntoIndices [] obj key ind = Return ind"
| "insertIntoIndices ((name, f) # ixs) obj key ind =
     bind_outcome (run_index f obj) (\<lambda>vals.
       insertIntoIndices ixs obj key (ind(name :=
         fold (\<lambda>v ix. ix(v := insort_insert key (ix v))) vals (ind name))))"

definition updateIndices ::
    "'a indexers \<Rightarrow> 'a option \<Rightarrow> 'a \<Rightarrow> string \<Rightarrow> indices \<Rightarrow> indices outcome" where
  "updateIndices ixs oldObj newObj key ind =
     bind_outcome
       (case oldObj of None \<Rightarrow> Return ind | Some old \<Rightarrow> deleteFromIndices ixs old key ind)
       (insertIntoIndices ixs newObj key)"

definition tsm_Add :: "string \<Rightarrow> 'a \<Rightarrow> 'a thread_safe_map \<Rightarrow> 'a thread_safe_map outcome" where
  "tsm_Add key obj c =
     (let oldObject = map_of (ts_items c) key in
      bind_outcome (updateIndices (ts_indexers c) oldObject obj key (ts_indices c)) (\<lambda>ind.
        Return (c\<lparr>ts_items := AList.update key obj (ts_items c), ts_indices := ind\<rparr>)))"

definition tsm_Update :: "string \<Rightarrow> 'a \<Rightarrow> 'a thread_safe_map \<Rightarrow> 'a thread_safe_map outcome" where
  "tsm_Update key obj c =
     (let oldObject = map_of (ts_items c) key in
      bind_outcome (updateIndices (ts_indexers c) oldObject obj key (ts_indices c)) (\<lambda>ind.
        Return (c\<lparr>ts_items := AList.update key obj (ts_items c), ts_indices := ind\<rparr>)))"

definition tsm_Delete :: "string \<Rightarrow> 'a thread_safe_map \<Rightarrow> 'a thread_safe_map outcome" where
  "tsm_Delete key c =
     (case map_of (ts_items c) key of
        None \<Rightarrow> Return c
      | Some obj \<Rightarrow>
          bind_outcome (deleteFromIndices (ts_indexers c) obj key (ts_indices c)) (\<lambda>ind.
            Return (c\<lparr>ts_items := AList.delete key (ts_items c), ts_indices := ind\<rparr>)))"

fun rebuildIndices ::
    "'a indexers \<Rightarrow> (string \<times> 'a) list \<Rightarrow> indices \<Rightarrow> indices outcome" where
  "rebuildIndices ixs [] ind = Return ind"
| "rebuildIndices ixs ((key, item) # items) ind =
     bind_outcome (updateIndices ixs None item key ind) (rebuildIndices ixs items)"

definition tsm_Replace ::
    "(string \<times> 'a) list \<Rightarrow> 'a thread_safe_map \<Rightarrow> 'a thread_safe_map outcome" where
  "tsm_Replace items c =
     bind_outcome (rebuildIndices (ts_indexers c) items (\<lambda>_ _. [])) (\<lambda>ind.
       Return (c\<lparr>ts_items := items, ts_indices := ind\<rparr>))"

definition tsm_Get :: "string \<Rightarrow> 'a thread_safe_map \<Rightarrow> 'a option" where
  "tsm_Get key c = map_of (ts_items c) key"

definition tsm_List :: "'a thread_safe_map \<Rightarrow> 'a list" where
  "tsm_List c = map snd (ts_items c)"

definition tsm_ByIndex ::
    "string \<Rightarrow> string \<Rightarrow> 'a thread_safe_map \<Rightarrow> go_error + 'a option list" where
  "tsm_ByIndex indexName indexKey c =
     (case map_of (ts_indexers c) indexName of
        None \<Rightarrow> Inl (Errorf ''Index with name %s does not exist'' [indexName])
      | Some _ \<Rightarrow> Inr (map (map_of (ts_items c)) (ts_indices c indexName indexKey)))"

definition tsm_AddIndexers ::
    "'a indexers \<Rightarrow> 'a thread_safe_map \<Rightarrow> go_error option \<times> 'a thread_safe_map" where
  "tsm_AddIndexers newIndexers c =
     (if 0 < length (ts_items c)
        then (Some (Errorf ''cannot add indexers to running index'' []), c)
      else if list_ex (\<lambda>k. k \<in> set (map fst (ts_indexers c))) (map fst newIndexers)
        then (Some (Errorf ''indexer conflict: %v'' []), c)
      else (None, c\<lparr>ts_indexers := ts_indexers c @ newIndexers\<rparr>))"

section \<open>The contract of an indexer\<close>

locale indexer =
  fixes add :: "string \<Rightarrow> 'a \<Rightarrow> 's \<Rightarrow> 's outcome"
    and delete :: "string \<Rightarrow> 's \<Rightarrow> 's outcome"
    and replace :: "(string \<times> 'a) list \<Rightarrow> 's \<Rightarrow> 's outcome"
    and by_index :: "string \<Rightarrow> string \<Rightarrow> 's \<Rightarrow> go_error + 'a option list"
    and items :: "'s \<Rightarrow> string \<Rightarrow> 'a option"
    and index_fn :: "'s \<Rightarrow> string \<Rightarrow> 'a index_func option"
    and inv :: "'s \<Rightarrow> bool"
  assumes add_law:
      "inv s \<Longrightarrow> \<exists>s'. add k x s = Return s' \<and> inv s' \<and> items s' = (items s)(k \<mapsto> x)
         \<and> index_fn s' = index_fn s"
    and delete_law:
      "inv s \<Longrightarrow> \<exists>s'. delete k s = Return s' \<and> inv s' \<and> items s' = (items s)(k := None)
         \<and> index_fn s' = index_fn s"
    and replace_law:
      "inv s \<Longrightarrow> distinct (map fst kxs) \<Longrightarrow>
         \<exists>s'. replace kxs s = Return s' \<and> inv s' \<and> items s' = map_of kxs \<and> index_fn s' = index_fn s"
    and by_index_law:
      "inv s \<Longrightarrow> index_fn s name = Some f \<Longrightarrow>
         \<exists>ks. by_index name v s = Inr (map (items s) ks) \<and> sorted ks \<and> distinct ks
           \<and> (\<forall>k. k \<in> set ks \<longleftrightarrow> (\<exists>x. items s k = Some x \<and> v \<in> set (fst (f x))))"
    and by_index_unknown:
      "inv s \<Longrightarrow> index_fn s name = None \<Longrightarrow> \<exists>e. by_index name v s = Inl e"
begin

lemma by_index_members:
  assumes "inv s" "index_fn s name = Some f" "by_index name v s = Inr objs"
  shows "None \<notin> set objs"
    "Some x \<in> set objs \<longleftrightarrow> (\<exists>k. items s k = Some x \<and> v \<in> set (fst (f x)))"
proof -
  from by_index_law [OF assms(1,2), of v] obtain ks where
    objs: "objs = map (items s) ks"
    and ks: "\<forall>k. k \<in> set ks \<longleftrightarrow> (\<exists>x. items s k = Some x \<and> v \<in> set (fst (f x)))"
    using assms(3) by auto
  show "None \<notin> set objs" using objs ks by force
  show "Some x \<in> set objs \<longleftrightarrow> (\<exists>k. items s k = Some x \<and> v \<in> set (fst (f x)))"
    using objs ks by (force simp: image_iff)
qed

text \<open>No answer, one answer, several answers: what the length of the result says.\<close>

lemma by_index_none:
  assumes "inv s" "index_fn s name = Some f"
  shows "by_index name v s = Inr [] \<longleftrightarrow> (\<forall>k x. items s k = Some x \<longrightarrow> v \<notin> set (fst (f x)))"
proof -
  from by_index_law [OF assms, of v] obtain ks where
    "by_index name v s = Inr (map (items s) ks)"
    and ks: "\<forall>k. k \<in> set ks \<longleftrightarrow> (\<exists>x. items s k = Some x \<and> v \<in> set (fst (f x)))" by auto
  then have "by_index name v s = Inr [] \<longleftrightarrow> set ks = {}" by simp
  also have "\<dots> \<longleftrightarrow> (\<forall>k. k \<notin> set ks)" by (simp only: all_not_in_conv)
  finally show ?thesis using ks by simp
qed

lemma by_index_one:
  assumes "inv s" "index_fn s name = Some f"
  shows "by_index name v s = Inr [Some x] \<longleftrightarrow>
    (\<exists>k. items s k = Some x \<and> v \<in> set (fst (f x))
       \<and> (\<forall>k' x'. items s k' = Some x' \<and> v \<in> set (fst (f x')) \<longrightarrow> k' = k))"
proof -
  from by_index_law [OF assms, of v] obtain ks where
    ks: "by_index name v s = Inr (map (items s) ks)" "distinct ks"
    "\<forall>k. k \<in> set ks \<longleftrightarrow> (\<exists>x. items s k = Some x \<and> v \<in> set (fst (f x)))" by auto
  show ?thesis
  proof
    assume "by_index name v s = Inr [Some x]"
    with ks(1) obtain k where k: "ks = [k]" "items s k = Some x"
      by (cases ks) auto
    have mem: "\<And>k'. k' = k \<longleftrightarrow> (\<exists>x. items s k' = Some x \<and> v \<in> set (fst (f x)))"
      using ks(3) by (simp add: k(1))
    from mem [of k] k(2) have "v \<in> set (fst (f x))" by simp
    moreover have "\<forall>k' x'. items s k' = Some x' \<and> v \<in> set (fst (f x')) \<longrightarrow> k' = k"
      using mem by blast
    ultimately show "\<exists>k. items s k = Some x \<and> v \<in> set (fst (f x))
       \<and> (\<forall>k' x'. items s k' = Some x' \<and> v \<in> set (fst (f x')) \<longrightarrow> k' = k)"
      using k(2) by blast
  next
    assume "\<exists>k. items s k = Some x \<and> v \<in> set (fst (f x))
       \<and> (\<forall>k' x'. items s k' = Some x' \<and> v \<in> set (fst (f x')) \<longrightarrow> k' = k)"
    then obtain k where k: "items s k = Some x" "v \<in> set (fst (f x))"
      "\<forall>k' x'. items s k' = Some x' \<and> v \<in> set (fst (f x')) \<longrightarrow> k' = k" by blast
    have only: "k' = k" if "k' \<in> set ks" for k'
      using ks(3) [rule_format, THEN iffD1, OF that] k(3) by blast
    have "k \<in> set ks"
      using k(1,2) by (intro ks(3) [rule_format, THEN iffD2]) blast
    with only have ks_k: "set ks = {k}" by blast
    with distinct_card [OF ks(2)] have "length ks = 1" by simp
    then obtain k' where "ks = [k']" by (cases ks) auto
    with ks_k have "ks = [k]" by simp
    with ks(1) k(1) show "by_index name v s = Inr [Some x]" by simp
  qed
qed

lemma by_index_cases:
  assumes "inv s" "index_fn s name = Some f"
  obtains (none) "by_index name v s = Inr []"
      "\<And>k x. items s k = Some x \<Longrightarrow> v \<notin> set (fst (f x))"
    | (one) k x where "by_index name v s = Inr [Some x]" "items s k = Some x" "v \<in> set (fst (f x))"
      "\<And>k' x'. items s k' = Some x' \<Longrightarrow> v \<in> set (fst (f x')) \<Longrightarrow> k' = k"
    | (many) objs k x k' x' where "by_index name v s = Inr objs" "1 < length objs" "k \<noteq> k'"
      "items s k = Some x" "v \<in> set (fst (f x))" "items s k' = Some x'" "v \<in> set (fst (f x'))"
proof -
  from by_index_law [OF assms, of v] obtain ks where
    ks: "by_index name v s = Inr (map (items s) ks)" "distinct ks"
    "\<forall>k. k \<in> set ks \<longleftrightarrow> (\<exists>x. items s k = Some x \<and> v \<in> set (fst (f x)))" by auto
  consider "ks = []" | k where "ks = [k]" | k k' rest where "ks = k # k' # rest"
    by (cases ks; cases "tl ks") auto
  then show thesis
  proof cases
    case 1
    with ks show thesis by (intro none) auto
  next
    case (2 k)
    then obtain x where "items s k = Some x" "v \<in> set (fst (f x))" using ks(3) by auto
    with 2 ks show thesis by (intro one) auto
  next
    case (3 k k' rest)
    then have "k \<in> set ks" "k' \<in> set ks" "k \<noteq> k'" using ks(2) by auto
    then obtain x x' where "items s k = Some x" "v \<in> set (fst (f x))"
      "items s k' = Some x'" "v \<in> set (fst (f x'))" using ks(3) by blast
    with 3 ks(1) \<open>k \<noteq> k'\<close> show thesis by (intro many [of "map (items s) ks" k k' x x']) simp_all
  qed
qed

end

section \<open>threadSafeMap is an indexer\<close>

definition pure_index :: "'a index_func \<Rightarrow> bool" where
  "pure_index f \<longleftrightarrow> (\<forall>x. snd (f x) = None)"

definition indices_ok :: "'a indexers \<Rightarrow> (string \<rightharpoonup> 'a) \<Rightarrow> indices \<Rightarrow> bool" where
  "indices_ok ixs its ind \<longleftrightarrow>
     (\<forall>name f v. map_of ixs name = Some f \<longrightarrow>
        sorted (ind name v) \<and> distinct (ind name v)
        \<and> (\<forall>k. k \<in> set (ind name v) \<longleftrightarrow> (\<exists>x. its k = Some x \<and> v \<in> set (fst (f x)))))"

definition tsm_ok :: "'a thread_safe_map \<Rightarrow> bool" where
  "tsm_ok c \<longleftrightarrow>
     distinct (map fst (ts_items c)) \<and> distinct (map fst (ts_indexers c))
     \<and> (\<forall>(name, f) \<in> set (ts_indexers c). pure_index f)
     \<and> indices_ok (ts_indexers c) (map_of (ts_items c)) (ts_indices c)"

lemma run_index_pure: "pure_index f \<Longrightarrow> run_index f x = Return (fst (f x))"
  by (cases "f x") (auto simp: run_index_def pure_index_def dest: spec [of _ x])

lemma fold_upd_idem:
  assumes "\<And>x. g (g x) = g x"
  shows "fold (\<lambda>v ix. ix(v := g (ix v))) vs ix = (\<lambda>v. if v \<in> set vs then g (ix v) else ix v)"
  by (induction vs arbitrary: ix) (auto simp: fun_eq_iff assms)

lemma insort_insert_idem: "insort_insert k (insort_insert k xs) = insort_insert k xs"
  by (simp add: insort_insert_insort_key insort_insert_key_def set_insort_key)

lemma fold_removeAll:
  "fold (\<lambda>v ix. ix(v := removeAll k (ix v))) vs ix =
     (\<lambda>v. if v \<in> set vs then removeAll k (ix v) else ix v)"
  by (rule fold_upd_idem) (simp add: removeAll_filter_not_eq)

lemma fold_insort_insert:
  fixes ix :: "string \<Rightarrow> string list"
  shows "fold (\<lambda>v ix. ix(v := insort_insert k (ix v))) vs ix =
     (\<lambda>v. if v \<in> set vs then insort_insert k (ix v) else ix v)"
  by (rule fold_upd_idem) (rule insort_insert_idem)

lemma deleteFromIndices_eq:
  assumes "distinct (map fst ixs)" "\<forall>(name, f) \<in> set ixs. pure_index f"
  shows "deleteFromIndices ixs x k ind =
    Return (\<lambda>name v. case map_of ixs name of None \<Rightarrow> ind name v
       | Some f \<Rightarrow> if v \<in> set (fst (f x)) then removeAll k (ind name v) else ind name v)"
  using assms
proof (induction ixs arbitrary: ind)
  case (Cons p ixs)
  obtain name f where p: "p = (name, f)" by (cases p)
  from Cons.prems p have "map_of ixs name = None" by (simp add: map_of_eq_None_iff)
  with Cons p show ?case
    by (auto simp: run_index_pure fold_removeAll fun_eq_iff split: option.splits)
qed simp

lemma insertIntoIndices_eq:
  assumes "distinct (map fst ixs)" "\<forall>(name, f) \<in> set ixs. pure_index f"
  shows "insertIntoIndices ixs x k ind =
    Return (\<lambda>name v. case map_of ixs name of None \<Rightarrow> ind name v
       | Some f \<Rightarrow> if v \<in> set (fst (f x)) then insort_insert k (ind name v) else ind name v)"
  using assms
proof (induction ixs arbitrary: ind)
  case (Cons p ixs)
  obtain name f where p: "p = (name, f)" by (cases p)
  from Cons.prems p have "map_of ixs name = None" by (simp add: map_of_eq_None_iff)
  with Cons p show ?case
    by (auto simp: run_index_pure fold_insort_insert fun_eq_iff split: option.splits)
qed simp

lemma sorted_removeAll: "sorted xs \<Longrightarrow> sorted (removeAll k xs)"
  by (simp add: removeAll_filter_not_eq sorted_wrt_filter)

lemma indices_ok_delete:
  assumes "distinct (map fst ixs)" "\<forall>(name, f) \<in> set ixs. pure_index f"
    and "indices_ok ixs its ind" "its k = Some x"
  shows "\<exists>ind'. deleteFromIndices ixs x k ind = Return ind' \<and> indices_ok ixs (its(k := None)) ind'"
  unfolding deleteFromIndices_eq [OF assms(1,2)]
  using assms(3,4) by (auto simp: indices_ok_def sorted_removeAll distinct_removeAll)

lemma indices_ok_insert:
  assumes "distinct (map fst ixs)" "\<forall>(name, f) \<in> set ixs. pure_index f"
    and "indices_ok ixs its ind" "its k = None"
  shows "\<exists>ind'. insertIntoIndices ixs x k ind = Return ind' \<and> indices_ok ixs (its(k \<mapsto> x)) ind'"
  unfolding insertIntoIndices_eq [OF assms(1,2)]
  using assms(3,4)
  by (auto simp: indices_ok_def sorted_insort_insert distinct_insort_insert set_insort_insert)

lemma indices_ok_update:
  assumes "distinct (map fst ixs)" "\<forall>(name, f) \<in> set ixs. pure_index f" "indices_ok ixs its ind"
  shows "\<exists>ind'. updateIndices ixs (its k) x k ind = Return ind' \<and> indices_ok ixs (its(k \<mapsto> x)) ind'"
proof (cases "its k")
  case None
  with indices_ok_insert [OF assms None] show ?thesis by (simp add: updateIndices_def)
next
  case (Some old)
  from indices_ok_delete [OF assms Some] obtain ind1
    where "deleteFromIndices ixs old k ind = Return ind1" "indices_ok ixs (its(k := None)) ind1" by blast
  moreover have "(its(k := None)) k = None" by simp
  ultimately show ?thesis
    using indices_ok_insert [OF assms(1,2), of "its(k := None)" ind1 k x] Some
    by (simp add: updateIndices_def)
qed

lemma indices_ok_rebuild:
  assumes "distinct (map fst ixs)" "\<forall>(name, f) \<in> set ixs. pure_index f"
    and "indices_ok ixs its ind" "distinct (map fst kxs)" "\<forall>k \<in> fst ` set kxs. its k = None"
  shows "\<exists>ind'. rebuildIndices ixs kxs ind = Return ind' \<and> indices_ok ixs (its ++ map_of kxs) ind'"
  using assms(3-)
proof (induction kxs arbitrary: its ind)
  case (Cons p kxs)
  obtain k x where p: "p = (k, x)" by (cases p)
  have none: "its k = None" using Cons.prems(3) p by simp
  from indices_ok_update [OF assms(1,2) Cons.prems(1), of k x] obtain ind1
    where ind1: "updateIndices ixs None x k ind = Return ind1" "indices_ok ixs (its(k \<mapsto> x)) ind1"
    unfolding none by blast
  have fresh: "\<forall>k' \<in> fst ` set kxs. (its(k \<mapsto> x)) k' = None"
    using Cons.prems(2,3) p by auto
  have "distinct (map fst kxs)" using Cons.prems(2) by simp
  from Cons.IH [OF ind1(2) this fresh] obtain ind'
    where "rebuildIndices ixs kxs ind1 = Return ind'"
      "indices_ok ixs (its(k \<mapsto> x) ++ map_of kxs) ind'" by blast
  moreover have "its(k \<mapsto> x) ++ map_of kxs = its ++ map_of (p # kxs)"
    using Cons.prems(2) p by (simp add: map_add_upd_left dom_map_of_conv_image_fst)
  ultimately show ?case using ind1(1) p by (metis bind_outcome.simps(1) rebuildIndices.simps(2))
qed simp

lemma tsm_ok_init:
  "distinct (map fst ixs) \<Longrightarrow> \<forall>(name, f) \<in> set ixs. pure_index f \<Longrightarrow> tsm_ok (NewThreadSafeStore ixs)"
  by (auto simp: tsm_ok_def NewThreadSafeStore_def indices_ok_def)

interpretation tsm: indexer tsm_Add tsm_Delete tsm_Replace tsm_ByIndex
  "\<lambda>c. map_of (ts_items c)" "\<lambda>c. map_of (ts_indexers c)" tsm_ok
proof (unfold_locales, goal_cases)
  case (1 c k x)
  then have ok: "distinct (map fst (ts_indexers c))"
    "\<forall>(name, f) \<in> set (ts_indexers c). pure_index f"
    "indices_ok (ts_indexers c) (map_of (ts_items c)) (ts_indices c)"
    by (auto simp: tsm_ok_def)
  from indices_ok_update [OF ok, of k x] 1 show ?case
    by (auto simp: tsm_Add_def tsm_ok_def update_conv' distinct_update Let_def)
next
  case (2 c k)
  then have ok: "distinct (map fst (ts_indexers c))"
    "\<forall>(name, f) \<in> set (ts_indexers c). pure_index f"
    "indices_ok (ts_indexers c) (map_of (ts_items c)) (ts_indices c)"
    by (auto simp: tsm_ok_def)
  show ?case
  proof (cases "map_of (ts_items c) k")
    case None
    then have "(map_of (ts_items c))(k := None) = map_of (ts_items c)" by (rule fun_upd_idem)
    with None 2 show ?thesis by (simp add: tsm_Delete_def)
  next
    case (Some x)
    from indices_ok_delete [OF ok Some] 2 Some show ?thesis
      by (auto simp: tsm_Delete_def tsm_ok_def delete_conv' distinct_delete)
  qed
next
  case (3 c kxs)
  then have ok: "distinct (map fst (ts_indexers c))"
    "\<forall>(name, f) \<in> set (ts_indexers c). pure_index f"
    by (auto simp: tsm_ok_def)
  have "indices_ok (ts_indexers c) Map.empty (\<lambda>_ _. [])" by (simp add: indices_ok_def)
  from indices_ok_rebuild [OF ok this 3(2)] 3 show ?case
    by (auto simp: tsm_Replace_def tsm_ok_def)
next
  case (4 c name f v)
  then show ?case
    by (intro exI [of _ "ts_indices c name v"])
      (auto simp: tsm_ByIndex_def tsm_ok_def indices_ok_def)
next
  case (5 c name v)
  then show ?case by (simp add: tsm_ByIndex_def)
qed

lemma tsm_Update_Add: "tsm_Update k x c = tsm_Add k x c"
  by (simp add: tsm_Update_def tsm_Add_def)

end
