(* ===== verification/Cube_Types.thy ===== *)
theory Cube_Types
  imports Cube_Meta
begin

text \<open>
  The server's own resources (\<open>k8s/pkg/apis/cube/v1alpha1\<close>): users, principals, tokens and
  infrastructures, each with its embedded \<open>ObjectMeta\<close>.  Field names carry the prefix of their
  struct.  The zero value of each struct is a constant; a composite literal of the source is an
  update of the zero value by the fields it names.
\<close>

record user =
  u_meta :: object_meta
  u_DisplayName :: string
  u_Description :: string
  u_Username :: string
  u_Password :: string
  u_MustChangePassword :: bool
  u_PrincipalIDs :: "string list"
  u_Me :: bool

definition zero_user :: user where
  "zero_user = \<lparr>u_meta = zero_meta, u_DisplayName = [], u_Description = [], u_Username = [],
     u_Password = [], u_MustChangePassword = False, u_PrincipalIDs = [], u_Me = False\<rparr>"

record principal =
  p_meta :: object_meta
  p_DisplayName :: string
  p_LoginName :: string
  p_ProfilePicture :: string
  p_ProfileURL :: string
  p_PrincipalType :: string
  p_Me :: bool
  p_MemberOf :: bool
  p_Provider :: string
  p_ExtraInfo :: string_map

definition zero_principal :: principal where
  "zero_principal = \<lparr>p_meta = zero_meta, p_DisplayName = [], p_LoginName = [],
     p_ProfilePicture = [], p_ProfileURL = [], p_PrincipalType = [], p_Me = False,
     p_MemberOf = False, p_Provider = [], p_ExtraInfo = []\<rparr>"

record token =
  t_meta :: object_meta
  t_Kind :: string
  t_APIVersion :: string
  t_Token :: string
  t_UserPrincipal :: principal
  t_GroupPrincipals :: "principal list"
  t_ProviderInfo :: string_map
  t_UserID :: string
  t_AuthProvider :: string
  t_TTLMillis :: int64
  t_LastUpdateTime :: string
  t_IsDerived :: bool
  t_Description :: string
  t_Expired :: bool
  t_ExpiresAt :: string

definition zero_token :: token where
  "zero_token = \<lparr>t_meta = zero_meta, t_Kind = [], t_APIVersion = [], t_Token = [],
     t_UserPrincipal = zero_principal,
     t_GroupPrincipals = [], t_ProviderInfo = [], t_UserID = [], t_AuthProvider = [],
     t_TTLMillis = 0, t_LastUpdateTime = [], t_IsDerived = False, t_Description = [],
     t_Expired = False, t_ExpiresAt = []\<rparr>"

record infra_images =
  im_Dashboard :: string
  im_LonghornManager :: string
  im_LonghornEngine :: string
  im_LonghornFlexvolumeDriver :: string
  im_LonghornUI :: string
  im_RancherVM :: string
  im_RancherVMFrontend :: string

definition zero_images :: infra_images where
  "zero_images = \<lparr>im_Dashboard = [], im_LonghornManager = [], im_LonghornEngine = [],
     im_LonghornFlexvolumeDriver = [], im_LonghornUI = [], im_RancherVM = [],
     im_RancherVMFrontend = []\<rparr>"

record infra_spec =
  is_DisplayName :: string
  is_Description :: string
  is_Icon :: string
  is_Replicas :: "int32 option"
  is_InfraKind :: string
  is_Images :: infra_images

record infra_status =
  st_State :: string
  st_AvailableReplicas :: int32
  st_Message :: string

record infrastructure =
  i_meta :: object_meta
  i_Spec :: infra_spec
  i_Status :: infra_status

definition zero_infra :: infrastructure where
  "zero_infra = \<lparr>i_meta = zero_meta,
     i_Spec = \<lparr>is_DisplayName = [], is_Description = [], is_Icon = [], is_Replicas = None,
       is_InfraKind = [], is_Images = zero_images\<rparr>,
     i_Status = \<lparr>st_State = [], st_AvailableReplicas = 0, st_Message = []\<rparr>\<rparr>"

lemmas zero_type_defs = zero_user_def zero_principal_def zero_token_def zero_images_def zero_infra_def

lemma zero_type_metas [simp]:
  "u_meta zero_user = zero_meta" "p_meta zero_principal = zero_meta"
  "t_meta zero_token = zero_meta" "i_meta zero_infra = zero_meta"
  by (simp_all add: zero_type_defs)

text \<open>The kinds of the group that the server registers and never stores.\<close>

record group =
  g_meta :: object_meta
  g_DisplayName :: string

record group_member =
  gm_meta :: object_meta
  gm_GroupName :: string
  gm_PrincipalID :: string

record auth_config =
  ac_meta :: object_meta
  ac_Type :: string
  ac_Enabled :: bool
  ac_AccessMode :: string
  ac_AllowedPrincipalIDs :: "string list"

record local_config =
  lc_meta :: object_meta
  lc_AuthConfig :: auth_config

definition zero_group :: group where
  "zero_group = \<lparr>g_meta = zero_meta, g_DisplayName = []\<rparr>"

definition zero_group_member :: group_member where
  "zero_group_member = \<lparr>gm_meta = zero_meta, gm_GroupName = [], gm_PrincipalID = []\<rparr>"

definition zero_local_config :: local_config where
  "zero_local_config = \<lparr>lc_meta = zero_meta, lc_AuthConfig =
     \<lparr>ac_meta = zero_meta, ac_Type = [], ac_Enabled = False, ac_AccessMode = [], ac_AllowedPrincipalIDs = []\<rparr>\<rparr>"

end
