(* ===== verification/Cube_K8s.thy ===== *)
theory Cube_K8s
  imports Cube_Types
begin

text \<open>
  The Kubernetes objects the server creates and reads, with the fields it sets or inspects (every
  other field of these structs keeps its zero value in the program).  \<open>k8s_obj\<close> is the interface
  type \<open>runtime.Object\<close>: its constructors are the dynamic types a stored object can have.
\<close>

section \<open>Access control\<close>

record policy_rule =
  pr_APIGroups :: "string list"
  pr_Resources :: "string list"
  pr_Verbs :: "string list"
  pr_ResourceNames :: "string list"

record role_ref =
  rr_APIGroup :: string
  rr_Kind :: string
  rr_Name :: string

record subject =
  sj_Kind :: string
  sj_APIGroup :: string
  sj_Name :: string
  sj_Namespace :: string

record role =
  ro_meta :: object_meta
  ro_Rules :: "policy_rule list"

record role_binding =
  rb_meta :: object_meta
  rb_RoleRef :: role_ref
  rb_Subjects :: "subject list"

definition zero_role :: role where
  "zero_role = \<lparr>ro_meta = zero_meta, ro_Rules = []\<rparr>"

definition zero_role_binding :: role_binding where
  "zero_role_binding = \<lparr>rb_meta = zero_meta,
     rb_RoleRef = \<lparr>rr_APIGroup = [], rr_Kind = [], rr_Name = []\<rparr>, rb_Subjects = []\<rparr>"

section \<open>Configuration, accounts and services\<close>

record secret =
  se_meta :: object_meta
  se_Type :: string
  se_Data :: string_map

record service_account =
  sa_meta :: object_meta

record config_map =
  cm_meta :: object_meta
  cm_Data :: string_map

record namespace =
  ns_meta :: object_meta

record service_port =
  sp_Name :: string
  sp_Port :: int32
  sp_TargetPort :: int32
  sp_NodePort :: int32

record service =
  sv_meta :: object_meta
  sv_Ports :: "service_port list"
  sv_Selector :: string_map
  sv_Type :: string

definition zero_config_map :: config_map where
  "zero_config_map = \<lparr>cm_meta = zero_meta, cm_Data = []\<rparr>"

definition zero_port :: service_port where
  "zero_port = \<lparr>sp_Name = [], sp_Port = 0, sp_TargetPort = 0, sp_NodePort = 0\<rparr>"

definition zero_service :: service where
  "zero_service = \<lparr>sv_meta = zero_meta, sv_Ports = [], sv_Selector = [], sv_Type = []\<rparr>"

section \<open>Pods and workloads\<close>

text \<open>
  A \<open>resource.Quantity\<close> is its exact value, counted in units of one thousand-millionth, the finest
  scale the API accepts; its cached text is left out.
\<close>

datatype quantity = Quantity (nanos: int)

type_synonym resource_list = "string \<rightharpoonup> quantity"

record env_var =
  ev_Name :: string
  ev_Value :: string
  ev_FieldPath :: "string option"

record volume_mount =
  vm_Name :: string
  vm_MountPath :: string

record container_port =
  cp_ContainerPort :: int32
  cp_Protocol :: string

record http_probe =
  hp_Scheme :: string
  hp_Path :: string
  hp_Port :: int32
  hp_InitialDelaySeconds :: int32
  hp_TimeoutSeconds :: int32

record container =
  co_Name :: string
  co_Image :: string
  co_ImagePullPolicy :: string
  co_Privileged :: "bool option"
  co_Command :: "string list"
  co_Args :: "string list"
  co_Ports :: "container_port list"
  co_Env :: "env_var list"
  co_VolumeMounts :: "volume_mount list"
  co_LivenessProbe :: "http_probe option"
  co_Requests :: resource_list
  co_Limits :: resource_list

definition zero_container :: container where
  "zero_container = \<lparr>co_Name = [], co_Image = [], co_ImagePullPolicy = [], co_Privileged = None,
     co_Command = [], co_Args = [], co_Ports = [], co_Env = [], co_VolumeMounts = [],
     co_LivenessProbe = None, co_Requests = Map.empty, co_Limits = Map.empty\<rparr>"

datatype volume_source = SecretVolumeSource string | EmptyDir | HostPath string

record volume =
  vo_Name :: string
  vo_Source :: volume_source

record toleration =
  to_Key :: string
  to_Effect :: string

record selector_requirement =
  sr_Key :: string
  sr_Operator :: string
  sr_Values :: "string list"

record label_selector =
  ls_MatchLabels :: string_map
  ls_MatchExpressions :: "selector_requirement list"

record pod_affinity_term =
  pa_LabelSelector :: label_selector
  pa_TopologyKey :: string

record pod_spec =
  ps_Containers :: "container list"
  ps_InitContainers :: "container list"
  ps_Volumes :: "volume list"
  ps_ServiceAccountName :: string
  ps_Tolerations :: "toleration list"
  ps_PodAntiAffinity :: "pod_affinity_term list"
  ps_HostNetwork :: bool
  ps_NodeName :: string

definition zero_pod_spec :: pod_spec where
  "zero_pod_spec = \<lparr>ps_Containers = [], ps_InitContainers = [], ps_Volumes = [],
     ps_ServiceAccountName = [], ps_Tolerations = [], ps_PodAntiAffinity = [],
     ps_HostNetwork = False, ps_NodeName = []\<rparr>"

record pod_template =
  pt_meta :: object_meta
  pt_Spec :: pod_spec

definition zero_pod_template :: pod_template where
  "zero_pod_template = \<lparr>pt_meta = zero_meta, pt_Spec = zero_pod_spec\<rparr>"

record deployment =
  de_meta :: object_meta
  de_Replicas :: "int32 option"
  de_RevisionHistoryLimit :: "int32 option"
  de_Selector :: "label_selector option"
  de_Template :: pod_template
  de_AvailableReplicas :: int32

definition zero_deployment :: deployment where
  "zero_deployment = \<lparr>de_meta = zero_meta, de_Replicas = None, de_RevisionHistoryLimit = None,
     de_Selector = None, de_Template = zero_pod_template, de_AvailableReplicas = 0\<rparr>"

record daemon_set =
  ds_meta :: object_meta
  ds_Selector :: "label_selector option"
  ds_Template :: pod_template

record pod =
  po_meta :: object_meta
  po_Spec :: pod_spec
  po_Phase :: string

record node_address =
  na_Type :: string
  na_Address :: string

record node =
  no_meta :: object_meta
  no_Capacity :: "resource_list option"
  no_Allocatable :: "resource_list option"
  no_Addresses :: "node_address list"

record crd =
  crd_meta :: object_meta
  crd_Group :: string
  crd_Version :: string
  crd_Scope :: string
  crd_Plural :: string
  crd_Singular :: string
  crd_ShortNames :: "string list"
  crd_Kind :: string
  crd_ListKind :: string

definition zero_crd :: crd where
  "zero_crd = \<lparr>crd_meta = zero_meta, crd_Group = [], crd_Version = [], crd_Scope = [],
     crd_Plural = [], crd_Singular = [], crd_ShortNames = [], crd_Kind = [], crd_ListKind = []\<rparr>"

section \<open>Objects\<close>

datatype k8s_obj =
    ObjNamespace namespace
  | ObjSecret secret
  | ObjServiceAccount service_account
  | ObjConfigMap config_map
  | ObjService service
  | ObjRole role
  | ObjRoleBinding role_binding
  | ObjClusterRole role
  | ObjClusterRoleBinding role_binding
  | ObjDeployment deployment
  | ObjDaemonSet daemon_set
  | ObjCRD crd
  | ObjUser user
  | ObjPrincipal principal
  | ObjToken token
  | ObjInfra infrastructure
  | ObjGroup group
  | ObjGroupMember group_member
  | ObjLocalConfig local_config

text \<open>\<open>meta.Accessor\<close>: every one of these types embeds an \<open>ObjectMeta\<close>.\<close>

fun obj_meta :: "k8s_obj \<Rightarrow> object_meta" where
  "obj_meta (ObjNamespace x) = ns_meta x"
| "obj_meta (ObjSecret x) = se_meta x"
| "obj_meta (ObjServiceAccount x) = sa_meta x"
| "obj_meta (ObjConfigMap x) = cm_meta x"
| "obj_meta (ObjService x) = sv_meta x"
| "obj_meta (ObjRole x) = ro_meta x"
| "obj_meta (ObjRoleBinding x) = rb_meta x"
| "obj_meta (ObjClusterRole x) = ro_meta x"
| "obj_meta (ObjClusterRoleBinding x) = rb_meta x"
| "obj_meta (ObjDeployment x) = de_meta x"
| "obj_meta (ObjDaemonSet x) = ds_meta x"
| "obj_meta (ObjCRD x) = crd_meta x"
| "obj_meta (ObjUser x) = u_meta x"
| "obj_meta (ObjPrincipal x) = p_meta x"
| "obj_meta (ObjToken x) = t_meta x"
| "obj_meta (ObjInfra x) = i_meta x"
| "obj_meta (ObjGroup x) = g_meta x"
| "obj_meta (ObjGroupMember x) = gm_meta x"
| "obj_meta (ObjLocalConfig x) = lc_meta x"

fun set_obj_meta :: "object_meta \<Rightarrow> k8s_obj \<Rightarrow> k8s_obj" where
  "set_obj_meta m (ObjNamespace x) = ObjNamespace (x\<lparr>ns_meta := m\<rparr>)"
| "set_obj_meta m (ObjSecret x) = ObjSecret (x\<lparr>se_meta := m\<rparr>)"
| "set_obj_meta m (ObjServiceAccount x) = ObjServiceAccount (x\<lparr>sa_meta := m\<rparr>)"
| "set_obj_meta m (ObjConfigMap x) = ObjConfigMap (x\<lparr>cm_meta := m\<rparr>)"
| "set_obj_meta m (ObjService x) = ObjService (x\<lparr>sv_meta := m\<rparr>)"
| "set_obj_meta m (ObjRole x) = ObjRole (x\<lparr>ro_meta := m\<rparr>)"
| "set_obj_meta m (ObjRoleBinding x) = ObjRoleBinding (x\<lparr>rb_meta := m\<rparr>)"
| "set_obj_meta m (ObjClusterRole x) = ObjClusterRole (x\<lparr>ro_meta := m\<rparr>)"
| "set_obj_meta m (ObjClusterRoleBinding x) = ObjClusterRoleBinding (x\<lparr>rb_meta := m\<rparr>)"
| "set_obj_meta m (ObjDeployment x) = ObjDeployment (x\<lparr>de_meta := m\<rparr>)"
| "set_obj_meta m (ObjDaemonSet x) = ObjDaemonSet (x\<lparr>ds_meta := m\<rparr>)"
| "set_obj_meta m (ObjCRD x) = ObjCRD (x\<lparr>crd_meta := m\<rparr>)"
| "set_obj_meta m (ObjUser x) = ObjUser (x\<lparr>u_meta := m\<rparr>)"
| "set_obj_meta m (ObjPrincipal x) = ObjPrincipal (x\<lparr>p_meta := m\<rparr>)"
| "set_obj_meta m (ObjToken x) = ObjToken (x\<lparr>t_meta := m\<rparr>)"
| "set_obj_meta m (ObjInfra x) = ObjInfra (x\<lparr>i_meta := m\<rparr>)"
| "set_obj_meta m (ObjGroup x) = ObjGroup (x\<lparr>g_meta := m\<rparr>)"
| "set_obj_meta m (ObjGroupMember x) = ObjGroupMember (x\<lparr>gm_meta := m\<rparr>)"
| "set_obj_meta m (ObjLocalConfig x) = ObjLocalConfig (x\<lparr>lc_meta := m\<rparr>)"

lemma obj_meta_set_obj_meta [simp]: "obj_meta (set_obj_meta m x) = m"
  by (cases x) auto

lemma set_obj_meta_self [simp]: "set_obj_meta (obj_meta x) x = x"
  by (cases x) auto

text \<open>
  The resources of the API: the path segment a typed client names, one per dynamic type.  Roles
  and cluster roles share a struct, and are told apart by the constructor of \<open>k8s_obj\<close>.
\<close>

datatype resource =
    RNamespaces | RSecrets | RServiceAccounts | RConfigMaps | RServices | RRoles | RRoleBindings
  | RClusterRoles | RClusterRoleBindings | RDeployments | RDaemonSets
  | RCustomResourceDefinitions | RUsers | RPrincipals | RTokens | RInfrastructures
  | RGroups | RGroupMembers | RLocalConfigs

fun obj_resource :: "k8s_obj \<Rightarrow> resource" where
  "obj_resource (ObjNamespace _) = RNamespaces"
| "obj_resource (ObjSecret _) = RSecrets"
| "obj_resource (ObjServiceAccount _) = RServiceAccounts"
| "obj_resource (ObjConfigMap _) = RConfigMaps"
| "obj_resource (ObjService _) = RServices"
| "obj_resource (ObjRole _) = RRoles"
| "obj_resource (ObjRoleBinding _) = RRoleBindings"
| "obj_resource (ObjClusterRole _) = RClusterRoles"
| "obj_resource (ObjClusterRoleBinding _) = RClusterRoleBindings"
| "obj_resource (ObjDeployment _) = RDeployments"
| "obj_resource (ObjDaemonSet _) = RDaemonSets"
| "obj_resource (ObjCRD _) = RCustomResourceDefinitions"
| "obj_resource (ObjUser _) = RUsers"
| "obj_resource (ObjPrincipal _) = RPrincipals"
| "obj_resource (ObjToken _) = RTokens"
| "obj_resource (ObjInfra _) = RInfrastructures"
| "obj_resource (ObjGroup _) = RGroups"
| "obj_resource (ObjGroupMember _) = RGroupMembers"
| "obj_resource (ObjLocalConfig _) = RLocalConfigs"

lemma obj_resource_set_obj_meta [simp]: "obj_resource (set_obj_meta m x) = obj_resource x"
  by (cases x) auto

definition namespaced :: "resource \<Rightarrow> bool" where
  "namespaced r \<longleftrightarrow>
     r \<notin> {RNamespaces, RClusterRoles, RClusterRoleBindings, RCustomResourceDefinitions}"

lemma namespaced_simps [simp]:
  "namespaced RSecrets" "namespaced RServiceAccounts" "namespaced RConfigMaps"
  "namespaced RServices" "namespaced RRoles" "namespaced RRoleBindings"
  "namespaced RDeployments" "namespaced RDaemonSets" "namespaced RUsers"
  "namespaced RPrincipals" "namespaced RTokens" "namespaced RInfrastructures"
  "namespaced RGroups" "namespaced RGroupMembers" "namespaced RLocalConfigs"
  "\<not> namespaced RNamespaces" "\<not> namespaced RClusterRoles"
  "\<not> namespaced RClusterRoleBindings" "\<not> namespaced RCustomResourceDefinitions"
  by (simp_all add: namespaced_def)

text \<open>Does the selector of a workload or a service pick the pods with these labels?\<close>

definition matches_labels :: "string_map \<Rightarrow> string_map \<Rightarrow> bool" where
  "matches_labels sel labels \<longleftrightarrow> (\<forall>(k, v) \<in> set sel. map_of labels k = Some v)"

end
