(* ===== verification/Cube_Api.thy ===== *)
theory Cube_Api
  imports Cube_K8s
begin

text \<open>
  The Kubernetes API server and the clients the program talks to it with.

  The server itself is a service: it is the argument \<open>srv\<close>, a record of its request operations over
  a state \<open>'w\<close> that the model never inspects.  Every request returns the next state, so other
  clients may act in between.  The client side (request checks of \<open>client-go/rest\<close>, the typed
  clients, which hand back a zero object together with an error) is modelled from the source.

  The contract of the server is the locale \<open>api_store\<close>; it is interpreted on the in-memory object
  tracker of \<open>client-go/testing/fixture.go\<close>, the server behind the generated fake clientset.
\<close>

record 'w api_server =
  api_get :: "resource \<Rightarrow> string \<Rightarrow> string \<Rightarrow> 'w \<Rightarrow> (go_error + k8s_obj) \<times> 'w"
  api_create :: "resource \<Rightarrow> string \<Rightarrow> k8s_obj \<Rightarrow> 'w \<Rightarrow> (go_error + k8s_obj) \<times> 'w"
  api_update :: "resource \<Rightarrow> string \<Rightarrow> k8s_obj \<Rightarrow> 'w \<Rightarrow> (go_error + k8s_obj) \<times> 'w"
  api_delete :: "resource \<Rightarrow> string \<Rightarrow> string \<Rightarrow> 'w \<Rightarrow> go_error option \<times> 'w"
  api_list :: "resource \<Rightarrow> string \<Rightarrow> string_map \<Rightarrow> 'w \<Rightarrow> (go_error + k8s_obj list) \<times> 'w"

section \<open>Request checks\<close>

datatype verb = GET | POST | PUT | DELETE

definition path_segment_ok :: "string \<Rightarrow> bool" where
  "path_segment_ok s \<longleftrightarrow>
     s \<noteq> ''.'' \<and> s \<noteq> ''..'' \<and> CHR ''/'' \<notin> set s \<and> CHR ''%'' \<notin> set s"

definition rest_error :: "verb \<Rightarrow> resource \<Rightarrow> string \<Rightarrow> string option \<Rightarrow> go_error option" where
  "rest_error v r ns name =
     (if namespaced r \<and> \<not> path_segment_ok ns then Some (Errorf ''invalid namespace %q: %v'' [ns])
      else if name = Some [] then Some (Errorf ''resource name may not be empty'' [])
      else if name \<noteq> None \<and> \<not> path_segment_ok (the name)
        then Some (Errorf ''invalid resource name %q: %v'' [the name])
      else if v \<noteq> POST \<and> namespaced r \<and> name \<noteq> None \<and> ns = []
        then Some (Errorf
          ''an empty namespace may not be set when a resource name is provided'' [])
      else if v = POST \<and> namespaced r \<and> ns = []
        then Some (Errorf ''an empty namespace may not be set during creation'' [])
      else None)"

lemma rest_error_POST [api_simps]:
  "rest_error POST r ns None = None \<longleftrightarrow> namespaced r \<longrightarrow> path_segment_ok ns \<and> ns \<noteq> []"
  by (simp add: rest_error_def)

lemma rest_error_named [api_simps]:
  "v \<noteq> POST \<Longrightarrow> rest_error v r ns (Some n) = None \<longleftrightarrow>
     n \<noteq> [] \<and> path_segment_ok n \<and> (namespaced r \<longrightarrow> path_segment_ok ns \<and> ns \<noteq> [])"
  by (auto simp: rest_error_def)

lemma rest_error_unnamed_GET [api_simps]:
  "rest_error GET r ns None = None \<longleftrightarrow> namespaced r \<longrightarrow> path_segment_ok ns"
  by (simp add: rest_error_def)

lemma rest_error_kind:
  "\<not> IsNotFound (rest_error v r ns n)" "\<not> IsAlreadyExists (rest_error v r ns n)"
  "\<not> IsConflict (rest_error v r ns n)"
  by (simp_all add: rest_error_def go_err)

definition client_get ::
    "'w api_server \<Rightarrow> resource \<Rightarrow> string \<Rightarrow> string \<Rightarrow> 'w \<Rightarrow> (go_error + k8s_obj) \<times> 'w" where
  "client_get srv r ns n w =
     (case rest_error GET r ns (Some n) of Some e \<Rightarrow> (Inl e, w) | None \<Rightarrow> api_get srv r ns n w)"

definition client_create ::
    "'w api_server \<Rightarrow> resource \<Rightarrow> string \<Rightarrow> k8s_obj \<Rightarrow> 'w \<Rightarrow> (go_error + k8s_obj) \<times> 'w" where
  "client_create srv r ns x w =
     (case rest_error POST r ns None of Some e \<Rightarrow> (Inl e, w) | None \<Rightarrow> api_create srv r ns x w)"

definition client_update ::
    "'w api_server \<Rightarrow> resource \<Rightarrow> string \<Rightarrow> k8s_obj \<Rightarrow> 'w \<Rightarrow> (go_error + k8s_obj) \<times> 'w" where
  "client_update srv r ns x w =
     (case rest_error PUT r ns (Some (om_Name (obj_meta x))) of
        Some e \<Rightarrow> (Inl e, w) | None \<Rightarrow> api_update srv r ns x w)"

definition client_delete ::
    "'w api_server \<Rightarrow> resource \<Rightarrow> string \<Rightarrow> string \<Rightarrow> 'w \<Rightarrow> go_error option \<times> 'w" where
  "client_delete srv r ns n w =
     (case rest_error DELETE r ns (Some n) of Some e \<Rightarrow> (Some e, w) | None \<Rightarrow> api_delete srv r ns n w)"

definition client_list ::
    "'w api_server \<Rightarrow> resource \<Rightarrow> string \<Rightarrow> string_map \<Rightarrow> 'w
       \<Rightarrow> (go_error + k8s_obj list) \<times> 'w" where
  "client_list srv r ns sel w =
     (case rest_error GET r ns None of Some e \<Rightarrow> (Inl e, w) | None \<Rightarrow> api_list srv r ns sel w)"

section \<open>Typed clients\<close>

text \<open>
  \<open>result = &T{}; err = \<dots>.Do().Into(result)\<close>: on an error the result stays the zero object (never
  \<open>nil\<close>); an answer of another type is not decoded into it either.
\<close>

definition into ::
    "'a \<Rightarrow> (k8s_obj \<Rightarrow> 'a option) \<Rightarrow> (go_error + k8s_obj) \<times> 'w \<Rightarrow> ('a \<times> go_error option) \<times> 'w" where
  "into zero sel res =
     (case res of
        (Inl e, w) \<Rightarrow> ((zero, Some e), w)
      | (Inr x, w) \<Rightarrow> ((case sel x of None \<Rightarrow> zero | Some y \<Rightarrow> y, None), w))"

lemma into_Inl [api_simps]: "into zero sel (Inl e, w) = ((zero, Some e), w)"
  by (simp add: into_def)

lemma into_Inr [api_simps]:
  "into zero sel (Inr x, w) = ((case sel x of None \<Rightarrow> zero | Some y \<Rightarrow> y, None), w)"
  by (simp add: into_def)

lemma into_err:
  "into zero sel res = ((y, err), w) \<Longrightarrow>
     (err = None \<longleftrightarrow> (\<exists>x. fst res = Inr x)) \<and> (err \<noteq> None \<longrightarrow> y = zero) \<and> w = snd res"
  by (auto simp: into_def split: sum.splits prod.splits)

fun as_user :: "k8s_obj \<Rightarrow> user option" where
  "as_user (ObjUser x) = Some x" | "as_user _ = None"

fun as_principal :: "k8s_obj \<Rightarrow> principal option" where
  "as_principal (ObjPrincipal x) = Some x" | "as_principal _ = None"

fun as_token :: "k8s_obj \<Rightarrow> token option" where
  "as_token (ObjToken x) = Some x" | "as_token _ = None"

fun as_infra :: "k8s_obj \<Rightarrow> infrastructure option" where
  "as_infra (ObjInfra x) = Some x" | "as_infra _ = None"

fun as_group :: "k8s_obj \<Rightarrow> group option" where
  "as_group (ObjGroup x) = Some x" | "as_group _ = None"

fun as_group_member :: "k8s_obj \<Rightarrow> group_member option" where
  "as_group_member (ObjGroupMember x) = Some x" | "as_group_member _ = None"

fun as_local_config :: "k8s_obj \<Rightarrow> local_config option" where
  "as_local_config (ObjLocalConfig x) = Some x" | "as_local_config _ = None"

fun as_deployment :: "k8s_obj \<Rightarrow> deployment option" where
  "as_deployment (ObjDeployment x) = Some x" | "as_deployment _ = None"

fun as_service :: "k8s_obj \<Rightarrow> service option" where
  "as_service (ObjService x) = Some x" | "as_service _ = None"

fun as_cluster_role :: "k8s_obj \<Rightarrow> role option" where
  "as_cluster_role (ObjClusterRole x) = Some x" | "as_cluster_role _ = None"

fun as_cluster_role_binding :: "k8s_obj \<Rightarrow> role_binding option" where
  "as_cluster_role_binding (ObjClusterRoleBinding x) = Some x"
| "as_cluster_role_binding _ = None"

fun as_config_map :: "k8s_obj \<Rightarrow> config_map option" where
  "as_config_map (ObjConfigMap x) = Some x" | "as_config_map _ = None"

definition Users_Get where
  "Users_Get srv ns n w = into zero_user as_user (client_get srv RUsers ns n w)"

definition Users_Create where
  "Users_Create srv ns x w = into zero_user as_user (client_create srv RUsers ns (ObjUser x) w)"

definition Users_Update where
  "Users_Update srv ns x w = into zero_user as_user (client_update srv RUsers ns (ObjUser x) w)"

definition Users_List where
  "Users_List srv ns sel w =
     (case client_list srv RUsers ns sel w of
        (Inl e, w') \<Rightarrow> (([], Some e), w')
      | (Inr xs, w') \<Rightarrow> ((List.map_filter as_user xs, None), w'))"

definition Principals_Create where
  "Principals_Create srv ns x w =
     into zero_principal as_principal (client_create srv RPrincipals ns (ObjPrincipal x) w)"

definition Principals_Update where
  "Principals_Update srv ns x w =
     into zero_principal as_principal (client_update srv RPrincipals ns (ObjPrincipal x) w)"

definition Tokens_Get where
  "Tokens_Get srv ns n w = into zero_token as_token (client_get srv RTokens ns n w)"

definition Tokens_Create where
  "Tokens_Create srv ns x w =
     into zero_token as_token (client_create srv RTokens ns (ObjToken x) w)"

definition Tokens_Update where
  "Tokens_Update srv ns x w =
     into zero_token as_token (client_update srv RTokens ns (ObjToken x) w)"

definition Tokens_Delete where
  "Tokens_Delete srv ns n w = client_delete srv RTokens ns n w"

definition Infrastructures_Get where
  "Infrastructures_Get srv ns n w =
     into zero_infra as_infra (client_get srv RInfrastructures ns n w)"

definition Infrastructures_Create where
  "Infrastructures_Create srv ns x w =
     into zero_infra as_infra (client_create srv RInfrastructures ns (ObjInfra x) w)"

definition Infrastructures_Update where
  "Infrastructures_Update srv ns x w =
     into zero_infra as_infra (client_update srv RInfrastructures ns (ObjInfra x) w)"

definition Infrastructures_Delete where
  "Infrastructures_Delete srv ns n w = client_delete srv RInfrastructures ns n w"

definition Infrastructures_List where
  "Infrastructures_List srv ns w =
     (case client_list srv RInfrastructures ns [] w of
        (Inl e, w') \<Rightarrow> (([], Some e), w')
      | (Inr xs, w') \<Rightarrow> ((List.map_filter as_infra xs, None), w'))"

definition Deployments_Create where
  "Deployments_Create srv ns x w =
     into zero_deployment as_deployment (client_create srv RDeployments ns (ObjDeployment x) w)"

definition Deployments_Update where
  "Deployments_Update srv ns x w =
     into zero_deployment as_deployment (client_update srv RDeployments ns (ObjDeployment x) w)"

definition ClusterRoles_Get where
  "ClusterRoles_Get srv n w = into zero_role as_cluster_role (client_get srv RClusterRoles [] n w)"

definition ClusterRoles_Create where
  "ClusterRoles_Create srv x w =
     into zero_role as_cluster_role (client_create srv RClusterRoles [] (ObjClusterRole x) w)"

definition ClusterRoleBindings_Get where
  "ClusterRoleBindings_Get srv n w =
     into zero_role_binding as_cluster_role_binding (client_get srv RClusterRoleBindings [] n w)"

definition ClusterRoleBindings_Create where
  "ClusterRoleBindings_Create srv x w =
     into zero_role_binding as_cluster_role_binding
       (client_create srv RClusterRoleBindings [] (ObjClusterRoleBinding x) w)"

definition ConfigMaps_Get where
  "ConfigMaps_Get srv ns n w =
     into zero_config_map as_config_map (client_get srv RConfigMaps ns n w)"

definition ConfigMaps_Create where
  "ConfigMaps_Create srv ns x w =
     into zero_config_map as_config_map (client_create srv RConfigMaps ns (ObjConfigMap x) w)"

lemmas typed_client_defs =
  Users_Get_def Users_Create_def Users_Update_def Principals_Create_def Principals_Update_def
  Tokens_Get_def Tokens_Create_def Tokens_Update_def Tokens_Delete_def Infrastructures_Get_def
  Infrastructures_Create_def Infrastructures_Update_def Infrastructures_Delete_def
  Deployments_Create_def Deployments_Update_def ClusterRoles_Get_def ClusterRoles_Create_def
  ClusterRoleBindings_Get_def ClusterRoleBindings_Create_def ConfigMaps_Get_def
  ConfigMaps_Create_def

text \<open>A request whose result the caller drops: only the error remains.\<close>

definition create_err ::
    "'w api_server \<Rightarrow> string \<Rightarrow> k8s_obj \<Rightarrow> 'w \<Rightarrow> go_error option \<times> 'w" where
  "create_err srv ns x w =
     (case client_create srv (obj_resource x) ns x w of
        (Inl e, w') \<Rightarrow> (Some e, w')
      | (Inr _, w') \<Rightarrow> (None, w'))"

end
