(* ===== verification/Cube_Common.thy ===== *)
theory Cube_Common
  imports Cube_Indexer Cube_Api
begin

text \<open>
  \<open>controller/common.go\<close>: the names both controllers use, the index functions of the user,
  principal, token and role caches, and principals made from users.  With them the listers
  generated under \<open>k8s/pkg/client/listers\<close>, and the shape of the two \<open>syncHandler\<close>s: steps that may
  return early, over the state of the cluster and the events recorded so far.
\<close>

section \<open>Names\<close>

definition SuccessSynced :: string where "SuccessSynced = ''Synced''"
definition ErrResourceExists :: string where "ErrResourceExists = ''ErrResourceExists''"
definition SearchIndexDefaultLen :: nat where "SearchIndexDefaultLen = 6"
definition InfrastructureNamespace :: string where "InfrastructureNamespace = ''kube-system''"
definition InfraMessageResourceExists :: string where
  "InfraMessageResourceExists = ''Resource %q already exists and is not managed by Infrastructure''"
definition InfraMessageResourceSynced :: string where
  "InfraMessageResourceSynced = ''Infrastructure synced successfully''"
definition UserNamespace :: string where "UserNamespace = ''kube-system''"
definition UserMessageResourceExists :: string where
  "UserMessageResourceExists = ''Resource %q already exists and is not managed by User''"
definition UserMessageResourceSynced :: string where
  "UserMessageResourceSynced = ''User synced successfully''"
definition UserByPrincipalIndex :: string where
  "UserByPrincipalIndex = ''auth.user.cube.rancher.io/user-principal-index''"
definition UserByUsernameIndex :: string where
  "UserByUsernameIndex = ''auth.user.cube.rancher.io/user-username-index''"
definition UserSearchIndex :: string where
  "UserSearchIndex = ''auth.user.cube.rancher.io/user-search-index''"
definition PrincipalByIDIndex :: string where
  "PrincipalByIDIndex = ''auth.user.cube.rancher.io/principal-id-index''"
definition TokenByNameIndex :: string where
  "TokenByNameIndex = ''auth.user.cube.rancher.io/token-name-index''"
definition TokenByKeyIndex :: string where
  "TokenByKeyIndex = ''auth.user.cube.rancher.io/token-key-index''"
definition UserIDLabel :: string where
  "UserIDLabel = ''auth.user.cube.rancher.io/token-user-id''"
definition ClusterRoleBindingByNameIndex :: string where
  "ClusterRoleBindingByNameIndex = ''auth.user.cube.rancher.io/crb-name''"
definition ClusterRoleByNameIndex :: string where
  "ClusterRoleByNameIndex = ''auth.user.cube.rancher.io/cr-name''"
definition DashboardName :: string where "DashboardName = ''kubernetes-dashboard''"
definition DashboardNamespace :: string where "DashboardNamespace = ''kube-system''"
definition LonghornName :: string where "LonghornName = ''longhorn-frontend''"
definition LonghornNamespace :: string where "LonghornNamespace = ''longhorn-system''"
definition RancherVMName :: string where "RancherVMName = ''ranchervm-frontend''"
definition RancherVMNamespace :: string where "RancherVMNamespace = ''ranchervm-system''"
definition AdminVerbs :: "string list" where "AdminVerbs = [''*'']"
definition AdminResources :: "string list" where "AdminResources = [''*'']"

lemmas bundle_names = InfrastructureNamespace_def LonghornName_def LonghornNamespace_def
  RancherVMName_def RancherVMNamespace_def DashboardName_def DashboardNamespace_def

lemmas user_index_names = UserByPrincipalIndex_def UserByUsernameIndex_def UserSearchIndex_def

section \<open>Principals of users\<close>

text \<open>The loop over the principal ids keeps the last local one.\<close>

definition GetLocalPrincipalID :: "user \<Rightarrow> string" where
  "GetLocalPrincipalID u =
     (let principalID = foldl (\<lambda>acc p. if HasPrefix p ''local.'' then p else acc) [] (u_PrincipalIDs u)
      in if principalID = []
           then ''local.'' @ om_Namespace (u_meta u) @ ''.'' @ om_Name (u_meta u) else principalID)"

definition isThisUserMe :: "principal \<Rightarrow> principal \<Rightarrow> bool" where
  "isThisUserMe me other \<longleftrightarrow>
     om_Name (p_meta me) = om_Name (p_meta other) \<and> p_LoginName me = p_LoginName other
     \<and> p_PrincipalType me = p_PrincipalType other"

fun isMemberOf :: "principal list \<Rightarrow> principal \<Rightarrow> bool" where
  "isMemberOf [] other = False"
| "isMemberOf (g # gs) other =
     (if om_Name (p_meta g) = om_Name (p_meta other) \<and> p_PrincipalType g = p_PrincipalType other
      then True else isMemberOf gs other)"

definition ToPrincipal ::
    "string \<Rightarrow> string \<Rightarrow> string \<Rightarrow> string \<Rightarrow> string \<Rightarrow> token option \<Rightarrow> principal" where
  "ToPrincipal principalType displayName loginName ns ident tok =
     (let displayName1 = (if displayName = [] then loginName else displayName);
          princ = zero_principal\<lparr>
            p_meta := zero_meta\<lparr>om_Name := ident, om_Namespace := ns\<rparr>,
            p_DisplayName := displayName1, p_LoginName := loginName, p_Provider := ''local'',
            p_Me := False\<rparr>
      in if principalType = ''user'' then
           (let princ1 = princ\<lparr>p_PrincipalType := ''user''\<rparr> in
            case tok of None \<Rightarrow> princ1
            | Some t \<Rightarrow> princ1\<lparr>p_Me := isThisUserMe (t_UserPrincipal t) princ1\<rparr>)
         else
           (let princ1 = princ\<lparr>p_PrincipalType := ''group''\<rparr> in
            case tok of None \<Rightarrow> princ1
            | Some t \<Rightarrow> princ1\<lparr>p_MemberOf := isMemberOf (t_GroupPrincipals t) princ1\<rparr>))"

fun matchPrincipalID :: "string list \<Rightarrow> string \<Rightarrow> bool" where
  "matchPrincipalID [] i = False"
| "matchPrincipalID (v # vs) i = (if v = i then True else matchPrincipalID vs i)"

lemma matchPrincipalID_iff [simp]: "matchPrincipalID vs i \<longleftrightarrow> i \<in> set vs"
  by (induction vs) auto

lemma isMemberOf_iff:
  "isMemberOf gs other \<longleftrightarrow> (\<exists>g \<in> set gs. om_Name (p_meta g) = om_Name (p_meta other)
     \<and> p_PrincipalType g = p_PrincipalType other)"
  by (induction gs) auto

lemma foldl_last_local:
  "foldl (\<lambda>acc p. if P p then p else acc) z ids = last (z # filter P ids)"
  by (induction ids arbitrary: z) auto

text \<open>
  A local principal id always names the provider \<open>local\<close>, so that the dispatch by the text before
  the first dot leads back to the provider the id came from.
\<close>

lemma GetLocalPrincipalID_local: "HasPrefix (GetLocalPrincipalID u) ''local.''"
proof -
  let ?f = "filter (\<lambda>p. HasPrefix p ''local.'') (u_PrincipalIDs u)"
  have "?f \<noteq> [] \<Longrightarrow> HasPrefix (last ?f) ''local.''"
    using last_in_set [of ?f] by auto
  then show ?thesis
    by (auto simp: GetLocalPrincipalID_def foldl_last_local Let_def HasPrefix_def)
qed

lemma GetLocalPrincipalID_member:
  "GetLocalPrincipalID u \<in> set (u_PrincipalIDs u) \<or>
   GetLocalPrincipalID u = ''local.'' @ om_Namespace (u_meta u) @ ''.'' @ om_Name (u_meta u)"
proof -
  let ?f = "filter (\<lambda>p. HasPrefix p ''local.'') (u_PrincipalIDs u)"
  have "?f \<noteq> [] \<Longrightarrow> last ?f \<in> set (u_PrincipalIDs u)"
    using last_in_set [of ?f] by auto
  then show ?thesis
    by (auto simp: GetLocalPrincipalID_def foldl_last_local Let_def)
qed

lemma ToPrincipal_meta [simp]:
  "om_Name (p_meta (ToPrincipal pt dn ln ns i tok)) = i"
  "om_Namespace (p_meta (ToPrincipal pt dn ln ns i tok)) = ns"
  "p_LoginName (ToPrincipal pt dn ln ns i tok) = ln"
  "p_Provider (ToPrincipal pt dn ln ns i tok) = ''local''"
  by (simp_all add: ToPrincipal_def Let_def split: option.splits)

section \<open>Index functions\<close>

definition UserByPrincipal :: "k8s_obj index_func" where
  "UserByPrincipal obj = (case as_user obj of None \<Rightarrow> ([], None) | Some u \<Rightarrow> (u_PrincipalIDs u, None))"

definition NamespaceIndex :: string where "NamespaceIndex = ''namespace''"

definition MetaNamespaceIndexFunc :: "k8s_obj index_func" where
  "MetaNamespaceIndexFunc obj = ([om_Namespace (obj_meta obj)], None)"

definition UserByUsername :: "k8s_obj index_func" where
  "UserByUsername obj = (case as_user obj of None \<Rightarrow> ([], None) | Some u \<Rightarrow> ([u_Username u], None))"

definition minOf :: "nat \<Rightarrow> nat \<Rightarrow> nat" where
  "minOf len defaultLen = (if len < defaultLen then len else defaultLen)"

text \<open>\<open>for i := 2; i <= maxindex; i++\<close>; the callers keep \<open>maxindex\<close> within the field.\<close>

definition indexField :: "string \<Rightarrow> nat \<Rightarrow> string list" where
  "indexField field maxindex = map (\<lambda>i. take i field) [2 ..< Suc maxindex]"

definition UserSearchIndexer :: "k8s_obj index_func" where
  "UserSearchIndexer obj =
     (case as_user obj of
        None \<Rightarrow> ([], None)
      | Some u \<Rightarrow>
          (indexField (u_Username u) (minOf (length (u_Username u)) SearchIndexDefaultLen)
           @ indexField (u_DisplayName u) (minOf (length (u_DisplayName u)) SearchIndexDefaultLen)
           @ indexField (om_Name (u_meta u)) (minOf (length (om_Name (u_meta u))) SearchIndexDefaultLen),
           None))"

definition PrincipalByID :: "k8s_obj index_func" where
  "PrincipalByID obj =
     (case as_principal obj of None \<Rightarrow> ([], None) | Some p \<Rightarrow> ([om_Name (p_meta p)], None))"

definition TokenByName :: "k8s_obj index_func" where
  "TokenByName obj =
     (case as_token obj of None \<Rightarrow> ([], None) | Some t \<Rightarrow> ([om_Name (t_meta t)], None))"

definition TokenByKey :: "k8s_obj index_func" where
  "TokenByKey obj = (case as_token obj of None \<Rightarrow> ([], None) | Some t \<Rightarrow> ([t_Token t], None))"

definition ClusterRoleBindingByName :: "k8s_obj index_func" where
  "ClusterRoleBindingByName obj =
     (case as_cluster_role_binding obj of None \<Rightarrow> ([], None) | Some b \<Rightarrow> ([om_Name (rb_meta b)], None))"

definition ClusterRoleByName :: "k8s_obj index_func" where
  "ClusterRoleByName obj =
     (case as_cluster_role obj of None \<Rightarrow> ([], None) | Some r \<Rightarrow> ([om_Name (ro_meta r)], None))"

lemma index_funcs_pure:
  "pure_index MetaNamespaceIndexFunc"
  "pure_index UserByPrincipal" "pure_index UserByUsername" "pure_index UserSearchIndexer"
  "pure_index PrincipalByID" "pure_index TokenByName" "pure_index TokenByKey"
  "pure_index ClusterRoleBindingByName" "pure_index ClusterRoleByName"
  by (simp_all add: pure_index_def MetaNamespaceIndexFunc_def UserByPrincipal_def UserByUsername_def UserSearchIndexer_def
      PrincipalByID_def TokenByName_def TokenByKey_def ClusterRoleBindingByName_def
      ClusterRoleByName_def split: option.splits)

lemma indexField_in_range: "i \<in> set [2 ..< Suc (minOf (length s) d)] \<Longrightarrow> i \<le> length s"
  by (auto simp: minOf_def split: if_splits)

lemma indexField_iff:
  "key \<in> set (indexField s (minOf (length s) d)) \<longleftrightarrow>
     2 \<le> length key \<and> length key \<le> d \<and> HasPrefix s key"
proof
  assume "key \<in> set (indexField s (minOf (length s) d))"
  then obtain i where i: "key = take i s" "2 \<le> i" "i \<le> minOf (length s) d"
    by (auto simp: indexField_def)
  then have "i \<le> length s" "i \<le> d" by (auto simp: minOf_def split: if_splits)
  with i show "2 \<le> length key \<and> length key \<le> d \<and> HasPrefix s key"
    by (simp add: HasPrefix_def min_def)
next
  assume k: "2 \<le> length key \<and> length key \<le> d \<and> HasPrefix s key"
  then have "key = take (length key) s" "length key \<le> minOf (length s) d"
    by (auto simp: HasPrefix_def minOf_def)
  with k show "key \<in> set (indexField s (minOf (length s) d))"
    unfolding indexField_def set_map
    by (intro image_eqI [of _ _ "length key"]) (simp_all, linarith)
qed

section \<open>Listers\<close>

definition type_assert :: "(k8s_obj \<Rightarrow> 'a option) \<Rightarrow> k8s_obj option \<Rightarrow> 'a outcome" where
  "type_assert sel x =
     (case x of
        None \<Rightarrow> Panic ''interface conversion: interface is nil''
      | Some y \<Rightarrow> (case sel y of None \<Rightarrow> Panic ''interface conversion'' | Some v \<Rightarrow> Return v))"

definition lister_Get ::
    "(k8s_obj \<Rightarrow> 'a option) \<Rightarrow> k8s_obj thread_safe_map \<Rightarrow> string \<Rightarrow> string
       \<Rightarrow> (go_error + 'a) outcome" where
  "lister_Get sel c ns name =
     (case tsm_Get (lister_key ns name) c of
        None \<Rightarrow> Return (Inl (StatusError StatusReasonNotFound name))
      | Some obj \<Rightarrow> bind_outcome (type_assert sel (Some obj)) (\<lambda>v. Return (Inr v)))"

definition Users_lister_Get where "Users_lister_Get = lister_Get as_user"
definition Infrastructures_lister_Get where "Infrastructures_lister_Get = lister_Get as_infra"
definition Deployments_lister_Get where "Deployments_lister_Get = lister_Get as_deployment"
definition Services_lister_Get where "Services_lister_Get = lister_Get as_service"

lemmas lister_defs = Users_lister_Get_def Infrastructures_lister_Get_def
  Deployments_lister_Get_def Services_lister_Get_def

text \<open>\<open>List\<close> over all namespaces with a selector that matches everything.\<close>

fun assert_all :: "(k8s_obj \<Rightarrow> 'a option) \<Rightarrow> k8s_obj list \<Rightarrow> 'a list outcome" where
  "assert_all sel [] = Return []"
| "assert_all sel (m # ms) =
     bind_outcome (type_assert sel (Some m)) (\<lambda>x.
     bind_outcome (assert_all sel ms) (\<lambda>xs. Return (x # xs)))"

definition lister_List_all :: "(k8s_obj \<Rightarrow> 'a option) \<Rightarrow> k8s_obj thread_safe_map \<Rightarrow> 'a list outcome" where
  "lister_List_all sel c = assert_all sel (tsm_List c)"

lemma assert_all_ok:
  "list_all (\<lambda>m. sel m \<noteq> None) ms \<Longrightarrow> assert_all sel ms = Return (List.map_filter sel ms)"
  by (induction ms) (auto simp: type_assert_def map_filter_simps)

text \<open>\<open>objs, _ := informer.GetIndexer().ByIndex(name, key)\<close>: the error is dropped.\<close>

definition ByIndex_objs :: "string \<Rightarrow> string \<Rightarrow> k8s_obj thread_safe_map \<Rightarrow> k8s_obj option list" where
  "ByIndex_objs name key c = (case tsm_ByIndex name key c of Inl _ \<Rightarrow> [] | Inr objs \<Rightarrow> objs)"

section \<open>Handlers\<close>

datatype event_type = EventTypeNormal | EventTypeWarning

record event =
  ev_type :: event_type
  ev_reason :: string
  ev_message :: string
  ev_args :: "string list"

record 'w ctl =
  ct_world :: 'w
  ct_events :: "event list"

text \<open>A formatted message is kept as its format and its arguments.\<close>

definition record_event ::
    "event_type \<Rightarrow> string \<Rightarrow> string \<Rightarrow> string list \<Rightarrow> 'w ctl \<Rightarrow> 'w ctl" where
  "record_event ty reason msg args st =
     st\<lparr>ct_events := ct_events st @
       [\<lparr>ev_type = ty, ev_reason = reason, ev_message = msg, ev_args = args\<rparr>]\<rparr>"

text \<open>A step of a handler: return from the handler, or go on with a value.\<close>

datatype 'a flow = Ret "go_error option" | Go 'a

definition flow_bind ::
    "('a flow \<times> 's) outcome \<Rightarrow> ('a \<Rightarrow> 's \<Rightarrow> ('b flow \<times> 's) outcome) \<Rightarrow> ('b flow \<times> 's) outcome" where
  "flow_bind m f = bind_outcome m (\<lambda>(r, s). case r of Ret e \<Rightarrow> Return (Ret e, s) | Go x \<Rightarrow> f x s)"

lemma flow_bind_simps [simp]:
  "flow_bind (Return (Ret e, s)) f = Return (Ret e, s)"
  "flow_bind (Return (Go x, s)) f = f x s"
  "flow_bind (Panic m) f = Panic m"
  by (simp_all add: flow_bind_def)

text \<open>An API call inside a handler: the state of the cluster is threaded through.\<close>

definition on_world :: "('w \<Rightarrow> 'a \<times> 'w) \<Rightarrow> 'w ctl \<Rightarrow> 'a \<times> 'w ctl" where
  "on_world f st = (case f (ct_world st) of (r, w) \<Rightarrow> (r, st\<lparr>ct_world := w\<rparr>))"

fun ret_value :: "unit flow \<Rightarrow> go_error option" where
  "ret_value (Ret e) = e"
| "ret_value (Go _) = None"

section \<open>Reasoning about handlers\<close>

text \<open>
  \<open>leaves P m\<close>: whatever state \<open>m\<close> ends in, it has \<open>P\<close> (a panic leaves no state).  The rules
  follow the structure of the handlers.
\<close>

definition leaves :: "('s \<Rightarrow> bool) \<Rightarrow> ('a \<times> 's) outcome \<Rightarrow> bool" where
  "leaves P m \<longleftrightarrow> (\<forall>r s. m = Return (r, s) \<longrightarrow> P s)"

lemma leaves_Return [simp]: "leaves P (Return (r, s)) \<longleftrightarrow> P s"
  by (simp add: leaves_def)

lemma leaves_Panic [simp]: "leaves P (Panic m)"
  by (simp add: leaves_def)

lemma leaves_flow_bind:
  assumes "leaves P m" "\<And>x s. P s \<Longrightarrow> leaves P (f x s)"
  shows "leaves P (flow_bind m f)"
proof (cases m)
  case (Return p)
  obtain a s where p: "p = (a, s)" by (cases p)
  then show ?thesis using assms Return by (cases a) simp_all
qed simp

lemma leaves_bind_pure:
  "(\<And>x. m = Return x \<Longrightarrow> leaves P (f x)) \<Longrightarrow> leaves P (bind_outcome m f)"
  by (cases m) simp_all

lemma leaves_ret_value:
  "leaves P m \<Longrightarrow> leaves P (bind_outcome m (\<lambda>(r, s). Return (g r, s)))"
  by (auto simp: leaves_def bind_outcome_Return_iff)

lemma on_world_state:
  "on_world f st = (r, st') \<Longrightarrow> f (ct_world st) = (r, ct_world st') \<and> ct_events st' = ct_events st"
  by (auto simp: on_world_def split: prod.splits)

end
