(* ===== verification/Cube_Workqueue.thy ===== *)
theory Cube_Workqueue
  imports Cube_Go
begin

text \<open>
  The work queue of the controllers: \<open>k8s.io/client-go/util/workqueue\<close>, and the worker loop both
  controllers run over it.

  \<^item> \<open>work_queue\<close> is \<open>Type\<close> of \<open>queue.go\<close>; \<open>wq_Get\<close> answers that it would block where the code
    waits on its condition variable.
  \<^item> \<open>delaying_queue\<close> adds the items of \<open>AddAfter\<close> that wait for their time and the failure counts
    of the rate limiter.  How long an item waits is up to the limiter and the clock, so the moment
    it is released is a step of its own.
  \<^item> \<open>process_next\<close> is one iteration of \<open>processNextWorkItem\<close>, over any handler; while the handler
    runs, the informers may add further items.
  \<^item> \<open>pool_step\<close> interleaves any number of workers with the producers.

  The locale \<open>dedup_queue\<close> is the contract the controllers rely on: an item added is not lost, and
  no item is handed out twice before it is done.
\<close>

record 'a work_queue =
  wq_queue :: "'a list"
  wq_dirty :: "'a set"
  wq_processing :: "'a set"
  wq_shuttingDown :: bool

definition wq_New :: "'a work_queue" where
  "wq_New = \<lparr>wq_queue = [], wq_dirty = {}, wq_processing = {}, wq_shuttingDown = False\<rparr>"

definition wq_Add :: "'a \<Rightarrow> 'a work_queue \<Rightarrow> 'a work_queue" where
  "wq_Add item q =
     (if wq_shuttingDown q then q
      else if item \<in> wq_dirty q then q
      else if item \<in> wq_processing q then q\<lparr>wq_dirty := insert item (wq_dirty q)\<rparr>
      else q\<lparr>wq_dirty := insert item (wq_dirty q), wq_queue := wq_queue q @ [item]\<rparr>)"

datatype 'a got = WouldBlock | ShutDownSignal | Got 'a

definition wq_Get :: "'a work_queue \<Rightarrow> 'a got \<times> 'a work_queue" where
  "wq_Get q =
     (case wq_queue q of
        [] \<Rightarrow> (if wq_shuttingDown q then ShutDownSignal else WouldBlock, q)
      | item # rest \<Rightarrow>
          (Got item, q\<lparr>wq_queue := rest, wq_processing := insert item (wq_processing q),
             wq_dirty := wq_dirty q - {item}\<rparr>))"

definition wq_Done :: "'a \<Rightarrow> 'a work_queue \<Rightarrow> 'a work_queue" where
  "wq_Done item q =
     (let q' = q\<lparr>wq_processing := wq_processing q - {item}\<rparr> in
      if item \<in> wq_dirty q then q'\<lparr>wq_queue := wq_queue q @ [item]\<rparr> else q')"

definition wq_ShutDown :: "'a work_queue \<Rightarrow> 'a work_queue" where
  "wq_ShutDown q = q\<lparr>wq_shuttingDown := True\<rparr>"

definition wq_Len :: "'a work_queue \<Rightarrow> nat" where
  "wq_Len q = length (wq_queue q)"

text \<open>
  The invariant stated in the comments of \<open>Type\<close>, and its converse: every dirty item is queued or
  is being processed, so no request for processing is ever lost.
\<close>

definition wq_ok :: "'a work_queue \<Rightarrow> bool" where
  "wq_ok q \<longleftrightarrow>
     distinct (wq_queue q) \<and> set (wq_queue q) \<inter> wq_processing q = {}
     \<and> wq_dirty q \<subseteq> set (wq_queue q) \<union> wq_processing q \<and> set (wq_queue q) \<subseteq> wq_dirty q"

section \<open>The contract of a deduplicating queue\<close>

locale dedup_queue =
  fixes add :: "'a \<Rightarrow> 'q \<Rightarrow> 'q"
    and get :: "'q \<Rightarrow> 'a got \<times> 'q"
    and done_item :: "'a \<Rightarrow> 'q \<Rightarrow> 'q"
    and pending :: "'q \<Rightarrow> 'a set"
    and processing :: "'q \<Rightarrow> 'a set"
    and stopped :: "'q \<Rightarrow> bool"
    and inv :: "'q \<Rightarrow> bool"
  assumes add_inv: "inv q \<Longrightarrow> inv (add x q)"
    and add_pending: "inv q \<Longrightarrow> pending (add x q) = (if stopped q then pending q else insert x (pending q))"
    and add_processing: "inv q \<Longrightarrow> processing (add x q) = processing q"
    and add_stopped: "stopped (add x q) = stopped q"
    and get_item: "inv q \<Longrightarrow> get q = (Got x, q') \<Longrightarrow>
         inv q' \<and> x \<in> pending q \<and> x \<notin> processing q \<and> stopped q' = stopped q
         \<and> pending q' = pending q - {x} \<and> processing q' = insert x (processing q)"
    and get_other: "inv q \<Longrightarrow> get q = (r, q') \<Longrightarrow> \<forall>x. r \<noteq> Got x \<Longrightarrow>
         q' = q \<and> pending q \<subseteq> processing q \<and> (r = ShutDownSignal \<longleftrightarrow> stopped q)"
    and done_law: "inv q \<Longrightarrow> x \<in> processing q \<Longrightarrow> inv (done_item x q) \<and> pending (done_item x q) = pending q
         \<and> processing (done_item x q) = processing q - {x} \<and> stopped (done_item x q) = stopped q"
begin

lemma fold_add:
  "inv q \<Longrightarrow> inv (fold add xs q) \<and> processing (fold add xs q) = processing q
     \<and> stopped (fold add xs q) = stopped q
     \<and> pending (fold add xs q) = (if stopped q then pending q else pending q \<union> set xs)"
proof (induction xs arbitrary: q)
  case (Cons x xs)
  then show ?case
    by (auto simp: add_inv add_pending add_processing add_stopped)
qed simp

text \<open>An item handed out is not handed out again before it is done, whatever is added meanwhile.\<close>

lemma no_second_hand_out:
  assumes "inv q" "get q = (Got x, q1)" "get (fold add xs q1) = (Got y, q2)"
  shows "y \<noteq> x"
proof -
  from get_item [OF assms(1,2)] have "inv q1" "x \<in> processing q1" by auto
  with fold_add [OF \<open>inv q1\<close>, of xs] have "inv (fold add xs q1)" "x \<in> processing (fold add xs q1)"
    by auto
  with get_item [OF this(1) assms(3)] show ?thesis by auto
qed

text \<open>
  One pass over an item: take it, let the producers add \<open>xs\<close>, mark it done.  It is pending again
  exactly when the producers asked for it meanwhile.
\<close>

lemma one_pass:
  fixes xs :: "'a list"
  assumes "inv q" "get q = (Got x, q1)"
  defines "q2 \<equiv> done_item x (fold add xs q1)"
  shows "inv q2" "processing q2 = processing q"
    "x \<in> pending q2 \<longleftrightarrow> x \<in> set xs \<and> \<not> stopped q"
proof -
  note g = get_item [OF assms(1,2)]
  note f = fold_add [of q1 xs]
  have "x \<in> processing (fold add xs q1)" using f g by auto
  with done_law [of "fold add xs q1" x] f g
  show "inv q2" "processing q2 = processing q" "x \<in> pending q2 \<longleftrightarrow> x \<in> set xs \<and> \<not> stopped q"
    by (auto simp: q2_def)
qed

end

lemma wq_ok_New: "wq_ok wq_New"
  by (simp add: wq_ok_def wq_New_def)

interpretation wq: dedup_queue wq_Add wq_Get wq_Done wq_dirty wq_processing wq_shuttingDown wq_ok
proof (unfold_locales, goal_cases)
  case (1 q x) then show ?case by (auto simp: wq_ok_def wq_Add_def)
next
  case (2 q x) then show ?case by (auto simp: wq_Add_def)
next
  case (3 q x) then show ?case by (auto simp: wq_Add_def)
next
  case (4 x q) then show ?case by (auto simp: wq_Add_def)
next
  case (5 q x q') then show ?case
    by (auto simp: wq_ok_def wq_Get_def split: list.splits if_splits)
next
  case (6 q r q') then show ?case
    by (auto simp: wq_ok_def wq_Get_def split: list.splits if_splits)
next
  case (7 x q) then show ?case
    by (auto simp: wq_ok_def wq_Done_def Let_def)
qed

lemma wq_ShutDown_ok: "wq_ok q \<Longrightarrow> wq_ok (wq_ShutDown q)"
  by (simp add: wq_ok_def wq_ShutDown_def)

section \<open>Rate limiting and the worker loop\<close>

text \<open>
  What the controllers put on the queue are strings; the worker checks the dynamic type.
\<close>

datatype work_item = Key string | NotAString

record delaying_queue =
  dq_queue :: "work_item work_queue"
  dq_waiting :: "work_item set"
  dq_failures :: "work_item \<Rightarrow> nat"

definition dq_New :: delaying_queue where
  "dq_New = \<lparr>dq_queue = wq_New, dq_waiting = {}, dq_failures = (\<lambda>_. 0)\<rparr>"

text \<open>
  \<open>AddAfter item (rateLimiter.When item)\<close>: the limiter counts the request; a shut-down queue takes
  nothing; without a delay the item is added at once, else it waits.
\<close>

definition AddAfter :: "work_item \<Rightarrow> bool \<Rightarrow> delaying_queue \<Rightarrow> delaying_queue" where
  "AddAfter item no_delay d =
     (if wq_shuttingDown (dq_queue d) then d
      else if no_delay then d\<lparr>dq_queue := wq_Add item (dq_queue d)\<rparr>
      else d\<lparr>dq_waiting := insert item (dq_waiting d)\<rparr>)"

definition AddRateLimited :: "work_item \<Rightarrow> bool \<Rightarrow> delaying_queue \<Rightarrow> delaying_queue" where
  "AddRateLimited item no_delay d =
     AddAfter item no_delay
       (d\<lparr>dq_failures := (dq_failures d)(item := Suc (dq_failures d item))\<rparr>)"

definition Forget :: "work_item \<Rightarrow> delaying_queue \<Rightarrow> delaying_queue" where
  "Forget item d = d\<lparr>dq_failures := (dq_failures d)(item := 0)\<rparr>"

definition NumRequeues :: "work_item \<Rightarrow> delaying_queue \<Rightarrow> nat" where
  "NumRequeues item d = dq_failures d item"

text \<open>The waiting loop moves an item whose time has come to the queue.\<close>

definition release :: "work_item \<Rightarrow> delaying_queue \<Rightarrow> delaying_queue" where
  "release item d =
     (if item \<in> dq_waiting d \<and> \<not> wq_shuttingDown (dq_queue d)
        then d\<lparr>dq_waiting := dq_waiting d - {item}, dq_queue := wq_Add item (dq_queue d)\<rparr> else d)"

text \<open>
  \<open>processNextWorkItem\<close>: the boolean is its result (\<open>False\<close> ends the worker).  \<open>meanwhile\<close> are the
  items added by other goroutines while the handler runs.  A panic of the handler passes through.
\<close>

datatype 'w iteration = Blocked | Stopped | Iterated delaying_queue 'w "go_error option"

definition process_next ::
    "(string \<Rightarrow> 'w \<Rightarrow> (go_error option \<times> 'w) outcome) \<Rightarrow> work_item list
       \<Rightarrow> delaying_queue \<Rightarrow> 'w \<Rightarrow> 'w iteration outcome" where
  "process_next syncHandler meanwhile d w =
     (case wq_Get (dq_queue d) of
        (WouldBlock, _) \<Rightarrow> Return Blocked
      | (ShutDownSignal, _) \<Rightarrow> Return Stopped
      | (Got obj, q1) \<Rightarrow>
          (case obj of
             NotAString \<Rightarrow>
               Return (Iterated ((Forget obj d)\<lparr>dq_queue := wq_Done obj q1\<rparr>) w None)
           | Key key \<Rightarrow>
               bind_outcome (syncHandler key w) (\<lambda>(err, w').
                 let q2 = fold wq_Add meanwhile q1 in
                 if err \<noteq> None
                   then Return (Iterated (d\<lparr>dq_queue := wq_Done obj q2\<rparr>) w'
                     (Some (Errorf ''error syncing %s: %s'' [key])))
                   else Return (Iterated ((Forget obj d)\<lparr>dq_queue := wq_Done obj q2\<rparr>) w' None))))"

lemma process_next_Iterated:
  assumes "wq_ok (dq_queue d)"
    and "process_next h meanwhile d w = Return (Iterated d' w' err)"
  obtains (invalid) q1 where "wq_Get (dq_queue d) = (Got NotAString, q1)" "err = None" "w' = w"
      "d' = (Forget NotAString d)\<lparr>dq_queue := wq_Done NotAString q1\<rparr>"
    | (failed) key q1 e where "wq_Get (dq_queue d) = (Got (Key key), q1)" "err \<noteq> None"
        "h key w = Return (Some e, w')"
        "d' = d\<lparr>dq_queue := wq_Done (Key key) (fold wq_Add meanwhile q1)\<rparr>"
    | (synced) key q1 where "wq_Get (dq_queue d) = (Got (Key key), q1)" "err = None"
        "h key w = Return (None, w')"
        "d' = (Forget (Key key) d)\<lparr>dq_queue := wq_Done (Key key) (fold wq_Add meanwhile q1)\<rparr>"
  using assms(2)
  by (auto simp: process_next_def bind_outcome_Return_iff Let_def
      split: got.splits work_item.splits if_splits prod.splits)

text \<open>Whatever the handler answers, the queue stays well formed and no other item is touched.\<close>

lemma process_next_queue:
  assumes "wq_ok (dq_queue d)" "process_next h meanwhile d w = Return (Iterated d' w' err)"
    "wq_Get (dq_queue d) = (Got (Key key), q1)"
  shows "wq_ok (dq_queue d')" "wq_processing (dq_queue d') = wq_processing (dq_queue d)"
    "Key key \<in> wq_dirty (dq_queue d') \<longleftrightarrow>
       Key key \<in> set meanwhile \<and> \<not> wq_shuttingDown (dq_queue d)"
    "dq_waiting d' = dq_waiting d"
proof -
  have "dq_queue d' = wq_Done (Key key) (fold wq_Add meanwhile q1) \<and> dq_waiting d' = dq_waiting d"
    using assms by (auto elim!: process_next_Iterated simp: Forget_def)
  with wq.one_pass [OF assms(1,3), of meanwhile]
  show "wq_ok (dq_queue d')" "wq_processing (dq_queue d') = wq_processing (dq_queue d)"
    "Key key \<in> wq_dirty (dq_queue d') \<longleftrightarrow>
       Key key \<in> set meanwhile \<and> \<not> wq_shuttingDown (dq_queue d)"
    "dq_waiting d' = dq_waiting d"
    by auto
qed

section \<open>Workers and producers interleaved\<close>

record pool =
  pl_queue :: delaying_queue
  pl_busy :: "nat \<rightharpoonup> work_item"

definition pool_init :: pool where
  "pool_init = \<lparr>pl_queue = dq_New, pl_busy = Map.empty\<rparr>"

inductive pool_step :: "pool \<Rightarrow> pool \<Rightarrow> bool" where
  enqueue: "pool_step p (p\<lparr>pl_queue := AddRateLimited x no_delay (pl_queue p)\<rparr>)"
| due: "pool_step p (p\<lparr>pl_queue := release x (pl_queue p)\<rparr>)"
| take: "pl_busy p i = None \<Longrightarrow> wq_Get (dq_queue (pl_queue p)) = (Got x, q1) \<Longrightarrow>
    pool_step p (p\<lparr>pl_queue := (pl_queue p)\<lparr>dq_queue := q1\<rparr>, pl_busy := (pl_busy p)(i \<mapsto> x)\<rparr>)"
| succeed: "pl_busy p i = Some x \<Longrightarrow>
    pool_step p (p\<lparr>pl_queue := (Forget x (pl_queue p))\<lparr>dq_queue := wq_Done x (dq_queue (pl_queue p))\<rparr>,
      pl_busy := (pl_busy p)(i := None)\<rparr>)"
| fail: "pl_busy p i = Some x \<Longrightarrow>
    pool_step p (p\<lparr>pl_queue := (pl_queue p)\<lparr>dq_queue := wq_Done x (dq_queue (pl_queue p))\<rparr>,
      pl_busy := (pl_busy p)(i := None)\<rparr>)"
| shut_down: "pool_step p (p\<lparr>pl_queue :=
      (pl_queue p)\<lparr>dq_queue := wq_ShutDown (dq_queue (pl_queue p))\<rparr>\<rparr>)"

inductive pool_reachable :: "pool \<Rightarrow> bool" where
  start: "pool_reachable pool_init"
| step: "pool_reachable p \<Longrightarrow> pool_step p p' \<Longrightarrow> pool_reachable p'"

definition pool_inv :: "pool \<Rightarrow> bool" where
  "pool_inv p \<longleftrightarrow>
     wq_ok (dq_queue (pl_queue p)) \<and> ran (pl_busy p) = wq_processing (dq_queue (pl_queue p))
     \<and> inj_on (pl_busy p) (dom (pl_busy p))"

lemma dq_AddRateLimited_queue:
  "dq_queue (AddRateLimited x nd d) = dq_queue d \<or> dq_queue (AddRateLimited x nd d) = wq_Add x (dq_queue d)"
  by (simp add: AddRateLimited_def AddAfter_def)

lemma dq_release_queue:
  "dq_queue (release x d) = dq_queue d \<or> dq_queue (release x d) = wq_Add x (dq_queue d)"
  by (simp add: release_def)

lemma pool_inv_add:
  assumes "pool_inv p" "dq_queue d' = dq_queue (pl_queue p) \<or> dq_queue d' = wq_Add x (dq_queue (pl_queue p))"
  shows "pool_inv (p\<lparr>pl_queue := d'\<rparr>)"
  using assms(2,1) by (elim disjE) (simp_all add: pool_inv_def wq.add_inv wq.add_processing)

lemma pool_inv_take:
  assumes "pool_inv p" "pl_busy p i = None" "wq_Get (dq_queue (pl_queue p)) = (Got x, q1)"
  shows "pool_inv (p\<lparr>pl_queue := (pl_queue p)\<lparr>dq_queue := q1\<rparr>, pl_busy := (pl_busy p)(i \<mapsto> x)\<rparr>)"
proof -
  have "wq_ok (dq_queue (pl_queue p))" using assms(1) by (simp add: pool_inv_def)
  note g = wq.get_item [OF this assms(3)]
  have "x \<notin> ran (pl_busy p)" using g assms(1) by (simp add: pool_inv_def)
  then have "inj_on ((pl_busy p)(i \<mapsto> x)) (insert i (dom (pl_busy p)))"
    using assms(1) by (auto simp: pool_inv_def intro!: inj_on_fun_updI ranI)
  with g assms(1,2) show ?thesis by (simp add: pool_inv_def)
qed

lemma ran_remove_inj:
  assumes "inj_on m (dom m)" "m i = Some x"
  shows "ran (m(i := None)) = ran m - {x}"
  using assms by (auto simp: ran_def inj_on_def dom_def) (metis option.inject)

lemma pool_inv_done:
  assumes "pool_inv p" "pl_busy p i = Some x" "dq_queue d' = wq_Done x (dq_queue (pl_queue p))"
  shows "pool_inv (p\<lparr>pl_queue := d', pl_busy := (pl_busy p)(i := None)\<rparr>)"
proof -
  have ok: "wq_ok (dq_queue (pl_queue p))" and ran: "ran (pl_busy p) = wq_processing (dq_queue (pl_queue p))"
    and inj: "inj_on (pl_busy p) (dom (pl_busy p))"
    using assms(1) by (simp_all add: pool_inv_def)
  have "x \<in> wq_processing (dq_queue (pl_queue p))" using ran assms(2) by (auto simp: ran_def)
  note d = wq.done_law [OF ok this]
  have "inj_on ((pl_busy p)(i := None)) (dom (pl_busy p) - {i})"
    using inj by (auto simp: inj_on_def)
  with d ran ran_remove_inj [OF inj assms(2)] assms(3) show ?thesis
    by (simp add: pool_inv_def)
qed

lemma pool_step_inv: "pool_step p p' \<Longrightarrow> pool_inv p \<Longrightarrow> pool_inv p'"
proof (induction rule: pool_step.induct)
  case (enqueue p x nd)
  show ?case by (rule pool_inv_add [OF enqueue dq_AddRateLimited_queue])
next
  case (due p x)
  show ?case by (rule pool_inv_add [OF due dq_release_queue])
next
  case (take p i x q1)
  from pool_inv_take [OF take(3,1,2)] show ?case .
next
  case (succeed p i x)
  show ?case by (rule pool_inv_done [OF succeed(2,1)]) simp
next
  case (fail p i x)
  show ?case by (rule pool_inv_done [OF fail(2,1)]) simp
next
  case (shut_down p)
  then show ?case by (simp add: pool_inv_def wq_ok_def wq_ShutDown_def)
qed

lemma pool_reachable_inv: "pool_reachable p \<Longrightarrow> pool_inv p"
proof (induction rule: pool_reachable.induct)
  case start
  show ?case by (simp add: pool_inv_def pool_init_def dq_New_def wq_ok_New) (simp add: wq_New_def)
next
  case (step p p')
  then show ?case by (blast intro: pool_step_inv)
qed

end
