(* ===== verification/Cube_Handlers.thy ===== *)
theory Cube_Handlers
  imports Cube_Common Cube_Workqueue
begin

text \<open>
  What the informers deliver to the event handlers of both controllers, and how an event becomes an
  item of the work queue: directly for the controller's own resource, through the controller
  reference for the objects it owns.
\<close>

text \<open>A notification: an object, the tombstone of a deletion that was missed, or something else.\<close>

datatype watched = Watched k8s_obj | Tombstone string "k8s_obj option" | NotAnObject

definition decode_object :: "watched \<Rightarrow> k8s_obj option" where
  "decode_object obj =
     (case obj of Watched x \<Rightarrow> Some x | Tombstone _ x \<Rightarrow> x | NotAnObject \<Rightarrow> None)"

text \<open>\<open>enqueueUser\<close> and \<open>enqueueInfra\<close>: a tombstone has no object metadata.\<close>

definition enqueue_obj :: "watched \<Rightarrow> bool \<Rightarrow> delaying_queue \<Rightarrow> delaying_queue" where
  "enqueue_obj obj no_delay d =
     (case obj of
        Watched x \<Rightarrow> AddRateLimited (Key (MetaNamespaceKeyFunc (obj_meta x))) no_delay d
      | _ \<Rightarrow> d)"

text \<open>The update handlers of owned objects skip the periodic resync.\<close>

definition on_owned_update ::
    "(k8s_obj \<Rightarrow> 'a option) \<Rightarrow> ('a \<Rightarrow> object_meta) \<Rightarrow> (watched \<Rightarrow> delaying_queue \<Rightarrow> delaying_queue outcome)
       \<Rightarrow> k8s_obj \<Rightarrow> k8s_obj \<Rightarrow> delaying_queue \<Rightarrow> delaying_queue outcome" where
  "on_owned_update sel meta_of handle old new d =
     bind_outcome (type_assert sel (Some new)) (\<lambda>newObj.
     bind_outcome (type_assert sel (Some old)) (\<lambda>oldObj.
       if om_ResourceVersion (meta_of newObj) = om_ResourceVersion (meta_of oldObj) then Return d
       else handle (Watched new) d))"

text \<open>The items of an informer cache lie under the keys of their metadata.\<close>

definition keyed :: "k8s_obj thread_safe_map \<Rightarrow> bool" where
  "keyed c \<longleftrightarrow>
     (\<forall>k x. map_of (ts_items c) k = Some x \<longrightarrow>
        k = MetaNamespaceKeyFunc (obj_meta x)
        \<and> CHR ''/'' \<notin> set (om_Name (obj_meta x)) \<and> CHR ''/'' \<notin> set (om_Namespace (obj_meta x)))"

lemma keyed_empty_namespace:
  assumes "keyed c"
  shows "map_of (ts_items c) (lister_key [] n) = None"
proof (cases "map_of (ts_items c) (lister_key [] n)")
  case (Some x)
  with assms lister_key_empty_namespace [of "obj_meta x" n] show ?thesis
    by (simp add: keyed_def)
qed

lemma keyed_lister:
  assumes "keyed c" "map_of (ts_items c) (lister_key ns n) = Some x"
    "CHR ''/'' \<notin> set ns" "CHR ''/'' \<notin> set n"
  shows "om_Namespace (obj_meta x) = ns" "om_Name (obj_meta x) = n" "ns \<noteq> []"
proof -
  from assms(1,2) have k: "lister_key ns n = MetaNamespaceKeyFunc (obj_meta x)"
    and s: "CHR ''/'' \<notin> set (om_Name (obj_meta x))" "CHR ''/'' \<notin> set (om_Namespace (obj_meta x))"
    by (auto simp: keyed_def)
  have "split_on CHR ''/'' (lister_key ns n) = [ns, n]"
    using assms(3,4) by (simp add: lister_key_def split_on_simps)
  with k s show "om_Namespace (obj_meta x) = ns" "om_Name (obj_meta x) = n" "ns \<noteq> []"
    by (auto simp: MetaNamespaceKeyFunc_def split_on_simps split: if_splits)
qed

lemma enqueue_obj_pending:
  assumes "wq_ok (dq_queue d)" "\<not> wq_shuttingDown (dq_queue d)"
  shows "Key (MetaNamespaceKeyFunc (obj_meta x)) \<in>
    wq_dirty (dq_queue (enqueue_obj (Watched x) no_delay d)) \<union> dq_waiting (enqueue_obj (Watched x) no_delay d)"
  using assms by (simp add: enqueue_obj_def AddRateLimited_def AddAfter_def wq.add_pending)

text \<open>A cache after the first list of its informer.\<close>

definition informer_with :: "k8s_obj indexers \<Rightarrow> k8s_obj list \<Rightarrow> k8s_obj thread_safe_map" where
  "informer_with ixs xs =
     (let c = NewThreadSafeStore ((NamespaceIndex, MetaNamespaceIndexFunc) # ixs) in
      case tsm_Replace (map (\<lambda>x. (MetaNamespaceKeyFunc (obj_meta x), x)) xs) c of
        Return c' \<Rightarrow> c' | Panic _ \<Rightarrow> c)"

lemma informer_with_items:
  assumes "tsm_ok (NewThreadSafeStore ((NamespaceIndex, MetaNamespaceIndexFunc) # ixs) :: k8s_obj thread_safe_map)"
    and "distinct (map (\<lambda>x. MetaNamespaceKeyFunc (obj_meta x)) xs)"
  shows "tsm_ok (informer_with ixs xs)"
    "ts_items (informer_with ixs xs) = map (\<lambda>x. (MetaNamespaceKeyFunc (obj_meta x), x)) xs"
proof -
  let ?c = "NewThreadSafeStore ((NamespaceIndex, MetaNamespaceIndexFunc) # ixs)"
  let ?kxs = "map (\<lambda>x. (MetaNamespaceKeyFunc (obj_meta x), x)) xs"
  have "distinct (map fst ?kxs)" using assms(2) by (simp add: comp_def)
  then obtain c' where "tsm_Replace ?kxs ?c = Return c'" "tsm_ok c'"
    using tsm.replace_law assms(1) by blast
  then show "tsm_ok (informer_with ixs xs)" "ts_items (informer_with ixs xs) = ?kxs"
    by (auto simp: informer_with_def tsm_Replace_def NewThreadSafeStore_def bind_outcome_Return_iff)
qed

end
