(* ===== verification/Cube_Store_Contract.thy ===== *)
theory Cube_Store_Contract
  imports Cube_Api
begin

text \<open>
  What the program relies on from the API server, as the locale \<open>api_store\<close>: a view \<open>stored\<close> of
  the objects by resource, namespace and name, and how the answers of the requests relate to it.
  The lemmas proved inside it are about the one pattern all bundles of the controllers share:
  create an object, carry on when it was created or existed already, stop at any other error.
\<close>

definition well_named :: "resource \<Rightarrow> string \<Rightarrow> k8s_obj \<Rightarrow> bool" where
  "well_named r ns x \<longleftrightarrow>
     obj_resource x = r \<and> om_Name (obj_meta x) \<noteq> [] \<and> (namespaced r \<longleftrightarrow> ns \<noteq> [])
     \<and> (om_Namespace (obj_meta x) = ns \<or> om_Namespace (obj_meta x) = [])"

text \<open>What the server keeps of a created object: its type, name, labels and owners.\<close>

definition meta_kept :: "k8s_obj \<Rightarrow> k8s_obj \<Rightarrow> bool" where
  "meta_kept x y \<longleftrightarrow>
     obj_resource y = obj_resource x \<and> om_Name (obj_meta y) = om_Name (obj_meta x)
     \<and> om_Labels (obj_meta y) = om_Labels (obj_meta x)
     \<and> om_OwnerReferences (obj_meta y) = om_OwnerReferences (obj_meta x)"

lemma meta_kept_controlled:
  "meta_kept x y \<Longrightarrow> om_OwnerReferences (obj_meta x) = [NewControllerRef owner gvk] \<Longrightarrow>
     IsControlledBy (obj_meta y) owner"
  by (simp add: meta_kept_def owner_simps)

text \<open>
  \<open>_, err = c.\<dots>.Create(x); if err != nil && !IsAlreadyExists(err) { return nil, err }\<close>, for the
  objects of a bundle one after the other; every object comes with the namespace of its client.
\<close>

fun run_creates ::
    "'w api_server \<Rightarrow> (string \<times> k8s_obj) list \<Rightarrow> 'w \<Rightarrow> go_error option \<times> 'w" where
  "run_creates srv [] w = (None, w)"
| "run_creates srv ((ns, x) # items) w =
     (case create_err srv ns x w of
        (err, w1) \<Rightarrow>
          if err \<noteq> None \<and> \<not> IsAlreadyExists err then (err, w1) else run_creates srv items w1)"

lemma run_creates_error:
  "run_creates srv items w = (Some e, w') \<Longrightarrow> \<not> IsAlreadyExists (Some e)"
  by (induction srv items w rule: run_creates.induct) (auto split: prod.splits if_splits)

text \<open>Two views of the cluster that agree on every key outside \<open>K\<close>.\<close>

type_synonym view = "resource \<Rightarrow> string \<Rightarrow> string \<Rightarrow> k8s_obj option"

definition same_outside :: "(resource \<times> string \<times> string) set \<Rightarrow> view \<Rightarrow> view \<Rightarrow> bool" where
  "same_outside K f g \<longleftrightarrow> (\<forall>r m k. (r, m, k) \<notin> K \<longrightarrow> g r m k = f r m k)"

lemma same_outside_refl [simp]: "same_outside K f f"
  by (simp add: same_outside_def)

lemma same_outside_trans: "same_outside K f g \<Longrightarrow> same_outside K g h \<Longrightarrow> same_outside K f h"
  by (simp add: same_outside_def)

lemma same_outside_mono: "same_outside K f g \<Longrightarrow> K \<subseteq> L \<Longrightarrow> same_outside L f g"
  by (auto simp: same_outside_def)

lemma same_outside_put:
  "(r, ns, n) \<in> K \<Longrightarrow> same_outside K f (f(r := (f r)(ns := (f r ns)(n := y))))"
  by (auto simp: same_outside_def)

lemma same_outsideD: "same_outside K f g \<Longrightarrow> (r, m, k) \<notin> K \<Longrightarrow> g r m k = f r m k"
  by (simp add: same_outside_def)

locale api_store =
  fixes srv :: "'w api_server"
    and stored :: "'w \<Rightarrow> resource \<Rightarrow> string \<Rightarrow> string \<Rightarrow> k8s_obj option"
    and inv :: "'w \<Rightarrow> bool"
  assumes create_inv:
      "inv w \<Longrightarrow> well_named r ns x \<Longrightarrow> inv (snd (api_create srv r ns x w))"
    and create_ok:
      "inv w \<Longrightarrow> well_named r ns x \<Longrightarrow> api_create srv r ns x w = (Inr y, w') \<Longrightarrow>
         stored w r ns (om_Name (obj_meta x)) = None \<and> meta_kept x y
         \<and> stored w' = (stored w)(r := (stored w r)(ns :=
              (stored w r ns)(om_Name (obj_meta x) \<mapsto> y)))"
    and create_failed:
      "inv w \<Longrightarrow> well_named r ns x \<Longrightarrow> api_create srv r ns x w = (Inl e, w') \<Longrightarrow>
         stored w' = stored w
         \<and> (IsAlreadyExists (Some e) \<longrightarrow> stored w r ns (om_Name (obj_meta x)) \<noteq> None)"
    and get_ok:
      "inv w \<Longrightarrow> n \<noteq> [] \<Longrightarrow> (namespaced r \<longleftrightarrow> ns \<noteq> []) \<Longrightarrow> api_get srv r ns n w = (Inr y, w') \<Longrightarrow>
         stored w r ns n = Some y \<and> stored w' = stored w \<and> inv w'"
    and get_failed:
      "inv w \<Longrightarrow> n \<noteq> [] \<Longrightarrow> (namespaced r \<longleftrightarrow> ns \<noteq> []) \<Longrightarrow> api_get srv r ns n w = (Inl e, w') \<Longrightarrow>
         stored w' = stored w \<and> inv w' \<and> (IsNotFound (Some e) \<longrightarrow> stored w r ns n = None)"
    and update_ok:
      "inv w \<Longrightarrow> well_named r ns x \<Longrightarrow> api_update srv r ns x w = (Inr y, w') \<Longrightarrow>
         stored w r ns (om_Name (obj_meta x)) \<noteq> None \<and> meta_kept x y \<and> inv w'
         \<and> stored w' = (stored w)(r := (stored w r)(ns :=
              (stored w r ns)(om_Name (obj_meta x) \<mapsto> y)))"
    and update_failed:
      "inv w \<Longrightarrow> well_named r ns x \<Longrightarrow> api_update srv r ns x w = (Inl e, w') \<Longrightarrow>
         stored w' = stored w \<and> inv w'"
    and delete_ok:
      "inv w \<Longrightarrow> n \<noteq> [] \<Longrightarrow> (namespaced r \<longleftrightarrow> ns \<noteq> []) \<Longrightarrow> api_delete srv r ns n w = (None, w') \<Longrightarrow>
         inv w' \<and> stored w' = (stored w)(r := (stored w r)(ns := (stored w r ns)(n := None)))"
    and delete_failed:
      "inv w \<Longrightarrow> n \<noteq> [] \<Longrightarrow> (namespaced r \<longleftrightarrow> ns \<noteq> []) \<Longrightarrow> api_delete srv r ns n w = (Some e, w') \<Longrightarrow>
         inv w' \<and> stored w' = stored w \<and> (IsNotFound (Some e) \<longrightarrow> stored w r ns n = None)"
begin

lemma create_err_cases:
  assumes "inv w" "well_named (obj_resource x) ns x" "create_err srv ns x w = (err, w')"
  obtains (created) y where "err = None" "inv w'" "meta_kept x y"
      "stored w (obj_resource x) ns (om_Name (obj_meta x)) = None"
      "stored w' = (stored w)(obj_resource x := (stored w (obj_resource x))(ns :=
         (stored w (obj_resource x) ns)(om_Name (obj_meta x) \<mapsto> y)))"
    | (failed) e where "err = Some e" "inv w'" "stored w' = stored w"
        "IsAlreadyExists (Some e) \<longrightarrow> stored w (obj_resource x) ns (om_Name (obj_meta x)) \<noteq> None"
proof (cases "rest_error POST (obj_resource x) ns None")
  case (Some e)
  with assms(3) have "err = Some e" "w' = w"
    by (auto simp: create_err_def client_create_def)
  moreover have "\<not> IsAlreadyExists (Some e)"
    using rest_error_kind(2) [of POST "obj_resource x" ns None] Some by simp
  ultimately show thesis using failed assms(1) by simp
next
  case None
  obtain res w1 where res: "api_create srv (obj_resource x) ns x w = (res, w1)"
    by (cases "api_create srv (obj_resource x) ns x w") auto
  have inv': "inv w1" using create_inv [OF assms(1,2)] res by simp
  show thesis
  proof (cases res)
    case (Inl e)
    with res assms(3) None have "err = Some e" "w' = w1"
      by (auto simp: create_err_def client_create_def)
    with create_failed [OF assms(1,2)] res Inl inv' show thesis by (intro failed) auto
  next
    case (Inr y)
    with res assms(3) None have "err = None" "w' = w1"
      by (auto simp: create_err_def client_create_def)
    with create_ok [OF assms(1,2)] res Inr inv' show thesis by (intro created) auto
  qed
qed

lemma create_err_keeps:
  assumes "inv w" "well_named (obj_resource x) ns x" "create_err srv ns x w = (err, w')"
  shows "inv w'" "stored w r m n = Some y \<Longrightarrow> stored w' r m n = Some y"
  by (rule create_err_cases [OF assms]; simp) (rule create_err_cases [OF assms]; auto)

lemma create_err_present:
  assumes "inv w" "well_named (obj_resource x) ns x" "create_err srv ns x w = (err, w')"
    and "err = None \<or> IsAlreadyExists err"
  shows "stored w' (obj_resource x) ns (om_Name (obj_meta x)) \<noteq> None"
  using assms(4) by (rule_tac create_err_cases [OF assms(1-3)]) auto

lemma create_err_origin:
  assumes "inv w" "well_named (obj_resource x) ns x" "create_err srv ns x w = (err, w')"
    and "stored w' r m n = Some y"
  shows "stored w r m n = Some y \<or>
    (r, m, n) = (obj_resource x, ns, om_Name (obj_meta x)) \<and> meta_kept x y \<and> stored w r m n = None"
  using assms(4) by (rule_tac create_err_cases [OF assms(1-3)]) (auto split: if_splits)

lemma run_creates_step:
  "run_creates srv ((ns, x) # items) w = (err, w') \<Longrightarrow>
     (\<exists>e w1. create_err srv ns x w = (e, w1) \<and>
        (if e \<noteq> None \<and> \<not> IsAlreadyExists e then err = e \<and> w' = w1
         else run_creates srv items w1 = (err, w')))"
  by (auto split: prod.splits if_splits)

lemma run_creates_keeps:
  assumes "inv w" "\<forall>(ns, x) \<in> set items. well_named (obj_resource x) ns x"
    and "run_creates srv items w = (err, w')"
  shows "inv w' \<and> (\<forall>r m n y. stored w r m n = Some y \<longrightarrow> stored w' r m n = Some y)"
  using assms
proof (induction items arbitrary: w)
  case (Cons it items)
  obtain ns x where it: "it = (ns, x)" by (cases it)
  from Cons.prems(3) obtain e w1 where step: "create_err srv ns x w = (e, w1)"
    and rest: "if e \<noteq> None \<and> \<not> IsAlreadyExists e then err = e \<and> w' = w1
       else run_creates srv items w1 = (err, w')"
    using run_creates_step unfolding it by blast
  have wn: "well_named (obj_resource x) ns x" using Cons.prems(2) it by simp
  note keeps = create_err_keeps [OF Cons.prems(1) wn step]
  show ?case
  proof (cases "e \<noteq> None \<and> \<not> IsAlreadyExists e")
    case True
    with rest keeps show ?thesis by auto
  next
    case False
    with rest Cons.IH [OF keeps(1)] Cons.prems(2) keeps(2) show ?thesis by auto
  qed
qed auto

lemma run_creates_present:
  assumes "inv w" "\<forall>(ns, x) \<in> set items. well_named (obj_resource x) ns x"
    and "run_creates srv items w = (None, w')" and "(ns, x) \<in> set items"
  shows "\<exists>y. stored w' (obj_resource x) ns (om_Name (obj_meta x)) = Some y"
  using assms
proof (induction items arbitrary: w)
  case (Cons it items)
  obtain ns1 x1 where it: "it = (ns1, x1)" by (cases it)
  from Cons.prems(3) obtain e w1 where step: "create_err srv ns1 x1 w = (e, w1)"
    and rest: "if e \<noteq> None \<and> \<not> IsAlreadyExists e then None = e \<and> w' = w1
       else run_creates srv items w1 = (None, w')"
    using run_creates_step unfolding it by blast
  have ok: "e = None \<or> IsAlreadyExists e" and run: "run_creates srv items w1 = (None, w')"
    using rest by (auto split: if_splits)
  have wn: "well_named (obj_resource x1) ns1 x1" using Cons.prems(2) it by simp
  have inv1: "inv w1" using create_err_keeps(1) [OF Cons.prems(1) wn step] .
  have wns: "\<forall>(ns, x) \<in> set items. well_named (obj_resource x) ns x"
    using Cons.prems(2) by simp
  show ?case
  proof (cases "(ns, x) = (ns1, x1)")
    case True
    with create_err_present [OF Cons.prems(1) wn step ok] obtain y
      where "stored w1 (obj_resource x) ns (om_Name (obj_meta x)) = Some y" by auto
    with run_creates_keeps [OF inv1 wns run] show ?thesis by blast
  next
    case False
    with Cons.prems(4) it have "(ns, x) \<in> set items" by auto
    then show ?thesis using Cons.IH [OF inv1 wns run] by blast
  qed
qed simp

lemma run_creates_origin:
  assumes "inv w" "\<forall>(ns, x) \<in> set items. well_named (obj_resource x) ns x"
    and "run_creates srv items w = (err, w')" and "stored w' r m n = Some y"
  shows "stored w r m n = Some y \<or>
    stored w r m n = None \<and> (\<exists>x. (m, x) \<in> set items \<and> r = obj_resource x
      \<and> n = om_Name (obj_meta x) \<and> meta_kept x y)"
  using assms
proof (induction items arbitrary: w)
  case (Cons it items)
  obtain ns x where it: "it = (ns, x)" by (cases it)
  from Cons.prems(3) obtain e w1 where step: "create_err srv ns x w = (e, w1)"
    and rest: "if e \<noteq> None \<and> \<not> IsAlreadyExists e then err = e \<and> w' = w1
       else run_creates srv items w1 = (err, w')"
    using run_creates_step unfolding it by blast
  have wn: "well_named (obj_resource x) ns x" using Cons.prems(2) it by simp
  have inv1: "inv w1" using create_err_keeps(1) [OF Cons.prems(1) wn step] .
  have "stored w1 r m n = Some y \<or>
    stored w1 r m n = None \<and> (\<exists>x. (m, x) \<in> set items \<and> r = obj_resource x
      \<and> n = om_Name (obj_meta x) \<and> meta_kept x y)"
  proof (cases "e \<noteq> None \<and> \<not> IsAlreadyExists e")
    case True
    with rest Cons.prems(4) show ?thesis by auto
  next
    case False
    with rest Cons.IH [OF inv1] Cons.prems(2,4) show ?thesis by simp
  qed
  then show ?case
  proof
    assume "stored w1 r m n = Some y"
    from create_err_origin [OF Cons.prems(1) wn step this] show ?thesis by (auto simp: it)
  next
    assume *: "stored w1 r m n = None \<and> (\<exists>x. (m, x) \<in> set items \<and> r = obj_resource x
      \<and> n = om_Name (obj_meta x) \<and> meta_kept x y)"
    then have "stored w r m n = None"
      using create_err_keeps(2) [OF Cons.prems(1) wn step] by (cases "stored w r m n") auto
    with * show ?thesis by auto
  qed
qed auto

text \<open>
  A request changes at most the object it names.  \<open>frame K w w'\<close>: the state is still well formed and
  agrees with the old one outside \<open>K\<close>.
\<close>

definition frame :: "(resource \<times> string \<times> string) set \<Rightarrow> 'w \<Rightarrow> 'w \<Rightarrow> bool" where
  "frame K w w' \<longleftrightarrow> inv w' \<and> same_outside K (stored w) (stored w')"

lemma frame_refl: "inv w \<Longrightarrow> frame K w w"
  by (simp add: frame_def)

lemma frame_inv: "frame K w w' \<Longrightarrow> inv w'"
  by (simp add: frame_def)

lemma frame_trans: "frame K w w' \<Longrightarrow> frame K w' w'' \<Longrightarrow> frame K w w''"
  by (auto simp: frame_def intro: same_outside_trans)

lemma client_create_frame:
  assumes "inv w" "well_named r ns x" "(r, ns, om_Name (obj_meta x)) \<in> K"
    and "client_create srv r ns x w = (res, w')"
  shows "frame K w w'"
proof (cases "rest_error POST r ns None")
  case None
  with assms(4) have res: "api_create srv r ns x w = (res, w')" by (simp add: client_create_def)
  with create_inv [OF assms(1,2)] have "inv w'" by simp
  with res create_ok [OF assms(1,2)] create_failed [OF assms(1,2)] assms(3) show ?thesis
    by (cases res) (auto simp: frame_def same_outside_def)
qed (use assms in \<open>auto simp: client_create_def frame_def\<close>)

lemma client_update_frame:
  assumes "inv w" "well_named r ns x" "(r, ns, om_Name (obj_meta x)) \<in> K"
    and "client_update srv r ns x w = (res, w')"
  shows "frame K w w'"
proof (cases "rest_error PUT r ns (Some (om_Name (obj_meta x)))")
  case None
  with assms(4) have res: "api_update srv r ns x w = (res, w')" by (simp add: client_update_def)
  with update_ok [OF assms(1,2)] update_failed [OF assms(1,2)] assms(3) show ?thesis
    by (cases res) (auto simp: frame_def same_outside_def)
qed (use assms in \<open>auto simp: client_update_def frame_def\<close>)

lemma client_get_frame:
  assumes "inv w" "n \<noteq> []" "namespaced r \<longleftrightarrow> ns \<noteq> []" "client_get srv r ns n w = (res, w')"
  shows "frame K w w'"
proof (cases "rest_error GET r ns (Some n)")
  case None
  with assms(4) have res: "api_get srv r ns n w = (res, w')" by (simp add: client_get_def)
  with get_ok [OF assms(1-3)] get_failed [OF assms(1-3)] show ?thesis
    by (cases res) (auto simp: frame_def)
qed (use assms in \<open>auto simp: client_get_def frame_def\<close>)

lemma client_delete_frame:
  assumes "inv w" "n \<noteq> []" "namespaced r \<longleftrightarrow> ns \<noteq> []" "(r, ns, n) \<in> K"
    and "client_delete srv r ns n w = (err, w')"
  shows "frame K w w'"
proof (cases "rest_error DELETE r ns (Some n)")
  case None
  with assms(5) have res: "api_delete srv r ns n w = (err, w')" by (simp add: client_delete_def)
  with delete_ok [OF assms(1-3)] delete_failed [OF assms(1-3)] assms(4) show ?thesis
    by (cases err) (auto simp: frame_def same_outside_def)
qed (use assms in \<open>auto simp: client_delete_def frame_def\<close>)

lemma create_err_frame:
  assumes "inv w" "well_named (obj_resource x) ns x" "(obj_resource x, ns, om_Name (obj_meta x)) \<in> K"
    and "create_err srv ns x w = (err, w')"
  shows "frame K w w'"
  using assms(4) client_create_frame [OF assms(1-3)]
  by (auto simp: create_err_def split: prod.splits sum.splits)

lemma run_creates_frame:
  assumes "inv w" "\<forall>(ns, x) \<in> set items. well_named (obj_resource x) ns x
      \<and> (obj_resource x, ns, om_Name (obj_meta x)) \<in> K"
    and "run_creates srv items w = (err, w')"
  shows "frame K w w'"
  using assms
proof (induction items arbitrary: w)
  case (Cons it items)
  obtain ns x where it: "it = (ns, x)" by (cases it)
  from Cons.prems(3) obtain e w1 where step: "create_err srv ns x w = (e, w1)"
    and rest: "if e \<noteq> None \<and> \<not> IsAlreadyExists e then err = e \<and> w' = w1
       else run_creates srv items w1 = (err, w')"
    using run_creates_step unfolding it by blast
  have f: "frame K w w1" using Cons.prems(2) it by (intro create_err_frame [OF Cons.prems(1) _ _ step]) auto
  show ?case
  proof (cases "e \<noteq> None \<and> \<not> IsAlreadyExists e")
    case False
    with rest Cons.IH [OF frame_inv [OF f]] Cons.prems(2) f show ?thesis
      by (auto intro: frame_trans)
  qed (use rest f in auto)
qed (simp add: frame_refl)

end

end
