(* ===== verification/Cube_Tracker.thy ===== *)
theory Cube_Tracker
  imports Cube_Store_Contract
begin

text \<open>
  The object tracker of \<open>k8s.io/client-go/testing/fixture.go\<close>: an API server held in memory, which
  the generated fake clientset (\<open>k8s/pkg/client/clientset/versioned/fake\<close>) talks to.  Its state is a
  list of objects per resource; the watch channels it notifies are left out.  It satisfies the
  contract \<open>api_store\<close> on named objects: the interpretation \<open>tr\<close> at the end of this theory, which
  every property about the effect of a bundle on the cluster goes through.
\<close>

record tracker =
  tr_objects :: "resource \<Rightarrow> k8s_obj list"

definition NewObjectTracker :: tracker where
  "NewObjectTracker = \<lparr>tr_objects = (\<lambda>_. [])\<rparr>"

definition same_key :: "string \<Rightarrow> string \<Rightarrow> k8s_obj \<Rightarrow> bool" where
  "same_key ns n x \<longleftrightarrow> om_Namespace (obj_meta x) = ns \<and> om_Name (obj_meta x) = n"

definition filterByNamespaceAndName ::
    "k8s_obj list \<Rightarrow> string \<Rightarrow> string \<Rightarrow> k8s_obj list" where
  "filterByNamespaceAndName objs ns name =
     filter (\<lambda>x. \<not> (ns \<noteq> [] \<and> om_Namespace (obj_meta x) \<noteq> ns)
               \<and> \<not> (name \<noteq> [] \<and> om_Name (obj_meta x) \<noteq> name)) objs"

definition tracker_Get :: "resource \<Rightarrow> string \<Rightarrow> string \<Rightarrow> tracker \<Rightarrow> go_error + k8s_obj" where
  "tracker_Get gvr ns name t =
     (case filterByNamespaceAndName (tr_objects t gvr) ns name of
        [] \<Rightarrow> Inl (StatusError StatusReasonNotFound name)
      | [x] \<Rightarrow> Inr x
      | _ \<Rightarrow> Inl (Errorf ''more than one object matched gvr %s, ns: %q name: %q'' [ns, name]))"

fun replace_first :: "('a \<Rightarrow> bool) \<Rightarrow> 'a \<Rightarrow> 'a list \<Rightarrow> 'a list" where
  "replace_first P y [] = []"
| "replace_first P y (x # xs) = (if P x then y # xs else x # replace_first P y xs)"

fun remove_first :: "('a \<Rightarrow> bool) \<Rightarrow> 'a list \<Rightarrow> 'a list" where
  "remove_first P [] = []"
| "remove_first P (x # xs) = (if P x then xs else x # remove_first P xs)"

definition propagate_namespace :: "string \<Rightarrow> k8s_obj \<Rightarrow> k8s_obj" where
  "propagate_namespace ns x =
     (if om_Namespace (obj_meta x) = [] then set_obj_meta ((obj_meta x)\<lparr>om_Namespace := ns\<rparr>) x else x)"

definition tracker_add ::
    "resource \<Rightarrow> k8s_obj \<Rightarrow> string \<Rightarrow> bool \<Rightarrow> tracker \<Rightarrow> go_error option \<times> tracker" where
  "tracker_add gvr obj ns replaceExisting t =
     (let x = propagate_namespace ns obj; name = om_Name (obj_meta x); objs = tr_objects t gvr in
      if ns \<noteq> om_Namespace (obj_meta x)
        then (Some (StatusError (StatusReasonOther ''BadRequest'')
          ''request namespace does not match object namespace''), t)
      else if list_ex (same_key ns name) objs then
        (if replaceExisting
           then (None, t\<lparr>tr_objects := (tr_objects t)(gvr :=
             replace_first (same_key ns name) x objs)\<rparr>)
           else (Some (StatusError StatusReasonAlreadyExists name), t))
      else if replaceExisting then (Some (StatusError StatusReasonNotFound name), t)
      else (None, t\<lparr>tr_objects := (tr_objects t)(gvr := objs @ [x])\<rparr>))"

definition tracker_Delete ::
    "resource \<Rightarrow> string \<Rightarrow> string \<Rightarrow> tracker \<Rightarrow> go_error option \<times> tracker" where
  "tracker_Delete gvr ns name t =
     (let objs = tr_objects t gvr in
      if list_ex (same_key ns name) objs
        then (None, t\<lparr>tr_objects := (tr_objects t)(gvr := remove_first (same_key ns name) objs)\<rparr>)
        else (Some (StatusError StatusReasonNotFound name), t))"

definition tracker_List ::
    "resource \<Rightarrow> string \<Rightarrow> tracker \<Rightarrow> k8s_obj list" where
  "tracker_List gvr ns t = filterByNamespaceAndName (tr_objects t gvr) ns []"

text \<open>\<open>ObjectReaction\<close>: creating and updating answer with a second look at the tracker.\<close>

definition react_add ::
    "bool \<Rightarrow> resource \<Rightarrow> string \<Rightarrow> k8s_obj \<Rightarrow> tracker \<Rightarrow> (go_error + k8s_obj) \<times> tracker" where
  "react_add replaceExisting gvr ns obj t =
     (case tracker_add gvr obj ns replaceExisting t of
        (Some e, t') \<Rightarrow> (Inl e, t')
      | (None, t') \<Rightarrow> (tracker_Get gvr ns (om_Name (obj_meta obj)) t', t'))"

text \<open>
  The list action of the generated fake client filters the answer of the tracker by the labels
  of the selector.
\<close>

definition ObjectReaction :: "tracker api_server" where
  "ObjectReaction =
     \<lparr>api_get = (\<lambda>gvr ns name t. (tracker_Get gvr ns name t, t)),
      api_create = react_add False,
      api_update = react_add True,
      api_delete = tracker_Delete,
      api_list = (\<lambda>gvr ns sel t.
        (Inr (filter (\<lambda>x. matches_labels sel (om_Labels (obj_meta x))) (tracker_List gvr ns t)), t))\<rparr>"

lemma ObjectReaction_sel [simp]:
  "api_get ObjectReaction gvr ns name t = (tracker_Get gvr ns name t, t)"
  "api_create ObjectReaction = react_add False"
  "api_update ObjectReaction = react_add True"
  "api_delete ObjectReaction = tracker_Delete"
  "api_list ObjectReaction gvr ns sel t =
     (Inr (filter (\<lambda>x. matches_labels sel (om_Labels (obj_meta x))) (tracker_List gvr ns t)), t)"
  by (simp_all add: ObjectReaction_def)

section \<open>Invariant and view\<close>

definition obj_key :: "k8s_obj \<Rightarrow> string \<times> string" where
  "obj_key x = (om_Namespace (obj_meta x), om_Name (obj_meta x))"

definition tracker_ok :: "tracker \<Rightarrow> bool" where
  "tracker_ok t \<longleftrightarrow>
     (\<forall>r. distinct (map obj_key (tr_objects t r))
        \<and> (\<forall>x \<in> set (tr_objects t r). obj_resource x = r
              \<and> (namespaced r \<longleftrightarrow> om_Namespace (obj_meta x) \<noteq> [])))"

definition tracker_stored :: "tracker \<Rightarrow> resource \<Rightarrow> string \<Rightarrow> string \<Rightarrow> k8s_obj option" where
  "tracker_stored t r ns n = find (same_key ns n) (tr_objects t r)"

lemma same_key_obj_key: "same_key ns n x \<longleftrightarrow> obj_key x = (ns, n)"
  by (auto simp: same_key_def obj_key_def)

lemma same_key_eq: "same_key ns n = (\<lambda>x. obj_key x = (ns, n))"
  by (simp add: fun_eq_iff same_key_obj_key)

lemma filter_key_find:
  "distinct (map obj_key xs) \<Longrightarrow>
     filter (same_key ns n) xs = (case find (same_key ns n) xs of None \<Rightarrow> [] | Some x \<Rightarrow> [x])"
proof (induction xs)
  case (Cons a xs)
  have none: "obj_key a \<notin> obj_key ` set xs \<Longrightarrow> same_key ns n a \<Longrightarrow> filter (same_key ns n) xs = []"
    by (force simp: same_key_obj_key filter_empty_conv)
  from Cons none show ?case by auto
qed simp

lemma find_append_single:
  "find P (xs @ [y]) = (case find P xs of Some x \<Rightarrow> Some x | None \<Rightarrow> if P y then Some y else None)"
  by (induction xs) auto

lemma find_replace_first:
  "same_key ns n y \<Longrightarrow>
     find (same_key ms m) (replace_first (same_key ns n) y xs) =
       (if (ms, m) = (ns, n) \<and> find (same_key ns n) xs \<noteq> None then Some y
        else find (same_key ms m) xs)"
  by (induction xs) (auto simp: same_key_obj_key)

lemma find_remove_first:
  "distinct (map obj_key xs) \<Longrightarrow>
     find (same_key ms m) (remove_first (same_key ns n) xs) =
       (if (ms, m) = (ns, n) then None else find (same_key ms m) xs)"
  unfolding same_key_eq
proof (induction xs)
  case (Cons a xs)
  have "obj_key a \<notin> obj_key ` set xs \<Longrightarrow> find (\<lambda>x. obj_key x = obj_key a) xs = None"
    by (auto simp: find_None_iff image_iff dest: sym)
  with Cons show ?case by auto
qed simp

lemma keys_replace_first:
  "same_key ns n y \<Longrightarrow> map obj_key (replace_first (same_key ns n) y xs) = map obj_key xs"
  by (induction xs) (auto simp: same_key_obj_key)

lemma set_replace_first: "set (replace_first P y xs) \<subseteq> insert y (set xs)"
  by (induction xs) auto

lemma set_remove_first: "set (remove_first P xs) \<subseteq> set xs"
  by (induction xs) auto

lemma distinct_remove_first: "distinct (map f xs) \<Longrightarrow> distinct (map f (remove_first P xs))"
  by (induction xs) (auto dest: set_remove_first [THEN subsetD])

lemma list_ex_find: "list_ex P xs \<longleftrightarrow> find P xs \<noteq> None"
  by (induction xs) auto

lemma tracker_ok_init: "tracker_ok NewObjectTracker"
  by (simp add: tracker_ok_def NewObjectTracker_def)

lemma tracker_ok_upd:
  assumes "tracker_ok t" "distinct (map obj_key xs)"
    "\<forall>x \<in> set xs. obj_resource x = r \<and> (namespaced r \<longleftrightarrow> om_Namespace (obj_meta x) \<noteq> [])"
  shows "tracker_ok (t\<lparr>tr_objects := (tr_objects t)(r := xs)\<rparr>)"
  using assms by (auto simp: tracker_ok_def)

lemma tracker_Get_named:
  assumes "tracker_ok t" "n \<noteq> []" "namespaced r \<longleftrightarrow> ns \<noteq> []"
  shows "tracker_Get r ns n t =
    (case tracker_stored t r ns n of
       None \<Rightarrow> Inl (StatusError StatusReasonNotFound n) | Some x \<Rightarrow> Inr x)"
proof -
  have "filterByNamespaceAndName (tr_objects t r) ns n = filter (same_key ns n) (tr_objects t r)"
    unfolding filterByNamespaceAndName_def
    by (rule filter_cong) (use assms in \<open>auto simp: same_key_def tracker_ok_def\<close>)
  also have "\<dots> = (case tracker_stored t r ns n of None \<Rightarrow> [] | Some x \<Rightarrow> [x])"
    using assms(1) by (simp add: filter_key_find tracker_stored_def tracker_ok_def)
  finally show ?thesis by (simp add: tracker_Get_def split: option.splits)
qed

lemma tracker_stored_upd:
  "tracker_stored (t\<lparr>tr_objects := (tr_objects t)(r := xs)\<rparr>) =
     (tracker_stored t)(r := \<lambda>ns n. find (same_key ns n) xs)"
  by (auto simp: tracker_stored_def fun_eq_iff)

lemma propagate_well_named:
  assumes "well_named r ns x"
  shows "om_Namespace (obj_meta (propagate_namespace ns x)) = ns"
    "om_Name (obj_meta (propagate_namespace ns x)) = om_Name (obj_meta x)"
    "meta_kept x (propagate_namespace ns x)"
  using assms by (auto simp: well_named_def propagate_namespace_def meta_kept_def)

lemma tracker_add_create:
  assumes "tracker_ok t" "well_named r ns x"
  shows "tracker_add r x ns False t =
    (case tracker_stored t r ns (om_Name (obj_meta x)) of
       Some _ \<Rightarrow> (Some (StatusError StatusReasonAlreadyExists (om_Name (obj_meta x))), t)
     | None \<Rightarrow> (None, t\<lparr>tr_objects := (tr_objects t)(r :=
         tr_objects t r @ [propagate_namespace ns x])\<rparr>))"
  using propagate_well_named [OF assms(2)]
  by (simp add: tracker_add_def Let_def list_ex_find tracker_stored_def split: option.splits)

lemma tracker_add_update:
  assumes "tracker_ok t" "well_named r ns x"
  shows "tracker_add r x ns True t =
    (case tracker_stored t r ns (om_Name (obj_meta x)) of
       None \<Rightarrow> (Some (StatusError StatusReasonNotFound (om_Name (obj_meta x))), t)
     | Some _ \<Rightarrow> (None, t\<lparr>tr_objects := (tr_objects t)(r :=
         replace_first (same_key ns (om_Name (obj_meta x))) (propagate_namespace ns x)
           (tr_objects t r))\<rparr>))"
  using propagate_well_named [OF assms(2)]
  by (simp add: tracker_add_def Let_def list_ex_find tracker_stored_def split: option.splits)

lemma tracker_create_state:
  assumes "tracker_ok t" "well_named r ns x" "tracker_stored t r ns (om_Name (obj_meta x)) = None"
  defines "t' \<equiv> t\<lparr>tr_objects := (tr_objects t)(r := tr_objects t r @ [propagate_namespace ns x])\<rparr>"
  shows "tracker_ok t'"
    "tracker_stored t' = (tracker_stored t)(r := (tracker_stored t r)(ns :=
       (tracker_stored t r ns)(om_Name (obj_meta x) \<mapsto> propagate_namespace ns x)))"
proof -
  note p = propagate_well_named [OF assms(2)]
  have key: "obj_key (propagate_namespace ns x) = (ns, om_Name (obj_meta x))"
    using p by (simp add: obj_key_def)
  have fresh: "obj_key (propagate_namespace ns x) \<notin> set (map obj_key (tr_objects t r))"
    using assms(3) key by (force simp: tracker_stored_def find_None_iff same_key_obj_key)
  show "tracker_ok t'"
    unfolding t'_def using assms(1,2) fresh p
    by (intro tracker_ok_upd) (auto simp: tracker_ok_def well_named_def meta_kept_def)
  show "tracker_stored t' = (tracker_stored t)(r := (tracker_stored t r)(ns :=
       (tracker_stored t r ns)(om_Name (obj_meta x) \<mapsto> propagate_namespace ns x)))"
    unfolding t'_def tracker_stored_upd
    using assms(3) key
    by (auto simp: fun_eq_iff find_append_single tracker_stored_def same_key_obj_key
        split: option.splits)
qed

lemma tracker_update_state:
  assumes "tracker_ok t" "well_named r ns x"
    "tracker_stored t r ns (om_Name (obj_meta x)) = Some y"
  defines "t' \<equiv> t\<lparr>tr_objects := (tr_objects t)(r :=
         replace_first (same_key ns (om_Name (obj_meta x))) (propagate_namespace ns x)
           (tr_objects t r))\<rparr>"
  shows "tracker_ok t'"
    "tracker_stored t' = (tracker_stored t)(r := (tracker_stored t r)(ns :=
       (tracker_stored t r ns)(om_Name (obj_meta x) \<mapsto> propagate_namespace ns x)))"
proof -
  note p = propagate_well_named [OF assms(2)]
  have same: "same_key ns (om_Name (obj_meta x)) (propagate_namespace ns x)"
    using p by (simp add: same_key_def)
  show "tracker_ok t'"
    unfolding t'_def using assms(1,2) p
    by (intro tracker_ok_upd)
      (auto simp: tracker_ok_def well_named_def meta_kept_def keys_replace_first [OF same]
        dest!: set_replace_first [THEN subsetD])
  show "tracker_stored t' = (tracker_stored t)(r := (tracker_stored t r)(ns :=
       (tracker_stored t r ns)(om_Name (obj_meta x) \<mapsto> propagate_namespace ns x)))"
    unfolding t'_def tracker_stored_upd
    using assms(3)
    by (auto simp: fun_eq_iff find_replace_first [OF same] tracker_stored_def)
qed

lemma react_create:
  assumes "tracker_ok t" "well_named r ns x"
  shows "react_add False r ns x t =
    (case tracker_stored t r ns (om_Name (obj_meta x)) of
       Some _ \<Rightarrow> (Inl (StatusError StatusReasonAlreadyExists (om_Name (obj_meta x))), t)
     | None \<Rightarrow> (Inr (propagate_namespace ns x), t\<lparr>tr_objects := (tr_objects t)(r :=
         tr_objects t r @ [propagate_namespace ns x])\<rparr>))"
proof (cases "tracker_stored t r ns (om_Name (obj_meta x))")
  case None
  note st = tracker_create_state [OF assms None]
  have "om_Name (obj_meta x) \<noteq> []" "namespaced r \<longleftrightarrow> ns \<noteq> []"
    using assms(2) by (auto simp: well_named_def)
  with None st show ?thesis
    by (simp add: react_add_def tracker_add_create [OF assms] tracker_Get_named)
next
  case (Some y)
  then show ?thesis by (simp add: react_add_def tracker_add_create [OF assms])
qed

lemma react_update:
  assumes "tracker_ok t" "well_named r ns x"
  shows "react_add True r ns x t =
    (case tracker_stored t r ns (om_Name (obj_meta x)) of
       None \<Rightarrow> (Inl (StatusError StatusReasonNotFound (om_Name (obj_meta x))), t)
     | Some _ \<Rightarrow> (Inr (propagate_namespace ns x), t\<lparr>tr_objects := (tr_objects t)(r :=
         replace_first (same_key ns (om_Name (obj_meta x))) (propagate_namespace ns x)
           (tr_objects t r))\<rparr>))"
proof (cases "tracker_stored t r ns (om_Name (obj_meta x))")
  case (Some y)
  note st = tracker_update_state [OF assms Some]
  have "om_Name (obj_meta x) \<noteq> []" "namespaced r \<longleftrightarrow> ns \<noteq> []"
    using assms(2) by (auto simp: well_named_def)
  with Some st show ?thesis
    by (simp add: react_add_def tracker_add_update [OF assms] tracker_Get_named)
next
  case None
  then show ?thesis by (simp add: react_add_def tracker_add_update [OF assms])
qed

lemma tracker_Delete_stored:
  assumes "tracker_ok t"
  shows "tracker_Delete r ns n t =
    (if tracker_stored t r ns n = None then (Some (StatusError StatusReasonNotFound n), t)
     else (None, t\<lparr>tr_objects := (tr_objects t)(r :=
       remove_first (same_key ns n) (tr_objects t r))\<rparr>))"
  by (simp add: tracker_Delete_def Let_def list_ex_find tracker_stored_def)

lemma tracker_delete_state:
  fixes t :: tracker and r :: resource and ns n :: string
  assumes "tracker_ok t"
  defines "t' \<equiv> t\<lparr>tr_objects := (tr_objects t)(r :=
       remove_first (same_key ns n) (tr_objects t r))\<rparr>"
  shows "tracker_ok t'"
    "tracker_stored t' = (tracker_stored t)(r := (tracker_stored t r)(ns :=
       (tracker_stored t r ns)(n := None)))"
proof -
  have d: "distinct (map obj_key (tr_objects t r))"
    using assms(1) by (simp add: tracker_ok_def)
  show "tracker_ok t'"
    unfolding t'_def using assms(1) distinct_remove_first [OF d]
    by (intro tracker_ok_upd)
      (auto simp: tracker_ok_def dest: set_remove_first [THEN subsetD])
  show "tracker_stored t' = (tracker_stored t)(r := (tracker_stored t r)(ns :=
       (tracker_stored t r ns)(n := None)))"
    unfolding t'_def tracker_stored_upd
    by (auto simp: fun_eq_iff find_remove_first [OF d] tracker_stored_def)
qed

section \<open>The tracker keeps the contract\<close>

interpretation tr: api_store ObjectReaction tracker_stored tracker_ok
proof (unfold_locales, goal_cases)
  case (1 w r ns x)
  then show ?case
    by (simp add: react_create tracker_create_state split: option.splits)
next
  case (2 w r ns x y w')
  then show ?case
    by (auto simp: react_create tracker_create_state propagate_well_named split: option.splits)
next
  case (3 w r ns x e w')
  then show ?case
    by (auto simp: react_create split: option.splits)
next
  case (4 w n r ns y w')
  then show ?case
    by (auto simp: tracker_Get_named split: option.splits)
next
  case (5 w n r ns e w')
  then show ?case
    by (auto simp: tracker_Get_named split: option.splits)
next
  case (6 w r ns x y w')
  then show ?case
    by (auto simp: react_update tracker_update_state propagate_well_named split: option.splits)
next
  case (7 w r ns x e w')
  then show ?case
    by (auto simp: react_update split: option.splits)
next
  case (8 w n r ns w')
  then show ?case
    by (auto simp: tracker_Delete_stored tracker_delete_state split: if_splits)
next
  case (9 w n r ns e w')
  then show ?case
    by (auto simp: tracker_Delete_stored split: if_splits)
qed

section \<open>Requests to the tracker\<close>

text \<open>A request that passes the checks of the client, on a key that is free, taken or missing.\<close>

abbreviation stored_put ::
    "resource \<Rightarrow> string \<Rightarrow> string \<Rightarrow> k8s_obj
       \<Rightarrow> (resource \<Rightarrow> string \<Rightarrow> string \<Rightarrow> k8s_obj option)
       \<Rightarrow> (resource \<Rightarrow> string \<Rightarrow> string \<Rightarrow> k8s_obj option)" where
  "stored_put r ns n y m \<equiv> m(r := (m r)(ns := (m r ns)(n \<mapsto> y)))"

lemma client_create_tracker:
  assumes "tracker_ok w" "well_named r ns x" "namespaced r \<longrightarrow> path_segment_ok ns"
    and "tracker_stored w r ns (om_Name (obj_meta x)) = None"
  obtains w1 where
    "client_create ObjectReaction r ns x w = (Inr (propagate_namespace ns x), w1)" "tracker_ok w1"
    "tracker_stored w1 =
       stored_put r ns (om_Name (obj_meta x)) (propagate_namespace ns x) (tracker_stored w)"
proof -
  have "rest_error POST r ns None = None"
    using assms(2,3) by (simp add: rest_error_POST well_named_def)
  with assms tracker_create_state [OF assms(1,2,4)] that show thesis
    by (simp add: client_create_def react_create)
qed

lemma client_create_tracker_exists:
  assumes "tracker_ok w" "well_named r ns x" "namespaced r \<longrightarrow> path_segment_ok ns"
    and "tracker_stored w r ns (om_Name (obj_meta x)) \<noteq> None"
  shows "client_create ObjectReaction r ns x w =
    (Inl (StatusError StatusReasonAlreadyExists (om_Name (obj_meta x))), w)"
proof -
  have "rest_error POST r ns None = None"
    using assms(2,3) by (simp add: rest_error_POST well_named_def)
  with assms show ?thesis by (auto simp: client_create_def react_create)
qed

lemma client_update_tracker:
  assumes "tracker_ok w" "well_named r ns x" "namespaced r \<longrightarrow> path_segment_ok ns"
    and "path_segment_ok (om_Name (obj_meta x))"
    and "tracker_stored w r ns (om_Name (obj_meta x)) \<noteq> None"
  obtains w1 where
    "client_update ObjectReaction r ns x w = (Inr (propagate_namespace ns x), w1)" "tracker_ok w1"
    "tracker_stored w1 =
       stored_put r ns (om_Name (obj_meta x)) (propagate_namespace ns x) (tracker_stored w)"
proof -
  have "rest_error PUT r ns (Some (om_Name (obj_meta x))) = None"
    using assms(2,3,4) by (simp add: rest_error_named well_named_def)
  moreover obtain y where "tracker_stored w r ns (om_Name (obj_meta x)) = Some y"
    using assms(5) by auto
  ultimately show thesis
    using assms tracker_update_state [OF assms(1,2)] that
    by (simp add: client_update_def react_update)
qed

lemma client_get_tracker:
  assumes "tracker_ok w" "n \<noteq> []" "path_segment_ok n" "namespaced r \<longleftrightarrow> ns \<noteq> []"
    and "namespaced r \<longrightarrow> path_segment_ok ns"
  shows "client_get ObjectReaction r ns n w =
    ((case tracker_stored w r ns n of
        None \<Rightarrow> Inl (StatusError StatusReasonNotFound n) | Some x \<Rightarrow> Inr x), w)"
proof -
  have "rest_error GET r ns (Some n) = None"
    using assms by (simp add: rest_error_named)
  with assms show ?thesis by (simp add: client_get_def tracker_Get_named)
qed

lemma propagate_namespace_id: "om_Namespace (obj_meta x) = ns \<Longrightarrow> propagate_namespace ns x = x"
  by (cases x) (auto simp: propagate_namespace_def)

text \<open>\<open>ensureNamespaceExists\<close>: the namespace is there afterwards, and nothing else has changed.\<close>

lemma tracker_ensure_namespace:
  assumes "tracker_ok w" "n \<noteq> []"
  obtains err w1 where
    "create_err ObjectReaction [] (ObjNamespace \<lparr>ns_meta = zero_meta\<lparr>om_Name := n\<rparr>\<rparr>) w = (err, w1)"
    "err = None \<or> IsAlreadyExists err" "tracker_ok w1" "tracker_stored w1 RNamespaces [] n \<noteq> None"
    "same_outside {(RNamespaces, [], n)} (tracker_stored w) (tracker_stored w1)"
proof -
  let ?x = "ObjNamespace \<lparr>ns_meta = zero_meta\<lparr>om_Name := n\<rparr>\<rparr>"
  have wn: "well_named RNamespaces [] ?x" using assms(2) by (simp add: well_named_def)
  show thesis
  proof (cases "tracker_stored w RNamespaces [] n")
    case None
    then have "tracker_stored w RNamespaces [] (om_Name (obj_meta ?x)) = None" by simp
    from client_create_tracker [OF assms(1) wn _ this] obtain w1 where
      "client_create ObjectReaction RNamespaces [] ?x w = (Inr (propagate_namespace [] ?x), w1)"
      "tracker_ok w1" "tracker_stored w1 =
         stored_put RNamespaces [] n (propagate_namespace [] ?x) (tracker_stored w)" by auto
    then show thesis by (intro that [of None w1]) (auto simp: create_err_def same_outside_def)
  next
    case (Some y)
    then have "client_create ObjectReaction RNamespaces [] ?x w =
      (Inl (StatusError StatusReasonAlreadyExists n), w)"
      using client_create_tracker_exists [OF assms(1) wn] by simp
    with Some assms(1) show thesis
      by (intro that [of "Some (StatusError StatusReasonAlreadyExists n)" w])
        (auto simp: create_err_def go_err)
  qed
qed

section \<open>Examples\<close>

text \<open>A tracker that holds some objects.\<close>

definition tracker_with :: "k8s_obj list \<Rightarrow> tracker" where
  "tracker_with xs = \<lparr>tr_objects = (\<lambda>r. filter (\<lambda>x. obj_resource x = r) xs)\<rparr>"

lemma tracker_with_stored:
  "tracker_stored (tracker_with xs) r ns n = find (\<lambda>x. obj_resource x = r \<and> same_key ns n x) xs"
  unfolding tracker_stored_def tracker_with_def by (induction xs) auto

lemma tracker_with_ok:
  assumes "distinct (map (\<lambda>x. (obj_resource x, obj_key x)) xs)"
    and "\<forall>x \<in> set xs. namespaced (obj_resource x) \<longleftrightarrow> om_Namespace (obj_meta x) \<noteq> []"
  shows "tracker_ok (tracker_with xs)"
proof -
  have "distinct (map obj_key (filter (\<lambda>x. obj_resource x = r) xs))" for r
    using assms(1) by (induction xs) (auto simp: image_iff)
  with assms(2) show ?thesis by (auto simp: tracker_ok_def tracker_with_def)
qed

end
