(* ===== verification/Cube_User_Controller.thy ===== *)
theory Cube_User_Controller
  imports Cube_Handlers Cube_Tracker
begin

text \<open>
  \<open>controller/user_controller.go\<close>: the controller that gives every user a principal, a cluster role
  and a cluster role binding, and writes the principal's id into the user.

  The caches are arguments of the handlers, one per informer: every handler reads each of them
  once, so its argument is the content of the cache at that moment.
\<close>

section \<open>Caches\<close>

record caches =
  ca_users :: "k8s_obj thread_safe_map"
  ca_tokens :: "k8s_obj thread_safe_map"
  ca_principals :: "k8s_obj thread_safe_map"
  ca_crbs :: "k8s_obj thread_safe_map"
  ca_crs :: "k8s_obj thread_safe_map"

definition userIndexers :: "k8s_obj indexers" where
  "userIndexers = [(UserByPrincipalIndex, UserByPrincipal), (UserByUsernameIndex, UserByUsername),
     (UserSearchIndex, UserSearchIndexer)]"

definition tokenIndexers :: "k8s_obj indexers" where
  "tokenIndexers = [(TokenByNameIndex, TokenByName), (TokenByKeyIndex, TokenByKey)]"

definition principalIndexers :: "k8s_obj indexers" where
  "principalIndexers = [(PrincipalByIDIndex, PrincipalByID)]"

definition crbIndexers :: "k8s_obj indexers" where
  "crbIndexers = [(ClusterRoleBindingByNameIndex, ClusterRoleBindingByName)]"

definition crIndexers :: "k8s_obj indexers" where
  "crIndexers = [(ClusterRoleByNameIndex, ClusterRoleByName)]"

text \<open>
  \<open>NewUserController\<close>: every informer comes with the indexers of its factory; adding to a cache that
  already holds objects fails, and then there is no controller (\<open>nil\<close>).
\<close>

definition NewUserController :: "caches \<Rightarrow> caches option" where
  "NewUserController cs =
     (case tsm_AddIndexers userIndexers (ca_users cs) of (Some _, _) \<Rightarrow> None | (None, us) \<Rightarrow>
      case tsm_AddIndexers tokenIndexers (ca_tokens cs) of (Some _, _) \<Rightarrow> None | (None, ts) \<Rightarrow>
      case tsm_AddIndexers principalIndexers (ca_principals cs) of (Some _, _) \<Rightarrow> None | (None, ps) \<Rightarrow>
      case tsm_AddIndexers crbIndexers (ca_crbs cs) of (Some _, _) \<Rightarrow> None | (None, bs) \<Rightarrow>
      case tsm_AddIndexers crIndexers (ca_crs cs) of (Some _, _) \<Rightarrow> None | (None, rs) \<Rightarrow>
        Some \<lparr>ca_users = us, ca_tokens = ts, ca_principals = ps, ca_crbs = bs, ca_crs = rs\<rparr>)"

text \<open>A cache as its informer makes it: empty, indexed by namespace.\<close>

definition NewInformer :: "k8s_obj thread_safe_map" where
  "NewInformer = NewThreadSafeStore [(NamespaceIndex, MetaNamespaceIndexFunc)]"

text \<open>The caches while the controller runs: well formed, with the indexers registered above.\<close>

definition cache_ok :: "k8s_obj indexers \<Rightarrow> k8s_obj thread_safe_map \<Rightarrow> bool" where
  "cache_ok ixs c \<longleftrightarrow> tsm_ok c \<and> ts_indexers c = (NamespaceIndex, MetaNamespaceIndexFunc) # ixs"

definition caches_ok :: "caches \<Rightarrow> bool" where
  "caches_ok cs \<longleftrightarrow>
     cache_ok userIndexers (ca_users cs) \<and> cache_ok tokenIndexers (ca_tokens cs)
     \<and> cache_ok principalIndexers (ca_principals cs) \<and> cache_ok crbIndexers (ca_crbs cs)
     \<and> cache_ok crIndexers (ca_crs cs)"

lemmas indexers_defs = userIndexers_def tokenIndexers_def principalIndexers_def crbIndexers_def
  crIndexers_def

lemmas index_names = user_index_names TokenByNameIndex_def TokenByKeyIndex_def
  PrincipalByIDIndex_def ClusterRoleBindingByNameIndex_def ClusterRoleByNameIndex_def
  NamespaceIndex_def

lemma AddIndexers_NewInformer:
  assumes "NamespaceIndex \<notin> set (map fst ixs)" "distinct (map fst ixs)"
    "\<forall>(name, f) \<in> set ixs. pure_index f"
  shows "\<exists>c. tsm_AddIndexers ixs NewInformer = (None, c) \<and> cache_ok ixs c"
proof -
  have "tsm_AddIndexers ixs NewInformer =
      (None, NewThreadSafeStore ((NamespaceIndex, MetaNamespaceIndexFunc) # ixs))"
    using assms(1) by (auto simp: tsm_AddIndexers_def NewInformer_def NewThreadSafeStore_def list_ex_iff)
  moreover have "tsm_ok (NewThreadSafeStore ((NamespaceIndex, MetaNamespaceIndexFunc) # ixs))"
    using assms index_funcs_pure by (intro tsm_ok_init) auto
  ultimately show ?thesis by (auto simp: NewThreadSafeStore_def cache_ok_def)
qed

text \<open>
  On the empty caches of fresh informers the registration of all index functions succeeds, and
  the controller starts with well-formed caches that answer by every index.
\<close>

theorem NewUserController_ok:
  "\<exists>cs. NewUserController \<lparr>ca_users = NewInformer, ca_tokens = NewInformer,
     ca_principals = NewInformer, ca_crbs = NewInformer, ca_crs = NewInformer\<rparr> = Some cs
   \<and> caches_ok cs"
proof -
  have "\<exists>c. tsm_AddIndexers ixs NewInformer = (None, c) \<and> cache_ok ixs c"
    if "ixs \<in> {userIndexers, tokenIndexers, principalIndexers, crbIndexers, crIndexers}" for ixs
    using that by (intro AddIndexers_NewInformer) (auto simp: indexers_defs index_names index_funcs_pure)
  from this [of userIndexers] this [of tokenIndexers] this [of principalIndexers]
    this [of crbIndexers] this [of crIndexers]
  show ?thesis by (auto simp: NewUserController_def caches_ok_def)
qed

section \<open>Operations\<close>

definition user_owner_ref :: "user \<Rightarrow> owner_reference" where
  "user_owner_ref u = NewControllerRef (u_meta u) (cube_gvk ''User'')"

definition user_ensureNamespaceExists :: "'w api_server \<Rightarrow> 'w \<Rightarrow> go_error option \<times> 'w" where
  "user_ensureNamespaceExists srv w =
     create_err srv [] (ObjNamespace \<lparr>ns_meta = zero_meta\<lparr>om_Name := UserNamespace\<rparr>\<rparr>) w"

definition createPrincipal ::
    "'w api_server \<Rightarrow> user \<Rightarrow> principal \<Rightarrow> 'w \<Rightarrow> (principal option \<times> go_error option) \<times> 'w" where
  "createPrincipal srv u principalLogic w =
     (case user_ensureNamespaceExists srv w of
        (err, w1) \<Rightarrow>
          if err = None \<or> IsAlreadyExists err then
            (let pl = principalLogic\<lparr>p_meta :=
                   (p_meta principalLogic)\<lparr>om_OwnerReferences := [user_owner_ref u]\<rparr>\<rparr>
             in case Principals_Create srv (om_Namespace (u_meta u)) pl w1 of
                  ((p, err1), w2) \<Rightarrow>
                    if err1 \<noteq> None \<and> \<not> IsAlreadyExists err1 then ((None, err1), w2)
                    else ((Some p, None), w2))
          else ((None, err), w1))"

definition updatePrincipal ::
    "'w api_server \<Rightarrow> user \<Rightarrow> principal \<Rightarrow> 'w \<Rightarrow> (principal option \<times> go_error option) \<times> 'w" where
  "updatePrincipal srv u principalLogic w =
     (let pl = principalLogic\<lparr>p_meta := (p_meta principalLogic)\<lparr>
            om_OwnerReferences := [user_owner_ref u], om_Namespace := om_Namespace (u_meta u)\<rparr>\<rparr>
      in case Principals_Update srv (om_Namespace (u_meta u)) pl w of
           ((p, err), w1) \<Rightarrow>
             if err \<noteq> None \<and> \<not> IsAlreadyExists err then ((None, err), w1)
             else ((Some p, None), w1))"

definition user_cluster_role :: "string \<Rightarrow> user \<Rightarrow> role" where
  "user_cluster_role role_name u =
     \<lparr>ro_meta = zero_meta\<lparr>om_Name := om_Name (u_meta u), om_OwnerReferences := [user_owner_ref u]\<rparr>,
      ro_Rules =
       [\<lparr>pr_APIGroups = [''''], pr_Resources = [''users''], pr_Verbs = [''impersonate''],
         pr_ResourceNames = [om_Name (u_meta u)]\<rparr>,
        \<lparr>pr_APIGroups = [''''], pr_Resources = [''groups''], pr_Verbs = [''impersonate''],
         pr_ResourceNames = [''admin'', ''edit'', ''view'']\<rparr>,
        \<lparr>pr_APIGroups = [''authentication.k8s.io''], pr_Resources = [''userextras/scopes''],
         pr_Verbs = [''impersonate''], pr_ResourceNames = ['''']\<rparr>,
        \<lparr>pr_APIGroups = [''''], pr_Resources = [''serviceaccounts''], pr_Verbs = [''impersonate''],
         pr_ResourceNames = ['''']\<rparr>]
       @ (if role_name = ''admin''
            then [\<lparr>pr_APIGroups = [''''], pr_Resources = AdminResources, pr_Verbs = AdminVerbs,
              pr_ResourceNames = []\<rparr>]
            else [])\<rparr>"

text \<open>
  The second \<open>err\<close> shadows the first: when the creation fails, the error returned is the one of the
  lookup; when the lookup succeeds, both results are \<open>nil\<close>.
\<close>

definition generateClusterRole ::
    "'w api_server \<Rightarrow> string \<Rightarrow> user \<Rightarrow> 'w \<Rightarrow> (role option \<times> go_error option) \<times> 'w" where
  "generateClusterRole srv role_name u w =
     (case ClusterRoles_Get srv (om_Name (u_meta u)) w of
        ((_, err), w1) \<Rightarrow>
          if err \<noteq> None \<and> \<not> IsAlreadyExists err then
            (case ClusterRoles_Create srv (user_cluster_role role_name u) w1 of
               ((clusterRole, err1), w2) \<Rightarrow>
                 if err1 = None \<or> IsAlreadyExists err1 then ((Some clusterRole, None), w2)
                 else ((None, err), w2))
          else ((None, err), w1))"

definition user_cluster_role_binding :: "user \<Rightarrow> role_binding" where
  "user_cluster_role_binding u =
     \<lparr>rb_meta = zero_meta\<lparr>om_Name := om_Name (u_meta u), om_OwnerReferences := [user_owner_ref u]\<rparr>,
      rb_RoleRef = \<lparr>rr_APIGroup = ''rbac.authorization.k8s.io'', rr_Kind = ''ClusterRole'',
        rr_Name = om_Name (u_meta u)\<rparr>,
      rb_Subjects = [\<lparr>sj_Kind = ''User'', sj_APIGroup = ''rbac.authorization.k8s.io'',
        sj_Name = om_Name (u_meta u), sj_Namespace = []\<rparr>]\<rparr>"

definition generateClusterRoleBinding ::
    "'w api_server \<Rightarrow> user \<Rightarrow> 'w \<Rightarrow> (role_binding option \<times> go_error option) \<times> 'w" where
  "generateClusterRoleBinding srv u w =
     (case ClusterRoleBindings_Get srv (om_Name (u_meta u)) w of
        ((_, err), w1) \<Rightarrow>
          if err \<noteq> None \<and> \<not> IsAlreadyExists err then
            (case ClusterRoleBindings_Create srv (user_cluster_role_binding u) w1 of
               ((clusterRoleBinding, err1), w2) \<Rightarrow>
                 if err1 = None \<or> IsAlreadyExists err1 then ((Some clusterRoleBinding, None), w2)
                 else ((None, err), w2))
          else ((None, err), w1))"

text \<open>The loop of \<open>updateUser\<close> leaves the last index of the id, or -1.\<close>

fun last_index :: "string \<Rightarrow> int \<Rightarrow> string list \<Rightarrow> int \<Rightarrow> int" where
  "last_index i found [] pos = found"
| "last_index i found (x # xs) pos = last_index i (if x = i then pos else found) xs (pos + 1)"

definition updateUser :: "'w api_server \<Rightarrow> user \<Rightarrow> principal \<Rightarrow> 'w \<Rightarrow> go_error option \<times> 'w" where
  "updateUser srv u p w =
     (let found = last_index (om_Name (p_meta p)) (- 1) (u_PrincipalIDs u) 0;
          userCopy = (if found = - 1
            then u\<lparr>u_PrincipalIDs := u_PrincipalIDs u @ [om_Name (p_meta p)]\<rparr> else u)
      in case Users_Update srv (om_Namespace (u_meta u)) userCopy w of ((_, err), w1) \<Rightarrow> (err, w1))"

text \<open>
  One object that belongs to a user: none in the cache makes it, several are an error, and the one
  there must be controlled by the user, as must the one just made.
\<close>

definition cached_or_created ::
    "(k8s_obj \<Rightarrow> 'a option) \<Rightarrow> string \<Rightarrow> user \<Rightarrow> k8s_obj option list
       \<Rightarrow> ('w \<Rightarrow> ('a option \<times> go_error option) \<times> 'w) \<Rightarrow> 'w ctl \<Rightarrow> ('a option flow \<times> 'w ctl) outcome" where
  "cached_or_created sel msg u objs create st =
     (case objs of
        [] \<Rightarrow>
          (case on_world create st of
             ((x, err), st1) \<Rightarrow>
               if err \<noteq> None then Return (Ret err, st1) else Return (Go x, st1))
      | [obj] \<Rightarrow> bind_outcome (type_assert sel obj) (\<lambda>v. Return (Go (Some v), st))
      | _ \<Rightarrow> Return (Ret (Some (Errorf msg [om_Name (u_meta u)])), st))"

definition require_controlled ::
    "('a \<Rightarrow> object_meta) \<Rightarrow> user \<Rightarrow> 'a option \<Rightarrow> 'w ctl \<Rightarrow> ('a flow \<times> 'w ctl) outcome" where
  "require_controlled meta_of u obj st =
     (case obj of
        None \<Rightarrow> nil_deref
      | Some x \<Rightarrow>
          if \<not> IsControlledBy (meta_of x) (u_meta u) then
            Return (Ret (Some (Errorf UserMessageResourceExists [om_Name (meta_of x)])),
              record_event EventTypeWarning ErrResourceExists UserMessageResourceExists
                [om_Name (meta_of x)] st)
          else Return (Go x, st))"

text \<open>The first part of the handler: the principal, created, checked, and written again when needed.\<close>

definition user_sync_principal ::
    "'w api_server \<Rightarrow> user \<Rightarrow> principal \<Rightarrow> k8s_obj option list \<Rightarrow> 'w ctl
       \<Rightarrow> (principal option flow \<times> 'w ctl) outcome" where
  "user_sync_principal srv u principalLogic principals st =
     flow_bind (cached_or_created as_principal ''can't find unique principal for user %v'' u
       principals (createPrincipal srv u principalLogic) st) (\<lambda>p st1.
     flow_bind (require_controlled p_meta u p st1) (\<lambda>principal st2.
       if \<not> matchPrincipalID (u_PrincipalIDs u) (om_Name (p_meta principal)) then
         (case on_world (updatePrincipal srv u principal) st2 of
            ((p', err), st3) \<Rightarrow>
              if err \<noteq> None then Return (Ret err, st3) else Return (Go p', st3))
       else Return (Go (Some principal), st2)))"

definition user_syncHandler ::
    "'w api_server \<Rightarrow> caches \<Rightarrow> string \<Rightarrow> 'w ctl \<Rightarrow> (go_error option \<times> 'w ctl) outcome" where
  "user_syncHandler srv cs key st =
     (case SplitMetaNamespaceKey key of
        Inl _ \<Rightarrow> Return (None, st)
      | Inr (ns, name) \<Rightarrow>
          bind_outcome (Users_lister_Get (ca_users cs) ns name) (\<lambda>res.
          case res of
            Inl err \<Rightarrow> Return (if IsNotFound (Some err) then None else Some err, st)
          | Inr u \<Rightarrow>
              let userName = om_Name (u_meta u) in
              if userName = [] then Return (None, st)
              else
                let principalLogic = ToPrincipal ''user'' (u_DisplayName u) (u_Username u)
                      (om_Namespace (u_meta u)) (GetLocalPrincipalID u) None;
                    principals = ByIndex_objs PrincipalByIDIndex (om_Name (p_meta principalLogic))
                      (ca_principals cs);
                    clusterRoles = ByIndex_objs ClusterRoleByNameIndex userName (ca_crs cs);
                    clusterRoleBindings =
                      ByIndex_objs ClusterRoleBindingByNameIndex userName (ca_crbs cs)
                in bind_outcome
                  (flow_bind (user_sync_principal srv u principalLogic principals st) (\<lambda>principal st3.
                   flow_bind (cached_or_created as_cluster_role
                     ''can't find unique clusterRoles for user %v'' u clusterRoles
                     (generateClusterRole srv ''admin'' u) st3) (\<lambda>cr st4.
                   flow_bind (require_controlled ro_meta u cr st4) (\<lambda>_ st5.
                   flow_bind (cached_or_created as_cluster_role_binding
                     ''can't find unique clusterRoleBindings for user %v'' u clusterRoleBindings
                     (generateClusterRoleBinding srv u) st5) (\<lambda>crb st6.
                   flow_bind (require_controlled rb_meta u crb st6) (\<lambda>_ st7.
                   (case principal of
                      None \<Rightarrow> nil_deref
                    | Some p \<Rightarrow>
                      (case on_world (updateUser srv u p) st7 of
                         (err, st8) \<Rightarrow>
                           if err \<noteq> None then Return (Ret err, st8)
                           else Return (Go (), record_event EventTypeNormal SuccessSynced
                             UserMessageResourceSynced [] st8)))))))))
                  (\<lambda>(r, st'). Return (ret_value r, st'))))"

section \<open>The queue of the controller\<close>

definition enqueueUser :: "watched \<Rightarrow> bool \<Rightarrow> delaying_queue \<Rightarrow> delaying_queue" where
  "enqueueUser = enqueue_obj"

definition user_handleObject ::
    "caches \<Rightarrow> bool \<Rightarrow> watched \<Rightarrow> delaying_queue \<Rightarrow> delaying_queue outcome" where
  "user_handleObject cs no_delay obj d =
     (case decode_object obj of
        None \<Rightarrow> Return d
      | Some object \<Rightarrow>
          (case GetControllerOf (obj_meta object) of
             None \<Rightarrow> Return d
           | Some ownerRef \<Rightarrow>
               if or_Kind ownerRef \<noteq> ''User'' then Return d
               else bind_outcome (Users_lister_Get (ca_users cs) (om_Namespace (obj_meta object))
                   (or_Name ownerRef)) (\<lambda>res.
                 case res of
                   Inl _ \<Rightarrow> Return d
                 | Inr u \<Rightarrow> Return (enqueueUser (Watched (ObjUser u)) no_delay d))))"

definition on_token_update where
  "on_token_update cs no_delay = on_owned_update as_token t_meta (user_handleObject cs no_delay)"

definition on_principal_update where
  "on_principal_update cs no_delay = on_owned_update as_principal p_meta (user_handleObject cs no_delay)"

definition on_crb_update where
  "on_crb_update cs no_delay =
     on_owned_update as_cluster_role_binding rb_meta (user_handleObject cs no_delay)"

definition on_cr_update where
  "on_cr_update cs no_delay = on_owned_update as_cluster_role ro_meta (user_handleObject cs no_delay)"

definition user_processNextWorkItem ::
    "'w api_server \<Rightarrow> caches \<Rightarrow> work_item list \<Rightarrow> delaying_queue \<Rightarrow> 'w ctl
       \<Rightarrow> 'w ctl iteration outcome" where
  "user_processNextWorkItem srv cs = process_next (user_syncHandler srv cs)"

section \<open>The operations on a cluster that answers\<close>

text \<open>A user the API server accepts: names that may stand in a request path.\<close>

definition valid_user :: "user \<Rightarrow> bool" where
  "valid_user u \<longleftrightarrow>
     om_Name (u_meta u) \<noteq> [] \<and> om_Namespace (u_meta u) \<noteq> []
     \<and> path_segment_ok (om_Name (u_meta u)) \<and> path_segment_ok (om_Namespace (u_meta u))
     \<and> path_segment_ok (GetLocalPrincipalID u)"

definition owned_principal :: "user \<Rightarrow> principal \<Rightarrow> principal" where
  "owned_principal u pl = pl\<lparr>p_meta := (p_meta pl)\<lparr>om_OwnerReferences := [user_owner_ref u]\<rparr>\<rparr>"

lemma owned_principal_sel [simp]:
  "om_Name (p_meta (owned_principal u pl)) = om_Name (p_meta pl)"
  "om_Namespace (p_meta (owned_principal u pl)) = om_Namespace (p_meta pl)"
  "p_LoginName (owned_principal u pl) = p_LoginName pl"
  "IsControlledBy (p_meta (owned_principal u pl)) (u_meta u)"
  by (simp_all add: owned_principal_def user_owner_ref_def owner_simps)

lemma user_roles_sel [simp]:
  "om_Name (ro_meta (user_cluster_role rn u)) = om_Name (u_meta u)"
  "om_Namespace (ro_meta (user_cluster_role rn u)) = []"
  "IsControlledBy (ro_meta (user_cluster_role rn u)) (u_meta u)"
  "om_Name (rb_meta (user_cluster_role_binding u)) = om_Name (u_meta u)"
  "om_Namespace (rb_meta (user_cluster_role_binding u)) = []"
  "IsControlledBy (rb_meta (user_cluster_role_binding u)) (u_meta u)"
  by (simp_all add: user_cluster_role_def user_cluster_role_binding_def user_owner_ref_def owner_simps)

lemma GetLocalPrincipalID_nonempty: "GetLocalPrincipalID u \<noteq> []"
  using GetLocalPrincipalID_local [of u] by (auto simp: HasPrefix_def)

lemma createPrincipal_ok:
  assumes "tracker_ok w" "om_Namespace (u_meta u) \<noteq> []" "path_segment_ok (om_Namespace (u_meta u))"
    and "om_Namespace (p_meta pl) = om_Namespace (u_meta u)" "om_Name (p_meta pl) \<noteq> []"
    and "tracker_stored w RPrincipals (om_Namespace (u_meta u)) (om_Name (p_meta pl)) = None"
  obtains w1 where
    "createPrincipal ObjectReaction u pl w = ((Some (owned_principal u pl), None), w1)" "tracker_ok w1"
    "tracker_stored w1 RPrincipals (om_Namespace (u_meta u)) (om_Name (p_meta pl)) =
       Some (ObjPrincipal (owned_principal u pl))"
    "same_outside {(RNamespaces, [], UserNamespace),
        (RPrincipals, om_Namespace (u_meta u), om_Name (p_meta pl))}
       (tracker_stored w) (tracker_stored w1)"
proof -
  let ?ns = "om_Namespace (u_meta u)" and ?x = "ObjPrincipal (owned_principal u pl)"
  obtain err w0 where e: "user_ensureNamespaceExists ObjectReaction w = (err, w0)"
    "err = None \<or> IsAlreadyExists err" "tracker_ok w0"
    and s0: "same_outside {(RNamespaces, [], UserNamespace)} (tracker_stored w) (tracker_stored w0)"
    unfolding user_ensureNamespaceExists_def
    by (rule tracker_ensure_namespace [OF assms(1), of UserNamespace]) (simp add: UserNamespace_def)
  have wn: "well_named RPrincipals ?ns ?x" using assms by (simp add: well_named_def)
  have id: "propagate_namespace ?ns ?x = ?x" by (rule propagate_namespace_id) (simp add: assms)
  have "tracker_stored w0 RPrincipals ?ns (om_Name (obj_meta ?x)) = None"
    using assms(6) same_outsideD [OF s0, of RPrincipals] by simp
  from client_create_tracker [OF e(3) wn _ this] assms(3) id obtain w1 where
    w1: "client_create ObjectReaction RPrincipals ?ns ?x w0 = (Inr ?x, w1)" "tracker_ok w1"
    "tracker_stored w1 = stored_put RPrincipals ?ns (om_Name (p_meta pl)) ?x (tracker_stored w0)"
    by auto
  have "createPrincipal ObjectReaction u pl w = ((Some (owned_principal u pl), None), w1)"
    using e w1(1) by (simp add: createPrincipal_def Principals_Create_def owned_principal_def api_simps)
  moreover have "same_outside {(RNamespaces, [], UserNamespace),
        (RPrincipals, ?ns, om_Name (p_meta pl))} (tracker_stored w) (tracker_stored w1)"
    using s0 unfolding w1(3) by (auto simp: same_outside_def)
  ultimately show thesis using that w1 by simp
qed

lemma updatePrincipal_ok:
  assumes "tracker_ok w" "om_Namespace (u_meta u) \<noteq> []" "path_segment_ok (om_Namespace (u_meta u))"
    and "om_Namespace (p_meta p) = om_Namespace (u_meta u)"
    and "om_Name (p_meta p) \<noteq> []" "path_segment_ok (om_Name (p_meta p))"
    and "tracker_stored w RPrincipals (om_Namespace (u_meta u)) (om_Name (p_meta p)) \<noteq> None"
  obtains w1 where
    "updatePrincipal ObjectReaction u p w = ((Some (owned_principal u p), None), w1)" "tracker_ok w1"
    "tracker_stored w1 = stored_put RPrincipals (om_Namespace (u_meta u)) (om_Name (p_meta p))
       (ObjPrincipal (owned_principal u p)) (tracker_stored w)"
proof -
  let ?ns = "om_Namespace (u_meta u)" and ?x = "ObjPrincipal (owned_principal u p)"
  have wn: "well_named RPrincipals ?ns ?x" using assms by (simp add: well_named_def)
  have id: "propagate_namespace ?ns ?x = ?x" by (rule propagate_namespace_id) (simp add: assms)
  have ex: "tracker_stored w RPrincipals ?ns (om_Name (obj_meta ?x)) \<noteq> None" using assms(7) by simp
  from client_update_tracker [OF assms(1) wn _ _ ex] assms(3,6) id obtain w1 where
    w1: "client_update ObjectReaction RPrincipals ?ns ?x w = (Inr ?x, w1)" "tracker_ok w1"
    "tracker_stored w1 = stored_put RPrincipals ?ns (om_Name (p_meta p)) ?x (tracker_stored w)"
    by auto
  have pl: "p\<lparr>p_meta := (p_meta p)\<lparr>om_OwnerReferences := [user_owner_ref u],
      om_Namespace := ?ns\<rparr>\<rparr> = owned_principal u p"
    by (simp add: owned_principal_def assms(4) [symmetric])
  have "updatePrincipal ObjectReaction u p w = ((Some (owned_principal u p), None), w1)"
    unfolding updatePrincipal_def pl Let_def using w1(1) by (simp add: Principals_Update_def api_simps)
  with that w1 show thesis by simp
qed

lemma generateClusterRole_ok:
  assumes "tracker_ok w" "om_Name (u_meta u) \<noteq> []" "path_segment_ok (om_Name (u_meta u))"
    and "tracker_stored w RClusterRoles [] (om_Name (u_meta u)) = None"
  obtains w1 where
    "generateClusterRole ObjectReaction rn u w = ((Some (user_cluster_role rn u), None), w1)"
    "tracker_ok w1"
    "tracker_stored w1 = stored_put RClusterRoles [] (om_Name (u_meta u))
       (ObjClusterRole (user_cluster_role rn u)) (tracker_stored w)"
proof -
  let ?x = "ObjClusterRole (user_cluster_role rn u)"
  have wn: "well_named RClusterRoles [] ?x" using assms by (simp add: well_named_def)
  have id: "propagate_namespace [] ?x = ?x" by (rule propagate_namespace_id) simp
  have "tracker_stored w RClusterRoles [] (om_Name (obj_meta ?x)) = None" using assms(4) by simp
  from client_create_tracker [OF assms(1) wn _ this] id obtain w1 where
    w1: "client_create ObjectReaction RClusterRoles [] ?x w = (Inr ?x, w1)" "tracker_ok w1"
    "tracker_stored w1 = stored_put RClusterRoles [] (om_Name (u_meta u)) ?x (tracker_stored w)"
    by auto
  have "client_get ObjectReaction RClusterRoles [] (om_Name (u_meta u)) w =
      (Inl (StatusError StatusReasonNotFound (om_Name (u_meta u))), w)"
    using client_get_tracker [of w "om_Name (u_meta u)" RClusterRoles "[]"] assms by simp
  with w1(1) have "generateClusterRole ObjectReaction rn u w = ((Some (user_cluster_role rn u), None), w1)"
    by (simp add: generateClusterRole_def ClusterRoles_Get_def ClusterRoles_Create_def api_simps go_err)
  with that w1 show thesis by simp
qed

lemma generateClusterRoleBinding_ok:
  assumes "tracker_ok w" "om_Name (u_meta u) \<noteq> []" "path_segment_ok (om_Name (u_meta u))"
    and "tracker_stored w RClusterRoleBindings [] (om_Name (u_meta u)) = None"
  obtains w1 where
    "generateClusterRoleBinding ObjectReaction u w = ((Some (user_cluster_role_binding u), None), w1)"
    "tracker_ok w1"
    "tracker_stored w1 = stored_put RClusterRoleBindings [] (om_Name (u_meta u))
       (ObjClusterRoleBinding (user_cluster_role_binding u)) (tracker_stored w)"
proof -
  let ?x = "ObjClusterRoleBinding (user_cluster_role_binding u)"
  have wn: "well_named RClusterRoleBindings [] ?x" using assms by (simp add: well_named_def)
  have id: "propagate_namespace [] ?x = ?x" by (rule propagate_namespace_id) simp
  have "tracker_stored w RClusterRoleBindings [] (om_Name (obj_meta ?x)) = None" using assms(4) by simp
  from client_create_tracker [OF assms(1) wn _ this] id obtain w1 where
    w1: "client_create ObjectReaction RClusterRoleBindings [] ?x w = (Inr ?x, w1)" "tracker_ok w1"
    "tracker_stored w1 = stored_put RClusterRoleBindings [] (om_Name (u_meta u)) ?x (tracker_stored w)"
    by auto
  have "client_get ObjectReaction RClusterRoleBindings [] (om_Name (u_meta u)) w =
      (Inl (StatusError StatusReasonNotFound (om_Name (u_meta u))), w)"
    using client_get_tracker [of w "om_Name (u_meta u)" RClusterRoleBindings "[]"] assms by simp
  with w1(1) have "generateClusterRoleBinding ObjectReaction u w =
      ((Some (user_cluster_role_binding u), None), w1)"
    by (simp add: generateClusterRoleBinding_def ClusterRoleBindings_Get_def
        ClusterRoleBindings_Create_def api_simps go_err)
  with that w1 show thesis by simp
qed

text \<open>What \<open>updateUser\<close> writes: the user with the id of its principal among its own.\<close>

definition with_principal_id :: "string \<Rightarrow> user \<Rightarrow> user" where
  "with_principal_id i u =
     (if i \<in> set (u_PrincipalIDs u) then u else u\<lparr>u_PrincipalIDs := u_PrincipalIDs u @ [i]\<rparr>)"

lemma with_principal_id_meta [simp]: "u_meta (with_principal_id i u) = u_meta u"
  by (simp add: with_principal_id_def)

lemma with_principal_id_member [simp]: "i \<in> set (u_PrincipalIDs (with_principal_id i u))"
  by (simp add: with_principal_id_def)

lemma last_index_found:
  "0 \<le> pos \<Longrightarrow> last_index i found xs pos = - 1 \<longleftrightarrow> found = - 1 \<and> i \<notin> set xs"
  by (induction xs arbitrary: found pos) auto

lemma updateUser_eq:
  "updateUser srv u p w =
     (case Users_Update srv (om_Namespace (u_meta u)) (with_principal_id (om_Name (p_meta p)) u) w of
        ((_, err), w1) \<Rightarrow> (err, w1))"
  by (simp add: updateUser_def last_index_found with_principal_id_def)

lemma updateUser_ok:
  assumes "tracker_ok w" "valid_user u"
    and "tracker_stored w RUsers (om_Namespace (u_meta u)) (om_Name (u_meta u)) \<noteq> None"
  obtains w1 where
    "updateUser ObjectReaction u p w = (None, w1)" "tracker_ok w1"
    "tracker_stored w1 = stored_put RUsers (om_Namespace (u_meta u)) (om_Name (u_meta u))
       (ObjUser (with_principal_id (om_Name (p_meta p)) u)) (tracker_stored w)"
proof -
  let ?ns = "om_Namespace (u_meta u)" and ?x = "ObjUser (with_principal_id (om_Name (p_meta p)) u)"
  have wn: "well_named RUsers ?ns ?x" using assms(2) by (simp add: well_named_def valid_user_def)
  have id: "propagate_namespace ?ns ?x = ?x" by (rule propagate_namespace_id) simp
  have ex: "tracker_stored w RUsers ?ns (om_Name (obj_meta ?x)) \<noteq> None" using assms(3) by simp
  from client_update_tracker [OF assms(1) wn _ _ ex] assms(2) id obtain w1 where
    w1: "client_update ObjectReaction RUsers ?ns ?x w = (Inr ?x, w1)" "tracker_ok w1"
    "tracker_stored w1 = stored_put RUsers ?ns (om_Name (u_meta u)) ?x (tracker_stored w)"
    by (auto simp: valid_user_def)
  have "updateUser ObjectReaction u p w = (None, w1)"
    using w1(1) by (simp add: updateUser_eq Users_Update_def api_simps)
  with that w1 show thesis by simp
qed

section \<open>Lookups in the caches\<close>

definition cached :: "k8s_obj thread_safe_map \<Rightarrow> k8s_obj \<Rightarrow> bool" where
  "cached c x \<longleftrightarrow> x \<in> set (tsm_List c)"

lemma cached_iff:
  assumes "tsm_ok c"
  shows "cached c x \<longleftrightarrow> (\<exists>k. map_of (ts_items c) k = Some x)"
proof -
  have "cached c x \<longleftrightarrow> (\<exists>k. (k, x) \<in> set (ts_items c))" by (force simp: cached_def tsm_List_def)
  then show ?thesis using assms by (simp add: tsm_ok_def)
qed

lemma cache_ok_tsm: "cache_ok ixs c \<Longrightarrow> tsm_ok c"
  by (simp add: cache_ok_def)

lemma ByIndex_objs_none:
  assumes "tsm_ok c" "map_of (ts_indexers c) name = Some f"
    and "\<And>x. cached c x \<Longrightarrow> v \<notin> set (fst (f x))"
  shows "ByIndex_objs name v c = []"
proof -
  have "tsm_ByIndex name v c = Inr []"
    using tsm.by_index_none [OF assms(1,2), of v] assms(1,3) by (auto simp: cached_iff)
  then show ?thesis by (simp add: ByIndex_objs_def)
qed

lemma ByIndex_objs_one:
  assumes "tsm_ok c" "map_of (ts_indexers c) name = Some f"
    and "map_of (ts_items c) k = Some x" "v \<in> set (fst (f x))"
    and "\<And>k' y. map_of (ts_items c) k' = Some y \<Longrightarrow> v \<in> set (fst (f y)) \<Longrightarrow> k' = k"
  shows "ByIndex_objs name v c = [Some x]"
proof -
  have "tsm_ByIndex name v c = Inr [Some x]"
    using tsm.by_index_one [OF assms(1,2), of v x] assms(3-) by blast
  then show ?thesis by (simp add: ByIndex_objs_def)
qed

lemma index_of_caches:
  "cache_ok principalIndexers c \<Longrightarrow> map_of (ts_indexers c) PrincipalByIDIndex = Some PrincipalByID"
  "cache_ok crIndexers c \<Longrightarrow> map_of (ts_indexers c) ClusterRoleByNameIndex = Some ClusterRoleByName"
  "cache_ok crbIndexers c \<Longrightarrow>
     map_of (ts_indexers c) ClusterRoleBindingByNameIndex = Some ClusterRoleBindingByName"
  "cache_ok userIndexers c \<Longrightarrow> map_of (ts_indexers c) UserSearchIndex = Some UserSearchIndexer"
  "cache_ok userIndexers c \<Longrightarrow> map_of (ts_indexers c) UserByUsernameIndex = Some UserByUsername"
  "cache_ok userIndexers c \<Longrightarrow> map_of (ts_indexers c) UserByPrincipalIndex = Some UserByPrincipal"
  "cache_ok tokenIndexers c \<Longrightarrow> map_of (ts_indexers c) TokenByNameIndex = Some TokenByName"
  "cache_ok tokenIndexers c \<Longrightarrow> map_of (ts_indexers c) TokenByKeyIndex = Some TokenByKey"
  by (simp_all add: cache_ok_def indexers_defs index_names)

lemma index_members:
  "i \<in> set (fst (PrincipalByID x)) \<longleftrightarrow> (\<exists>p. x = ObjPrincipal p \<and> om_Name (p_meta p) = i)"
  "i \<in> set (fst (ClusterRoleByName x)) \<longleftrightarrow> (\<exists>r. x = ObjClusterRole r \<and> om_Name (ro_meta r) = i)"
  "i \<in> set (fst (ClusterRoleBindingByName x)) \<longleftrightarrow>
     (\<exists>b. x = ObjClusterRoleBinding b \<and> om_Name (rb_meta b) = i)"
  by (cases x; auto simp: PrincipalByID_def ClusterRoleByName_def ClusterRoleBindingByName_def)+

lemma search_index_hits:
  "key \<in> set (fst (UserSearchIndexer (ObjUser u))) \<longleftrightarrow>
    2 \<le> length key \<and> length key \<le> 6 \<and> (HasPrefix (u_Username u) key
       \<or> HasPrefix (u_DisplayName u) key \<or> HasPrefix (om_Name (u_meta u)) key)"
  by (auto simp: UserSearchIndexer_def indexField_iff SearchIndexDefaultLen_def)

text \<open>
  Searching users by prefix through the cache is exact: for a key of two to six bytes the search
  index yields the cached users whose user name, display name or object name begins with it, and
  for a key of any other length it yields nothing.
\<close>

lemma user_search_exact:
  assumes "cache_ok userIndexers c" "tsm_ByIndex UserSearchIndex key c = Inr objs"
  shows "Some (ObjUser u) \<in> set objs \<longleftrightarrow>
    cached c (ObjUser u) \<and> 2 \<le> length key \<and> length key \<le> 6
    \<and> (HasPrefix (u_Username u) key \<or> HasPrefix (u_DisplayName u) key
       \<or> HasPrefix (om_Name (u_meta u)) key)"
  using tsm.by_index_members(2) [OF cache_ok_tsm [OF assms(1)] index_of_caches(4) [OF assms(1)] assms(2)]
    cached_iff [OF cache_ok_tsm [OF assms(1)]] by (auto simp: search_index_hits)

section \<open>One pass of the controller\<close>

definition synced_event :: event where
  "synced_event = \<lparr>ev_type = EventTypeNormal, ev_reason = SuccessSynced,
     ev_message = UserMessageResourceSynced, ev_args = []\<rparr>"

lemma user_key_split:
  "valid_user u \<Longrightarrow> SplitMetaNamespaceKey (MetaNamespaceKeyFunc (u_meta u)) =
     Inr (om_Namespace (u_meta u), om_Name (u_meta u))"
  by (simp add: SplitMetaNamespaceKey_MetaNamespaceKeyFunc valid_user_def path_segment_ok_def)

lemma Users_lister_Get_cached:
  "tsm_Get (lister_key ns n) c = Some (ObjUser u) \<Longrightarrow> Users_lister_Get c ns n = Return (Inr u)"
  by (simp add: lister_defs lister_Get_def type_assert_def)

lemma on_world_simp: "f (ct_world st) = (r, w) \<Longrightarrow> on_world f st = (r, st\<lparr>ct_world := w\<rparr>)"
  by (simp add: on_world_def)

text \<open>The principal a user should have, as the controller first makes it.\<close>

definition principal_of :: "user \<Rightarrow> principal" where
  "principal_of u = ToPrincipal ''user'' (u_DisplayName u) (u_Username u) (om_Namespace (u_meta u))
     (GetLocalPrincipalID u) None"

definition user_objects :: "user \<Rightarrow> (resource \<times> string \<times> string) set" where
  "user_objects u =
     {(RNamespaces, [], UserNamespace),
      (RPrincipals, om_Namespace (u_meta u), GetLocalPrincipalID u),
      (RClusterRoles, [], om_Name (u_meta u)), (RClusterRoleBindings, [], om_Name (u_meta u)),
      (RUsers, om_Namespace (u_meta u), om_Name (u_meta u))}"

text \<open>
  The part of the handler up to the cluster role, for a new user: the principal is created and, when
  the user does not list its id yet, written once more.
\<close>

lemma sync_principal_new:
  assumes "tracker_ok (ct_world st)" "valid_user u"
    and "tracker_stored (ct_world st) RPrincipals (om_Namespace (u_meta u)) (GetLocalPrincipalID u) = None"
  obtains w1 where
    "user_sync_principal ObjectReaction u (principal_of u) [] st =
       Return (Go (Some (owned_principal u (principal_of u))), st\<lparr>ct_world := w1\<rparr>)"
    "tracker_ok w1"
    "tracker_stored w1 RPrincipals (om_Namespace (u_meta u)) (GetLocalPrincipalID u) =
       Some (ObjPrincipal (owned_principal u (principal_of u)))"
    "same_outside {(RNamespaces, [], UserNamespace),
        (RPrincipals, om_Namespace (u_meta u), GetLocalPrincipalID u)}
       (tracker_stored (ct_world st)) (tracker_stored w1)"
proof -
  let ?ns = "om_Namespace (u_meta u)" and ?i = "GetLocalPrincipalID u"
  let ?p = "owned_principal u (principal_of u)"
  let ?K = "{(RNamespaces, [], UserNamespace), (RPrincipals, ?ns, ?i)}"
  have ns: "?ns \<noteq> []" "path_segment_ok ?ns" "path_segment_ok ?i"
    using assms(2) by (auto simp: valid_user_def)
  have pl: "om_Namespace (p_meta (principal_of u)) = ?ns" "om_Name (p_meta (principal_of u)) = ?i"
    by (simp_all add: principal_of_def)
  have i: "om_Name (p_meta (principal_of u)) \<noteq> []" using pl GetLocalPrincipalID_nonempty by simp
  obtain w1 where w1: "createPrincipal ObjectReaction u (principal_of u) (ct_world st) = ((Some ?p, None), w1)"
    "tracker_ok w1" "tracker_stored w1 RPrincipals ?ns ?i = Some (ObjPrincipal ?p)"
    "same_outside ?K (tracker_stored (ct_world st)) (tracker_stored w1)"
    using createPrincipal_ok [OF assms(1) ns(1,2) pl(1) i] assms(3) pl(2) by auto
  show thesis
  proof (cases "?i \<in> set (u_PrincipalIDs u)")
    case True
    then show thesis using w1 pl
      by (intro that [of w1])
        (simp_all add: user_sync_principal_def cached_or_created_def on_world_def require_controlled_def)
  next
    case False
    have again: "owned_principal u ?p = ?p" by (simp add: owned_principal_def)
    obtain w2 where w2: "updatePrincipal ObjectReaction u ?p w1 = ((Some ?p, None), w2)"
      "tracker_ok w2" "tracker_stored w2 = stored_put RPrincipals ?ns ?i (ObjPrincipal ?p) (tracker_stored w1)"
      using updatePrincipal_ok [OF w1(2) ns(1,2), of ?p] pl i ns(3) w1(3) again by auto
    have "same_outside ?K (tracker_stored (ct_world st)) (tracker_stored w2)"
      using w1(4) unfolding w2(3) by (auto simp: same_outside_def)
    then show thesis using w1 w2 pl False
      by (intro that [of w2])
        (simp_all add: user_sync_principal_def cached_or_created_def on_world_def require_controlled_def)
  qed
qed

lemma user_sync_new:
  assumes "caches_ok cs" "valid_user u"
    and "tsm_Get (lister_key (om_Namespace (u_meta u)) (om_Name (u_meta u))) (ca_users cs) = Some (ObjUser u)"
    and "\<forall>p. cached (ca_principals cs) (ObjPrincipal p) \<longrightarrow> om_Name (p_meta p) \<noteq> GetLocalPrincipalID u"
    and "\<forall>r. cached (ca_crs cs) (ObjClusterRole r) \<longrightarrow> om_Name (ro_meta r) \<noteq> om_Name (u_meta u)"
    and "\<forall>b. cached (ca_crbs cs) (ObjClusterRoleBinding b) \<longrightarrow> om_Name (rb_meta b) \<noteq> om_Name (u_meta u)"
    and "tracker_ok w" "tracker_stored w RUsers (om_Namespace (u_meta u)) (om_Name (u_meta u)) \<noteq> None"
    and "tracker_stored w RPrincipals (om_Namespace (u_meta u)) (GetLocalPrincipalID u) = None"
    and "tracker_stored w RClusterRoles [] (om_Name (u_meta u)) = None"
    and "tracker_stored w RClusterRoleBindings [] (om_Name (u_meta u)) = None"
  obtains w' where "user_syncHandler ObjectReaction cs (MetaNamespaceKeyFunc (u_meta u))
        \<lparr>ct_world = w, ct_events = evs\<rparr> =
        Return (None, \<lparr>ct_world = w', ct_events = evs @ [synced_event]\<rparr>)"
    "tracker_ok w'"
    "tracker_stored w' RPrincipals (om_Namespace (u_meta u)) (GetLocalPrincipalID u) =
        Some (ObjPrincipal (owned_principal u (principal_of u)))"
    "tracker_stored w' RClusterRoles [] (om_Name (u_meta u)) =
        Some (ObjClusterRole (user_cluster_role ''admin'' u))"
    "tracker_stored w' RClusterRoleBindings [] (om_Name (u_meta u)) =
        Some (ObjClusterRoleBinding (user_cluster_role_binding u))"
    "tracker_stored w' RUsers (om_Namespace (u_meta u)) (om_Name (u_meta u)) =
        Some (ObjUser (with_principal_id (GetLocalPrincipalID u) u))"
    "same_outside (user_objects u) (tracker_stored w) (tracker_stored w')"
proof -
  let ?ns = "om_Namespace (u_meta u)" and ?n = "om_Name (u_meta u)" and ?i = "GetLocalPrincipalID u"
  let ?st = "\<lparr>ct_world = w, ct_events = evs\<rparr>"
  have ok: "cache_ok principalIndexers (ca_principals cs)" "cache_ok crIndexers (ca_crs cs)"
    "cache_ok crbIndexers (ca_crbs cs)" using assms(1) by (auto simp: caches_ok_def)
  have none: "ByIndex_objs PrincipalByIDIndex ?i (ca_principals cs) = []"
    "ByIndex_objs ClusterRoleByNameIndex ?n (ca_crs cs) = []"
    "ByIndex_objs ClusterRoleBindingByNameIndex ?n (ca_crbs cs) = []"
    using assms(4-6) ok
    by (auto intro!: ByIndex_objs_none index_of_caches cache_ok_tsm simp: index_members)
  have n: "?n \<noteq> []" "path_segment_ok ?n" using assms(2) by (auto simp: valid_user_def)
  have pl: "om_Name (p_meta (principal_of u)) = ?i" by (simp add: principal_of_def)
  have st: "tracker_ok (ct_world ?st)" "tracker_stored (ct_world ?st) RPrincipals ?ns ?i = None"
    using assms by simp_all
  obtain w1 where run1: "user_sync_principal ObjectReaction u (principal_of u) [] ?st =
       Return (Go (Some (owned_principal u (principal_of u))), ?st\<lparr>ct_world := w1\<rparr>)"
    and w1: "tracker_ok w1"
    "tracker_stored w1 RPrincipals ?ns ?i = Some (ObjPrincipal (owned_principal u (principal_of u)))"
    "same_outside {(RNamespaces, [], UserNamespace), (RPrincipals, ?ns, ?i)}
       (tracker_stored (ct_world ?st)) (tracker_stored w1)"
    by (rule sync_principal_new [OF st(1) assms(2) st(2)])
  have "tracker_stored w1 RClusterRoles [] ?n = None"
    using assms(10) same_outsideD [OF w1(3), of RClusterRoles] by simp
  from generateClusterRole_ok [OF w1(1) n this, of "''admin''"] obtain w2 where
    w2: "generateClusterRole ObjectReaction ''admin'' u w1 = ((Some (user_cluster_role ''admin'' u), None), w2)"
    "tracker_ok w2" "tracker_stored w2 = stored_put RClusterRoles [] ?n
       (ObjClusterRole (user_cluster_role ''admin'' u)) (tracker_stored w1)" by auto
  have "tracker_stored w2 RClusterRoleBindings [] ?n = None"
    using assms(11) same_outsideD [OF w1(3), of RClusterRoleBindings] by (simp add: w2(3))
  from generateClusterRoleBinding_ok [OF w2(2) n this] obtain w3 where
    w3: "generateClusterRoleBinding ObjectReaction u w2 = ((Some (user_cluster_role_binding u), None), w3)"
    "tracker_ok w3" "tracker_stored w3 = stored_put RClusterRoleBindings [] ?n
       (ObjClusterRoleBinding (user_cluster_role_binding u)) (tracker_stored w2)" by auto
  have "tracker_stored w3 RUsers ?ns ?n \<noteq> None"
    using assms(8) same_outsideD [OF w1(3), of RUsers] by (simp add: w3(3) w2(3))
  from updateUser_ok [OF w3(2) assms(2) this, of "owned_principal u (principal_of u)"] pl
  obtain w4 where w4: "updateUser ObjectReaction u (owned_principal u (principal_of u)) w3 = (None, w4)"
    "tracker_ok w4" "tracker_stored w4 = stored_put RUsers ?ns ?n
       (ObjUser (with_principal_id ?i u)) (tracker_stored w3)" by auto
  have "user_syncHandler ObjectReaction cs (MetaNamespaceKeyFunc (u_meta u)) ?st =
      Return (None, \<lparr>ct_world = w4, ct_events = evs @ [synced_event]\<rparr>)"
    using n(1) none
    by (simp add: user_syncHandler_def user_key_split [OF assms(2)] Users_lister_Get_cached [OF assms(3)]
        principal_of_def [symmetric] pl run1 Let_def)
      (simp add: cached_or_created_def require_controlled_def on_world_simp w2(1) w3(1) w4(1)
        record_event_def synced_event_def)
  moreover have "same_outside (user_objects u) (tracker_stored w) (tracker_stored w4)"
    using w1(3) unfolding w4(3) w3(3) w2(3) by (auto simp: same_outside_def user_objects_def)
  ultimately show thesis using w4(2) w1(2) by (intro that [of w4]) (simp_all add: w4(3) w3(3) w2(3))
qed

text \<open>
  C6. One pass over a user that the caches list but that has none of its objects yet succeeds: it
  leaves a principal controlled by the user, the cluster role and the cluster role binding the
  user needs, the principal's id in the user's record, and a \<open>Synced\<close> event, and changes nothing
  else in the cluster but the system namespace.
\<close>

theorem user_sync_first_pass:
  assumes "caches_ok cs" "valid_user u"
    and "tsm_Get (lister_key (om_Namespace (u_meta u)) (om_Name (u_meta u))) (ca_users cs) = Some (ObjUser u)"
    and "\<forall>p. cached (ca_principals cs) (ObjPrincipal p) \<longrightarrow> om_Name (p_meta p) \<noteq> GetLocalPrincipalID u"
    and "\<forall>r. cached (ca_crs cs) (ObjClusterRole r) \<longrightarrow> om_Name (ro_meta r) \<noteq> om_Name (u_meta u)"
    and "\<forall>b. cached (ca_crbs cs) (ObjClusterRoleBinding b) \<longrightarrow> om_Name (rb_meta b) \<noteq> om_Name (u_meta u)"
    and "tracker_ok w" "tracker_stored w RUsers (om_Namespace (u_meta u)) (om_Name (u_meta u)) \<noteq> None"
    and "tracker_stored w RPrincipals (om_Namespace (u_meta u)) (GetLocalPrincipalID u) = None"
    and "tracker_stored w RClusterRoles [] (om_Name (u_meta u)) = None"
    and "tracker_stored w RClusterRoleBindings [] (om_Name (u_meta u)) = None"
  shows "\<exists>w'. user_syncHandler ObjectReaction cs (MetaNamespaceKeyFunc (u_meta u))
        \<lparr>ct_world = w, ct_events = evs\<rparr> =
        Return (None, \<lparr>ct_world = w', ct_events = evs @ [synced_event]\<rparr>)
    \<and> tracker_ok w'
    \<and> tracker_stored w' RPrincipals (om_Namespace (u_meta u)) (GetLocalPrincipalID u) =
        Some (ObjPrincipal (owned_principal u (principal_of u)))
    \<and> tracker_stored w' RClusterRoles [] (om_Name (u_meta u)) =
        Some (ObjClusterRole (user_cluster_role ''admin'' u))
    \<and> tracker_stored w' RClusterRoleBindings [] (om_Name (u_meta u)) =
        Some (ObjClusterRoleBinding (user_cluster_role_binding u))
    \<and> tracker_stored w' RUsers (om_Namespace (u_meta u)) (om_Name (u_meta u)) =
        Some (ObjUser (with_principal_id (GetLocalPrincipalID u) u))
    \<and> same_outside (user_objects u) (tracker_stored w) (tracker_stored w')"
  by (rule user_sync_new [OF assms]) blast

text \<open>
  What one pass may touch: the objects of its user, whatever the server answers.  The lemmas hold
  for every server that keeps the contract; the property is the instance of the object tracker.
\<close>

context api_store
begin

lemma user_ensureNamespaceExists_frame:
  assumes "inv w" "(RNamespaces, [], UserNamespace) \<in> K"
    and "user_ensureNamespaceExists srv w = (err, w')"
  shows "frame K w w'"
  using assms
  by (intro create_err_frame [where x = "ObjNamespace \<lparr>ns_meta = zero_meta\<lparr>om_Name := UserNamespace\<rparr>\<rparr>"])
    (auto simp: user_ensureNamespaceExists_def well_named_def UserNamespace_def)

lemma createPrincipal_frame:
  assumes "inv w" "om_Namespace (u_meta u) \<noteq> []" "om_Namespace (p_meta pl) = om_Namespace (u_meta u)"
    and "om_Name (p_meta pl) \<noteq> []" "(RNamespaces, [], UserNamespace) \<in> K"
    "(RPrincipals, om_Namespace (u_meta u), om_Name (p_meta pl)) \<in> K"
    and "createPrincipal srv u pl w = (res, w')"
  shows "frame K w w'"
proof -
  obtain err w1 where e: "user_ensureNamespaceExists srv w = (err, w1)"
    by (cases "user_ensureNamespaceExists srv w")
  note f1 = user_ensureNamespaceExists_frame [OF assms(1,5) e]
  let ?x = "ObjPrincipal (owned_principal u pl)"
  show ?thesis
  proof (cases "err = None \<or> IsAlreadyExists err")
    case True
    obtain r2 w2 where c: "client_create srv RPrincipals (om_Namespace (u_meta u)) ?x w1 = (r2, w2)"
      by (cases "client_create srv RPrincipals (om_Namespace (u_meta u)) ?x w1")
    have "frame K w1 w2"
      using assms by (intro client_create_frame [OF frame_inv [OF f1] _ _ c]) (auto simp: well_named_def)
    moreover have "w' = w2"
      using assms(7) e True c
      by (cases r2) (auto simp: createPrincipal_def Principals_Create_def owned_principal_def api_simps
          split: if_splits option.splits)
    ultimately show ?thesis using f1 frame_trans by blast
  qed (use assms(7) e f1 in \<open>auto simp: createPrincipal_def\<close>)
qed

lemma updatePrincipal_frame:
  assumes "inv w" "om_Namespace (u_meta u) \<noteq> []" "om_Name (p_meta p) \<noteq> []"
    and "(RPrincipals, om_Namespace (u_meta u), om_Name (p_meta p)) \<in> K"
    and "updatePrincipal srv u p w = (res, w')"
  shows "frame K w w'"
proof -
  let ?x = "ObjPrincipal (p\<lparr>p_meta := (p_meta p)\<lparr>om_OwnerReferences := [user_owner_ref u],
      om_Namespace := om_Namespace (u_meta u)\<rparr>\<rparr>)"
  obtain r2 w2 where c: "client_update srv RPrincipals (om_Namespace (u_meta u)) ?x w = (r2, w2)"
    by (cases "client_update srv RPrincipals (om_Namespace (u_meta u)) ?x w")
  have "frame K w w2"
    using assms by (intro client_update_frame [OF assms(1) _ _ c]) (auto simp: well_named_def)
  moreover have "w' = w2"
    using assms(5) c by (cases r2) (auto simp: updatePrincipal_def Principals_Update_def api_simps
        split: if_splits option.splits)
  ultimately show ?thesis by simp
qed

lemma generateClusterRole_frame:
  assumes "inv w" "om_Name (u_meta u) \<noteq> []" "(RClusterRoles, [], om_Name (u_meta u)) \<in> K"
    and "generateClusterRole srv rn u w = (res, w')"
  shows "frame K w w'"
proof -
  obtain r1 w1 where g: "client_get srv RClusterRoles [] (om_Name (u_meta u)) w = (r1, w1)"
    by (cases "client_get srv RClusterRoles [] (om_Name (u_meta u)) w")
  have f1: "frame K w w1" using assms by (intro client_get_frame [OF assms(1) _ _ g]) auto
  let ?x = "ObjClusterRole (user_cluster_role rn u)"
  obtain r2 w2 where c: "client_create srv RClusterRoles [] ?x w1 = (r2, w2)"
    by (cases "client_create srv RClusterRoles [] ?x w1")
  have f2: "frame K w1 w2"
    using assms by (intro client_create_frame [OF frame_inv [OF f1] _ _ c]) (auto simp: well_named_def)
  have "w' = w1 \<or> w' = w2"
    using assms(4) g c
    by (cases r1; cases r2) (auto simp: generateClusterRole_def ClusterRoles_Get_def
        ClusterRoles_Create_def api_simps split: if_splits option.splits)
  with f1 f2 frame_trans show ?thesis by blast
qed

lemma generateClusterRoleBinding_frame:
  assumes "inv w" "om_Name (u_meta u) \<noteq> []" "(RClusterRoleBindings, [], om_Name (u_meta u)) \<in> K"
    and "generateClusterRoleBinding srv u w = (res, w')"
  shows "frame K w w'"
proof -
  obtain r1 w1 where g: "client_get srv RClusterRoleBindings [] (om_Name (u_meta u)) w = (r1, w1)"
    by (cases "client_get srv RClusterRoleBindings [] (om_Name (u_meta u)) w")
  have f1: "frame K w w1" using assms by (intro client_get_frame [OF assms(1) _ _ g]) auto
  let ?x = "ObjClusterRoleBinding (user_cluster_role_binding u)"
  obtain r2 w2 where c: "client_create srv RClusterRoleBindings [] ?x w1 = (r2, w2)"
    by (cases "client_create srv RClusterRoleBindings [] ?x w1")
  have f2: "frame K w1 w2"
    using assms by (intro client_create_frame [OF frame_inv [OF f1] _ _ c]) (auto simp: well_named_def)
  have "w' = w1 \<or> w' = w2"
    using assms(4) g c
    by (cases r1; cases r2) (auto simp: generateClusterRoleBinding_def ClusterRoleBindings_Get_def
        ClusterRoleBindings_Create_def api_simps split: if_splits option.splits)
  with f1 f2 frame_trans show ?thesis by blast
qed

lemma updateUser_frame:
  assumes "inv w" "om_Namespace (u_meta u) \<noteq> []" "om_Name (u_meta u) \<noteq> []"
    and "(RUsers, om_Namespace (u_meta u), om_Name (u_meta u)) \<in> K"
    and "updateUser srv u p w = (err, w')"
  shows "frame K w w'"
proof -
  let ?x = "ObjUser (with_principal_id (om_Name (p_meta p)) u)"
  obtain r2 w2 where c: "client_update srv RUsers (om_Namespace (u_meta u)) ?x w = (r2, w2)"
    by (cases "client_update srv RUsers (om_Namespace (u_meta u)) ?x w")
  have "frame K w w2"
    using assms by (intro client_update_frame [OF assms(1) _ _ c]) (auto simp: well_named_def)
  moreover have "w' = w2"
    using assms(5) c by (cases r2) (auto simp: updateUser_eq Users_Update_def api_simps)
  ultimately show ?thesis by simp
qed

end

lemma flow_bind_Return:
  "flow_bind m f = Return (r, s) \<longleftrightarrow>
     (\<exists>e. m = Return (Ret e, s) \<and> r = Ret e)
     \<or> (\<exists>x s1. m = Return (Go x, s1) \<and> f x s1 = Return (r, s))"
proof (cases m)
  case (Return p)
  obtain a b where "p = (a, b)" by (cases p)
  with Return show ?thesis by (cases a) auto
qed simp

lemma cached_or_created_cases:
  assumes "cached_or_created sel msg u objs create st = Return (r, st')"
  obtains (made) x w where "objs = []" "create (ct_world st) = ((x, None), w)" "r = Go x"
      "st' = st\<lparr>ct_world := w\<rparr>"
    | (not_made) x e w where "objs = []" "create (ct_world st) = ((x, Some e), w)" "r = Ret (Some e)"
      "st' = st\<lparr>ct_world := w\<rparr>"
    | (found) y v where "objs = [Some y]" "sel y = Some v" "r = Go (Some v)" "st' = st"
    | (several) "1 < length objs" "\<exists>e. r = Ret (Some e)" "st' = st"
proof (cases objs rule: list_0_1_many)
  case none
  obtain x err w where "create (ct_world st) = ((x, err), w)" by (metis surj_pair)
  with none assms made not_made show thesis
    by (cases err) (auto simp: cached_or_created_def on_world_def)
next
  case (one obj)
  with assms found show thesis
    by (auto simp: cached_or_created_def type_assert_def split: option.splits)
next
  case many
  then obtain a b xs where "objs = a # b # xs" by (cases objs rule: list.exhaust; cases "tl objs") auto
  with assms several show thesis by (auto simp: cached_or_created_def)
qed

lemma require_controlled_cases:
  assumes "require_controlled meta_of u obj st = Return (r, st')"
  obtains (controlled) x where "obj = Some x" "IsControlledBy (meta_of x) (u_meta u)" "r = Go x" "st' = st"
    | (foreign) x where "obj = Some x" "\<not> IsControlledBy (meta_of x) (u_meta u)" "\<exists>e. r = Ret (Some e)"
      "ct_world st' = ct_world st"
  using assms
  by (auto simp: require_controlled_def record_event_def split: option.splits if_splits)

context api_store
begin

lemma cached_or_created_frame:
  assumes "inv (ct_world st)"
    and "\<And>res w'. create (ct_world st) = (res, w') \<Longrightarrow> frame K (ct_world st) w'"
    and "cached_or_created sel msg u objs create st = Return (r, st')"
  shows "frame K (ct_world st) (ct_world st')"
  using assms(3)
  by (cases rule: cached_or_created_cases) (use assms(1,2) in \<open>auto intro: frame_refl\<close>)

text \<open>A principal the server has just made is the one asked for, or the zero object.\<close>

lemma createPrincipal_name:
  assumes "inv w" "om_Namespace (u_meta u) \<noteq> []" "om_Namespace (p_meta pl) = om_Namespace (u_meta u)"
    and "om_Name (p_meta pl) \<noteq> []"
    and "createPrincipal srv u pl w = ((Some p, None), w')" "IsControlledBy (p_meta p) (u_meta u)"
  shows "om_Name (p_meta p) = om_Name (p_meta pl)"
proof -
  obtain err w1 where e: "user_ensureNamespaceExists srv w = (err, w1)"
    by (cases "user_ensureNamespaceExists srv w")
  note f1 = user_ensureNamespaceExists_frame [OF assms(1) insertI1 e]
  let ?x = "ObjPrincipal (owned_principal u pl)"
  have err: "err = None \<or> IsAlreadyExists err"
    using assms(5) e by (auto simp: createPrincipal_def split: if_splits)
  obtain r2 w2 where c: "client_create srv RPrincipals (om_Namespace (u_meta u)) ?x w1 = (r2, w2)"
    by (cases "client_create srv RPrincipals (om_Namespace (u_meta u)) ?x w1")
  have wn: "well_named RPrincipals (om_Namespace (u_meta u)) ?x"
    using assms by (simp add: well_named_def)
  have zero: "\<not> IsControlledBy (p_meta zero_principal) (u_meta u)"
    by (simp add: owner_simps)
  from assms(5) e err c have p: "((p, None), w') = into zero_principal as_principal (r2, w2)
      \<or> p = zero_principal"
    by (cases r2) (auto simp: createPrincipal_def Principals_Create_def owned_principal_def api_simps
        split: if_splits)
  from p zero assms(6) have p': "((p, None), w') = into zero_principal as_principal (r2, w2)"
    by auto
  then obtain y where r2: "r2 = Inr y" by (cases r2) (auto simp: api_simps)
  with c have "api_create srv RPrincipals (om_Namespace (u_meta u)) ?x w1 = (Inr y, w2)"
    by (auto simp: client_create_def split: option.splits)
  from create_ok [OF frame_inv [OF f1] wn this] have "om_Name (obj_meta y) = om_Name (p_meta pl)"
    by (simp add: meta_kept_def)
  moreover have "as_principal y = Some p \<or> p = zero_principal"
    using p' r2 by (auto simp: api_simps split: option.splits)
  then have "y = ObjPrincipal p" using zero assms(6) by (cases y) auto
  ultimately show ?thesis by simp
qed

lemma user_sync_principal_frame:
  assumes "inv (ct_world st)" "om_Namespace (u_meta u) \<noteq> []"
    and "\<And>y p. Some y \<in> set principals \<Longrightarrow> as_principal y = Some p \<Longrightarrow>
      om_Name (p_meta p) = GetLocalPrincipalID u"
    and "user_sync_principal srv u (principal_of u) principals st = Return (r, st')"
  shows "frame (user_objects u) (ct_world st) (ct_world st')"
proof -
  let ?K = "user_objects u" and ?i = "GetLocalPrincipalID u"
  note K = user_objects_def [of u]
  have pl: "om_Name (p_meta (principal_of u)) = ?i"
    "om_Namespace (p_meta (principal_of u)) = om_Namespace (u_meta u)" by (simp_all add: principal_of_def)
  have i: "om_Name (p_meta (principal_of u)) \<noteq> []" using pl GetLocalPrincipalID_nonempty by simp
  have create: "frame ?K (ct_world st) w'"
    if "createPrincipal srv u (principal_of u) (ct_world st) = (res, w')" for res w'
    by (rule createPrincipal_frame [OF assms(1,2) pl(2) i _ _ that]) (simp_all add: K pl)
  from assms(4) [unfolded user_sync_principal_def flow_bind_Return]
  consider (stop) e where "cached_or_created as_principal ''can't find unique principal for user %v'' u
       principals (createPrincipal srv u (principal_of u)) st = Return (Ret e, st')"
    | (go) x s1 where "cached_or_created as_principal ''can't find unique principal for user %v'' u
       principals (createPrincipal srv u (principal_of u)) st = Return (Go x, s1)"
      "(\<exists>e. require_controlled p_meta u x s1 = Return (Ret e, st')) \<or>
       (\<exists>p s2. require_controlled p_meta u x s1 = Return (Go p, s2) \<and>
          (if \<not> matchPrincipalID (u_PrincipalIDs u) (om_Name (p_meta p))
             then (case on_world (updatePrincipal srv u p) s2 of ((p', err), st3) \<Rightarrow>
                if err \<noteq> None then Return (Ret err, st3) else Return (Go p', st3))
             else Return (Go (Some p), s2)) = Return (r, st'))"
    by auto
  then show ?thesis
  proof cases
    case stop
    from cached_or_created_frame [OF assms(1) create this] show ?thesis .
  next
    case go
    have f1: "frame ?K (ct_world st) (ct_world s1)"
      by (rule cached_or_created_frame [OF assms(1) create go(1)])
    from go(2) show ?thesis
    proof (elim disjE exE conjE)
      fix e assume "require_controlled p_meta u x s1 = Return (Ret e, st')"
      then have "ct_world st' = ct_world s1" by (cases rule: require_controlled_cases) auto
      with f1 show ?thesis by simp
    next
      fix p s2
      assume rc: "require_controlled p_meta u x s1 = Return (Go p, s2)"
        and rest: "(if \<not> matchPrincipalID (u_PrincipalIDs u) (om_Name (p_meta p))
             then (case on_world (updatePrincipal srv u p) s2 of ((p', err), st3) \<Rightarrow>
                if err \<noteq> None then Return (Ret err, st3) else Return (Go p', st3))
             else Return (Go (Some p), s2)) = Return (r, st')"
      from rc have x: "x = Some p" "IsControlledBy (p_meta p) (u_meta u)" "s2 = s1"
        by (cases rule: require_controlled_cases, auto)+
      have name: "om_Name (p_meta p) = ?i"
        using go(1)
      proof (cases rule: cached_or_created_cases)
        case (made x' w)
        with x createPrincipal_name [OF assms(1,2) pl(2) i, of p w] pl show ?thesis by simp
      next
        case (found y v)
        with x assms(3) [of y v] show ?thesis by simp
      qed auto
      show ?thesis
      proof (cases "?i \<in> set (u_PrincipalIDs u)")
        case True
        with rest name x f1 show ?thesis by simp
      next
        case False
        obtain res w2 where up: "updatePrincipal srv u p (ct_world s1) = (res, w2)"
          by (cases "updatePrincipal srv u p (ct_world s1)")
        have "frame ?K (ct_world s1) w2"
          using name i pl by (intro updatePrincipal_frame [OF frame_inv [OF f1] assms(2) _ _ up])
            (simp_all add: K)
        moreover have "ct_world st' = w2"
          using rest False name x up by (cases res) (auto simp: on_world_def split: if_splits)
        ultimately show ?thesis using f1 frame_trans by blast
      qed
    qed
  qed
qed

end

lemma ByIndex_objs_members:
  assumes "tsm_ok c" "map_of (ts_indexers c) name = Some f" "Some y \<in> set (ByIndex_objs name v c)"
  shows "cached c y \<and> v \<in> set (fst (f y))"
proof -
  obtain objs where "tsm_ByIndex name v c = Inr objs" "Some y \<in> set objs"
    using assms(3) by (cases "tsm_ByIndex name v c") (simp_all add: ByIndex_objs_def)
  with tsm.by_index_members(2) [OF assms(1,2), of v objs y] assms(1) show ?thesis
    by (auto simp: cached_iff)
qed

lemma require_controlled_world:
  "require_controlled meta_of u obj st = Return (r, st') \<Longrightarrow> ct_world st' = ct_world st"
  by (cases rule: require_controlled_cases) auto

context api_store
begin

lemma user_syncHandler_frame:
  assumes "inv (ct_world st)" "cache_ok principalIndexers (ca_principals cs)"
    and "SplitMetaNamespaceKey key = Inr (ns, n)"
    and "tsm_Get (lister_key ns n) (ca_users cs) = Some (ObjUser u)"
    and "om_Namespace (u_meta u) \<noteq> []"
    and "user_syncHandler srv cs key st = Return (err, st')"
  shows "frame (user_objects u) (ct_world st) (ct_world st')"
proof (cases "om_Name (u_meta u) = []")
  case True
  with assms show ?thesis
    by (auto simp: user_syncHandler_def Users_lister_Get_cached frame_refl)
next
  case False
  let ?K = "user_objects u"
  define P where "P = (\<lambda>s :: 'w ctl. frame ?K (ct_world st) (ct_world s))"
  have K: "(RClusterRoles, [], om_Name (u_meta u)) \<in> ?K"
    "(RClusterRoleBindings, [], om_Name (u_meta u)) \<in> ?K"
    "(RUsers, om_Namespace (u_meta u), om_Name (u_meta u)) \<in> ?K"
    by (simp_all add: user_objects_def)
  have step: "leaves P (cached_or_created sel msg u objs create s)"
    if "P s" "\<And>w res w'. inv w \<Longrightarrow> create w = (res, w') \<Longrightarrow> frame ?K w w'"
    for sel :: "k8s_obj \<Rightarrow> 'z option" and msg objs create and s :: "'w ctl"
    unfolding leaves_def P_def
  proof (intro allI impI)
    fix r s' assume "cached_or_created sel msg u objs create s = Return (r, s')"
    with cached_or_created_frame [of s create ?K] that show "frame ?K (ct_world st) (ct_world s')"
      unfolding P_def by (meson frame_inv frame_trans)
  qed
  have check: "leaves P (require_controlled meta_of u obj s)"
    if "P s" for meta_of :: "'z \<Rightarrow> object_meta" and obj and s :: "'w ctl"
    using that require_controlled_world by (fastforce simp: leaves_def P_def)
  have princ: "om_Name (p_meta p) = GetLocalPrincipalID u"
    if "Some y \<in> set (ByIndex_objs PrincipalByIDIndex (GetLocalPrincipalID u) (ca_principals cs))"
      "as_principal y = Some p" for y p
    using ByIndex_objs_members [OF cache_ok_tsm [OF assms(2)] index_of_caches(1) [OF assms(2)] that(1)]
      that(2) by (auto simp: index_members)
  have first: "leaves P (user_sync_principal srv u (principal_of u)
      (ByIndex_objs PrincipalByIDIndex (GetLocalPrincipalID u) (ca_principals cs)) st)"
    using user_sync_principal_frame [OF assms(1,5) princ] by (auto simp: leaves_def P_def)
  have name: "om_Name (p_meta (principal_of u)) = GetLocalPrincipalID u" by (simp add: principal_of_def)
  have last: "leaves P (case pr of None \<Rightarrow> nil_deref | Some p \<Rightarrow>
      (case on_world (updateUser srv u p) s of (err, s8) \<Rightarrow>
         if err \<noteq> None then Return (Ret err, s8)
         else Return (Go (), record_event EventTypeNormal SuccessSynced UserMessageResourceSynced [] s8)))"
    if "P s" for pr s
    using that frame_trans [OF _ updateUser_frame [OF _ assms(5) False K(3)]] frame_inv
    by (fastforce simp: P_def on_world_def record_event_def split: option.splits prod.splits)
  have "leaves P (user_syncHandler srv cs key st)"
    unfolding user_syncHandler_def using assms(3) False
    by (simp add: Users_lister_Get_cached [OF assms(4)] Let_def principal_of_def [symmetric] name)
      (intro leaves_ret_value leaves_flow_bind first step check last
        generateClusterRole_frame [OF _ False K(1)] generateClusterRoleBinding_frame [OF _ False K(2)];
        assumption)
  with assms(6) show ?thesis by (simp add: leaves_def P_def)
qed

end

text \<open>
  C7. A pass over a user changes no object of the cluster other than the user itself, its principal,
  its cluster role, its cluster role binding and the system namespace, whatever the caches hold
  and however the pass ends.
\<close>

theorem user_sync_touches_only_own:
  assumes "tracker_ok (ct_world st)" "caches_ok cs"
    and "SplitMetaNamespaceKey key = Inr (ns, n)"
    and "tsm_Get (lister_key ns n) (ca_users cs) = Some (ObjUser u)" "om_Namespace (u_meta u) \<noteq> []"
    and "user_syncHandler ObjectReaction cs key st = Return (err, st')"
  shows "tracker_ok (ct_world st')
    \<and> same_outside (user_objects u) (tracker_stored (ct_world st)) (tracker_stored (ct_world st'))"
  using tr.user_syncHandler_frame [OF assms(1) _ assms(3-6)] assms(2)
  by (simp add: tr.frame_def caches_ok_def)

section \<open>Users that have their objects\<close>

lemma ByIndex_objs_filter:
  assumes "tsm_ok c" "map_of (ts_indexers c) name = Some f"
    and "filter (\<lambda>x. v \<in> set (fst (f x))) (tsm_List c) = [x]"
  shows "ByIndex_objs name v c = [Some x]"
proof -
  let ?Q = "\<lambda>e. v \<in> set (fst (f (snd e)))"
  have d: "distinct (map fst (ts_items c))" using assms(1) by (simp add: tsm_ok_def)
  have "map snd (filter ?Q (ts_items c)) = [x]"
    using assms(3) by (simp add: tsm_List_def filter_map comp_def)
  then obtain k where k: "filter ?Q (ts_items c) = [(k, x)]" by auto
  then have only: "(k', y) \<in> set (ts_items c) \<and> v \<in> set (fst (f y)) \<longleftrightarrow> (k', y) = (k, x)" for k' y
  proof -
    have "(k', y) \<in> set (filter ?Q (ts_items c)) \<longleftrightarrow> (k', y) \<in> set [(k, x)]" by (simp only: k)
    then show ?thesis by simp
  qed
  show ?thesis
    using only d by (intro ByIndex_objs_one [OF assms(1,2), of k]) auto
qed

text \<open>The caches hold exactly one principal, cluster role and binding under the names of a user.\<close>

definition caches_hold :: "caches \<Rightarrow> user \<Rightarrow> principal \<Rightarrow> role \<Rightarrow> role_binding \<Rightarrow> bool" where
  "caches_hold cs u p r b \<longleftrightarrow>
     tsm_Get (lister_key (om_Namespace (u_meta u)) (om_Name (u_meta u))) (ca_users cs) = Some (ObjUser u)
     \<and> filter (\<lambda>x. GetLocalPrincipalID u \<in> set (fst (PrincipalByID x))) (tsm_List (ca_principals cs))
         = [ObjPrincipal p]
     \<and> filter (\<lambda>x. om_Name (u_meta u) \<in> set (fst (ClusterRoleByName x))) (tsm_List (ca_crs cs))
         = [ObjClusterRole r]
     \<and> filter (\<lambda>x. om_Name (u_meta u) \<in> set (fst (ClusterRoleBindingByName x))) (tsm_List (ca_crbs cs))
         = [ObjClusterRoleBinding b]"

lemma filter_single_member: "filter P xs = [x] \<Longrightarrow> P x"
proof -
  assume "filter P xs = [x]"
  then have "x \<in> set (filter P xs)" by simp
  then show "P x" by simp
qed

lemma user_sync_cached:
  assumes "caches_ok cs" "valid_user u" "caches_hold cs u p r b"
    and "GetLocalPrincipalID u \<in> set (u_PrincipalIDs u)"
  shows "user_syncHandler srv cs (MetaNamespaceKeyFunc (u_meta u)) st =
    (if \<not> IsControlledBy (p_meta p) (u_meta u) then
       Return (Some (Errorf UserMessageResourceExists [om_Name (p_meta p)]),
         record_event EventTypeWarning ErrResourceExists UserMessageResourceExists [om_Name (p_meta p)] st)
     else if \<not> IsControlledBy (ro_meta r) (u_meta u) then
       Return (Some (Errorf UserMessageResourceExists [om_Name (ro_meta r)]),
         record_event EventTypeWarning ErrResourceExists UserMessageResourceExists [om_Name (ro_meta r)] st)
     else if \<not> IsControlledBy (rb_meta b) (u_meta u) then
       Return (Some (Errorf UserMessageResourceExists [om_Name (rb_meta b)]),
         record_event EventTypeWarning ErrResourceExists UserMessageResourceExists [om_Name (rb_meta b)] st)
     else (case on_world (updateUser srv u p) st of
       (err, st1) \<Rightarrow> if err \<noteq> None then Return (err, st1)
         else Return (None, record_event EventTypeNormal SuccessSynced UserMessageResourceSynced [] st1)))"
proof -
  let ?n = "om_Name (u_meta u)" and ?i = "GetLocalPrincipalID u"
  have ok: "cache_ok principalIndexers (ca_principals cs)" "cache_ok crIndexers (ca_crs cs)"
    "cache_ok crbIndexers (ca_crbs cs)" using assms(1) by (auto simp: caches_ok_def)
  note h = assms(3) [unfolded caches_hold_def]
  have found: "ByIndex_objs PrincipalByIDIndex ?i (ca_principals cs) = [Some (ObjPrincipal p)]"
    "ByIndex_objs ClusterRoleByNameIndex ?n (ca_crs cs) = [Some (ObjClusterRole r)]"
    "ByIndex_objs ClusterRoleBindingByNameIndex ?n (ca_crbs cs) = [Some (ObjClusterRoleBinding b)]"
    using h ok by (auto intro!: ByIndex_objs_filter index_of_caches cache_ok_tsm)
  have p: "om_Name (p_meta p) = ?i"
    using filter_single_member [of _ _ "ObjPrincipal p"] h by (auto simp: index_members)
  have "?n \<noteq> []" using assms(2) by (simp add: valid_user_def)
  then show ?thesis
    using found assms(4) p h
    by (simp add: user_syncHandler_def user_key_split [OF assms(2)] Users_lister_Get_cached Let_def
        user_sync_principal_def cached_or_created_def type_assert_def require_controlled_def)
      (simp split: prod.splits)
qed

lemma user_sync_fixed:
  assumes "caches_ok cs" "valid_user u" "caches_hold cs u p r b"
    and "GetLocalPrincipalID u \<in> set (u_PrincipalIDs u)"
    and "IsControlledBy (p_meta p) (u_meta u)" "IsControlledBy (ro_meta r) (u_meta u)"
    "IsControlledBy (rb_meta b) (u_meta u)"
    and "tracker_ok w" "tracker_stored w RUsers (om_Namespace (u_meta u)) (om_Name (u_meta u)) = Some (ObjUser u)"
  obtains w' where "user_syncHandler ObjectReaction cs (MetaNamespaceKeyFunc (u_meta u))
        \<lparr>ct_world = w, ct_events = evs\<rparr> =
        Return (None, \<lparr>ct_world = w', ct_events = evs @ [synced_event]\<rparr>)"
    "tracker_ok w'"
    "tracker_stored w' = tracker_stored w"
proof -
  have p: "om_Name (p_meta p) = GetLocalPrincipalID u"
    using filter_single_member [of _ _ "ObjPrincipal p"] assms(3)
    by (auto simp: caches_hold_def index_members)
  have u: "with_principal_id (om_Name (p_meta p)) u = u"
    using assms(4) p by (simp add: with_principal_id_def)
  from updateUser_ok [OF assms(8,2), of p] assms(9) u obtain w1 where
    w1: "updateUser ObjectReaction u p w = (None, w1)" "tracker_ok w1"
    "tracker_stored w1 = stored_put RUsers (om_Namespace (u_meta u)) (om_Name (u_meta u)) (ObjUser u)
       (tracker_stored w)" by auto
  have "tracker_stored w1 = tracker_stored w" using w1(3) assms(9) by (auto simp: fun_eq_iff)
  then show thesis
    using w1 assms(5-7)
    by (intro that [of w1]) (simp_all add: user_sync_cached [OF assms(1-4)] on_world_simp record_event_def synced_event_def)
qed

text \<open>
  A user that has its principal, role and binding, and lists the principal's id, is a fixed point:
  a pass succeeds, records a \<open>Synced\<close> event, and leaves every object of the cluster as it was.
\<close>

theorem user_sync_converged:
  assumes "caches_ok cs" "valid_user u" "caches_hold cs u p r b"
    and "GetLocalPrincipalID u \<in> set (u_PrincipalIDs u)"
    and "IsControlledBy (p_meta p) (u_meta u)" "IsControlledBy (ro_meta r) (u_meta u)"
    "IsControlledBy (rb_meta b) (u_meta u)"
    and "tracker_ok w" "tracker_stored w RUsers (om_Namespace (u_meta u)) (om_Name (u_meta u)) = Some (ObjUser u)"
  shows "\<exists>w'. user_syncHandler ObjectReaction cs (MetaNamespaceKeyFunc (u_meta u))
        \<lparr>ct_world = w, ct_events = evs\<rparr> =
        Return (None, \<lparr>ct_world = w', ct_events = evs @ [synced_event]\<rparr>)
    \<and> tracker_ok w' \<and> tracker_stored w' = tracker_stored w"
  by (rule user_sync_fixed [OF assms]) blast

text \<open>
  C15. When the principal, the role or the binding under the user's names belongs to something else,
  the pass fails with one \<open>ErrResourceExists\<close> warning and sends no request to the API at all.
\<close>

theorem user_sync_refuses_foreign:
  assumes "caches_ok cs" "valid_user u" "caches_hold cs u p r b"
    and "GetLocalPrincipalID u \<in> set (u_PrincipalIDs u)"
    and "\<not> (IsControlledBy (p_meta p) (u_meta u) \<and> IsControlledBy (ro_meta r) (u_meta u)
          \<and> IsControlledBy (rb_meta b) (u_meta u))"
  shows "\<exists>e ev. user_syncHandler srv cs (MetaNamespaceKeyFunc (u_meta u)) st =
       Return (Some e, st\<lparr>ct_events := ct_events st @ [ev]\<rparr>)
     \<and> ev_type ev = EventTypeWarning \<and> ev_reason ev = ErrResourceExists"
  using assms(5) by (auto simp: user_sync_cached [OF assms(1-4)] record_event_def)

text \<open>
  When the cluster role of a user exists but has not reached the cache yet (the informer is
  behind, as after the controller's own creation), \<open>generateClusterRole\<close> answers with neither a role
  nor an error, and the pass dereferences \<open>nil\<close>.
\<close>

theorem user_sync_stale_role_panics:
  assumes "caches_ok cs" "valid_user u"
    and "tsm_Get (lister_key (om_Namespace (u_meta u)) (om_Name (u_meta u))) (ca_users cs) = Some (ObjUser u)"
    and "filter (\<lambda>x. GetLocalPrincipalID u \<in> set (fst (PrincipalByID x))) (tsm_List (ca_principals cs))
         = [ObjPrincipal p]"
    and "IsControlledBy (p_meta p) (u_meta u)" "GetLocalPrincipalID u \<in> set (u_PrincipalIDs u)"
    and "\<forall>r. cached (ca_crs cs) (ObjClusterRole r) \<longrightarrow> om_Name (ro_meta r) \<noteq> om_Name (u_meta u)"
    and "tracker_ok (ct_world st)" "tracker_stored (ct_world st) RClusterRoles [] (om_Name (u_meta u)) \<noteq> None"
  shows "\<exists>m. user_syncHandler ObjectReaction cs (MetaNamespaceKeyFunc (u_meta u)) st = Panic m"
proof -
  let ?n = "om_Name (u_meta u)" and ?i = "GetLocalPrincipalID u"
  have ok: "cache_ok principalIndexers (ca_principals cs)" "cache_ok crIndexers (ca_crs cs)"
    using assms(1) by (auto simp: caches_ok_def)
  have found: "ByIndex_objs PrincipalByIDIndex ?i (ca_principals cs) = [Some (ObjPrincipal p)]"
    using assms(4) ok by (auto intro!: ByIndex_objs_filter index_of_caches cache_ok_tsm)
  have none: "ByIndex_objs ClusterRoleByNameIndex ?n (ca_crs cs) = []"
    using assms(7) ok by (auto intro!: ByIndex_objs_none index_of_caches cache_ok_tsm simp: index_members)
  have p: "om_Name (p_meta p) = ?i"
    using filter_single_member [OF assms(4)] by (auto simp: index_members)
  have n: "?n \<noteq> []" "path_segment_ok ?n" using assms(2) by (auto simp: valid_user_def)
  obtain x where "tracker_stored (ct_world st) RClusterRoles [] ?n = Some x" using assms(9) by auto
  then have "client_get ObjectReaction RClusterRoles [] ?n (ct_world st) = (Inr x, ct_world st)"
    using client_get_tracker [OF assms(8) n, of RClusterRoles "[]"] by simp
  then have "generateClusterRole ObjectReaction ''admin'' u (ct_world st) = ((None, None), ct_world st)"
    by (simp add: generateClusterRole_def ClusterRoles_Get_def api_simps)
  then show ?thesis
    using found none p n(1) assms(5,6)
    by (simp add: user_syncHandler_def user_key_split [OF assms(2)] Users_lister_Get_cached [OF assms(3)]
        Let_def user_sync_principal_def cached_or_created_def type_assert_def require_controlled_def
        on_world_def)
qed

text \<open>
  When the user's own principal exists but has not reached the cache yet, the answer
  \<open>AlreadyExists\<close> is taken for success with a zero object, and the pass reports the principal as
  belonging to somebody else.
\<close>

theorem user_sync_stale_principal_refused:
  assumes "caches_ok cs" "valid_user u"
    and "tsm_Get (lister_key (om_Namespace (u_meta u)) (om_Name (u_meta u))) (ca_users cs) = Some (ObjUser u)"
    and "\<forall>p. cached (ca_principals cs) (ObjPrincipal p) \<longrightarrow> om_Name (p_meta p) \<noteq> GetLocalPrincipalID u"
    and "tracker_ok (ct_world st)"
    and "tracker_stored (ct_world st) RPrincipals (om_Namespace (u_meta u)) (GetLocalPrincipalID u) =
       Some (ObjPrincipal p)" "IsControlledBy (p_meta p) (u_meta u)"
  shows "\<exists>e st' ev. user_syncHandler ObjectReaction cs (MetaNamespaceKeyFunc (u_meta u)) st =
      Return (Some e, st') \<and> ct_events st' = ct_events st @ [ev] \<and> ev_reason ev = ErrResourceExists"
proof -
  let ?ns = "om_Namespace (u_meta u)" and ?n = "om_Name (u_meta u)" and ?i = "GetLocalPrincipalID u"
  let ?x = "ObjPrincipal (owned_principal u (principal_of u))"
  have ok: "cache_ok principalIndexers (ca_principals cs)" using assms(1) by (auto simp: caches_ok_def)
  have none: "ByIndex_objs PrincipalByIDIndex ?i (ca_principals cs) = []"
    using assms(4) ok by (auto intro!: ByIndex_objs_none index_of_caches cache_ok_tsm simp: index_members)
  have pl: "om_Namespace (p_meta (principal_of u)) = ?ns" "om_Name (p_meta (principal_of u)) = ?i"
    by (simp_all add: principal_of_def)
  obtain err w0 where e: "user_ensureNamespaceExists ObjectReaction (ct_world st) = (err, w0)"
    "err = None \<or> IsAlreadyExists err" "tracker_ok w0"
    and s0: "same_outside {(RNamespaces, [], UserNamespace)} (tracker_stored (ct_world st)) (tracker_stored w0)"
    unfolding user_ensureNamespaceExists_def
    by (rule tracker_ensure_namespace [OF assms(5), of UserNamespace]) (simp add: UserNamespace_def)
  have wn: "well_named RPrincipals ?ns ?x"
    using assms(2) pl GetLocalPrincipalID_nonempty by (simp add: well_named_def valid_user_def)
  have "tracker_stored w0 RPrincipals ?ns (om_Name (obj_meta ?x)) \<noteq> None"
    using assms(6) same_outsideD [OF s0, of RPrincipals] pl by simp
  from client_create_tracker_exists [OF e(3) wn _ this] assms(2) pl
  have c: "client_create ObjectReaction RPrincipals ?ns ?x w0 = (Inl (StatusError StatusReasonAlreadyExists ?i), w0)"
    by (simp add: valid_user_def)
  have "createPrincipal ObjectReaction u (principal_of u) (ct_world st) = ((Some zero_principal, None), w0)"
    using e c by (simp add: createPrincipal_def Principals_Create_def owned_principal_def api_simps go_err)
  then show ?thesis
    using none pl assms(2)
    by (simp add: user_syncHandler_def user_key_split [OF assms(2)] Users_lister_Get_cached [OF assms(3)]
        Let_def principal_of_def [symmetric] user_sync_principal_def cached_or_created_def
        require_controlled_def on_world_def owner_simps record_event_def valid_user_def)
qed

section \<open>Events\<close>

text \<open>
  A change of a namespaced object whose controller is a user puts the key of exactly that user
  on the queue (at once or after the rate limiter's delay), and forgets nothing already there.
\<close>

theorem user_handleObject_enqueues_owner:
  assumes "wq_ok (dq_queue d)" "\<not> wq_shuttingDown (dq_queue d)"
    and "GetControllerOf (obj_meta x) = Some ref" "or_Kind ref = ''User''"
    and "tsm_Get (lister_key (om_Namespace (obj_meta x)) (or_Name ref)) (ca_users cs) = Some (ObjUser u)"
  shows "\<exists>d'. user_handleObject cs no_delay (Watched x) d = Return d' \<and> wq_ok (dq_queue d')
    \<and> wq_dirty (dq_queue d') \<union> dq_waiting d' =
        wq_dirty (dq_queue d) \<union> dq_waiting d \<union> {Key (MetaNamespaceKeyFunc (u_meta u))}
    \<and> wq_processing (dq_queue d') = wq_processing (dq_queue d)"
proof -
  have "user_handleObject cs no_delay (Watched x) d = Return (enqueue_obj (Watched (ObjUser u)) no_delay d)"
    using assms(3-5) by (simp add: user_handleObject_def decode_object_def Users_lister_Get_cached enqueueUser_def)
  then show ?thesis
    using assms(1,2)
    by (auto simp: enqueue_obj_def AddRateLimited_def AddAfter_def wq.add_pending wq.add_inv wq.add_processing)
qed

text \<open>
  Cluster roles and cluster role bindings have no namespace, so the lookup of their owner by the
  object's namespace never finds a user: their changes and deletions enqueue nothing.
\<close>

theorem user_handleObject_cluster_scoped_ignored:
  assumes "keyed (ca_users cs)" "om_Namespace (obj_meta x) = []"
  shows "user_handleObject cs no_delay (Watched x) d = Return d"
  using keyed_empty_namespace [OF assms(1)] assms(2)
  by (auto simp: user_handleObject_def decode_object_def lister_defs lister_Get_def tsm_Get_def
      split: option.splits)

section \<open>Examples\<close>

lemma informer_with_ok:
  assumes "ixs \<in> {userIndexers, tokenIndexers, principalIndexers, crbIndexers, crIndexers}"
    and "distinct (map (\<lambda>x. MetaNamespaceKeyFunc (obj_meta x)) xs)"
  shows "cache_ok ixs (informer_with ixs xs)"
    "ts_items (informer_with ixs xs) = map (\<lambda>x. (MetaNamespaceKeyFunc (obj_meta x), x)) xs"
proof -
  let ?c = "NewThreadSafeStore ((NamespaceIndex, MetaNamespaceIndexFunc) # ixs)"
  let ?kxs = "map (\<lambda>x. (MetaNamespaceKeyFunc (obj_meta x), x)) xs"
  have "tsm_ok ?c"
    using assms(1) by (intro tsm_ok_init) (auto simp: indexers_defs index_names index_funcs_pure)
  moreover have "distinct (map fst ?kxs)" using assms(2) by (simp add: comp_def)
  ultimately obtain c' where "tsm_Replace ?kxs ?c = Return c'" "tsm_ok c'"
    using tsm.replace_law by blast
  then show "cache_ok ixs (informer_with ixs xs)" "ts_items (informer_with ixs xs) = ?kxs"
    by (auto simp: informer_with_def cache_ok_def tsm_Replace_def NewThreadSafeStore_def
        bind_outcome_Return_iff)
qed

definition sample_user :: user where
  "sample_user = zero_user\<lparr>
     u_meta := zero_meta\<lparr>om_Name := ''u-1'', om_Namespace := ''kube-system'', om_UID := ''42''\<rparr>,
     u_Username := ''ann''\<rparr>"

definition sample_caches :: "user \<Rightarrow> principal list \<Rightarrow> role list \<Rightarrow> role_binding list \<Rightarrow> caches" where
  "sample_caches u ps rs bs =
     \<lparr>ca_users = informer_with userIndexers [ObjUser u], ca_tokens = informer_with tokenIndexers [],
      ca_principals = informer_with principalIndexers (map ObjPrincipal ps),
      ca_crbs = informer_with crbIndexers (map ObjClusterRoleBinding bs),
      ca_crs = informer_with crIndexers (map ObjClusterRole rs)\<rparr>"

definition settled_user :: user where
  "settled_user = with_principal_id ''local.kube-system.u-1'' sample_user"

lemma sample_user_sel [simp]:
  "om_Name (u_meta sample_user) = ''u-1''" "om_Namespace (u_meta sample_user) = ''kube-system''"
  "u_meta settled_user = u_meta sample_user"
  "u_PrincipalIDs sample_user = []" "u_PrincipalIDs settled_user = [''local.kube-system.u-1'']"
  by (simp_all add: sample_user_def settled_user_def with_principal_id_def zero_user_def)

lemma sample_user_id [simp]:
  "GetLocalPrincipalID sample_user = ''local.kube-system.u-1''"
  "GetLocalPrincipalID settled_user = ''local.kube-system.u-1''"
  by (simp_all add: GetLocalPrincipalID_def HasPrefix_def)

lemma sample_user_valid: "valid_user sample_user" "valid_user settled_user"
  by (simp_all add: valid_user_def path_segment_ok_def)

lemma sample_caches_ok:
  assumes "distinct (map (\<lambda>p. MetaNamespaceKeyFunc (p_meta p)) ps)"
    "distinct (map (\<lambda>r. MetaNamespaceKeyFunc (ro_meta r)) rs)"
    "distinct (map (\<lambda>b. MetaNamespaceKeyFunc (rb_meta b)) bs)"
  shows "caches_ok (sample_caches u ps rs bs)"
  using assms by (simp add: caches_ok_def sample_caches_def informer_with_ok comp_def)

lemma sample_caches_user:
  "tsm_Get (MetaNamespaceKeyFunc (u_meta u)) (ca_users (sample_caches u ps rs bs)) = Some (ObjUser u)"
  by (simp add: sample_caches_def tsm_Get_def informer_with_ok)

lemma sample_caches_lists:
  "distinct (map (\<lambda>p. MetaNamespaceKeyFunc (p_meta p)) ps) \<Longrightarrow>
     tsm_List (ca_principals (sample_caches u ps rs bs)) = map ObjPrincipal ps"
  "distinct (map (\<lambda>r. MetaNamespaceKeyFunc (ro_meta r)) rs) \<Longrightarrow>
     tsm_List (ca_crs (sample_caches u ps rs bs)) = map ObjClusterRole rs"
  "distinct (map (\<lambda>b. MetaNamespaceKeyFunc (rb_meta b)) bs) \<Longrightarrow>
     tsm_List (ca_crbs (sample_caches u ps rs bs)) = map ObjClusterRoleBinding bs"
  by (simp_all add: sample_caches_def tsm_List_def informer_with_ok comp_def)

lemma sample_user_key [simp]:
  "MetaNamespaceKeyFunc (u_meta sample_user) = ''kube-system/u-1''"
  "lister_key ''kube-system'' ''u-1'' = ''kube-system/u-1''"
  by (simp_all add: MetaNamespaceKeyFunc_def lister_key_def)

lemma sample_tracker_ok: "tracker_ok (tracker_with [ObjUser u])" if "om_Namespace (u_meta u) \<noteq> []"
  using that by (intro tracker_with_ok) simp_all

theorem user_sync_first_pass_witness:
  "\<exists>w'. user_syncHandler ObjectReaction (sample_caches sample_user [] [] []) ''kube-system/u-1''
        \<lparr>ct_world = tracker_with [ObjUser sample_user], ct_events = []\<rparr> =
        Return (None, \<lparr>ct_world = w', ct_events = [synced_event]\<rparr>)
    \<and> tracker_stored w' RClusterRoles [] ''u-1'' =
        Some (ObjClusterRole (user_cluster_role ''admin'' sample_user))"
proof -
  have "tracker_ok (tracker_with [ObjUser sample_user])" by (rule sample_tracker_ok) simp
  with user_sync_first_pass [of "sample_caches sample_user [] [] []" sample_user
      "tracker_with [ObjUser sample_user]" "[]"]
    sample_caches_user [of sample_user "[]" "[]" "[]"]
  show ?thesis
    by (auto simp: sample_caches_ok sample_user_valid sample_user_key sample_caches_lists cached_def
        tracker_with_stored same_key_def)
qed

abbreviation settled_caches :: caches where
  "settled_caches \<equiv> sample_caches settled_user [owned_principal settled_user (principal_of settled_user)]
     [user_cluster_role ''admin'' settled_user] [user_cluster_role_binding settled_user]"

lemma settled_caches_hold:
  "caches_ok settled_caches"
  "caches_hold settled_caches settled_user (owned_principal settled_user (principal_of settled_user))
     (user_cluster_role ''admin'' settled_user) (user_cluster_role_binding settled_user)"
proof -
  show "caches_ok settled_caches" by (rule sample_caches_ok) simp_all
  show "caches_hold settled_caches settled_user (owned_principal settled_user (principal_of settled_user))
     (user_cluster_role ''admin'' settled_user) (user_cluster_role_binding settled_user)"
    using sample_caches_user [of settled_user]
    by (simp add: caches_hold_def sample_caches_lists index_members principal_of_def sample_user_key)
qed

theorem user_sync_converged_witness:
  "\<exists>w'. user_syncHandler ObjectReaction settled_caches ''kube-system/u-1''
        \<lparr>ct_world = tracker_with [ObjUser settled_user], ct_events = []\<rparr> =
        Return (None, \<lparr>ct_world = w', ct_events = [synced_event]\<rparr>)
    \<and> tracker_stored w' = tracker_stored (tracker_with [ObjUser settled_user])"
proof -
  have "tracker_ok (tracker_with [ObjUser settled_user])" by (rule sample_tracker_ok) simp
  with user_sync_converged [OF settled_caches_hold(1) sample_user_valid(2) settled_caches_hold(2)
      _ owned_principal_sel(4) user_roles_sel(3) user_roles_sel(6),
      of "tracker_with [ObjUser settled_user]" "[]"]
  show ?thesis
    by (auto simp: sample_user_key tracker_with_stored same_key_def)
qed

theorem user_sync_refuses_foreign_witness:
  "\<exists>e ev. user_syncHandler ObjectReaction
      (sample_caches settled_user [principal_of settled_user] [user_cluster_role ''admin'' settled_user]
        [user_cluster_role_binding settled_user]) ''kube-system/u-1''
      \<lparr>ct_world = NewObjectTracker, ct_events = []\<rparr> =
    Return (Some e, \<lparr>ct_world = NewObjectTracker, ct_events = [ev]\<rparr>) \<and> ev_type ev = EventTypeWarning"
proof -
  let ?cs = "sample_caches settled_user [principal_of settled_user] [user_cluster_role ''admin'' settled_user]
        [user_cluster_role_binding settled_user]"
  have ok: "caches_ok ?cs" by (rule sample_caches_ok) simp_all
  have hold: "caches_hold ?cs settled_user (principal_of settled_user)
      (user_cluster_role ''admin'' settled_user) (user_cluster_role_binding settled_user)"
    using sample_caches_user [of settled_user]
    by (simp add: caches_hold_def sample_caches_lists index_members principal_of_def)
  have "\<not> IsControlledBy (p_meta (principal_of settled_user)) (u_meta settled_user)"
    by (rule not_controlled_no_refs) (simp add: principal_of_def ToPrincipal_def)
  with user_sync_refuses_foreign [OF ok sample_user_valid(2) hold, of ObjectReaction
      "\<lparr>ct_world = NewObjectTracker, ct_events = []\<rparr>"]
  show ?thesis by auto
qed

theorem user_sync_touches_only_own_witness:
  "\<exists>st'. user_syncHandler ObjectReaction settled_caches ''kube-system/u-1''
      \<lparr>ct_world = tracker_with [ObjUser settled_user], ct_events = []\<rparr> = Return (None, st')
    \<and> same_outside (user_objects settled_user) (tracker_stored (tracker_with [ObjUser settled_user]))
        (tracker_stored (ct_world st'))"
proof -
  let ?w = "tracker_with [ObjUser settled_user]"
  let ?p = "owned_principal settled_user (principal_of settled_user)"
  have w: "tracker_ok ?w" by (rule sample_tracker_ok) simp
  have "tracker_stored ?w RUsers (om_Namespace (u_meta settled_user)) (om_Name (u_meta settled_user)) \<noteq> None"
    by (simp add: tracker_with_stored same_key_def)
  then obtain w1 where "updateUser ObjectReaction settled_user ?p ?w = (None, w1)"
    using updateUser_ok [OF w sample_user_valid(2), of ?p] by auto
  then have run: "user_syncHandler ObjectReaction settled_caches ''kube-system/u-1'' \<lparr>ct_world = ?w, ct_events = []\<rparr> =
      Return (None, \<lparr>ct_world = w1, ct_events = [synced_event]\<rparr>)"
    using user_sync_cached [OF settled_caches_hold(1) sample_user_valid(2) settled_caches_hold(2),
        of ObjectReaction "\<lparr>ct_world = ?w, ct_events = []\<rparr>"]
      owned_principal_sel(4) [of settled_user] user_roles_sel(3) [of _ settled_user] user_roles_sel(6) [of settled_user]
    by (simp add: on_world_simp record_event_def synced_event_def)
  have "SplitMetaNamespaceKey ''kube-system/u-1'' = Inr (''kube-system'', ''u-1'')"
    by (simp add: SplitMetaNamespaceKey_def)
  from user_sync_touches_only_own [OF _ settled_caches_hold(1) this _ _ run] w
    sample_caches_user [of settled_user] run
  show ?thesis by auto
qed

theorem user_sync_stale_role_panics_witness:
  "\<exists>m. user_syncHandler ObjectReaction
      (sample_caches settled_user [owned_principal settled_user (principal_of settled_user)] [] [])
      ''kube-system/u-1''
      \<lparr>ct_world = tracker_with [ObjUser settled_user, ObjClusterRole (user_cluster_role ''admin'' settled_user)],
       ct_events = []\<rparr> = Panic m"
proof -
  let ?p = "owned_principal settled_user (principal_of settled_user)"
  let ?cs = "sample_caches settled_user [?p] [] []"
  let ?w = "tracker_with [ObjUser settled_user, ObjClusterRole (user_cluster_role ''admin'' settled_user)]"
  have ok: "caches_ok ?cs" by (rule sample_caches_ok) simp_all
  have w: "tracker_ok ?w" by (rule tracker_with_ok) simp_all
  have user: "tsm_Get (lister_key (om_Namespace (u_meta settled_user)) (om_Name (u_meta settled_user)))
      (ca_users ?cs) = Some (ObjUser settled_user)"
    using sample_caches_user [of settled_user] by simp
  have p: "filter (\<lambda>x. GetLocalPrincipalID settled_user \<in> set (fst (PrincipalByID x)))
      (tsm_List (ca_principals ?cs)) = [ObjPrincipal ?p]"
    by (simp add: sample_caches_lists index_members principal_of_def)
  from user_sync_stale_role_panics [OF ok sample_user_valid(2) user p owned_principal_sel(4), of
      "\<lparr>ct_world = ?w, ct_events = []\<rparr>"] w
  show ?thesis by (auto simp: cached_def sample_caches_lists tracker_with_stored same_key_def)
qed

theorem user_sync_stale_principal_refused_witness:
  "\<exists>e st' ev. user_syncHandler ObjectReaction (sample_caches sample_user [] [] []) ''kube-system/u-1''
      \<lparr>ct_world = tracker_with [ObjUser sample_user,
         ObjPrincipal (owned_principal sample_user (principal_of sample_user))], ct_events = []\<rparr> =
      Return (Some e, st') \<and> ct_events st' = [ev] \<and> ev_reason ev = ErrResourceExists"
proof -
  let ?p = "owned_principal sample_user (principal_of sample_user)"
  let ?cs = "sample_caches sample_user [] [] []"
  let ?st = "\<lparr>ct_world = tracker_with [ObjUser sample_user, ObjPrincipal ?p], ct_events = []\<rparr>"
  have ok: "caches_ok ?cs" by (rule sample_caches_ok) simp_all
  have w: "tracker_ok (ct_world ?st)"
    using tracker_with_ok [of "[ObjUser sample_user, ObjPrincipal ?p]"] by (simp add: principal_of_def)
  have user: "tsm_Get (lister_key (om_Namespace (u_meta sample_user)) (om_Name (u_meta sample_user)))
      (ca_users ?cs) = Some (ObjUser sample_user)"
    using sample_caches_user [of sample_user] by simp
  have p: "tracker_stored (ct_world ?st) RPrincipals (om_Namespace (u_meta sample_user))
      (GetLocalPrincipalID sample_user) = Some (ObjPrincipal ?p)"
    by (simp add: tracker_with_stored same_key_def principal_of_def)
  from user_sync_stale_principal_refused [OF ok sample_user_valid(1) user _ w p owned_principal_sel(4)]
  show ?thesis by (auto simp: cached_def sample_caches_lists)
qed

theorem user_handleObject_enqueues_owner_witness:
  "\<exists>d'. user_handleObject (sample_caches sample_user [] [] []) True
      (Watched (ObjPrincipal (owned_principal sample_user (principal_of sample_user)))) dq_New = Return d'
    \<and> Key ''kube-system/u-1'' \<in> wq_dirty (dq_queue d') \<union> dq_waiting d'"
proof -
  let ?x = "ObjPrincipal (owned_principal sample_user (principal_of sample_user))"
  have ref: "GetControllerOf (obj_meta ?x) = Some (user_owner_ref sample_user)"
    by (simp add: owned_principal_def user_owner_ref_def owner_simps)
  have kind: "or_Kind (user_owner_ref sample_user) = ''User''" "or_Name (user_owner_ref sample_user) = ''u-1''"
    by (simp_all add: user_owner_ref_def NewControllerRef_def cube_gvk_def)
  have user: "tsm_Get (lister_key (om_Namespace (obj_meta ?x)) (or_Name (user_owner_ref sample_user)))
      (ca_users (sample_caches sample_user [] [] [])) = Some (ObjUser sample_user)"
    using sample_caches_user [of sample_user] by (simp add: principal_of_def kind)
  have "wq_ok (dq_queue dq_New)" "\<not> wq_shuttingDown (dq_queue dq_New)"
    by (simp_all add: dq_New_def wq_ok_New) (simp add: wq_New_def)
  from user_handleObject_enqueues_owner [OF this ref kind(1) user, of True]
  show ?thesis by auto
qed

theorem user_handleObject_cluster_scoped_ignored_witness:
  "user_handleObject (sample_caches sample_user [] [] []) True
      (Watched (ObjClusterRole (user_cluster_role ''admin'' sample_user))) dq_New = Return dq_New"
  by (rule user_handleObject_cluster_scoped_ignored)
    (simp_all add: keyed_def sample_caches_def informer_with_ok)

lemma user_search_example:
  "\<exists>objs. tsm_ByIndex UserSearchIndex ''an'' (informer_with userIndexers [ObjUser sample_user]) = Inr objs
    \<and> Some (ObjUser sample_user) \<in> set objs"
proof -
  let ?c = "informer_with userIndexers [ObjUser sample_user]"
  have ok: "cache_ok userIndexers ?c" by (rule informer_with_ok) simp_all
  obtain objs where "tsm_ByIndex UserSearchIndex ''an'' ?c = Inr objs"
    using index_of_caches(4) [OF ok] by (simp add: tsm_ByIndex_def)
  moreover from user_search_exact [OF ok this, of sample_user]
  have "Some (ObjUser sample_user) \<in> set objs"
    by (simp add: cached_def tsm_List_def informer_with_ok HasPrefix_def) (simp add: sample_user_def)
  ultimately show ?thesis by blast
qed

end
