(* ===== verification/Cube_Bundle.thy ===== *)
theory Cube_Bundle
  imports Cube_Handlers Cube_Tracker
begin

text \<open>
  What the three bundles of \<open>controller/infra_controller.go\<close> (Dashboard, Longhorn, RancherVM) have in
  common: a namespace, then a sequence of objects that are created one after the other and may
  exist already, then the deployment the infrastructure stands for.  Every object is controlled by
  the infrastructure.

  The references between the objects of a bundle (accounts, roles, selectors, volumes) are what the
  predicate \<open>bundle_refs_ok\<close> checks.
\<close>

definition infra_owner_ref :: "infrastructure \<Rightarrow> owner_reference" where
  "infra_owner_ref infra = NewControllerRef (i_meta infra) (cube_gvk ''Infrastructure'')"

definition ensureNamespaceExists :: "'w api_server \<Rightarrow> string \<Rightarrow> 'w \<Rightarrow> go_error option \<times> 'w" where
  "ensureNamespaceExists srv ns w =
     create_err srv [] (ObjNamespace \<lparr>ns_meta = zero_meta\<lparr>om_Name := ns\<rparr>\<rparr>) w"

definition create_bundle ::
    "'w api_server \<Rightarrow> string \<Rightarrow> (string \<times> k8s_obj) list \<Rightarrow> deployment \<Rightarrow> 'w
       \<Rightarrow> (deployment option \<times> go_error option) \<times> 'w" where
  "create_bundle srv ns items depl w =
     (case ensureNamespaceExists srv ns w of
        (err, w1) \<Rightarrow>
          if err = None \<or> IsAlreadyExists err then
            (case run_creates srv items w1 of
               (Some e, w2) \<Rightarrow> ((None, Some e), w2)
             | (None, w2) \<Rightarrow>
                 (case Deployments_Create srv ns depl w2 of
                    ((deployment, err1), w3) \<Rightarrow>
                      if err1 \<noteq> None \<and> \<not> IsAlreadyExists err1 then ((None, err1), w3)
                      else ((Some deployment, None), w3)))
          else ((None, err), w1))"

section \<open>References inside a bundle\<close>

definition has_object :: "(string \<times> k8s_obj) list \<Rightarrow> resource \<Rightarrow> string \<Rightarrow> string \<Rightarrow> bool" where
  "has_object items r ns n \<longleftrightarrow>
     list_ex (\<lambda>(m, x). m = ns \<and> obj_resource x = r \<and> om_Name (obj_meta x) = n) items"

definition volume_ok :: "(string \<times> k8s_obj) list \<Rightarrow> string \<Rightarrow> volume \<Rightarrow> bool" where
  "volume_ok items ns v \<longleftrightarrow>
     (case vo_Source v of SecretVolumeSource n \<Rightarrow> has_object items RSecrets ns n | _ \<Rightarrow> True)"

definition pod_ok :: "(string \<times> k8s_obj) list \<Rightarrow> string \<Rightarrow> label_selector option \<Rightarrow> pod_template \<Rightarrow> bool" where
  "pod_ok items ns sel t \<longleftrightarrow>
     (case sel of None \<Rightarrow> False
      | Some s \<Rightarrow> matches_labels (ls_MatchLabels s) (om_Labels (pt_meta t)))
     \<and> (ps_ServiceAccountName (pt_Spec t) = []
        \<or> has_object items RServiceAccounts ns (ps_ServiceAccountName (pt_Spec t)))
     \<and> list_all (volume_ok items ns) (ps_Volumes (pt_Spec t))
     \<and> list_all (\<lambda>c. list_all (\<lambda>m. vm_Name m \<in> set (map vo_Name (ps_Volumes (pt_Spec t))))
          (co_VolumeMounts c)) (ps_Containers (pt_Spec t))"

definition subject_ok :: "(string \<times> k8s_obj) list \<Rightarrow> subject \<Rightarrow> bool" where
  "subject_ok items s \<longleftrightarrow>
     sj_Kind s = ''ServiceAccount'' \<and> has_object items RServiceAccounts (sj_Namespace s) (sj_Name s)"

text \<open>\<open>cluster-admin\<close> is a role every cluster has.\<close>

definition binding_ok :: "(string \<times> k8s_obj) list \<Rightarrow> string \<Rightarrow> role_binding \<Rightarrow> bool" where
  "binding_ok items ns b \<longleftrightarrow>
     (if rr_Kind (rb_RoleRef b) = ''ClusterRole''
        then rr_Name (rb_RoleRef b) = ''cluster-admin''
             \<or> has_object items RClusterRoles [] (rr_Name (rb_RoleRef b))
        else has_object items RRoles ns (rr_Name (rb_RoleRef b)))
     \<and> list_all (subject_ok items) (rb_Subjects b)"

fun object_refs_ok :: "(string \<times> k8s_obj) list \<Rightarrow> string \<times> k8s_obj \<Rightarrow> bool" where
  "object_refs_ok items (ns, ObjDeployment d) = pod_ok items ns (de_Selector d) (de_Template d)"
| "object_refs_ok items (ns, ObjDaemonSet d) = pod_ok items ns (ds_Selector d) (ds_Template d)"
| "object_refs_ok items (ns, ObjRoleBinding b) = binding_ok items ns b"
| "object_refs_ok items (ns, ObjClusterRoleBinding b) = binding_ok items ns b"
| "object_refs_ok items _ = True"

text \<open>
  What an object refers to is created before it; what a service selects may come later.
\<close>

fun created_in_order :: "(string \<times> k8s_obj) list \<Rightarrow> (string \<times> k8s_obj) list \<Rightarrow> bool" where
  "created_in_order earlier [] = True"
| "created_in_order earlier (it # items) =
     (object_refs_ok earlier it \<and> created_in_order (it # earlier) items)"

definition pods_of :: "(string \<times> k8s_obj) list \<Rightarrow> (string \<times> pod_template) list" where
  "pods_of items = List.map_filter (\<lambda>(ns, x).
     case x of ObjDeployment d \<Rightarrow> Some (ns, de_Template d)
     | ObjDaemonSet d \<Rightarrow> Some (ns, ds_Template d) | _ \<Rightarrow> None) items"

text \<open>
  Pods of RancherVM declare no port: on which one their images listen is written in their services
  only, and, for the backend, in the address the frontend is given.
\<close>

definition image_ports :: "(string \<times> int32) list" where
  "image_ports = [(''ranchervm-backend'', 9500), (''ranchervm-frontend'', 8000)]"

definition declared_ports :: "pod_template \<Rightarrow> int32 list" where
  "declared_ports t = map cp_ContainerPort (concat (map co_Ports (ps_Containers (pt_Spec t))))"

definition port_ok :: "string \<Rightarrow> service_port \<Rightarrow> pod_template \<Rightarrow> bool" where
  "port_ok sn p t \<longleftrightarrow>
     (let target = (if sp_TargetPort p = 0 then sp_Port p else sp_TargetPort p)
      in target \<in> set (declared_ports t) \<or> declared_ports t = [] \<and> (sn, target) \<in> set image_ports)"

fun service_ok :: "(string \<times> k8s_obj) list \<Rightarrow> string \<times> k8s_obj \<Rightarrow> bool" where
  "service_ok items (ns, ObjService s) =
     (sv_Ports s \<noteq> [] \<and> list_ex (\<lambda>(m, t). m = ns \<and> matches_labels (sv_Selector s) (om_Labels (pt_meta t))
       \<and> list_all (\<lambda>p. port_ok (om_Name (sv_meta s)) p t) (sv_Ports s)) (pods_of items))"
| "service_ok items _ = True"

text \<open>
  The addresses a container is given, of the form \<open>http://service:port\<close>, and the port an argument tells
  it to listen on.
\<close>

fun digits_value :: "int32 \<Rightarrow> string \<Rightarrow> int32 option" where
  "digits_value n [] = Some n"
| "digits_value n (c # cs) =
     (if 48 \<le> (of_char c :: nat) \<and> (of_char c :: nat) \<le> 57 then digits_value (10 * n + of_nat (of_char c - 48)) cs else None)"

definition service_address :: "string \<Rightarrow> (string \<times> int32) option" where
  "service_address v =
     (let rest = drop (length ''http://'') v; host = takeWhile (\<lambda>c. c \<noteq> CHR '':'') rest in
      if HasPrefix v ''http://'' then map_option (Pair host) (digits_value 0 (drop (Suc (length host)) rest)) else None)"

definition exposes :: "(string \<times> k8s_obj) list \<Rightarrow> string \<Rightarrow> string \<times> int32 \<Rightarrow> bool" where
  "exposes items ns a \<longleftrightarrow>
     list_ex (\<lambda>(m, x). case x of
       ObjService s \<Rightarrow> m = ns \<and> om_Name (sv_meta s) = fst a \<and> snd a \<in> set (map sp_Port (sv_Ports s))
     | _ \<Rightarrow> False) items"

definition env_ok :: "(string \<times> k8s_obj) list \<Rightarrow> string \<Rightarrow> env_var \<Rightarrow> bool" where
  "env_ok items ns e \<longleftrightarrow>
     (if HasPrefix (ev_Value e) ''http://''
        then (case service_address (ev_Value e) of None \<Rightarrow> False | Some a \<Rightarrow> exposes items ns a)
        else True)"

definition listens_ok :: "container \<Rightarrow> bool" where
  "listens_ok c \<longleftrightarrow>
     list_all (\<lambda>a. if HasPrefix a ''--insecure-port=''
         then (case digits_value 0 (drop (length ''--insecure-port='') a) of
             None \<Rightarrow> False | Some p \<Rightarrow> p \<in> set (map cp_ContainerPort (co_Ports c)))
         else True) (co_Args c)
     \<and> (case co_LivenessProbe c of None \<Rightarrow> True | Some h \<Rightarrow> hp_Port h \<in> set (map cp_ContainerPort (co_Ports c)))"

definition containers_ok :: "(string \<times> k8s_obj) list \<Rightarrow> bool" where
  "containers_ok items \<longleftrightarrow>
     list_all (\<lambda>(ns, t). list_all (\<lambda>c. listens_ok c \<and> list_all (env_ok items ns) (co_Env c)) (ps_Containers (pt_Spec t)))
       (pods_of items)"

text \<open>The service by which the infrastructure is reached from outside, under a port of the nodes.\<close>

definition node_port_service :: "(string \<times> k8s_obj) list \<Rightarrow> string \<Rightarrow> string \<Rightarrow> bool" where
  "node_port_service items ns sn \<longleftrightarrow>
     list_ex (\<lambda>(m, x). case x of
       ObjService s \<Rightarrow> m = ns \<and> om_Name (sv_meta s) = sn \<and> sv_Type s = ''NodePort'' \<and> length (sv_Ports s) = 1
     | _ \<Rightarrow> False) items"

definition bundle_refs_ok :: "(string \<times> k8s_obj) list \<Rightarrow> bool" where
  "bundle_refs_ok items \<longleftrightarrow>
     created_in_order [] items \<and> list_all (service_ok items) items \<and> containers_ok items"

lemmas object_check_defs = pod_ok_def binding_ok_def subject_ok_def volume_ok_def has_object_def
  matches_labels_def bundle_names zero_pod_template_def zero_pod_spec_def zero_container_def

lemmas port_check_defs = object_check_defs port_ok_def declared_ports_def image_ports_def zero_port_def

lemmas address_check_defs = listens_ok_def env_ok_def exposes_def service_address_def HasPrefix_def Let_def
  zero_pod_template_def zero_pod_spec_def zero_container_def zero_port_def

definition owned_by :: "infrastructure \<Rightarrow> (string \<times> k8s_obj) list \<Rightarrow> bool" where
  "owned_by infra items \<longleftrightarrow>
     list_all (\<lambda>(_, x). om_OwnerReferences (obj_meta x) = [infra_owner_ref infra]) items"

definition item_key :: "string \<times> k8s_obj \<Rightarrow> resource \<times> string \<times> string" where
  "item_key it = (obj_resource (snd it), fst it, om_Name (obj_meta (snd it)))"

text \<open>Every object comes with the namespace of the client that creates it, none of them twice.\<close>

definition bundle_named :: "(string \<times> k8s_obj) list \<Rightarrow> bool" where
  "bundle_named items \<longleftrightarrow>
     list_all (\<lambda>(ns, x). well_named (obj_resource x) ns x \<and> om_Namespace (obj_meta x) = ns
       \<and> path_segment_ok ns) items
     \<and> distinct (map item_key items)"

lemma infra_owner_ref_controls:
  "om_OwnerReferences m = [infra_owner_ref infra] \<Longrightarrow> IsControlledBy m (i_meta infra)"
  by (simp add: infra_owner_ref_def owner_simps)

section \<open>Creating a bundle\<close>

text \<open>On the tracker, when none of the objects is there: all of them are afterwards, as written.\<close>

lemma run_creates_tracker:
  assumes "tracker_ok w" "bundle_named items"
    and "\<forall>(ns, x) \<in> set items. tracker_stored w (obj_resource x) ns (om_Name (obj_meta x)) = None"
  obtains w1 where "run_creates ObjectReaction items w = (None, w1)" "tracker_ok w1"
    "\<forall>(ns, x) \<in> set items. tracker_stored w1 (obj_resource x) ns (om_Name (obj_meta x)) = Some x"
    "same_outside (set (map item_key items)) (tracker_stored w) (tracker_stored w1)"
  using assms
proof (induction items arbitrary: w thesis)
  case (Cons it items)
  obtain ns x where it: "it = (ns, x)" by (cases it)
  have wn: "well_named (obj_resource x) ns x" "om_Namespace (obj_meta x) = ns" "path_segment_ok ns"
    and fresh: "item_key it \<notin> set (map item_key items)" and rest: "bundle_named items"
    using Cons.prems(3) it by (auto simp: bundle_named_def)
  have none: "tracker_stored w (obj_resource x) ns (om_Name (obj_meta x)) = None"
    using Cons.prems(4) it by simp
  obtain w0 where w0: "client_create ObjectReaction (obj_resource x) ns x w = (Inr x, w0)" "tracker_ok w0"
    "tracker_stored w0 = stored_put (obj_resource x) ns (om_Name (obj_meta x)) x (tracker_stored w)"
    using client_create_tracker [OF Cons.prems(2) wn(1) _ none] wn(2,3)
    by (metis propagate_namespace_id)
  have free: "\<forall>(m, y) \<in> set items. tracker_stored w0 (obj_resource y) m (om_Name (obj_meta y)) = None"
  proof (clarify)
    fix m y assume y: "(m, y) \<in> set items"
    then have "item_key (m, y) \<noteq> item_key it" using fresh by (metis image_eqI list.set_map)
    with y Cons.prems(4) it
    show "tracker_stored w0 (obj_resource y) m (om_Name (obj_meta y)) = None"
      unfolding w0(3) by (auto simp: item_key_def)
  qed
  obtain w1 where w1: "run_creates ObjectReaction items w0 = (None, w1)" "tracker_ok w1"
    "\<forall>(m, y) \<in> set items. tracker_stored w1 (obj_resource y) m (om_Name (obj_meta y)) = Some y"
    "same_outside (set (map item_key items)) (tracker_stored w0) (tracker_stored w1)"
    using Cons.IH [OF _ w0(2) rest free] by blast
  have "tracker_stored w1 (obj_resource x) ns (om_Name (obj_meta x)) = Some x"
    using same_outsideD [OF w1(4), of "obj_resource x" ns "om_Name (obj_meta x)"] fresh it
    by (simp add: w0(3) item_key_def)
  moreover have "same_outside (set (map item_key (it # items))) (tracker_stored w) (tracker_stored w1)"
    using w1(4) it unfolding w0(3) by (auto simp: same_outside_def item_key_def)
  ultimately show ?case
    using Cons.prems(1) [of w1] w1 w0(1) it by (simp add: create_err_def)
qed simp

lemma create_bundle_fresh:
  assumes "tracker_ok w" "ns \<noteq> []" "bundle_named (items @ [(ns, ObjDeployment depl)])"
    and "\<forall>(m, x) \<in> set (items @ [(ns, ObjDeployment depl)]).
      tracker_stored w (obj_resource x) m (om_Name (obj_meta x)) = None"
    and "\<forall>(m, x) \<in> set items. obj_resource x \<noteq> RNamespaces"
  obtains w1 where "create_bundle ObjectReaction ns items depl w = ((Some depl, None), w1)" "tracker_ok w1"
    "\<forall>(m, x) \<in> set (items @ [(ns, ObjDeployment depl)]).
      tracker_stored w1 (obj_resource x) m (om_Name (obj_meta x)) = Some x"
    "same_outside (insert (RNamespaces, [], ns) (set (map item_key (items @ [(ns, ObjDeployment depl)]))))
       (tracker_stored w) (tracker_stored w1)"
proof -
  let ?all = "items @ [(ns, ObjDeployment depl)]"
  obtain err w0 where e: "ensureNamespaceExists ObjectReaction ns w = (err, w0)"
    "err = None \<or> IsAlreadyExists err" "tracker_ok w0"
    and s0: "same_outside {(RNamespaces, [], ns)} (tracker_stored w) (tracker_stored w0)"
    unfolding ensureNamespaceExists_def by (rule tracker_ensure_namespace [OF assms(1,2)])
  have free: "\<forall>(m, x) \<in> set ?all. tracker_stored w0 (obj_resource x) m (om_Name (obj_meta x)) = None"
    using assms(4,5) s0 by (fastforce simp: same_outside_def)
  let ?d = "ObjDeployment depl"
  have items: "bundle_named items" and d: "item_key (ns, ?d) \<notin> set (map item_key items)"
    "well_named RDeployments ns ?d" "om_Namespace (obj_meta ?d) = ns" "path_segment_ok ns"
    using assms(3) by (auto simp: bundle_named_def)
  have free': "\<forall>(m, x) \<in> set items. tracker_stored w0 (obj_resource x) m (om_Name (obj_meta x)) = None"
    using free by simp
  obtain w1 where w1: "run_creates ObjectReaction items w0 = (None, w1)" "tracker_ok w1"
    "\<forall>(m, x) \<in> set items. tracker_stored w1 (obj_resource x) m (om_Name (obj_meta x)) = Some x"
    "same_outside (set (map item_key items)) (tracker_stored w0) (tracker_stored w1)"
    by (rule run_creates_tracker [OF e(3) items free'])
  have "tracker_stored w1 RDeployments ns (om_Name (obj_meta ?d)) = None"
    using free same_outsideD [OF w1(4), of RDeployments ns "om_Name (de_meta depl)"] d(1)
    by (simp add: item_key_def)
  from client_create_tracker [OF w1(2) d(2) _ this] d(3,4)
  obtain w2 where w2: "client_create ObjectReaction RDeployments ns ?d w1 = (Inr ?d, w2)" "tracker_ok w2"
    "tracker_stored w2 = stored_put RDeployments ns (om_Name (obj_meta ?d)) ?d (tracker_stored w1)"
    by (metis propagate_namespace_id)
  have "create_bundle ObjectReaction ns items depl w = ((Some depl, None), w2)"
    using e w1(1) w2(1) by (simp add: create_bundle_def Deployments_Create_def api_simps)
  moreover have "\<forall>(m, x) \<in> set ?all. tracker_stored w2 (obj_resource x) m (om_Name (obj_meta x)) = Some x"
  proof (clarify)
    fix m x assume x: "(m, x) \<in> set ?all"
    show "tracker_stored w2 (obj_resource x) m (om_Name (obj_meta x)) = Some x"
    proof (cases "(m, x) = (ns, ?d)")
      case False
      with x have xi: "(m, x) \<in> set items" by auto
      then have "item_key (m, x) \<noteq> item_key (ns, ?d)" using d(1) by (metis image_eqI list.set_map)
      with xi w1(3) show ?thesis unfolding w2(3) by (auto simp: item_key_def)
    qed (simp add: w2(3))
  qed
  moreover have "same_outside (insert (RNamespaces, [], ns) (set (map item_key ?all)))
      (tracker_stored w) (tracker_stored w2)"
    using s0 w1(4) unfolding w2(3) by (auto simp: same_outside_def item_key_def)
  ultimately show thesis using that w2(2) by blast
qed

text \<open>
  For every server that keeps the contract: a success leaves every object of the bundle stored, no
  object that was stored before is changed, and nothing outside the bundle is touched.
\<close>

context api_store
begin

lemma ensureNamespaceExists_frame:
  assumes "inv w" "ns \<noteq> []" "(RNamespaces, [], ns) \<in> K" "ensureNamespaceExists srv ns w = (err, w')"
  shows "frame K w w' \<and> (\<forall>r m n y. stored w r m n = Some y \<longrightarrow> stored w' r m n = Some y)"
proof -
  let ?x = "ObjNamespace \<lparr>ns_meta = zero_meta\<lparr>om_Name := ns\<rparr>\<rparr>"
  have wn: "well_named (obj_resource ?x) [] ?x" using assms(2) by (simp add: well_named_def)
  have c: "create_err srv [] ?x w = (err, w')" using assms(4) by (simp add: ensureNamespaceExists_def)
  show ?thesis
    using create_err_frame [OF assms(1) wn _ c] assms(3) create_err_keeps(2) [OF assms(1) wn c] by simp
qed

lemma create_bundle_ok:
  assumes "inv w" "ns \<noteq> []" "bundle_named (items @ [(ns, ObjDeployment depl)])"
    and "create_bundle srv ns items depl w = (res, w')"
  shows "frame (insert (RNamespaces, [], ns) (set (map item_key (items @ [(ns, ObjDeployment depl)])))) w w'"
    and "stored w r m n = Some y \<Longrightarrow> stored w' r m n = Some y"
    and "snd res = None \<Longrightarrow> (m, x) \<in> set (items @ [(ns, ObjDeployment depl)]) \<Longrightarrow>
      \<exists>y. stored w' (obj_resource x) m (om_Name (obj_meta x)) = Some y"
proof -
  let ?all = "items @ [(ns, ObjDeployment depl)]"
  let ?K = "insert (RNamespaces, [], ns) (set (map item_key ?all))"
  let ?d = "ObjDeployment depl"
  have wn1: "\<forall>(ns, x) \<in> set items. well_named (obj_resource x) ns x"
    and wd: "well_named (obj_resource ?d) ns ?d"
    using assms(3) by (auto simp: bundle_named_def list_all_iff)
  have "(obj_resource x, m, om_Name (obj_meta x)) \<in> ?K" if "(m, x) \<in> set items" for m x
    using imageI [OF that, of item_key] by (simp add: item_key_def)
  with wn1 have wn2: "\<forall>(ns, x) \<in> set items. well_named (obj_resource x) ns x
      \<and> (obj_resource x, ns, om_Name (obj_meta x)) \<in> ?K" by blast
  obtain err w1 where e: "ensureNamespaceExists srv ns w = (err, w1)"
    by (cases "ensureNamespaceExists srv ns w")
  note f1 = ensureNamespaceExists_frame [OF assms(1,2) _ e, of ?K]
  have i1: "inv w1" using f1 frame_inv by blast
  obtain err2 w2 where c: "run_creates srv items w1 = (err2, w2)"
    by (cases "run_creates srv items w1")
  note f2 = run_creates_frame [OF i1 wn2 c] and k2 = run_creates_keeps [OF i1 wn1 c]
  have i2: "inv w2" using f2 frame_inv by blast
  obtain r3 w3 where d: "client_create srv RDeployments ns ?d w2 = (r3, w3)"
    by (cases "client_create srv RDeployments ns ?d w2")
  obtain err3 where d': "create_err srv ns ?d w2 = (err3, w3)" "err3 = (case r3 of Inl e \<Rightarrow> Some e | Inr _ \<Rightarrow> None)"
    using d by (cases r3) (auto simp: create_err_def)
  have f3: "frame ?K w2 w3"
    by (rule create_err_frame [OF i2 wd _ d'(1)]) (simp add: item_key_def)
  note k3 = create_err_keeps(2) [OF i2 wd d'(1)] and p3 = create_err_present [OF i2 wd d'(1)]
  have cases: "(w' = w1 \<and> snd res \<noteq> None) \<or> (w' = w2 \<and> snd res \<noteq> None)
     \<or> (w' = w3 \<and> (snd res = None \<longrightarrow> err2 = None \<and> (err3 = None \<or> IsAlreadyExists err3)))"
    using assms(4) e c d d'(2)
    by (auto simp: create_bundle_def Deployments_Create_def into_def split: if_splits option.splits sum.splits)
  have f: "frame ?K w w1" "frame ?K w w2" "frame ?K w w3"
    using f1 f2 f3 frame_trans by blast+
  show "frame ?K w w'" using cases f by blast
  show "stored w r m n = Some y \<Longrightarrow> stored w' r m n = Some y" using cases f1 k2 k3 by blast
  show "\<exists>y. stored w' (obj_resource x) m (om_Name (obj_meta x)) = Some y"
    if "snd res = None" "(m, x) \<in> set ?all"
  proof -
    have s: "w' = w3" "err2 = None" "err3 = None \<or> IsAlreadyExists err3" using cases that(1) by auto
    show ?thesis
    proof (cases "(m, x) = (ns, ?d)")
      case True
      with p3 s show ?thesis by auto
    next
      case False
      with that(2) have "(m, x) \<in> set items" by auto
      with run_creates_present [OF i1 wn1 _ this] c s(2) k3 s(1) show ?thesis by blast
    qed
  qed
qed

end

end
