(* ===== verification/Cube_Dashboard.thy ===== *)
theory Cube_Dashboard
  imports Cube_Bundle
begin

text \<open>
  The Dashboard bundle of \<open>controller/infra_controller.go\<close> (\<open>createDashboard\<close>, \<open>updateDashboard\<close>): one
  definition per object it creates, in the order of the code.
\<close>

definition dashboard_secret :: "infrastructure \<Rightarrow> secret" where
  "dashboard_secret infra =
     \<lparr>se_meta = zero_meta\<lparr>om_Name := ''kubernetes-dashboard-certs'',
           om_Namespace := InfrastructureNamespace,
           om_Labels := [(''k8s-app'', ''kubernetes-dashboard'')],
           om_OwnerReferences := [infra_owner_ref infra]\<rparr>, se_Type = ''Opaque'', se_Data = []\<rparr>"

definition dashboard_service_account :: "infrastructure \<Rightarrow> service_account" where
  "dashboard_service_account infra =
     \<lparr>sa_meta = zero_meta\<lparr>om_Name := ''kubernetes-dashboard'',
           om_Namespace := InfrastructureNamespace,
           om_Labels := [(''k8s-app'', ''kubernetes-dashboard'')],
           om_OwnerReferences := [infra_owner_ref infra]\<rparr>\<rparr>"

definition dashboard_role :: "infrastructure \<Rightarrow> role" where
  "dashboard_role infra =
     \<lparr>ro_meta = zero_meta\<lparr>om_Name := ''kubernetes-dashboard-minimal'',
           om_Namespace := InfrastructureNamespace, om_OwnerReferences := [infra_owner_ref infra]\<rparr>,
       ro_Rules = [\<lparr>pr_APIGroups = [[]], pr_Resources = [''secrets''], pr_Verbs = [''create''],
            pr_ResourceNames = []\<rparr>,
          \<lparr>pr_APIGroups = [[]], pr_Resources = [''configmaps''], pr_Verbs = [''create''],
            pr_ResourceNames = []\<rparr>,
          \<lparr>pr_APIGroups = [[]], pr_Resources = [''secrets''],
            pr_Verbs = [''get'', ''update'', ''delete''],
            pr_ResourceNames = [''kubernetes-dashboard-key-holder'',
               ''kubernetes-dashboard-certs'']\<rparr>,
          \<lparr>pr_APIGroups = [[]], pr_Resources = [''configmaps''], pr_Verbs = [''get'', ''update''],
            pr_ResourceNames = [''kubernetes-dashboard-settings'']\<rparr>,
          \<lparr>pr_APIGroups = [[]], pr_Resources = [''services''], pr_Verbs = [''proxy''],
            pr_ResourceNames = [''heapster'']\<rparr>,
          \<lparr>pr_APIGroups = [[]], pr_Resources = [''services/proxy''], pr_Verbs = [''get''],
            pr_ResourceNames = [''heapster'', ''http:heapster:'', ''https:heapster:'']\<rparr>]\<rparr>"

definition dashboard_role_binding :: "infrastructure \<Rightarrow> role_binding" where
  "dashboard_role_binding infra =
     \<lparr>rb_meta = zero_meta\<lparr>om_Name := ''kubernetes-dashboard-minimal'',
           om_Namespace := InfrastructureNamespace, om_OwnerReferences := [infra_owner_ref infra]\<rparr>,
       rb_RoleRef = \<lparr>rr_APIGroup = ''rbac.authorization.k8s.io'', rr_Kind = ''Role'',
           rr_Name = ''kubernetes-dashboard-minimal''\<rparr>,
       rb_Subjects = [\<lparr>sj_Kind = ''ServiceAccount'', sj_APIGroup = [], sj_Name = ''kubernetes-dashboard'',
            sj_Namespace = InfrastructureNamespace\<rparr>]\<rparr>"

definition dashboard_admin_binding :: "infrastructure \<Rightarrow> role_binding" where
  "dashboard_admin_binding infra =
     \<lparr>rb_meta = zero_meta\<lparr>om_Name := ''dashboard-admin'',
           om_OwnerReferences := [infra_owner_ref infra]\<rparr>,
       rb_RoleRef = \<lparr>rr_APIGroup = ''rbac.authorization.k8s.io'', rr_Kind = ''ClusterRole'',
           rr_Name = ''cluster-admin''\<rparr>,
       rb_Subjects = [\<lparr>sj_Kind = ''ServiceAccount'', sj_APIGroup = [], sj_Name = ''kubernetes-dashboard'',
            sj_Namespace = InfrastructureNamespace\<rparr>]\<rparr>"

definition dashboard_service :: "infrastructure \<Rightarrow> service" where
  "dashboard_service infra =
     zero_service\<lparr>
       sv_meta := zero_meta\<lparr>om_Name := ''kubernetes-dashboard'',
           om_Labels := [(''k8s-app'', ''kubernetes-dashboard'')],
           om_Namespace := InfrastructureNamespace, om_OwnerReferences := [infra_owner_ref infra]\<rparr>,
       sv_Ports := [zero_port\<lparr>sp_Port := 9090, sp_TargetPort := 9090\<rparr>],
       sv_Selector := [(''k8s-app'', ''kubernetes-dashboard'')], sv_Type := ''NodePort''\<rparr>"

definition dashboard_deployment :: "infrastructure \<Rightarrow> deployment" where
  "dashboard_deployment infra =
     zero_deployment\<lparr>
       de_meta := zero_meta\<lparr>om_Name := ''kubernetes-dashboard'',
           om_Labels := [(''k8s-app'', ''kubernetes-dashboard'')],
           om_Namespace := InfrastructureNamespace, om_OwnerReferences := [infra_owner_ref infra]\<rparr>,
       de_Replicas := is_Replicas (i_Spec infra), de_RevisionHistoryLimit := Some 1,
       de_Selector := Some \<lparr>ls_MatchLabels = [(''k8s-app'', ''kubernetes-dashboard'')],
            ls_MatchExpressions = []\<rparr>,
       de_Template := zero_pod_template\<lparr>
           pt_meta := zero_meta\<lparr>om_Labels := [(''k8s-app'', ''kubernetes-dashboard'')]\<rparr>,
           pt_Spec := zero_pod_spec\<lparr>
               ps_Containers := [zero_container\<lparr>co_Name := ''kubernetes-dashboard'',
                    co_Image := im_Dashboard (is_Images (i_Spec infra)),
                    co_Ports := [\<lparr>cp_ContainerPort = 9090, cp_Protocol = ''TCP''\<rparr>],
                    co_Args := [''--enable-insecure-login=true'',
                       ''--insecure-bind-address=0.0.0.0'',
                       ''--insecure-port=9090''],
                    co_VolumeMounts := [\<lparr>vm_Name = ''kubernetes-dashboard-certs'', vm_MountPath = ''/certs''\<rparr>,
                       \<lparr>vm_Name = ''tmp-volume'', vm_MountPath = ''/tmp''\<rparr>],
                    co_LivenessProbe := Some \<lparr>hp_Scheme = ''HTTP'', hp_Path = ''/'',
                         hp_Port = 9090, hp_InitialDelaySeconds = 30, hp_TimeoutSeconds = 30\<rparr>\<rparr>],
               ps_Volumes := [\<lparr>vo_Name = ''kubernetes-dashboard-certs'',
                    vo_Source = SecretVolumeSource ''kubernetes-dashboard-certs''\<rparr>,
                  \<lparr>vo_Name = ''tmp-volume'', vo_Source = EmptyDir\<rparr>],
               ps_ServiceAccountName := ''kubernetes-dashboard'',
               ps_Tolerations := [\<lparr>to_Key = ''node-role.kubernetes.io/master'', to_Effect = ''NoSchedule''\<rparr>]\<rparr>\<rparr>\<rparr>"

definition dashboard_items :: "infrastructure \<Rightarrow> (string \<times> k8s_obj) list" where
  "dashboard_items infra =
     [(InfrastructureNamespace, ObjSecret (dashboard_secret infra)),
      (InfrastructureNamespace, ObjServiceAccount (dashboard_service_account infra)),
      (InfrastructureNamespace, ObjRole (dashboard_role infra)),
      (InfrastructureNamespace, ObjRoleBinding (dashboard_role_binding infra)),
      ([], ObjClusterRoleBinding (dashboard_admin_binding infra)),
      (InfrastructureNamespace, ObjService (dashboard_service infra))]"

definition createDashboard where
  "createDashboard srv infra =
     create_bundle srv InfrastructureNamespace (dashboard_items infra) (dashboard_deployment infra)"

text \<open>The update sends the deployment of the creation again, and takes every error seriously.\<close>

definition updateDashboard ::
    "'w api_server \<Rightarrow> infrastructure \<Rightarrow> 'w \<Rightarrow> (deployment option \<times> go_error option) \<times> 'w" where
  "updateDashboard srv infra w =
     (case ensureNamespaceExists srv InfrastructureNamespace w of
        (err, w1) \<Rightarrow>
          if err = None \<or> IsAlreadyExists err then
            (case Deployments_Update srv InfrastructureNamespace (dashboard_deployment infra) w1 of
               ((deployment, err1), w2) \<Rightarrow>
                 if err1 \<noteq> None then ((None, err1), w2) else ((Some deployment, None), w2))
          else ((None, err), w1))"

lemmas dashboard_defs = dashboard_secret_def dashboard_service_account_def dashboard_role_def dashboard_role_binding_def dashboard_admin_binding_def dashboard_service_def dashboard_deployment_def

lemma dashboard_named:
  "bundle_named (dashboard_items infra @ [(InfrastructureNamespace, ObjDeployment (dashboard_deployment infra))])"
  by (simp add: dashboard_items_def dashboard_defs bundle_named_def well_named_def item_key_def
      path_segment_ok_def bundle_names)

lemma dashboard_owned:
  "owned_by infra (dashboard_items infra @ [(InfrastructureNamespace, ObjDeployment (dashboard_deployment infra))])"
  by (simp add: dashboard_items_def dashboard_defs owned_by_def)

lemma dashboard_in_order:
  "created_in_order [] (dashboard_items infra @ [(InfrastructureNamespace, ObjDeployment (dashboard_deployment infra))])"
  by (simp add: dashboard_items_def has_object_def)
    (simp add: dashboard_defs object_check_defs)

lemma dashboard_services_ok:
  "list_all (service_ok (dashboard_items infra @ [(InfrastructureNamespace, ObjDeployment (dashboard_deployment infra))]))
     (dashboard_items infra @ [(InfrastructureNamespace, ObjDeployment (dashboard_deployment infra))])"
  by (simp add: dashboard_items_def pods_of_def List.map_filter_simps)
    (simp add: dashboard_defs port_check_defs)

lemma dashboard_containers_ok:
  "containers_ok (dashboard_items infra @ [(InfrastructureNamespace, ObjDeployment (dashboard_deployment infra))])"
  by (simp add: dashboard_items_def containers_ok_def pods_of_def List.map_filter_simps)
    (simp add: dashboard_defs address_check_defs)

lemma dashboard_refs_ok:
  "bundle_refs_ok (dashboard_items infra @ [(InfrastructureNamespace, ObjDeployment (dashboard_deployment infra))])"
  unfolding bundle_refs_ok_def using dashboard_in_order dashboard_services_ok dashboard_containers_ok by blast

lemma dashboard_no_namespace:
  "\<forall>(m, x) \<in> set (dashboard_items infra). obj_resource x \<noteq> RNamespaces"
  by (simp add: dashboard_items_def)

end
