(* ===== verification/Cube_Longhorn.thy ===== *)
theory Cube_Longhorn
  imports Cube_Bundle
begin

text \<open>
  The Longhorn bundle of \<open>controller/infra_controller.go\<close> (\<open>createLonghorn\<close>, \<open>updateLonghorn\<close>).
\<close>

definition longhorn_service_account :: "infrastructure \<Rightarrow> service_account" where
  "longhorn_service_account infra =
     \<lparr>sa_meta = zero_meta\<lparr>om_Name := ''longhorn-service-account'',
           om_Namespace := LonghornNamespace, om_OwnerReferences := [infra_owner_ref infra]\<rparr>\<rparr>"

definition longhorn_role :: "infrastructure \<Rightarrow> role" where
  "longhorn_role infra =
     \<lparr>ro_meta = zero_meta\<lparr>om_Name := ''longhorn-role'',
           om_OwnerReferences := [infra_owner_ref infra]\<rparr>,
       ro_Rules = [\<lparr>pr_APIGroups = [''apiextensions.k8s.io''],
            pr_Resources = [''customresourcedefinitions''], pr_Verbs = [''*''],
            pr_ResourceNames = []\<rparr>,
          \<lparr>pr_APIGroups = [[]],
            pr_Resources = [''pods'',
               ''events'',
               ''persistentvolumes'',
               ''persistentvolumeclaims'',
               ''nodes'',
               ''proxy/nodes'',
               ''pods/log'',
               ''secrets''], pr_Verbs = [''*''], pr_ResourceNames = []\<rparr>,
          \<lparr>pr_APIGroups = [''apps''], pr_Resources = [''daemonsets''], pr_Verbs = [''*''],
            pr_ResourceNames = []\<rparr>,
          \<lparr>pr_APIGroups = [''batch''], pr_Resources = [''jobs'', ''cronjobs''],
            pr_Verbs = [''*''], pr_ResourceNames = []\<rparr>,
          \<lparr>pr_APIGroups = [''storage.k8s.io''], pr_Resources = [''storageclasses''],
            pr_Verbs = [''*''], pr_ResourceNames = []\<rparr>,
          \<lparr>pr_APIGroups = [''longhorn.rancher.io''],
            pr_Resources = [''volumes'',
               ''engines'',
               ''replicas'',
               ''settings'',
               ''engineimages''], pr_Verbs = [''*''], pr_ResourceNames = []\<rparr>]\<rparr>"

definition longhorn_role_binding :: "infrastructure \<Rightarrow> role_binding" where
  "longhorn_role_binding infra =
     \<lparr>rb_meta = zero_meta\<lparr>om_Name := ''longhorn-bind'',
           om_OwnerReferences := [infra_owner_ref infra]\<rparr>,
       rb_RoleRef = \<lparr>rr_APIGroup = ''rbac.authorization.k8s.io'', rr_Kind = ''ClusterRole'',
           rr_Name = ''longhorn-role''\<rparr>,
       rb_Subjects = [\<lparr>sj_Kind = ''ServiceAccount'', sj_APIGroup = [], sj_Name = ''longhorn-service-account'',
            sj_Namespace = LonghornNamespace\<rparr>]\<rparr>"

definition longhorn_manager :: "infrastructure \<Rightarrow> daemon_set" where
  "longhorn_manager infra =
     \<lparr>ds_meta = zero_meta\<lparr>om_Name := ''longhorn-manager'',
           om_Labels := [(''app'', ''longhorn-manager'')], om_Namespace := LonghornNamespace,
           om_OwnerReferences := [infra_owner_ref infra]\<rparr>,
       ds_Selector = Some \<lparr>ls_MatchLabels = [(''app'', ''longhorn-manager'')],
            ls_MatchExpressions = []\<rparr>,
       ds_Template = zero_pod_template\<lparr>
           pt_meta := zero_meta\<lparr>om_Labels := [(''app'', ''longhorn-manager'')]\<rparr>,
           pt_Spec := zero_pod_spec\<lparr>
               ps_Containers := [zero_container\<lparr>co_Name := ''longhorn-manager'',
                    co_Image := im_LonghornManager (is_Images (i_Spec infra)),
                    co_ImagePullPolicy := ''Always'', co_Privileged := Some True,
                    co_Command := [''longhorn-manager'',
                       ''-d'',
                       ''daemon'',
                       ''--engine-image'',
                       im_LonghornEngine (is_Images (i_Spec infra)),
                       ''--manager-image'',
                       im_LonghornManager (is_Images (i_Spec infra)),
                       ''--service-account'',
                       ''longhorn-service-account''],
                    co_Ports := [\<lparr>cp_ContainerPort = 9500, cp_Protocol = []\<rparr>],
                    co_VolumeMounts := [\<lparr>vm_Name = ''dev'', vm_MountPath = ''/host/dev/''\<rparr>,
                       \<lparr>vm_Name = ''proc'', vm_MountPath = ''/host/proc/''\<rparr>,
                       \<lparr>vm_Name = ''varrun'', vm_MountPath = ''/var/run/''\<rparr>,
                       \<lparr>vm_Name = ''longhorn'', vm_MountPath = ''/var/lib/rancher/longhorn/''\<rparr>],
                    co_Env := [\<lparr>ev_Name = ''POD_NAMESPACE'', ev_Value = [],
                         ev_FieldPath = Some ''metadata.namespace''\<rparr>,
                       \<lparr>ev_Name = ''POD_IP'', ev_Value = [], ev_FieldPath = Some ''status.podIP''\<rparr>,
                       \<lparr>ev_Name = ''NODE_NAME'', ev_Value = [],
                         ev_FieldPath = Some ''spec.nodeName''\<rparr>]\<rparr>],
               ps_Volumes := [\<lparr>vo_Name = ''dev'', vo_Source = HostPath ''/dev/''\<rparr>,
                  \<lparr>vo_Name = ''proc'', vo_Source = HostPath ''/proc/''\<rparr>,
                  \<lparr>vo_Name = ''varrun'', vo_Source = HostPath ''/var/run/''\<rparr>,
                  \<lparr>vo_Name = ''longhorn'', vo_Source = HostPath ''/var/lib/rancher/longhorn/''\<rparr>],
               ps_ServiceAccountName := ''longhorn-service-account''\<rparr>\<rparr>\<rparr>"

definition longhorn_backend_service :: "infrastructure \<Rightarrow> service" where
  "longhorn_backend_service infra =
     zero_service\<lparr>
       sv_meta := zero_meta\<lparr>om_Name := ''longhorn-backend'',
           om_Labels := [(''app'', ''longhorn-manager'')], om_Namespace := LonghornNamespace,
           om_OwnerReferences := [infra_owner_ref infra]\<rparr>,
       sv_Ports := [zero_port\<lparr>sp_Port := 9500, sp_TargetPort := 9500\<rparr>],
       sv_Selector := [(''app'', ''longhorn-manager'')]\<rparr>"

definition longhorn_frontend_service :: "infrastructure \<Rightarrow> service" where
  "longhorn_frontend_service infra =
     zero_service\<lparr>
       sv_meta := zero_meta\<lparr>om_Name := ''longhorn-frontend'',
           om_Labels := [(''app'', ''longhorn-frontend'')], om_Namespace := LonghornNamespace,
           om_OwnerReferences := [infra_owner_ref infra]\<rparr>,
       sv_Ports := [zero_port\<lparr>sp_Port := 9091, sp_TargetPort := 8000\<rparr>],
       sv_Selector := [(''app'', ''longhorn-frontend'')], sv_Type := ''NodePort''\<rparr>"

definition longhorn_driver_deployer :: "infrastructure \<Rightarrow> deployment" where
  "longhorn_driver_deployer infra =
     zero_deployment\<lparr>
       de_meta := zero_meta\<lparr>om_Name := ''longhorn-flexvolume-driver-deployer'',
           om_Namespace := LonghornNamespace, om_OwnerReferences := [infra_owner_ref infra]\<rparr>,
       de_Replicas := is_Replicas (i_Spec infra),
       de_Selector := Some \<lparr>ls_MatchLabels = [(''app'', ''longhorn-flexvolume-driver-deployer'')],
            ls_MatchExpressions = []\<rparr>,
       de_Template := zero_pod_template\<lparr>
           pt_meta := zero_meta\<lparr>om_Labels := [(''app'', ''longhorn-flexvolume-driver-deployer'')]\<rparr>,
           pt_Spec := zero_pod_spec\<lparr>
               ps_Containers := [zero_container\<lparr>co_Name := ''longhorn-flexvolume-driver-deployer'',
                    co_Image := im_LonghornFlexvolumeDriver (is_Images (i_Spec infra)),
                    co_ImagePullPolicy := ''Always'',
                    co_Command := [''longhorn-manager'',
                       ''-d'',
                       ''deploy-flexvolume-driver'',
                       ''--manager-image'',
                       im_LonghornFlexvolumeDriver (is_Images (i_Spec infra))],
                    co_Env := [\<lparr>ev_Name = ''POD_NAMESPACE'', ev_Value = [],
                         ev_FieldPath = Some ''metadata.namespace''\<rparr>,
                       \<lparr>ev_Name = ''NODE_NAME'', ev_Value = [],
                         ev_FieldPath = Some ''spec.nodeName''\<rparr>,
                       \<lparr>ev_Name = ''FLEXVOLUME_DIR'', ev_Value = [], ev_FieldPath = None\<rparr>]\<rparr>],
               ps_ServiceAccountName := ''longhorn-service-account''\<rparr>\<rparr>\<rparr>"

definition longhorn_frontend :: "infrastructure \<Rightarrow> deployment" where
  "longhorn_frontend infra =
     zero_deployment\<lparr>
       de_meta := zero_meta\<lparr>om_Name := ''longhorn-frontend'',
           om_Labels := [(''app'', ''longhorn-frontend'')], om_Namespace := LonghornNamespace,
           om_OwnerReferences := [infra_owner_ref infra]\<rparr>,
       de_Replicas := is_Replicas (i_Spec infra),
       de_Selector := Some \<lparr>ls_MatchLabels = [(''app'', ''longhorn-frontend'')],
            ls_MatchExpressions = []\<rparr>,
       de_Template := zero_pod_template\<lparr>
           pt_meta := zero_meta\<lparr>om_Labels := [(''app'', ''longhorn-frontend'')]\<rparr>,
           pt_Spec := zero_pod_spec\<lparr>
               ps_Containers := [zero_container\<lparr>co_Name := ''longhorn-frontend'',
                    co_Image := im_LonghornUI (is_Images (i_Spec infra)),
                    co_Ports := [\<lparr>cp_ContainerPort = 8000, cp_Protocol = []\<rparr>],
                    co_Env := [\<lparr>ev_Name = ''LONGHORN_MANAGER_IP'',
                         ev_Value = ''http://longhorn-backend:9500'', ev_FieldPath = None\<rparr>]\<rparr>]\<rparr>\<rparr>\<rparr>"

definition longhorn_items :: "infrastructure \<Rightarrow> (string \<times> k8s_obj) list" where
  "longhorn_items infra =
     [(LonghornNamespace, ObjServiceAccount (longhorn_service_account infra)),
      ([], ObjClusterRole (longhorn_role infra)),
      ([], ObjClusterRoleBinding (longhorn_role_binding infra)),
      (LonghornNamespace, ObjDaemonSet (longhorn_manager infra)),
      (LonghornNamespace, ObjService (longhorn_backend_service infra)),
      (LonghornNamespace, ObjService (longhorn_frontend_service infra)),
      (LonghornNamespace, ObjDeployment (longhorn_driver_deployer infra))]"

definition createLonghorn where
  "createLonghorn srv infra =
     create_bundle srv LonghornNamespace (longhorn_items infra) (longhorn_frontend infra)"

text \<open>The update creates the driver deployer once more.\<close>

definition updateLonghorn where
  "updateLonghorn srv infra = create_bundle srv LonghornNamespace [] (longhorn_driver_deployer infra)"

lemmas longhorn_defs = longhorn_service_account_def longhorn_role_def longhorn_role_binding_def longhorn_manager_def longhorn_backend_service_def longhorn_frontend_service_def longhorn_driver_deployer_def longhorn_frontend_def

lemma longhorn_named:
  "bundle_named (longhorn_items infra @ [(LonghornNamespace, ObjDeployment (longhorn_frontend infra))])"
  by (simp add: longhorn_items_def longhorn_defs bundle_named_def well_named_def item_key_def
      path_segment_ok_def bundle_names)

lemma longhorn_owned:
  "owned_by infra (longhorn_items infra @ [(LonghornNamespace, ObjDeployment (longhorn_frontend infra))])"
  by (simp add: longhorn_items_def longhorn_defs owned_by_def)

lemma longhorn_in_order:
  "created_in_order [] (longhorn_items infra @ [(LonghornNamespace, ObjDeployment (longhorn_frontend infra))])"
  by (simp add: longhorn_items_def has_object_def)
    (simp add: longhorn_defs object_check_defs)

lemma longhorn_services_ok:
  "list_all (service_ok (longhorn_items infra @ [(LonghornNamespace, ObjDeployment (longhorn_frontend infra))]))
     (longhorn_items infra @ [(LonghornNamespace, ObjDeployment (longhorn_frontend infra))])"
  by (simp add: longhorn_items_def pods_of_def List.map_filter_simps)
    (simp add: longhorn_defs port_check_defs)

lemma longhorn_containers_ok:
  "containers_ok (longhorn_items infra @ [(LonghornNamespace, ObjDeployment (longhorn_frontend infra))])"
  by (simp add: longhorn_items_def containers_ok_def pods_of_def List.map_filter_simps)
    (simp add: longhorn_defs address_check_defs)

lemma longhorn_refs_ok:
  "bundle_refs_ok (longhorn_items infra @ [(LonghornNamespace, ObjDeployment (longhorn_frontend infra))])"
  unfolding bundle_refs_ok_def using longhorn_in_order longhorn_services_ok longhorn_containers_ok by blast

lemma longhorn_no_namespace:
  "\<forall>(m, x) \<in> set (longhorn_items infra). obj_resource x \<noteq> RNamespaces"
  by (simp add: longhorn_items_def)

end
