(* ===== verification/Cube_RancherVM.thy ===== *)
theory Cube_RancherVM
  imports Cube_Bundle
begin

text \<open>
  The RancherVM bundle of \<open>controller/infra_controller.go\<close> (\<open>createRancherVM\<close>, \<open>updateRancherVM\<close>).
\<close>

definition ranchervm_service_account :: "infrastructure \<Rightarrow> service_account" where
  "ranchervm_service_account infra =
     \<lparr>sa_meta = zero_meta\<lparr>om_Name := ''ranchervm-service-account'',
           om_Namespace := RancherVMNamespace, om_OwnerReferences := [infra_owner_ref infra]\<rparr>\<rparr>"

definition ranchervm_role :: "infrastructure \<Rightarrow> role" where
  "ranchervm_role infra =
     \<lparr>ro_meta = zero_meta\<lparr>om_Name := ''ranchervm-role'',
           om_OwnerReferences := [infra_owner_ref infra]\<rparr>,
       ro_Rules = [\<lparr>pr_APIGroups = [''apiextensions.k8s.io''],
            pr_Resources = [''customresourcedefinitions''], pr_Verbs = [''*''],
            pr_ResourceNames = []\<rparr>,
          \<lparr>pr_APIGroups = [[], ''batch''],
            pr_Resources = [''pods'', ''nodes'', ''services'', ''jobs'', ''endpoints''],
            pr_Verbs = [''*''], pr_ResourceNames = []\<rparr>,
          \<lparr>pr_APIGroups = [''vm.rancher.com''], pr_Resources = [''virtualmachines''],
            pr_Verbs = [''*''], pr_ResourceNames = []\<rparr>,
          \<lparr>pr_APIGroups = [''vm.rancher.com''], pr_Resources = [''arptables''],
            pr_Verbs = [''*''], pr_ResourceNames = []\<rparr>,
          \<lparr>pr_APIGroups = [''vm.rancher.com''], pr_Resources = [''credentials''],
            pr_Verbs = [''*''], pr_ResourceNames = []\<rparr>]\<rparr>"

definition ranchervm_role_binding :: "infrastructure \<Rightarrow> role_binding" where
  "ranchervm_role_binding infra =
     \<lparr>rb_meta = zero_meta\<lparr>om_Name := ''ranchervm-bind'',
           om_OwnerReferences := [infra_owner_ref infra]\<rparr>,
       rb_RoleRef = \<lparr>rr_APIGroup = ''rbac.authorization.k8s.io'', rr_Kind = ''ClusterRole'',
           rr_Name = ''ranchervm-role''\<rparr>,
       rb_Subjects = [\<lparr>sj_Kind = ''ServiceAccount'', sj_APIGroup = [],
            sj_Name = ''ranchervm-service-account'', sj_Namespace = RancherVMNamespace\<rparr>]\<rparr>"

definition ranchervm_ip_controller :: "infrastructure \<Rightarrow> daemon_set" where
  "ranchervm_ip_controller infra =
     \<lparr>ds_meta = zero_meta\<lparr>om_Name := ''ip-controller'', om_Namespace := RancherVMNamespace,
           om_OwnerReferences := [infra_owner_ref infra]\<rparr>,
       ds_Selector = Some \<lparr>ls_MatchLabels = [(''app'', ''ip-controller'')],
            ls_MatchExpressions = []\<rparr>,
       ds_Template = zero_pod_template\<lparr>
           pt_meta := zero_meta\<lparr>om_Labels := [(''app'', ''ip-controller'')]\<rparr>,
           pt_Spec := zero_pod_spec\<lparr>ps_HostNetwork := True,
               ps_Containers := [zero_container\<lparr>co_Name := ''ip-controller'',
                    co_Image := im_RancherVM (is_Images (i_Spec infra)),
                    co_ImagePullPolicy := ''Always'', co_Command := [''sh'', ''-c''],
                    co_Args := [''exec /ranchervm -ip -nodename ${MY_NODE_NAME} -v 3''],
                    co_Env := [\<lparr>ev_Name = ''MY_NODE_NAME'', ev_Value = [],
                         ev_FieldPath = Some ''spec.nodeName''\<rparr>]\<rparr>,
                  zero_container\<lparr>co_Name := ''arp-scanner'',
                    co_Image := im_RancherVM (is_Images (i_Spec infra)),
                    co_ImagePullPolicy := ''Always'', co_Command := [''bash'', ''-c''],
                    co_Args := [(''while true; do iface=br0; inet_addr=$(ifconfig $iface | grep '' @ [CHR 0x22] @ ''inet '' @ [CHR 0x22] @ '' | awk '' @ [CHR 0x27] @ ''{print $2}'' @ [CHR 0x27] @ '' | cut -d'' @ [CHR 0x27] @ '':'' @ [CHR 0x27] @ '' -f2);inet_mask=$(ifconfig $iface | grep '' @ [CHR 0x22] @ ''inet '' @ [CHR 0x22] @ '' | awk '' @ [CHR 0x27] @ ''{print $4}'' @ [CHR 0x27] @ '' | cut -d'' @ [CHR 0x27] @ '':'' @ [CHR 0x27] @ '' -f2);ips='' @ [CHR 0x22] @ ''$(arp-scan -interface=$iface $inet_addr:$inet_mask | awk -F'' @ [CHR 0x27] @ [CHR 0x5C] @ ''t'' @ [CHR 0x27] @ '' '' @ [CHR 0x27] @ ''$2 ~ /[0-9a-f][0-9a-f]:/ {print $1}'' @ [CHR 0x27] @ '')'' @ [CHR 0x22] @ '';for ip in $ips; do ping -c 1 -t 1 $ip &>/dev/null & done; sleep 5; done'')]\<rparr>],
               ps_ServiceAccountName := ''ranchervm-service-account''\<rparr>\<rparr>\<rparr>"

definition ranchervm_backend_service :: "infrastructure \<Rightarrow> service" where
  "ranchervm_backend_service infra =
     zero_service\<lparr>
       sv_meta := zero_meta\<lparr>om_Name := ''ranchervm-backend'', om_Namespace := RancherVMNamespace,
           om_OwnerReferences := [infra_owner_ref infra]\<rparr>,
       sv_Ports := [zero_port\<lparr>sp_Name := ''api'', sp_Port := 9500\<rparr>],
       sv_Selector := [(''app'', ''ranchervm-backend'')], sv_Type := ''ClusterIP''\<rparr>"

definition ranchervm_frontend_service :: "infrastructure \<Rightarrow> service" where
  "ranchervm_frontend_service infra =
     zero_service\<lparr>
       sv_meta := zero_meta\<lparr>om_Name := ''ranchervm-frontend'', om_Namespace := RancherVMNamespace,
           om_OwnerReferences := [infra_owner_ref infra]\<rparr>,
       sv_Ports := [zero_port\<lparr>sp_Name := ''ui'', sp_Port := 8000\<rparr>],
       sv_Selector := [(''app'', ''ranchervm-frontend'')], sv_Type := ''NodePort''\<rparr>"

definition ranchervm_controller :: "infrastructure \<Rightarrow> deployment" where
  "ranchervm_controller infra =
     zero_deployment\<lparr>
       de_meta := zero_meta\<lparr>om_Name := ''ranchervm-controller'',
           om_Namespace := RancherVMNamespace, om_OwnerReferences := [infra_owner_ref infra]\<rparr>,
       de_Replicas := is_Replicas (i_Spec infra),
       de_Selector := Some \<lparr>ls_MatchLabels = [(''app'', ''ranchervm-controller'')],
            ls_MatchExpressions = []\<rparr>,
       de_Template := zero_pod_template\<lparr>
           pt_meta := zero_meta\<lparr>om_Labels := [(''app'', ''ranchervm-controller'')]\<rparr>,
           pt_Spec := zero_pod_spec\<lparr>
               ps_PodAntiAffinity := [\<lparr>
                    pa_LabelSelector = \<lparr>ls_MatchLabels = [],
                        ls_MatchExpressions = [\<lparr>sr_Key = ''app'', sr_Operator = ''In'',
                             sr_Values = [''ranchervm-controller'']\<rparr>]\<rparr>,
                    pa_TopologyKey = ''kubernetes.io/hostname''\<rparr>],
               ps_Containers := [zero_container\<lparr>co_Name := ''ranchervm-controller'',
                    co_Image := im_RancherVM (is_Images (i_Spec infra)),
                    co_ImagePullPolicy := ''Always'',
                    co_Args := [''--vm'', ''--bridge-iface=eth0'', ''--v=3'']\<rparr>],
               ps_ServiceAccountName := ''ranchervm-service-account''\<rparr>\<rparr>\<rparr>"

definition ranchervm_backend :: "infrastructure \<Rightarrow> deployment" where
  "ranchervm_backend infra =
     zero_deployment\<lparr>
       de_meta := zero_meta\<lparr>om_Name := ''ranchervm-backend'', om_Namespace := RancherVMNamespace,
           om_OwnerReferences := [infra_owner_ref infra]\<rparr>,
       de_Replicas := is_Replicas (i_Spec infra),
       de_Selector := Some \<lparr>ls_MatchLabels = [(''app'', ''ranchervm-backend'')],
            ls_MatchExpressions = []\<rparr>,
       de_Template := zero_pod_template\<lparr>
           pt_meta := zero_meta\<lparr>om_Labels := [(''app'', ''ranchervm-backend'')]\<rparr>,
           pt_Spec := zero_pod_spec\<lparr>
               ps_PodAntiAffinity := [\<lparr>
                    pa_LabelSelector = \<lparr>ls_MatchLabels = [],
                        ls_MatchExpressions = [\<lparr>sr_Key = ''app'', sr_Operator = ''In'',
                             sr_Values = [''ranchervm-backend'']\<rparr>]\<rparr>,
                    pa_TopologyKey = ''kubernetes.io/hostname''\<rparr>],
               ps_Containers := [zero_container\<lparr>co_Name := ''ranchervm-backend'',
                    co_Image := im_RancherVM (is_Images (i_Spec infra)),
                    co_ImagePullPolicy := ''Always'', co_Args := [''--backend'']\<rparr>],
               ps_ServiceAccountName := ''ranchervm-service-account''\<rparr>\<rparr>\<rparr>"

definition ranchervm_frontend :: "infrastructure \<Rightarrow> deployment" where
  "ranchervm_frontend infra =
     zero_deployment\<lparr>
       de_meta := zero_meta\<lparr>om_Name := ''ranchervm-frontend'', om_Namespace := RancherVMNamespace,
           om_OwnerReferences := [infra_owner_ref infra]\<rparr>,
       de_Replicas := is_Replicas (i_Spec infra),
       de_Selector := Some \<lparr>ls_MatchLabels = [(''app'', ''ranchervm-frontend'')],
            ls_MatchExpressions = []\<rparr>,
       de_Template := zero_pod_template\<lparr>
           pt_meta := zero_meta\<lparr>om_Labels := [(''app'', ''ranchervm-frontend'')]\<rparr>,
           pt_Spec := zero_pod_spec\<lparr>
               ps_PodAntiAffinity := [\<lparr>
                    pa_LabelSelector = \<lparr>ls_MatchLabels = [],
                        ls_MatchExpressions = [\<lparr>sr_Key = ''app'', sr_Operator = ''In'',
                             sr_Values = [''ranchervm-frontend'']\<rparr>]\<rparr>,
                    pa_TopologyKey = ''kubernetes.io/hostname''\<rparr>],
               ps_Containers := [zero_container\<lparr>co_Name := ''ranchervm-frontend'',
                    co_Image := im_RancherVMFrontend (is_Images (i_Spec infra)),
                    co_ImagePullPolicy := ''Always'',
                    co_Env := [\<lparr>ev_Name = ''LONGHORN_MANAGER_IP'',
                         ev_Value = ''http://ranchervm-backend:9500'', ev_FieldPath = None\<rparr>]\<rparr>]\<rparr>\<rparr>\<rparr>"

definition ranchervm_items :: "infrastructure \<Rightarrow> (string \<times> k8s_obj) list" where
  "ranchervm_items infra =
     [(RancherVMNamespace, ObjServiceAccount (ranchervm_service_account infra)),
      ([], ObjClusterRole (ranchervm_role infra)),
      ([], ObjClusterRoleBinding (ranchervm_role_binding infra)),
      (RancherVMNamespace, ObjDaemonSet (ranchervm_ip_controller infra)),
      (RancherVMNamespace, ObjService (ranchervm_backend_service infra)),
      (RancherVMNamespace, ObjService (ranchervm_frontend_service infra)),
      (RancherVMNamespace, ObjDeployment (ranchervm_controller infra)),
      (RancherVMNamespace, ObjDeployment (ranchervm_backend infra))]"

definition createRancherVM where
  "createRancherVM srv infra =
     create_bundle srv RancherVMNamespace (ranchervm_items infra) (ranchervm_frontend infra)"

text \<open>The update creates the three deployments once more.\<close>

definition updateRancherVM where
  "updateRancherVM srv infra =
     create_bundle srv RancherVMNamespace
       [(RancherVMNamespace, ObjDeployment (ranchervm_controller infra)),
        (RancherVMNamespace, ObjDeployment (ranchervm_backend infra))] (ranchervm_frontend infra)"

lemmas ranchervm_defs = ranchervm_service_account_def ranchervm_role_def ranchervm_role_binding_def ranchervm_ip_controller_def ranchervm_backend_service_def ranchervm_frontend_service_def ranchervm_controller_def ranchervm_backend_def ranchervm_frontend_def

lemma ranchervm_named:
  "bundle_named (ranchervm_items infra @ [(RancherVMNamespace, ObjDeployment (ranchervm_frontend infra))])"
  by (simp add: ranchervm_items_def ranchervm_defs bundle_named_def well_named_def item_key_def
      path_segment_ok_def bundle_names)

lemma ranchervm_owned:
  "owned_by infra (ranchervm_items infra @ [(RancherVMNamespace, ObjDeployment (ranchervm_frontend infra))])"
  by (simp add: ranchervm_items_def ranchervm_defs owned_by_def)

lemma ranchervm_in_order:
  "created_in_order [] (ranchervm_items infra @ [(RancherVMNamespace, ObjDeployment (ranchervm_frontend infra))])"
  by (simp add: ranchervm_items_def has_object_def)
    (simp add: ranchervm_defs object_check_defs)

lemma ranchervm_services_ok:
  "list_all (service_ok (ranchervm_items infra @ [(RancherVMNamespace, ObjDeployment (ranchervm_frontend infra))]))
     (ranchervm_items infra @ [(RancherVMNamespace, ObjDeployment (ranchervm_frontend infra))])"
  by (simp add: ranchervm_items_def pods_of_def List.map_filter_simps)
    (simp add: ranchervm_defs port_check_defs)

lemma ranchervm_containers_ok:
  "containers_ok (ranchervm_items infra @ [(RancherVMNamespace, ObjDeployment (ranchervm_frontend infra))])"
  by (simp add: ranchervm_items_def containers_ok_def pods_of_def List.map_filter_simps)
    (simp add: ranchervm_defs address_check_defs)

lemma ranchervm_refs_ok:
  "bundle_refs_ok (ranchervm_items infra @ [(RancherVMNamespace, ObjDeployment (ranchervm_frontend infra))])"
  unfolding bundle_refs_ok_def using ranchervm_in_order ranchervm_services_ok ranchervm_containers_ok by blast

lemma ranchervm_no_namespace:
  "\<forall>(m, x) \<in> set (ranchervm_items infra). obj_resource x \<noteq> RNamespaces"
  by (simp add: ranchervm_items_def)

end
