(* ===== verification/Cube_Infra_Controller.thy ===== *)
theory Cube_Infra_Controller
  imports Cube_Dashboard Cube_Longhorn Cube_RancherVM
begin

text \<open>
  \<open>controller/infra_controller.go\<close>: the controller that installs a bundle for every infrastructure,
  keeps the replicas of its deployment and reports its state.

  The caches of infrastructures, deployments and services are arguments of the handlers; each is
  read once in a pass.  The watch on pods is left out: a pod is controlled by its replica set, so
  \<open>handleObject\<close> ignores it.
\<close>

record infra_caches =
  ic_infras :: "k8s_obj thread_safe_map"
  ic_deployments :: "k8s_obj thread_safe_map"
  ic_services :: "k8s_obj thread_safe_map"

section \<open>Operations\<close>

definition bundleCreate ::
    "'w api_server \<Rightarrow> infrastructure \<Rightarrow> 'w \<Rightarrow> (deployment option \<times> go_error option) \<times> 'w" where
  "bundleCreate srv infra w =
     (if is_InfraKind (i_Spec infra) = ''Dashboard'' then createDashboard srv infra w
      else if is_InfraKind (i_Spec infra) = ''Longhorn'' then createLonghorn srv infra w
      else if is_InfraKind (i_Spec infra) = ''RancherVM'' then createRancherVM srv infra w
      else ((None, Some (Errorf (''error bundle create: infrastructure type ''
        @ is_InfraKind (i_Spec infra) @ '' is invalid'') [])), w))"

definition bundleUpdate ::
    "'w api_server \<Rightarrow> infrastructure \<Rightarrow> 'w \<Rightarrow> (deployment option \<times> go_error option) \<times> 'w" where
  "bundleUpdate srv infra w =
     (if is_InfraKind (i_Spec infra) = ''Dashboard'' then updateDashboard srv infra w
      else if is_InfraKind (i_Spec infra) = ''Longhorn'' then updateLonghorn srv infra w
      else if is_InfraKind (i_Spec infra) = ''RancherVM'' then updateRancherVM srv infra w
      else ((None, Some (Errorf (''error bundle update: infrastructure type ''
        @ is_InfraKind (i_Spec infra) @ '' is invalid'') [])), w))"

text \<open>The service an infrastructure answers on: its namespace and name.\<close>

definition detected_service :: "string \<Rightarrow> (string \<times> string) option" where
  "detected_service kind =
     (if kind = ''Dashboard'' then Some (InfrastructureNamespace, ''kubernetes-dashboard'')
      else if kind = ''Longhorn'' then Some (LonghornNamespace, ''longhorn-frontend'')
      else if kind = ''RancherVM'' then Some (RancherVMNamespace, ''ranchervm-frontend'')
      else None)"

definition detectService ::
    "k8s_obj thread_safe_map \<Rightarrow> infrastructure \<Rightarrow> (bool \<times> go_error option) outcome" where
  "detectService services infra =
     (case detected_service (is_InfraKind (i_Spec infra)) of
        None \<Rightarrow> Return (False, Some (Errorf (''error detect service: infrastructure type ''
          @ is_InfraKind (i_Spec infra) @ '' is invalid'') []))
      | Some (ns, n) \<Rightarrow>
          bind_outcome (Services_lister_Get services ns n) (\<lambda>res.
            case res of Inl e \<Rightarrow> Return (False, Some e) | Inr _ \<Rightarrow> Return (True, None)))"

text \<open>The text of an error of \<open>detectService\<close>: a missing service, or the message above.\<close>

fun service_error_text :: "go_error \<Rightarrow> string" where
  "service_error_text (StatusError _ n) = ''service '' @ [CHR 0x22] @ n @ [CHR 0x22] @ '' not found''"
| "service_error_text (Errorf f _) = f"
| "service_error_text (WithMessage e m) = m @ '': '' @ service_error_text e"

definition infra_status_of :: "bool \<Rightarrow> go_error option \<Rightarrow> int32 \<Rightarrow> infra_status \<Rightarrow> infra_status" where
  "infra_status_of isHealthy serviceErr available s =
     (let s1 = s\<lparr>st_AvailableReplicas := available\<rparr> in
      if isHealthy \<and> 0 <s st_AvailableReplicas s1 then s1\<lparr>st_State := ''Healthy''\<rparr>
      else (case serviceErr of
          None \<Rightarrow> s1\<lparr>st_State := ''UnHealthy''\<rparr>
        | Some e \<Rightarrow> s1\<lparr>st_State := ''UnHealthy'', st_Message := service_error_text e\<rparr>))"

definition updateInfra ::
    "'w api_server \<Rightarrow> k8s_obj thread_safe_map \<Rightarrow> infrastructure \<Rightarrow> deployment \<Rightarrow> 'w
       \<Rightarrow> (go_error option \<times> 'w) outcome" where
  "updateInfra srv services infra deployment w =
     bind_outcome (detectService services infra) (\<lambda>(isHealthy, serviceErr).
       let infraCopy = infra\<lparr>i_Status :=
             infra_status_of isHealthy serviceErr (de_AvailableReplicas deployment) (i_Status infra)\<rparr>
       in case Infrastructures_Update srv (om_Namespace (i_meta infra)) infraCopy w of
            ((_, err), w1) \<Rightarrow> Return (err, w1))"

definition infra_get_or_create ::
    "'w api_server \<Rightarrow> infrastructure \<Rightarrow> go_error + deployment \<Rightarrow> 'w ctl
       \<Rightarrow> (deployment option \<times> go_error option) \<times> 'w ctl" where
  "infra_get_or_create srv infra res st =
     (case res of
        Inr d \<Rightarrow> ((Some d, None), st)
      | Inl e \<Rightarrow> if IsNotFound (Some e) then on_world (bundleCreate srv infra) st
          else ((None, Some e), st))"

definition infra_sync_replicas ::
    "'w api_server \<Rightarrow> infrastructure \<Rightarrow> deployment \<Rightarrow> 'w ctl \<Rightarrow> (deployment option flow \<times> 'w ctl) outcome" where
  "infra_sync_replicas srv infra d st =
     (case is_Replicas (i_Spec infra) of
        None \<Rightarrow> Return (Go (Some d), st)
      | Some n \<Rightarrow>
          (case de_Replicas d of
             None \<Rightarrow> nil_deref
           | Some k \<Rightarrow>
               if n \<noteq> k then
                 (case on_world (bundleUpdate srv infra) st of
                    ((d1, err), st1) \<Rightarrow>
                      if err \<noteq> None then Return (Ret err, st1) else Return (Go d1, st1))
               else Return (Go (Some d), st)))"

text \<open>The end of a pass: the status, and the event of a success.\<close>

definition infra_report ::
    "'w api_server \<Rightarrow> infra_caches \<Rightarrow> infrastructure \<Rightarrow> deployment option \<Rightarrow> 'w ctl
       \<Rightarrow> (unit flow \<times> 'w ctl) outcome" where
  "infra_report srv cs infra deployment st =
     (case deployment of
        None \<Rightarrow> nil_deref
      | Some d \<Rightarrow>
          bind_outcome (updateInfra srv (ic_services cs) infra d (ct_world st)) (\<lambda>(err, w).
            if err \<noteq> None then Return (Ret err, st\<lparr>ct_world := w\<rparr>)
            else Return (Go (), record_event EventTypeNormal SuccessSynced InfraMessageResourceSynced []
              (st\<lparr>ct_world := w\<rparr>))))"

text \<open>The part of the pass that has a deployment.\<close>

definition infra_reconcile ::
    "'w api_server \<Rightarrow> infra_caches \<Rightarrow> infrastructure \<Rightarrow> deployment option \<Rightarrow> 'w ctl
       \<Rightarrow> (go_error option \<times> 'w ctl) outcome" where
  "infra_reconcile srv cs infra deployment st =
     (case deployment of
        None \<Rightarrow> nil_deref
      | Some d \<Rightarrow>
          if \<not> IsControlledBy (de_meta d) (i_meta infra) then
            Return (Some (Errorf InfraMessageResourceExists [om_Name (de_meta d)]),
              record_event EventTypeWarning ErrResourceExists InfraMessageResourceExists
                [om_Name (de_meta d)] st)
          else
            bind_outcome
              (flow_bind (infra_sync_replicas srv infra d st) (infra_report srv cs infra))
              (\<lambda>(r, st'). Return (ret_value r, st')))"

definition infra_syncHandler ::
    "'w api_server \<Rightarrow> infra_caches \<Rightarrow> string \<Rightarrow> 'w ctl \<Rightarrow> (go_error option \<times> 'w ctl) outcome" where
  "infra_syncHandler srv cs key st =
     (case SplitMetaNamespaceKey key of
        Inl _ \<Rightarrow> Return (None, st)
      | Inr (ns, name) \<Rightarrow>
          bind_outcome (Infrastructures_lister_Get (ic_infras cs) ns name) (\<lambda>res.
          case res of
            Inl err \<Rightarrow> Return (if IsNotFound (Some err) then None else Some err, st)
          | Inr infra \<Rightarrow>
              let deploymentName = om_Name (i_meta infra) in
              if deploymentName = [] then Return (None, st)
              else
                bind_outcome (Deployments_lister_Get (ic_deployments cs) (om_Namespace (i_meta infra))
                  deploymentName) (\<lambda>dres.
                case infra_get_or_create srv infra dres st of
                  ((deployment, err), st1) \<Rightarrow>
                  if err \<noteq> None then Return (err, st1)
                  else infra_reconcile srv cs infra deployment st1)))"

lemmas infra_pass_defs = infra_syncHandler_def infra_reconcile_def infra_report_def

section \<open>The queue of the controller\<close>

definition enqueueInfra :: "watched \<Rightarrow> bool \<Rightarrow> delaying_queue \<Rightarrow> delaying_queue" where
  "enqueueInfra = enqueue_obj"

definition infra_handleObject ::
    "infra_caches \<Rightarrow> bool \<Rightarrow> watched \<Rightarrow> delaying_queue \<Rightarrow> delaying_queue outcome" where
  "infra_handleObject cs no_delay obj d =
     (case decode_object obj of
        None \<Rightarrow> Return d
      | Some object \<Rightarrow>
          (case GetControllerOf (obj_meta object) of
             None \<Rightarrow> Return d
           | Some ownerRef \<Rightarrow>
               if or_Kind ownerRef \<noteq> ''Infrastructure'' then Return d
               else bind_outcome (Infrastructures_lister_Get (ic_infras cs)
                   (om_Namespace (obj_meta object)) (or_Name ownerRef)) (\<lambda>res.
                 case res of
                   Inl _ \<Rightarrow> Return d
                 | Inr infra \<Rightarrow> Return (enqueueInfra (Watched (ObjInfra infra)) no_delay d))))"

definition on_deployment_update where
  "on_deployment_update cs no_delay = on_owned_update as_deployment de_meta (infra_handleObject cs no_delay)"

definition infra_processNextWorkItem ::
    "'w api_server \<Rightarrow> infra_caches \<Rightarrow> work_item list \<Rightarrow> delaying_queue \<Rightarrow> 'w ctl
       \<Rightarrow> 'w ctl iteration outcome" where
  "infra_processNextWorkItem srv cs = process_next (infra_syncHandler srv cs)"

section \<open>The bundle of an infrastructure\<close>

text \<open>The namespace, the objects and the deployment that belong to a kind.\<close>

definition bundle_of ::
    "infrastructure \<Rightarrow> (string \<times> (string \<times> k8s_obj) list \<times> deployment) option" where
  "bundle_of infra =
     (if is_InfraKind (i_Spec infra) = ''Dashboard''
        then Some (InfrastructureNamespace, dashboard_items infra, dashboard_deployment infra)
      else if is_InfraKind (i_Spec infra) = ''Longhorn''
        then Some (LonghornNamespace, longhorn_items infra, longhorn_frontend infra)
      else if is_InfraKind (i_Spec infra) = ''RancherVM''
        then Some (RancherVMNamespace, ranchervm_items infra, ranchervm_frontend infra)
      else None)"

lemma bundle_of_cases:
  assumes "bundle_of infra = Some (ns, items, d)"
  obtains (dashboard) "is_InfraKind (i_Spec infra) = ''Dashboard''" "ns = InfrastructureNamespace"
      "items = dashboard_items infra" "d = dashboard_deployment infra"
    | (longhorn) "is_InfraKind (i_Spec infra) = ''Longhorn''" "ns = LonghornNamespace"
      "items = longhorn_items infra" "d = longhorn_frontend infra"
    | (ranchervm) "is_InfraKind (i_Spec infra) = ''RancherVM''" "ns = RancherVMNamespace"
      "items = ranchervm_items infra" "d = ranchervm_frontend infra"
  using assms unfolding bundle_of_def by (auto split: if_splits)

lemma bundleCreate_bundle:
  assumes "bundle_of infra = Some (ns, items, d)"
  shows "bundleCreate srv infra w = create_bundle srv ns items d w"
  using assms
  by (cases rule: bundle_of_cases)
    (simp_all add: bundleCreate_def createDashboard_def createLonghorn_def createRancherVM_def)

lemma bundle_of_facts:
  assumes "bundle_of infra = Some (ns, items, d)"
  shows "bundle_named (items @ [(ns, ObjDeployment d)])"
    "owned_by infra (items @ [(ns, ObjDeployment d)])"
    "bundle_refs_ok (items @ [(ns, ObjDeployment d)])"
    "\<forall>(m, x) \<in> set items. obj_resource x \<noteq> RNamespaces"
    "ns \<noteq> []" "path_segment_ok ns"
proof -
  show "bundle_named (items @ [(ns, ObjDeployment d)])" using assms
    by (cases rule: bundle_of_cases) (simp_all only: dashboard_named longhorn_named ranchervm_named)
  show "owned_by infra (items @ [(ns, ObjDeployment d)])" using assms
    by (cases rule: bundle_of_cases) (simp_all only: dashboard_owned longhorn_owned ranchervm_owned)
  show "bundle_refs_ok (items @ [(ns, ObjDeployment d)])" using assms
    by (cases rule: bundle_of_cases) (simp_all only: dashboard_refs_ok longhorn_refs_ok ranchervm_refs_ok)
  show "\<forall>(m, x) \<in> set items. obj_resource x \<noteq> RNamespaces" using assms
    by (cases rule: bundle_of_cases)
      (use dashboard_no_namespace longhorn_no_namespace ranchervm_no_namespace in blast)+
  show "ns \<noteq> []" "path_segment_ok ns" using assms
    by (cases rule: bundle_of_cases; simp add: bundle_names path_segment_ok_def)+
qed

lemma bundle_services:
  "has_object (dashboard_items infra) RServices InfrastructureNamespace ''kubernetes-dashboard''"
  "has_object (longhorn_items infra) RServices LonghornNamespace ''longhorn-frontend''"
  "has_object (ranchervm_items infra) RServices RancherVMNamespace ''ranchervm-frontend''"
  by (simp_all add: has_object_def dashboard_items_def longhorn_items_def ranchervm_items_def
      dashboard_service_def longhorn_frontend_service_def ranchervm_frontend_service_def)

lemma bundle_node_ports:
  "node_port_service (dashboard_items infra) InfrastructureNamespace ''kubernetes-dashboard''"
  "node_port_service (longhorn_items infra) LonghornNamespace ''longhorn-frontend''"
  "node_port_service (ranchervm_items infra) RancherVMNamespace ''ranchervm-frontend''"
  by (simp_all add: node_port_service_def dashboard_items_def longhorn_items_def ranchervm_items_def
      dashboard_service_def longhorn_frontend_service_def ranchervm_frontend_service_def zero_service_def)

lemma bundle_of_service:
  assumes "bundle_of infra = Some (ns, items, d)"
  shows "\<exists>sn. detected_service (is_InfraKind (i_Spec infra)) = Some (ns, sn) \<and> has_object items RServices ns sn
    \<and> node_port_service items ns sn"
  using assms bundle_services [of infra] bundle_node_ports [of infra]
  by (cases rule: bundle_of_cases) (simp_all add: detected_service_def)

lemma bundle_of_deployment:
  assumes "bundle_of infra = Some (ns, items, d)"
  shows "de_Replicas d = is_Replicas (i_Spec infra)" "om_Namespace (de_meta d) = ns"
    "om_OwnerReferences (de_meta d) = [infra_owner_ref infra]"
    "IsControlledBy (de_meta d) (i_meta infra)"
proof -
  show "de_Replicas d = is_Replicas (i_Spec infra)"
    using assms
    by (cases rule: bundle_of_cases)
      (simp_all add: dashboard_deployment_def longhorn_frontend_def ranchervm_frontend_def)
  show "om_Namespace (de_meta d) = ns"
    using bundle_of_facts(1) [OF assms] by (simp add: bundle_named_def)
  show o: "om_OwnerReferences (de_meta d) = [infra_owner_ref infra]"
    using bundle_of_facts(2) [OF assms] by (simp add: owned_by_def)
  then show "IsControlledBy (de_meta d) (i_meta infra)" by (rule infra_owner_ref_controls)
qed

text \<open>
  C11. Every bundle is consistent: no object twice; every object controlled by the infrastructure; every
  role, account, secret and volume an object refers to is in the bundle and created before it.  Every
  service has a port and selects pods of the bundle, and the port it forwards to is one these pods
  declare; the pods of RancherVM declare none, and there it is 9500 for the backend and 8000 for the
  frontend.  Every address a container is given in its environment names a service of the bundle and a
  port of it; a container declares the port that its arguments tell it to listen on and the one its
  probe asks.  The service the health check looks for is in the bundle, under one port of the nodes.
\<close>

theorem bundles_consistent:
  assumes "bundle_of infra = Some (ns, items, d)"
  shows "bundle_named (items @ [(ns, ObjDeployment d)]) \<and> owned_by infra (items @ [(ns, ObjDeployment d)])
    \<and> bundle_refs_ok (items @ [(ns, ObjDeployment d)])
    \<and> (\<exists>sn. detected_service (is_InfraKind (i_Spec infra)) = Some (ns, sn) \<and> has_object items RServices ns sn
        \<and> node_port_service items ns sn)"
  using bundle_of_facts [OF assms] bundle_of_service [OF assms] by blast

text \<open>
  Creating the bundle of an infrastructure in a cluster that has none of its objects succeeds:
  it returns the deployment, controlled by the infrastructure and with its replicas, every object
  of the bundle is stored exactly as written, and nothing else changes but the namespace.
\<close>

theorem bundleCreate_fresh:
  assumes "bundle_of infra = Some (ns, items, d)" "tracker_ok w"
    and "\<forall>(m, x) \<in> set (items @ [(ns, ObjDeployment d)]).
      tracker_stored w (obj_resource x) m (om_Name (obj_meta x)) = None"
  shows "\<exists>w1. bundleCreate ObjectReaction infra w = ((Some d, None), w1) \<and> tracker_ok w1
    \<and> IsControlledBy (de_meta d) (i_meta infra) \<and> de_Replicas d = is_Replicas (i_Spec infra)
    \<and> (\<forall>(m, x) \<in> set (items @ [(ns, ObjDeployment d)]).
         tracker_stored w1 (obj_resource x) m (om_Name (obj_meta x)) = Some x)
    \<and> same_outside (insert (RNamespaces, [], ns) (set (map item_key (items @ [(ns, ObjDeployment d)]))))
        (tracker_stored w) (tracker_stored w1)"
proof -
  note facts = bundle_of_facts [OF assms(1)] and depl = bundle_of_deployment [OF assms(1)]
  obtain w1 where "create_bundle ObjectReaction ns items d w = ((Some d, None), w1)" "tracker_ok w1"
    "\<forall>(m, x) \<in> set (items @ [(ns, ObjDeployment d)]).
      tracker_stored w1 (obj_resource x) m (om_Name (obj_meta x)) = Some x"
    "same_outside (insert (RNamespaces, [], ns) (set (map item_key (items @ [(ns, ObjDeployment d)]))))
       (tracker_stored w) (tracker_stored w1)"
    by (rule create_bundle_fresh [OF assms(2) facts(5,1) assms(3) facts(4)])
  with depl(1,4) show ?thesis unfolding bundleCreate_bundle [OF assms(1)] by blast
qed

text \<open>
  C12. Creating a bundle is safe to repeat over whatever is there already: it never changes an object
  that exists, touches nothing outside the bundle, and when it reports no error, every object of
  the bundle exists.
\<close>

theorem bundleCreate_safe:
  assumes "bundle_of infra = Some (ns, items, d)" "tracker_ok w"
  shows "case bundleCreate ObjectReaction infra w of ((_, err), w') \<Rightarrow>
      tracker_ok w'
      \<and> (\<forall>r m n y. tracker_stored w r m n = Some y \<longrightarrow> tracker_stored w' r m n = Some y)
      \<and> same_outside (insert (RNamespaces, [], ns) (set (map item_key (items @ [(ns, ObjDeployment d)]))))
          (tracker_stored w) (tracker_stored w')
      \<and> (err = None \<longrightarrow> (\<forall>(m, x) \<in> set (items @ [(ns, ObjDeployment d)]).
           tracker_stored w' (obj_resource x) m (om_Name (obj_meta x)) \<noteq> None))"
proof -
  obtain depl err w' where r: "bundleCreate ObjectReaction infra w = ((depl, err), w')"
    by (metis surj_pair)
  then have c: "create_bundle ObjectReaction ns items d w = ((depl, err), w')"
    by (simp add: bundleCreate_bundle [OF assms(1)])
  note ok = tr.create_bundle_ok [OF assms(2) bundle_of_facts(5,1) [OF assms(1)] c]
  from ok(1) have f: "tracker_ok w'" "same_outside (insert (RNamespaces, [], ns)
      (set (map item_key (items @ [(ns, ObjDeployment d)])))) (tracker_stored w) (tracker_stored w')"
    by (simp_all add: tr.frame_def)
  have "\<forall>(m, x) \<in> set (items @ [(ns, ObjDeployment d)]).
      tracker_stored w' (obj_resource x) m (om_Name (obj_meta x)) \<noteq> None" if "err = None"
    using ok(3) that by fastforce
  with f ok(2) show ?thesis by (simp add: r)
qed

section \<open>One pass of the controller\<close>

definition valid_infra :: "infrastructure \<Rightarrow> bool" where
  "valid_infra infra \<longleftrightarrow>
     om_Name (i_meta infra) \<noteq> [] \<and> om_Namespace (i_meta infra) \<noteq> []
     \<and> path_segment_ok (om_Name (i_meta infra)) \<and> path_segment_ok (om_Namespace (i_meta infra))"

definition infra_key :: "infrastructure \<Rightarrow> string" where
  "infra_key infra = lister_key (om_Namespace (i_meta infra)) (om_Name (i_meta infra))"

definition infra_synced_event :: event where
  "infra_synced_event = \<lparr>ev_type = EventTypeNormal, ev_reason = SuccessSynced,
     ev_message = InfraMessageResourceSynced, ev_args = []\<rparr>"

text \<open>The state a pass reports: whether the service is there, and whether anything is available.\<close>

definition service_present :: "infra_caches \<Rightarrow> infrastructure \<Rightarrow> bool" where
  "service_present cs infra =
     (case detected_service (is_InfraKind (i_Spec infra)) of None \<Rightarrow> False
      | Some (ns, n) \<Rightarrow> (\<exists>s. tsm_Get (lister_key ns n) (ic_services cs) = Some (ObjService s)))"

definition services_typed :: "infra_caches \<Rightarrow> bool" where
  "services_typed cs \<longleftrightarrow> (\<forall>k x. tsm_Get k (ic_services cs) = Some x \<longrightarrow> (\<exists>s. x = ObjService s))"

lemma detectService_present:
  assumes "services_typed cs"
  shows "\<exists>e. detectService (ic_services cs) infra = Return (service_present cs infra, e)
    \<and> (service_present cs infra \<longrightarrow> e = None)"
proof (cases "detected_service (is_InfraKind (i_Spec infra))")
  case (Some p)
  obtain ns n where p: "p = (ns, n)" by (cases p)
  show ?thesis
  proof (cases "tsm_Get (lister_key ns n) (ic_services cs)")
    case (Some x)
    with assms obtain s where "x = ObjService s" by (auto simp: services_typed_def)
    with Some \<open>detected_service _ = Some p\<close> p show ?thesis
      by (simp add: detectService_def service_present_def lister_defs lister_Get_def type_assert_def)
  next
    case None
    with Some p show ?thesis
      by (simp add: detectService_def service_present_def lister_defs lister_Get_def)
  qed
qed (simp add: detectService_def service_present_def)

lemma infra_status_of_sel:
  "st_AvailableReplicas (infra_status_of h e a s) = a"
  "st_State (infra_status_of h e a s) = (if h \<and> 0 <s a then ''Healthy'' else ''UnHealthy'')"
  by (simp_all add: infra_status_of_def Let_def split: option.splits)

lemma updateInfra_ok:
  assumes "tracker_ok w" "valid_infra infra" "services_typed cs"
    and "tracker_stored w RInfrastructures (om_Namespace (i_meta infra)) (om_Name (i_meta infra)) \<noteq> None"
  obtains w1 s where
    "updateInfra ObjectReaction (ic_services cs) infra d w = Return (None, w1)" "tracker_ok w1"
    "st_AvailableReplicas s = de_AvailableReplicas d"
    "st_State s = (if service_present cs infra \<and> 0 <s de_AvailableReplicas d then ''Healthy'' else ''UnHealthy'')"
    "tracker_stored w1 = stored_put RInfrastructures (om_Namespace (i_meta infra)) (om_Name (i_meta infra))
       (ObjInfra (infra\<lparr>i_Status := s\<rparr>)) (tracker_stored w)"
proof -
  obtain e where det: "detectService (ic_services cs) infra = Return (service_present cs infra, e)"
    using detectService_present [OF assms(3)] by blast
  define s where "s = infra_status_of (service_present cs infra) e (de_AvailableReplicas d) (i_Status infra)"
  let ?ns = "om_Namespace (i_meta infra)" and ?x = "ObjInfra (infra\<lparr>i_Status := s\<rparr>)"
  have wn: "well_named RInfrastructures ?ns ?x"
    using assms(2) by (simp add: well_named_def valid_infra_def)
  have id: "propagate_namespace ?ns ?x = ?x" by (rule propagate_namespace_id) simp
  have ex: "tracker_stored w RInfrastructures ?ns (om_Name (obj_meta ?x)) \<noteq> None" using assms(4) by simp
  from client_update_tracker [OF assms(1) wn _ _ ex] assms(2) id obtain w1 where
    w1: "client_update ObjectReaction RInfrastructures ?ns ?x w = (Inr ?x, w1)" "tracker_ok w1"
    "tracker_stored w1 = stored_put RInfrastructures ?ns (om_Name (i_meta infra)) ?x (tracker_stored w)"
    by (auto simp: valid_infra_def)
  have "updateInfra ObjectReaction (ic_services cs) infra d w = Return (None, w1)"
    using w1(1) by (simp add: updateInfra_def det Infrastructures_Update_def api_simps s_def Let_def)
  then show thesis
    by (rule that [OF _ w1(2) _ _ w1(3)]) (simp_all add: s_def infra_status_of_sel)
qed

lemma infra_key_split:
  "valid_infra infra \<Longrightarrow> SplitMetaNamespaceKey (infra_key infra) =
     Inr (om_Namespace (i_meta infra), om_Name (i_meta infra))"
  by (simp add: infra_key_def lister_key_def SplitMetaNamespaceKey_def valid_infra_def path_segment_ok_def
      split_on_simps)

lemma infra_lister_cached:
  "tsm_Get (lister_key ns n) c = Some (ObjInfra x) \<Longrightarrow> Infrastructures_lister_Get c ns n = Return (Inr x)"
  "tsm_Get (lister_key ns n) c' = Some (ObjDeployment d) \<Longrightarrow> Deployments_lister_Get c' ns n = Return (Inr d)"
  "tsm_Get (lister_key ns n) c' = None \<Longrightarrow>
     Deployments_lister_Get c' ns n = Return (Inl (StatusError StatusReasonNotFound n))"
  by (simp_all add: lister_defs lister_Get_def type_assert_def)

text \<open>
  C9. A pass over an installed infrastructure whose deployment has the wanted replicas succeeds and
  changes nothing but its status: the available replicas of the deployment, and \<open>Healthy\<close> exactly
  when its service exists and at least one replica is available.
\<close>

theorem infra_sync_reports_status:
  assumes "valid_infra infra" "services_typed cs"
    and "tsm_Get (infra_key infra) (ic_infras cs) = Some (ObjInfra infra)"
    and "tsm_Get (infra_key infra) (ic_deployments cs) = Some (ObjDeployment d)"
    and "IsControlledBy (de_meta d) (i_meta infra)"
    and "is_Replicas (i_Spec infra) = None \<or> is_Replicas (i_Spec infra) = de_Replicas d"
    and "tracker_ok w"
    "tracker_stored w RInfrastructures (om_Namespace (i_meta infra)) (om_Name (i_meta infra)) \<noteq> None"
  shows "\<exists>w' s. infra_syncHandler ObjectReaction cs (infra_key infra) \<lparr>ct_world = w, ct_events = evs\<rparr> =
      Return (None, \<lparr>ct_world = w', ct_events = evs @ [infra_synced_event]\<rparr>)
    \<and> tracker_ok w' \<and> st_AvailableReplicas s = de_AvailableReplicas d
    \<and> st_State s = (if service_present cs infra \<and> 0 <s de_AvailableReplicas d then ''Healthy'' else ''UnHealthy'')
    \<and> tracker_stored w' = stored_put RInfrastructures (om_Namespace (i_meta infra)) (om_Name (i_meta infra))
        (ObjInfra (infra\<lparr>i_Status := s\<rparr>)) (tracker_stored w)"
proof -
  obtain w1 s where u: "updateInfra ObjectReaction (ic_services cs) infra d w = Return (None, w1)"
    and rest: "tracker_ok w1" "st_AvailableReplicas s = de_AvailableReplicas d"
    "st_State s = (if service_present cs infra \<and> 0 <s de_AvailableReplicas d then ''Healthy'' else ''UnHealthy'')"
    "tracker_stored w1 = stored_put RInfrastructures (om_Namespace (i_meta infra)) (om_Name (i_meta infra))
       (ObjInfra (infra\<lparr>i_Status := s\<rparr>)) (tracker_stored w)"
    by (rule updateInfra_ok [OF assms(7,1,2,8)])
  have "infra_sync_replicas ObjectReaction infra d st = Return (Go (Some d), st)" for st
    using assms(6) by (auto simp: infra_sync_replicas_def split: option.splits)
  then have "infra_syncHandler ObjectReaction cs (infra_key infra) \<lparr>ct_world = w, ct_events = evs\<rparr> =
      Return (None, \<lparr>ct_world = w1, ct_events = evs @ [infra_synced_event]\<rparr>)"
    using assms(1,5) u
    by (simp add: infra_pass_defs infra_key_split infra_get_or_create_def
        infra_lister_cached(1) [OF assms(3) [unfolded infra_key_def]]
        infra_lister_cached(2) [OF assms(4) [unfolded infra_key_def]]
        valid_infra_def record_event_def infra_synced_event_def Let_def)
  with rest show ?thesis by blast
qed

text \<open>
  When the deployment under the infrastructure's name belongs to something else, the pass fails
  with an \<open>ErrResourceExists\<close> warning and sends no request to the API.
\<close>

theorem infra_sync_refuses_foreign:
  assumes "valid_infra infra" "tsm_Get (infra_key infra) (ic_infras cs) = Some (ObjInfra infra)"
    and "tsm_Get (infra_key infra) (ic_deployments cs) = Some (ObjDeployment d)"
    and "\<not> IsControlledBy (de_meta d) (i_meta infra)"
  shows "infra_syncHandler srv cs (infra_key infra) st =
    Return (Some (Errorf InfraMessageResourceExists [om_Name (de_meta d)]),
      record_event EventTypeWarning ErrResourceExists InfraMessageResourceExists [om_Name (de_meta d)] st)"
  using assms(1,4)
  by (simp add: infra_pass_defs infra_key_split infra_get_or_create_def
      infra_lister_cached(1) [OF assms(2) [unfolded infra_key_def]]
      infra_lister_cached(2) [OF assms(3) [unfolded infra_key_def]] valid_infra_def Let_def)

text \<open>
  The first pass over an infrastructure installs its whole bundle, in a cluster that has none of
  the objects, and reports \<open>UnHealthy\<close>, since nothing of the new deployment is available yet.
\<close>

theorem infra_sync_installs:
  assumes "valid_infra infra" "services_typed cs" "bundle_of infra = Some (ns, items, d)"
    and "tsm_Get (infra_key infra) (ic_infras cs) = Some (ObjInfra infra)"
    and "tsm_Get (infra_key infra) (ic_deployments cs) = None"
    and "tracker_ok w"
    "tracker_stored w RInfrastructures (om_Namespace (i_meta infra)) (om_Name (i_meta infra)) \<noteq> None"
    and "\<forall>(m, x) \<in> set (items @ [(ns, ObjDeployment d)]).
      tracker_stored w (obj_resource x) m (om_Name (obj_meta x)) = None"
  shows "\<exists>w' s. infra_syncHandler ObjectReaction cs (infra_key infra) \<lparr>ct_world = w, ct_events = evs\<rparr> =
      Return (None, \<lparr>ct_world = w', ct_events = evs @ [infra_synced_event]\<rparr>)
    \<and> tracker_ok w'
    \<and> (\<forall>(m, x) \<in> set (items @ [(ns, ObjDeployment d)]).
         tracker_stored w' (obj_resource x) m (om_Name (obj_meta x)) = Some x)
    \<and> tracker_stored w' RInfrastructures (om_Namespace (i_meta infra)) (om_Name (i_meta infra)) =
        Some (ObjInfra (infra\<lparr>i_Status := s\<rparr>))
    \<and> st_State s = ''UnHealthy'' \<and> st_AvailableReplicas s = 0"
proof -
  note facts = bundle_of_facts [OF assms(3)] and depl = bundle_of_deployment [OF assms(3)]
  obtain w1 where c: "create_bundle ObjectReaction ns items d w = ((Some d, None), w1)" and w1: "tracker_ok w1"
    "\<forall>(m, x) \<in> set (items @ [(ns, ObjDeployment d)]).
      tracker_stored w1 (obj_resource x) m (om_Name (obj_meta x)) = Some x"
    "same_outside (insert (RNamespaces, [], ns) (set (map item_key (items @ [(ns, ObjDeployment d)]))))
       (tracker_stored w) (tracker_stored w1)"
    by (rule create_bundle_fresh [OF assms(6) facts(5,1) assms(8) facts(4)])
  then have bc: "bundleCreate ObjectReaction infra w = ((Some d, None), w1)"
    by (simp add: bundleCreate_bundle [OF assms(3)])
  have avail: "de_AvailableReplicas d = 0"
    using assms(3) by (cases rule: bundle_of_cases)
      (simp_all add: dashboard_deployment_def longhorn_frontend_def ranchervm_frontend_def zero_deployment_def)
  have inf: "tracker_stored w1 RInfrastructures (om_Namespace (i_meta infra)) (om_Name (i_meta infra)) \<noteq> None"
    using tr.create_bundle_ok(2) [OF assms(6) facts(5,1) c] assms(7) by fastforce
  obtain w2 s where u: "updateInfra ObjectReaction (ic_services cs) infra d w1 = Return (None, w2)"
    and rest: "tracker_ok w2" "st_AvailableReplicas s = de_AvailableReplicas d"
    "st_State s = (if service_present cs infra \<and> 0 <s de_AvailableReplicas d then ''Healthy'' else ''UnHealthy'')"
    "tracker_stored w2 = stored_put RInfrastructures (om_Namespace (i_meta infra)) (om_Name (i_meta infra))
       (ObjInfra (infra\<lparr>i_Status := s\<rparr>)) (tracker_stored w1)"
    by (rule updateInfra_ok [OF w1(1) assms(1,2) inf])
  have "infra_sync_replicas ObjectReaction infra d st = Return (Go (Some d), st)" for st
    using depl(1) by (auto simp: infra_sync_replicas_def split: option.splits)
  then have "infra_syncHandler ObjectReaction cs (infra_key infra) \<lparr>ct_world = w, ct_events = evs\<rparr> =
      Return (None, \<lparr>ct_world = w2, ct_events = evs @ [infra_synced_event]\<rparr>)"
    using assms(1) depl(4) u bc
    by (simp add: infra_pass_defs infra_key_split infra_get_or_create_def go_err on_world_def
        infra_lister_cached(1) [OF assms(4) [unfolded infra_key_def]]
        infra_lister_cached(3) [OF assms(5) [unfolded infra_key_def]]
        valid_infra_def record_event_def infra_synced_event_def Let_def)
  moreover have "\<forall>(m, x) \<in> set (items @ [(ns, ObjDeployment d)]).
      tracker_stored w2 (obj_resource x) m (om_Name (obj_meta x)) = Some x"
    using w1(2) assms(7,8) unfolding rest(4) by fastforce
  ultimately show ?thesis using rest(1-3) avail
    by (intro exI [of _ w2] exI [of _ s]) (simp add: rest(4))
qed

section \<open>Scaling\<close>

text \<open>The deployments \<open>bundleUpdate\<close> posts for a kind that it updates by creating.\<close>

definition posted_deployments :: "infrastructure \<Rightarrow> (string \<times> deployment list \<times> deployment) option" where
  "posted_deployments infra =
     (if is_InfraKind (i_Spec infra) = ''Longhorn''
        then Some (LonghornNamespace, [], longhorn_driver_deployer infra)
      else if is_InfraKind (i_Spec infra) = ''RancherVM''
        then Some (RancherVMNamespace, [ranchervm_controller infra, ranchervm_backend infra],
          ranchervm_frontend infra)
      else None)"

lemma posted_deployments_cases:
  assumes "posted_deployments infra = Some (ns, ds, d)"
  obtains (longhorn) "is_InfraKind (i_Spec infra) = ''Longhorn''" "ns = LonghornNamespace"
      "ds = []" "d = longhorn_driver_deployer infra"
    | (ranchervm) "is_InfraKind (i_Spec infra) = ''RancherVM''" "ns = RancherVMNamespace"
      "ds = [ranchervm_controller infra, ranchervm_backend infra]" "d = ranchervm_frontend infra"
  using assms unfolding posted_deployments_def by (auto split: if_splits)

lemma posted_deployments_named:
  assumes "posted_deployments infra = Some (ns, ds, d)"
  shows "ns \<noteq> []" "path_segment_ok ns" "\<forall>x \<in> set (ds @ [d]). well_named RDeployments ns (ObjDeployment x)"
  using assms
  by (cases rule: posted_deployments_cases;
      simp add: bundle_names path_segment_ok_def well_named_def longhorn_driver_deployer_def
        ranchervm_controller_def ranchervm_backend_def ranchervm_frontend_def)+

lemma bundleUpdate_posted:
  assumes "posted_deployments infra = Some (ns, ds, d)"
  shows "bundleUpdate srv infra w = create_bundle srv ns (map (\<lambda>x. (ns, ObjDeployment x)) ds) d w"
  using assms
  by (cases rule: posted_deployments_cases)
    (simp_all add: bundleUpdate_def updateLonghorn_def updateRancherVM_def)

lemma run_creates_existing:
  assumes "tracker_ok w" "path_segment_ok ns"
    and "\<forall>x \<in> set ds. well_named RDeployments ns (ObjDeployment x)
      \<and> tracker_stored w RDeployments ns (om_Name (de_meta x)) \<noteq> None"
  shows "run_creates ObjectReaction (map (\<lambda>x. (ns, ObjDeployment x)) ds) w = (None, w)"
  using assms(3)
proof (induction ds)
  case (Cons x ds)
  have "client_create ObjectReaction RDeployments ns (ObjDeployment x) w =
      (Inl (StatusError StatusReasonAlreadyExists (om_Name (de_meta x))), w)"
    using client_create_tracker_exists [OF assms(1), of RDeployments ns "ObjDeployment x"] assms(2) Cons.prems
    by simp
  with Cons show ?case by (simp add: create_err_def go_err)
qed simp

lemma create_bundle_existing:
  assumes "tracker_ok w" "ns \<noteq> []" "path_segment_ok ns" "tracker_stored w RNamespaces [] ns \<noteq> None"
    and "\<forall>x \<in> set (ds @ [d]). well_named RDeployments ns (ObjDeployment x)
      \<and> tracker_stored w RDeployments ns (om_Name (de_meta x)) \<noteq> None"
  shows "create_bundle ObjectReaction ns (map (\<lambda>x. (ns, ObjDeployment x)) ds) d w =
    ((Some zero_deployment, None), w)"
proof -
  let ?x = "ObjNamespace \<lparr>ns_meta = zero_meta\<lparr>om_Name := ns\<rparr>\<rparr>"
  have "client_create ObjectReaction RNamespaces [] ?x w = (Inl (StatusError StatusReasonAlreadyExists ns), w)"
    using client_create_tracker_exists [OF assms(1), of RNamespaces "[]" ?x] assms(2,4)
    by (simp add: well_named_def)
  moreover have "client_create ObjectReaction RDeployments ns (ObjDeployment d) w =
      (Inl (StatusError StatusReasonAlreadyExists (om_Name (de_meta d))), w)"
    using client_create_tracker_exists [OF assms(1), of RDeployments ns "ObjDeployment d"] assms(3,5) by simp
  moreover have "run_creates ObjectReaction (map (\<lambda>x. (ns, ObjDeployment x)) ds) w = (None, w)"
    using assms by (intro run_creates_existing) simp_all
  ultimately show ?thesis
    by (simp add: create_bundle_def ensureNamespaceExists_def create_err_def go_err api_simps
      Deployments_Create_def)
qed

text \<open>
  C10. For Longhorn and RancherVM a change of the replicas never reaches the deployments: they are
  posted again and refused as existing, the pass reports success, nothing but the status changes,
  and the status says \<open>UnHealthy\<close> with no replica available, whatever the deployment says.
\<close>

theorem infra_sync_scaling_lost:
  assumes "posted_deployments infra = Some (pns, ds, pd)" "valid_infra infra" "services_typed cs"
    and "tsm_Get (infra_key infra) (ic_infras cs) = Some (ObjInfra infra)"
    and "tsm_Get (infra_key infra) (ic_deployments cs) = Some (ObjDeployment d)"
    and "IsControlledBy (de_meta d) (i_meta infra)"
    and "is_Replicas (i_Spec infra) = Some n" "de_Replicas d = Some k" "n \<noteq> k"
    and "tracker_ok w" "tracker_stored w RNamespaces [] pns \<noteq> None"
    "\<forall>x \<in> set (ds @ [pd]). tracker_stored w RDeployments pns (om_Name (de_meta x)) \<noteq> None"
    "tracker_stored w RInfrastructures (om_Namespace (i_meta infra)) (om_Name (i_meta infra)) \<noteq> None"
  shows "\<exists>w' s. infra_syncHandler ObjectReaction cs (infra_key infra) \<lparr>ct_world = w, ct_events = evs\<rparr> =
      Return (None, \<lparr>ct_world = w', ct_events = evs @ [infra_synced_event]\<rparr>)
    \<and> tracker_stored w' = stored_put RInfrastructures (om_Namespace (i_meta infra)) (om_Name (i_meta infra))
        (ObjInfra (infra\<lparr>i_Status := s\<rparr>)) (tracker_stored w)
    \<and> st_State s = ''UnHealthy'' \<and> st_AvailableReplicas s = 0"
proof -
  note named = posted_deployments_named [OF assms(1)]
  have b: "bundleUpdate ObjectReaction infra w = ((Some zero_deployment, None), w)"
    unfolding bundleUpdate_posted [OF assms(1)]
    using named assms(12) by (intro create_bundle_existing [OF assms(10) named(1,2) assms(11)]) blast
  have z: "de_AvailableReplicas zero_deployment = 0" by (simp add: zero_deployment_def)
  obtain w1 s where u: "updateInfra ObjectReaction (ic_services cs) infra zero_deployment w = Return (None, w1)"
    and rest: "st_AvailableReplicas s = de_AvailableReplicas zero_deployment"
    "st_State s = (if service_present cs infra \<and> 0 <s de_AvailableReplicas zero_deployment then ''Healthy'' else ''UnHealthy'')"
    "tracker_stored w1 = stored_put RInfrastructures (om_Namespace (i_meta infra)) (om_Name (i_meta infra))
       (ObjInfra (infra\<lparr>i_Status := s\<rparr>)) (tracker_stored w)"
    by (rule updateInfra_ok [OF assms(10,2,3,13)])
  have "infra_syncHandler ObjectReaction cs (infra_key infra) \<lparr>ct_world = w, ct_events = evs\<rparr> =
      Return (None, \<lparr>ct_world = w1, ct_events = evs @ [infra_synced_event]\<rparr>)"
    using assms(2,6-9) u b
    by (simp add: infra_pass_defs infra_key_split infra_get_or_create_def infra_sync_replicas_def on_world_def
        infra_lister_cached(1) [OF assms(4) [unfolded infra_key_def]]
        infra_lister_cached(2) [OF assms(5) [unfolded infra_key_def]]
        valid_infra_def record_event_def infra_synced_event_def Let_def)
  with rest z show ?thesis by auto
qed

text \<open>
  For the Dashboard a change of the replicas is applied: the pass replaces the deployment by the
  one the bundle wants, which has the infrastructure's number of replicas.
\<close>

theorem infra_sync_scales_dashboard:
  assumes "is_InfraKind (i_Spec infra) = ''Dashboard''" "valid_infra infra" "services_typed cs"
    and "tsm_Get (infra_key infra) (ic_infras cs) = Some (ObjInfra infra)"
    and "tsm_Get (infra_key infra) (ic_deployments cs) = Some (ObjDeployment d)"
    and "IsControlledBy (de_meta d) (i_meta infra)"
    and "is_Replicas (i_Spec infra) = Some n" "de_Replicas d = Some k" "n \<noteq> k"
    and "tracker_ok w"
    "tracker_stored w RDeployments InfrastructureNamespace DashboardName \<noteq> None"
    "tracker_stored w RInfrastructures (om_Namespace (i_meta infra)) (om_Name (i_meta infra)) \<noteq> None"
  shows "\<exists>w' d'. infra_syncHandler ObjectReaction cs (infra_key infra) \<lparr>ct_world = w, ct_events = evs\<rparr> =
      Return (None, \<lparr>ct_world = w', ct_events = evs @ [infra_synced_event]\<rparr>)
    \<and> tracker_stored w' RDeployments InfrastructureNamespace DashboardName = Some (ObjDeployment d')
    \<and> de_Replicas d' = Some n \<and> IsControlledBy (de_meta d') (i_meta infra)"
proof -
  let ?d = "dashboard_deployment infra"
  have b: "bundle_of infra = Some (InfrastructureNamespace, dashboard_items infra, ?d)"
    using assms(1) by (simp add: bundle_of_def)
  note depl = bundle_of_deployment [OF b]
  have name: "om_Name (de_meta ?d) = DashboardName"
    by (simp add: dashboard_deployment_def DashboardName_def)
  have ns: "InfrastructureNamespace \<noteq> []" "path_segment_ok InfrastructureNamespace" "path_segment_ok DashboardName"
    by (simp_all add: bundle_names path_segment_ok_def)
  obtain err w0 where e: "ensureNamespaceExists ObjectReaction InfrastructureNamespace w = (err, w0)"
    "err = None \<or> IsAlreadyExists err" and w0: "tracker_ok w0"
    "same_outside {(RNamespaces, [], InfrastructureNamespace)} (tracker_stored w) (tracker_stored w0)"
    unfolding ensureNamespaceExists_def by (rule tracker_ensure_namespace [OF assms(10) ns(1)]) blast
  have here: "tracker_stored w0 RDeployments InfrastructureNamespace DashboardName \<noteq> None"
    "tracker_stored w0 RInfrastructures (om_Namespace (i_meta infra)) (om_Name (i_meta infra)) \<noteq> None"
    using assms(11,12) w0(2) by (simp_all add: same_outside_def)
  have wn: "well_named RDeployments InfrastructureNamespace (ObjDeployment ?d)"
    using name ns(1) depl(2) by (simp add: well_named_def bundle_names)
  have id: "propagate_namespace InfrastructureNamespace (ObjDeployment ?d) = ObjDeployment ?d"
    by (rule propagate_namespace_id) (simp add: depl)
  from client_update_tracker [OF w0(1) wn] name ns here(1) id obtain w1 where
    u1: "client_update ObjectReaction RDeployments InfrastructureNamespace (ObjDeployment ?d) w0 = (Inr (ObjDeployment ?d), w1)"
    "tracker_ok w1" "tracker_stored w1 =
       stored_put RDeployments InfrastructureNamespace DashboardName (ObjDeployment ?d) (tracker_stored w0)"
    by auto
  have up: "bundleUpdate ObjectReaction infra w = ((Some ?d, None), w1)"
    using assms(1) e u1(1) by (simp add: bundleUpdate_def updateDashboard_def Deployments_Update_def api_simps)
  have "tracker_stored w1 RInfrastructures (om_Namespace (i_meta infra)) (om_Name (i_meta infra)) \<noteq> None"
    using here(2) by (simp add: u1(3))
  from updateInfra_ok [OF u1(2) assms(2,3) this] obtain w2 s where
    u: "updateInfra ObjectReaction (ic_services cs) infra ?d w1 = Return (None, w2)"
    and rest: "tracker_stored w2 = stored_put RInfrastructures (om_Namespace (i_meta infra)) (om_Name (i_meta infra))
       (ObjInfra (infra\<lparr>i_Status := s\<rparr>)) (tracker_stored w1)" by blast
  have "infra_syncHandler ObjectReaction cs (infra_key infra) \<lparr>ct_world = w, ct_events = evs\<rparr> =
      Return (None, \<lparr>ct_world = w2, ct_events = evs @ [infra_synced_event]\<rparr>)"
    using assms(2,6-9) u up
    by (simp add: infra_pass_defs infra_key_split infra_get_or_create_def infra_sync_replicas_def on_world_def
        infra_lister_cached(1) [OF assms(4) [unfolded infra_key_def]]
        infra_lister_cached(2) [OF assms(5) [unfolded infra_key_def]]
        valid_infra_def record_event_def infra_synced_event_def Let_def)
  moreover have "tracker_stored w2 RDeployments InfrastructureNamespace DashboardName = Some (ObjDeployment ?d)"
    by (simp add: rest u1(3))
  ultimately show ?thesis using depl(1,4) assms(7) by auto
qed

text \<open>
  An infrastructure of an unknown kind: the pass fails, and no request is sent.
\<close>

theorem infra_sync_unknown_kind:
  assumes "bundle_of infra = None" "valid_infra infra"
    and "tsm_Get (infra_key infra) (ic_infras cs) = Some (ObjInfra infra)"
    and "tsm_Get (infra_key infra) (ic_deployments cs) = None"
  shows "\<exists>e. infra_syncHandler srv cs (infra_key infra) st = Return (Some e, st) \<and> \<not> IsNotFound (Some e)"
proof -
  have "\<exists>m. bundleCreate srv infra w = ((None, Some (Errorf m [])), w)" for w
    using assms(1) by (auto simp: bundleCreate_def bundle_of_def split: if_splits)
  then obtain m where m: "bundleCreate srv infra (ct_world st) = ((None, Some (Errorf m [])), ct_world st)"
    by blast
  then show ?thesis
    using assms(2) by (simp add: infra_pass_defs infra_key_split infra_get_or_create_def go_err on_world_def
        infra_lister_cached(1) [OF assms(3) [unfolded infra_key_def]]
        infra_lister_cached(3) [OF assms(4) [unfolded infra_key_def]] valid_infra_def Let_def)
qed

section \<open>What a pass may change\<close>

text \<open>The objects of an infrastructure: itself, the namespace of its bundle and the bundle.\<close>

definition infra_objects :: "infrastructure \<Rightarrow> (resource \<times> string \<times> string) set" where
  "infra_objects infra =
     insert (RInfrastructures, om_Namespace (i_meta infra), om_Name (i_meta infra))
       (case bundle_of infra of None \<Rightarrow> {}
        | Some (ns, items, d) \<Rightarrow>
            insert (RNamespaces, [], ns) (set (map item_key (items @ [(ns, ObjDeployment d)]))))"

lemma infra_objects_bundle:
  assumes "bundle_of infra = Some (ns, items, d)"
  shows "insert (RNamespaces, [], ns) (set (map item_key (items @ [(ns, ObjDeployment d)]))) \<subseteq> infra_objects infra"
  using assms by (auto simp: infra_objects_def)

lemma posted_in_bundle:
  assumes "posted_deployments infra = Some (ns, ds, d)"
  shows "\<exists>items fd. bundle_of infra = Some (ns, items, fd)
    \<and> set (map item_key (map (\<lambda>x. (ns, ObjDeployment x)) (ds @ [d]))) \<subseteq> set (map item_key (items @ [(ns, ObjDeployment fd)]))"
  using assms
proof (cases rule: posted_deployments_cases)
  case longhorn
  then show ?thesis by (simp add: bundle_of_def longhorn_items_def)
next
  case ranchervm
  then show ?thesis by (simp add: bundle_of_def ranchervm_items_def)
qed

lemma posted_bundle_named:
  "posted_deployments infra = Some (ns, ds, d) \<Longrightarrow>
     bundle_named (map (\<lambda>x. (ns, ObjDeployment x)) ds @ [(ns, ObjDeployment d)])"
  by (cases rule: posted_deployments_cases, assumption)
    (simp_all add: bundle_named_def bundle_names path_segment_ok_def well_named_def item_key_def
      longhorn_driver_deployer_def ranchervm_controller_def ranchervm_backend_def ranchervm_frontend_def)

lemma infra_kind_cases:
  obtains (unknown) "is_InfraKind (i_Spec infra) \<noteq> ''Dashboard''" "is_InfraKind (i_Spec infra) \<noteq> ''Longhorn''"
      "is_InfraKind (i_Spec infra) \<noteq> ''RancherVM''"
    | (dashboard) "is_InfraKind (i_Spec infra) = ''Dashboard''"
    | (posted) ns ds d where "posted_deployments infra = Some (ns, ds, d)"
  unfolding posted_deployments_def by metis

context api_store
begin

lemma frame_mono: "frame K w w' \<Longrightarrow> K \<subseteq> K' \<Longrightarrow> frame K' w w'"
  by (auto simp: frame_def intro: same_outside_mono)

lemma bundleCreate_frame:
  assumes "inv w" "bundleCreate srv infra w = (res, w')"
  shows "frame (infra_objects infra) w w'"
proof (cases rule: infra_kind_cases [of infra])
  case unknown
  with assms show ?thesis by (auto simp: bundleCreate_def frame_refl)
next
  case other: dashboard
  then obtain ns items d where b: "bundle_of infra = Some (ns, items, d)" by (auto simp: bundle_of_def)
  show ?thesis
    using create_bundle_ok(1) [OF assms(1) bundle_of_facts(5,1) [OF b] assms(2) [unfolded bundleCreate_bundle [OF b]]]
      infra_objects_bundle [OF b] by (rule frame_mono)
next
  case posted
  then obtain ns items d where b: "bundle_of infra = Some (ns, items, d)" using posted_in_bundle by blast
  show ?thesis
    using create_bundle_ok(1) [OF assms(1) bundle_of_facts(5,1) [OF b] assms(2) [unfolded bundleCreate_bundle [OF b]]]
      infra_objects_bundle [OF b] by (rule frame_mono)
qed

lemma updateDashboard_frame:
  assumes "inv w" "is_InfraKind (i_Spec infra) = ''Dashboard''" "updateDashboard srv infra w = (res, w')"
  shows "frame (infra_objects infra) w w'"
proof -
  let ?d = "dashboard_deployment infra" and ?ns = InfrastructureNamespace
  have b: "bundle_of infra = Some (?ns, dashboard_items infra, ?d)"
    using assms(2) by (simp add: bundle_of_def)
  have K: "(RNamespaces, [], ?ns) \<in> infra_objects infra"
    "(RDeployments, ?ns, om_Name (obj_meta (ObjDeployment ?d))) \<in> infra_objects infra"
    using infra_objects_bundle [OF b] by (auto simp: item_key_def)
  have wn: "well_named RDeployments ?ns (ObjDeployment ?d)"
    using bundle_of_facts(1) [OF b] by (simp add: bundle_named_def)
  obtain err w1 where e: "ensureNamespaceExists srv ?ns w = (err, w1)"
    by (cases "ensureNamespaceExists srv ?ns w")
  have f: "frame (infra_objects infra) w w1"
    using ensureNamespaceExists_frame [OF assms(1) _ K(1) e] by (simp add: bundle_names)
  obtain r2 w2 where u: "client_update srv RDeployments ?ns (ObjDeployment ?d) w1 = (r2, w2)"
    by (cases "client_update srv RDeployments ?ns (ObjDeployment ?d) w1")
  have f2: "frame (infra_objects infra) w1 w2"
    by (rule client_update_frame [OF frame_inv [OF f] wn K(2) u])
  have "w' = w1 \<or> w' = w2"
    using assms(3) e u
    by (auto simp: updateDashboard_def Deployments_Update_def into_def split: if_splits prod.splits sum.splits option.splits)
  with f frame_trans [OF f f2] show ?thesis by auto
qed

lemma bundleUpdate_frame:
  assumes "inv w" "bundleUpdate srv infra w = (res, w')"
  shows "frame (infra_objects infra) w w'"
proof (cases rule: infra_kind_cases [of infra])
  case unknown
  with assms show ?thesis by (auto simp: bundleUpdate_def frame_refl)
next
  case dashboard
  with assms show ?thesis by (intro updateDashboard_frame) (simp_all add: bundleUpdate_def)
next
  case (posted ns ds d)
  then obtain items fd where b: "bundle_of infra = Some (ns, items, fd)"
    and sub: "set (map item_key (map (\<lambda>x. (ns, ObjDeployment x)) (ds @ [d])))
      \<subseteq> set (map item_key (items @ [(ns, ObjDeployment fd)]))"
    using posted_in_bundle by blast
  have "frame (insert (RNamespaces, [], ns) (set (map item_key (map (\<lambda>x. (ns, ObjDeployment x)) ds @ [(ns, ObjDeployment d)])))) w w'"
    using create_bundle_ok(1) [OF assms(1) posted_deployments_named(1) [OF posted] posted_bundle_named [OF posted]]
      assms(2) by (simp add: bundleUpdate_posted [OF posted])
  moreover have "insert (RNamespaces, [], ns) (set (map item_key (map (\<lambda>x. (ns, ObjDeployment x)) ds @ [(ns, ObjDeployment d)])))
      \<subseteq> infra_objects infra"
    using order_trans [OF sub] infra_objects_bundle [OF b] by simp
  ultimately show ?thesis by (rule frame_mono)
qed

end

context api_store
begin

lemma updateInfra_frame:
  assumes "inv w" "valid_infra infra" "updateInfra srv services infra d w = Return (err, w')"
  shows "frame (infra_objects infra) w w'"
proof -
  from assms(3) obtain h e where det: "detectService services infra = Return (h, e)"
    by (cases "detectService services infra") (auto simp: updateInfra_def)
  define x where "x = infra\<lparr>i_Status := infra_status_of h e (de_AvailableReplicas d) (i_Status infra)\<rparr>"
  have x: "i_meta x = i_meta infra" by (simp add: x_def)
  obtain r w1 where r: "Infrastructures_Update srv (om_Namespace (i_meta infra)) x w = (r, w1)"
    by (cases "Infrastructures_Update srv (om_Namespace (i_meta infra)) x w")
  with assms(3) det have "w' = w1"
    by (auto simp: updateInfra_def x_def [symmetric] Let_def split: prod.splits)
  with r have "Infrastructures_Update srv (om_Namespace (i_meta infra)) x w = (r, w')" by simp
  then obtain res where u: "client_update srv RInfrastructures (om_Namespace (i_meta infra)) (ObjInfra x) w = (res, w')"
    by (cases "client_update srv RInfrastructures (om_Namespace (i_meta infra)) (ObjInfra x) w")
      (auto simp: Infrastructures_Update_def into_def split: sum.splits option.splits)
  show ?thesis
    using assms(2) x by (intro client_update_frame [OF assms(1) _ _ u])
      (simp_all add: well_named_def valid_infra_def infra_objects_def)
qed

lemma on_world_frame:
  assumes "on_world f st = (r, st')" "\<And>res w'. f (ct_world st) = (res, w') \<Longrightarrow> frame K (ct_world st) w'"
  shows "frame K (ct_world st) (ct_world st')"
  using assms(2) on_world_state [OF assms(1)] by blast

lemma infra_get_or_create_frame:
  assumes "inv (ct_world st)" "infra_get_or_create srv infra dres st = (r, st')"
  shows "frame (infra_objects infra) (ct_world st) (ct_world st')"
proof -
  have "st' = st \<or> on_world (bundleCreate srv infra) st = (r, st')"
    using assms(2) unfolding infra_get_or_create_def by (cases dres) (simp_all split: if_splits)
  then show ?thesis
  proof
    assume "on_world (bundleCreate srv infra) st = (r, st')"
    then show ?thesis by (rule on_world_frame) (rule bundleCreate_frame [OF assms(1)])
  qed (simp add: frame_refl [OF assms(1)])
qed

lemma infra_sync_replicas_frame:
  assumes "inv (ct_world st)"
  shows "leaves (\<lambda>s. frame (infra_objects infra) (ct_world st) (ct_world s)) (infra_sync_replicas srv infra d st)"
proof -
  let ?P = "\<lambda>s. frame (infra_objects infra) (ct_world st) (ct_world s)"
  obtain d1 err st1 where o: "on_world (bundleUpdate srv infra) st = ((d1, err), st1)"
    by (metis surj_pair)
  then have f: "?P st1"
    by (rule on_world_frame) (rule bundleUpdate_frame [OF assms])
  have r: "?P st" by (rule frame_refl [OF assms])
  show ?thesis
  proof (cases "is_Replicas (i_Spec infra)")
    case None
    then show ?thesis by (simp add: infra_sync_replicas_def r)
  next
    case (Some n)
    show ?thesis
    proof (cases "de_Replicas d")
      case None
      with Some show ?thesis by (simp add: infra_sync_replicas_def)
    next
      case (Some k)
      with \<open>is_Replicas (i_Spec infra) = Some n\<close> show ?thesis
        by (simp add: infra_sync_replicas_def o f r)
    qed
  qed
qed

lemma infra_report_frame:
  assumes "inv (ct_world st)" "valid_infra infra"
  shows "leaves (\<lambda>s. frame (infra_objects infra) (ct_world st) (ct_world s)) (infra_report srv cs infra d st)"
proof (cases d)
  case (Some x)
  show ?thesis
  proof (cases "updateInfra srv (ic_services cs) infra x (ct_world st)")
    case (Return p)
    obtain err w where "p = (err, w)" by (cases p)
    with Return Some updateInfra_frame [OF assms, of "ic_services cs" x err w] show ?thesis
      by (simp add: infra_report_def record_event_def)
  qed (simp add: infra_report_def Some)
qed (simp add: infra_report_def)

lemma infra_reconcile_frame:
  assumes "inv (ct_world st)" "valid_infra infra"
  shows "leaves (\<lambda>s. frame (infra_objects infra) (ct_world st) (ct_world s)) (infra_reconcile srv cs infra d st)"
proof (cases d)
  case (Some x)
  let ?P = "\<lambda>s. frame (infra_objects infra) (ct_world st) (ct_world s)"
  have "leaves ?P (infra_report srv cs infra d1 s)" if "?P s" for d1 s
    using infra_report_frame [OF frame_inv [OF that] assms(2)] frame_trans [OF that]
    unfolding leaves_def by blast
  then have "leaves ?P (bind_outcome
      (flow_bind (infra_sync_replicas srv infra x st) (infra_report srv cs infra))
      (\<lambda>(r, st'). Return (ret_value r, st')))"
    by (intro leaves_ret_value leaves_flow_bind infra_sync_replicas_frame assms(1))
  with Some show ?thesis by (simp add: infra_reconcile_def record_event_def frame_refl [OF assms(1)])
qed (simp add: infra_reconcile_def)

lemma infra_syncHandler_frame:
  assumes "inv (ct_world st)" "valid_infra infra"
    and "tsm_Get (infra_key infra) (ic_infras cs) = Some (ObjInfra infra)"
    and "infra_syncHandler srv cs (infra_key infra) st = Return (err, st')"
  shows "frame (infra_objects infra) (ct_world st) (ct_world st')"
proof -
  let ?P = "\<lambda>s. frame (infra_objects infra) (ct_world st) (ct_world s)"
  have step: "leaves ?P (case infra_get_or_create srv infra dres st of ((deployment, err), st1) \<Rightarrow>
      if err \<noteq> None then Return (err, st1) else infra_reconcile srv cs infra deployment st1)" for dres
  proof -
    obtain dp e st1 where g: "infra_get_or_create srv infra dres st = ((dp, e), st1)"
      by (metis surj_pair)
    note f = infra_get_or_create_frame [OF assms(1) g]
    have "leaves ?P (infra_reconcile srv cs infra dp st1)"
      using infra_reconcile_frame [OF frame_inv [OF f] assms(2)] frame_trans [OF f]
      unfolding leaves_def by blast
    with f g show ?thesis by simp
  qed
  have "leaves ?P (infra_syncHandler srv cs (infra_key infra) st)"
    unfolding infra_syncHandler_def
    using assms(2) step
    by (simp add: infra_key_split infra_lister_cached(1) [OF assms(3) [unfolded infra_key_def]]
        valid_infra_def leaves_bind_pure)
  with assms(4) show ?thesis unfolding leaves_def by blast
qed

end

text \<open>
  C8. A pass over an infrastructure changes no object of the cluster other than the infrastructure,
  the namespace of its bundle and the objects of the bundle, whatever the caches hold and however
  the pass ends.
\<close>

theorem infra_sync_confined:
  assumes "tracker_ok (ct_world st)" "valid_infra infra"
    and "tsm_Get (infra_key infra) (ic_infras cs) = Some (ObjInfra infra)"
    and "infra_syncHandler ObjectReaction cs (infra_key infra) st = Return (err, st')"
  shows "tracker_ok (ct_world st')
    \<and> same_outside (infra_objects infra) (tracker_stored (ct_world st)) (tracker_stored (ct_world st'))"
  using tr.infra_syncHandler_frame [OF assms] by (simp add: tr.frame_def)

section \<open>Examples\<close>

definition sample_infra :: "string \<Rightarrow> string \<Rightarrow> string \<Rightarrow> infrastructure" where
  "sample_infra kind ns n = zero_infra\<lparr>
     i_meta := zero_meta\<lparr>om_Name := n, om_Namespace := ns, om_UID := ''7''\<rparr>,
     i_Spec := (i_Spec zero_infra)\<lparr>is_InfraKind := kind, is_Replicas := Some 2\<rparr>\<rparr>"

definition sample_deployment :: "infrastructure \<Rightarrow> owner_reference list \<Rightarrow> int32 \<Rightarrow> deployment" where
  "sample_deployment infra refs k = zero_deployment\<lparr>
     de_meta := zero_meta\<lparr>om_Name := om_Name (i_meta infra), om_Namespace := om_Namespace (i_meta infra),
       om_OwnerReferences := refs\<rparr>,
     de_Replicas := Some k\<rparr>"

definition sample_infra_caches :: "infrastructure \<Rightarrow> deployment list \<Rightarrow> infra_caches" where
  "sample_infra_caches infra ds =
     \<lparr>ic_infras = informer_with [] [ObjInfra infra],
      ic_deployments = informer_with [] (map ObjDeployment ds), ic_services = informer_with [] []\<rparr>"

abbreviation dash :: infrastructure where
  "dash \<equiv> sample_infra ''Dashboard'' ''kube-system'' ''kubernetes-dashboard''"

abbreviation longhorn :: infrastructure where
  "longhorn \<equiv> sample_infra ''Longhorn'' ''longhorn-system'' ''longhorn-frontend''"

lemma sample_infra_sel [simp]:
  "om_Name (i_meta (sample_infra k ns n)) = n" "om_Namespace (i_meta (sample_infra k ns n)) = ns"
  "is_InfraKind (i_Spec (sample_infra k ns n)) = k" "is_Replicas (i_Spec (sample_infra k ns n)) = Some 2"
  "de_Replicas (sample_deployment i r m) = Some m" "de_meta (sample_deployment i r m) =
     zero_meta\<lparr>om_Name := om_Name (i_meta i), om_Namespace := om_Namespace (i_meta i), om_OwnerReferences := r\<rparr>"
  by (simp_all add: sample_infra_def sample_deployment_def)

lemma sample_infra_valid: "valid_infra dash" "valid_infra longhorn"
  by (simp_all add: valid_infra_def path_segment_ok_def)

lemma sample_bundles:
  "bundle_of dash = Some (InfrastructureNamespace, dashboard_items dash, dashboard_deployment dash)"
  "bundle_of longhorn = Some (LonghornNamespace, longhorn_items longhorn, longhorn_frontend longhorn)"
  by (simp_all add: bundle_of_def)

lemma informer_plain:
  "distinct (map (\<lambda>x. MetaNamespaceKeyFunc (obj_meta x)) xs) \<Longrightarrow>
     ts_items (informer_with [] xs) = map (\<lambda>x. (MetaNamespaceKeyFunc (obj_meta x), x)) xs"
  by (rule informer_with_items) (simp_all add: tsm_ok_init index_funcs_pure)

lemma sample_infra_caches_get:
  assumes "valid_infra infra"
  shows "tsm_Get (infra_key infra) (ic_infras (sample_infra_caches infra ds)) = Some (ObjInfra infra)"
    "tsm_Get (infra_key infra) (ic_deployments (sample_infra_caches infra [])) = None"
    "tsm_Get (infra_key infra) (ic_deployments (sample_infra_caches infra [sample_deployment infra r k])) =
       Some (ObjDeployment (sample_deployment infra r k))"
    "services_typed (sample_infra_caches infra ds)"
  using assms
  by (simp_all add: sample_infra_caches_def tsm_Get_def informer_plain infra_key_def lister_key_def
      MetaNamespaceKeyFunc_def valid_infra_def services_typed_def)

lemma sample_infra_tracker:
  assumes "valid_infra infra"
  shows "tracker_ok (tracker_with [ObjInfra infra])"
    "tracker_stored (tracker_with [ObjInfra infra]) RInfrastructures
       (om_Namespace (i_meta infra)) (om_Name (i_meta infra)) = Some (ObjInfra infra)"
  using assms by (auto intro!: tracker_with_ok simp: valid_infra_def tracker_with_stored same_key_def)

lemma sample_fresh:
  assumes "bundle_of infra = Some (ns, items, d)"
  shows "\<forall>(m, x) \<in> set (items @ [(ns, ObjDeployment d)]).
    tracker_stored (tracker_with [ObjInfra infra]) (obj_resource x) m (om_Name (obj_meta x)) = None"
proof -
  have "\<forall>(m, x) \<in> set items. obj_resource x \<noteq> RInfrastructures"
    using assms by (cases rule: bundle_of_cases)
      (simp_all add: dashboard_items_def longhorn_items_def ranchervm_items_def)
  then show ?thesis by (auto simp: tracker_with_stored)
qed

theorem bundles_consistent_witness:
  "bundle_refs_ok (longhorn_items longhorn @ [(LonghornNamespace, ObjDeployment (longhorn_frontend longhorn))])"
  using bundles_consistent [OF sample_bundles(2)] by blast

theorem bundleCreate_fresh_witness:
  "\<exists>w'. bundleCreate ObjectReaction longhorn (tracker_with [ObjInfra longhorn]) =
      ((Some (longhorn_frontend longhorn), None), w')"
  using bundleCreate_fresh [OF sample_bundles(2) sample_infra_tracker(1) [OF sample_infra_valid(2)]
      sample_fresh [OF sample_bundles(2)]] by blast

theorem bundleCreate_safe_witness:
  "tracker_ok (snd (bundleCreate ObjectReaction longhorn (tracker_with [ObjInfra longhorn])))"
  using bundleCreate_safe [OF sample_bundles(2) sample_infra_tracker(1) [OF sample_infra_valid(2)]]
  by (auto split: prod.splits)

theorem infra_sync_installs_witness:
  "\<exists>w' s. infra_syncHandler ObjectReaction (sample_infra_caches dash []) (infra_key dash)
      \<lparr>ct_world = tracker_with [ObjInfra dash], ct_events = []\<rparr> =
      Return (None, \<lparr>ct_world = w', ct_events = [infra_synced_event]\<rparr>)
    \<and> tracker_stored w' RInfrastructures ''kube-system'' ''kubernetes-dashboard'' =
        Some (ObjInfra (dash\<lparr>i_Status := s\<rparr>)) \<and> st_State s = ''UnHealthy''"
  using infra_sync_installs [OF sample_infra_valid(1) sample_infra_caches_get(4) [OF sample_infra_valid(1)]
      sample_bundles(1) sample_infra_caches_get(1) [OF sample_infra_valid(1)]
      sample_infra_caches_get(2) [OF sample_infra_valid(1)] sample_infra_tracker(1) [OF sample_infra_valid(1)]
      _ sample_fresh [OF sample_bundles(1)], of "[]"] sample_infra_tracker(2) [OF sample_infra_valid(1)]
  by auto

lemma sample_deployment_owned:
  "IsControlledBy (de_meta (sample_deployment infra [infra_owner_ref infra] k)) (i_meta infra)"
  by (rule infra_owner_ref_controls) simp

theorem infra_sync_reports_status_witness:
  "\<exists>w'. infra_syncHandler ObjectReaction
      (sample_infra_caches dash [sample_deployment dash [infra_owner_ref dash] 2]) (infra_key dash)
      \<lparr>ct_world = tracker_with [ObjInfra dash], ct_events = []\<rparr> =
      Return (None, \<lparr>ct_world = w', ct_events = [infra_synced_event]\<rparr>)"
  using infra_sync_reports_status [OF sample_infra_valid(1) sample_infra_caches_get(4) [OF sample_infra_valid(1)]
      sample_infra_caches_get(1) [OF sample_infra_valid(1)] sample_infra_caches_get(3) [OF sample_infra_valid(1)]
      sample_deployment_owned _ sample_infra_tracker(1) [OF sample_infra_valid(1)], of 2 "[]"]
    sample_infra_tracker(2) [OF sample_infra_valid(1)]
  by auto

theorem infra_sync_refuses_foreign_witness:
  "\<exists>e st'. infra_syncHandler ObjectReaction (sample_infra_caches dash [sample_deployment dash [] 2]) (infra_key dash)
      \<lparr>ct_world = NewObjectTracker, ct_events = []\<rparr> = Return (Some e, st') \<and> ct_world st' = NewObjectTracker"
proof -
  have "\<not> IsControlledBy (de_meta (sample_deployment dash [] 2)) (i_meta dash)"
    by (rule not_controlled_no_refs) simp
  from infra_sync_refuses_foreign [OF sample_infra_valid(1) sample_infra_caches_get(1) [OF sample_infra_valid(1)]
      sample_infra_caches_get(3) [OF sample_infra_valid(1)] this, of ObjectReaction
      "\<lparr>ct_world = NewObjectTracker, ct_events = []\<rparr>"]
  show ?thesis by (simp add: record_event_def)
qed

theorem infra_sync_unknown_kind_witness:
  "\<exists>e. infra_syncHandler ObjectReaction (sample_infra_caches (sample_infra ''Mesh'' ''kube-system'' ''mesh'') [])
      (infra_key (sample_infra ''Mesh'' ''kube-system'' ''mesh'')) \<lparr>ct_world = NewObjectTracker, ct_events = []\<rparr> =
    Return (Some e, \<lparr>ct_world = NewObjectTracker, ct_events = []\<rparr>)"
proof -
  let ?i = "sample_infra ''Mesh'' ''kube-system'' ''mesh''"
  have v: "valid_infra ?i" by (simp add: valid_infra_def path_segment_ok_def)
  have "bundle_of ?i = None" by (simp add: bundle_of_def)
  from infra_sync_unknown_kind [OF this v sample_infra_caches_get(1,2) [OF v]] show ?thesis by blast
qed

theorem infra_sync_confined_witness:
  "\<exists>st'. infra_syncHandler ObjectReaction (sample_infra_caches dash [sample_deployment dash [] 2]) (infra_key dash)
      \<lparr>ct_world = tracker_with [ObjInfra dash], ct_events = []\<rparr> = Return st'
    \<and> same_outside (infra_objects dash) (tracker_stored (tracker_with [ObjInfra dash])) (tracker_stored (ct_world (snd st')))"
proof -
  let ?cs = "sample_infra_caches dash [sample_deployment dash [] 2]"
  let ?st = "\<lparr>ct_world = tracker_with [ObjInfra dash], ct_events = []\<rparr>"
  have "\<not> IsControlledBy (de_meta (sample_deployment dash [] 2)) (i_meta dash)"
    by (rule not_controlled_no_refs) simp
  from infra_sync_refuses_foreign [OF sample_infra_valid(1) sample_infra_caches_get(1) [OF sample_infra_valid(1)]
      sample_infra_caches_get(3) [OF sample_infra_valid(1)] this]
  obtain err st' where r: "infra_syncHandler ObjectReaction ?cs (infra_key dash) ?st = Return (err, st')" by blast
  have "tracker_ok (ct_world ?st)" using sample_infra_tracker(1) [OF sample_infra_valid(1)] by simp
  from infra_sync_confined [OF this sample_infra_valid(1) sample_infra_caches_get(1) [OF sample_infra_valid(1)] r]
  show ?thesis using r by simp
qed

theorem infra_sync_scales_dashboard_witness:
  "\<exists>w'. infra_syncHandler ObjectReaction
      (sample_infra_caches dash [sample_deployment dash [infra_owner_ref dash] 1]) (infra_key dash)
      \<lparr>ct_world = tracker_with [ObjInfra dash, ObjDeployment (sample_deployment dash [infra_owner_ref dash] 1)],
       ct_events = []\<rparr> =
      Return (None, \<lparr>ct_world = w', ct_events = [infra_synced_event]\<rparr>)"
proof -
  let ?d = "sample_deployment dash [infra_owner_ref dash] 1"
  let ?w = "tracker_with [ObjInfra dash, ObjDeployment ?d]"
  have "tracker_ok ?w" by (rule tracker_with_ok) simp_all
  moreover have "tracker_stored ?w RDeployments InfrastructureNamespace DashboardName \<noteq> None"
    by (simp add: tracker_with_stored same_key_def bundle_names)
  moreover have "tracker_stored ?w RInfrastructures (om_Namespace (i_meta dash)) (om_Name (i_meta dash)) \<noteq> None"
    by (simp add: tracker_with_stored same_key_def)
  ultimately show ?thesis
    using infra_sync_scales_dashboard [OF _ sample_infra_valid(1) sample_infra_caches_get(4) [OF sample_infra_valid(1)]
      sample_infra_caches_get(1) [OF sample_infra_valid(1)] sample_infra_caches_get(3) [OF sample_infra_valid(1), where k = 1]
      sample_deployment_owned sample_infra_sel(4) sample_infra_sel(5), where w = ?w and evs = "[]"]
    by auto
qed

theorem infra_sync_scaling_lost_witness:
  "\<exists>w' s. infra_syncHandler ObjectReaction
      (sample_infra_caches longhorn [sample_deployment longhorn [infra_owner_ref longhorn] 1]) (infra_key longhorn)
      \<lparr>ct_world = tracker_with [ObjNamespace \<lparr>ns_meta = zero_meta\<lparr>om_Name := ''longhorn-system''\<rparr>\<rparr>, ObjInfra longhorn,
         ObjDeployment (longhorn_driver_deployer longhorn)], ct_events = []\<rparr> =
      Return (None, \<lparr>ct_world = w', ct_events = [infra_synced_event]\<rparr>)
    \<and> tracker_stored w' RInfrastructures ''longhorn-system'' ''longhorn-frontend'' =
        Some (ObjInfra (longhorn\<lparr>i_Status := s\<rparr>)) \<and> st_State s = ''UnHealthy''"
proof -
  let ?ns = "ObjNamespace \<lparr>ns_meta = zero_meta\<lparr>om_Name := ''longhorn-system''\<rparr>\<rparr>"
  let ?d = "longhorn_driver_deployer longhorn"
  let ?w = "tracker_with [?ns, ObjInfra longhorn, ObjDeployment ?d]"
  have p: "posted_deployments longhorn = Some (LonghornNamespace, [], ?d)" by (simp add: posted_deployments_def)
  have m: "om_Namespace (de_meta ?d) = ''longhorn-system''" "om_Name (de_meta ?d) \<noteq> []"
    by (simp_all add: longhorn_driver_deployer_def bundle_names)
  have "tracker_ok ?w" using m by (intro tracker_with_ok) simp_all
  moreover have "tracker_stored ?w RNamespaces [] LonghornNamespace \<noteq> None"
    by (simp add: tracker_with_stored same_key_def bundle_names)
  moreover have "\<forall>x \<in> set ([] @ [?d]). tracker_stored ?w RDeployments LonghornNamespace (om_Name (de_meta x)) \<noteq> None"
    using m by (simp add: tracker_with_stored same_key_def bundle_names)
  moreover have "tracker_stored ?w RInfrastructures (om_Namespace (i_meta longhorn)) (om_Name (i_meta longhorn)) \<noteq> None"
    by (simp add: tracker_with_stored same_key_def)
  ultimately show ?thesis
    using infra_sync_scaling_lost [OF p sample_infra_valid(2) sample_infra_caches_get(4) [OF sample_infra_valid(2)]
      sample_infra_caches_get(1) [OF sample_infra_valid(2)] sample_infra_caches_get(3) [OF sample_infra_valid(2), where k = 1]
      sample_deployment_owned sample_infra_sel(4) sample_infra_sel(5), where w = ?w and evs = "[]"]
    by auto
qed

end
