(* ===== verification/Cube_Time.thy ===== *)
theory Cube_Time
  imports Cube_Types Complex_Main
begin

text \<open>
  Package \<open>time\<close>, as far as the tokens use it.  An instant is the number of nanoseconds since the
  zero \<open>time.Time\<close> (the start of year 1, UTC), so the zero value is \<open>0\<close>.  A \<open>time.Duration\<close> is a
  64-bit signed count of nanoseconds: products wrap around, differences of instants saturate.
  \<open>Duration.Seconds\<close> rounds to a \<open>float64\<close>; the rounding is the argument \<open>seconds\<close> of the
  functions that use it.
\<close>

type_synonym duration = int64

definition Millisecond :: duration where
  "Millisecond = 1000000"

definition unix_epoch :: int where
  "unix_epoch = 62135596800"

definition time_Unix :: "int \<Rightarrow> int" where
  "time_Unix t = t div 1000000000 - unix_epoch"

definition time_Add :: "int \<Rightarrow> duration \<Rightarrow> int" where
  "time_Add t d = t + sint d"

definition time_Sub :: "int \<Rightarrow> int \<Rightarrow> duration" where
  "time_Sub t u = word_of_int (max (- (2 ^ 63)) (min (2 ^ 63 - 1) (t - u)))"

lemma sint_time_Sub:
  "sint (time_Sub t u) = max (- (2 ^ 63)) (min (2 ^ 63 - 1) (t - u))"
  by (simp add: time_Sub_def sint_sbintrunc' signed_take_bit_int_eq_self)

lemma sint_int64_bounds: "- (2 ^ 63) \<le> sint (d :: int64)" "sint (d :: int64) < 2 ^ 63"
  using sint_ge [of d] sint_lt [of d] by simp_all

text \<open>Milliseconds as a duration: exact as long as the product fits 64 bits.\<close>

lemma sint_millis:
  assumes "- (2 ^ 63) \<le> sint (d :: int64) * 1000000" "sint d * 1000000 < 2 ^ 63"
  shows "sint (d * Millisecond) = sint d * 1000000"
proof -
  have "sint (d * Millisecond) = signed_take_bit 63 (sint d * sint Millisecond)"
    by (simp add: sint_word_ariths)
  also have "sint Millisecond = 1000000" by (simp add: Millisecond_def)
  finally show ?thesis using assms by (simp add: signed_take_bit_int_eq_self)
qed

section \<open>RFC 3339\<close>

definition digit :: "int \<Rightarrow> char" where
  "digit n = char_of (48 + nat n)"

definition pad2 :: "int \<Rightarrow> string" where
  "pad2 n = [digit (n div 10 mod 10), digit (n mod 10)]"

definition pad4 :: "int \<Rightarrow> string" where
  "pad4 n = pad2 (n div 100) @ pad2 (n mod 100)"

definition is_leap :: "int \<Rightarrow> bool" where
  "is_leap y \<longleftrightarrow> y mod 4 = 0 \<and> (y mod 100 \<noteq> 0 \<or> y mod 400 = 0)"

definition days_before :: "int list" where
  "days_before = [0, 31, 59, 90, 120, 151, 181, 212, 243, 273, 304, 334, 365]"

text \<open>Year and day of the year (from 0) of a day number (from 0, the first day of year 1).\<close>

definition year_yday :: "int \<Rightarrow> int \<times> int" where
  "year_yday d0 =
     (let n400 = d0 div 146097; d1 = d0 - 146097 * n400;
          q100 = d1 div 36524; n100 = q100 - q100 div 4; d2 = d1 - 36524 * n100;
          n4 = d2 div 1461; d3 = d2 - 1461 * n4;
          q1 = d3 div 365; n1 = q1 - q1 div 4; d4 = d3 - 365 * n1
      in (400 * n400 + 100 * n100 + 4 * n4 + n1 + 1, d4))"

definition month_day :: "int \<Rightarrow> int \<Rightarrow> int \<times> int" where
  "month_day year yday =
     (if is_leap year \<and> yday = 59 then (2, 29)
      else
        let day = (if is_leap year \<and> 59 < yday then yday - 1 else yday);
            m = day div 31; end_day = days_before ! nat (m + 1)
        in if end_day \<le> day then (m + 2, day - end_day + 1)
           else (m + 1, day - days_before ! nat m + 1))"

text \<open>\<open>t.UTC().Format(time.RFC3339)\<close>, for the years 1 to 9999 that the layout writes in four digits.\<close>

definition Format_RFC3339 :: "int \<Rightarrow> string" where
  "Format_RFC3339 t =
     (let s = t div 1000000000; (year, yday) = year_yday (s div 86400); r = s mod 86400;
          (month, day) = month_day year yday
      in pad4 year @ ''-'' @ pad2 month @ ''-'' @ pad2 day @ ''T'' @ pad2 (r div 3600) @ '':''
         @ pad2 (r div 60 mod 60) @ '':'' @ pad2 (r mod 60) @ ''Z'')"

lemma Format_RFC3339_sample:
  "Format_RFC3339 ((62135596800 + 1533081599) * 1000000000) = ''2018-07-31T23:59:59Z''"
  by code_simp

end
