(* ===== verification/Cube_Util.thy ===== *)
theory Cube_Util
  imports Cube_Time
begin

text \<open>
  \<open>util/util.go\<close>: tokens on the wire (splitting, the authorization header and the session cookie),
  their lifetime, and the number formatting of the API.

  The clock readings, the signing of a JWT and the password hash are arguments: they stand for the
  wall clock and for the third-party packages \<open>jwt-go\<close> and \<open>bcrypt\<close>.
\<close>

definition CookieName :: string where "CookieName = ''RC_SESS''"
definition AuthHeaderName :: string where "AuthHeaderName = ''Authorization''"
definition AuthValuePrefix :: string where "AuthValuePrefix = ''Bearer''"
definition BasicAuthPrefix :: string where "BasicAuthPrefix = ''Basic''"

fun ContainsString :: "string list \<Rightarrow> string \<Rightarrow> bool" where
  "ContainsString [] item = False"
| "ContainsString (j # xs) item = (if j = item then True else ContainsString xs item)"

lemma ContainsString_iff [simp]: "ContainsString xs s \<longleftrightarrow> s \<in> set xs"
  by (induction xs) auto

definition GetAuthProviderName :: "string \<Rightarrow> string" where
  "GetAuthProviderName principalID = hd (split_on CHR ''.'' principalID)"

lemma GetAuthProviderName_local:
  "GetAuthProviderName (''local.'' @ rest) = ''local''"
  by (simp add: GetAuthProviderName_def split_on_hd)

section \<open>Lifetime of a token\<close>

record jwt_claims =
  cl_exp :: int
  cl_iat :: int

text \<open>\<open>now_exp\<close> and \<open>now_iat\<close> are the two readings of the clock, \<open>sign\<close> is \<open>token.SignedString\<close>.\<close>

definition GenerateToken ::
    "(jwt_claims \<Rightarrow> go_error + string) \<Rightarrow> int \<Rightarrow> int \<Rightarrow> int64 \<Rightarrow> go_error + string" where
  "GenerateToken sign now_exp now_iat ttl =
     sign \<lparr>cl_exp = time_Unix (time_Add now_exp (Millisecond * ttl)), cl_iat = time_Unix now_iat\<rparr>"

definition SetTokenExpiresAt :: "token \<Rightarrow> token" where
  "SetTokenExpiresAt t =
     (if t_TTLMillis t \<noteq> 0
        then t\<lparr>t_ExpiresAt := Format_RFC3339
          (time_Add (om_CreationTimestamp (t_meta t)) (t_TTLMillis t * Millisecond))\<rparr>
        else t)"

definition IsExpired :: "(int \<Rightarrow> real) \<Rightarrow> int \<Rightarrow> token \<Rightarrow> bool" where
  "IsExpired seconds now t =
     (if t_TTLMillis t = 0 then False
      else
        let durationElapsed = time_Sub now (om_CreationTimestamp (t_meta t));
            ttlDuration = t_TTLMillis t * Millisecond
        in seconds (sint durationElapsed) \<ge> seconds (sint ttlDuration))"

text \<open>
  \<open>Duration.Seconds\<close> is monotone, and a \<open>float64\<close> tells durations a millisecond apart: a 64-bit
  count of nanoseconds is below \<open>2^34\<close> seconds, so the rounding is finer than \<open>2^-18\<close> seconds.
\<close>

definition seconds_ok :: "(int \<Rightarrow> real) \<Rightarrow> bool" where
  "seconds_ok seconds \<longleftrightarrow>
     (\<forall>a b. a \<le> b \<longrightarrow> seconds a \<le> seconds b) \<and>
     (\<forall>a b. a + 1000000 \<le> b \<longrightarrow> seconds a < seconds b)"

definition exact_seconds :: "int \<Rightarrow> real" where
  "exact_seconds d = real_of_int d / 10 ^ 9"

lemma seconds_exact: "seconds_ok exact_seconds"
  by (auto simp: seconds_ok_def exact_seconds_def divide_right_mono)

lemma IsExpired_in_range:
  assumes "0 < sint (t_TTLMillis t)" "sint (t_TTLMillis t) * 1000000 < 2 ^ 63"
    and "elapsed = now - om_CreationTimestamp (t_meta t)" "0 \<le> elapsed" "elapsed < 2 ^ 63"
  shows "IsExpired seconds now t \<longleftrightarrow> seconds (sint (t_TTLMillis t) * 1000000) \<le> seconds elapsed"
proof -
  have "sint (t_TTLMillis t * Millisecond) = sint (t_TTLMillis t) * 1000000"
    using assms by (intro sint_millis) simp_all
  moreover have "sint (time_Sub now (om_CreationTimestamp (t_meta t))) = elapsed"
    using assms by (simp add: sint_time_Sub)
  moreover have "t_TTLMillis t \<noteq> 0" using assms(1) by auto
  ultimately show ?thesis by (simp add: IsExpired_def)
qed

text \<open>
  C17. A token whose lifetime fits a duration counts as expired from the end of its lifetime on, and
  not before the last millisecond of it.
\<close>

theorem IsExpired_exact:
  assumes "seconds_ok seconds"
    and "0 < sint (t_TTLMillis t)" "sint (t_TTLMillis t) * 1000000 < 2 ^ 63"
    and "elapsed = now - om_CreationTimestamp (t_meta t)" "0 \<le> elapsed" "elapsed < 2 ^ 63"
  shows "(sint (t_TTLMillis t) * 1000000 \<le> elapsed \<longrightarrow> IsExpired seconds now t) \<and>
    (elapsed + 1000000 \<le> sint (t_TTLMillis t) * 1000000 \<longrightarrow> \<not> IsExpired seconds now t)"
  using assms(1) unfolding IsExpired_in_range [OF assms(2-6)] by (auto simp: seconds_ok_def not_le)

theorem IsExpired_exact_witness:
  "IsExpired exact_seconds 57600000000000 (zero_token\<lparr>t_TTLMillis := 57600000\<rparr>) \<and>
   \<not> IsExpired exact_seconds 57599999000000 (zero_token\<lparr>t_TTLMillis := 57600000\<rparr>)"
  using IsExpired_exact [of exact_seconds "zero_token\<lparr>t_TTLMillis := 57600000\<rparr>"
      57600000000000 57600000000000]
    IsExpired_exact [of exact_seconds "zero_token\<lparr>t_TTLMillis := 57600000\<rparr>"
      57599999000000 57599999000000]
  by (simp add: seconds_exact zero_token_def zero_meta_def)

text \<open>
  A lifetime of more than 292 years does not fit a duration: the product is negative and the token
  is expired when it is made.
\<close>

lemma IsExpired_overflow:
  assumes "seconds_ok seconds" "om_CreationTimestamp (t_meta t) \<le> now"
    and "9223372036855 \<le> sint (t_TTLMillis t)" "sint (t_TTLMillis t) \<le> 18446744073709"
  shows "IsExpired seconds now t"
proof -
  define p where "p = sint (t_TTLMillis t) * 1000000"
  have p: "2 ^ 63 \<le> p" "p < 2 ^ 64" using assms by (simp_all add: p_def)
  have "sint (t_TTLMillis t * Millisecond) = signed_take_bit 63 p"
    by (simp add: sint_word_ariths p_def Millisecond_def)
  also have "signed_take_bit 63 p = p - 2 ^ 64"
  proof -
    have "(p + 2 ^ 63) mod 2 ^ 64 = (p + 2 ^ 63 - 2 ^ 64) mod 2 ^ 64" by (rule minus_mod_self2 [symmetric])
    also have "\<dots> = p + 2 ^ 63 - 2 ^ 64" using p by (intro mod_pos_pos_trivial) simp_all
    finally show ?thesis by (simp add: signed_take_bit_eq_take_bit_shift take_bit_eq_mod)
  qed
  finally have "sint (t_TTLMillis t * Millisecond) < 0" using p by simp
  moreover have "0 \<le> sint (time_Sub now (om_CreationTimestamp (t_meta t)))"
    using assms(2) by (simp add: sint_time_Sub)
  ultimately show ?thesis
    using assms(1,3) by (auto simp: IsExpired_def seconds_ok_def)
qed

lemma IsExpired_zero: "t_TTLMillis t = 0 \<Longrightarrow> \<not> IsExpired seconds now t"
  by (simp add: IsExpired_def)

definition HashPasswordString :: "(string \<Rightarrow> go_error + string) \<Rightarrow> string \<Rightarrow> go_error + string" where
  "HashPasswordString bcrypt password =
     (case bcrypt password of
        Inl e \<Rightarrow> Inl (WithMessage e ''RancherCUBE: problem encrypting password'')
      | Inr h \<Rightarrow> Inr h)"

section \<open>Tokens on the wire\<close>

definition SplitTokenParts :: "string \<Rightarrow> string \<times> string" where
  "SplitTokenParts tokenID =
     (let parts = split_on CHR '':'' tokenID in
      if length parts \<noteq> 2 then (parts ! 0, []) else (parts ! 0, parts ! 1))"

text \<open>\<open>base64.URLEncoding.DecodeString\<close>: padded, line breaks ignored.\<close>

definition b64_value :: "char \<Rightarrow> nat option" where
  "b64_value c =
     (let n = (of_char c :: nat) in
      if 65 \<le> n \<and> n \<le> 90 then Some (n - 65)
      else if 97 \<le> n \<and> n \<le> 122 then Some (n - 71)
      else if 48 \<le> n \<and> n \<le> 57 then Some (n + 4)
      else if c = CHR ''-'' then Some 62
      else if c = CHR ''_'' then Some 63
      else None)"

fun b64_quads :: "string \<Rightarrow> string option" where
  "b64_quads [] = Some []"
| "b64_quads [a, b, c, d] =
     (case (b64_value a, b64_value b) of
        (Some x, Some y) \<Rightarrow>
          (if c = CHR ''='' \<and> d = CHR ''='' then Some [char_of (x * 4 + y div 16)]
           else (case b64_value c of
              None \<Rightarrow> None
            | Some z \<Rightarrow>
                if d = CHR ''=''
                  then Some [char_of (x * 4 + y div 16), char_of (y mod 16 * 16 + z div 4)]
                  else (case b64_value d of
                     None \<Rightarrow> None
                   | Some v \<Rightarrow> Some [char_of (x * 4 + y div 16),
                       char_of (y mod 16 * 16 + z div 4), char_of (z mod 4 * 64 + v)])))
      | _ \<Rightarrow> None)"
| "b64_quads (a # b # c # d # e # rest) =
     (case (b64_value a, b64_value b, b64_value c, b64_value d, b64_quads (e # rest)) of
        (Some x, Some y, Some z, Some v, Some out) \<Rightarrow>
          Some (char_of (x * 4 + y div 16) # char_of (y mod 16 * 16 + z div 4)
            # char_of (z mod 4 * 64 + v) # out)
      | _ \<Rightarrow> None)"
| "b64_quads _ = None"

definition base64_DecodeString :: "string \<Rightarrow> string option" where
  "base64_DecodeString s = b64_quads (filter (\<lambda>c. c \<noteq> CHR 0x0A \<and> c \<noteq> CHR 0x0D) s)"

text \<open>The parts of a request the authentication reads: the header and the session cookie.\<close>

record http_request =
  rq_Authorization :: string
  rq_Cookie :: "string option"
  rq_Scheme :: string
  rq_ImpersonateUser :: string

definition GetTokenAuthFromRequest :: "http_request \<Rightarrow> string" where
  "GetTokenAuthFromRequest req =
     (let authHeader = TrimSpace (rq_Authorization req) in
      if authHeader \<noteq> [] then
        (let parts = split2_on CHR '' '' authHeader in
         if EqualFold_ascii (parts ! 0) AuthValuePrefix then
           (if 1 < length parts then TrimSpace (parts ! 1) else [])
         else if EqualFold_ascii (parts ! 0) BasicAuthPrefix then
           (if 1 < length parts then
              (case base64_DecodeString (TrimSpace (parts ! 1)) of None \<Rightarrow> [] | Some d \<Rightarrow> d)
            else [])
         else [])
      else (case rq_Cookie req of None \<Rightarrow> [] | Some v \<Rightarrow> v))"

lemma SplitTokenParts_join:
  assumes "CHR '':'' \<notin> set n" "CHR '':'' \<notin> set k"
  shows "SplitTokenParts (n @ CHR '':'' # k) = (n, k)"
  using assms by (simp add: SplitTokenParts_def split_on_append split_on_no_sep)

lemma SplitTokenParts_other:
  "length (split_on CHR '':'' s) \<noteq> 2 \<Longrightarrow> snd (SplitTokenParts s) = []"
  by (simp add: SplitTokenParts_def Let_def)

text \<open>
  Names and keys of tokens are made of visible ASCII characters; no encoding of a white space
  begins or ends with one, so trimming keeps a text that begins and ends with them.
\<close>

definition visible :: "char \<Rightarrow> bool" where
  "visible c \<longleftrightarrow> 33 \<le> (of_char c :: nat) \<and> (of_char c :: nat) < 127"

lemma visible_not_separator: "visible c \<Longrightarrow> c \<noteq> CHR '' ''"
  by (auto simp: visible_def)

lemma white_space_edges:
  "list_all (\<lambda>w. w \<noteq> [] \<and> \<not> visible (hd w)) white_space"
  "list_all (\<lambda>w. w \<noteq> [] \<and> \<not> visible (hd w)) (map rev white_space)"
  by (simp_all add: white_space_def bytes_def visible_def)

lemma strip_one_visible:
  "list_all (\<lambda>w. w \<noteq> [] \<and> \<not> visible (hd w)) ws \<Longrightarrow> s \<noteq> [] \<Longrightarrow> visible (hd s) \<Longrightarrow>
    strip_one ws s = None"
  by (induction ws) (auto simp: HasPrefix_iff_append)

lemma TrimSpace_visible:
  assumes "s \<noteq> []" "visible (hd s)" "visible (last s)"
  shows "TrimSpace s = s"
proof -
  have "trim_front white_space s = s"
    using assms by (intro trim_front_no_space strip_one_visible [OF white_space_edges(1)])
  moreover have "trim_front (map rev white_space) (rev s) = rev s"
    using assms by (intro trim_front_no_space strip_one_visible [OF white_space_edges(2)])
      (simp_all add: hd_rev)
  ultimately show ?thesis by (simp add: TrimSpace_def)
qed

lemma strip_one_empty: "strip_one ws [] = None"
  by (induction ws) (auto simp: HasPrefix_def)

lemma TrimSpace_empty: "TrimSpace [] = []"
  by (simp add: TrimSpace_def trim_front_no_space strip_one_empty)

lemma TrimSpace_all_visible: "s \<noteq> [] \<Longrightarrow> \<forall>c \<in> set s. visible c \<Longrightarrow> TrimSpace s = s"
  by (simp add: TrimSpace_visible)

lemma split2_on_once: "c \<notin> set s \<Longrightarrow> split2_on c (s @ c # t) = [s, t]"
proof -
  assume "c \<notin> set s"
  then have "dropWhile (\<lambda>x. x \<noteq> c) (s @ c # t) = c # t" "takeWhile (\<lambda>x. x \<noteq> c) (s @ c # t) = s"
    by (induction s) auto
  then show ?thesis by (simp add: split2_on_def)
qed

lemma GetTokenAuth_header:
  assumes "scheme \<noteq> []" "\<forall>c \<in> set scheme. visible c" "EqualFold_ascii scheme AuthValuePrefix"
    and "tok \<noteq> []" "\<forall>c \<in> set tok. visible c"
    and "rq_Authorization req = scheme @ CHR '' '' # tok"
  shows "GetTokenAuthFromRequest req = tok"
proof -
  have "TrimSpace (rq_Authorization req) = rq_Authorization req"
    using assms by (intro TrimSpace_visible) simp_all
  moreover have "split2_on CHR '' '' (rq_Authorization req) = [scheme, tok]"
    using assms visible_not_separator by (auto intro: split2_on_once)
  ultimately show ?thesis
    using assms by (simp add: GetTokenAuthFromRequest_def Let_def TrimSpace_all_visible)
qed

lemma GetTokenAuth_cookie:
  "rq_Authorization req = [] \<Longrightarrow> rq_Cookie req = Some tok \<Longrightarrow> GetTokenAuthFromRequest req = tok"
  by (simp add: GetTokenAuthFromRequest_def TrimSpace_empty)

text \<open>
  C16. The text \<open>name:key\<close> that a login hands out comes back as that name and that key, whether
  the client sends it in an authorization header (the scheme in any case) or in the cookie.
\<close>

theorem token_wire_roundtrip:
  assumes "\<forall>c \<in> set (name @ key). visible c \<and> c \<noteq> CHR '':''"
    and "scheme \<noteq> []" "\<forall>c \<in> set scheme. visible c" "EqualFold_ascii scheme AuthValuePrefix"
    and "rq_Authorization req = scheme @ CHR '' '' # name @ CHR '':'' # key \<or>
         rq_Authorization req = [] \<and> rq_Cookie req = Some (name @ CHR '':'' # key)"
  shows "SplitTokenParts (GetTokenAuthFromRequest req) = (name, key)"
proof -
  have "visible CHR '':''" by (simp add: visible_def)
  then have tok: "\<forall>c \<in> set (name @ CHR '':'' # key). visible c" using assms(1) by auto
  have "GetTokenAuthFromRequest req = name @ CHR '':'' # key"
    using assms(5)
  proof
    assume "rq_Authorization req = scheme @ CHR '' '' # name @ CHR '':'' # key"
    then show ?thesis using assms(2-4) tok by (intro GetTokenAuth_header [of scheme]) simp_all
  next
    assume "rq_Authorization req = [] \<and> rq_Cookie req = Some (name @ CHR '':'' # key)"
    then show ?thesis by (simp add: GetTokenAuth_cookie)
  qed
  moreover have "CHR '':'' \<notin> set name" "CHR '':'' \<notin> set key" using assms(1) by auto
  ultimately show ?thesis by (simp add: SplitTokenParts_join)
qed

theorem token_wire_roundtrip_witness:
  "SplitTokenParts (GetTokenAuthFromRequest
     \<lparr>rq_Authorization = ''bearer token-x:k3y'', rq_Cookie = None, rq_Scheme = ''http'',
      rq_ImpersonateUser = []\<rparr>) = (''token-x'', ''k3y'')"
proof (rule token_wire_roundtrip [where scheme = "''bearer''"])
  show "\<forall>c \<in> set (''token-x'' @ ''k3y''). visible c \<and> c \<noteq> CHR '':''" by code_simp
  show "\<forall>c \<in> set ''bearer''. visible c" by code_simp
  show "EqualFold_ascii ''bearer'' AuthValuePrefix" by code_simp
qed simp_all

section \<open>Numbers\<close>

text \<open>
  The loop of \<open>Int32ToString\<close> fills an 11-byte buffer from the end; \<open>i\<close> is a 64-bit integer, so that
  \<open>-i\<close> exists for the smallest 32-bit one, and it is not negative when the loop starts.  A write in
  front of the buffer would panic.
\<close>

definition ascii_digit :: "nat \<Rightarrow> char" where
  "ascii_digit d = char_of (48 + d)"

definition buf_set :: "nat \<Rightarrow> char \<Rightarrow> string \<Rightarrow> string outcome" where
  "buf_set pos c buf = (if pos < length buf then Return (buf[pos := c]) else index_out_of_range)"

function int32_loop :: "int \<Rightarrow> nat \<Rightarrow> bool \<Rightarrow> string \<Rightarrow> string outcome" where
  "int32_loop pos i neg buf =
     (let pos1 = pos - 1 in
      if pos1 < 0 then index_out_of_range
      else bind_outcome (buf_set (nat pos1) (ascii_digit (i mod 10)) buf) (\<lambda>buf1.
        if i div 10 = 0 then
          (if neg then
             (let pos2 = pos1 - 1 in
              if pos2 < 0 then index_out_of_range
              else bind_outcome (buf_set (nat pos2) CHR ''-'' buf1) (\<lambda>buf2.
                Return (drop (nat pos2) buf2)))
           else Return (drop (nat pos1) buf1))
        else int32_loop pos1 (i div 10) neg buf1))"
  by pat_completeness auto
termination
  by (relation "measure (\<lambda>(pos, i, neg, buf). i)") auto

declare int32_loop.simps [simp del]

definition Int32ToString :: "int32 \<Rightarrow> string outcome" where
  "Int32ToString n =
     (let i = sint n; neg = i < 0 in
      int32_loop 11 (nat (if neg then - i else i)) neg (replicate 11 (char_of (0 :: nat))))"

text \<open>The decimal notation of a number, and reading it back: what the formatting is measured by.\<close>

function decimal :: "nat \<Rightarrow> string" where
  "decimal n = (if n div 10 = 0 then [] else decimal (n div 10)) @ [ascii_digit (n mod 10)]"
  by pat_completeness auto
termination
  by (relation "measure id") auto

declare decimal.simps [simp del]

definition parse_digits :: "string \<Rightarrow> nat" where
  "parse_digits s = foldl (\<lambda>acc c. acc * 10 + (of_char c - 48)) 0 s"

definition parse_decimal :: "string \<Rightarrow> int" where
  "parse_decimal s =
     (case s of c # cs \<Rightarrow> if c = CHR ''-'' then - int (parse_digits cs) else int (parse_digits s)
      | [] \<Rightarrow> 0)"

lemma digit_code: "d < 10 \<Longrightarrow> of_char (ascii_digit d) = 48 + d"
  by (simp add: ascii_digit_def)

lemma digit_value: "d < 10 \<Longrightarrow> of_char (ascii_digit d) - 48 = d"
  by (simp add: digit_code)

lemma parse_digits_decimal: "parse_digits (decimal n) = n"
proof (induction n rule: decimal.induct)
  case (1 n)
  have "parse_digits (decimal n) =
    (if n div 10 = 0 then 0 else parse_digits (decimal (n div 10))) * 10 + n mod 10"
    by (simp add: decimal.simps [of n] parse_digits_def digit_value)
  with 1 show ?case by auto
qed

lemma decimal_nonempty [simp]: "decimal n \<noteq> []"
  by (simp add: decimal.simps [of n])

lemma decimal_digits: "c \<in> set (decimal n) \<Longrightarrow> \<exists>d < 10. c = ascii_digit d"
proof (induction n rule: decimal.induct)
  case (1 n)
  then show ?case by (subst (asm) decimal.simps) (force split: if_splits)
qed

lemma length_decimal: "0 < k \<Longrightarrow> n < 10 ^ k \<Longrightarrow> length (decimal n) \<le> k"
proof (induction k arbitrary: n)
  case (Suc k)
  show ?case
  proof (cases "n div 10 = 0")
    case True
    then show ?thesis by (simp add: decimal.simps [of n])
  next
    case False
    then have "0 < k" using Suc.prems(2) by (cases k) auto
    moreover have "n div 10 < 10 ^ k" using Suc.prems(2) by (simp add: div_less_iff_less_mult mult.commute)
    ultimately show ?thesis using Suc.IH False by (simp add: decimal.simps [of n])
  qed
qed simp

lemma drop_buf: "n < length buf \<Longrightarrow> drop n (buf[n := c]) = c # drop (Suc n) buf"
  by (simp add: Cons_nth_drop_Suc [symmetric])

lemma int32_loop_decimal:
  assumes "0 \<le> pos" "nat pos \<le> length buf"
    and "length (decimal i) + (if neg then 1 else 0) \<le> nat pos"
  shows "int32_loop pos i neg buf =
    Return ((if neg then ''-'' else []) @ decimal i @ drop (nat pos) buf)"
  using assms
proof (induction pos i neg buf rule: int32_loop.induct)
  case (1 pos i neg buf)
  define p where "p = nat pos - 1"
  define c where "c = ascii_digit (i mod 10)"
  have pos: "0 < pos" "nat (pos - 1) = p" "nat pos = Suc p" "p < length buf"
  proof -
    have "length (decimal i) \<noteq> 0" by simp
    then have "0 < nat pos" using "1.prems"(3) by linarith
    then show "0 < pos" "nat (pos - 1) = p" "nat pos = Suc p" "p < length buf"
      using "1.prems"(2) by (auto simp: p_def)
  qed
  have set1: "buf_set p c buf = Return (buf[p := c])" using pos by (simp add: buf_set_def)
  have tail: "drop p (buf[p := c]) = c # drop (nat pos) buf" using pos by (simp add: drop_buf)
  show ?case
  proof (cases "i div 10 = 0")
    case True
    have dec: "decimal i = [c]" using True by (simp add: decimal.simps [of i] c_def)
    have c: "ascii_digit i = c" using True by (simp add: c_def)
    show ?thesis
    proof (cases neg)
      case False
      then show ?thesis using pos set1 tail dec True
        by (simp add: int32_loop.simps [of pos] c)
    next
      case neg: True
      then have "0 < p" using "1.prems"(3) dec pos by simp
      then obtain q where q: "p = Suc q" by (cases p) auto
      have q': "nat (pos - 1 - 1) = q" "\<not> pos - 1 - 1 < 0" using pos q by auto
      have "buf_set q CHR ''-'' (buf[p := c]) = Return (buf[p := c, q := CHR ''-''])"
        using pos q by (simp add: buf_set_def)
      moreover have "drop q (buf[p := c, q := CHR ''-'']) = CHR ''-'' # c # drop (nat pos) buf"
        using pos q tail by (simp add: drop_buf)
      ultimately show ?thesis using neg pos q' set1 dec True
        by (simp add: int32_loop.simps [of pos] c)
    qed
  next
    case False
    have dec: "decimal i = decimal (i div 10) @ [c]"
      using False by (simp add: decimal.simps [of i] c_def)
    have rec: "int32_loop (pos - 1) (i div 10) neg (buf[p := c]) =
      Return ((if neg then ''-'' else []) @ decimal (i div 10) @ drop (nat (pos - 1)) (buf[p := c]))"
      using "1.IH" [OF refl _ False, of "buf[p := c]"] "1.prems" pos dec by simp
    show ?thesis using rec False pos set1 tail dec
      by (simp add: int32_loop.simps [of pos] c_def [symmetric])
  qed
qed

lemma parse_decimal_signed: "parse_decimal ((if s then ''-'' else []) @ decimal n) =
    (if s then - int n else int n)"
proof (cases s)
  case False
  obtain c cs where dec: "decimal n = c # cs" by (cases "decimal n") auto
  then have "c \<in> set (decimal n)" by simp
  then obtain d where d: "d < 10" "c = ascii_digit d" using decimal_digits by blast
  have "c \<noteq> CHR ''-''"
  proof
    assume "c = CHR ''-''"
    then have "(of_char c :: nat) = 45" by simp
    with d show False by (simp add: digit_code)
  qed
  with False dec parse_digits_decimal [of n] show ?thesis by (simp add: parse_decimal_def)
qed (simp add: parse_decimal_def parse_digits_decimal)

lemma Int32ToString_decimal:
  "Int32ToString n = Return ((if sint n < 0 then ''-'' else []) @ decimal (nat \<bar>sint n\<bar>)) \<and> length (decimal (nat \<bar>sint n\<bar>)) \<le> 10"
proof -
  have b: "- (2 ^ 31) \<le> sint n" "sint n < 2 ^ 31"
    using sint_ge [of n] sint_lt [of n] by simp_all
  define m where "m = nat \<bar>sint n\<bar>"
  have m: "nat (if sint n < 0 then - sint n else sint n) = m" by (simp add: m_def)
  have "m < 10 ^ 10" using b by (simp add: m_def)
  then have len: "length (decimal m) \<le> 10" by (rule length_decimal [rotated]) simp
  then have "Int32ToString n = Return ((if sint n < 0 then ''-'' else []) @ decimal m)"
    by (simp add: Int32ToString_def Let_def m int32_loop_decimal)
  with len show ?thesis by (simp add: m_def)
qed

text \<open>
  For every 32-bit integer \<open>Int32ToString\<close> returns, without running out of its 11-byte
  buffer, a text that reads back as that integer.
\<close>

theorem Int32ToString_roundtrip:
  "\<exists>s. Int32ToString n = Return s \<and> length s \<le> 11 \<and> parse_decimal s = sint n"
proof -
  have "parse_decimal ((if sint n < 0 then ''-'' else []) @ decimal (nat \<bar>sint n\<bar>)) = sint n"
    by (simp add: parse_decimal_signed)
  with Int32ToString_decimal [of n] show ?thesis by auto
qed

end
