(* ===== verification/Cube_Base32.thy ===== *)
theory Cube_Base32
  imports Cube_Go
begin

text \<open>
  \<open>base32.HexEncoding.WithPadding(NoPadding)\<close> of Go's standard library, and the label key that
  \<open>backend/user.go\<close> makes of a principal id with it.
\<close>

text \<open>Five bytes are eight digits of five bits; a rest of \<open>n\<close> bytes takes \<open>\<lceil>8 n / 5\<rceil>\<close> digits.\<close>

fun base32_digits :: "nat list \<Rightarrow> nat list" where
  "base32_digits [] = []"
| "base32_digits [a] = [a div 8, a mod 8 * 4]"
| "base32_digits [a, b] = [a div 8, a mod 8 * 4 + b div 64, b div 2 mod 32, b mod 2 * 16]"
| "base32_digits [a, b, c] =
     [a div 8, a mod 8 * 4 + b div 64, b div 2 mod 32, b mod 2 * 16 + c div 16, c mod 16 * 2]"
| "base32_digits [a, b, c, d] =
     [a div 8, a mod 8 * 4 + b div 64, b div 2 mod 32, b mod 2 * 16 + c div 16,
      c mod 16 * 2 + d div 128, d div 4 mod 32, d mod 4 * 8]"
| "base32_digits (a # b # c # d # e # rest) =
     [a div 8, a mod 8 * 4 + b div 64, b div 2 mod 32, b mod 2 * 16 + c div 16,
      c mod 16 * 2 + d div 128, d div 4 mod 32, d mod 4 * 8 + e div 32, e mod 32]
     @ base32_digits rest"

definition hex_digit :: "nat \<Rightarrow> char" where
  "hex_digit n = (if n < 10 then char_of (48 + n) else char_of (55 + n))"

definition base32hex_EncodeToString :: "string \<Rightarrow> string" where
  "base32hex_EncodeToString s = map hex_digit (base32_digits (map of_char s))"

text \<open>The label key of a principal id: labels hold at most 63 characters.\<close>

definition principal_label :: "string \<Rightarrow> string" where
  "principal_label principalName =
     (let encodedPrincipalID = base32hex_EncodeToString principalName in
      if 63 < length encodedPrincipalID then take 63 encodedPrincipalID else encodedPrincipalID)"

section \<open>The label is one\<close>

lemma length_base32_digits: "length (base32_digits bs) = (8 * length bs + 4) div 5"
  by (induction bs rule: base32_digits.induct) simp_all

lemma base32_digits_bound: "list_all (\<lambda>b. b < 256) bs \<Longrightarrow> list_all (\<lambda>d. d < 32) (base32_digits bs)"
  by (induction bs rule: base32_digits.induct) (auto simp: less_mult_imp_div_less)

lemma digit_pair:
  fixes x y x' y' :: nat
  assumes "x * k + y = x' * k + y'" "y < k" "y' < k"
  shows "x = x' \<and> y = y'"
proof -
  have "x = (x * k + y) div k" "x' = (x' * k + y') div k" using assms(2,3) by simp_all
  with assms(1) have "x = x'" by simp
  with assms(1) show ?thesis by simp
qed

lemma join_parts:
  fixes a a' :: nat
  assumes "a div k = a' div k" "a mod k = a' mod k"
  shows "a = a'"
  using assms by (metis div_mult_mod_eq)

lemma mid_parts:
  fixes b b' :: nat
  assumes "b div (m * k) = b' div (m * k)" "b div k mod m = b' div k mod m" "b mod k = b' mod k"
  shows "b = b'"
proof (rule join_parts)
  have "b div k div m = b' div k div m" using assms(1) by (simp add: div_mult2_eq mult.commute)
  then show "b div k = b' div k" using assms(2) by (rule join_parts)
qed (rule assms(3))

lemma byte_a:
  fixes a b a' b' :: nat
  assumes "b < 256" "b' < 256" "a div 8 = a' div 8" "a mod 8 * 4 + b div 64 = a' mod 8 * 4 + b' div 64"
  shows "a = a' \<and> b div 64 = b' div 64"
proof -
  have "b div 64 < 4" "b' div 64 < 4" using assms(1,2) by (simp_all add: less_mult_imp_div_less)
  from digit_pair [OF assms(4) this] join_parts [OF assms(3)] show ?thesis by simp
qed

lemma byte_b:
  fixes b c b' c' :: nat
  assumes "c < 256" "c' < 256" "b div 64 = b' div 64" "b div 2 mod 32 = b' div 2 mod 32" "b mod 2 * 16 + c div 16 = b' mod 2 * 16 + c' div 16"
  shows "b = b' \<and> c div 16 = c' div 16"
proof -
  have "c div 16 < 16" "c' div 16 < 16" using assms(1,2) by (simp_all add: less_mult_imp_div_less)
  from digit_pair [OF assms(5) this] mid_parts [of b 32 2 b'] assms(3,4) show ?thesis by simp
qed

lemma byte_c:
  fixes c d c' d' :: nat
  assumes "d < 256" "d' < 256" "c div 16 = c' div 16" "c mod 16 * 2 + d div 128 = c' mod 16 * 2 + d' div 128"
  shows "c = c' \<and> d div 128 = d' div 128"
proof -
  have "d div 128 < 2" "d' div 128 < 2" using assms(1,2) by (simp_all add: less_mult_imp_div_less)
  from digit_pair [OF assms(4) this] join_parts [OF assms(3)] show ?thesis by simp
qed

lemma byte_d:
  fixes d e d' e' :: nat
  assumes "e < 256" "e' < 256" "d div 128 = d' div 128" "d div 4 mod 32 = d' div 4 mod 32" "d mod 4 * 8 + e div 32 = d' mod 4 * 8 + e' div 32"
  shows "d = d' \<and> e div 32 = e' div 32"
proof -
  have "e div 32 < 8" "e' div 32 < 8" using assms(1,2) by (simp_all add: less_mult_imp_div_less)
  from digit_pair [OF assms(5) this] mid_parts [of d 32 4 d'] assms(3,4) show ?thesis by simp
qed

lemma bytes_inj_last:
  fixes a b c d e a' b' c' d' e' :: nat
  shows "a div 8 = a' div 8 \<Longrightarrow> a mod 8 * 4 = a' mod 8 * 4 \<Longrightarrow> a = a'"
    and "b div 64 = b' div 64 \<Longrightarrow> b div 2 mod 32 = b' div 2 mod 32 \<Longrightarrow> b mod 2 * 16 = b' mod 2 * 16 \<Longrightarrow> b = b'"
    and "c div 16 = c' div 16 \<Longrightarrow> c mod 16 * 2 = c' mod 16 * 2 \<Longrightarrow> c = c'"
    and "d div 128 = d' div 128 \<Longrightarrow> d div 4 mod 32 = d' div 4 mod 32 \<Longrightarrow> d mod 4 * 8 = d' mod 4 * 8 \<Longrightarrow> d = d'"
    and "e div 32 = e' div 32 \<Longrightarrow> e mod 32 = e' mod 32 \<Longrightarrow> e = e'"
proof -
  show "a = a'" if "a div 8 = a' div 8" "a mod 8 * 4 = a' mod 8 * 4"
    by (rule join_parts [OF that(1)]) (use that(2) in simp)
  show "b = b'" if "b div 64 = b' div 64" "b div 2 mod 32 = b' div 2 mod 32" "b mod 2 * 16 = b' mod 2 * 16"
    by (rule mid_parts [of b 32 2]) (use that in simp_all)
  show "c = c'" if "c div 16 = c' div 16" "c mod 16 * 2 = c' mod 16 * 2"
    by (rule join_parts [OF that(1)]) (use that(2) in simp)
  show "d = d'" if "d div 128 = d' div 128" "d div 4 mod 32 = d' div 4 mod 32" "d mod 4 * 8 = d' mod 4 * 8"
    by (rule mid_parts [of d 32 4]) (use that in simp_all)
  show "e = e'" if "e div 32 = e' div 32" "e mod 32 = e' mod 32"
    by (rule join_parts [OF that])
qed

lemma base32_digits_inj:
  assumes "list_all (\<lambda>b. b < 256) xs" "list_all (\<lambda>b. b < 256) ys" "length xs = length ys"
    and "base32_digits xs = base32_digits ys"
  shows "xs = ys"
  using assms
proof (induction xs arbitrary: ys rule: base32_digits.induct)
  case (2 a)
  obtain a' where "ys = [a']"
    using "2.prems"(3) by (cases ys rule: base32_digits.cases) auto
  with 2 show ?case using bytes_inj_last(1) [of a a'] by simp
next
  case (3 a b)
  obtain a' b' where "ys = [a', b']"
    using "3.prems"(3) by (cases ys rule: base32_digits.cases) auto
  with 3 show ?case using byte_a [of b b' a a'] bytes_inj_last(2) [of b b'] by simp
next
  case (4 a b c)
  obtain a' b' c' where "ys = [a', b', c']"
    using "4.prems"(3) by (cases ys rule: base32_digits.cases) auto
  with 4 show ?case
    using byte_a [of b b' a a'] byte_b [of c c' b b'] bytes_inj_last(3) [of c c'] by simp
next
  case (5 a b c d)
  obtain a' b' c' d' where "ys = [a', b', c', d']"
    using "5.prems"(3) by (cases ys rule: base32_digits.cases) auto
  with 5 show ?case
    using byte_a [of b b' a a'] byte_b [of c c' b b'] byte_c [of d d' c c']
      bytes_inj_last(4) [of d d'] by simp
next
  case (6 a b c d e rest)
  obtain a' b' c' d' e' rest' where ys: "ys = a' # b' # c' # d' # e' # rest'"
    using "6.prems"(3) by (cases ys rule: base32_digits.cases) auto
  with 6 have "rest = rest'" by simp
  with 6 ys show ?case
    using byte_a [of b b' a a'] byte_b [of c c' b b'] byte_c [of d d' c c'] byte_d [of e e' d d']
      bytes_inj_last(5) [of e e'] by simp
qed simp

lemma hex_digit_inj: "m < 32 \<Longrightarrow> n < 32 \<Longrightarrow> hex_digit m = hex_digit n \<Longrightarrow> m = n"
  by (auto simp: hex_digit_def split: if_splits dest!: arg_cong [where f = "of_char :: char \<Rightarrow> nat"])

lemma of_char_bytes: "list_all (\<lambda>b. b < 256) (map of_char (s :: string) :: nat list)"
  by (induction s) (simp_all add: of_char_def)

lemma length_base32hex: "length (base32hex_EncodeToString s) = (8 * length s + 4) div 5"
  by (simp add: base32hex_EncodeToString_def length_base32_digits)

lemma digits_needed_less:
  assumes "x < y"
  shows "(8 * x + 4) div 5 < (8 * y + 4) div (5 :: nat)"
proof -
  have "(8 * x + 4 + 5) div 5 \<le> (8 * y + 4) div 5" by (rule div_le_mono) (use assms in linarith)
  moreover have "(8 * x + 4 + 5) div 5 = (8 * x + 4) div 5 + 1" by (rule div_add_self2) simp
  ultimately show ?thesis by linarith
qed

lemma digits_needed_inj: "(8 * m + 4) div 5 = (8 * n + 4) div (5 :: nat) \<Longrightarrow> m = n"
  using digits_needed_less [of m n] digits_needed_less [of n m] by (metis nat_neq_iff)

lemma digits_needed_39:
  assumes "n \<le> 39"
  shows "(8 * n + 4) div 5 \<le> (63 :: nat)"
proof -
  have "(8 * n + 4) div 5 \<le> 316 div 5" by (rule div_le_mono) (use assms in linarith)
  also have "316 div 5 = (63 :: nat)" by simp
  finally show ?thesis .
qed

lemma base32hex_inj:
  assumes "base32hex_EncodeToString s = base32hex_EncodeToString t"
  shows "s = t"
proof -
  let ?b = "map of_char :: string \<Rightarrow> nat list"
  have "(8 * length s + 4) div 5 = (8 * length t + 4) div 5"
    using arg_cong [where f = length, OF assms] by (simp only: length_base32hex)
  then have len: "length s = length t" by (rule digits_needed_inj)
  have lt: "d < 32" if "d \<in> set (base32_digits (?b s)) \<union> set (base32_digits (?b t))" for d
    using that base32_digits_bound [OF of_char_bytes [of s]] base32_digits_bound [OF of_char_bytes [of t]]
    unfolding list_all_iff by blast
  have "inj_on hex_digit (set (base32_digits (?b s)) \<union> set (base32_digits (?b t)))"
    by (rule inj_onI) (rule hex_digit_inj [OF lt lt])
  then have "base32_digits (?b s) = base32_digits (?b t)"
    using assms unfolding base32hex_EncodeToString_def by (rule inj_on_map_eq_map [THEN iffD1])
  with len have "?b s = ?b t" by (rule_tac base32_digits_inj [OF of_char_bytes of_char_bytes]) simp_all
  then show "s = t" using inj_mapI [OF inj_of_char] by (rule_tac injD)
qed

definition hex_char :: "char \<Rightarrow> bool" where
  "hex_char c \<longleftrightarrow> c \<in> set ''0123456789ABCDEFGHIJKLMNOPQRSTUV''"

lemma hex_digit_char: "n < 32 \<Longrightarrow> hex_char (hex_digit n)"
proof -
  assume "n < 32"
  then have "n \<in> set [0..<32]" by simp
  moreover have "list_all (\<lambda>n. hex_char (hex_digit n)) [0..<32]" by code_simp
  ultimately show "hex_char (hex_digit n)" by (simp only: list_all_iff)
qed

text \<open>
  C18. The label key made of a principal id is one that Kubernetes accepts: not empty, at most 63
  characters, all of them digits or upper case letters; and ids of at most 39 bytes are told apart
  by it, longer ids only by their beginning.
\<close>

theorem principal_label_ok:
  "(p \<noteq> [] \<longrightarrow> principal_label p \<noteq> []) \<and> length (principal_label p) \<le> 63
   \<and> list_all hex_char (principal_label p)
   \<and> (length p \<le> 39 \<and> length q \<le> 39 \<and> principal_label p = principal_label q \<longrightarrow> p = q)"
proof (intro conjI impI)
  assume "p \<noteq> []"
  then have "0 < length p" by simp
  then have "0 < (8 * length p + 4) div 5" by presburger
  then have "base32hex_EncodeToString p \<noteq> []" using length_base32hex [of p] by auto
  then show "principal_label p \<noteq> []" by (simp add: principal_label_def Let_def)
next
  show "length (principal_label p) \<le> 63" by (simp add: principal_label_def Let_def)
next
  have "list_all hex_char (base32hex_EncodeToString p)"
    using base32_digits_bound [OF of_char_bytes [of p]] hex_digit_char
    by (auto simp: base32hex_EncodeToString_def list_all_iff)
  then show "list_all hex_char (principal_label p)"
    by (auto simp: principal_label_def Let_def list_all_iff dest: in_set_takeD)
next
  assume a: "length p \<le> 39 \<and> length q \<le> 39 \<and> principal_label p = principal_label q"
  then have "\<not> 63 < length (base32hex_EncodeToString p)" "\<not> 63 < length (base32hex_EncodeToString q)"
    using digits_needed_39 [of "length p"] digits_needed_39 [of "length q"] a
    by (simp_all add: length_base32hex not_less)
  with a show "p = q" by (rule_tac base32hex_inj) (simp add: principal_label_def Let_def)
qed

theorem principal_label_ok_witness:
  "principal_label ''local.u-1'' \<noteq> [] \<and> principal_label ''local.u-1'' \<noteq> principal_label ''local.u-2''"
  using principal_label_ok [of "''local.u-1''" "''local.u-2''"] by auto

end
