(* ===== verification/Cube_CRDs.thy ===== *)
theory Cube_CRDs
  imports Cube_Tracker
begin

text \<open>
  The custom resource definitions the server registers when it starts: its own (\<open>backend/user.go\<close>,
  \<open>backend/infra.go\<close>), those of Longhorn (\<open>backend/longhorn.go\<close>) and of RancherVM
  (\<open>backend/ranchervm.go\<close>).
\<close>

text \<open>Every \<open>\<dots>CRDDeploy\<close> ends the same way: a definition that is already there is no error.\<close>

definition crd_deploy :: "'w api_server \<Rightarrow> crd \<Rightarrow> 'w \<Rightarrow> go_error option \<times> 'w" where
  "crd_deploy srv c w =
     (case create_err srv [] (ObjCRD c) w of
        (err, w1) \<Rightarrow> (if err = None \<or> IsAlreadyExists err then None else err, w1))"

section \<open>Cube\<close>

definition infrastructure_crd :: crd where
  "infrastructure_crd = zero_crd\<lparr>
     crd_meta := zero_meta\<lparr>om_Name := ''infrastructures.cube.rancher.io''\<rparr>,
     crd_Group := ''cube.rancher.io'', crd_Version := ''v1alpha1'',
     crd_Scope := ''Namespaced'', crd_Plural := ''infrastructures'',
     crd_Kind := ''Infrastructure''\<rparr>"

definition InfrastructureCRDDeploy where "InfrastructureCRDDeploy srv = crd_deploy srv infrastructure_crd"

definition principal_crd :: crd where
  "principal_crd = zero_crd\<lparr>
     crd_meta := zero_meta\<lparr>om_Name := ''principals.cube.rancher.io''\<rparr>,
     crd_Group := ''cube.rancher.io'', crd_Version := ''v1alpha1'',
     crd_Scope := ''Namespaced'', crd_Plural := ''principals'', crd_Kind := ''Principal''\<rparr>"

definition PrincipalCRDDeploy where "PrincipalCRDDeploy srv = crd_deploy srv principal_crd"

definition token_crd :: crd where
  "token_crd = zero_crd\<lparr>
     crd_meta := zero_meta\<lparr>om_Name := ''tokens.cube.rancher.io''\<rparr>,
     crd_Group := ''cube.rancher.io'', crd_Version := ''v1alpha1'',
     crd_Scope := ''Namespaced'', crd_Plural := ''tokens'', crd_Kind := ''Token''\<rparr>"

definition TokenCRDDeploy where "TokenCRDDeploy srv = crd_deploy srv token_crd"

definition user_crd :: crd where
  "user_crd = zero_crd\<lparr>
     crd_meta := zero_meta\<lparr>om_Name := ''users.cube.rancher.io''\<rparr>,
     crd_Group := ''cube.rancher.io'', crd_Version := ''v1alpha1'',
     crd_Scope := ''Namespaced'', crd_Plural := ''users'', crd_Kind := ''User''\<rparr>"

section \<open>Longhorn\<close>

definition LonghornGroup :: string where "LonghornGroup = ''longhorn.rancher.io''"
definition LonghornVersion :: string where "LonghornVersion = ''v1alpha1''"
definition LonghornLabel :: string where "LonghornLabel = ''longhorn-manager''"
definition EngineKind :: string where "EngineKind = ''Engine''"
definition Engine :: string where "Engine = ''engine''"
definition EnginePlural :: string where "EnginePlural = ''engines''"
definition EngineList :: string where "EngineList = ''EngineList''"
definition EngineFullName :: string where "EngineFullName = EnginePlural @ ''.'' @ LonghornGroup"
definition ReplicaKind :: string where "ReplicaKind = ''Replica''"
definition Replica :: string where "Replica = ''replica''"
definition ReplicaPlural :: string where "ReplicaPlural = ''replicas''"
definition ReplicaList :: string where "ReplicaList = ''ReplicaList''"
definition ReplicaFullName :: string where "ReplicaFullName = ReplicaPlural @ ''.'' @ LonghornGroup"
definition SettingKind :: string where "SettingKind = ''Setting''"
definition Setting :: string where "Setting = ''setting''"
definition SettingPlural :: string where "SettingPlural = ''settings''"
definition SettingList :: string where "SettingList = ''SettingList''"
definition SettingFullName :: string where "SettingFullName = SettingPlural @ ''.'' @ LonghornGroup"
definition VolumeKind :: string where "VolumeKind = ''Volume''"
definition Volume :: string where "Volume = ''volume''"
definition VolumePlural :: string where "VolumePlural = ''volumes''"
definition VolumeList :: string where "VolumeList = ''VolumeList''"
definition VolumeFullName :: string where "VolumeFullName = VolumePlural @ ''.'' @ LonghornGroup"
definition EngineImageKind :: string where "EngineImageKind = ''EngineImage''"
definition EngineImage :: string where "EngineImage = ''engineimage''"
definition EngineImagePlural :: string where "EngineImagePlural = ''engineimages''"
definition EngineImageList :: string where "EngineImageList = ''EngineImageList''"
definition EngineImageFullName :: string where "EngineImageFullName = EngineImagePlural @ ''.'' @ LonghornGroup"

definition longhorn_engine_image_crd :: crd where
  "longhorn_engine_image_crd = zero_crd\<lparr>
     crd_meta := zero_meta\<lparr>om_Name := EngineImageFullName, om_Labels := [(LonghornLabel, ''EngineImage'')]\<rparr>,
     crd_Group := LonghornGroup, crd_Version := LonghornVersion,
     crd_Scope := ''Namespaced'', crd_Plural := EngineImagePlural,
     crd_Singular := EngineImage, crd_Kind := EngineImageKind,
     crd_ListKind := EngineImageList\<rparr>"

definition LonghornEngineImageCRDDeploy where "LonghornEngineImageCRDDeploy srv = crd_deploy srv longhorn_engine_image_crd"

definition longhorn_volume_crd :: crd where
  "longhorn_volume_crd = zero_crd\<lparr>
     crd_meta := zero_meta\<lparr>om_Name := VolumeFullName, om_Labels := [(LonghornLabel, ''Volume'')]\<rparr>,
     crd_Group := LonghornGroup, crd_Version := LonghornVersion,
     crd_Scope := ''Namespaced'', crd_Plural := VolumePlural, crd_Singular := Volume,
     crd_Kind := VolumeKind, crd_ListKind := VolumeList\<rparr>"

definition LonghornVolumeCRDDeploy where "LonghornVolumeCRDDeploy srv = crd_deploy srv longhorn_volume_crd"

definition longhorn_setting_crd :: crd where
  "longhorn_setting_crd = zero_crd\<lparr>
     crd_meta := zero_meta\<lparr>om_Name := SettingFullName, om_Labels := [(LonghornLabel, ''Setting'')]\<rparr>,
     crd_Group := LonghornGroup, crd_Version := LonghornVersion,
     crd_Scope := ''Namespaced'', crd_Plural := SettingPlural, crd_Singular := Setting,
     crd_Kind := SettingKind, crd_ListKind := SettingList\<rparr>"

definition LonghornSettingCRDDeploy where "LonghornSettingCRDDeploy srv = crd_deploy srv longhorn_setting_crd"

definition longhorn_replica_crd :: crd where
  "longhorn_replica_crd = zero_crd\<lparr>
     crd_meta := zero_meta\<lparr>om_Name := ReplicaFullName, om_Labels := [(LonghornLabel, ''Replica'')]\<rparr>,
     crd_Group := LonghornGroup, crd_Version := LonghornVersion,
     crd_Scope := ''Namespaced'', crd_Plural := ReplicaPlural, crd_Singular := Replica,
     crd_Kind := ReplicaKind, crd_ListKind := ReplicaList\<rparr>"

definition LonghornReplicaCRDDeploy where "LonghornReplicaCRDDeploy srv = crd_deploy srv longhorn_replica_crd"

definition longhorn_engine_crd :: crd where
  "longhorn_engine_crd = zero_crd\<lparr>
     crd_meta := zero_meta\<lparr>om_Name := EngineFullName, om_Labels := [(LonghornLabel, ''Engine'')]\<rparr>,
     crd_Group := LonghornGroup, crd_Version := LonghornVersion,
     crd_Scope := ''Namespaced'', crd_Plural := EnginePlural, crd_Singular := Engine,
     crd_Kind := EngineKind, crd_ListKind := EngineList\<rparr>"

definition LonghornEngineCRDDeploy where "LonghornEngineCRDDeploy srv = crd_deploy srv longhorn_engine_crd"

section \<open>RancherVM\<close>

definition RancherVMGroup :: string where "RancherVMGroup = ''vm.rancher.com''"
definition RancherVMVersion :: string where "RancherVMVersion = ''v1alpha1''"
definition RancherVMLabel :: string where "RancherVMLabel = ''ranchervm-system''"
definition VirtualMachineKind :: string where "VirtualMachineKind = ''VirtualMachine''"
definition VirtualMachine :: string where "VirtualMachine = ''virtualmachine''"
definition VirtualMachinePlural :: string where "VirtualMachinePlural = ''virtualmachines''"
definition VirtualMachineList :: string where "VirtualMachineList = ''VirtualMachineList''"
definition VirtualMachineFullName :: string where "VirtualMachineFullName = VirtualMachinePlural @ ''.'' @ RancherVMGroup"
definition ArptableKind :: string where "ArptableKind = ''ARPTable''"
definition Arptable :: string where "Arptable = ''arptable''"
definition ArptablePlural :: string where "ArptablePlural = ''arptables''"
definition ArptableList :: string where "ArptableList = ''ARPTableList''"
definition ArptableFullName :: string where "ArptableFullName = ArptablePlural @ ''.'' @ RancherVMGroup"
definition CredentialKind :: string where "CredentialKind = ''Credential''"
definition Credential :: string where "Credential = ''credential''"
definition CredentialPlural :: string where "CredentialPlural = ''credentials''"
definition CredentialList :: string where "CredentialList = ''CredentialList''"
definition CredentialFullName :: string where "CredentialFullName = CredentialPlural @ ''.'' @ RancherVMGroup"

definition credential_crd :: crd where
  "credential_crd = zero_crd\<lparr>
     crd_meta := zero_meta\<lparr>om_Name := CredentialFullName, om_Labels := [(RancherVMLabel, ''Credential'')]\<rparr>,
     crd_Group := RancherVMGroup, crd_Version := RancherVMVersion,
     crd_Scope := ''Cluster'', crd_Plural := CredentialPlural, crd_Singular := Credential,
     crd_ShortNames := [''cred'', ''creds''], crd_Kind := CredentialKind,
     crd_ListKind := CredentialList\<rparr>"

definition CredentialCRDDeploy where "CredentialCRDDeploy srv = crd_deploy srv credential_crd"

definition arptable_crd :: crd where
  "arptable_crd = zero_crd\<lparr>
     crd_meta := zero_meta\<lparr>om_Name := ArptableFullName, om_Labels := [(RancherVMLabel, ''ARPTable'')]\<rparr>,
     crd_Group := RancherVMGroup, crd_Version := RancherVMVersion,
     crd_Scope := ''Cluster'', crd_Plural := ArptablePlural, crd_Singular := Arptable,
     crd_ShortNames := [''arp'', ''arps''], crd_Kind := ArptableKind,
     crd_ListKind := ArptableList\<rparr>"

definition ArptableCRDDeploy where "ArptableCRDDeploy srv = crd_deploy srv arptable_crd"

definition virtual_machine_crd :: crd where
  "virtual_machine_crd = zero_crd\<lparr>
     crd_meta := zero_meta\<lparr>om_Name := VirtualMachineFullName, om_Labels := [(RancherVMLabel, ''VirtualMachine'')]\<rparr>,
     crd_Group := RancherVMGroup, crd_Version := RancherVMVersion,
     crd_Scope := ''Cluster'', crd_Plural := VirtualMachinePlural,
     crd_Singular := VirtualMachine, crd_ShortNames := [''vm'', ''vms''],
     crd_Kind := VirtualMachineKind, crd_ListKind := VirtualMachineList\<rparr>"

definition VirtualMachineCRDDeploy where "VirtualMachineCRDDeploy srv = crd_deploy srv virtual_machine_crd"

lemmas crd_constants =
  LonghornGroup_def LonghornVersion_def LonghornLabel_def EngineKind_def Engine_def EnginePlural_def EngineList_def EngineFullName_def ReplicaKind_def Replica_def ReplicaPlural_def ReplicaList_def ReplicaFullName_def SettingKind_def Setting_def SettingPlural_def SettingList_def SettingFullName_def VolumeKind_def Volume_def VolumePlural_def VolumeList_def VolumeFullName_def EngineImageKind_def EngineImage_def EngineImagePlural_def EngineImageList_def EngineImageFullName_def RancherVMGroup_def RancherVMVersion_def RancherVMLabel_def VirtualMachineKind_def VirtualMachine_def VirtualMachinePlural_def VirtualMachineList_def VirtualMachineFullName_def ArptableKind_def Arptable_def ArptablePlural_def ArptableList_def ArptableFullName_def CredentialKind_def Credential_def CredentialPlural_def CredentialList_def CredentialFullName_def

section \<open>Deployment\<close>

lemmas crd_defs = infrastructure_crd_def principal_crd_def token_crd_def user_crd_def
  longhorn_engine_image_crd_def longhorn_volume_crd_def longhorn_setting_crd_def
  longhorn_replica_crd_def longhorn_engine_crd_def credential_crd_def arptable_crd_def
  virtual_machine_crd_def

lemmas crd_deploy_defs = InfrastructureCRDDeploy_def PrincipalCRDDeploy_def TokenCRDDeploy_def
  LonghornEngineImageCRDDeploy_def LonghornVolumeCRDDeploy_def LonghornSettingCRDDeploy_def
  LonghornReplicaCRDDeploy_def LonghornEngineCRDDeploy_def CredentialCRDDeploy_def
  ArptableCRDDeploy_def VirtualMachineCRDDeploy_def

definition cube_crds :: "crd list" where
  "cube_crds = [user_crd, principal_crd, token_crd, infrastructure_crd]"

definition longhorn_crds :: "crd list" where
  "longhorn_crds = [longhorn_engine_crd, longhorn_replica_crd, longhorn_setting_crd,
     longhorn_volume_crd, longhorn_engine_image_crd]"

definition ranchervm_crds :: "crd list" where
  "ranchervm_crds = [credential_crd, arptable_crd, virtual_machine_crd]"

text \<open>The order of \<open>startAPIServer\<close>.\<close>

definition all_crds :: "crd list" where
  "all_crds = cube_crds @ longhorn_crds @ ranchervm_crds"

text \<open>What the API server demands of a definition: its name is the plural, a dot and the group.\<close>

definition crd_ok :: "crd \<Rightarrow> bool" where
  "crd_ok c \<longleftrightarrow>
     om_Name (crd_meta c) = crd_Plural c @ ''.'' @ crd_Group c \<and> om_Namespace (crd_meta c) = []
     \<and> crd_Plural c \<noteq> [] \<and> crd_Group c \<noteq> [] \<and> crd_Version c \<noteq> [] \<and> crd_Kind c \<noteq> []
     \<and> crd_Scope c \<in> {''Namespaced'', ''Cluster''}"

text \<open>
  Every custom resource definition is acceptable: its name is made of its plural and its group,
  it has a version, a kind and a scope, and no two definitions have the same name or the same group
  and kind.
\<close>

theorem crds_consistent:
  "list_all crd_ok all_crds \<and> distinct (map (\<lambda>c. om_Name (crd_meta c)) all_crds)
   \<and> distinct (map (\<lambda>c. (crd_Group c, crd_Kind c)) all_crds)"
  by (simp add: all_crds_def cube_crds_def longhorn_crds_def ranchervm_crds_def crd_ok_def crd_defs
      crd_constants zero_crd_def)

lemma crd_ok_named: "crd_ok c \<Longrightarrow> well_named RCustomResourceDefinitions [] (ObjCRD c)"
  by (simp add: crd_ok_def well_named_def)

context api_store
begin

lemma crd_deploy_ok:
  assumes "inv w" "crd_ok c" "crd_deploy srv c w = (err, w')"
  shows "frame {(RCustomResourceDefinitions, [], om_Name (crd_meta c))} w w'"
    and "stored w r m n = Some y \<Longrightarrow> stored w' r m n = Some y"
    and "err = None \<Longrightarrow> stored w' RCustomResourceDefinitions [] (om_Name (crd_meta c)) \<noteq> None"
proof -
  let ?x = "ObjCRD c"
  have wn: "well_named (obj_resource ?x) [] ?x" using crd_ok_named [OF assms(2)] by simp
  obtain e where c: "create_err srv [] ?x w = (e, w')" and e: "err = (if e = None \<or> IsAlreadyExists e then None else e)"
    using assms(3) by (auto simp: crd_deploy_def split: prod.splits)
  show "frame {(RCustomResourceDefinitions, [], om_Name (crd_meta c))} w w'"
    by (rule create_err_frame [OF assms(1) wn _ c]) simp
  show "stored w r m n = Some y \<Longrightarrow> stored w' r m n = Some y"
    by (rule create_err_keeps(2) [OF assms(1) wn c])
  show "err = None \<Longrightarrow> stored w' RCustomResourceDefinitions [] (om_Name (crd_meta c)) \<noteq> None"
    using create_err_present [OF assms(1) wn c] e by (auto split: if_splits)
qed

end

text \<open>On the tracker a deployment always succeeds.\<close>

lemma crd_deploy_tracker:
  assumes "tracker_ok w" "crd_ok c"
  obtains w' where "crd_deploy ObjectReaction c w = (None, w')" "tracker_ok w'"
    "tracker_stored w' RCustomResourceDefinitions [] (om_Name (crd_meta c)) \<noteq> None"
    "same_outside {(RCustomResourceDefinitions, [], om_Name (crd_meta c))} (tracker_stored w) (tracker_stored w')"
    "\<forall>r m n y. tracker_stored w r m n = Some y \<longrightarrow> tracker_stored w' r m n = Some y"
proof -
  let ?x = "ObjCRD c"
  obtain err w' where r: "crd_deploy ObjectReaction c w = (err, w')" by (cases "crd_deploy ObjectReaction c w")
  have wn: "well_named RCustomResourceDefinitions [] ?x" by (rule crd_ok_named [OF assms(2)])
  have "err = None"
  proof (cases "tracker_stored w RCustomResourceDefinitions [] (om_Name (crd_meta c))")
    case None
    then obtain w1 where "client_create ObjectReaction RCustomResourceDefinitions [] ?x w =
        (Inr (propagate_namespace [] ?x), w1)"
      using client_create_tracker [OF assms(1) wn] by auto
    with r show ?thesis by (auto simp: crd_deploy_def create_err_def)
  next
    case (Some y)
    then have "client_create ObjectReaction RCustomResourceDefinitions [] ?x w =
        (Inl (StatusError StatusReasonAlreadyExists (om_Name (crd_meta c))), w)"
      using client_create_tracker_exists [OF assms(1) wn] by simp
    with r show ?thesis by (auto simp: crd_deploy_def create_err_def go_err)
  qed
  note ok = tr.crd_deploy_ok [OF assms r]
  show thesis
    by (rule that [of w'])
      (use r \<open>err = None\<close> ok in \<open>simp_all add: tr.frame_def\<close>)
qed

lemma crd_create_tracker:
  assumes "tracker_ok w" "crd_ok c"
  shows "tracker_stored w RCustomResourceDefinitions [] (om_Name (crd_meta c)) \<noteq> None \<Longrightarrow>
      create_err ObjectReaction [] (ObjCRD c) w =
        (Some (StatusError StatusReasonAlreadyExists (om_Name (crd_meta c))), w)"
    and "tracker_stored w RCustomResourceDefinitions [] (om_Name (crd_meta c)) \<noteq> None \<Longrightarrow>
      crd_deploy ObjectReaction c w = (None, w)"
proof -
  assume "tracker_stored w RCustomResourceDefinitions [] (om_Name (crd_meta c)) \<noteq> None"
  then have "client_create ObjectReaction RCustomResourceDefinitions [] (ObjCRD c) w =
      (Inl (StatusError StatusReasonAlreadyExists (om_Name (crd_meta c))), w)"
    using client_create_tracker_exists [OF assms(1) crd_ok_named [OF assms(2)]] by simp
  then show "create_err ObjectReaction [] (ObjCRD c) w =
        (Some (StatusError StatusReasonAlreadyExists (om_Name (crd_meta c))), w)"
    "crd_deploy ObjectReaction c w = (None, w)"
    by (simp_all add: crd_deploy_def create_err_def go_err)
qed

end
