(* ===== verification/Cube_Backend.thy ===== *)
theory Cube_Backend
  imports Cube_User_Controller Cube_CRDs Cube_Base32 Cube_Util
begin

text \<open>
  \<open>backend/user.go\<close>: the registration of the user resources, the first administrator, and the
  lookups of users, principals and tokens that logging in and authenticating go through.

  The generator of clients (\<open>backend/client.go\<close>) is a singleton: its informers and the state of the
  cluster are one record, which every operation hands on.  The lookups try to register their index
  functions before each search; on a running informer this is refused and the error dropped.
\<close>

record informer =
  inf_started :: bool
  inf_indexer :: "k8s_obj thread_safe_map"

definition informer_AddIndexers :: "k8s_obj indexers \<Rightarrow> informer \<Rightarrow> go_error option \<times> informer" where
  "informer_AddIndexers ixs ifm =
     (if inf_started ifm then (Some (Errorf ''informer has already started'' []), ifm)
      else case tsm_AddIndexers ixs (inf_indexer ifm) of
        (err, c) \<Rightarrow> (err, ifm\<lparr>inf_indexer := c\<rparr>))"

record 'w backend =
  be_users :: informer
  be_principals :: informer
  be_tokens :: informer
  be_world :: 'w

section \<open>Cache lookups\<close>

text \<open>
  What the three lookups share: they return a pointer, here an option, to a zero object with every
  error, and to a zero object when nothing is found.
\<close>

definition check_cache ::
    "(k8s_obj \<Rightarrow> 'a option) \<Rightarrow> 'a \<Rightarrow> go_error \<Rightarrow> string \<Rightarrow> string \<Rightarrow> informer
       \<Rightarrow> ('a option \<times> go_error option) outcome" where
  "check_cache sel zero not_unique index key ifm =
     (case tsm_ByIndex index key (inf_indexer ifm) of
        Inl err \<Rightarrow> Return (Some zero, Some err)
      | Inr objs \<Rightarrow>
          if 1 < length objs then Return (Some zero, Some not_unique)
          else if length objs = 1 then
            bind_outcome (type_assert sel (objs ! 0)) (\<lambda>x. Return (Some x, None))
          else Return (Some zero, None))"

definition CheckUserCache ::
    "string \<Rightarrow> 'w backend \<Rightarrow> ((user option \<times> go_error option) \<times> 'w backend) outcome" where
  "CheckUserCache principalName b =
     (let users = snd (informer_AddIndexers
            [(UserByUsernameIndex, UserByUsername), (UserSearchIndex, UserSearchIndexer),
             (UserByPrincipalIndex, UserByPrincipal)] (be_users b))
      in bind_outcome
           (check_cache as_user zero_user
             (Errorf ''RancherCUBE: can't find unique user for principal %v'' [principalName])
             UserByPrincipalIndex principalName users)
           (\<lambda>r. Return (r, b\<lparr>be_users := users\<rparr>)))"

definition CheckPrincipalCache ::
    "string \<Rightarrow> 'w backend \<Rightarrow> ((principal option \<times> go_error option) \<times> 'w backend) outcome" where
  "CheckPrincipalCache principalName b =
     (let principals = snd (informer_AddIndexers [(PrincipalByIDIndex, PrincipalByID)] (be_principals b))
      in bind_outcome
           (check_cache as_principal zero_principal
             (Errorf ''RancherCUBE: can't find unique principal %v'' [principalName])
             PrincipalByIDIndex principalName principals)
           (\<lambda>r. Return (r, b\<lparr>be_principals := principals\<rparr>)))"

definition CheckTokenCache ::
    "string \<Rightarrow> 'w backend \<Rightarrow> ((token option \<times> go_error option) \<times> 'w backend) outcome" where
  "CheckTokenCache key b =
     (let tokens = snd (informer_AddIndexers [(TokenByKeyIndex, TokenByKey)] (be_tokens b))
      in bind_outcome
           (check_cache as_token zero_token (Errorf ''RancherCUBE: can't find unique token key'' [])
             TokenByKeyIndex key tokens)
           (\<lambda>r. Return (r, b\<lparr>be_tokens := tokens\<rparr>)))"

section \<open>Finding or making a user\<close>

text \<open>
  The loop over the listed users: \<open>match\<close> is the address of the loop variable \<open>u\<close>, which every
  later iteration overwrites, so that the user it finally points to is the last of the list.
\<close>

fun match_users :: "string \<Rightarrow> user list \<Rightarrow> bool \<Rightarrow> user \<Rightarrow> go_error + user option" where
  "match_users principalName [] matched u = Inr (if matched then Some u else None)"
| "match_users principalName (v # vs) matched u =
     (if ContainsString (u_PrincipalIDs v) principalName then
        (if matched
           then Inl (Errorf ''RancherCUBE: can't find unique user for principal %v'' [principalName])
           else match_users principalName vs True v)
      else match_users principalName vs matched v)"

definition checkLabels ::
    "'w api_server \<Rightarrow> string \<Rightarrow> 'w backend
       \<Rightarrow> (user option \<times> string_map option \<times> go_error option) \<times> 'w backend" where
  "checkLabels srv principalName b =
     (let label_set = [(principal_label principalName, ''hashed-principal-name'')] in
      case Users_List srv [] label_set (be_world b) of
        ((users, err), w1) \<Rightarrow>
          (if err \<noteq> None then (None, None, err)
           else if length users = 0 then (None, Some label_set, None)
           else (case match_users principalName users False zero_user of
              Inl e \<Rightarrow> (None, None, Some e)
            | Inr m \<Rightarrow> (m, Some label_set, None)),
           b\<lparr>be_world := w1\<rparr>))"

definition EnsureUser ::
    "'w api_server \<Rightarrow> string \<Rightarrow> string \<Rightarrow> 'w backend
       \<Rightarrow> ((user option \<times> go_error option) \<times> 'w backend) outcome" where
  "EnsureUser srv principalName displayName b =
     bind_outcome (CheckUserCache principalName b) (\<lambda>((u, err), b1).
       if err \<noteq> None then Return ((None, err), b1)
       else if u \<noteq> None then Return ((u, None), b1)
       else (case checkLabels srv principalName b1 of
          ((u1, labelSet, err1), b2) \<Rightarrow>
            if err1 \<noteq> None then Return ((None, err1), b2)
            else if u1 \<noteq> None then Return ((u1, None), b2)
            else
              (let user = zero_user\<lparr>
                   u_meta := zero_meta\<lparr>om_GenerateName := ''cube-'',
                     om_Labels := (case labelSet of None \<Rightarrow> [] | Some s \<Rightarrow> s)\<rparr>,
                   u_DisplayName := displayName, u_PrincipalIDs := [principalName]\<rparr>
               in case Users_Create srv ''kube-system'' user (be_world b2) of
                    ((created, err2), w3) \<Rightarrow>
                      if err2 \<noteq> None then Return ((None, err2), b2\<lparr>be_world := w3\<rparr>)
                      else Return ((Some created, None), b2\<lparr>be_world := w3\<rparr>))))"

section \<open>Stored tokens\<close>

text \<open>
  The answer carries an HTTP status; the address of the token is \<open>None\<close> with every error.  \<open>seconds\<close>
  and \<open>now\<close> are those of \<open>IsExpired\<close>.
\<close>

definition GetStoredToken ::
    "'w api_server \<Rightarrow> (int \<Rightarrow> real) \<Rightarrow> int \<Rightarrow> string \<Rightarrow> 'w backend
       \<Rightarrow> ((token option \<times> nat \<times> go_error option) \<times> 'w backend) outcome" where
  "GetStoredToken srv seconds now tokenAuthValue b =
     (case SplitTokenParts tokenAuthValue of (tokenName, tokenKey) \<Rightarrow>
        if tokenName = [] \<or> tokenKey = []
          then Return ((None, 404, Some (Errorf ''RancherCUBE: faild to split token'' [])), b)
        else
          bind_outcome (CheckTokenCache tokenKey b) (\<lambda>((storedToken, err), b1).
            if err \<noteq> None \<and> \<not> IsNotFound err
              then Return ((None, 404, Some (Errorf ''RancherCUBE: couldn't found stored token'' [])), b1)
            else
              (let useTokenClient = (err \<noteq> None);
                   ((storedToken1, err1), b2) =
                     (if useTokenClient then
                        (case Tokens_Get srv [] tokenName (be_world b1) of
                           ((t, e), w) \<Rightarrow> ((Some t, e), b1\<lparr>be_world := w\<rparr>))
                      else ((storedToken, None), b1))
               in if err1 \<noteq> None
                    then Return ((None, 404, Some (Errorf ''RancherCUBE: couldn't found stored token'' [])), b2)
                  else (case storedToken1 of
                     None \<Rightarrow> nil_deref
                   | Some t \<Rightarrow>
                       if t_Token t \<noteq> tokenKey \<or> om_Name (t_meta t) \<noteq> tokenName
                         then Return ((None, 401,
                           Some (Errorf ''RancherCUBE: stored token not match request token'' [])), b2)
                       else if IsExpired seconds now t
                         then Return ((None, 410, Some (Errorf ''RancherCUBE: stored token is expired'' [])), b2)
                       else Return ((Some t, 0, None), b2)))))"

section \<open>Start\<close>

definition cube_admin :: "string \<Rightarrow> user" where
  "cube_admin hashPassword = zero_user\<lparr>
     u_meta := zero_meta\<lparr>om_GenerateName := ''cube-'', om_Name := ''cube-admin'',
       om_Namespace := ''kube-system'',
       om_Labels := [(principal_label ''cube-admin'', ''hashed-principal-name'')]\<rparr>,
     u_DisplayName := ''admin'', u_Description := ''CUBE admin user, has the highest authority'',
     u_Username := ''admin'', u_Password := hashPassword, u_MustChangePassword := False,
     u_PrincipalIDs := [''local.kube-system.cube-admin''], u_Me := False\<rparr>"

text \<open>\<open>bcrypt\<close> is the password hash; a failing hash ends the program (\<open>logrus.Fatal\<close>).\<close>

definition InitCubeAdmin ::
    "'w api_server \<Rightarrow> (string \<Rightarrow> go_error + string) \<Rightarrow> 'w \<Rightarrow> (go_error option \<times> 'w) outcome" where
  "InitCubeAdmin srv bcrypt w =
     (case HashPasswordString bcrypt ''admin'' of
        Inl _ \<Rightarrow> Panic ''exit status 1''
      | Inr hashPassword \<Rightarrow>
          (case Users_Get srv ''kube-system'' ''cube-admin'' w of
             ((_, err), w1) \<Rightarrow>
               if err \<noteq> None then
                 (let cubeAdmin = cube_admin hashPassword;
                      ((_, err1), w2) =
                        (if \<not> IsAlreadyExists err
                           then Users_Create srv ''kube-system'' cubeAdmin w1
                           else Users_Update srv ''kube-system'' cubeAdmin w1)
                  in if err1 = None \<or> IsAlreadyExists err1 then Return (err1, w2)
                     else Return (None, w2))
               else Return (None, w1)))"

definition UserCRDDeploy ::
    "'w api_server \<Rightarrow> (string \<Rightarrow> go_error + string) \<Rightarrow> 'w \<Rightarrow> (go_error option \<times> 'w) outcome" where
  "UserCRDDeploy srv bcrypt w =
     (case create_err srv [] (ObjCRD user_crd) w of
        (err, w1) \<Rightarrow>
          if err \<noteq> None \<and> \<not> IsAlreadyExists err then Return (err, w1)
          else (case PrincipalCRDDeploy srv w1 of
             (err2, w2) \<Rightarrow>
               if err2 \<noteq> None \<and> \<not> IsAlreadyExists err2 then Return (err2, w2)
               else (case TokenCRDDeploy srv w2 of
                  (err3, w3) \<Rightarrow>
                    if err3 \<noteq> None \<and> \<not> IsAlreadyExists err3 then Return (err3, w3)
                    else InitCubeAdmin srv bcrypt w3)))"

section \<open>The lookups on a running server\<close>

definition backend_ok :: "'w backend \<Rightarrow> bool" where
  "backend_ok b \<longleftrightarrow>
     inf_started (be_users b) \<and> inf_started (be_principals b) \<and> inf_started (be_tokens b)
     \<and> cache_ok userIndexers (inf_indexer (be_users b))
     \<and> cache_ok principalIndexers (inf_indexer (be_principals b))
     \<and> cache_ok tokenIndexers (inf_indexer (be_tokens b))"

lemma backend_ok_world [simp]: "backend_ok (b\<lparr>be_world := w\<rparr>) \<longleftrightarrow> backend_ok b"
  by (simp add: backend_ok_def)

lemma AddIndexers_started [simp]:
  "inf_started ifm \<Longrightarrow> informer_AddIndexers ixs ifm = (Some (Errorf ''informer has already started'' []), ifm)"
  by (simp add: informer_AddIndexers_def)

text \<open>The keys under which an informer holds objects that an index function gives the value \<open>v\<close>.\<close>

definition hits :: "informer \<Rightarrow> k8s_obj index_func \<Rightarrow> string \<Rightarrow> string set" where
  "hits ifm f v = {k. \<exists>x. map_of (ts_items (inf_indexer ifm)) k = Some x \<and> v \<in> set (fst (f x))}"

definition held :: "informer \<Rightarrow> string \<Rightarrow> k8s_obj \<Rightarrow> bool" where
  "held ifm k x \<longleftrightarrow> map_of (ts_items (inf_indexer ifm)) k = Some x"

lemma held_unique: "held ifm k (ObjUser u) \<Longrightarrow> held ifm k (ObjUser v) \<Longrightarrow> Some u = Some v"
  by (simp add: held_def)

lemma check_cache_cases:
  assumes "tsm_ok (inf_indexer ifm)" "map_of (ts_indexers (inf_indexer ifm)) index = Some f"
    and "\<forall>x. v \<in> set (fst (f x)) \<longrightarrow> sel x \<noteq> None"
  obtains (none) "hits ifm f v = {}" "check_cache sel zero e index v ifm = Return (Some zero, None)"
    | (one) k x y where "hits ifm f v = {k}" "held ifm k x" "v \<in> set (fst (f x))" "sel x = Some y"
      "check_cache sel zero e index v ifm = Return (Some y, None)"
    | (many) k k' where "k \<in> hits ifm f v" "k' \<in> hits ifm f v" "k \<noteq> k'"
      "check_cache sel zero e index v ifm = Return (Some zero, Some e)"
proof (cases rule: tsm.by_index_cases [OF assms(1,2), of v])
  case 1
  have "hits ifm f v = {}" unfolding hits_def using 1(2) by blast
  with 1(1) show thesis by (intro none) (simp_all add: check_cache_def)
next
  case (2 k x)
  then obtain y where y: "sel x = Some y" using assms(3) by blast
  have "hits ifm f v = {k}" unfolding hits_def using 2(2-4) by blast
  with 2(1-3) y show thesis
    by (intro one [of k x y]) (simp_all add: held_def check_cache_def type_assert_def)
next
  case (3 objs k x k' x')
  then have "k \<in> hits ifm f v" "k' \<in> hits ifm f v" unfolding hits_def by blast+
  with 3(1-3) show thesis by (intro many [of k k']) (simp_all add: check_cache_def)
qed

lemma sel_index_hits:
  "\<forall>x. v \<in> set (fst (UserByPrincipal x)) \<longrightarrow> as_user x \<noteq> None"
  "\<forall>x. v \<in> set (fst (PrincipalByID x)) \<longrightarrow> as_principal x \<noteq> None"
  "\<forall>x. v \<in> set (fst (TokenByKey x)) \<longrightarrow> as_token x \<noteq> None"
  "\<forall>x. v \<in> set (fst (UserByUsername x)) \<longrightarrow> as_user x \<noteq> None"
  by (simp_all add: UserByPrincipal_def PrincipalByID_def TokenByKey_def UserByUsername_def split: option.splits)

lemma as_obj_Some:
  "as_user x = Some u \<longleftrightarrow> x = ObjUser u" "as_principal x = Some p \<longleftrightarrow> x = ObjPrincipal p"
  "as_token x = Some t \<longleftrightarrow> x = ObjToken t"
  by (cases x; simp)+

lemma index_fun_hits:
  "v \<in> set (fst (UserByPrincipal (ObjUser u))) \<longleftrightarrow> v \<in> set (u_PrincipalIDs u)"
  "v \<in> set (fst (PrincipalByID (ObjPrincipal p))) \<longleftrightarrow> om_Name (p_meta p) = v"
  "v \<in> set (fst (TokenByKey (ObjToken t))) \<longleftrightarrow> t_Token t = v"
  "v \<in> set (fst (UserByUsername (ObjUser u))) \<longleftrightarrow> u_Username u = v"
  by (auto simp: UserByPrincipal_def PrincipalByID_def TokenByKey_def UserByUsername_def)

lemma lookup_running:
  assumes "backend_ok b"
  shows "CheckUserCache i b = bind_outcome (check_cache as_user zero_user
        (Errorf ''RancherCUBE: can't find unique user for principal %v'' [i]) UserByPrincipalIndex i (be_users b))
        (\<lambda>r. Return (r, b))"
    "CheckPrincipalCache i b = bind_outcome (check_cache as_principal zero_principal
        (Errorf ''RancherCUBE: can't find unique principal %v'' [i]) PrincipalByIDIndex i (be_principals b))
        (\<lambda>r. Return (r, b))"
    "CheckTokenCache i b = bind_outcome (check_cache as_token zero_token
        (Errorf ''RancherCUBE: can't find unique token key'' []) TokenByKeyIndex i (be_tokens b))
        (\<lambda>r. Return (r, b))"
  using assms
  by (simp_all add: CheckUserCache_def CheckPrincipalCache_def CheckTokenCache_def backend_ok_def)

lemma backend_index:
  assumes "backend_ok b"
  shows "tsm_ok (inf_indexer (be_users b))" "tsm_ok (inf_indexer (be_principals b))" "tsm_ok (inf_indexer (be_tokens b))"
    "map_of (ts_indexers (inf_indexer (be_users b))) UserByPrincipalIndex = Some UserByPrincipal"
    "map_of (ts_indexers (inf_indexer (be_users b))) UserByUsernameIndex = Some UserByUsername"
    "map_of (ts_indexers (inf_indexer (be_users b))) UserSearchIndex = Some UserSearchIndexer"
    "map_of (ts_indexers (inf_indexer (be_principals b))) PrincipalByIDIndex = Some PrincipalByID"
    "map_of (ts_indexers (inf_indexer (be_tokens b))) TokenByKeyIndex = Some TokenByKey"
  using assms by (auto simp: backend_ok_def intro: cache_ok_tsm index_of_caches)

text \<open>The three lookups: nothing, the one object, or an error.\<close>

lemma CheckUserCache_cases:
  assumes "backend_ok b"
  obtains (none) "hits (be_users b) UserByPrincipal i = {}" "CheckUserCache i b = Return ((Some zero_user, None), b)"
    | (one) k u where "hits (be_users b) UserByPrincipal i = {k}" "held (be_users b) k (ObjUser u)"
      "i \<in> set (u_PrincipalIDs u)" "CheckUserCache i b = Return ((Some u, None), b)"
    | (many) k k' e where "k \<in> hits (be_users b) UserByPrincipal i" "k' \<in> hits (be_users b) UserByPrincipal i"
      "k \<noteq> k'" "\<not> IsNotFound (Some e)" "CheckUserCache i b = Return ((Some zero_user, Some e), b)"
proof (rule check_cache_cases [OF backend_index(1,4) [OF assms] sel_index_hits(1), where v = i and zero = zero_user
      and e = "Errorf ''RancherCUBE: can't find unique user for principal %v'' [i]"], goal_cases)
  case 1
  then show thesis by (intro none) (simp_all add: lookup_running [OF assms])
next
  case (2 k x u)
  then show thesis by (intro one [of k u]) (simp_all add: lookup_running [OF assms] as_obj_Some index_fun_hits)
next
  case (3 k k')
  then show thesis by (intro many [of k k']) (simp_all add: lookup_running [OF assms] go_err)
qed

lemma CheckPrincipalCache_cases:
  assumes "backend_ok b"
  obtains (none) "hits (be_principals b) PrincipalByID i = {}"
      "CheckPrincipalCache i b = Return ((Some zero_principal, None), b)"
    | (one) k p where "hits (be_principals b) PrincipalByID i = {k}" "held (be_principals b) k (ObjPrincipal p)"
      "om_Name (p_meta p) = i" "CheckPrincipalCache i b = Return ((Some p, None), b)"
    | (many) k k' e where "k \<in> hits (be_principals b) PrincipalByID i" "k' \<in> hits (be_principals b) PrincipalByID i"
      "k \<noteq> k'" "CheckPrincipalCache i b = Return ((Some zero_principal, Some e), b)"
proof (rule check_cache_cases [OF backend_index(2,7) [OF assms] sel_index_hits(2), where v = i and zero = zero_principal
      and e = "Errorf ''RancherCUBE: can't find unique principal %v'' [i]"], goal_cases)
  case 1
  then show thesis by (intro none) (simp_all add: lookup_running [OF assms])
next
  case (2 k x p)
  then show thesis by (intro one [of k p]) (simp_all add: lookup_running [OF assms] as_obj_Some index_fun_hits)
next
  case (3 k k')
  then show thesis by (intro many [of k k']) (simp_all add: lookup_running [OF assms])
qed

lemma CheckTokenCache_cases:
  assumes "backend_ok b"
  obtains (none) "hits (be_tokens b) TokenByKey i = {}" "CheckTokenCache i b = Return ((Some zero_token, None), b)"
    | (one) k t where "hits (be_tokens b) TokenByKey i = {k}" "held (be_tokens b) k (ObjToken t)"
      "t_Token t = i" "CheckTokenCache i b = Return ((Some t, None), b)"
    | (many) k k' e where "k \<in> hits (be_tokens b) TokenByKey i" "k' \<in> hits (be_tokens b) TokenByKey i"
      "k \<noteq> k'" "\<not> IsNotFound (Some e)" "CheckTokenCache i b = Return ((Some zero_token, Some e), b)"
proof (rule check_cache_cases [OF backend_index(3,8) [OF assms] sel_index_hits(3), where v = i and zero = zero_token
      and e = "Errorf ''RancherCUBE: can't find unique token key'' []"], goal_cases)
  case 1
  then show thesis by (intro none) (simp_all add: lookup_running [OF assms])
next
  case (2 k x t)
  then show thesis by (intro one [of k t]) (simp_all add: lookup_running [OF assms] as_obj_Some index_fun_hits)
next
  case (3 k k')
  then show thesis by (intro many [of k k']) (simp_all add: lookup_running [OF assms] go_err)
qed

section \<open>Stored tokens\<close>

text \<open>What a presented token text is good for.\<close>

definition grants ::
    "(int \<Rightarrow> real) \<Rightarrow> int \<Rightarrow> informer \<Rightarrow> string \<Rightarrow> token \<Rightarrow> bool" where
  "grants seconds now tokens s t \<longleftrightarrow>
     s = om_Name (t_meta t) @ CHR '':'' # t_Token t
     \<and> om_Name (t_meta t) \<noteq> [] \<and> t_Token t \<noteq> []
     \<and> CHR '':'' \<notin> set (om_Name (t_meta t)) \<and> CHR '':'' \<notin> set (t_Token t)
     \<and> (\<exists>k. held tokens k (ObjToken t) \<and> hits tokens TokenByKey (t_Token t) = {k})
     \<and> \<not> IsExpired seconds now t"

lemma SplitTokenParts_both:
  assumes "SplitTokenParts s = (n, k)" "k \<noteq> []"
  shows "s = n @ CHR '':'' # k \<and> CHR '':'' \<notin> set n \<and> CHR '':'' \<notin> set k"
proof -
  have len: "length (split_on CHR '':'' s) = 2"
    using assms SplitTokenParts_other [of s] by (cases "length (split_on CHR '':'' s) = 2") auto
  then obtain a b where ab: "split_on CHR '':'' s = [a, b]"
    by (auto simp: numeral_2_eq_2 length_Suc_conv)
  with assms have "n = a" "k = b" by (simp_all add: SplitTokenParts_def)
  with ab join_split_on [of "CHR '':''" s] split_on_parts [of _ "CHR '':''" s] show ?thesis by auto
qed

lemma grants_split:
  assumes "grants seconds now tokens s t"
  shows "SplitTokenParts s = (om_Name (t_meta t), t_Token t)" "om_Name (t_meta t) \<noteq> []" "t_Token t \<noteq> []"
proof -
  have s: "s = om_Name (t_meta t) @ CHR '':'' # t_Token t" and
    c: "CHR '':'' \<notin> set (om_Name (t_meta t))" "CHR '':'' \<notin> set (t_Token t)"
    using assms by (simp_all add: grants_def)
  show "SplitTokenParts s = (om_Name (t_meta t), t_Token t)" unfolding s by (rule SplitTokenParts_join [OF c])
  show "om_Name (t_meta t) \<noteq> []" "t_Token t \<noteq> []" using assms by (simp_all add: grants_def)
qed

lemma GetStoredToken_found:
  assumes "backend_ok b" "SplitTokenParts s = (n, k)" "n \<noteq> []" "k \<noteq> []"
  obtains (none) "hits (be_tokens b) TokenByKey k = {}"
      "\<exists>e. GetStoredToken srv seconds now s b = Return ((None, 401, Some e), b)"
    | (one) i t where "hits (be_tokens b) TokenByKey k = {i}" "held (be_tokens b) i (ObjToken t)" "t_Token t = k"
      "\<exists>e. GetStoredToken srv seconds now s b =
        Return (if om_Name (t_meta t) \<noteq> n then (None, 401, Some e)
          else if IsExpired seconds now t then (None, 410, Some e) else (Some t, 0, None), b)"
    | (many) i j where "i \<in> hits (be_tokens b) TokenByKey k" "j \<in> hits (be_tokens b) TokenByKey k" "i \<noteq> j"
      "\<exists>e. GetStoredToken srv seconds now s b = Return ((None, 404, Some e), b)"
proof (rule CheckTokenCache_cases [OF assms(1), of k], goal_cases)
  case 1
  have "t_Token zero_token \<noteq> k" using assms(4) by (simp add: zero_token_def)
  with 1 assms show thesis by (intro none) (simp_all add: GetStoredToken_def)
next
  case (2 i t)
  have "\<exists>e. GetStoredToken srv seconds now s b =
        Return (if om_Name (t_meta t) \<noteq> n then (None, 401, Some e)
          else if IsExpired seconds now t then (None, 410, Some e) else (Some t, 0, None), b)"
    using 2 assms by (auto simp: GetStoredToken_def)
  then show thesis by (rule one [OF 2(4-6)])
next
  case (3 i j e)
  then have "\<exists>e. GetStoredToken srv seconds now s b = Return ((None, 404, Some e), b)"
    using assms by (simp add: GetStoredToken_def)
  then show thesis by (rule many [OF 3(4-6)])
qed

lemma GetStoredToken_granted:
  assumes "backend_ok b" "grants seconds now (be_tokens b) s t"
  shows "GetStoredToken srv seconds now s b = Return ((Some t, 0, None), b)"
  using assms(1) grants_split [OF assms(2)]
proof (cases rule: GetStoredToken_found [where srv = srv and seconds = seconds and now = now])
  case (one i t')
  obtain j where "held (be_tokens b) j (ObjToken t)" "hits (be_tokens b) TokenByKey (t_Token t) = {j}"
    using assms(2) unfolding grants_def by blast
  with one(1,2) have "t' = t" by (simp add: held_def)
  with one(4) assms(2) show ?thesis by (auto simp: grants_def)
next
  case none
  then show ?thesis using assms(2) unfolding grants_def by force
next
  case (many i j)
  then show ?thesis using assms(2) unfolding grants_def by force
qed

text \<open>
  A request is let in exactly when its token text is the name and the key, joined by a colon, of a
  cached token that is the only one with this key and has not expired; the lookup hands back this
  token with status 0 and changes nothing.
\<close>

theorem GetStoredToken_grants:
  assumes "backend_ok b"
  shows "GetStoredToken srv seconds now s b = Return ((Some t, code, err), b') \<longleftrightarrow>
    grants seconds now (be_tokens b) s t \<and> code = 0 \<and> err = None \<and> b' = b"
proof -
  obtain n k where nk: "SplitTokenParts s = (n, k)" by (cases "SplitTokenParts s")
  show ?thesis
  proof (cases "n = [] \<or> k = []")
    case True
    have "\<not> grants seconds now (be_tokens b) s t"
      using grants_split [of seconds now "be_tokens b" s t] nk True by auto
    with True nk show ?thesis by (auto simp: GetStoredToken_def)
  next
    case False
    then have ne: "n \<noteq> []" "k \<noteq> []" by simp_all
    note parts = SplitTokenParts_both [OF nk ne(2)]
    have gr: "grants seconds now (be_tokens b) s t \<longleftrightarrow> om_Name (t_meta t) = n \<and> t_Token t = k
        \<and> (\<exists>i. held (be_tokens b) i (ObjToken t) \<and> hits (be_tokens b) TokenByKey k = {i}) \<and> \<not> IsExpired seconds now t"
    proof
      assume g: "grants seconds now (be_tokens b) s t"
      with grants_split [OF g] nk show "om_Name (t_meta t) = n \<and> t_Token t = k
        \<and> (\<exists>i. held (be_tokens b) i (ObjToken t) \<and> hits (be_tokens b) TokenByKey k = {i}) \<and> \<not> IsExpired seconds now t"
        by (auto simp: grants_def)
    next
      assume "om_Name (t_meta t) = n \<and> t_Token t = k
        \<and> (\<exists>i. held (be_tokens b) i (ObjToken t) \<and> hits (be_tokens b) TokenByKey k = {i}) \<and> \<not> IsExpired seconds now t"
      with parts ne show "grants seconds now (be_tokens b) s t" unfolding grants_def by blast
    qed
    show ?thesis unfolding gr
      using assms nk ne
    proof (cases rule: GetStoredToken_found [where srv = srv and seconds = seconds and now = now])
      case (one i t')
      then obtain e where r: "GetStoredToken srv seconds now s b =
          Return (if om_Name (t_meta t') \<noteq> n then (None, 401, Some e)
            else if IsExpired seconds now t' then (None, 410, Some e) else (Some t', 0, None), b)" by blast
      have "held (be_tokens b) i (ObjToken t) \<longleftrightarrow> t = t'" using one(2) by (auto simp: held_def)
      then have rhs: "(\<exists>j. held (be_tokens b) j (ObjToken t) \<and> hits (be_tokens b) TokenByKey k = {j}) \<longleftrightarrow> t = t'"
        using one(1) by auto
      show "(GetStoredToken srv seconds now s b = Return ((Some t, code, err), b')) \<longleftrightarrow>
         (om_Name (t_meta t) = n \<and> t_Token t = k
          \<and> (\<exists>j. held (be_tokens b) j (ObjToken t) \<and> hits (be_tokens b) TokenByKey k = {j})
          \<and> \<not> IsExpired seconds now t) \<and> code = 0 \<and> err = None \<and> b' = b"
        unfolding r rhs using one(3) by (cases "om_Name (t_meta t') = n"; cases "IsExpired seconds now t'") auto
    next
      case none
      then have "(\<exists>j. held (be_tokens b) j (ObjToken t) \<and> hits (be_tokens b) TokenByKey k = {j}) \<longleftrightarrow> False" by simp
      moreover obtain e where "GetStoredToken srv seconds now s b = Return ((None, 401, Some e), b)"
        using none(2) by blast
      ultimately show "(GetStoredToken srv seconds now s b = Return ((Some t, code, err), b')) \<longleftrightarrow>
         (om_Name (t_meta t) = n \<and> t_Token t = k
          \<and> (\<exists>j. held (be_tokens b) j (ObjToken t) \<and> hits (be_tokens b) TokenByKey k = {j})
          \<and> \<not> IsExpired seconds now t) \<and> code = 0 \<and> err = None \<and> b' = b" by simp
    next
      case (many i1 i2)
      then have "(\<exists>j. held (be_tokens b) j (ObjToken t) \<and> hits (be_tokens b) TokenByKey k = {j}) \<longleftrightarrow> False" by force
      moreover obtain e where "GetStoredToken srv seconds now s b = Return ((None, 404, Some e), b)"
        using many(4) by blast
      ultimately show "(GetStoredToken srv seconds now s b = Return ((Some t, code, err), b')) \<longleftrightarrow>
         (om_Name (t_meta t) = n \<and> t_Token t = k
          \<and> (\<exists>j. held (be_tokens b) j (ObjToken t) \<and> hits (be_tokens b) TokenByKey k = {j})
          \<and> \<not> IsExpired seconds now t) \<and> code = 0 \<and> err = None \<and> b' = b" by simp
    qed
  qed
qed

text \<open>
  The lookup of a token always answers, and a refusal carries the status that says why: 404 for a
  text that is no token or a key that several tokens have, 401 for a key nobody has or under another
  name, 410 for an expired token.
\<close>

theorem GetStoredToken_refuses:
  assumes "backend_ok b"
  shows "\<exists>t code err. GetStoredToken srv seconds now s b = Return ((t, code, err), b)
    \<and> (t = None \<longleftrightarrow> err \<noteq> None) \<and> (t = None \<longleftrightarrow> code \<noteq> 0) \<and> code \<in> {0, 401, 404, 410}
    \<and> (case SplitTokenParts s of (n, k) \<Rightarrow>
         code = 404 \<longleftrightarrow> n = [] \<or> k = [] \<or> (\<exists>i j. i \<in> hits (be_tokens b) TokenByKey k
           \<and> j \<in> hits (be_tokens b) TokenByKey k \<and> i \<noteq> j))"
proof -
  obtain n k where nk: "SplitTokenParts s = (n, k)" by (cases "SplitTokenParts s")
  show ?thesis
  proof (cases "n = [] \<or> k = []")
    case True
    with nk show ?thesis by (auto simp: GetStoredToken_def)
  next
    case False
    then have ne: "n \<noteq> []" "k \<noteq> []" by simp_all
    from assms nk ne show ?thesis
    proof (cases rule: GetStoredToken_found [where srv = srv and seconds = seconds and now = now])
      case none
      with nk ne show ?thesis by auto
    next
      case (one i t)
      with nk ne show ?thesis by (cases "om_Name (t_meta t) = n"; cases "IsExpired seconds now t") auto
    next
      case (many i j)
      then obtain e where "GetStoredToken srv seconds now s b = Return ((None, 404, Some e), b)" by blast
      with nk many(1-3) show ?thesis by simp blast
    qed
  qed
qed

section \<open>Users of principals\<close>

text \<open>
  Making sure that a principal has a user never makes one: with the caches running it answers with
  the one cached user that has the principal id, with an error when there are several, and with a
  blank user, and no error, when there is none; no request is sent.
\<close>

theorem EnsureUser_cached_only:
  assumes "backend_ok b"
  shows "\<exists>u err. EnsureUser srv i name b = Return ((u, err), b)
    \<and> (\<forall>k v. held (be_users b) k (ObjUser v) \<and> hits (be_users b) UserByPrincipal i = {k} \<longrightarrow> u = Some v \<and> err = None)
    \<and> (hits (be_users b) UserByPrincipal i = {} \<longrightarrow> u = Some zero_user \<and> err = None)
    \<and> (err \<noteq> None \<longleftrightarrow> (\<exists>j k. j \<in> hits (be_users b) UserByPrincipal i \<and> k \<in> hits (be_users b) UserByPrincipal i \<and> j \<noteq> k))"
  using assms
proof (cases rule: CheckUserCache_cases [where i = i])
  case none
  then show ?thesis by (simp add: EnsureUser_def)
next
  case (one k u)
  then have "EnsureUser srv i name b = Return ((Some u, None), b)" by (simp add: EnsureUser_def)
  then show ?thesis
  proof (intro exI conjI)
    show "\<forall>l v. held (be_users b) l (ObjUser v) \<and> hits (be_users b) UserByPrincipal i = {l} \<longrightarrow>
      Some u = Some v \<and> (None :: go_error option) = None"
    proof (intro allI impI conjI)
      fix l v assume l: "held (be_users b) l (ObjUser v) \<and> hits (be_users b) UserByPrincipal i = {l}"
      with one(1) have "l = k" by simp
      with l have "held (be_users b) k (ObjUser v)" by blast
      with one(2) show "Some u = Some v" by (rule held_unique)
    qed simp
  qed (simp_all add: one(1))
next
  case (many j k e)
  then have "EnsureUser srv i name b = Return ((None, Some e), b)" by (simp add: EnsureUser_def)
  moreover have "hits (be_users b) UserByPrincipal i \<noteq> {}" using many(1) by blast
  moreover have "hits (be_users b) UserByPrincipal i \<noteq> {l}" for l
  proof
    assume "hits (be_users b) UserByPrincipal i = {l}"
    with many(1,2) have "j = l" "k = l" by simp_all
    with many(3) show False by simp
  qed
  moreover have "\<exists>j k. j \<in> hits (be_users b) UserByPrincipal i \<and> k \<in> hits (be_users b) UserByPrincipal i \<and> j \<noteq> k"
    using many(1-3) by blast
  ultimately show ?thesis by simp
qed

lemma match_users_result:
  "match_users i us matched u = Inr m \<Longrightarrow>
     m = (if matched \<or> (\<exists>v \<in> set us. i \<in> set (u_PrincipalIDs v)) then Some (last (u # us)) else None)"
proof (induction us arbitrary: matched u)
  case (Cons v vs)
  show ?case
  proof (cases "i \<in> set (u_PrincipalIDs v)")
    case True
    with Cons.prems have "match_users i vs True v = Inr m" by (simp split: if_splits)
    from Cons.IH [OF this] True show ?thesis by simp
  next
    case False
    with Cons.prems have "match_users i vs matched v = Inr m" by simp
    from Cons.IH [OF this] False show ?thesis by simp
  qed
qed auto

lemma match_users_one:
  "matched = False \<or> (\<forall>v \<in> set us. i \<notin> set (u_PrincipalIDs v)) \<Longrightarrow>
     length (filter (\<lambda>v. i \<in> set (u_PrincipalIDs v)) us) \<le> 1 \<Longrightarrow> \<exists>m. match_users i us matched u = Inr m"
  by (induction us arbitrary: matched u) (auto simp: filter_empty_conv)

text \<open>
  The lookup of a user by its label returns the wrong user: when exactly one of the listed users
  has the principal id, the answer is the last user of the list, whoever that is.
\<close>

theorem checkLabels_last:
  assumes "Users_List srv [] [(principal_label i, ''hashed-principal-name'')] (be_world b) = ((us, None), w')"
    and "filter (\<lambda>v. i \<in> set (u_PrincipalIDs v)) us = [u]"
  shows "checkLabels srv i b =
    ((Some (last us), Some [(principal_label i, ''hashed-principal-name'')], None), b\<lparr>be_world := w'\<rparr>)"
proof -
  have u: "u \<in> set us" "i \<in> set (u_PrincipalIDs u)" using arg_cong [OF assms(2), where f = set] by auto
  obtain m where "match_users i us False zero_user = Inr m"
    using match_users_one [of False us i] assms(2) by auto
  moreover from match_users_result [OF this] u have "m = Some (last us)" by auto
  ultimately show ?thesis using assms(1) u by (auto simp: checkLabels_def Let_def)
qed

section \<open>Start\<close>

lemma cube_admin_sel [simp]:
  "om_Name (u_meta (cube_admin h)) = ''cube-admin''" "om_Namespace (u_meta (cube_admin h)) = ''kube-system''"
  "u_Username (cube_admin h) = ''admin''" "u_Password (cube_admin h) = h"
  "u_PrincipalIDs (cube_admin h) = [''local.kube-system.cube-admin'']" "u_DisplayName (cube_admin h) = ''admin''"
  by (simp_all add: cube_admin_def)

lemma cube_admin_named: "well_named RUsers ''kube-system'' (ObjUser (cube_admin h))"
  by (simp add: well_named_def)

lemma kube_system_ok: "path_segment_ok ''kube-system''" "path_segment_ok ''cube-admin''"
  by (simp_all add: path_segment_ok_def)

lemma Users_Get_admin:
  assumes "tracker_ok w"
  shows "Users_Get ObjectReaction ''kube-system'' ''cube-admin'' w =
    (case tracker_stored w RUsers ''kube-system'' ''cube-admin'' of
       None \<Rightarrow> ((zero_user, Some (StatusError StatusReasonNotFound ''cube-admin'')), w)
     | Some x \<Rightarrow> (((case as_user x of None \<Rightarrow> zero_user | Some u \<Rightarrow> u), None), w))"
  using client_get_tracker [OF assms, of "''cube-admin''" RUsers "''kube-system''"] kube_system_ok
  by (simp add: Users_Get_def api_simps split: option.splits)

lemma InitCubeAdmin_present:
  assumes "tracker_ok w" "bcrypt ''admin'' = Inr h" "tracker_stored w RUsers ''kube-system'' ''cube-admin'' \<noteq> None"
  shows "InitCubeAdmin ObjectReaction bcrypt w = Return (None, w)"
  using assms Users_Get_admin [OF assms(1)] by (auto simp: InitCubeAdmin_def HashPasswordString_def)

lemma InitCubeAdmin_absent:
  assumes "tracker_ok w" "bcrypt ''admin'' = Inr h" "tracker_stored w RUsers ''kube-system'' ''cube-admin'' = None"
  obtains w' where "InitCubeAdmin ObjectReaction bcrypt w = Return (None, w')" "tracker_ok w'"
    "tracker_stored w' = stored_put RUsers ''kube-system'' ''cube-admin'' (ObjUser (cube_admin h)) (tracker_stored w)"
proof -
  have id: "propagate_namespace ''kube-system'' (ObjUser (cube_admin h)) = ObjUser (cube_admin h)"
    by (rule propagate_namespace_id) simp
  have none: "tracker_stored w RUsers ''kube-system'' (om_Name (obj_meta (ObjUser (cube_admin h)))) = None"
    using assms(3) by simp
  have "namespaced RUsers \<longrightarrow> path_segment_ok ''kube-system''" using kube_system_ok by blast
  from client_create_tracker [OF assms(1) cube_admin_named this none, unfolded id] obtain w' where
    w': "client_create ObjectReaction RUsers ''kube-system'' (ObjUser (cube_admin h)) w =
      (Inr (ObjUser (cube_admin h)), w')" "tracker_ok w'"
    "tracker_stored w' = stored_put RUsers ''kube-system'' ''cube-admin'' (ObjUser (cube_admin h)) (tracker_stored w)"
    by (auto simp: cube_admin_sel)
  have "InitCubeAdmin ObjectReaction bcrypt w = Return (None, w')"
    using assms(2,3) w'(1) Users_Get_admin [OF assms(1)]
    by (simp add: InitCubeAdmin_def HashPasswordString_def Users_Create_def api_simps go_err)
  with w'(2,3) show thesis by (intro that)
qed

text \<open>
  Making the administrator reports only one kind of failure, that somebody else made it in between;
  every other error, a refused request for example, counts as success.
\<close>

theorem InitCubeAdmin_hides_errors:
  assumes "InitCubeAdmin srv bcrypt w = Return (Some e, w')"
  shows "IsAlreadyExists (Some e)"
  using assms
  by (auto simp: InitCubeAdmin_def Let_def split: sum.splits prod.splits if_splits)

lemma cube_crds_ok: "crd_ok user_crd" "crd_ok principal_crd" "crd_ok token_crd" "crd_ok infrastructure_crd"
  using crds_consistent by (simp_all add: all_crds_def cube_crds_def)

lemma cube_crd_names:
  "om_Name (crd_meta user_crd) = ''users.cube.rancher.io''"
  "om_Name (crd_meta principal_crd) = ''principals.cube.rancher.io''"
  "om_Name (crd_meta token_crd) = ''tokens.cube.rancher.io''"
  by (simp_all add: crd_defs)

lemma UserCRDDeploy_steps:
  assumes "crd_deploy srv user_crd w = (None, w1)" "crd_deploy srv principal_crd w1 = (None, w2)"
    "crd_deploy srv token_crd w2 = (None, w3)"
  shows "UserCRDDeploy srv bcrypt w = InitCubeAdmin srv bcrypt w3"
proof -
  obtain err where e: "create_err srv [] (ObjCRD user_crd) w = (err, w1)" "err = None \<or> IsAlreadyExists err"
    using assms(1) by (auto simp: crd_deploy_def split: prod.splits if_splits)
  then show ?thesis
    using assms(2,3) by (auto simp: UserCRDDeploy_def PrincipalCRDDeploy_def TokenCRDDeploy_def)
qed

definition user_start_objects :: "(resource \<times> string \<times> string) set" where
  "user_start_objects =
     {(RCustomResourceDefinitions, [], ''users.cube.rancher.io''),
      (RCustomResourceDefinitions, [], ''principals.cube.rancher.io''),
      (RCustomResourceDefinitions, [], ''tokens.cube.rancher.io''),
      (RUsers, ''kube-system'', ''cube-admin'')}"

text \<open>
  The start of the server registers its user resources and the administrator, touches nothing else
  and changes nothing that is there already.
\<close>

lemma UserCRDDeploy_installs:
  assumes "tracker_ok w" "bcrypt ''admin'' = Inr h"
  obtains w' where "UserCRDDeploy ObjectReaction bcrypt w = Return (None, w')" "tracker_ok w'"
    "\<forall>(r, ns, n) \<in> user_start_objects. tracker_stored w' r ns n \<noteq> None"
    "same_outside user_start_objects (tracker_stored w) (tracker_stored w')"
    "\<forall>r ns n y. tracker_stored w r ns n = Some y \<longrightarrow> tracker_stored w' r ns n = Some y"
    "tracker_stored w RUsers ''kube-system'' ''cube-admin'' = None \<longrightarrow>
       tracker_stored w' RUsers ''kube-system'' ''cube-admin'' = Some (ObjUser (cube_admin h))"
proof -
  obtain w1 where w1: "crd_deploy ObjectReaction user_crd w = (None, w1)" "tracker_ok w1"
    "tracker_stored w1 RCustomResourceDefinitions [] ''users.cube.rancher.io'' \<noteq> None"
    "same_outside {(RCustomResourceDefinitions, [], ''users.cube.rancher.io'')} (tracker_stored w) (tracker_stored w1)"
    "\<forall>r m n y. tracker_stored w r m n = Some y \<longrightarrow> tracker_stored w1 r m n = Some y"
    by (rule crd_deploy_tracker [OF assms(1) cube_crds_ok(1), unfolded cube_crd_names])
  obtain w2 where w2: "crd_deploy ObjectReaction principal_crd w1 = (None, w2)" "tracker_ok w2"
    "tracker_stored w2 RCustomResourceDefinitions [] ''principals.cube.rancher.io'' \<noteq> None"
    "same_outside {(RCustomResourceDefinitions, [], ''principals.cube.rancher.io'')} (tracker_stored w1) (tracker_stored w2)"
    "\<forall>r m n y. tracker_stored w1 r m n = Some y \<longrightarrow> tracker_stored w2 r m n = Some y"
    by (rule crd_deploy_tracker [OF w1(2) cube_crds_ok(2), unfolded cube_crd_names])
  obtain w3 where w3: "crd_deploy ObjectReaction token_crd w2 = (None, w3)" "tracker_ok w3"
    "tracker_stored w3 RCustomResourceDefinitions [] ''tokens.cube.rancher.io'' \<noteq> None"
    "same_outside {(RCustomResourceDefinitions, [], ''tokens.cube.rancher.io'')} (tracker_stored w2) (tracker_stored w3)"
    "\<forall>r m n y. tracker_stored w2 r m n = Some y \<longrightarrow> tracker_stored w3 r m n = Some y"
    by (rule crd_deploy_tracker [OF w2(2) cube_crds_ok(3), unfolded cube_crd_names])
  let ?stored = "\<lambda>v. tracker_stored v RUsers ''kube-system'' ''cube-admin''"
  obtain w4 where w4: "InitCubeAdmin ObjectReaction bcrypt w3 = Return (None, w4)" "tracker_ok w4"
    "?stored w4 \<noteq> None" "same_outside {(RUsers, ''kube-system'', ''cube-admin'')} (tracker_stored w3) (tracker_stored w4)"
    "\<And>r m n y. tracker_stored w3 r m n = Some y \<Longrightarrow> tracker_stored w4 r m n = Some y"
    "?stored w3 = None \<Longrightarrow> ?stored w4 = Some (ObjUser (cube_admin h))"
  proof (cases "?stored w3")
    case None
    obtain w' where w': "InitCubeAdmin ObjectReaction bcrypt w3 = Return (None, w')" "tracker_ok w'"
      "tracker_stored w' = stored_put RUsers ''kube-system'' ''cube-admin'' (ObjUser (cube_admin h)) (tracker_stored w3)"
      by (rule InitCubeAdmin_absent [where bcrypt = bcrypt, OF w3(2) assms(2) None])
    show thesis
      by (rule that [OF w'(1,2)]) (use None in \<open>auto simp: w'(3) same_outside_def\<close>)
  next
    case (Some y)
    with InitCubeAdmin_present [where bcrypt = bcrypt, OF w3(2) assms(2)] w3(2) show thesis by (intro that [of w3]) simp_all
  qed
  have keep: "\<forall>r m n y. tracker_stored w r m n = Some y \<longrightarrow> tracker_stored w4 r m n = Some y"
    using w1(5) w2(5) w3(5) w4(5) by blast
  have "?stored w3 = ?stored w"
    using w1(4) w2(4) w3(4) by (simp add: same_outside_def)
  moreover have "same_outside user_start_objects (tracker_stored w) (tracker_stored w4)"
    using w1(4) w2(4) w3(4) w4(4) by (simp add: same_outside_def user_start_objects_def)
  moreover have "\<forall>(r, ns, n) \<in> user_start_objects. tracker_stored w4 r ns n \<noteq> None"
    using w1(3) w2(3) w3(3) w4(3) w4(5) w3(5) w2(5) by (fastforce simp: user_start_objects_def)
  moreover have "UserCRDDeploy ObjectReaction bcrypt w = Return (None, w4)"
    using UserCRDDeploy_steps [OF w1(1) w2(1) w3(1)] w4(1) by simp
  ultimately show thesis using w4(2,6) keep by (intro that [of w4]) simp_all
qed

lemma UserCRDDeploy_again:
  assumes "tracker_ok w" "bcrypt ''admin'' = Inr h"
    and "\<forall>(r, ns, n) \<in> user_start_objects. tracker_stored w r ns n \<noteq> None"
  shows "UserCRDDeploy ObjectReaction bcrypt w = Return (None, w)"
proof -
  have there: "tracker_stored w RCustomResourceDefinitions [] (om_Name (crd_meta user_crd)) \<noteq> None"
    "tracker_stored w RCustomResourceDefinitions [] (om_Name (crd_meta principal_crd)) \<noteq> None"
    "tracker_stored w RCustomResourceDefinitions [] (om_Name (crd_meta token_crd)) \<noteq> None"
    "tracker_stored w RUsers ''kube-system'' ''cube-admin'' \<noteq> None"
    using assms(3) by (simp_all add: user_start_objects_def cube_crd_names)
  have "UserCRDDeploy ObjectReaction bcrypt w = InitCubeAdmin ObjectReaction bcrypt w"
    by (rule UserCRDDeploy_steps; rule crd_create_tracker(2) [OF assms(1)]) (use there cube_crds_ok in blast)+
  also have "\<dots> = Return (None, w)" by (rule InitCubeAdmin_present [where bcrypt = bcrypt, OF assms(1,2) there(4)])
  finally show ?thesis .
qed

text \<open>
  Starting the server registers the user resources and the administrator, with the password
  hashed; starting it again changes nothing at all, so that a changed password or name of the
  administrator survives.
\<close>

theorem UserCRDDeploy_idempotent:
  assumes "tracker_ok w" "bcrypt ''admin'' = Inr h" "bcrypt' ''admin'' = Inr h'"
  shows "\<exists>w'. UserCRDDeploy ObjectReaction bcrypt w = Return (None, w') \<and> tracker_ok w'
    \<and> (\<forall>(r, ns, n) \<in> user_start_objects. tracker_stored w' r ns n \<noteq> None)
    \<and> same_outside user_start_objects (tracker_stored w) (tracker_stored w')
    \<and> (\<forall>r ns n y. tracker_stored w r ns n = Some y \<longrightarrow> tracker_stored w' r ns n = Some y)
    \<and> (tracker_stored w RUsers ''kube-system'' ''cube-admin'' = None \<longrightarrow>
         tracker_stored w' RUsers ''kube-system'' ''cube-admin'' = Some (ObjUser (cube_admin h)))
    \<and> UserCRDDeploy ObjectReaction bcrypt' w' = Return (None, w')"
proof -
  obtain w' where w': "UserCRDDeploy ObjectReaction bcrypt w = Return (None, w')" "tracker_ok w'"
    "\<forall>(r, ns, n) \<in> user_start_objects. tracker_stored w' r ns n \<noteq> None"
    "same_outside user_start_objects (tracker_stored w) (tracker_stored w')"
    "\<forall>r ns n y. tracker_stored w r ns n = Some y \<longrightarrow> tracker_stored w' r ns n = Some y"
    "tracker_stored w RUsers ''kube-system'' ''cube-admin'' = None \<longrightarrow>
       tracker_stored w' RUsers ''kube-system'' ''cube-admin'' = Some (ObjUser (cube_admin h))"
    by (rule UserCRDDeploy_installs [where bcrypt = bcrypt, OF assms(1,2)])
  have again: "UserCRDDeploy ObjectReaction bcrypt' w' = Return (None, w')"
    by (rule UserCRDDeploy_again [where bcrypt = bcrypt', OF w'(2) assms(3) w'(3)])
  show ?thesis by (intro exI [of _ w'] conjI w' again)
qed

section \<open>Examples\<close>

definition sample_backend :: "user list \<Rightarrow> principal list \<Rightarrow> token list \<Rightarrow> 'w \<Rightarrow> 'w backend" where
  "sample_backend us ps ts w =
     \<lparr>be_users = \<lparr>inf_started = True, inf_indexer = informer_with userIndexers (map ObjUser us)\<rparr>,
      be_principals = \<lparr>inf_started = True, inf_indexer = informer_with principalIndexers (map ObjPrincipal ps)\<rparr>,
      be_tokens = \<lparr>inf_started = True, inf_indexer = informer_with tokenIndexers (map ObjToken ts)\<rparr>,
      be_world = w\<rparr>"

lemma sample_backend_ok:
  assumes "distinct (map (\<lambda>u. MetaNamespaceKeyFunc (u_meta u)) us)"
    "distinct (map (\<lambda>p. MetaNamespaceKeyFunc (p_meta p)) ps)"
    "distinct (map (\<lambda>t. MetaNamespaceKeyFunc (t_meta t)) ts)"
  shows "backend_ok (sample_backend us ps ts w)"
  using assms by (simp add: backend_ok_def sample_backend_def informer_with_ok comp_def)

lemma sample_backend_items:
  assumes "distinct (map (\<lambda>u. MetaNamespaceKeyFunc (u_meta u)) us)"
    "distinct (map (\<lambda>p. MetaNamespaceKeyFunc (p_meta p)) ps)"
    "distinct (map (\<lambda>t. MetaNamespaceKeyFunc (t_meta t)) ts)"
  shows "ts_items (inf_indexer (be_users (sample_backend us ps ts w))) =
      map (\<lambda>u. (MetaNamespaceKeyFunc (u_meta u), ObjUser u)) us"
    "ts_items (inf_indexer (be_principals (sample_backend us ps ts w))) =
      map (\<lambda>p. (MetaNamespaceKeyFunc (p_meta p), ObjPrincipal p)) ps"
    "ts_items (inf_indexer (be_tokens (sample_backend us ps ts w))) =
      map (\<lambda>t. (MetaNamespaceKeyFunc (t_meta t), ObjToken t)) ts"
    "be_world (sample_backend us ps ts w) = w"
  using assms by (simp_all add: sample_backend_def informer_with_ok comp_def)

definition sample_token :: token where
  "sample_token = zero_token\<lparr>
     t_meta := zero_meta\<lparr>om_Name := ''token-x'', om_Namespace := ''kube-system''\<rparr>,
     t_Token := ''k'', t_UserID := ''u-1'', t_AuthProvider := ''local''\<rparr>"

lemma sample_token_sel [simp]:
  "om_Name (t_meta sample_token) = ''token-x''" "om_Namespace (t_meta sample_token) = ''kube-system''"
  "t_Token sample_token = ''k''" "t_TTLMillis sample_token = 0" "t_UserID sample_token = ''u-1''"
  "t_AuthProvider sample_token = ''local''"
  by (simp_all add: sample_token_def zero_token_def)

lemma sample_token_grants:
  "grants seconds now (be_tokens (sample_backend us ps [sample_token] w)) ''token-x:k'' sample_token"
proof -
  have items: "ts_items (inf_indexer (be_tokens (sample_backend us ps [sample_token] w))) =
      [(''kube-system/token-x'', ObjToken sample_token)]"
    by (simp add: sample_backend_def informer_with_ok MetaNamespaceKeyFunc_def)
  then have "held (be_tokens (sample_backend us ps [sample_token] w)) ''kube-system/token-x'' (ObjToken sample_token)"
    "hits (be_tokens (sample_backend us ps [sample_token] w)) TokenByKey ''k'' = {''kube-system/token-x''}"
    by (auto simp: held_def hits_def index_fun_hits split: if_splits)
  then show ?thesis by (auto simp: grants_def IsExpired_zero)
qed

theorem GetStoredToken_grants_witness:
  "GetStoredToken ObjectReaction exact_seconds 5 ''token-x:k'' (sample_backend [] [] [sample_token] NewObjectTracker) =
     Return ((Some sample_token, 0, None), sample_backend [] [] [sample_token] NewObjectTracker)"
proof -
  have ok: "backend_ok (sample_backend [] [] [sample_token] NewObjectTracker)"
    by (rule sample_backend_ok) simp_all
  show ?thesis by (rule GetStoredToken_grants [OF ok, THEN iffD2]) (simp add: sample_token_grants)
qed

theorem GetStoredToken_refuses_witness:
  "\<exists>t code err. GetStoredToken ObjectReaction exact_seconds 5 ''token-x'' (sample_backend [] [] [sample_token] NewObjectTracker) =
     Return ((t, code, err), sample_backend [] [] [sample_token] NewObjectTracker) \<and> code = 404"
proof -
  have ok: "backend_ok (sample_backend [] [] [sample_token] NewObjectTracker)"
    by (rule sample_backend_ok) simp_all
  have "SplitTokenParts ''token-x'' = (''token-x'', [])" by (simp add: SplitTokenParts_def)
  with GetStoredToken_refuses [OF ok, of ObjectReaction exact_seconds 5 "''token-x''"] show ?thesis by auto
qed

theorem EnsureUser_cached_only_witness:
  "EnsureUser ObjectReaction ''local.x'' ''x'' (sample_backend [] [] [] NewObjectTracker) =
     Return ((Some zero_user, None), sample_backend [] [] [] NewObjectTracker)"
proof -
  have ok: "backend_ok (sample_backend [] [] [] NewObjectTracker)" by (rule sample_backend_ok) simp_all
  have "hits (be_users (sample_backend [] [] [] NewObjectTracker)) UserByPrincipal ''local.x'' = {}"
    by (simp add: hits_def sample_backend_items)
  with EnsureUser_cached_only [OF ok, of ObjectReaction "''local.x''" "''x''"] show ?thesis by auto
qed

theorem checkLabels_last_witness:
  "\<exists>b'. checkLabels ObjectReaction ''local.kube-system.u-1''
      (sample_backend [] [] [] (tracker_with
        [ObjUser (settled_user\<lparr>u_meta := (u_meta settled_user)\<lparr>om_Labels :=
            [(principal_label ''local.kube-system.u-1'', ''hashed-principal-name'')]\<rparr>\<rparr>),
         ObjUser (sample_user\<lparr>u_meta := (u_meta sample_user)\<lparr>om_Name := ''u-2'', om_Labels :=
            [(principal_label ''local.kube-system.u-1'', ''hashed-principal-name'')]\<rparr>\<rparr>)])) =
    ((Some (sample_user\<lparr>u_meta := (u_meta sample_user)\<lparr>om_Name := ''u-2'', om_Labels :=
        [(principal_label ''local.kube-system.u-1'', ''hashed-principal-name'')]\<rparr>\<rparr>),
      Some [(principal_label ''local.kube-system.u-1'', ''hashed-principal-name'')], None), b')"
proof -
  let ?l = "[(principal_label ''local.kube-system.u-1'', ''hashed-principal-name'')]"
  let ?a = "settled_user\<lparr>u_meta := (u_meta settled_user)\<lparr>om_Labels := ?l\<rparr>\<rparr>"
  let ?b = "sample_user\<lparr>u_meta := (u_meta sample_user)\<lparr>om_Name := ''u-2'', om_Labels := ?l\<rparr>\<rparr>"
  let ?w = "tracker_with [ObjUser ?a, ObjUser ?b]"
  have "path_segment_ok []" by (simp add: path_segment_ok_def)
  then have "Users_List ObjectReaction [] ?l (be_world (sample_backend [] [] [] ?w)) = (([?a, ?b], None), ?w)"
    by (simp add: Users_List_def client_list_def rest_error_def tracker_List_def filterByNamespaceAndName_def
        tracker_with_def matches_labels_def List.map_filter_simps sample_backend_def)
  moreover have "filter (\<lambda>v. ''local.kube-system.u-1'' \<in> set (u_PrincipalIDs v)) [?a, ?b] = [?a]" by simp
  ultimately show ?thesis
    using checkLabels_last [of ObjectReaction "''local.kube-system.u-1''" "sample_backend [] [] [] ?w" "[?a, ?b]" ?w ?a]
    by simp
qed

definition failing_server :: "tracker api_server" where
  "failing_server = ObjectReaction\<lparr>api_create := (\<lambda>r ns x w. (Inl (StatusError StatusReasonAlreadyExists ''cube-admin''), w))\<rparr>"

theorem InitCubeAdmin_hides_errors_witness:
  "\<exists>e. InitCubeAdmin failing_server Inr NewObjectTracker = Return (Some e, NewObjectTracker) \<and> IsAlreadyExists (Some e)"
proof -
  have "\<exists>e. InitCubeAdmin failing_server Inr NewObjectTracker = Return (Some e, NewObjectTracker)"
    using kube_system_ok
    by (simp add: InitCubeAdmin_def HashPasswordString_def Users_Get_def Users_Create_def client_get_def
        client_create_def rest_error_def failing_server_def tracker_Get_def filterByNamespaceAndName_def
        NewObjectTracker_def api_simps go_err)
  then obtain e where "InitCubeAdmin failing_server Inr NewObjectTracker = Return (Some e, NewObjectTracker)" ..
  then show ?thesis using InitCubeAdmin_hides_errors [of failing_server Inr NewObjectTracker e] by blast
qed

theorem UserCRDDeploy_idempotent_witness:
  "\<exists>w'. UserCRDDeploy ObjectReaction Inr NewObjectTracker = Return (None, w')
    \<and> tracker_stored w' RUsers ''kube-system'' ''cube-admin'' = Some (ObjUser (cube_admin ''admin''))
    \<and> UserCRDDeploy ObjectReaction (\<lambda>p. Inr (p @ p)) w' = Return (None, w')"
proof -
  have "tracker_ok NewObjectTracker" "tracker_stored NewObjectTracker RUsers ''kube-system'' ''cube-admin'' = None"
    by (simp_all add: tracker_ok_def tracker_stored_def NewObjectTracker_def)
  then show ?thesis
    using UserCRDDeploy_idempotent [of NewObjectTracker Inr "''admin''" "\<lambda>p. Inr (p @ p)" "''adminadmin''"] by auto
qed

end
