(* ===== verification/Cube_Local_Provider.thy ===== *)
theory Cube_Local_Provider
  imports Cube_Backend
begin

text \<open>
  \<open>backend/provider\<close>: the interface of an authentication provider, the local provider
  (\<open>provider/local\<close>), and the dispatch over the registered providers (\<open>provider/common\<close>).

  A provider is a record of its methods.  What the login code needs of one is the locale
  \<open>auth_provider\<close>, interpreted on the local provider.  \<open>compare\<close> is
  \<open>bcrypt.CompareHashAndPassword\<close>.
\<close>

section \<open>The interface\<close>

record generic_login =
  gl_TTLMillis :: int64
  gl_ProviderType :: string
  gl_Description :: string
  gl_ResponseType :: string

record basic_login =
  bl_GenericLogin :: generic_login
  bl_Username :: string
  bl_Password :: string

definition zero_generic_login :: generic_login where
  "zero_generic_login = \<lparr>gl_TTLMillis = 0, gl_ProviderType = [], gl_Description = [], gl_ResponseType = []\<rparr>"

definition zero_basic_login :: basic_login where
  "zero_basic_login = \<lparr>bl_GenericLogin = zero_generic_login, bl_Username = [], bl_Password = []\<rparr>"

text \<open>
  The input of \<open>AuthenticateUser\<close> is an \<open>interface{}\<close>.  \<open>ap_local\<close> tells whether the dynamic type of
  the provider is \<open>*local.Provider\<close>, which the search asks for with a type assertion.
\<close>

datatype login_input = BasicLogin basic_login | OtherInput

record 'w auth_provider =
  ap_GetName :: string
  ap_local :: bool
  ap_AuthenticateUser :: "login_input \<Rightarrow> string \<Rightarrow> 'w backend
    \<Rightarrow> ((principal \<times> string_map \<times> go_error option) \<times> 'w backend) outcome"
  ap_SearchPrincipals :: "string \<Rightarrow> string \<Rightarrow> token \<Rightarrow> 'w backend
    \<Rightarrow> (principal list \<times> go_error option) outcome"
  ap_GetPrincipal :: "string \<Rightarrow> token \<Rightarrow> 'w backend \<Rightarrow> (principal \<times> go_error option) outcome"
  ap_GenerateToken :: "string \<Rightarrow> token \<Rightarrow> string \<Rightarrow> 'w backend \<Rightarrow> (token \<times> go_error option) \<times> 'w backend"
  ap_DeleteToken :: "token \<Rightarrow> string \<Rightarrow> 'w backend \<Rightarrow> go_error option \<times> 'w backend"

section \<open>The local provider\<close>

definition ProviderName :: string where "ProviderName = ''local''"
definition ConfigType :: string where "ConfigType = ''localConfig''"

text \<open>Searching: short keys through the index, longer ones through the whole cache.\<close>

definition listAllUsers :: "string \<Rightarrow> 'w backend \<Rightarrow> (user list \<times> go_error option) outcome" where
  "listAllUsers searchKey b =
     bind_outcome (lister_List_all as_user (inf_indexer (be_users b))) (\<lambda>allUsers.
       Return (filter (\<lambda>u. HasPrefix (om_Name (u_meta u)) searchKey \<or> HasPrefix (u_Username u) searchKey
         \<or> HasPrefix (u_DisplayName u) searchKey) allUsers, None))"

fun users_of :: "k8s_obj option list \<Rightarrow> user list" where
  "users_of [] = []"
| "users_of (obj # objs) =
     (case obj of Some (ObjUser u) \<Rightarrow> u # users_of objs | _ \<Rightarrow> [])"

definition listUsersByIndex :: "string \<Rightarrow> 'w backend \<Rightarrow> user list \<times> go_error option" where
  "listUsersByIndex searchKey b =
     (case tsm_ByIndex UserSearchIndex searchKey (inf_indexer (be_users b)) of
        Inl err \<Rightarrow> ([], Some err)
      | Inr objs \<Rightarrow> (users_of objs, None))"

definition user_principal :: "user \<Rightarrow> string \<Rightarrow> token option \<Rightarrow> principal" where
  "user_principal u principalID tok =
     ToPrincipal ''user'' (u_DisplayName u) (u_Username u) (om_Namespace (u_meta u)) principalID tok"

definition SearchPrincipalsDedupe ::
    "string \<Rightarrow> string \<Rightarrow> token \<Rightarrow> principal list \<Rightarrow> 'w backend \<Rightarrow> (principal list \<times> go_error option) outcome" where
  "SearchPrincipalsDedupe searchKey principalType tok others b =
     bind_outcome
       (if SearchIndexDefaultLen < length searchKey then listAllUsers searchKey b
        else Return (listUsersByIndex searchKey b))
       (\<lambda>(localUsers, err).
          if err \<noteq> None then Return ([], err)
          else if principalType = [] \<or> principalType = ''user'' then
            Return (map (\<lambda>u. user_principal u (GetLocalPrincipalID u) (Some tok))
              (filter (\<lambda>u. \<not> list_ex (\<lambda>i. i \<in> set (map (\<lambda>p. om_Name (p_meta p)) others)) (u_PrincipalIDs u))
                localUsers), None)
          else Return ([], None))"

definition local_SearchPrincipals ::
    "string \<Rightarrow> string \<Rightarrow> token \<Rightarrow> 'w backend \<Rightarrow> (principal list \<times> go_error option) outcome" where
  "local_SearchPrincipals searchKey principalType tok b =
     SearchPrincipalsDedupe searchKey principalType tok [] b"

text \<open>\<open>var name string\<close> is never assigned: the lister is asked for the empty name.\<close>

definition local_GetPrincipal ::
    "string \<Rightarrow> token \<Rightarrow> 'w backend \<Rightarrow> (principal \<times> go_error option) outcome" where
  "local_GetPrincipal principalID tok b =
     bind_outcome (Users_lister_Get (inf_indexer (be_users b)) [] []) (\<lambda>r.
       case r of
         Inl err \<Rightarrow> Return (zero_principal, Some err)
       | Inr u \<Rightarrow> Return (user_principal u (GetLocalPrincipalID u) (Some tok), None))"

text \<open>Unlike the controllers' function of almost the same name, this one makes no id up.\<close>

definition getLocalPrincipalID :: "user \<Rightarrow> string" where
  "getLocalPrincipalID u =
     foldl (\<lambda>acc p. if HasPrefix p (ProviderName @ ''.'') then p else acc) [] (u_PrincipalIDs u)"

definition CheckAccess ::
    "principal \<Rightarrow> 'w backend \<Rightarrow> ((bool \<times> go_error option) \<times> 'w backend) outcome" where
  "CheckAccess userPrincipal b =
     bind_outcome (CheckUserCache (om_Name (p_meta userPrincipal)) b) (\<lambda>((u, err), b1).
       if err \<noteq> None then Return ((False, err), b1)
       else bind_outcome (CheckPrincipalCache (om_Name (p_meta userPrincipal)) b1) (\<lambda>((p, err1), b2).
         if err1 \<noteq> None then Return ((False, err1), b2)
         else (case (u, p) of
            (Some user, Some princ) \<Rightarrow>
              if u_Username user = p_LoginName princ then Return ((True, None), b2)
              else Return ((False, Some (Errorf ''RancherCUBE: no allowed principalIDs'' [])), b2)
          | _ \<Rightarrow> nil_deref)))"

text \<open>\<open>errors.Wrap\<close> of the error of the index lookup, which is \<open>nil\<close> when no user is found.\<close>

definition local_AuthenticateUser ::
    "(string \<Rightarrow> string \<Rightarrow> go_error option) \<Rightarrow> login_input \<Rightarrow> string \<Rightarrow> 'w backend
       \<Rightarrow> ((principal \<times> string_map \<times> go_error option) \<times> 'w backend) outcome" where
  "local_AuthenticateUser compare input providerName b =
     (case input of
        OtherInput \<Rightarrow> Return ((zero_principal, [], Some (Errorf ''RancherCUBE: unexpected input type'' [])), b)
      | BasicLogin localInput \<Rightarrow>
        (let username = bl_Username localInput; pwd = bl_Password localInput in
         case tsm_ByIndex UserByUsernameIndex username (inf_indexer (be_users b)) of
           Inl err \<Rightarrow> Return ((zero_principal, [], Some err), b)
         | Inr objs \<Rightarrow>
             if length objs = 0
               then Return ((zero_principal, [], Wrap None ''RancherCUBE: authentication failed''), b)
             else if 1 < length objs
               then Return ((zero_principal, [],
                 Some (Errorf ''RancherCUBE: found more than one users with username %v'' [username])), b)
             else (case objs ! 0 of
               Some (ObjUser user) \<Rightarrow>
                 (case compare (u_Password user) pwd of
                    Some err \<Rightarrow>
                      Return ((zero_principal, [], Wrap (Some err) ''RancherCUBE: authentication failed''), b)
                  | None \<Rightarrow>
                      (let userPrincipal = (user_principal user (getLocalPrincipalID user) None)\<lparr>p_Me := True\<rparr>
                       in bind_outcome (CheckAccess userPrincipal b) (\<lambda>((allowed, err), b1).
                            if \<not> allowed
                              then Return ((zero_principal, [], Some (Errorf ''RancherCUBE: unauthorized'' [])), b1)
                            else Return ((userPrincipal, [], None), b1))))
             | _ \<Rightarrow> Return ((zero_principal, [],
                 Some (Errorf ''RancherCUBE: fatal error. %v is not a user'' [])), b))))"

text \<open>A token that exists already is no error, but the zero token is handed back.\<close>

definition local_GenerateToken ::
    "'w api_server \<Rightarrow> string \<Rightarrow> token \<Rightarrow> string \<Rightarrow> 'w backend \<Rightarrow> (token \<times> go_error option) \<times> 'w backend" where
  "local_GenerateToken srv ns tok providerName b =
     (case Tokens_Create srv (om_Namespace (p_meta (t_UserPrincipal tok))) tok (be_world b) of
        ((createdToken, err), w) \<Rightarrow>
          (if err \<noteq> None \<and> \<not> IsAlreadyExists err then (zero_token, err) else (createdToken, None),
           b\<lparr>be_world := w\<rparr>))"

definition local_DeleteToken ::
    "'w api_server \<Rightarrow> token \<Rightarrow> string \<Rightarrow> 'w backend \<Rightarrow> go_error option \<times> 'w backend" where
  "local_DeleteToken srv tok providerName b =
     (case Tokens_Delete srv (om_Namespace (t_meta tok)) (om_Name (t_meta tok)) (be_world b) of
        (err, w) \<Rightarrow> (err, b\<lparr>be_world := w\<rparr>))"

definition local_provider ::
    "'w api_server \<Rightarrow> (string \<Rightarrow> string \<Rightarrow> go_error option) \<Rightarrow> 'w auth_provider" where
  "local_provider srv compare =
     \<lparr>ap_GetName = ProviderName, ap_local = True,
      ap_AuthenticateUser = local_AuthenticateUser compare,
      ap_SearchPrincipals = local_SearchPrincipals,
      ap_GetPrincipal = local_GetPrincipal,
      ap_GenerateToken = local_GenerateToken srv,
      ap_DeleteToken = local_DeleteToken srv\<rparr>"

definition local_Configure ::
    "'w api_server \<Rightarrow> (string \<Rightarrow> string \<Rightarrow> go_error option) \<Rightarrow> 'w backend \<Rightarrow> 'w auth_provider \<times> 'w backend" where
  "local_Configure srv compare b =
     (local_provider srv compare,
      b\<lparr>be_users := snd (informer_AddIndexers
            [(UserByUsernameIndex, UserByUsername), (UserSearchIndex, UserSearchIndexer)] (be_users b)),
        be_tokens := snd (informer_AddIndexers [(TokenByNameIndex, TokenByName)] (be_tokens b))\<rparr>)"

section \<open>The registered providers\<close>

text \<open>
  A Go map from names to interfaces: a missing entry and a \<open>nil\<close> interface are both \<open>None\<close>, and
  calling a method of it panics.
\<close>

record 'w registry =
  rg_providers :: "string \<Rightarrow> 'w auth_provider option"
  rg_providersByType :: "string \<Rightarrow> 'w auth_provider option"

definition no_providers :: "'w registry" where
  "no_providers = \<lparr>rg_providers = (\<lambda>_. None), rg_providersByType = (\<lambda>_. None)\<rparr>"

definition GetProvider :: "'w registry \<Rightarrow> string \<Rightarrow> go_error + 'w auth_provider" where
  "GetProvider rg providerName =
     (case rg_providers rg providerName of
        Some p \<Rightarrow> Inr p
      | None \<Rightarrow> Inl (Errorf (''RancherCUBE: no such provider '%s'' @ [CHR 0x27]) [providerName]))"

definition GetProviderByType :: "'w registry \<Rightarrow> string \<Rightarrow> 'w auth_provider option" where
  "GetProviderByType rg configType = rg_providersByType rg configType"

definition common_Configure ::
    "'w api_server \<Rightarrow> (string \<Rightarrow> string \<Rightarrow> go_error option) \<Rightarrow> 'w registry \<times> 'w backend
       \<Rightarrow> 'w registry \<times> 'w backend" where
  "common_Configure srv compare = (\<lambda>(rg, b).
     case local_Configure srv compare b of
       (p, b1) \<Rightarrow>
         (\<lparr>rg_providers = (rg_providers rg)(ProviderName \<mapsto> p),
           rg_providersByType = (rg_providersByType rg)(ConfigType \<mapsto> p, ProviderName \<mapsto> p)\<rparr>, b1))"

definition common_AuthenticateUser ::
    "'w registry \<Rightarrow> login_input \<Rightarrow> string \<Rightarrow> 'w backend
       \<Rightarrow> ((principal \<times> string_map \<times> go_error option) \<times> 'w backend) outcome" where
  "common_AuthenticateUser rg input providerName b =
     (case rg_providers rg providerName of
        None \<Rightarrow> nil_deref
      | Some p \<Rightarrow> ap_AuthenticateUser p input providerName b)"

definition common_GetPrincipal ::
    "'w registry \<Rightarrow> string \<Rightarrow> token \<Rightarrow> 'w backend \<Rightarrow> (principal \<times> go_error option) outcome" where
  "common_GetPrincipal rg principalID myToken b =
     (case rg_providers rg (t_AuthProvider myToken) of
        None \<Rightarrow> nil_deref
      | Some p \<Rightarrow>
          bind_outcome (ap_GetPrincipal p principalID myToken b) (\<lambda>(princ, err).
            if err \<noteq> None \<and> t_AuthProvider myToken \<noteq> ''local'' then
              (case rg_providers rg ''local'' of
                 None \<Rightarrow> nil_deref
               | Some lp \<Rightarrow> ap_GetPrincipal lp principalID myToken b)
            else Return (princ, err)))"

definition common_SearchPrincipals ::
    "'w registry \<Rightarrow> string \<Rightarrow> string \<Rightarrow> token \<Rightarrow> 'w backend \<Rightarrow> (principal list \<times> go_error option) outcome" where
  "common_SearchPrincipals rg name principalType myToken b =
     (case rg_providers rg (t_AuthProvider myToken) of
        None \<Rightarrow> nil_deref
      | Some p \<Rightarrow>
          bind_outcome (ap_SearchPrincipals p name principalType myToken b) (\<lambda>(principals, err).
            if err \<noteq> None then Return (principals, err)
            else if t_AuthProvider myToken \<noteq> ''local'' then
              (case rg_providers rg ''local'' of
                 Some lp \<Rightarrow>
                   (if ap_local lp then
                      bind_outcome (SearchPrincipalsDedupe name principalType myToken principals b)
                        (\<lambda>(localPrincipals, err1).
                          if err1 \<noteq> None then Return (principals, err1)
                          else Return (principals @ localPrincipals, err))
                    else Return (principals, err))
               | None \<Rightarrow> Return (principals, err))
            else Return (principals, err)))"

definition common_GenerateToken ::
    "'w registry \<Rightarrow> string \<Rightarrow> token \<Rightarrow> string \<Rightarrow> 'w backend
       \<Rightarrow> ((token \<times> go_error option) \<times> 'w backend) outcome" where
  "common_GenerateToken rg ns tok providerName b =
     (case rg_providers rg providerName of
        None \<Rightarrow> nil_deref
      | Some p \<Rightarrow> Return (ap_GenerateToken p ns tok providerName b))"

definition common_DeleteToken ::
    "'w registry \<Rightarrow> token \<Rightarrow> string \<Rightarrow> 'w backend \<Rightarrow> (go_error option \<times> 'w backend) outcome" where
  "common_DeleteToken rg tok providerName b =
     (case rg_providers rg providerName of
        None \<Rightarrow> nil_deref
      | Some p \<Rightarrow> Return (ap_DeleteToken p tok providerName b))"

section \<open>What the login code needs of a provider\<close>

text \<open>
  A login with a name and a password is answered without changing the caches, and what is handed
  back without an error is either the empty principal or the principal of a user with this name and
  password.  \<open>created\<close> says what creating a token for a principal does.
\<close>

locale auth_provider =
  fixes p :: "'w auth_provider"
    and ready :: "'w backend \<Rightarrow> bool"
    and accepts :: "'w backend \<Rightarrow> string \<Rightarrow> string \<Rightarrow> principal \<Rightarrow> bool"
  assumes authenticate_answers:
    "ready b \<Longrightarrow> \<exists>princ info err. ap_AuthenticateUser p input n b = Return ((princ, info, err), b)"
    and authenticate_sound:
    "ready b \<Longrightarrow> ap_AuthenticateUser p (BasicLogin i) n b = Return ((princ, info, None), b') \<Longrightarrow>
       princ = zero_principal \<or> accepts b (bl_Username i) (bl_Password i) princ"
    and authenticate_complete:
    "ready b \<Longrightarrow> accepts b (bl_Username i) (bl_Password i) princ \<Longrightarrow>
       ap_AuthenticateUser p (BasicLogin i) n b = Return ((princ, [], None), b)"
    and generate_keeps_ready:
    "ready b \<Longrightarrow> ready (snd (ap_GenerateToken p ns tok n b))"
begin

lemma authenticate_unchanged:
  assumes "ready b" "ap_AuthenticateUser p input n b = Return (r, b')"
  shows "b' = b"
  using authenticate_answers [OF assms(1), of input n] assms(2) by auto

lemma accepts_unique:
  assumes "ready b" "accepts b n pw princ" "accepts b n pw princ'"
  shows "princ = princ'"
proof -
  let ?i = "zero_basic_login\<lparr>bl_Username := n, bl_Password := pw\<rparr>"
  have "bl_Username ?i = n" "bl_Password ?i = pw" by simp_all
  with authenticate_complete [OF assms(1), of ?i princ] authenticate_complete [OF assms(1), of ?i princ'] assms(2,3)
  have "Return ((princ, [] :: string_map, None :: go_error option), b) = Return ((princ', [], None), b)" by metis
  then show ?thesis by simp
qed

end

section \<open>The local provider is one\<close>

text \<open>
  The access check compares a user name and a login name found under the same principal id; where
  nothing is found the name is empty.
\<close>

definition user_name_for :: "'w backend \<Rightarrow> string \<Rightarrow> string \<Rightarrow> bool" where
  "user_name_for b i name \<longleftrightarrow>
     (hits (be_users b) UserByPrincipal i = {} \<and> name = []) \<or>
     (\<exists>k u. hits (be_users b) UserByPrincipal i = {k} \<and> held (be_users b) k (ObjUser u) \<and> name = u_Username u)"

definition login_name_for :: "'w backend \<Rightarrow> string \<Rightarrow> string \<Rightarrow> bool" where
  "login_name_for b i name \<longleftrightarrow>
     (hits (be_principals b) PrincipalByID i = {} \<and> name = []) \<or>
     (\<exists>k p. hits (be_principals b) PrincipalByID i = {k} \<and> held (be_principals b) k (ObjPrincipal p)
        \<and> name = p_LoginName p)"

definition allowed :: "'w backend \<Rightarrow> string \<Rightarrow> bool" where
  "allowed b i \<longleftrightarrow> (\<exists>name. user_name_for b i name \<and> login_name_for b i name)"

lemma several_elements: "k \<in> S \<Longrightarrow> k' \<in> S \<Longrightarrow> k \<noteq> k' \<Longrightarrow> S \<noteq> {} \<and> (\<forall>j. S \<noteq> {j})"
  by (metis empty_iff singletonD)

lemma user_name_for_iff:
  assumes "backend_ok b"
  shows "user_name_for b i name \<longleftrightarrow> (\<exists>u. CheckUserCache i b = Return ((Some u, None), b) \<and> name = u_Username u)"
  using assms
proof (cases rule: CheckUserCache_cases [of _ i])
  case none
  then show ?thesis by (auto simp: user_name_for_def zero_user_def)
next
  case (one k u)
  then have "held (be_users b) k (ObjUser v) \<longleftrightarrow> v = u" for v by (auto simp: held_def)
  with one show ?thesis by (auto simp: user_name_for_def)
next
  case (many k k' e)
  then show ?thesis using several_elements [OF many(1-3)] by (simp add: user_name_for_def)
qed

lemma login_name_for_iff:
  assumes "backend_ok b"
  shows "login_name_for b i name \<longleftrightarrow>
    (\<exists>p. CheckPrincipalCache i b = Return ((Some p, None), b) \<and> name = p_LoginName p)"
  using assms
proof (cases rule: CheckPrincipalCache_cases [of _ i])
  case none
  then show ?thesis by (auto simp: login_name_for_def zero_principal_def)
next
  case (one k p)
  then have "held (be_principals b) k (ObjPrincipal q) \<longleftrightarrow> q = p" for q by (auto simp: held_def)
  with one show ?thesis by (auto simp: login_name_for_def)
next
  case (many k k' e)
  then show ?thesis using several_elements [OF many(1-3)] by (simp add: login_name_for_def)
qed

lemma lookup_answers:
  assumes "backend_ok b"
  shows "\<exists>u err. CheckUserCache i b = Return ((Some u, err), b)"
    "\<exists>p err. CheckPrincipalCache i b = Return ((Some p, err), b)"
proof -
  show "\<exists>u err. CheckUserCache i b = Return ((Some u, err), b)"
    using assms by (cases rule: CheckUserCache_cases [of _ i]) auto
  show "\<exists>p err. CheckPrincipalCache i b = Return ((Some p, err), b)"
    using assms by (cases rule: CheckPrincipalCache_cases [of _ i]) auto
qed

lemma CheckAccess_allowed:
  assumes "backend_ok b"
  shows "\<exists>ok err. CheckAccess princ b = Return ((ok, err), b) \<and> (ok \<longleftrightarrow> allowed b (om_Name (p_meta princ)))"
proof -
  let ?i = "om_Name (p_meta princ)"
  obtain u e1 where u: "CheckUserCache ?i b = Return ((Some u, e1), b)" using lookup_answers(1) [OF assms] by blast
  obtain p e2 where p: "CheckPrincipalCache ?i b = Return ((Some p, e2), b)" using lookup_answers(2) [OF assms] by blast
  have "allowed b ?i \<longleftrightarrow> e1 = None \<and> e2 = None \<and> u_Username u = p_LoginName p"
    unfolding allowed_def user_name_for_iff [OF assms] login_name_for_iff [OF assms] using u p by auto
  then show ?thesis using u p by (auto simp: CheckAccess_def)
qed

text \<open>Who a user name and a password are accepted for.\<close>

definition local_accepts ::
    "(string \<Rightarrow> string \<Rightarrow> go_error option) \<Rightarrow> 'w backend \<Rightarrow> string \<Rightarrow> string \<Rightarrow> principal \<Rightarrow> bool" where
  "local_accepts compare b name password princ \<longleftrightarrow>
     (\<exists>k u. hits (be_users b) UserByUsername name = {k} \<and> held (be_users b) k (ObjUser u)
        \<and> compare (u_Password u) password = None \<and> allowed b (getLocalPrincipalID u)
        \<and> princ = (user_principal u (getLocalPrincipalID u) None)\<lparr>p_Me := True\<rparr>)"

lemma UserByUsername_sel: "v \<in> set (fst (UserByUsername x)) \<Longrightarrow> \<exists>u. x = ObjUser u \<and> u_Username u = v"
  by (cases x) (simp_all add: UserByUsername_def)

lemma hits_single:
  assumes "map_of (ts_items (inf_indexer ifm)) k = Some x" "v \<in> set (fst (f x))"
    "\<And>k' x'. map_of (ts_items (inf_indexer ifm)) k' = Some x' \<Longrightarrow> v \<in> set (fst (f x')) \<Longrightarrow> k' = k"
  shows "hits ifm f v = {k}"
  unfolding hits_def using assms by blast

lemma username_lookup:
  assumes "backend_ok b"
  obtains (none) "hits (be_users b) UserByUsername n = {}"
      "tsm_ByIndex UserByUsernameIndex n (inf_indexer (be_users b)) = Inr []"
    | (one) k u where "hits (be_users b) UserByUsername n = {k}" "held (be_users b) k (ObjUser u)" "u_Username u = n"
      "tsm_ByIndex UserByUsernameIndex n (inf_indexer (be_users b)) = Inr [Some (ObjUser u)]"
    | (many) k k' objs where "k \<in> hits (be_users b) UserByUsername n" "k' \<in> hits (be_users b) UserByUsername n"
      "k \<noteq> k'" "1 < length objs" "tsm_ByIndex UserByUsernameIndex n (inf_indexer (be_users b)) = Inr objs"
proof (cases rule: tsm.by_index_cases [OF backend_index(1,5) [OF assms], of n])
  case 1
  then have "hits (be_users b) UserByUsername n = {}" unfolding hits_def by blast
  with 1 show thesis by (intro none)
next
  case (2 k x)
  then obtain u where u: "x = ObjUser u" "u_Username u = n" using UserByUsername_sel by blast
  have "hits (be_users b) UserByUsername n = {k}" by (rule hits_single [where f = UserByUsername, OF 2(2-4)])
  then show thesis
    by (rule one [of k u]) (use 2(1,2) u in \<open>simp_all add: held_def\<close>)
next
  case (3 objs k x k' x')
  then have "k \<in> hits (be_users b) UserByUsername n" "k' \<in> hits (be_users b) UserByUsername n"
    unfolding hits_def by blast+
  with 3(1-3) show thesis by (intro many [of k k' objs]) simp_all
qed

lemma AuthenticateUser_unknown:
  assumes "backend_ok b" "hits (be_users b) UserByUsername (bl_Username i) = {}"
  shows "local_AuthenticateUser compare (BasicLogin i) n b = Return ((zero_principal, [], None), b)"
  using assms(1)
proof (cases rule: username_lookup [of _ "bl_Username i"])
  case none
  then show ?thesis by (simp add: local_AuthenticateUser_def)
next
  case (one k u)
  with assms(2) show ?thesis by simp
next
  case (many k k' objs)
  with assms(2) show ?thesis by simp
qed

lemma local_accepts_hit:
  assumes "hits (be_users b) UserByUsername n = {k}" "held (be_users b) k (ObjUser u)"
  shows "local_accepts compare b n pw princ \<longleftrightarrow>
    compare (u_Password u) pw = None \<and> allowed b (getLocalPrincipalID u)
    \<and> princ = (user_principal u (getLocalPrincipalID u) None)\<lparr>p_Me := True\<rparr>"
proof -
  have "held (be_users b) k (ObjUser v) \<longleftrightarrow> v = u" for v using assms(2) by (auto simp: held_def)
  with assms(1) show ?thesis by (simp add: local_accepts_def)
qed

lemma local_AuthenticateUser_cases:
  assumes "backend_ok b"
  obtains (unknown) "hits (be_users b) UserByUsername (bl_Username i) = {}"
      "local_AuthenticateUser compare (BasicLogin i) n b = Return ((zero_principal, [], None), b)"
    | (refused) e where "hits (be_users b) UserByUsername (bl_Username i) \<noteq> {}"
      "\<And>princ. \<not> local_accepts compare b (bl_Username i) (bl_Password i) princ"
      "local_AuthenticateUser compare (BasicLogin i) n b = Return ((zero_principal, [], Some e), b)"
    | (accepted) princ where "local_accepts compare b (bl_Username i) (bl_Password i) princ"
      "local_AuthenticateUser compare (BasicLogin i) n b = Return ((princ, [], None), b)"
  using assms
proof (cases rule: username_lookup [of _ "bl_Username i"])
  case none
  then show thesis by (intro unknown) (simp_all add: local_AuthenticateUser_def)
next
  case (one k u)
  note acc = local_accepts_hit [OF one(1,2), of compare "bl_Password i"]
  show thesis
  proof (cases "compare (u_Password u) (bl_Password i)")
    case (Some e)
    then show thesis using one acc by (intro refused) (simp_all add: local_AuthenticateUser_def)
  next
    case None
    let ?p = "(user_principal u (getLocalPrincipalID u) None)\<lparr>p_Me := True\<rparr>"
    obtain ok err where c: "CheckAccess ?p b = Return ((ok, err), b)" "ok \<longleftrightarrow> allowed b (getLocalPrincipalID u)"
      using CheckAccess_allowed [OF assms, of ?p] by (auto simp: user_principal_def)
    show thesis
    proof (cases ok)
      case True
      then show thesis using one(4) None c acc by (intro accepted [of ?p]) (simp_all add: local_AuthenticateUser_def)
    next
      case False
      then show thesis using one None c acc by (intro refused) (simp_all add: local_AuthenticateUser_def)
    qed
  qed
next
  case (many k k' objs)
  have no: "\<not> local_accepts compare b (bl_Username i) (bl_Password i) princ" for princ
    using several_elements [OF many(1-3)] by (simp add: local_accepts_def)
  have "objs \<noteq> []" using many(4) by auto
  with many(4,5) show thesis
    by (rule_tac refused) (simp_all add: no several_elements [OF many(1-3)] local_AuthenticateUser_def)
qed

lemma local_accepts_unique:
  assumes "local_accepts compare b n pw princ" "local_accepts compare b n pw princ'"
  shows "princ = princ'"
proof -
  obtain k u where k: "hits (be_users b) UserByUsername n = {k}" "held (be_users b) k (ObjUser u)"
    "princ = (user_principal u (getLocalPrincipalID u) None)\<lparr>p_Me := True\<rparr>"
    using assms(1) unfolding local_accepts_def by blast
  show ?thesis using assms(2) unfolding local_accepts_hit [OF k(1,2)] k(3) by simp
qed

lemma local_accepts_known:
  assumes "local_accepts compare b n pw princ"
  shows "hits (be_users b) UserByUsername n \<noteq> {} \<and> princ \<noteq> zero_principal"
proof -
  obtain k u where "hits (be_users b) UserByUsername n = {k}"
    "princ = (user_principal u (getLocalPrincipalID u) None)\<lparr>p_Me := True\<rparr>"
    using assms unfolding local_accepts_def by blast
  moreover have "\<not> p_Me zero_principal" by (simp add: zero_principal_def)
  moreover have "p_Me ((user_principal u i None)\<lparr>p_Me := True\<rparr>)" for i by simp
  ultimately show ?thesis by (metis insert_not_empty)
qed

interpretation lp: auth_provider "local_provider srv compare" backend_ok "local_accepts compare"
proof
  fix b :: "'a backend" and input n
  assume ok: "backend_ok b"
  show "\<exists>princ info err. ap_AuthenticateUser (local_provider srv compare) input n b = Return ((princ, info, err), b)"
  proof (cases input)
    case (BasicLogin i)
    show ?thesis
      by (rule local_AuthenticateUser_cases [OF ok, of i compare n]) (auto simp: local_provider_def BasicLogin)
  qed (simp add: local_provider_def local_AuthenticateUser_def)
next
  fix b b' :: "'a backend" and i :: basic_login and n princ info
  assume ok: "backend_ok b" and
    r: "ap_AuthenticateUser (local_provider srv compare) (BasicLogin i) n b = Return ((princ, info, None), b')"
  show "princ = zero_principal \<or> local_accepts compare b (bl_Username i) (bl_Password i) princ"
    by (rule local_AuthenticateUser_cases [OF ok, of i compare n]) (use r in \<open>auto simp: local_provider_def\<close>)
next
  fix b :: "'a backend" and i :: basic_login and n princ
  assume ok: "backend_ok b" and a: "local_accepts compare b (bl_Username i) (bl_Password i) princ"
  show "ap_AuthenticateUser (local_provider srv compare) (BasicLogin i) n b = Return ((princ, [], None), b)"
    using ok
  proof (cases rule: local_AuthenticateUser_cases [of _ i compare n])
    case (accepted q)
    have "q = princ" by (rule local_accepts_unique [OF accepted(1) a])
    with accepted show ?thesis by (simp add: local_provider_def)
  qed (use a local_accepts_known [OF a] in auto)
next
  fix b :: "'a backend" and ns tok n
  assume "backend_ok b"
  then show "backend_ok (snd (ap_GenerateToken (local_provider srv compare) ns tok n b))"
    by (simp add: local_provider_def local_GenerateToken_def split: prod.splits)
qed

text \<open>
  C19. Authentication by the local provider: without an error it hands back either the principal of
  the one user with this name, when the password fits the stored hash and the user's name is the login
  name stored under the user's own principal id, or, for a name that no user has, the empty
  principal.
\<close>

theorem AuthenticateUser_exact:
  assumes "backend_ok b"
  shows "local_AuthenticateUser compare (BasicLogin i) n b = Return ((princ, info, None), b') \<longleftrightarrow>
    b' = b \<and> info = [] \<and>
    (local_accepts compare b (bl_Username i) (bl_Password i) princ
     \<or> hits (be_users b) UserByUsername (bl_Username i) = {} \<and> princ = zero_principal)"
proof (cases rule: local_AuthenticateUser_cases [OF assms, of i compare n])
  case 1
  then show ?thesis using local_accepts_known [of compare b "bl_Username i"] by auto
next
  case (2 e)
  then show ?thesis by auto
next
  case (3 q)
  then have "local_accepts compare b (bl_Username i) (bl_Password i) r \<longleftrightarrow> r = q" for r
    using lp.accepts_unique [OF assms] by blast
  then show ?thesis using 3 local_accepts_known [OF 3(1)] by auto
qed

section \<open>Searching\<close>

definition user_matches :: "string \<Rightarrow> user \<Rightarrow> bool" where
  "user_matches key u \<longleftrightarrow> HasPrefix (u_Username u) key \<or> HasPrefix (u_DisplayName u) key
     \<or> HasPrefix (om_Name (u_meta u)) key"

definition only_users :: "informer \<Rightarrow> bool" where
  "only_users ifm \<longleftrightarrow> list_all (\<lambda>x. as_user x \<noteq> None) (tsm_List (inf_indexer ifm))"

lemma users_of_members:
  "list_all (\<lambda>x. \<exists>u. x = Some (ObjUser u)) objs \<Longrightarrow> set (users_of objs) = {u. Some (ObjUser u) \<in> set objs}"
  by (induction objs) auto

lemma set_map_filter_as_user: "set (List.map_filter as_user xs) = {u. ObjUser u \<in> set xs}"
  by (induction xs) (auto simp: map_filter_simps as_obj_Some split: option.splits)

lemma search_by_index:
  assumes "backend_ok b" "length key \<le> 6"
  shows "\<exists>us. listUsersByIndex key b = (us, None) \<and>
    set us = {u. cached (inf_indexer (be_users b)) (ObjUser u) \<and> 2 \<le> length key \<and> user_matches key u}"
proof -
  let ?c = "inf_indexer (be_users b)"
  have ok: "cache_ok userIndexers ?c" using assms(1) by (simp add: backend_ok_def)
  obtain ks where ks: "tsm_ByIndex UserSearchIndex key ?c = Inr (map (map_of (ts_items ?c)) ks)"
    "\<forall>k. k \<in> set ks \<longleftrightarrow> (\<exists>x. map_of (ts_items ?c) k = Some x \<and> key \<in> set (fst (UserSearchIndexer x)))"
    using tsm.by_index_law [OF backend_index(1,6) [OF assms(1)], of key] by blast
  let ?objs = "map (map_of (ts_items ?c)) ks"
  have "\<exists>u. x = ObjUser u" if "key \<in> set (fst (UserSearchIndexer x))" for x
    using that by (cases x) (simp_all add: UserSearchIndexer_def)
  with ks(2) have "list_all (\<lambda>x. \<exists>u. x = Some (ObjUser u)) ?objs" by (fastforce simp: list_all_iff)
  then have "set (users_of ?objs) = {u. Some (ObjUser u) \<in> set ?objs}" by (rule users_of_members)
  moreover have "Some (ObjUser u) \<in> set ?objs \<longleftrightarrow>
      cached ?c (ObjUser u) \<and> 2 \<le> length key \<and> user_matches key u" for u
    using user_search_exact [OF ok ks(1), of u] assms(2) by (auto simp: user_matches_def)
  ultimately show ?thesis using ks(1) by (simp add: listUsersByIndex_def)
qed

lemma search_by_list:
  assumes "only_users (be_users b)"
  shows "\<exists>us. listAllUsers key b = Return (us, None) \<and>
    set us = {u. cached (inf_indexer (be_users b)) (ObjUser u) \<and> user_matches key u}"
proof -
  have "lister_List_all as_user (inf_indexer (be_users b)) =
      Return (List.map_filter as_user (tsm_List (inf_indexer (be_users b))))"
    using assms by (simp add: lister_List_all_def assert_all_ok only_users_def)
  then show ?thesis
    by (auto simp: listAllUsers_def set_map_filter_as_user cached_def user_matches_def)
qed

lemma no_other: "\<not> list_ex (\<lambda>i. False) xs"
  by (induction xs) simp_all

text \<open>
  C20. Searching principals: short keys go through the search index and long ones through a scan of
  the whole cache, and both give the same answer, the principals of exactly the cached users whose
  user name, display name or object name begins with the key; a key of less than two bytes finds
  nothing.
\<close>

theorem SearchPrincipals_exact:
  assumes "backend_ok b" "only_users (be_users b)" "principalType \<in> {[], ''user''}"
  shows "\<exists>ps. local_SearchPrincipals key principalType tok b = Return (ps, None) \<and>
    set ps = {user_principal u (GetLocalPrincipalID u) (Some tok) | u.
      cached (inf_indexer (be_users b)) (ObjUser u) \<and> 2 \<le> length key \<and> user_matches key u}"
proof -
  obtain us where us: "(if SearchIndexDefaultLen < length key then listAllUsers key b
      else Return (listUsersByIndex key b)) = Return (us, None)"
    "set us = {u. cached (inf_indexer (be_users b)) (ObjUser u) \<and> 2 \<le> length key \<and> user_matches key u}"
    using search_by_index [OF assms(1), of key] search_by_list [OF assms(2), of key]
    by (cases "SearchIndexDefaultLen < length key") (auto simp: SearchIndexDefaultLen_def)
  have "local_SearchPrincipals key principalType tok b =
      Return (map (\<lambda>u. user_principal u (GetLocalPrincipalID u) (Some tok)) us, None)"
    using us(1) assms(3) by (auto simp: local_SearchPrincipals_def SearchPrincipalsDedupe_def no_other)
  then show ?thesis using us(2) by auto
qed

text \<open>
  Looking a principal up never finds one: the id that is asked for is not used, and no object has
  an empty name in the empty namespace.
\<close>

theorem GetPrincipal_never:
  assumes "keyed (inf_indexer (be_users b))" "rg_providers rg (t_AuthProvider myToken) = Some (local_provider srv compare)"
    "rg_providers rg ''local'' = Some (local_provider srv compare)"
  shows "\<exists>e. common_GetPrincipal rg principalID myToken b = Return (zero_principal, Some e) \<and> IsNotFound (Some e)"
proof -
  have "local_GetPrincipal i t b = Return (zero_principal, Some (StatusError StatusReasonNotFound []))" for i t
    by (simp add: local_GetPrincipal_def Users_lister_Get_def lister_Get_def tsm_Get_def
        keyed_empty_namespace [OF assms(1)])
  with assms(2,3) show ?thesis by (simp add: common_GetPrincipal_def local_provider_def go_err)
qed

section \<open>Examples\<close>

definition secret_compare :: "string \<Rightarrow> string \<Rightarrow> go_error option" where
  "secret_compare hash password = (if password = ''secret'' then None else Some (Errorf ''mismatch'' []))"

definition settled_backend :: "'w \<Rightarrow> 'w backend" where
  "settled_backend w = sample_backend [settled_user] [owned_principal settled_user (principal_of settled_user)] [] w"

lemma settled_backend_ok: "backend_ok (settled_backend w)"
  unfolding settled_backend_def by (rule sample_backend_ok) simp_all

lemma settled_backend_held:
  "held (be_users (settled_backend w)) k x \<longleftrightarrow> k = ''kube-system/u-1'' \<and> x = ObjUser settled_user"
  "held (be_principals (settled_backend w)) k x \<longleftrightarrow>
     k = ''kube-system/local.kube-system.u-1'' \<and> x = ObjPrincipal (owned_principal settled_user (principal_of settled_user))"
  by (auto simp: held_def settled_backend_def sample_backend_items MetaNamespaceKeyFunc_def principal_of_def
      split: if_splits)

lemma hits_held: "k \<in> hits ifm f v \<longleftrightarrow> (\<exists>x. held ifm k x \<and> v \<in> set (fst (f x)))"
  by (simp add: hits_def held_def)

lemma settled_backend_hits:
  "hits (be_users (settled_backend w)) UserByUsername ''ann'' = {''kube-system/u-1''}"
  "hits (be_users (settled_backend w)) UserByUsername ''bob'' = {}"
  "hits (be_users (settled_backend w)) UserByPrincipal ''local.kube-system.u-1'' = {''kube-system/u-1''}"
  "hits (be_principals (settled_backend w)) PrincipalByID ''local.kube-system.u-1'' =
     {''kube-system/local.kube-system.u-1''}"
proof -
  have "u_Username settled_user = ''ann''" by (simp add: settled_user_def sample_user_def with_principal_id_def)
  then show "hits (be_users (settled_backend w)) UserByUsername ''ann'' = {''kube-system/u-1''}"
    "hits (be_users (settled_backend w)) UserByUsername ''bob'' = {}"
    by (simp_all add: set_eq_iff hits_held settled_backend_held index_fun_hits)
  show "hits (be_users (settled_backend w)) UserByPrincipal ''local.kube-system.u-1'' = {''kube-system/u-1''}"
    "hits (be_principals (settled_backend w)) PrincipalByID ''local.kube-system.u-1'' =
     {''kube-system/local.kube-system.u-1''}"
    by (simp_all add: set_eq_iff hits_held settled_backend_held index_fun_hits principal_of_def)
qed

lemma settled_accepts:
  "local_accepts secret_compare (settled_backend w) ''ann'' ''secret''
     ((user_principal settled_user ''local.kube-system.u-1'' None)\<lparr>p_Me := True\<rparr>)"
proof -
  have i: "getLocalPrincipalID settled_user = ''local.kube-system.u-1''"
    by (simp add: getLocalPrincipalID_def ProviderName_def HasPrefix_def)
  have "user_name_for (settled_backend w) ''local.kube-system.u-1'' (u_Username settled_user)"
    "login_name_for (settled_backend w) ''local.kube-system.u-1'' (u_Username settled_user)"
    by (auto simp: user_name_for_def login_name_for_def settled_backend_hits settled_backend_held principal_of_def)
  then have "allowed (settled_backend w) (getLocalPrincipalID settled_user)" unfolding i allowed_def by blast
  then show ?thesis
    using local_accepts_hit [of "settled_backend w" "''ann''" "''kube-system/u-1''" settled_user secret_compare "''secret''"]
    by (simp add: settled_backend_hits settled_backend_held secret_compare_def i)
qed

definition ann_login :: basic_login where
  "ann_login = \<lparr>bl_GenericLogin = \<lparr>gl_TTLMillis = 57600000, gl_ProviderType = ''local'', gl_Description = [],
     gl_ResponseType = ''json''\<rparr>, bl_Username = ''ann'', bl_Password = ''secret''\<rparr>"

theorem AuthenticateUser_exact_witness:
  "local_AuthenticateUser secret_compare (BasicLogin ann_login) ''local'' (settled_backend NewObjectTracker) =
     Return (((user_principal settled_user ''local.kube-system.u-1'' None)\<lparr>p_Me := True\<rparr>, [], None),
       settled_backend NewObjectTracker)"
  by (rule AuthenticateUser_exact [OF settled_backend_ok, THEN iffD2]) (simp add: ann_login_def settled_accepts)

theorem SearchPrincipals_exact_witness:
  "\<exists>ps. local_SearchPrincipals ''an'' [] zero_token (settled_backend NewObjectTracker) = Return (ps, None)
     \<and> user_principal settled_user ''local.kube-system.u-1'' (Some zero_token) \<in> set ps"
proof -
  have l: "tsm_List (inf_indexer (be_users (settled_backend NewObjectTracker))) = [ObjUser settled_user]"
    by (simp add: tsm_List_def settled_backend_def sample_backend_items)
  have "user_matches ''an'' settled_user"
    by (simp add: user_matches_def HasPrefix_def settled_user_def sample_user_def with_principal_id_def)
  moreover have "only_users (be_users (settled_backend NewObjectTracker))" by (simp add: only_users_def l)
  ultimately show ?thesis
    using SearchPrincipals_exact [OF settled_backend_ok, of NewObjectTracker "[]" "''an''" zero_token]
    by (force simp: cached_def l)
qed

theorem GetPrincipal_never_witness:
  "\<exists>e. common_GetPrincipal (fst (common_Configure ObjectReaction secret_compare (no_providers, settled_backend NewObjectTracker)))
      ''local.kube-system.u-1'' (zero_token\<lparr>t_AuthProvider := ''local''\<rparr>) (settled_backend NewObjectTracker) =
    Return (zero_principal, Some e)"
proof -
  have "keyed (inf_indexer (be_users (settled_backend NewObjectTracker)))"
    using settled_backend_held(1) [of NewObjectTracker] by (simp add: keyed_def held_def)
  then show ?thesis
    using GetPrincipal_never [of "settled_backend NewObjectTracker"
        "fst (common_Configure ObjectReaction secret_compare (no_providers, settled_backend NewObjectTracker))"
        "zero_token\<lparr>t_AuthProvider := ''local''\<rparr>" ObjectReaction secret_compare]
    by (auto simp: common_Configure_def local_Configure_def ProviderName_def)
qed

end
