(* ===== verification/Cube_Http.thy ===== *)
theory Cube_Http
  imports Cube_Util
begin

text \<open>
  \<open>net/http\<close> as the handlers use it, and the two JSON helpers of \<open>util/util.go\<close>.

  A response collects headers until its status is written; what was set by then is what is sent
  (\<open>hr_sent\<close>).  A second status is ignored, and writing a body without a status sends 200.  The JSON
  encoder is the argument \<open>marshal\<close>.
\<close>

record http_cookie =
  ck_Name :: string
  ck_Value :: string
  ck_Secure :: bool
  ck_Path :: string
  ck_HttpOnly :: bool
  ck_MaxAge :: int
  ck_Expires :: "int option"

datatype header_value = Plain string | SetCookie http_cookie

datatype body_part = Bytes string | ErrorText go_error

record http_response =
  hr_header :: "(string \<times> header_value) list"
  hr_code :: "nat option"
  hr_sent :: "(string \<times> header_value) list"
  hr_body :: "body_part list"

definition new_response :: http_response where
  "new_response = \<lparr>hr_header = [], hr_code = None, hr_sent = [], hr_body = []\<rparr>"

definition WriteHeader :: "nat \<Rightarrow> http_response \<Rightarrow> http_response" where
  "WriteHeader code w =
     (if hr_code w = None then w\<lparr>hr_code := Some code, hr_sent := hr_header w\<rparr> else w)"

definition Header_Set :: "string \<Rightarrow> string \<Rightarrow> http_response \<Rightarrow> http_response" where
  "Header_Set k v w = w\<lparr>hr_header := filter (\<lambda>(k', _). k' \<noteq> k) (hr_header w) @ [(k, Plain v)]\<rparr>"

definition http_SetCookie :: "http_cookie \<Rightarrow> http_response \<Rightarrow> http_response" where
  "http_SetCookie c w = w\<lparr>hr_header := hr_header w @ [(''Set-Cookie'', SetCookie c)]\<rparr>"

definition http_Write :: "body_part \<Rightarrow> http_response \<Rightarrow> http_response" where
  "http_Write x w = (let w1 = WriteHeader 200 w in w1\<lparr>hr_body := hr_body w1 @ [x]\<rparr>)"

text \<open>When the handler returns, a response without a status is sent with 200.\<close>

definition finish_response :: "http_response \<Rightarrow> http_response" where
  "finish_response w = WriteHeader 200 w"

definition http_Error :: "body_part \<Rightarrow> nat \<Rightarrow> http_response \<Rightarrow> http_response" where
  "http_Error msg code w =
     http_Write (Bytes [CHR 0x0A])
       (http_Write msg
         (WriteHeader code
           (Header_Set ''X-Content-Type-Options'' ''nosniff''
             (Header_Set ''Content-Type'' ''text/plain; charset=utf-8'' w))))"

datatype payload = ErrorMsg go_error | TokenBody token

definition JSONResponse ::
    "(payload \<Rightarrow> go_error + string) \<Rightarrow> payload \<Rightarrow> nat \<Rightarrow> http_response \<Rightarrow> http_response" where
  "JSONResponse marshal response statusCode w =
     (case marshal response of
        Inl err \<Rightarrow> http_Error (ErrorText err) 500 w
      | Inr json \<Rightarrow>
          http_Write (Bytes json) (Header_Set ''Content-Type'' ''application/json'' (WriteHeader statusCode w)))"

definition JSONErrorResponse ::
    "(payload \<Rightarrow> go_error + string) \<Rightarrow> go_error \<Rightarrow> nat \<Rightarrow> http_response \<Rightarrow> http_response" where
  "JSONErrorResponse marshal err statusCode w =
     (case marshal (ErrorMsg err) of
        Inl err1 \<Rightarrow> http_Error (ErrorText err1) 500 w
      | Inr json \<Rightarrow>
          http_Write (Bytes json) (Header_Set ''Content-Type'' ''application/json'' (WriteHeader statusCode w)))"

lemmas http_defs = WriteHeader_def Header_Set_def http_SetCookie_def http_Write_def http_Error_def

text \<open>The status is written before the content type is set, so the content type is never sent.\<close>

lemma JSON_content_type_lost:
  assumes "hr_code w = None" "marshal x = Inr json"
  shows "hr_code (JSONResponse marshal x code w) = Some code"
    "hr_sent (JSONResponse marshal x code w) = hr_header w"
    "hr_body (JSONResponse marshal x code w) = hr_body w @ [Bytes json]"
  using assms by (simp_all add: JSONResponse_def http_defs Let_def)

lemma JSONErrorResponse_JSONResponse: "JSONErrorResponse marshal e = JSONResponse marshal (ErrorMsg e)"
  by (simp add: fun_eq_iff JSONErrorResponse_def JSONResponse_def)

lemma JSON_body_never_empty: "hr_body (JSONResponse marshal x code w) \<noteq> [] \<and> hr_code (JSONResponse marshal x code w) \<noteq> None"
  by (simp add: JSONResponse_def http_defs Let_def split: sum.splits)

end
