(* ===== verification/Cube_Login.thy ===== *)
theory Cube_Login
  imports Cube_Local_Provider Cube_Http
begin

text \<open>
  Logging in and out: \<open>backend/insecure/insecure.go\<close> and \<open>api/insecure.go\<close>.

  What the code takes from outside is the record \<open>login_env\<close>: the API server, the registered
  providers, \<open>json.Unmarshal\<close> into the two login structures, \<open>json.Marshal\<close>, the signing of a JWT, the
  clock readings, and the rounding of durations.
\<close>

record 'w login_env =
  le_srv :: "'w api_server"
  le_providers :: "'w registry"
  le_unmarshal_generic :: "string \<Rightarrow> go_error + generic_login"
  le_unmarshal_basic :: "string \<Rightarrow> go_error + basic_login"
  le_marshal :: "payload \<Rightarrow> go_error + string"
  le_sign :: "jwt_claims \<Rightarrow> go_error + string"
  le_now_exp :: int
  le_now_iat :: int
  le_seconds :: "int \<Rightarrow> real"
  le_now :: int

record login_request = http_request +
  rq_Body :: "go_error + string"

section \<open>Making a token\<close>

definition CreateOrUpdateToken ::
    "'w login_env \<Rightarrow> token \<Rightarrow> 'w backend \<Rightarrow> ((token \<times> go_error option) \<times> 'w backend) outcome" where
  "CreateOrUpdateToken env tok b =
     (case GenerateToken (le_sign env) (le_now_exp env) (le_now_iat env) (t_TTLMillis tok) of
        Inl err \<Rightarrow> Return ((zero_token, Some (Errorf ''RancherCUBE: failed to generate token key'' [])), b)
      | Inr key \<Rightarrow>
          (let tok1 = tok\<lparr>t_Token := key,
                 t_meta := zero_meta\<lparr>om_GenerateName := ''token-'',
                   om_Labels := [(UserIDLabel, t_UserID tok)]\<rparr>\<rparr>
           in bind_outcome (common_GenerateToken (le_providers env)
                  (om_Namespace (p_meta (t_UserPrincipal tok1))) tok1 (t_AuthProvider tok1) b)
                (\<lambda>((generateToken, err), b1).
                   if err \<noteq> None \<and> \<not> IsAlreadyExists err then Return ((zero_token, err), b1)
                   else
                     (case Tokens_Update (le_srv env) (om_Namespace (p_meta (t_UserPrincipal tok1)))
                           (SetTokenExpiresAt generateToken) (be_world b1) of
                        ((generateToken1, err1), w) \<Rightarrow>
                          if err1 \<noteq> None then Return ((zero_token, err1), b1\<lparr>be_world := w\<rparr>)
                          else Return ((generateToken1, None), b1\<lparr>be_world := w\<rparr>)))))"

definition new_login_token :: "string \<Rightarrow> principal \<Rightarrow> string_map \<Rightarrow> int64 \<Rightarrow> string \<Rightarrow> token" where
  "new_login_token userID userPrincipal providerInfo ttl description = zero_token\<lparr>
     t_APIVersion := ''cube.rancher.io/v1alpha1'', t_Kind := ''Token'',
     t_UserPrincipal := userPrincipal, t_IsDerived := True, t_TTLMillis := ttl, t_ExpiresAt := [],
     t_UserID := userID, t_AuthProvider := GetAuthProviderName (om_Name (p_meta userPrincipal)),
     t_ProviderInfo := providerInfo, t_Description := description\<rparr>"

lemma new_login_token_sel [simp]:
  "t_UserPrincipal (new_login_token uid princ info ttl d) = princ" "t_TTLMillis (new_login_token uid princ info ttl d) = ttl"
  "t_UserID (new_login_token uid princ info ttl d) = uid"
  "t_AuthProvider (new_login_token uid princ info ttl d) = GetAuthProviderName (om_Name (p_meta princ))"
  by (simp_all add: new_login_token_def)

definition NewLoginToken ::
    "'w login_env \<Rightarrow> string \<Rightarrow> principal \<Rightarrow> string_map \<Rightarrow> int64 \<Rightarrow> string \<Rightarrow> 'w backend
       \<Rightarrow> ((token \<times> go_error option) \<times> 'w backend) outcome" where
  "NewLoginToken env userID userPrincipal providerInfo ttl description b =
     CreateOrUpdateToken env (new_login_token userID userPrincipal providerInfo ttl description) b"

text \<open>The result: the token, the wanted response type, the error.\<close>

definition CreateLoginToken ::
    "'w login_env \<Rightarrow> login_request \<Rightarrow> 'w backend
       \<Rightarrow> ((token \<times> string \<times> go_error option) \<times> 'w backend) outcome" where
  "CreateLoginToken env req b =
     (case rq_Body req of
        Inl err \<Rightarrow> Return ((zero_token, ''cookie'',
          Wrap (Some err) ''RancherCUBE: server error while authenticating''), b)
      | Inr body \<Rightarrow>
     (case le_unmarshal_generic env body of
        Inl err \<Rightarrow> Return ((zero_token, [], Wrap (Some err) ''RancherCUBE: server error while authenticating''), b)
      | Inr generic \<Rightarrow>
          if gl_ProviderType generic \<noteq> ''local'' then
            Return ((zero_token, gl_ResponseType generic,
              Wrap None ''RancherCUBE: unknown authentication provider''), b)
          else
     (case le_unmarshal_basic env body of
        Inl err \<Rightarrow> Return ((zero_token, gl_ResponseType generic,
          Wrap (Some err) ''RancherCUBE: server error while authenticating''), b)
      | Inr input \<Rightarrow>
          bind_outcome (common_AuthenticateUser (le_providers env) (BasicLogin input) (gl_ProviderType generic) b)
            (\<lambda>((userPrincipal, providerInfo, err), b1).
               if err \<noteq> None then Return ((zero_token, gl_ResponseType generic, err), b1)
               else
                 (let displayName = (if p_DisplayName userPrincipal = [] then p_LoginName userPrincipal
                                     else p_DisplayName userPrincipal)
                  in bind_outcome (EnsureUser (le_srv env) (om_Name (p_meta userPrincipal)) displayName b1)
                       (\<lambda>((user, err1), b2).
                          if err1 \<noteq> None then Return ((zero_token, gl_ResponseType generic, err1), b2)
                          else (case user of
                             None \<Rightarrow> nil_deref
                           | Some u \<Rightarrow>
                               bind_outcome (NewLoginToken env (om_Name (u_meta u)) userPrincipal providerInfo
                                   (gl_TTLMillis generic) (gl_Description generic) b2)
                                 (\<lambda>((rToken, err2), b3).
                                    Return ((rToken, gl_ResponseType generic, err2), b3)))))))))"

section \<open>The handlers\<close>

definition token_text :: "token \<Rightarrow> string" where
  "token_text tok = om_Name (t_meta tok) @ '':'' @ t_Token tok"

definition login_response ::
    "'w login_env \<Rightarrow> login_request \<Rightarrow> string \<Rightarrow> token \<Rightarrow> http_response \<Rightarrow> http_response" where
  "login_response env req responseType tok w =
     (if responseType = ''cookie'' then
        http_SetCookie
          \<lparr>ck_Name = CookieName, ck_Value = token_text tok, ck_Secure = (rq_Scheme req = ''https''),
           ck_Path = ''/'', ck_HttpOnly = True, ck_MaxAge = 0, ck_Expires = None\<rparr> w
      else JSONResponse (le_marshal env) (TokenBody (tok\<lparr>t_Token := token_text tok\<rparr>)) 201 w)"

definition Login ::
    "'w login_env \<Rightarrow> login_request \<Rightarrow> http_response \<times> 'w backend
       \<Rightarrow> (go_error option \<times> http_response \<times> 'w backend) outcome" where
  "Login env req = (\<lambda>(w, b).
     bind_outcome (CreateLoginToken env req b) (\<lambda>((tok, responseType, err), b1).
       case err of
         Some e \<Rightarrow> Return (err, JSONErrorResponse (le_marshal env) e 401 w, b1)
       | None \<Rightarrow> Return (None, login_response env req responseType tok w, b1)))"

text \<open>The cookie is taken back with a time in the past: 10 February 1982, 23:00 UTC, in Unix seconds.\<close>

definition taken_back :: "login_request \<Rightarrow> http_cookie" where
  "taken_back req =
     \<lparr>ck_Name = CookieName, ck_Value = [], ck_Secure = (rq_Scheme req = ''https''), ck_Path = ''/'',
      ck_HttpOnly = True, ck_MaxAge = -1, ck_Expires = Some 382230000\<rparr>"

definition Logout ::
    "'w login_env \<Rightarrow> login_request \<Rightarrow> http_response \<times> 'w backend
       \<Rightarrow> (go_error option \<times> http_response \<times> 'w backend) outcome" where
  "Logout env req = (\<lambda>(w, b).
     (let tokenAuthValue = GetTokenAuthFromRequest (http_request.truncate req) in
      if tokenAuthValue = [] then
        (let err = Errorf ''RancherCUBE: no valid token cookie or auth header'' []
         in Return (Some err, JSONErrorResponse (le_marshal env) err 401 w, b))
      else
        (let w1 = http_SetCookie (taken_back req) w
         in bind_outcome (GetStoredToken (le_srv env) (le_seconds env) (le_now env) tokenAuthValue b)
              (\<lambda>((storedToken, statusCode, err), b1).
                 if err \<noteq> None then Return (if statusCode = 404 then None else err, w1, b1)
                 else (case storedToken of
                    None \<Rightarrow> nil_deref
                  | Some tok \<Rightarrow>
                      bind_outcome (common_DeleteToken (le_providers env) tok (t_AuthProvider tok) b1)
                        (\<lambda>(err1, b2). Return (err1, w1, b2)))))))"

section \<open>No token without a password\<close>

lemma EnsureUser_running:
  assumes "backend_ok b"
  obtains (found) u where "CheckUserCache i b = Return ((Some u, None), b)"
      "EnsureUser srv i d b = Return ((Some u, None), b)"
    | (failed) e where "EnsureUser srv i d b = Return ((None, Some e), b)"
proof -
  obtain u err where c: "CheckUserCache i b = Return ((Some u, err), b)" using lookup_answers(1) [OF assms] by blast
  show thesis
  proof (cases err)
    case None
    with c show thesis by (intro found [of u]) (simp_all add: EnsureUser_def)
  next
    case (Some e)
    with c show thesis by (intro failed [of e]) (simp_all add: EnsureUser_def)
  qed
qed

lemma CreateLoginToken_parsed:
  assumes "rq_Body req = Inr body" "le_unmarshal_generic env body = Inr generic" "gl_ProviderType generic = ''local''"
    "le_unmarshal_basic env body = Inr input"
    "common_AuthenticateUser (le_providers env) (BasicLogin input) ''local'' b = Return ((princ, info, None), b)"
    "CheckUserCache (om_Name (p_meta princ)) b = Return ((Some u, None), b)"
  shows "CreateLoginToken env req b =
    bind_outcome (NewLoginToken env (om_Name (u_meta u)) princ info (gl_TTLMillis generic) (gl_Description generic) b)
      (\<lambda>((rToken, err2), b3). Return ((rToken, gl_ResponseType generic, err2), b3))"
  using assms by (simp add: CreateLoginToken_def EnsureUser_def)

text \<open>The empty principal has no provider: making a token for it fails to sign or panics.\<close>

lemma NewLoginToken_no_provider:
  assumes "GetAuthProviderName (om_Name (p_meta princ)) = n" "rg_providers (le_providers env) n = None"
  shows "(\<exists>m. NewLoginToken env uid princ info ttl d b = Panic m)
    \<or> (\<exists>e. NewLoginToken env uid princ info ttl d b = Return ((zero_token, Some e), b))"
  using assms
  by (auto simp: NewLoginToken_def CreateOrUpdateToken_def new_login_token_def common_GenerateToken_def Let_def
      split: sum.splits)

text \<open>What logging in needs besides the contract of a provider: lookups that work.\<close>

locale login_service = auth_provider p ready accepts
  for p :: "'w auth_provider" and ready and accepts +
  assumes ready_backend: "ready b \<Longrightarrow> backend_ok b"
begin

lemma login_safe:
  assumes "ready b" "rg_providers (le_providers env) = [''local'' \<mapsto> p]"
    and "CreateLoginToken env req b = Return ((tok, rt, err), b')"
  shows "(\<exists>body input princ. rq_Body req = Inr body \<and> le_unmarshal_basic env body = Inr input
      \<and> accepts b (bl_Username input) (bl_Password input) princ) \<or> tok = zero_token \<and> b' = b"
proof (cases "\<exists>body generic input. rq_Body req = Inr body \<and> le_unmarshal_generic env body = Inr generic
      \<and> gl_ProviderType generic = ''local'' \<and> le_unmarshal_basic env body = Inr input")
  case False
  then have "tok = zero_token \<and> b' = b"
    using assms(3) by (auto simp: CreateLoginToken_def split: sum.splits if_splits)
  then show ?thesis ..
next
  case True
  then obtain body generic input where parsed: "rq_Body req = Inr body" "le_unmarshal_generic env body = Inr generic"
    "gl_ProviderType generic = ''local''" "le_unmarshal_basic env body = Inr input" by blast
  obtain princ info err1 where a:
    "ap_AuthenticateUser p (BasicLogin input) ''local'' b = Return ((princ, info, err1), b)"
    using authenticate_answers [OF assms(1), of "BasicLogin input" "''local''"] by blast
  then have a': "common_AuthenticateUser (le_providers env) (BasicLogin input) ''local'' b = Return ((princ, info, err1), b)"
    by (simp add: common_AuthenticateUser_def assms(2))
  show ?thesis
  proof (cases err1)
    case (Some e)
    then have "tok = zero_token \<and> b' = b" using assms(3) a' parsed by (auto simp: CreateLoginToken_def)
    then show ?thesis ..
  next
    case None
    note sound = authenticate_sound [OF assms(1), of input "''local''" princ info b] a [unfolded None]
    show ?thesis
    proof (cases "accepts b (bl_Username input) (bl_Password input) princ")
      case True
      with parsed show ?thesis by blast
    next
      case False
      with sound have zero: "princ = zero_principal" by blast
      have "GetAuthProviderName (om_Name (p_meta princ)) = []"
        by (simp add: zero GetAuthProviderName_def split_on_hd)
      then have "rg_providers (le_providers env) (GetAuthProviderName (om_Name (p_meta princ))) = None"
        by (simp add: assms(2))
      note np = NewLoginToken_no_provider [OF refl this]
      have "tok = zero_token \<and> b' = b"
      proof (rule EnsureUser_running [OF ready_backend [OF assms(1)]])
        fix u assume "CheckUserCache (om_Name (p_meta princ)) b = Return ((Some u, None), b)"
        from CreateLoginToken_parsed [OF parsed a' [unfolded None] this] assms(3) show ?thesis
          using np [of "om_Name (u_meta u)" info "gl_TTLMillis generic" "gl_Description generic" b] by auto
      next
        fix e assume "EnsureUser (le_srv env) (om_Name (p_meta princ))
            (if p_DisplayName princ = [] then p_LoginName princ else p_DisplayName princ) b = Return ((None, Some e), b)"
        with assms(3) a' None parsed show ?thesis by (auto simp: CreateLoginToken_def Let_def)
      qed
      then show ?thesis ..
    qed
  qed
qed

end

interpretation ls: login_service "local_provider srv compare" backend_ok "local_accepts compare"
  by unfold_locales simp

text \<open>
  The login of a name that no user has: \<open>errors.Wrap\<close> of no error is no error, so the login goes on with
  the empty principal, and the key is signed before the provider of this principal is looked for.
\<close>

definition nobody_named :: "'w login_env \<Rightarrow> login_request \<Rightarrow> 'w backend \<Rightarrow> bool" where
  "nobody_named env req b \<longleftrightarrow>
     (\<exists>body generic input key. rq_Body req = Inr body \<and> le_unmarshal_generic env body = Inr generic
        \<and> gl_ProviderType generic = ''local'' \<and> le_unmarshal_basic env body = Inr input
        \<and> hits (be_users b) UserByUsername (bl_Username input) = {}
        \<and> GenerateToken (le_sign env) (le_now_exp env) (le_now_iat env) (gl_TTLMillis generic) = Inr key
        \<and> (\<forall>j \<in> hits (be_users b) UserByPrincipal []. \<forall>k \<in> hits (be_users b) UserByPrincipal []. j = k))"

definition unknown_provider :: "'w login_env \<Rightarrow> login_request \<Rightarrow> string \<Rightarrow> bool" where
  "unknown_provider env req responseType \<longleftrightarrow>
     (\<exists>body generic. rq_Body req = Inr body \<and> le_unmarshal_generic env body = Inr generic
        \<and> gl_ProviderType generic \<noteq> ''local'' \<and> responseType = gl_ResponseType generic)"

text \<open>Which logins that no user may make come to an end, and which of these without an error.\<close>

lemma CreateLoginToken_denied:
  assumes "backend_ok b" "rg_providers (le_providers env) = [''local'' \<mapsto> local_provider srv compare]"
    and "\<And>body input princ. rq_Body req = Inr body \<Longrightarrow> le_unmarshal_basic env body = Inr input \<Longrightarrow>
      \<not> local_accepts compare b (bl_Username input) (bl_Password input) princ"
  shows "if nobody_named env req b then CreateLoginToken env req b = nil_deref
    else \<exists>tok rt err b'. CreateLoginToken env req b = Return ((tok, rt, err), b') \<and> (err = None \<longrightarrow> unknown_provider env req rt)"
proof (cases "\<exists>body generic input. rq_Body req = Inr body \<and> le_unmarshal_generic env body = Inr generic
      \<and> gl_ProviderType generic = ''local'' \<and> le_unmarshal_basic env body = Inr input")
  case False
  then have "\<not> nobody_named env req b" unfolding nobody_named_def by blast
  then show ?thesis using False
    by (auto simp: CreateLoginToken_def unknown_provider_def split: sum.splits)
next
  case True
  then obtain body generic input where parsed: "rq_Body req = Inr body" "le_unmarshal_generic env body = Inr generic"
    "gl_ProviderType generic = ''local''" "le_unmarshal_basic env body = Inr input" by blast
  have auth: "common_AuthenticateUser (le_providers env) (BasicLogin input) ''local'' b =
      local_AuthenticateUser compare (BasicLogin input) ''local'' b"
    by (simp add: common_AuthenticateUser_def assms(2) local_provider_def)
  from assms(1) show ?thesis
  proof (cases rule: local_AuthenticateUser_cases [where i = input and compare = compare and n = "''local''"])
    case unknown
    let ?one = "\<forall>j \<in> hits (be_users b) UserByPrincipal []. \<forall>k \<in> hits (be_users b) UserByPrincipal []. j = k"
    let ?signed = "GenerateToken (le_sign env) (le_now_exp env) (le_now_iat env) (gl_TTLMillis generic)"
    have named: "nobody_named env req b \<longleftrightarrow> (\<exists>key. ?signed = Inr key) \<and> ?one"
      using parsed unknown(1) by (simp add: nobody_named_def)
    have nameless: "om_Name (p_meta zero_principal) = []" by (simp add: zero_principal_def zero_meta_def)
    have found: ?thesis if u: "CheckUserCache [] b = Return ((Some u, None), b)" and ?one for u
    proof -
      have "CreateLoginToken env req b =
          bind_outcome (NewLoginToken env (om_Name (u_meta u)) zero_principal [] (gl_TTLMillis generic) (gl_Description generic) b)
            (\<lambda>((rToken, err2), b3). Return ((rToken, gl_ResponseType generic, err2), b3))"
        by (rule CreateLoginToken_parsed [OF parsed]) (simp_all add: auth unknown(2) u nameless)
      then show ?thesis using \<open>?one\<close> named
        by (cases ?signed) (simp_all add: NewLoginToken_def CreateOrUpdateToken_def new_login_token_def common_GenerateToken_def
            assms(2) GetAuthProviderName_def nameless Let_def)
    qed
    from assms(1) show ?thesis
    proof (cases rule: CheckUserCache_cases [where i = "[]"])
      case none
      show ?thesis by (rule found [OF none(2)]) (simp add: none(1))
    next
      case (one k u)
      show ?thesis by (rule found [OF one(4)]) (simp add: one(1))
    next
      case (many k k' e)
      then have "\<not> nobody_named env req b" using named by blast
      then show ?thesis using parsed many by (simp add: CreateLoginToken_def auth unknown(2) EnsureUser_def nameless)
    qed
  next
    case (refused e)
    then have "\<not> nobody_named env req b" using parsed by (auto simp: nobody_named_def)
    then show ?thesis using parsed by (simp add: CreateLoginToken_def auth refused(3))
  next
    case (accepted princ)
    with assms(3) [OF parsed(1,4)] show ?thesis by blast
  qed
qed

text \<open>
  C21. Whoever cannot name a user and the user's password gets nothing, however the login ends.  It
  panics, for the recovery of the server to answer, exactly when no user has the name (and the key could
  be signed, and no two users have an empty principal id); else it sends nothing to the cluster and
  answers with an error and status 401, or, for another kind of provider than \<open>local\<close>, with the token
  text \<open>:\<close>, which every lookup refuses with 404.
\<close>

theorem Login_needs_password:
  assumes "backend_ok b" "rg_providers (le_providers env) = [''local'' \<mapsto> local_provider srv compare]"
    and "\<And>body input princ. rq_Body req = Inr body \<Longrightarrow> le_unmarshal_basic env body = Inr input \<Longrightarrow>
      \<not> local_accepts compare b (bl_Username input) (bl_Password input) princ"
  shows "if nobody_named env req b then Login env req (w, b) = nil_deref
    else \<exists>err w'. Login env req (w, b) = Return (err, w', b)
      \<and> (case err of
           Some e \<Rightarrow> w' = JSONErrorResponse (le_marshal env) e 401 w
         | None \<Rightarrow> (\<exists>responseType. unknown_provider env req responseType
               \<and> w' = login_response env req responseType zero_token w)
             \<and> token_text zero_token = '':''
             \<and> (\<exists>e. GetStoredToken (le_srv env) (le_seconds env) (le_now env) '':'' b = Return ((None, 404, Some e), b)))"
proof -
  have denied: "if nobody_named env req b then CreateLoginToken env req b = nil_deref
      else \<exists>tok rt err b'. CreateLoginToken env req b = Return ((tok, rt, err), b') \<and> (err = None \<longrightarrow> unknown_provider env req rt)"
    by (rule CreateLoginToken_denied [OF assms(1,2)]) (rule assms(3))
  show ?thesis
  proof (cases "nobody_named env req b")
    case True
    with denied show ?thesis by (simp add: Login_def)
  next
    case False
    with denied obtain tok rt err b'
      where c: "CreateLoginToken env req b = Return ((tok, rt, err), b')" "err = None \<longrightarrow> unknown_provider env req rt" by auto
    have z: "tok = zero_token" "b' = b" using ls.login_safe [OF assms(1,2) c(1)] assms(3) by blast+
    have "SplitTokenParts '':'' = ([], [])" by (simp add: SplitTokenParts_def)
    then have "\<exists>e. GetStoredToken (le_srv env) (le_seconds env) (le_now env) '':'' b = Return ((None, 404, Some e), b)"
      by (simp add: GetStoredToken_def)
    moreover have "token_text zero_token = '':''" by (simp add: token_text_def zero_token_def zero_meta_def)
    ultimately show ?thesis using False c z by (cases err) (auto simp: Login_def)
  qed
qed

section \<open>A login\<close>

text \<open>
  A user whose record has the id of its principal, as a pass of the user controller leaves it, and
  who is told apart by the user name and by this id.
\<close>

definition can_log_in :: "'w backend \<Rightarrow> user \<Rightarrow> bool" where
  "can_log_in b u \<longleftrightarrow>
     (\<exists>k kp princ. hits (be_users b) UserByUsername (u_Username u) = {k} \<and> held (be_users b) k (ObjUser u)
        \<and> getLocalPrincipalID u \<noteq> [] \<and> hits (be_users b) UserByPrincipal (getLocalPrincipalID u) = {k}
        \<and> hits (be_principals b) PrincipalByID (getLocalPrincipalID u) = {kp}
        \<and> held (be_principals b) kp (ObjPrincipal princ) \<and> p_LoginName princ = u_Username u)"

definition own_principal :: "user \<Rightarrow> principal" where
  "own_principal u = (user_principal u (getLocalPrincipalID u) None)\<lparr>p_Me := True\<rparr>"

lemma own_principal_sel [simp]:
  "om_Name (p_meta (own_principal u)) = getLocalPrincipalID u"
  "om_Namespace (p_meta (own_principal u)) = om_Namespace (u_meta u)"
  by (simp_all add: own_principal_def user_principal_def)

lemma can_log_in_accepts:
  assumes "can_log_in b u" "compare (u_Password u) pw = None"
  shows "local_accepts compare b (u_Username u) pw (own_principal u)"
proof -
  have "user_name_for b (getLocalPrincipalID u) (u_Username u)" "login_name_for b (getLocalPrincipalID u) (u_Username u)"
    using assms(1) unfolding can_log_in_def user_name_for_def login_name_for_def by metis+
  then have "allowed b (getLocalPrincipalID u)" unfolding allowed_def by blast
  with assms show ?thesis unfolding local_accepts_def can_log_in_def own_principal_def by blast
qed

lemma can_log_in_ensured:
  assumes "backend_ok b" "can_log_in b u"
  shows "CheckUserCache (getLocalPrincipalID u) b = Return ((Some u, None), b)"
proof -
  obtain k where k: "hits (be_users b) UserByPrincipal (getLocalPrincipalID u) = {k}" "held (be_users b) k (ObjUser u)"
    using assms(2) unfolding can_log_in_def by blast
  show ?thesis using assms(1)
  proof (cases rule: CheckUserCache_cases [of _ "getLocalPrincipalID u"])
    case (one k' v)
    with k have "v = u" by (simp add: held_def)
    with one show ?thesis by simp
  next
    case none
    with k show ?thesis by simp
  next
    case (many i j e)
    with k show ?thesis by simp
  qed
qed

lemma getLocalPrincipalID_provider:
  assumes "getLocalPrincipalID u \<noteq> []"
  shows "GetAuthProviderName (getLocalPrincipalID u) = ''local''"
proof -
  let ?f = "filter (\<lambda>p. HasPrefix p ''local.'') (u_PrincipalIDs u)"
  have "getLocalPrincipalID u = last ([] # ?f)"
    unfolding getLocalPrincipalID_def ProviderName_def by (simp add: foldl_last_local)
  with assms last_in_set [of ?f] have "getLocalPrincipalID u \<in> set ?f" by (cases "?f = []") auto
  then have "HasPrefix (getLocalPrincipalID u) ''local.''" by simp
  then obtain rest where "getLocalPrincipalID u = ''local.'' @ rest" using HasPrefix_iff_append by blast
  then show ?thesis using GetAuthProviderName_local [of rest] by simp
qed

text \<open>
  The API server names an object that comes with a \<open>GenerateName\<close> and stamps its creation: the
  object tracker with this added.  \<open>suffix\<close> picks the end of the name, \<open>created\<close> is the time.
\<close>

definition assign_name :: "string \<Rightarrow> int \<Rightarrow> k8s_obj \<Rightarrow> k8s_obj" where
  "assign_name suffix created x =
     (let m = obj_meta x in
      if om_Name m = [] \<and> om_GenerateName m \<noteq> []
        then set_obj_meta (m\<lparr>om_Name := om_GenerateName m @ suffix, om_CreationTimestamp := created\<rparr>) x
        else x)"

definition generating_server :: "(tracker \<Rightarrow> string) \<Rightarrow> int \<Rightarrow> tracker api_server" where
  "generating_server suffix created = ObjectReaction\<lparr>api_create :=
     (\<lambda>r ns x w. react_add False r ns (assign_name (suffix w) created x) w)\<rparr>"

lemma generating_create:
  assumes "rest_error POST r ns None = None"
  shows "client_create (generating_server suffix created) r ns x w =
    client_create ObjectReaction r ns (assign_name (suffix w) created x) w"
  using assms by (simp add: client_create_def generating_server_def)

lemma generating_update:
  "client_update (generating_server suffix created) = client_update ObjectReaction"
  by (simp add: fun_eq_iff client_update_def generating_server_def split: option.split)

lemma generating_delete:
  "client_delete (generating_server suffix created) = client_delete ObjectReaction"
  by (simp add: fun_eq_iff client_delete_def generating_server_def split: option.split)

definition issued_token :: "user \<Rightarrow> string \<Rightarrow> int64 \<Rightarrow> string \<Rightarrow> string \<Rightarrow> int \<Rightarrow> token" where
  "issued_token u key ttl description name created = SetTokenExpiresAt
     ((new_login_token (om_Name (u_meta u)) (own_principal u) [] ttl description)\<lparr>t_Token := key,
        t_meta := zero_meta\<lparr>om_Name := name, om_GenerateName := ''token-'', om_Namespace := om_Namespace (u_meta u),
          om_CreationTimestamp := created, om_Labels := [(UserIDLabel, om_Name (u_meta u))]\<rparr>\<rparr>)"

lemma SetTokenExpiresAt_sel [simp]:
  "t_meta (SetTokenExpiresAt t) = t_meta t" "t_Token (SetTokenExpiresAt t) = t_Token t"
  "t_TTLMillis (SetTokenExpiresAt t) = t_TTLMillis t" "t_UserID (SetTokenExpiresAt t) = t_UserID t"
  "t_AuthProvider (SetTokenExpiresAt t) = t_AuthProvider t"
  by (simp_all add: SetTokenExpiresAt_def)

lemma issued_token_sel [simp]:
  "om_Name (t_meta (issued_token u key ttl d n c)) = n" "t_Token (issued_token u key ttl d n c) = key"
  "om_Namespace (t_meta (issued_token u key ttl d n c)) = om_Namespace (u_meta u)"
  "om_CreationTimestamp (t_meta (issued_token u key ttl d n c)) = c"
  "t_TTLMillis (issued_token u key ttl d n c) = ttl" "t_UserID (issued_token u key ttl d n c) = om_Name (u_meta u)"
  by (simp_all add: issued_token_def new_login_token_def)

lemma NewLoginToken_issues:
  fixes b :: "tracker backend" and u :: user
  defines "ns \<equiv> om_Namespace (u_meta u)" and "i \<equiv> getLocalPrincipalID u"
  assumes env: "le_srv env = generating_server suffix created"
    "rg_providers (le_providers env) = [''local'' \<mapsto> local_provider (le_srv env) compare]"
    "GenerateToken (le_sign env) (le_now_exp env) (le_now_iat env) ttl = Inr key"
    and i: "i \<noteq> []"
    and w: "tracker_ok (be_world b)" "ns \<noteq> []" "path_segment_ok ns"
    and n: "n = ''token-'' @ suffix (be_world b)" "path_segment_ok n" "tracker_stored (be_world b) RTokens ns n = None"
  obtains w' where
    "NewLoginToken env (om_Name (u_meta u)) (own_principal u) [] ttl d b =
       Return ((issued_token u key ttl d n created, None), b\<lparr>be_world := w'\<rparr>)" "tracker_ok w'"
    "tracker_stored w' = stored_put RTokens ns n (ObjToken (issued_token u key ttl d n created)) (tracker_stored (be_world b))"
proof -
  let ?tok = "new_login_token (om_Name (u_meta u)) (own_principal u) [] ttl d"
  let ?m = "zero_meta\<lparr>om_GenerateName := ''token-'', om_Labels := [(UserIDLabel, om_Name (u_meta u))]\<rparr>"
  let ?t1 = "?tok\<lparr>t_Token := key, t_meta := ?m\<rparr>"
  let ?m2 = "?m\<lparr>om_Name := n, om_CreationTimestamp := created\<rparr>"
  let ?t2 = "?tok\<lparr>t_Token := key, t_meta := ?m2\<rparr>"
  let ?t3 = "?tok\<lparr>t_Token := key, t_meta := ?m2\<lparr>om_Namespace := ns\<rparr>\<rparr>"
  have named: "assign_name (suffix (be_world b)) created (ObjToken ?t1) = ObjToken ?t2"
    by (simp add: assign_name_def n(1))
  have put: "propagate_namespace ns (ObjToken ?t2) = ObjToken ?t3"
    by (simp add: propagate_namespace_def)
  have wn: "well_named RTokens ns (ObjToken ?t2)" using w(2) n(1) by (simp add: well_named_def)
  have post: "rest_error POST RTokens ns None = None" using w(2,3) by (simp add: rest_error_POST)
  have free: "tracker_stored (be_world b) RTokens ns (om_Name (obj_meta (ObjToken ?t2))) = None" using n(3) by simp
  obtain w1 where w1: "client_create ObjectReaction RTokens ns (ObjToken ?t2) (be_world b) = (Inr (ObjToken ?t3), w1)"
    "tracker_ok w1" "tracker_stored w1 = stored_put RTokens ns n (ObjToken ?t3) (tracker_stored (be_world b))"
    by (rule client_create_tracker [OF w(1) wn _ free]) (use w(3) put in auto)
  have create: "Tokens_Create (le_srv env) ns ?t1 (be_world b) = ((?t3, None), w1)"
    unfolding Tokens_Create_def env(1) generating_create [OF post] named w1(1) by (simp add: api_simps)
  have it: "SetTokenExpiresAt ?t3 = issued_token u key ttl d n created" by (simp add: issued_token_def ns_def zero_meta_def)
  let ?it = "issued_token u key ttl d n created"
  have wn': "well_named RTokens ns (ObjToken ?it)" using w(2) n(1) by (simp add: well_named_def ns_def)
  have there: "tracker_stored w1 RTokens ns (om_Name (obj_meta (ObjToken ?it))) \<noteq> None" by (simp add: w1(3))
  have put': "propagate_namespace ns (ObjToken ?it) = ObjToken ?it"
    by (rule propagate_namespace_id) (simp add: ns_def)
  obtain w2 where w2: "client_update ObjectReaction RTokens ns (ObjToken ?it) w1 = (Inr (ObjToken ?it), w2)" "tracker_ok w2"
    "tracker_stored w2 = stored_put RTokens ns n (ObjToken ?it) (tracker_stored w1)"
    by (rule client_update_tracker [OF w1(2) wn' _ _ there]) (use w(3) n(2) put' in auto)
  have update: "Tokens_Update (le_srv env) ns ?it w1 = ((?it, None), w2)"
    unfolding Tokens_Update_def env(1) generating_update w2(1) by (simp add: api_simps)
  have provider: "t_AuthProvider ?t1 = ''local''"
    using getLocalPrincipalID_provider i unfolding i_def by (simp add: new_login_token_def)
  have ttl: "t_TTLMillis ?tok = ttl" "t_UserID ?tok = om_Name (u_meta u)"
    "om_Namespace (p_meta (t_UserPrincipal ?t1)) = ns"
    by (simp_all add: new_login_token_def ns_def)
  have "NewLoginToken env (om_Name (u_meta u)) (own_principal u) [] ttl d b =
      Return ((?it, None), b\<lparr>be_world := w2\<rparr>)"
    unfolding NewLoginToken_def CreateOrUpdateToken_def ttl env(3) sum.case Let_def provider
      common_GenerateToken_def env(2)
    by (simp add: local_provider_def local_GenerateToken_def create [unfolded ns_def] it [unfolded ns_def] update)
  moreover have "tracker_stored w2 = stored_put RTokens ns n (ObjToken ?it) (tracker_stored (be_world b))"
    by (simp add: w2(3) w1(3))
  ultimately show thesis using w2(2) that by blast
qed

lemma Login_token:
  fixes b :: "tracker backend"
  assumes "backend_ok b" "can_log_in b u" "tracker_ok (be_world b)"
    and "om_Namespace (u_meta u) \<noteq> []" "path_segment_ok (om_Namespace (u_meta u))"
    and "le_srv env = generating_server suffix created"
    and "rg_providers (le_providers env) = [''local'' \<mapsto> local_provider (le_srv env) compare]"
    and "rq_Body req = Inr body" "le_unmarshal_generic env body = Inr generic" "gl_ProviderType generic = ''local''"
    and "le_unmarshal_basic env body = Inr input" "bl_Username input = u_Username u"
    and "compare (u_Password u) (bl_Password input) = None"
    and "GenerateToken (le_sign env) (le_now_exp env) (le_now_iat env) (gl_TTLMillis generic) = Inr key"
    and "n = ''token-'' @ suffix (be_world b)" "path_segment_ok n"
    and "tracker_stored (be_world b) RTokens (om_Namespace (u_meta u)) n = None"
    and "tok = issued_token u key (gl_TTLMillis generic) (gl_Description generic) n created"
  obtains w' where "Login env req (rw, b) =
      Return (None, login_response env req (gl_ResponseType generic) tok rw, b\<lparr>be_world := w'\<rparr>)"
    "tracker_ok w'"
    "tracker_stored w' = stored_put RTokens (om_Namespace (u_meta u)) n (ObjToken tok) (tracker_stored (be_world b))"
    "token_text tok = n @ '':'' @ key"
proof -
  have i: "getLocalPrincipalID u \<noteq> []" using assms(2) by (auto simp: can_log_in_def)
  have acc: "local_accepts compare b (bl_Username input) (bl_Password input) (own_principal u)"
    unfolding assms(12) by (rule can_log_in_accepts [where compare = compare, OF assms(2,13)])
  have a: "common_AuthenticateUser (le_providers env) (BasicLogin input) ''local'' b = Return ((own_principal u, [], None), b)"
    using lp.authenticate_complete [OF assms(1) acc] by (simp add: common_AuthenticateUser_def assms(7))
  have c: "CheckUserCache (om_Name (p_meta (own_principal u))) b = Return ((Some u, None), b)"
    using can_log_in_ensured [OF assms(1,2)] by simp
  obtain w' where w': "NewLoginToken env (om_Name (u_meta u)) (own_principal u) [] (gl_TTLMillis generic)
        (gl_Description generic) b = Return ((tok, None), b\<lparr>be_world := w'\<rparr>)" "tracker_ok w'"
    "tracker_stored w' = stored_put RTokens (om_Namespace (u_meta u)) n (ObjToken tok) (tracker_stored (be_world b))"
    unfolding assms(18)
    by (rule NewLoginToken_issues [OF assms(6,7,14) i assms(3-5,15-17)])
  have "CreateLoginToken env req b = Return ((tok, gl_ResponseType generic, None), b\<lparr>be_world := w'\<rparr>)"
    unfolding CreateLoginToken_parsed [OF assms(8-11) a c] w'(1) by simp
  then have "Login env req (rw, b) =
      Return (None, login_response env req (gl_ResponseType generic) tok rw, b\<lparr>be_world := w'\<rparr>)"
    by (simp add: Login_def)
  moreover have "token_text tok = n @ '':'' @ key" by (simp add: token_text_def assms(18))
  ultimately show thesis using w'(2,3) by (intro that [of w'])
qed

text \<open>
  A user that the controller has settled logs in with the password: exactly one object is added
  to the cluster, a token in the user's namespace that carries the user's id, the user's own
  principal, the signed key, the wanted lifetime and its end; and the client is handed the text of
  its name and key, in a cookie or with status 201.
\<close>

theorem Login_issues_token:
  fixes b :: "tracker backend"
  assumes "backend_ok b" "can_log_in b u" "tracker_ok (be_world b)"
    and "om_Namespace (u_meta u) \<noteq> []" "path_segment_ok (om_Namespace (u_meta u))"
    and "le_srv env = generating_server suffix created"
    and "rg_providers (le_providers env) = [''local'' \<mapsto> local_provider (le_srv env) compare]"
    and "rq_Body req = Inr body" "le_unmarshal_generic env body = Inr generic" "gl_ProviderType generic = ''local''"
    and "le_unmarshal_basic env body = Inr input" "bl_Username input = u_Username u"
    and "compare (u_Password u) (bl_Password input) = None"
    and "GenerateToken (le_sign env) (le_now_exp env) (le_now_iat env) (gl_TTLMillis generic) = Inr key"
    and "n = ''token-'' @ suffix (be_world b)" "path_segment_ok n"
    and "tracker_stored (be_world b) RTokens (om_Namespace (u_meta u)) n = None"
    and "tok = issued_token u key (gl_TTLMillis generic) (gl_Description generic) n created"
  shows "\<exists>w'. Login env req (rw, b) =
      Return (None, login_response env req (gl_ResponseType generic) tok rw, b\<lparr>be_world := w'\<rparr>)
    \<and> tracker_ok w'
    \<and> tracker_stored w' = stored_put RTokens (om_Namespace (u_meta u)) n (ObjToken tok) (tracker_stored (be_world b))
    \<and> token_text tok = n @ '':'' @ key"
  by (rule Login_token [OF assms]) blast

text \<open>
  A login for a name that no user has, or by a user that the controller has not yet given a
  principal id, is not refused but ends in a panic: the empty principal has no provider to make a
  token with.
\<close>

theorem Login_without_principal_panics:
  assumes "backend_ok b" "rg_providers (le_providers env) = [''local'' \<mapsto> local_provider srv compare]"
    and "rq_Body req = Inr body" "le_unmarshal_generic env body = Inr generic" "gl_ProviderType generic = ''local''"
    and "le_unmarshal_basic env body = Inr input"
    and "GenerateToken (le_sign env) (le_now_exp env) (le_now_iat env) (gl_TTLMillis generic) = Inr key"
    and "hits (be_users b) UserByPrincipal [] = {}" "hits (be_principals b) PrincipalByID [] = {}"
    and "hits (be_users b) UserByUsername (bl_Username input) = {} \<or>
      (\<exists>k u. hits (be_users b) UserByUsername (bl_Username input) = {k} \<and> held (be_users b) k (ObjUser u)
        \<and> u_PrincipalIDs u = [] \<and> compare (u_Password u) (bl_Password input) = None)"
  shows "\<exists>m. Login env req (w, b) = Panic m"
proof -
  have c: "CheckUserCache [] b = Return ((Some zero_user, None), b)"
    using assms(1) by (cases rule: CheckUserCache_cases [of _ "[]"]) (use assms(8) in auto)
  obtain princ info where a: "local_AuthenticateUser compare (BasicLogin input) ''local'' b = Return ((princ, info, None), b)"
    and name: "om_Name (p_meta princ) = []"
    using assms(10)
  proof
    assume "hits (be_users b) UserByUsername (bl_Username input) = {}"
    then show thesis
      using that [of zero_principal "[]"] AuthenticateUser_unknown [OF assms(1)] by simp
  next
    assume "\<exists>k u. hits (be_users b) UserByUsername (bl_Username input) = {k} \<and> held (be_users b) k (ObjUser u)
        \<and> u_PrincipalIDs u = [] \<and> compare (u_Password u) (bl_Password input) = None"
    then obtain k u where u: "hits (be_users b) UserByUsername (bl_Username input) = {k}" "held (be_users b) k (ObjUser u)"
      "u_PrincipalIDs u = []" "compare (u_Password u) (bl_Password input) = None" by blast
    have i: "getLocalPrincipalID u = []" by (simp add: getLocalPrincipalID_def u(3))
    have "allowed b []" using assms(8,9) by (simp add: allowed_def user_name_for_def login_name_for_def)
    then have "local_accepts compare b (bl_Username input) (bl_Password input) (own_principal u)"
      using local_accepts_hit [OF u(1,2)] u(4) i by (simp add: own_principal_def)
    from lp.authenticate_complete [OF assms(1) this, of srv "''local''"] show thesis
      using that [of "own_principal u" "[]"] i by (simp add: local_provider_def)
  qed
  have "common_AuthenticateUser (le_providers env) (BasicLogin input) ''local'' b = Return ((princ, info, None), b)"
    using a by (simp add: common_AuthenticateUser_def assms(2) local_provider_def)
  note run = CreateLoginToken_parsed [OF assms(3-6) this, unfolded name, OF c]
  have "GetAuthProviderName [] = []" by (simp add: GetAuthProviderName_def)
  then have "NewLoginToken env (om_Name (u_meta zero_user)) princ info (gl_TTLMillis generic) (gl_Description generic) b
      = nil_deref"
    using assms(7) by (simp add: NewLoginToken_def CreateOrUpdateToken_def new_login_token_def Let_def name
        common_GenerateToken_def assms(2))
  then show ?thesis by (simp add: Login_def run)
qed

section \<open>A logout\<close>

text \<open>The cluster without one of its tokens.\<close>

abbreviation without_token :: "view \<Rightarrow> string \<Rightarrow> string \<Rightarrow> view" where
  "without_token f ns n \<equiv> f(RTokens := (f RTokens)(ns := (f RTokens ns)(n := None)))"

lemma Logout_good:
  fixes b :: "tracker backend"
  assumes "backend_ok b" "GetTokenAuthFromRequest (http_request.truncate req) = text" "text \<noteq> []"
    and "grants (le_seconds env) (le_now env) (be_tokens b) text tok"
    and "rg_providers (le_providers env) (t_AuthProvider tok) = Some (local_provider srv compare)" "client_delete srv = client_delete ObjectReaction"
    and "tracker_ok (be_world b)" "path_segment_ok (om_Name (t_meta tok))"
    and "path_segment_ok (om_Namespace (t_meta tok))" "om_Namespace (t_meta tok) \<noteq> []"
    and "tracker_stored (be_world b) RTokens (om_Namespace (t_meta tok)) (om_Name (t_meta tok)) \<noteq> None"
  obtains w' w2 where "Logout env req (w, b) = Return (None, w', b\<lparr>be_world := w2\<rparr>)" "tracker_ok w2"
    "tracker_stored w2 = without_token (tracker_stored (be_world b)) (om_Namespace (t_meta tok)) (om_Name (t_meta tok))"
proof -
  let ?ns = "om_Namespace (t_meta tok)" and ?n = "om_Name (t_meta tok)"
  have found: "GetStoredToken (le_srv env) (le_seconds env) (le_now env) text b = Return ((Some tok, 0, None), b)"
    by (rule GetStoredToken_granted [OF assms(1,4)])
  have "?n \<noteq> []" using assms(4) by (simp add: grants_def)
  with assms(8-10) have "rest_error DELETE RTokens ?ns (Some ?n) = None" by (simp add: rest_error_named)
  then have del: "Tokens_Delete srv ?ns ?n (be_world b) = tracker_Delete RTokens ?ns ?n (be_world b)"
    by (simp add: Tokens_Delete_def assms(6)) (simp add: client_delete_def)
  let ?w1 = "(be_world b)\<lparr>tr_objects := (tr_objects (be_world b))(RTokens :=
      remove_first (same_key ?ns ?n) (tr_objects (be_world b) RTokens))\<rparr>"
  have "tracker_Delete RTokens ?ns ?n (be_world b) = (None, ?w1)"
    using tracker_Delete_stored [OF assms(7), of RTokens ?ns ?n] assms(11) by simp
  with del have "common_DeleteToken (le_providers env) tok (t_AuthProvider tok) b = Return (None, b\<lparr>be_world := ?w1\<rparr>)"
    using assms(5) by (simp add: common_DeleteToken_def local_provider_def local_DeleteToken_def)
  with found assms(2,3) have "\<exists>w'. Logout env req (w, b) = Return (None, w', b\<lparr>be_world := ?w1\<rparr>)"
    by (simp add: Logout_def Let_def)
  then show thesis using tracker_delete_state [OF assms(7)] that by blast
qed

text \<open>How a logout with a token text ends: what became of the token reaches nobody but the log.\<close>

lemma Logout_cases:
  assumes "backend_ok b" "GetTokenAuthFromRequest (http_request.truncate req) = text" "text \<noteq> []"
  obtains (refused) err where "\<And>tok. \<not> grants (le_seconds env) (le_now env) (be_tokens b) text tok"
      "Logout env req (w, b) = Return (err, http_SetCookie (taken_back req) w, b)"
    | (orphan) tok where "grants (le_seconds env) (le_now env) (be_tokens b) text tok"
      "rg_providers (le_providers env) (t_AuthProvider tok) = None" "Logout env req (w, b) = nil_deref"
    | (deleted) tok p err b' where "grants (le_seconds env) (le_now env) (be_tokens b) text tok"
      "rg_providers (le_providers env) (t_AuthProvider tok) = Some p"
      "Logout env req (w, b) = Return (err, http_SetCookie (taken_back req) w, b')"
proof (cases "\<exists>tok. grants (le_seconds env) (le_now env) (be_tokens b) text tok")
  case True
  then obtain tok where g: "grants (le_seconds env) (le_now env) (be_tokens b) text tok" by blast
  note found = GetStoredToken_granted [OF assms(1) g, of "le_srv env"]
  show thesis
  proof (cases "rg_providers (le_providers env) (t_AuthProvider tok)")
    case None
    then show thesis using found assms(2,3) by (intro orphan [OF g]) (simp_all add: Logout_def Let_def common_DeleteToken_def)
  next
    case (Some p)
    obtain err b' where "ap_DeleteToken p tok (t_AuthProvider tok) b = (err, b')" by fastforce
    then show thesis using found assms(2,3) Some
      by (intro deleted [OF g Some, of err b']) (simp add: Logout_def Let_def common_DeleteToken_def)
  qed
next
  case False
  obtain st code err where g: "GetStoredToken (le_srv env) (le_seconds env) (le_now env) text b = Return ((st, code, err), b)"
    "st = None \<longleftrightarrow> err \<noteq> None"
    using GetStoredToken_refuses [OF assms(1), of "le_srv env" "le_seconds env" "le_now env" "text"] by (elim exE conjE) (rule that; assumption)
  have "st = None" using GetStoredToken_grants [OF assms(1)] g(1) False by (cases st) auto
  then show thesis using g False assms(2,3)
    by (intro refused [of "if code = 404 then None else err"]) (auto simp: Logout_def Let_def)
qed

text \<open>
  C22. How every logout ends.  Without a token text the answer is 401, and neither the cookie nor the
  cluster is touched.  With a text it is 200 with the cookie taken back, be the text refused (then
  nothing is sent) or the deletion have failed; only a token of a provider that is not registered makes
  it panic.  With a token that is still good, of the local provider and in the store, its object is
  deleted and nothing else.
\<close>

theorem Logout_revokes:
  fixes b :: "tracker backend"
  assumes "backend_ok b" "hr_code w = None" "GetTokenAuthFromRequest (http_request.truncate req) = text"
  shows "if text = [] then \<exists>e. Logout env req (w, b) = Return (Some e, JSONErrorResponse (le_marshal env) e 401 w, b)
    else if \<exists>tok. grants (le_seconds env) (le_now env) (be_tokens b) text tok
        \<and> rg_providers (le_providers env) (t_AuthProvider tok) = None
      then Logout env req (w, b) = nil_deref
    else \<exists>err w' b'. Logout env req (w, b) = Return (err, w', b')
      \<and> hr_code (finish_response w') = Some 200
      \<and> hr_sent (finish_response w') = hr_header w @ [(''Set-Cookie'', SetCookie (taken_back req))]
      \<and> ck_Name (taken_back req) = CookieName \<and> ck_Value (taken_back req) = [] \<and> ck_MaxAge (taken_back req) < 0
      \<and> ((\<forall>tok. \<not> grants (le_seconds env) (le_now env) (be_tokens b) text tok) \<longrightarrow> b' = b)
      \<and> (\<forall>tok compare. grants (le_seconds env) (le_now env) (be_tokens b) text tok
          \<and> rg_providers (le_providers env) (t_AuthProvider tok) = Some (local_provider ObjectReaction compare)
          \<and> tracker_ok (be_world b) \<and> path_segment_ok (om_Name (t_meta tok))
          \<and> path_segment_ok (om_Namespace (t_meta tok)) \<and> om_Namespace (t_meta tok) \<noteq> []
          \<and> tracker_stored (be_world b) RTokens (om_Namespace (t_meta tok)) (om_Name (t_meta tok)) \<noteq> None
          \<longrightarrow> err = None \<and> tracker_stored (be_world b') =
            without_token (tracker_stored (be_world b)) (om_Namespace (t_meta tok)) (om_Name (t_meta tok)))"
proof (cases "text = []")
  case True
  then show ?thesis using assms(3) by (simp add: Logout_def Let_def)
next
  case False
  let ?grants = "grants (le_seconds env) (le_now env) (be_tokens b) text"
  have same: "tok = tok'" if "?grants tok" "?grants tok'" for tok tok'
    using GetStoredToken_granted [OF assms(1) that(1)] GetStoredToken_granted [OF assms(1) that(2)] by simp
  have sent: "hr_code (finish_response (http_SetCookie (taken_back req) w)) = Some 200"
    "hr_sent (finish_response (http_SetCookie (taken_back req) w)) = hr_header w @ [(''Set-Cookie'', SetCookie (taken_back req))]"
    "ck_Name (taken_back req) = CookieName" "ck_Value (taken_back req) = []" "ck_MaxAge (taken_back req) < 0"
    using assms(2) by (simp_all add: finish_response_def http_defs taken_back_def)
  show ?thesis
    using assms(1,3) False
  proof (cases rule: Logout_cases [where env = env and w = w])
    case (refused err)
    then show ?thesis using False sent by auto
  next
    case (orphan tok)
    then show ?thesis using False by auto
  next
    case (deleted tok p err b')
    have deletes: "err = None \<and> tracker_stored (be_world b') =
        without_token (tracker_stored (be_world b)) (om_Namespace (t_meta t)) (om_Name (t_meta t))"
      if "?grants t" "rg_providers (le_providers env) (t_AuthProvider t) = Some (local_provider ObjectReaction compare)"
        "tracker_ok (be_world b)" "path_segment_ok (om_Name (t_meta t))" "path_segment_ok (om_Namespace (t_meta t))"
        "om_Namespace (t_meta t) \<noteq> []" "tracker_stored (be_world b) RTokens (om_Namespace (t_meta t)) (om_Name (t_meta t)) \<noteq> None"
      for t compare
    proof -
      note t = that
      obtain w1 w2 where "Logout env req (w, b) = Return (None, w1, b\<lparr>be_world := w2\<rparr>)"
        "tracker_stored w2 = without_token (tracker_stored (be_world b)) (om_Namespace (t_meta t)) (om_Name (t_meta t))"
        by (rule Logout_good [OF assms(1,3) False t(1,2) refl t(3-7), of w])
      with deleted(3) show ?thesis by auto
    qed
    have none: "\<not> (\<exists>t. ?grants t \<and> rg_providers (le_providers env) (t_AuthProvider t) = None)"
      using deleted(1,2) same by force
    show ?thesis unfolding if_not_P [OF False] if_not_P [OF none]
      by (rule exI [of _ err], rule exI [of _ "http_SetCookie (taken_back req) w"], rule exI [of _ b'], intro conjI)
        (use deleted(1,3) sent deletes in blast)+
  qed
qed

section \<open>Examples\<close>

definition sample_env :: "basic_login \<Rightarrow> tracker login_env" where
  "sample_env input =
     (let srv = generating_server (\<lambda>_. ''x7k2p'') 0 in
      \<lparr>le_srv = srv,
       le_providers = fst (common_Configure srv secret_compare (no_providers, settled_backend NewObjectTracker)),
       le_unmarshal_generic = (\<lambda>_. Inr (bl_GenericLogin input)), le_unmarshal_basic = (\<lambda>_. Inr input),
       le_marshal = (\<lambda>_. Inr ''{}''), le_sign = (\<lambda>_. Inr ''eyh.eyc.s''), le_now_exp = 0, le_now_iat = 0,
       le_seconds = exact_seconds, le_now = 5\<rparr>)"

lemma sample_env_sel [simp]:
  "le_srv (sample_env input) = generating_server (\<lambda>_. ''x7k2p'') 0"
  "rg_providers (le_providers (sample_env input)) = [''local'' \<mapsto> local_provider (generating_server (\<lambda>_. ''x7k2p'') 0) secret_compare]"
  "le_unmarshal_generic (sample_env input) body = Inr (bl_GenericLogin input)"
  "le_unmarshal_basic (sample_env input) body = Inr input"
  "le_marshal (sample_env input) = (\<lambda>_. Inr ''{}'')" "le_sign (sample_env input) = (\<lambda>_. Inr ''eyh.eyc.s'')"
  "le_seconds (sample_env input) = exact_seconds" "le_now (sample_env input) = 5"
  by (simp_all add: sample_env_def common_Configure_def local_Configure_def no_providers_def ProviderName_def Let_def)

definition sample_request :: login_request where
  "sample_request = \<lparr>rq_Authorization = [], rq_Cookie = None, rq_Scheme = ''http'', rq_ImpersonateUser = [],
     rq_Body = Inr ''{}''\<rparr>"

definition ann_world :: tracker where
  "ann_world = tracker_with [ObjUser settled_user]"

lemma ann_world_ok: "tracker_ok ann_world" "tracker_stored ann_world RTokens ns n = None"
  by (simp_all add: ann_world_def sample_tracker_ok tracker_with_stored)

lemma settled_user_names:
  "u_Username settled_user = ''ann''" "getLocalPrincipalID settled_user = ''local.kube-system.u-1''"
  by (simp add: settled_user_def sample_user_def with_principal_id_def)
    (simp add: getLocalPrincipalID_def ProviderName_def HasPrefix_def)

lemma settled_can_log_in: "can_log_in (settled_backend w) settled_user"
  unfolding can_log_in_def
  by (intro exI conjI) (auto simp: settled_user_names settled_backend_hits settled_backend_held principal_of_def)

definition bob_login :: basic_login where
  "bob_login = ann_login\<lparr>bl_Username := ''bob''\<rparr>"

text \<open>Ann with a wrong password is refused; Bob, of whom nobody knows, makes the login panic.\<close>

theorem Login_needs_password_witness:
  "(\<exists>e. Login (sample_env (ann_login\<lparr>bl_Password := ''guess''\<rparr>)) sample_request (new_response, settled_backend ann_world) =
       Return (Some e, JSONErrorResponse (\<lambda>_. Inr ''{}'') e 401 new_response, settled_backend ann_world))
   \<and> Login (sample_env bob_login) sample_request (new_response, settled_backend ann_world) = nil_deref"
proof -
  let ?env = "sample_env (ann_login\<lparr>bl_Password := ''guess''\<rparr>)" and ?b = "settled_backend ann_world"
  have no: "\<not> local_accepts secret_compare ?b (bl_Username input) (bl_Password input) princ"
    if "le_unmarshal_basic ?env body = Inr input" for body input princ
    using that local_accepts_hit [of ?b "''ann''" "''kube-system/u-1''" settled_user secret_compare "''guess''" princ]
    by (auto simp: settled_backend_hits settled_backend_held secret_compare_def ann_login_def)
  have local: "gl_ProviderType (bl_GenericLogin ann_login) = ''local''" by (simp add: ann_login_def)
  have ann: "\<not> nobody_named ?env sample_request ?b" "\<not> unknown_provider ?env sample_request rt" for rt
    using local by (auto simp: nobody_named_def unknown_provider_def settled_backend_hits ann_login_def)
  have no': "\<not> local_accepts secret_compare ?b (bl_Username input) (bl_Password input) princ"
    if "le_unmarshal_basic (sample_env bob_login) body = Inr input" for body input princ
    using that by (auto simp: local_accepts_def settled_backend_hits bob_login_def)
  have bob: "nobody_named (sample_env bob_login) sample_request ?b"
    using local by (auto simp: nobody_named_def sample_request_def GenerateToken_def settled_backend_hits bob_login_def hits_held
        settled_backend_held index_fun_hits principal_of_def)
  show ?thesis
  proof
    show "Login (sample_env bob_login) sample_request (new_response, ?b) = nil_deref"
      using Login_needs_password [where env = "sample_env bob_login" and req = sample_request and w = new_response,
          OF settled_backend_ok sample_env_sel(2) no'] bob by simp
    show "\<exists>e. Login ?env sample_request (new_response, ?b) = Return (Some e, JSONErrorResponse (\<lambda>_. Inr ''{}'') e 401 new_response, ?b)"
      using Login_needs_password [where env = ?env and req = sample_request and w = new_response,
          OF settled_backend_ok sample_env_sel(2) no] ann
      by (auto split: option.splits)
  qed
qed

theorem Login_issues_token_witness:
  "\<exists>w'. Login (sample_env ann_login) sample_request (new_response, settled_backend ann_world) =
      Return (None, login_response (sample_env ann_login) sample_request ''json''
        (issued_token settled_user ''eyh.eyc.s'' 57600000 [] ''token-x7k2p'' 0) new_response,
        (settled_backend ann_world)\<lparr>be_world := w'\<rparr>)
    \<and> tracker_stored w' RTokens ''kube-system'' ''token-x7k2p'' =
        Some (ObjToken (issued_token settled_user ''eyh.eyc.s'' 57600000 [] ''token-x7k2p'' 0))"
proof -
  have w: "be_world (settled_backend ann_world) = ann_world" by (simp add: settled_backend_def sample_backend_def)
  have "path_segment_ok ''kube-system''" "path_segment_ok ''token-x7k2p''" by (simp_all add: path_segment_ok_def)
  moreover have "gl_TTLMillis (bl_GenericLogin ann_login) = 57600000" "gl_ResponseType (bl_GenericLogin ann_login) = ''json''"
    "gl_ProviderType (bl_GenericLogin ann_login) = ''local''" "gl_Description (bl_GenericLogin ann_login) = []"
    "bl_Username ann_login = ''ann''" "bl_Password ann_login = ''secret''" by (simp_all add: ann_login_def)
  ultimately show ?thesis
    using Login_issues_token [OF settled_backend_ok settled_can_log_in, of ann_world "sample_env ann_login"
        "\<lambda>_. ''x7k2p''" 0 secret_compare sample_request "''{}''" "bl_GenericLogin ann_login" ann_login "''eyh.eyc.s''"
        "''token-x7k2p''" "issued_token settled_user ''eyh.eyc.s'' 57600000 [] ''token-x7k2p'' 0" new_response]
    by (simp add: w ann_world_ok settled_user_names secret_compare_def GenerateToken_def sample_request_def)
      (auto simp del: fun_upd_apply simp: fun_upd_same)
qed

theorem Login_without_principal_panics_witness:
  "\<exists>m. Login (sample_env bob_login) sample_request (new_response, settled_backend ann_world) = Panic m"
proof -
  have "hits (be_users (settled_backend ann_world)) UserByPrincipal [] = {}"
    "hits (be_principals (settled_backend ann_world)) PrincipalByID [] = {}"
    by (simp_all add: set_eq_iff hits_held settled_backend_held index_fun_hits principal_of_def)
  then show ?thesis
    by (intro Login_without_principal_panics [where env = "sample_env bob_login" and req = sample_request and body = "''{}''"
          and generic = "bl_GenericLogin bob_login" and input = bob_login and key = "''eyh.eyc.s''",
          OF settled_backend_ok sample_env_sel(2)])
      (simp_all add: sample_request_def GenerateToken_def settled_backend_hits bob_login_def ann_login_def)
qed

definition logout_request :: login_request where
  "logout_request = sample_request\<lparr>rq_Cookie := Some ''token-x:k''\<rparr>"

theorem Logout_revokes_witness:
  "\<exists>w' b'. Logout ((sample_env ann_login)\<lparr>le_providers := fst (common_Configure ObjectReaction secret_compare
        (no_providers, settled_backend NewObjectTracker))\<rparr>) logout_request
      (new_response, sample_backend [] [] [sample_token] (tracker_with [ObjToken sample_token])) = Return (None, w', b')
    \<and> tracker_stored (be_world b') RTokens ''kube-system'' ''token-x'' = None"
proof -
  let ?env = "(sample_env ann_login)\<lparr>le_providers := fst (common_Configure ObjectReaction secret_compare
        (no_providers, settled_backend NewObjectTracker))\<rparr>"
  let ?b = "sample_backend [] [] [sample_token] (tracker_with [ObjToken sample_token])"
  have ok: "backend_ok ?b" by (rule sample_backend_ok) simp_all
  have p: "rg_providers (le_providers ?env) (t_AuthProvider sample_token) = Some (local_provider ObjectReaction secret_compare)"
    by (simp add: common_Configure_def local_Configure_def ProviderName_def)
  have w: "be_world ?b = tracker_with [ObjToken sample_token]" by (simp add: sample_backend_def)
  have t: "tracker_ok (tracker_with [ObjToken sample_token])"
    "tracker_stored (tracker_with [ObjToken sample_token]) RTokens ''kube-system'' ''token-x'' \<noteq> None"
    by (auto intro!: tracker_with_ok simp: tracker_with_stored same_key_def)
  have auth: "GetTokenAuthFromRequest (http_request.truncate logout_request) = ''token-x:k''"
    by (rule GetTokenAuth_cookie) (simp_all add: logout_request_def sample_request_def http_request.defs)
  have seg: "path_segment_ok ''kube-system''" "path_segment_ok ''token-x''" by (simp_all add: path_segment_ok_def)
  have g: "grants exact_seconds 5 (be_tokens ?b) ''token-x:k'' sample_token" by (rule sample_token_grants)
  have same: "tok = sample_token" if "grants exact_seconds 5 (be_tokens ?b) ''token-x:k'' tok" for tok
    using GetStoredToken_granted [OF ok g, of ObjectReaction] GetStoredToken_granted [OF ok that, of ObjectReaction] by simp
  have "\<not> (\<exists>tok. grants (le_seconds ?env) (le_now ?env) (be_tokens ?b) ''token-x:k'' tok
      \<and> rg_providers (le_providers ?env) (t_AuthProvider tok) = None)"
  proof (intro notI, elim exE conjE)
    fix tok
    assume "grants (le_seconds ?env) (le_now ?env) (be_tokens ?b) ''token-x:k'' tok"
      and none: "rg_providers (le_providers ?env) (t_AuthProvider tok) = None"
    then have "tok = sample_token" by (intro same) simp
    with none p show False by simp
  qed
  moreover have "''token-x:k'' \<noteq> []" "hr_code new_response = None" by (simp_all add: new_response_def)
  ultimately obtain err w' b' where r: "Logout ?env logout_request (new_response, ?b) = Return (err, w', b')"
    and d: "\<And>tok compare. grants (le_seconds ?env) (le_now ?env) (be_tokens ?b) ''token-x:k'' tok
          \<and> rg_providers (le_providers ?env) (t_AuthProvider tok) = Some (local_provider ObjectReaction compare)
          \<and> tracker_ok (be_world ?b) \<and> path_segment_ok (om_Name (t_meta tok))
          \<and> path_segment_ok (om_Namespace (t_meta tok)) \<and> om_Namespace (t_meta tok) \<noteq> []
          \<and> tracker_stored (be_world ?b) RTokens (om_Namespace (t_meta tok)) (om_Name (t_meta tok)) \<noteq> None
          \<Longrightarrow> err = None \<and> tracker_stored (be_world b') =
            without_token (tracker_stored (be_world ?b)) (om_Namespace (t_meta tok)) (om_Name (t_meta tok))"
    using Logout_revokes [where env = ?env, OF ok _ auth, of new_response] by (simp only: if_False) blast
  have "err = None \<and> tracker_stored (be_world b') RTokens ''kube-system'' ''token-x'' = None"
    using d [of sample_token secret_compare] g p t seg by (simp add: w)
  with r show ?thesis by auto
qed

end
