(* ===== verification/Cube_Jwt.thy ===== *)
theory Cube_Jwt
  imports Cube_Http
begin

text \<open>
  The check of the JWT that a request brings: \<open>HandlerWithNext\<close> and \<open>CheckJWT\<close> of
  \<open>vendor/github.com/auth0/go-jwt-middleware\<close> with the options of \<open>generatePrivateKey\<close>
  (\<open>api/router.go\<close>), and of \<open>vendor/github.com/dgrijalva/jwt-go\<close> the parser and the claims.

  Base64, \<open>encoding/json\<close>, the signing methods of Go's \<open>crypto\<close> packages with the server's public key,
  and the clock are the record \<open>jwt_library\<close>.  A JSON number is a \<open>float64\<close>; \<open>Number n\<close> is one whose
  conversion to \<open>int64\<close> is \<open>n\<close>.
\<close>

section \<open>Parsing\<close>

datatype json_value = Text string | Number int | OtherValue

type_synonym json_map = "string \<rightharpoonup> json_value"

text \<open>
  \<open>jl_segment\<close> is \<open>DecodeSegment\<close>, \<open>jl_unmarshal\<close> is \<open>json.Unmarshal\<close> into a map, \<open>jl_decode\<close> is
  \<open>Decode\<close> of a JSON decoder, which leaves what follows the first value, \<open>jl_method\<close> is
  \<open>GetSigningMethod\<close>, whose \<open>Verify\<close> takes the signed text and the signature.
\<close>

record jwt_library =
  jl_segment :: "string \<Rightarrow> go_error + string"
  jl_unmarshal :: "string \<Rightarrow> go_error + json_map"
  jl_decode :: "string \<Rightarrow> go_error + json_map"
  jl_method :: "string \<Rightarrow> (string \<Rightarrow> string \<Rightarrow> go_error option) option"
  jl_now :: int

record jwt_token =
  jt_Header :: json_map
  jt_Claims :: json_map
  jt_Verify :: "string \<Rightarrow> string \<Rightarrow> go_error option"

definition decode_segment ::
    "jwt_library \<Rightarrow> (string \<Rightarrow> go_error + json_map) \<Rightarrow> (go_error \<Rightarrow> go_error) \<Rightarrow> string \<Rightarrow> go_error + json_map" where
  "decode_segment lib decode undecodable seg =
     (case jl_segment lib seg of Inl err \<Rightarrow> Inl (undecodable err) | Inr decoded \<Rightarrow> decode decoded)"

definition undecodable_header :: "string \<Rightarrow> go_error \<Rightarrow> go_error" where
  "undecodable_header tokenString err =
     (if HasPrefix (map ascii_lower tokenString) ''bearer ''
        then Errorf (''tokenstring should not contain '' @ [CHR 0x27] @ ''bearer '' @ [CHR 0x27]) [] else err)"

definition ParseUnverified :: "jwt_library \<Rightarrow> string \<Rightarrow> go_error + jwt_token \<times> string list" where
  "ParseUnverified lib tokenString =
     (let parts = split_on CHR ''.'' tokenString in
      if length parts \<noteq> 3 then Inl (Errorf ''token contains an invalid number of segments'' [])
      else
        (case decode_segment lib (jl_unmarshal lib) (undecodable_header tokenString) (parts ! 0) of
           Inl err \<Rightarrow> Inl err
         | Inr header \<Rightarrow>
             (case decode_segment lib (jl_decode lib) (\<lambda>err. err) (parts ! 1) of
                Inl err \<Rightarrow> Inl err
              | Inr claims \<Rightarrow>
                  (case header ''alg'' of
                     Some (Text alg) \<Rightarrow>
                       (case jl_method lib alg of
                          None \<Rightarrow> Inl (Errorf ''signing method (alg) is unavailable.'' [])
                        | Some verify \<Rightarrow>
                            Inr (\<lparr>jt_Header = header, jt_Claims = claims, jt_Verify = verify\<rparr>, parts))
                   | _ \<Rightarrow> Inl (Errorf ''signing method (alg) is unspecified.'' [])))))"

section \<open>Claims\<close>

definition verifyExp :: "int \<Rightarrow> int \<Rightarrow> bool \<Rightarrow> bool" where
  "verifyExp claim now required = (if claim = 0 then \<not> required else now \<le> claim)"

definition verifyIat :: "int \<Rightarrow> int \<Rightarrow> bool \<Rightarrow> bool" where
  "verifyIat claim now required = (if claim = 0 then \<not> required else claim \<le> now)"

definition verifyNbf :: "int \<Rightarrow> int \<Rightarrow> bool \<Rightarrow> bool" where
  "verifyNbf claim now required = (if claim = 0 then \<not> required else claim \<le> now)"

text \<open>\<open>VerifyExpiresAt\<close>, \<open>VerifyIssuedAt\<close> and \<open>VerifyNotBefore\<close>: only a number is looked at.\<close>

definition verify_claim :: "(int \<Rightarrow> int \<Rightarrow> bool \<Rightarrow> bool) \<Rightarrow> json_value option \<Rightarrow> int \<Rightarrow> bool \<Rightarrow> bool" where
  "verify_claim verify claim now required =
     (case claim of Some (Number n) \<Rightarrow> verify n now required | _ \<Rightarrow> \<not> required)"

text \<open>The error of the last claim that is refused is the one that stays.\<close>

definition MapClaims_Valid :: "json_map \<Rightarrow> int \<Rightarrow> go_error option" where
  "MapClaims_Valid claims now =
     (let err1 = (if verify_claim verifyExp (claims ''exp'') now False then None
                    else Some (Errorf ''Token is expired'' []));
          err2 = (if verify_claim verifyIat (claims ''iat'') now False then err1
                    else Some (Errorf ''Token used before issued'' []))
      in if verify_claim verifyNbf (claims ''nbf'') now False then err2
         else Some (Errorf ''Token is not valid yet'' []))"

text \<open>\<open>Parse\<close>: the key function of \<open>generatePrivateKey\<close> never fails, and the error of the signature wins.\<close>

definition Parse :: "jwt_library \<Rightarrow> string \<Rightarrow> go_error + jwt_token" where
  "Parse lib tokenString =
     (case ParseUnverified lib tokenString of
        Inl err \<Rightarrow> Inl err
      | Inr (token, parts) \<Rightarrow>
          (let vErr = MapClaims_Valid (jt_Claims token) (time_Unix (jl_now lib)) in
           case jt_Verify token (parts ! 0 @ ''.'' @ parts ! 1) (parts ! 2) of
             Some err \<Rightarrow> Inl err
           | None \<Rightarrow> (case vErr of Some err \<Rightarrow> Inl err | None \<Rightarrow> Inr token)))"

section \<open>The middleware\<close>

record jwt_options =
  jo_CredentialsOptional :: bool
  jo_EnableAuthOnOptions :: bool
  jo_SigningMethod :: string

definition generatePrivateKey :: jwt_options where
  "generatePrivateKey = \<lparr>jo_CredentialsOptional = False, jo_EnableAuthOnOptions = False, jo_SigningMethod = ''RS256''\<rparr>"

definition FromAuthHeader :: "http_request \<Rightarrow> go_error + string" where
  "FromAuthHeader r =
     (if rq_Authorization r = [] then Inr []
      else
        (let parts = split_on CHR '' '' (rq_Authorization r) in
         if length parts \<noteq> 2 \<or> map ascii_lower (parts ! 0) \<noteq> ''bearer''
           then Inl (Errorf ''Authorization header format must be Bearer {token}'' [])
         else Inr (parts ! 1)))"

definition OnError :: "go_error \<Rightarrow> http_response \<Rightarrow> http_response" where
  "OnError err w = http_Error (ErrorText err) 401 w"

text \<open>The answer of \<open>CheckJWT\<close> when it refuses the request, of the method given.\<close>

definition CheckJWT ::
    "jwt_options \<Rightarrow> jwt_library \<Rightarrow> string \<Rightarrow> http_request \<Rightarrow> (http_response \<Rightarrow> http_response) option" where
  "CheckJWT opts lib method_name r =
     (if \<not> jo_EnableAuthOnOptions opts \<and> method_name = ''OPTIONS'' then None
      else
        (case FromAuthHeader r of
           Inl err \<Rightarrow> Some (OnError err)
         | Inr token \<Rightarrow>
             if token = [] then
               (if jo_CredentialsOptional opts then None
                else Some (OnError (Errorf ''Required authorization token not found'' [])))
             else
               (case Parse lib token of
                  Inl err \<Rightarrow> Some (OnError err)
                | Inr parsedToken \<Rightarrow>
                    (case jt_Header parsedToken ''alg'' of
                       Some (Text alg) \<Rightarrow>
                         if alg \<noteq> jo_SigningMethod opts
                           then Some (OnError (Errorf ''Expected %s signing method but token specified %s''
                             [jo_SigningMethod opts, alg]))
                         else None
                     | _ \<Rightarrow> Some (OnError (Errorf ''Expected %s signing method but token specified %s'' [jo_SigningMethod opts]))))))"

section \<open>Tokens the server has signed\<close>

text \<open>
  What \<open>token.SignedString\<close> with the key that belongs to the public key promises: three segments without
  a point, of which the first decodes to a header with the method RS256, the second to the two claims,
  numbers a \<open>float64\<close> holds exactly, and the third verifies.
\<close>

definition signed_text :: "jwt_library \<Rightarrow> jwt_claims \<Rightarrow> string \<Rightarrow> bool" where
  "signed_text lib c key \<longleftrightarrow>
     (\<exists>h p sig header verify. split_on CHR ''.'' key = [h, p, sig]
        \<and> decode_segment lib (jl_unmarshal lib) (\<lambda>err. err) h = Inr header \<and> header ''alg'' = Some (Text ''RS256'')
        \<and> decode_segment lib (jl_decode lib) (\<lambda>err. err) p = Inr [''exp'' \<mapsto> Number (cl_exp c), ''iat'' \<mapsto> Number (cl_iat c)]
        \<and> jl_method lib ''RS256'' = Some verify \<and> verify (h @ ''.'' @ p) sig = None)"

definition signs_for :: "jwt_library \<Rightarrow> (jwt_claims \<Rightarrow> go_error + string) \<Rightarrow> bool" where
  "signs_for lib sign \<longleftrightarrow>
     (\<forall>c key. sign c = Inr key \<and> abs (cl_exp c) \<le> 2 ^ 53 \<and> abs (cl_iat c) \<le> 2 ^ 53 \<longrightarrow> signed_text lib c key)"

lemma decode_segment_any: "decode_segment lib d f seg = Inr m \<longleftrightarrow> decode_segment lib d g seg = Inr m"
  by (auto simp: decode_segment_def split: sum.splits)

text \<open>The seconds at which a key is good: not before it was signed, and not after it expires.\<close>

definition key_good_at :: "jwt_claims \<Rightarrow> int \<Rightarrow> bool" where
  "key_good_at c now \<longleftrightarrow> verifyExp (cl_exp c) now False \<and> verifyIat (cl_iat c) now False"

lemma MapClaims_issued:
  "MapClaims_Valid [''exp'' \<mapsto> Number e, ''iat'' \<mapsto> Number i] now = None \<longleftrightarrow>
     verifyExp e now False \<and> verifyIat i now False"
  by (simp add: MapClaims_Valid_def verify_claim_def Let_def)

lemma Parse_signed:
  assumes "signed_text lib c key"
  shows "if key_good_at c (time_Unix (jl_now lib))
    then \<exists>token. Parse lib key = Inr token \<and> jt_Header token ''alg'' = Some (Text ''RS256'')
    else \<exists>err. Parse lib key = Inl err"
proof -
  obtain h p sig header verify where parts: "split_on CHR ''.'' key = [h, p, sig]"
    and dec: "decode_segment lib (jl_unmarshal lib) (\<lambda>err. err) h = Inr header" "header ''alg'' = Some (Text ''RS256'')"
      "decode_segment lib (jl_decode lib) (\<lambda>err. err) p = Inr [''exp'' \<mapsto> Number (cl_exp c), ''iat'' \<mapsto> Number (cl_iat c)]"
    and ver: "jl_method lib ''RS256'' = Some verify" "verify (h @ ''.'' @ p) sig = None"
    using assms unfolding signed_text_def by (elim exE conjE) (rule that)
  have ok: "verify (h @ CHR ''.'' # p) sig = None" using ver(2) by simp
  define token where "token = \<lparr>jt_Header = header,
    jt_Claims = [''exp'' \<mapsto> Number (cl_exp c), ''iat'' \<mapsto> Number (cl_iat c)], jt_Verify = verify\<rparr>"
  have sel: "jt_Header token = header" "jt_Verify token = verify"
    "jt_Claims token = [''exp'' \<mapsto> Number (cl_exp c), ''iat'' \<mapsto> Number (cl_iat c)]" by (simp_all add: token_def)
  have h: "decode_segment lib (jl_unmarshal lib) g h = Inr header" for g using dec(1) decode_segment_any by blast
  have "ParseUnverified lib key = Inr (token, [h, p, sig])"
    by (simp add: ParseUnverified_def parts h dec(2,3) ver token_def)
  then have "Parse lib key = (case MapClaims_Valid (jt_Claims token) (time_Unix (jl_now lib)) of Some err \<Rightarrow> Inl err | None \<Rightarrow> Inr token)"
    by (simp add: Parse_def sel ok)
  moreover have "MapClaims_Valid (jt_Claims token) (time_Unix (jl_now lib)) = None \<longleftrightarrow> key_good_at c (time_Unix (jl_now lib))"
    by (simp add: sel MapClaims_issued key_good_at_def)
  moreover have "jt_Header token ''alg'' = Some (Text ''RS256'')" by (simp add: sel dec(2))
  ultimately show ?thesis by (cases "MapClaims_Valid (jt_Claims token) (time_Unix (jl_now lib))") simp_all
qed

text \<open>A key that contains no blank is checked as it stands in the header of the request.\<close>

lemma CheckJWT_signed:
  assumes "signed_text lib c key" "CHR '' '' \<notin> set key" "key \<noteq> []" "rq_Authorization r = ''Bearer '' @ key"
  shows "\<exists>err. CheckJWT generatePrivateKey lib verb r =
    (if verb = ''OPTIONS'' \<or> key_good_at c (time_Unix (jl_now lib)) then None else Some (OnError err))"
proof -
  have "split_on CHR '' '' (''Bearer'' @ CHR '' '' # key) = [''Bearer'', key]"
    using assms(2) by (subst split_on_append) (simp_all add: split_on_no_sep)
  moreover have "map ascii_lower ''Bearer'' = ''bearer''" by code_simp
  ultimately have r: "FromAuthHeader r = Inr key" by (simp add: FromAuthHeader_def assms(4))
  have opts: "\<not> jo_EnableAuthOnOptions generatePrivateKey" "jo_SigningMethod generatePrivateKey = ''RS256''"
    by (simp_all add: generatePrivateKey_def)
  show ?thesis
  proof (cases "key_good_at c (time_Unix (jl_now lib))")
    case True
    with Parse_signed [OF assms(1)] obtain token
      where "Parse lib key = Inr token" "jt_Header token ''alg'' = Some (Text ''RS256'')" by auto
    with True show ?thesis by (simp add: CheckJWT_def opts r assms(3))
  next
    case False
    with Parse_signed [OF assms(1)] obtain err where "Parse lib key = Inl err" by auto
    with False show ?thesis by (intro exI [of _ err]) (simp add: CheckJWT_def opts r assms(3))
  qed
qed

end
