(* ===== verification/Cube_Router.thy ===== *)
theory Cube_Router
  imports Cube_Login Cube_Jwt
begin

text \<open>
  \<open>api/router.go\<close>: which handler a request reaches, the check of its token on the way, and the
  repetition of handlers that lose an update race.

  The check of the JWT is that of \<open>Cube_Jwt\<close>.  Other third-party parts are arguments: the static files of
  the front end and the error page of \<open>go-rancher\<close>; the wrapper \<open>api.ApiHandler\<close> that \<open>HandleError\<close> puts
  around a handler, which adds the schemas to the request, is left out.  Paths are matched segment by
  segment as \<open>gorilla/mux\<close> does with its default patterns; its redirects to a cleaned path and between
  paths with and without a final slash are left out.
\<close>

section \<open>Repeating a handler\<close>

definition RetryCounts :: nat where "RetryCounts = 5"

fun retry_loop ::
    "('s \<Rightarrow> (go_error option \<times> 's) outcome) \<Rightarrow> nat \<Rightarrow> go_error option \<Rightarrow> 's
       \<Rightarrow> (go_error option \<times> 's) outcome" where
  "retry_loop t 0 err s = Return (err, s)"
| "retry_loop t (Suc n) err s =
     bind_outcome (t s) (\<lambda>(err1, s1).
       if \<not> IsConflict (Cause err1) then Return (err1, s1) else retry_loop t n err1 s1)"

type_synonym 'w http_state = "http_response \<times> 'w backend"

definition HandleError ::
    "(go_error \<Rightarrow> http_response \<Rightarrow> http_response) \<Rightarrow> ('w http_state \<Rightarrow> (go_error option \<times> 'w http_state) outcome)
       \<Rightarrow> 'w http_state \<Rightarrow> 'w http_state outcome" where
  "HandleError write_err t s =
     bind_outcome (retry_loop t RetryCounts None s) (\<lambda>(err, rw, b).
       case err of None \<Rightarrow> Return (rw, b) | Some e \<Rightarrow> Return (write_err e rw, b))"

section \<open>The token on the way to the API\<close>

definition TokenObtainMiddleware ::
    "'w login_env \<Rightarrow> http_request \<Rightarrow> (http_request \<Rightarrow> 'w http_state \<Rightarrow> 'w http_state outcome) option
       \<Rightarrow> 'w http_state \<Rightarrow> 'w http_state outcome" where
  "TokenObtainMiddleware env r next_handler = (\<lambda>(w, b).
     (let tokenAuthValue = GetTokenAuthFromRequest r in
      case next_handler of
        Some call_next \<Rightarrow>
          if tokenAuthValue \<noteq> [] then
            bind_outcome (GetStoredToken (le_srv env) (le_seconds env) (le_now env) tokenAuthValue b)
              (\<lambda>((storedToken, statusCode, err), b1).
                 case err of
                   Some e \<Rightarrow>
                     if statusCode \<noteq> 0 then Return (JSONErrorResponse (le_marshal env) e statusCode w, b1)
                     else (case storedToken of None \<Rightarrow> nil_deref | Some t \<Rightarrow>
                       call_next (r\<lparr>rq_Authorization := ''Bearer '' @ t_Token t, rq_ImpersonateUser := t_UserID t\<rparr>) (w, b1))
                 | None \<Rightarrow>
                     (case storedToken of None \<Rightarrow> nil_deref | Some t \<Rightarrow>
                       call_next (r\<lparr>rq_Authorization := ''Bearer '' @ t_Token t, rq_ImpersonateUser := t_UserID t\<rparr>) (w, b1)))
          else Return (JSONErrorResponse (le_marshal env)
            (Errorf ''RancherCUBE: couldn't get token auth form request'' []) 404 w, b)
      | None \<Rightarrow> Return (JSONErrorResponse (le_marshal env)
          (Errorf ''RancherCUBE: couldn't get token auth form request'' []) 404 w, b)))"

section \<open>Routes\<close>

type_synonym 'w handler =
  "(string \<times> string) list \<Rightarrow> http_request \<Rightarrow> 'w http_state \<Rightarrow> (go_error option \<times> 'w http_state) outcome"

record 'w handlers =
  hd_NodeList :: "'w handler"
  hd_NodeGet :: "'w handler"
  hd_ClusterList :: "'w handler"
  hd_BaseInfoGet :: "'w handler"
  hd_InfrastructureList :: "'w handler"
  hd_InfrastructureCreate :: "'w handler"
  hd_InfrastructureGet :: "'w handler"
  hd_InfrastructureDelete :: "'w handler"
  hd_version :: "'w handler"
  hd_versions :: "'w handler"
  hd_schemas :: "'w handler"
  hd_schema :: "'w handler"

text \<open>The table below \<open>/v1\<close>: method, path, handler, and whether errors go through \<open>HandleError\<close>.\<close>

definition api_routes :: "'w handlers \<Rightarrow> (string \<times> string \<times> 'w handler \<times> bool) list" where
  "api_routes h =
     [(''GET'', ''/'', hd_version h, False),
      (''GET'', ''/apiversions'', hd_versions h, False),
      (''GET'', ''/apiversions/v1'', hd_version h, False),
      (''GET'', ''/schemas'', hd_schemas h, False),
      (''GET'', ''/schemas/{id}'', hd_schema h, False),
      (''GET'', ''/nodes'', hd_NodeList h, True),
      (''GET'', ''/nodes/{id}'', hd_NodeGet h, True),
      (''GET'', ''/clusters'', hd_ClusterList h, True),
      (''GET'', ''/baseinfos'', hd_BaseInfoGet h, True),
      (''GET'', ''/infrastructures'', hd_InfrastructureList h, True),
      (''POST'', ''/infrastructures'', hd_InfrastructureCreate h, True),
      (''GET'', ''/infrastructures/{kind}'', hd_InfrastructureGet h, True),
      (''DELETE'', ''/infrastructures/{kind}'', hd_InfrastructureDelete h, True)]"

definition path_variable :: "string \<Rightarrow> string option" where
  "path_variable p =
     (if 2 \<le> length p \<and> hd p = CHR ''{'' \<and> last p = CHR ''}'' then Some (butlast (tl p)) else None)"

fun match_segments :: "string list \<Rightarrow> string list \<Rightarrow> (string \<times> string) list option" where
  "match_segments [] [] = Some []"
| "match_segments (p # ps) (s # ss) =
     (case path_variable p of
        Some v \<Rightarrow> if s = [] then None else map_option (\<lambda>vs. (v, s) # vs) (match_segments ps ss)
      | None \<Rightarrow> if p = s then match_segments ps ss else None)"
| "match_segments _ _ = None"

definition match_path :: "string \<Rightarrow> string \<Rightarrow> (string \<times> string) list option" where
  "match_path pattern path = match_segments (split_on CHR ''/'' pattern) (split_on CHR ''/'' path)"

fun find_route ::
    "(string \<times> string \<times> 'h) list \<Rightarrow> string \<Rightarrow> string \<Rightarrow> ((string \<times> string) list \<times> 'h) option" where
  "find_route [] method path = None"
| "find_route ((m, p, h) # rs) method path =
     (case match_path p path of
        Some vars \<Rightarrow> if m = method then Some (vars, h) else find_route rs method path
      | None \<Rightarrow> find_route rs method path)"

record 'w site =
  si_env :: "'w login_env"
  si_handlers :: "'w handlers"
  si_static :: "string \<Rightarrow> string \<Rightarrow> (http_response \<Rightarrow> http_response) option"
  si_jwt :: jwt_library
  si_write_err :: "go_error \<Rightarrow> http_response \<Rightarrow> http_response"
  si_not_found :: "http_response \<Rightarrow> http_response"

definition apiRouter ::
    "'w site \<Rightarrow> string \<Rightarrow> string \<Rightarrow> http_request \<Rightarrow> 'w http_state \<Rightarrow> 'w http_state outcome" where
  "apiRouter site method path r s =
     (case find_route (map (\<lambda>(m, p, h). (m, ''/v1'' @ p, h)) (api_routes (si_handlers site))) method path of
        None \<Rightarrow> Return (si_not_found site (fst s), snd s)
      | Some (vars, h, True) \<Rightarrow> HandleError (si_write_err site) (h vars r) s
      | Some (vars, h, False) \<Rightarrow> bind_outcome (h vars r s) (\<lambda>(_, s1). Return s1))"

text \<open>The error of \<open>Login\<close> and \<open>Logout\<close> is dropped here: they have written their answer.\<close>

definition inSecureRouter ::
    "'w site \<Rightarrow> string \<Rightarrow> string \<Rightarrow> login_request \<Rightarrow> 'w http_state \<Rightarrow> 'w http_state outcome" where
  "inSecureRouter site method path r s =
     (case find_route [(''POST'', ''/login'', Login (si_env site)), (''POST'', ''/logout'', Logout (si_env site))]
         method path of
        None \<Rightarrow> Return (si_not_found site (fst s), snd s)
      | Some (vars, h) \<Rightarrow> bind_outcome (h r s) (\<lambda>(_, s1). Return s1))"

text \<open>\<open>HandlerWithNext\<close>: the middleware answers itself when \<open>CheckJWT\<close> refuses the key.\<close>

definition jwtMiddleware ::
    "'w site \<Rightarrow> string \<Rightarrow> (http_request \<Rightarrow> 'w http_state \<Rightarrow> 'w http_state outcome) \<Rightarrow> http_request \<Rightarrow> 'w http_state
       \<Rightarrow> 'w http_state outcome" where
  "jwtMiddleware site verb next_handler r s =
     (case CheckJWT generatePrivateKey (si_jwt site) verb r of Some refuse \<Rightarrow> Return (refuse (fst s), snd s) | None \<Rightarrow> next_handler r s)"

definition serve ::
    "'w site \<Rightarrow> string \<Rightarrow> string \<Rightarrow> login_request \<Rightarrow> 'w http_state \<Rightarrow> 'w http_state outcome" where
  "serve site method path r s =
     (case si_static site method path of
        Some answer \<Rightarrow> Return (answer (fst s), snd s)
      | None \<Rightarrow>
          if HasPrefix path ''/v1'' then
            TokenObtainMiddleware (si_env site) (http_request.truncate r)
              (Some (jwtMiddleware site method (apiRouter site method path))) s
          else inSecureRouter site method path r s)"

section \<open>The repetition ends\<close>

text \<open>What \<open>n\<close> attempts in a row can end with: all but the last met a conflict.\<close>

inductive attempts ::
    "('s \<Rightarrow> (go_error option \<times> 's) outcome) \<Rightarrow> 's \<Rightarrow> nat \<Rightarrow> go_error option \<Rightarrow> 's \<Rightarrow> bool"
  for t s where
  first: "t s = Return (err, s1) \<Longrightarrow> attempts t s 1 err s1"
| again: "attempts t s n err s1 \<Longrightarrow> IsConflict (Cause err) \<Longrightarrow> t s1 = Return (err2, s2) \<Longrightarrow>
    attempts t s (Suc n) err2 s2"

inductive_cases attempts_Suc: "attempts t s (Suc n) err s'"

lemma attempts_pos: "attempts t s n err s' \<Longrightarrow> 0 < n"
  by (induction rule: attempts.induct) simp_all

lemma attempts_unique:
  "attempts t s n err s1 \<Longrightarrow> attempts t s n err' s1' \<Longrightarrow> err' = err \<and> s1' = s1"
proof (induction arbitrary: err' s1' rule: attempts.induct)
  case (first err s1)
  then show ?case by (auto elim: attempts.cases dest: attempts_pos)
next
  case (again n err s1 err2 s2)
  from again.prems show ?case
  proof (rule attempts_Suc)
    assume "n = 0" then show ?thesis using attempts_pos [OF again.hyps(1)] by simp
  next
    fix e s' assume "attempts t s n e s'" "t s' = Return (err', s1')"
    with again.IH again.hyps show ?thesis by force
  qed
qed

lemma retry_loop_attempts:
  assumes "attempts t s k err s1" "IsConflict (Cause err)" "\<And>s. \<exists>r. t s = Return r"
  shows "\<exists>n err' s'. retry_loop t m err s1 = Return (err', s') \<and> attempts t s n err' s' \<and> k \<le> n \<and> n \<le> k + m
    \<and> (n < k + m \<longrightarrow> \<not> IsConflict (Cause err'))"
  using assms(1,2)
proof (induction m arbitrary: k err s1)
  case 0
  then show ?case by auto
next
  case (Suc m)
  obtain e s2 where t: "t s1 = Return (e, s2)" using assms(3) [of s1] by (metis surj_pair)
  have next_try: "attempts t s (Suc k) e s2" by (rule attempts.again [OF Suc.prems t])
  show ?case
  proof (cases "IsConflict (Cause e)")
    case True
    from Suc.IH [OF next_try True] obtain n err' s' where "retry_loop t m e s2 = Return (err', s')"
      "attempts t s n err' s'" "Suc k \<le> n" "n \<le> Suc k + m" "n < Suc k + m \<longrightarrow> \<not> IsConflict (Cause err')" by blast
    moreover have "retry_loop t (Suc m) err s1 = retry_loop t m e s2" using t True by simp
    ultimately show ?thesis by (intro exI [of _ n] exI [of _ err'] exI [of _ s']) simp
  next
    case False
    with t next_try show ?thesis by (intro exI [of _ "Suc k"] exI [of _ e] exI [of _ s2]) simp
  qed
qed

text \<open>
  C24. A handler that meets update conflicts is repeated, at most five times in all: the loop always
  ends, it ends with the first attempt that meets no conflict and otherwise with the fifth, and the
  error page is written exactly when that attempt failed.
\<close>

theorem HandleError_retries:
  assumes "\<And>s. \<exists>r. t s = Return r"
  shows "\<exists>n err rw b. HandleError write_err t s = Return (case err of None \<Rightarrow> (rw, b) | Some e \<Rightarrow> (write_err e rw, b))
    \<and> attempts t s n err (rw, b) \<and> 1 \<le> n \<and> n \<le> 5 \<and> (n < 5 \<longrightarrow> \<not> IsConflict (Cause err))
    \<and> (\<forall>k err' s'. k < n \<longrightarrow> attempts t s k err' s' \<longrightarrow> IsConflict (Cause err'))"
proof -
  have five: "RetryCounts = Suc 4" by (simp add: RetryCounts_def)
  obtain e s1 where t: "t s = Return (e, s1)" using assms [of s] by (metis surj_pair)
  then have one: "attempts t s 1 e s1" by (rule attempts.first)
  have "\<exists>n err s'. retry_loop t RetryCounts None s = Return (err, s') \<and> attempts t s n err s' \<and> 1 \<le> n \<and> n \<le> 5
    \<and> (n < 5 \<longrightarrow> \<not> IsConflict (Cause err))"
  proof (cases "IsConflict (Cause e)")
    case True
    from retry_loop_attempts [OF one True assms, of 4] obtain n err s' where
      n: "retry_loop t 4 e s1 = Return (err, s')" "attempts t s n err s'" "1 \<le> n" "n \<le> 1 + 4"
      "n < 1 + 4 \<longrightarrow> \<not> IsConflict (Cause err)" by blast
    moreover have "retry_loop t RetryCounts None s = retry_loop t 4 e s1" unfolding five retry_loop.simps t using True by simp
    ultimately show ?thesis by (intro exI [of _ n] exI [of _ err] exI [of _ s']) simp
  next
    case False
    with t one show ?thesis unfolding five retry_loop.simps by (intro exI [of _ 1] exI [of _ e] exI [of _ s1]) simp
  qed
  then obtain n err rw b where r: "retry_loop t RetryCounts None s = Return (err, rw, b)" "attempts t s n err (rw, b)"
    "1 \<le> n" "n \<le> 5" "n < 5 \<longrightarrow> \<not> IsConflict (Cause err)" by (metis surj_pair)
  have "IsConflict (Cause err')" if "k < n" "attempts t s k err' s'" for k err' s'
  proof -
    have "k < n \<Longrightarrow> \<exists>err' s'. attempts t s k err' s' \<and> IsConflict (Cause err')" if "attempts t s n e s''" "0 < k" for n e s''
      using that by (induction rule: attempts.induct) (auto simp: less_Suc_eq)
    with r(2) that attempts_pos [OF that(2)] obtain err2 s2 where "attempts t s k err2 s2" "IsConflict (Cause err2)"
      by blast
    with attempts_unique [OF that(2)] show ?thesis by blast
  qed
  then show ?thesis using r by (intro exI [of _ n] exI [of _ err] exI [of _ rw] exI [of _ b])
    (auto simp: HandleError_def split: option.splits)
qed

section \<open>No way around the token\<close>

lemma serve_granted:
  assumes "backend_ok b" "HasPrefix path ''/v1''" "si_static site method path = None"
    and "grants (le_seconds (si_env site)) (le_now (si_env site)) (be_tokens b)
      (GetTokenAuthFromRequest (http_request.truncate r)) t"
  shows "serve site method path r (w, b) =
    jwtMiddleware site method (apiRouter site method path)
      ((http_request.truncate r)\<lparr>rq_Authorization := ''Bearer '' @ t_Token t, rq_ImpersonateUser := t_UserID t\<rparr>) (w, b)"
proof -
  have "GetTokenAuthFromRequest (http_request.truncate r) \<noteq> []" using assms(4) by (auto simp: grants_def)
  then show ?thesis
    using GetStoredToken_granted [OF assms(1,4), of "le_srv (si_env site)"] assms(2,3)
    by (simp add: serve_def TokenObtainMiddleware_def Let_def)
qed

lemma serve_refused:
  assumes "backend_ok b" "HasPrefix path ''/v1''" "si_static site method path = None"
    and "\<And>t. \<not> grants (le_seconds (si_env site)) (le_now (si_env site)) (be_tokens b)
      (GetTokenAuthFromRequest (http_request.truncate r)) t"
  obtains e code where "code \<in> {401, 404, 410}"
    "case SplitTokenParts (GetTokenAuthFromRequest (http_request.truncate r)) of (n, k) \<Rightarrow>
       code = 404 \<longleftrightarrow> n = [] \<or> k = [] \<or> (\<exists>i j. i \<in> hits (be_tokens b) TokenByKey k
         \<and> j \<in> hits (be_tokens b) TokenByKey k \<and> i \<noteq> j)"
    "serve site method path r (w, b) = Return (JSONErrorResponse (le_marshal (si_env site)) e code w, b)"
proof -
  let ?text = "GetTokenAuthFromRequest (http_request.truncate r)" and ?env = "si_env site"
  have serve: "serve site method path r (w, b) = TokenObtainMiddleware ?env (http_request.truncate r)
      (Some (jwtMiddleware site method (apiRouter site method path))) (w, b)"
    using assms(2,3) by (simp add: serve_def)
  show thesis
  proof (cases "?text = []")
    case True
    have "SplitTokenParts ?text = ([], [])" by (simp add: True SplitTokenParts_def)
    then show thesis by (intro that [of 404]) (simp_all add: serve TokenObtainMiddleware_def True Let_def)
  next
    case False
    obtain st code err where g: "GetStoredToken (le_srv ?env) (le_seconds ?env) (le_now ?env) ?text b
        = Return ((st, code, err), b)" "st = None \<longleftrightarrow> err \<noteq> None" "st = None \<longleftrightarrow> code \<noteq> 0" "code \<in> {0, 401, 404, 410}"
      and why: "case SplitTokenParts ?text of (n, k) \<Rightarrow>
         code = 404 \<longleftrightarrow> n = [] \<or> k = [] \<or> (\<exists>i j. i \<in> hits (be_tokens b) TokenByKey k
           \<and> j \<in> hits (be_tokens b) TokenByKey k \<and> i \<noteq> j)"
      using GetStoredToken_refuses [OF assms(1), of "le_srv ?env" "le_seconds ?env" "le_now ?env" ?text] by (elim exE conjE) (rule that)
    have "st = None" using GetStoredToken_grants [OF assms(1)] g(1) assms(4) by (cases st) auto
    then obtain e where "err = Some e" "code \<noteq> 0" using g(2,3) by auto
    with g False why show thesis
      by (intro that [of code e]) (simp_all add: serve TokenObtainMiddleware_def Let_def)
  qed
qed

text \<open>
  C23. No request for a path below \<open>/v1\<close> reaches the API without a token: it is passed on only when its
  token text is that of a good token, with the token's key for the JWT check and the token's user as
  the user to impersonate, whatever the client had put there; any other request changes nothing and is
  answered with the status of the refusal: 404 for what is no token text or a key of several tokens,
  401 for an unknown key or another name, 410 for an expired token.
\<close>

theorem api_needs_token:
  assumes "backend_ok b" "HasPrefix path ''/v1''" "si_static site method path = None"
  shows "(\<exists>t. grants (le_seconds (si_env site)) (le_now (si_env site)) (be_tokens b)
          (GetTokenAuthFromRequest (http_request.truncate r)) t
        \<and> serve site method path r (w, b) =
          jwtMiddleware site method (apiRouter site method path)
            ((http_request.truncate r)\<lparr>rq_Authorization := ''Bearer '' @ t_Token t, rq_ImpersonateUser := t_UserID t\<rparr>) (w, b))
    \<or> (\<exists>e code. code \<in> {401, 404, 410}
        \<and> (case SplitTokenParts (GetTokenAuthFromRequest (http_request.truncate r)) of (n, k) \<Rightarrow>
             code = 404 \<longleftrightarrow> n = [] \<or> k = [] \<or> (\<exists>i j. i \<in> hits (be_tokens b) TokenByKey k
               \<and> j \<in> hits (be_tokens b) TokenByKey k \<and> i \<noteq> j))
        \<and> serve site method path r (w, b) = Return (JSONErrorResponse (le_marshal (si_env site)) e code w, b)
        \<and> (\<forall>t. \<not> grants (le_seconds (si_env site)) (le_now (si_env site)) (be_tokens b)
          (GetTokenAuthFromRequest (http_request.truncate r)) t))"
proof (cases "\<exists>t. grants (le_seconds (si_env site)) (le_now (si_env site)) (be_tokens b)
    (GetTokenAuthFromRequest (http_request.truncate r)) t")
  case True
  then show ?thesis using serve_granted [OF assms] by blast
next
  case False
  then have none: "\<not> grants (le_seconds (si_env site)) (le_now (si_env site)) (be_tokens b)
      (GetTokenAuthFromRequest (http_request.truncate r)) t" for t by blast
  show ?thesis
    by (rule serve_refused [OF assms none, of w])
      (rule disjI2, intro exI conjI allI, assumption, assumption, assumption, rule none)
qed

text \<open>The token of a login, presented by its text, is good while its lifetime lasts.\<close>

definition presents :: "login_request \<Rightarrow> string \<Rightarrow> bool" where
  "presents r s \<longleftrightarrow> rq_Authorization r = ''Bearer '' @ s \<or> rq_Authorization r = [] \<and> rq_Cookie r = Some s"

definition plain_text :: "string \<Rightarrow> bool" where
  "plain_text s \<longleftrightarrow> s \<noteq> [] \<and> (\<forall>c \<in> set s. visible c \<and> c \<noteq> CHR '':'')"

lemma presented_text:
  assumes "presents r (token_text tok)" "plain_text (om_Name (t_meta tok))" "plain_text (t_Token tok)"
  shows "GetTokenAuthFromRequest (http_request.truncate r) = token_text tok"
proof -
  let ?r = "http_request.truncate r"
  have "visible CHR '':''" by (simp add: visible_def)
  then have vis: "\<forall>c \<in> set (token_text tok). visible c" "token_text tok \<noteq> []"
    using assms(2,3) by (auto simp: token_text_def plain_text_def)
  have sel: "rq_Authorization ?r = rq_Authorization r" "rq_Cookie ?r = rq_Cookie r" by (simp_all add: http_request.defs)
  show ?thesis
    using assms(1) unfolding presents_def
  proof
    assume "rq_Authorization r = ''Bearer '' @ token_text tok"
    then have "rq_Authorization ?r = ''Bearer'' @ CHR '' '' # token_text tok" by (simp add: sel)
    moreover have "EqualFold_ascii ''Bearer'' AuthValuePrefix" "\<forall>c \<in> set ''Bearer''. visible c" by code_simp+
    ultimately show ?thesis using vis by (intro GetTokenAuth_header [of "''Bearer''"]) simp_all
  next
    assume "rq_Authorization r = [] \<and> rq_Cookie r = Some (token_text tok)"
    then show ?thesis by (intro GetTokenAuth_cookie) (simp_all add: sel)
  qed
qed

text \<open>A token made at \<open>created\<close> for \<open>ttl\<close> milliseconds, 0 being for ever, at the time \<open>now\<close>.\<close>

definition still_valid :: "int64 \<Rightarrow> int \<Rightarrow> int \<Rightarrow> bool" where
  "still_valid ttl created now \<longleftrightarrow> created \<le> now \<and>
     (ttl = 0 \<or> 0 < sint ttl \<and> sint ttl * 1000000 < 2 ^ 63 \<and> now - created + 1000000 \<le> sint ttl * 1000000)"

lemma issued_token_alive:
  assumes "seconds_ok seconds" "still_valid ttl created now"
  shows "\<not> IsExpired seconds now (issued_token u key ttl d n created)"
proof (cases "ttl = 0")
  case True
  then show ?thesis by (simp add: IsExpired_zero)
next
  case False
  with assms(2) have t: "0 < sint ttl" "sint ttl * 1000000 < 2 ^ 63"
    "now - created + 1000000 \<le> sint ttl * 1000000" "0 \<le> now - created" by (auto simp: still_valid_def)
  then have "IsExpired seconds now (issued_token u key ttl d n created) \<longleftrightarrow>
      seconds (sint ttl * 1000000) \<le> seconds (now - created)"
    using IsExpired_in_range [of "issued_token u key ttl d n created" "now - created" now seconds] by simp
  moreover have "seconds (now - created) < seconds (sint ttl * 1000000)"
    using assms(1) t(3) by (simp add: seconds_ok_def)
  ultimately show ?thesis by simp
qed

lemma issued_token_grants:
  assumes "seconds_ok seconds" "still_valid ttl created now" "plain_text n" "plain_text key"
    and "held tokens k (ObjToken (issued_token u key ttl d n created))" "hits tokens TokenByKey key = {k}"
  shows "grants seconds now tokens (token_text (issued_token u key ttl d n created)) (issued_token u key ttl d n created)"
  using assms issued_token_alive [OF assms(1,2), of u key d n] unfolding grants_def plain_text_def
  by (auto simp: token_text_def)

text \<open>
  What a login handed out opens the API: as soon as the token is in the cache, under a key that no
  other token has, and for as long as its lifetime lasts, a request that brings its text in the
  cookie or in an authorization header is passed on as a request of the user who logged in.
\<close>

theorem login_opens_api:
  assumes "backend_ok b" "held (be_tokens b) k (ObjToken tok)" "hits (be_tokens b) TokenByKey key = {k}"
    and "tok = issued_token u key ttl d n created" "plain_text n" "plain_text key"
    and "seconds_ok (le_seconds (si_env site))" "still_valid ttl created (le_now (si_env site))"
    and "HasPrefix path ''/v1''" "si_static site method path = None" "presents r (token_text tok)"
  shows "serve site method path r (w, b) =
    jwtMiddleware site method (apiRouter site method path)
      ((http_request.truncate r)\<lparr>rq_Authorization := ''Bearer '' @ key, rq_ImpersonateUser := om_Name (u_meta u)\<rparr>) (w, b)"
proof -
  have "GetTokenAuthFromRequest (http_request.truncate r) = token_text tok"
    by (rule presented_text [OF assms(11)]) (simp_all add: assms(4-6))
  then show ?thesis
    using serve_granted [OF assms(1,9,10), of r tok w] issued_token_grants [OF assms(7,8,5,6) assms(2) [unfolded assms(4)] assms(3)]
    by (simp add: assms(4))
qed

section \<open>The lifetime of the key\<close>

text \<open>What the key of a login claims, by the two clock readings of \<open>GenerateToken\<close>.\<close>

definition login_claims :: "'w login_env \<Rightarrow> int64 \<Rightarrow> jwt_claims" where
  "login_claims env ttl =
     \<lparr>cl_exp = time_Unix (time_Add (le_now_exp env) (Millisecond * ttl)), cl_iat = time_Unix (le_now_iat env)\<rparr>"

lemma GenerateToken_claims:
  "GenerateToken (le_sign env) (le_now_exp env) (le_now_iat env) ttl = le_sign env (login_claims env ttl)"
  by (simp add: GenerateToken_def login_claims_def)

text \<open>The two readings lie within some hundred million years, so a \<open>float64\<close> holds the claims exactly.\<close>

definition login_clock_ok :: "'w login_env \<Rightarrow> bool" where
  "login_clock_ok env \<longleftrightarrow> abs (time_Unix (le_now_exp env)) \<le> 2 ^ 52 \<and> abs (time_Unix (le_now_iat env)) \<le> 2 ^ 52"

lemma login_claims_exact:
  assumes "login_clock_ok env"
  shows "abs (cl_exp (login_claims env ttl)) \<le> 2 ^ 53" "abs (cl_iat (login_claims env ttl)) \<le> 2 ^ 53"
proof -
  have d: "- (2 ^ 63) \<le> sint (Millisecond * ttl)" "sint (Millisecond * ttl) < 2 ^ 63" by (rule sint_int64_bounds)+
  show "abs (cl_exp (login_claims env ttl)) \<le> 2 ^ 53"
    using assms d by (simp add: login_clock_ok_def login_claims_def time_Unix_def time_Add_def unix_epoch_def) arith
  show "abs (cl_iat (login_claims env ttl)) \<le> 2 ^ 53" using assms by (simp add: login_clock_ok_def login_claims_def)
qed

text \<open>
  The key is good from the second it was signed on for the time it was signed for; one that was signed
  for no time is not, as soon as this second is over.
\<close>

lemma key_good_lasts:
  assumes "0 \<le> sint ttl" "sint ttl * 1000000 < 2 ^ 63" "le_now_iat env \<le> now" "now \<le> le_now_exp env + sint ttl * 1000000"
  shows "key_good_at (login_claims env ttl) (time_Unix now)"
proof -
  have "sint (Millisecond * ttl) = sint ttl * 1000000" using sint_millis [of ttl] assms(1,2) by (simp add: mult.commute)
  then have "time_Unix now \<le> cl_exp (login_claims env ttl)" "cl_iat (login_claims env ttl) \<le> time_Unix now"
    using assms(3,4) by (simp_all add: login_claims_def time_Unix_def time_Add_def zdiv_mono1)
  then show ?thesis by (simp add: key_good_at_def verifyExp_def verifyIat_def)
qed

lemma key_without_ttl:
  "key_good_at (login_claims env 0) now \<Longrightarrow> time_Unix (le_now_exp env) \<noteq> 0 \<Longrightarrow> now \<le> time_Unix (le_now_exp env)"
  by (simp add: key_good_at_def verifyExp_def login_claims_def time_Add_def split: if_splits)

text \<open>
  What the API is opened by: a request that \<open>TokenObtainMiddleware\<close> passes on with the key of a login
  reaches the handlers exactly at the seconds at which the key is good, and is answered with 401 else.
\<close>

lemma jwtMiddleware_login:
  assumes "signs_for (si_jwt site) (le_sign env)" "login_clock_ok env" "le_sign env (login_claims env ttl) = Inr key"
    and "plain_text key" "rq_Authorization r = ''Bearer '' @ key"
  shows "\<exists>err. jwtMiddleware site verb next_handler r (w, b) =
    (if verb = ''OPTIONS'' \<or> key_good_at (login_claims env ttl) (time_Unix (jl_now (si_jwt site))) then next_handler r (w, b)
     else Return (OnError err w, b))"
proof -
  have "signed_text (si_jwt site) (login_claims env ttl) key"
    using assms(1,3) login_claims_exact [OF assms(2), of ttl] unfolding signs_for_def by blast
  moreover have "CHR '' '' \<notin> set key" "key \<noteq> []"
    using assms(4) visible_not_separator by (auto simp: plain_text_def)
  ultimately obtain err where "CheckJWT generatePrivateKey (si_jwt site) verb r =
      (if verb = ''OPTIONS'' \<or> key_good_at (login_claims env ttl) (time_Unix (jl_now (si_jwt site))) then None
       else Some (OnError err))"
    using CheckJWT_signed assms(5) by blast
  then show ?thesis by (intro exI [of _ err]) (simp add: jwtMiddleware_def)
qed

text \<open>
  A login without a lifetime: its token never expires, but its key is refused from the next second on.
\<close>

lemma login_without_ttl_refused:
  assumes "signs_for (si_jwt site) (le_sign env)" "login_clock_ok env" "le_sign env (login_claims env 0) = Inr key"
    and "plain_text key" "rq_Authorization r = ''Bearer '' @ key" "verb \<noteq> ''OPTIONS''"
    and "time_Unix (le_now_exp env) \<noteq> 0" "time_Unix (le_now_exp env) < time_Unix (jl_now (si_jwt site))"
  shows "\<not> IsExpired seconds now (issued_token u key 0 d n created)
    \<and> (\<exists>err. jwtMiddleware site verb next_handler r (w, b) = Return (OnError err w, b))"
proof
  show "\<not> IsExpired seconds now (issued_token u key 0 d n created)" by (simp add: IsExpired_zero)
  have "\<not> key_good_at (login_claims env 0) (time_Unix (jl_now (si_jwt site)))"
    using key_without_ttl [of env "time_Unix (jl_now (si_jwt site))"] assms(7,8) by auto
  then show "\<exists>err. jwtMiddleware site verb next_handler r (w, b) = Return (OnError err w, b)"
    using jwtMiddleware_login [OF assms(1-5), of verb next_handler w b] assms(6) by simp
qed

section \<open>Examples\<close>

text \<open>A handler that meets a conflict a number of times before it succeeds, counting its attempts.\<close>

definition contended :: "nat \<Rightarrow> nat http_state \<Rightarrow> (go_error option \<times> nat http_state) outcome" where
  "contended k = (\<lambda>(w, b). Return
     (if be_world b < k then Some (WithMessage (StatusError StatusReasonConflict ''x'') ''failed'') else None,
      w, b\<lparr>be_world := Suc (be_world b)\<rparr>))"

theorem HandleError_retries_witness:
  "\<exists>n err rw b. HandleError (\<lambda>e. WriteHeader 500) (contended 2) (new_response, sample_backend [] [] [] 0) =
      Return (case err of None \<Rightarrow> (rw, b) | Some e \<Rightarrow> (WriteHeader 500 rw, b))
    \<and> attempts (contended 2) (new_response, sample_backend [] [] [] 0) n err (rw, b) \<and> n \<le> 5"
proof -
  have "\<exists>r. contended 2 s = Return r" for s by (cases s) (simp add: contended_def)
  from HandleError_retries [where t = "contended 2", OF this,
      of "\<lambda>e. WriteHeader 500" "(new_response, sample_backend [] [] [] 0)"]
  show ?thesis by blast
qed

definition echo_handler :: "'w handler" where
  "echo_handler vars r s = (case s of (w, b) \<Rightarrow>
     Return (None, http_Write (Bytes (rq_ImpersonateUser r)) w, b))"

text \<open>A library that reads one key: signed for sixteen hours at the start of the first second.\<close>

definition sample_claims :: jwt_claims where
  "sample_claims = \<lparr>cl_exp = 57600 - unix_epoch, cl_iat = - unix_epoch\<rparr>"

definition sample_jwt :: jwt_library where
  "sample_jwt = \<lparr>jl_segment = Inr,
     jl_unmarshal = (\<lambda>s. if s = ''eyh'' then Inr [''alg'' \<mapsto> Text ''RS256'']
       else Inl (Errorf ''invalid character'' [])),
     jl_decode = (\<lambda>s. if s = ''eyc''
       then Inr [''exp'' \<mapsto> Number (cl_exp sample_claims), ''iat'' \<mapsto> Number (cl_iat sample_claims)]
       else Inl (Errorf ''invalid character'' [])),
     jl_method = (\<lambda>alg. if alg = ''RS256''
       then Some (\<lambda>signed_part sig. if sig = ''s'' then None else Some (Errorf ''crypto/rsa: verification error'' []))
       else None),
     jl_now = 0\<rparr>"

lemma sample_key_signed: "signed_text sample_jwt sample_claims ''eyh.eyc.s''"
  unfolding signed_text_def
  by (intro exI [of _ "''eyh''"] exI [of _ "''eyc''"] exI [of _ "''s''"] exI [of _ "[''alg'' \<mapsto> Text ''RS256'']"]
      exI [of _ "\<lambda>signed_part sig. if sig = ''s'' then None else Some (Errorf ''crypto/rsa: verification error'' [])"])
    (simp add: sample_jwt_def decode_segment_def)

lemma sample_key_good: "key_good_at sample_claims (time_Unix 0)"
  by (simp add: key_good_at_def sample_claims_def verifyExp_def verifyIat_def time_Unix_def unix_epoch_def)

lemma sample_key_accepted:
  assumes "rq_Authorization r = ''Bearer '' @ ''eyh.eyc.s''"
  shows "CheckJWT generatePrivateKey sample_jwt verb r = None"
  using CheckJWT_signed [OF sample_key_signed _ _ assms, of verb] sample_key_good by (simp add: sample_jwt_def)

definition sample_site :: "tracker site" where
  "sample_site = \<lparr>si_env = sample_env ann_login,
     si_handlers = \<lparr>hd_NodeList = echo_handler, hd_NodeGet = echo_handler, hd_ClusterList = echo_handler,
       hd_BaseInfoGet = echo_handler, hd_InfrastructureList = echo_handler, hd_InfrastructureCreate = echo_handler,
       hd_InfrastructureGet = echo_handler, hd_InfrastructureDelete = echo_handler, hd_version = echo_handler,
       hd_versions = echo_handler, hd_schemas = echo_handler, hd_schema = echo_handler\<rparr>,
     si_static = (\<lambda>_ _. None), si_jwt = sample_jwt, si_write_err = (\<lambda>_. WriteHeader 500),
     si_not_found = WriteHeader 404\<rparr>"

theorem api_needs_token_witness:
  "\<exists>e code. serve sample_site ''GET'' ''/v1/nodes'' sample_request
      (new_response, sample_backend [] [] [sample_token] NewObjectTracker) =
    Return (JSONErrorResponse (\<lambda>_. Inr ''{}'') e code new_response, sample_backend [] [] [sample_token] NewObjectTracker)"
proof -
  let ?b = "sample_backend [] [] [sample_token] NewObjectTracker"
  have ok: "backend_ok ?b" by (rule sample_backend_ok) simp_all
  have "GetTokenAuthFromRequest (http_request.truncate sample_request) = []"
    by (simp add: sample_request_def http_request.defs GetTokenAuthFromRequest_def TrimSpace_empty)
  then have "\<not> grants s n (be_tokens ?b) (GetTokenAuthFromRequest (http_request.truncate sample_request)) t" for s n t
    by (auto simp: grants_def)
  moreover have "HasPrefix ''/v1/nodes'' ''/v1''" by (simp add: HasPrefix_def)
  ultimately show ?thesis
    using api_needs_token [OF ok, of "''/v1/nodes''" sample_site "''GET''" sample_request new_response]
    by (auto simp: sample_site_def)
qed

text \<open>Ann logs in, the cache takes the token over, and her request reaches the handler in her name.\<close>

theorem login_opens_api_witness:
  "serve sample_site ''GET'' ''/v1/nodes'' (sample_request\<lparr>rq_Cookie := Some ''token-x7k2p:eyh.eyc.s''\<rparr>)
     (new_response, sample_backend [] [] [issued_token settled_user ''eyh.eyc.s'' 57600000 [] ''token-x7k2p'' 0] NewObjectTracker) =
   Return (http_Write (Bytes ''u-1'') new_response,
     sample_backend [] [] [issued_token settled_user ''eyh.eyc.s'' 57600000 [] ''token-x7k2p'' 0] NewObjectTracker)"
proof -
  let ?t = "issued_token settled_user ''eyh.eyc.s'' 57600000 [] ''token-x7k2p'' 0"
  let ?b = "sample_backend [] [] [?t] NewObjectTracker" and ?r = "sample_request\<lparr>rq_Cookie := Some ''token-x7k2p:eyh.eyc.s''\<rparr>"
  have ok: "backend_ok ?b" by (rule sample_backend_ok) simp_all
  have items: "ts_items (inf_indexer (be_tokens ?b)) = [(''kube-system/token-x7k2p'', ObjToken ?t)]"
    by (simp add: sample_backend_items MetaNamespaceKeyFunc_def)
  have held: "held (be_tokens ?b) ''kube-system/token-x7k2p'' (ObjToken ?t)" by (simp add: held_def items)
  have hits: "hits (be_tokens ?b) TokenByKey ''eyh.eyc.s'' = {''kube-system/token-x7k2p''}"
    by (auto simp: hits_def items index_fun_hits split: if_splits)
  have plain: "plain_text ''token-x7k2p''" "plain_text ''eyh.eyc.s''" unfolding plain_text_def by code_simp+
  have "serve sample_site ''GET'' ''/v1/nodes'' ?r (new_response, ?b) =
      jwtMiddleware sample_site ''GET'' (apiRouter sample_site ''GET'' ''/v1/nodes'')
        ((http_request.truncate ?r)\<lparr>rq_Authorization := ''Bearer '' @ ''eyh.eyc.s'', rq_ImpersonateUser := om_Name (u_meta settled_user)\<rparr>)
        (new_response, ?b)"
    by (rule login_opens_api [OF ok held hits refl plain])
      (simp_all add: sample_site_def HasPrefix_def token_text_def sample_request_def seconds_exact still_valid_def presents_def)
  also have "\<dots> = Return (http_Write (Bytes ''u-1'') new_response, ?b)"
    by (simp add: jwtMiddleware_def sample_key_accepted sample_site_def apiRouter_def api_routes_def match_path_def path_variable_def
        HandleError_def RetryCounts_def echo_handler_def numeral_eq_Suc)
  finally show ?thesis .
qed

end
