(* ===== verification/Cube_Infra_Backend.thy ===== *)
theory Cube_Infra_Backend
  imports Cube_Infra_Controller
begin

text \<open>
  The infrastructures as the API offers them: \<open>backend/configmap.go\<close>, \<open>backend/common.go\<close>,
  \<open>backend/infra.go\<close>, \<open>backend/service.go\<close> and the handlers of \<open>api/infra.go\<close>.

  The package variables are fields of one state: the config map read last, the names of its keys, the
  service found last, and the two maps of the status page.  \<open>services\<close> is the informer of the services:
  what it says at each time it is asked whether it has synced, and its cache at each time it is read.
  Requests to the API server outside the typed clients of \<open>Cube_Api\<close> are arguments.
\<close>

section \<open>The config map\<close>

definition DashboardDesc :: string where
  "DashboardDesc = ''Kubernetes Dashboard is a general purpose, web-based UI for Kubernetes clusters. It allows users to manage applications running in the cluster and troubleshoot them, as well as manage the cluster itself.''"
definition DashboardKind :: string where "DashboardKind = ''Dashboard''"
definition LanghornDesc :: string where
  "LanghornDesc = ''Longhorn is a distributed block storage system for Kubernetes powered by Rancher Labs.''"
definition LanghornKind :: string where "LanghornKind = ''Longhorn''"
definition RancherVMDesc :: string where
  "RancherVMDesc = ''Package and run KVM images as Kubernetes pods, run at scale.''"
definition RancherVMKind :: string where "RancherVMKind = ''RancherVM''"
definition ConfigMapName :: string where "ConfigMapName = ''cube-rancher''"
definition LogoBasePath :: string where "LogoBasePath = ''images/''"

lemmas config_constants = DashboardDesc_def DashboardKind_def LanghornDesc_def LanghornKind_def RancherVMDesc_def
  RancherVMKind_def ConfigMapName_def LogoBasePath_def

text \<open>The keys of the config map under which an infrastructure is described.\<close>

record infra_keys =
  ik_name :: string
  ik_namespace :: string
  ik_icon :: string
  ik_desc :: string
  ik_kind :: string

record infrastructures =
  in_dashboard :: infra_keys
  in_longhorn :: infra_keys
  in_rancherVM :: infra_keys

definition initInfrastructures :: infrastructures where
  "initInfrastructures =
     \<lparr>in_dashboard = \<lparr>ik_name = ''dashboardName'', ik_namespace = ''dashboardNamespace'',
        ik_icon = ''dashboardIcon'', ik_desc = ''dashboardDesc'', ik_kind = ''dashboardKind''\<rparr>,
      in_longhorn = \<lparr>ik_name = ''longhornName'', ik_namespace = ''longhornNamespace'',
        ik_icon = ''longhornIcon'', ik_desc = ''longhornDesc'', ik_kind = ''longhornKind''\<rparr>,
      in_rancherVM = \<lparr>ik_name = ''rancherVMName'', ik_namespace = ''rancherVMNamespace'',
        ik_icon = ''rancherVMIcon'', ik_desc = ''rancherVMDesc'', ik_kind = ''rancherVMKind''\<rparr>\<rparr>"

record 'w infra_backend =
  ib_world :: 'w
  ib_configMap :: "config_map option"
  ib_Infrastructures :: "infrastructures option"
  ib_Service :: "service option"
  ib_status :: string_map
  ib_state :: string_map

text \<open>Reading a Go map: a missing key gives the empty string.\<close>

definition map_get :: "string_map \<Rightarrow> string \<Rightarrow> string" where
  "map_get m k = (case map_of m k of None \<Rightarrow> [] | Some v \<Rightarrow> v)"

definition config_data :: "infrastructures \<Rightarrow> string_map" where
  "config_data is =
     [(ik_name (in_dashboard is), DashboardName),
      (ik_namespace (in_dashboard is), DashboardNamespace),
      (ik_icon (in_dashboard is), LogoBasePath @ ''logo_dashboard.png''),
      (ik_desc (in_dashboard is), DashboardDesc),
      (ik_kind (in_dashboard is), DashboardKind),
      (ik_name (in_longhorn is), LonghornName),
      (ik_namespace (in_longhorn is), LonghornNamespace),
      (ik_icon (in_longhorn is), LogoBasePath @ ''logo_longhorn.svg''),
      (ik_desc (in_longhorn is), LanghornDesc),
      (ik_kind (in_longhorn is), LanghornKind),
      (ik_name (in_rancherVM is), RancherVMName),
      (ik_namespace (in_rancherVM is), RancherVMNamespace),
      (ik_icon (in_rancherVM is), LogoBasePath @ ''logo_ranchervm.jpg''),
      (ik_desc (in_rancherVM is), RancherVMDesc),
      (ik_kind (in_rancherVM is), RancherVMKind)]"

definition cube_config_map :: config_map where
  "cube_config_map =
     \<lparr>cm_meta = zero_meta\<lparr>om_Name := ConfigMapName, om_Namespace := DashboardNamespace,
        om_Labels := [(''app'', ConfigMapName)]\<rparr>,
      cm_Data = config_data initInfrastructures\<rparr>"

definition ConfigMapGet ::
    "'w api_server \<Rightarrow> string \<Rightarrow> string \<Rightarrow> 'w \<Rightarrow> (config_map \<times> go_error option) \<times> 'w" where
  "ConfigMapGet srv ns i w = ConfigMaps_Get srv ns i w"

definition ConfigMapDeploy ::
    "'w api_server \<Rightarrow> 'w infra_backend \<Rightarrow> (config_map option \<times> go_error option) \<times> 'w infra_backend" where
  "ConfigMapDeploy srv st =
     (let st1 = st\<lparr>ib_Infrastructures := Some initInfrastructures\<rparr> in
      case ConfigMaps_Create srv DashboardNamespace cube_config_map (ib_world st1) of
        ((cm, err), w) \<Rightarrow>
          if err \<noteq> None then
            (if IsAlreadyExists err then
               (case ConfigMapGet srv DashboardNamespace ConfigMapName w of
                  ((cm1, err1), w1) \<Rightarrow> ((Some cm1, err1), st1\<lparr>ib_world := w1\<rparr>))
             else ((None, err), st1\<lparr>ib_world := w\<rparr>))
          else ((Some cm, err), st1\<lparr>ib_world := w\<rparr>))"

text \<open>The package variable is set to the answer of the request even when that is an error.\<close>

definition getConfigMapInfo ::
    "'w api_server \<Rightarrow> 'w infra_backend \<Rightarrow> (config_map option \<times> go_error option) \<times> 'w infra_backend" where
  "getConfigMapInfo srv st =
     (case ib_configMap st of
        Some cm \<Rightarrow> ((Some cm, None), st)
      | None \<Rightarrow>
          (case ConfigMapGet srv DashboardNamespace ConfigMapName (ib_world st) of
             ((cm, err), w) \<Rightarrow>
               (let st1 = st\<lparr>ib_world := w, ib_configMap := Some cm\<rparr> in
                if err \<noteq> None then
                  (if IsNotFound err then ConfigMapDeploy srv st1 else ((None, err), st1))
                else ((Some cm, None), st1))))"

definition backend_ensureNamespaceExists :: "'w api_server \<Rightarrow> string \<Rightarrow> 'w \<Rightarrow> go_error option \<times> 'w" where
  "backend_ensureNamespaceExists srv ns w = create_err srv [] (ObjNamespace \<lparr>ns_meta = zero_meta\<lparr>om_Name := ns\<rparr>\<rparr>) w"

section \<open>Waiting for a service\<close>

text \<open>
  An operation may never come back: its result is then \<open>None\<close>.  What runs after another operation
  runs when that one returns.
\<close>

type_synonym 'a waiting = "'a outcome option"

fun bind_waiting :: "'a waiting \<Rightarrow> ('a \<Rightarrow> 'b waiting) \<Rightarrow> 'b waiting" where
  "bind_waiting None f = None"
| "bind_waiting (Some (Panic m)) f = Some (Panic m)"
| "bind_waiting (Some (Return x)) f = f x"

record service_informer =
  wt_HasSynced :: "nat \<Rightarrow> bool"
  wt_cache :: "nat \<Rightarrow> k8s_obj thread_safe_map"

text \<open>
  \<open>cache.WaitForCacheSync\<close>: the cache is asked at every tick \<open>k\<close>, the stop channel, closed or not, after
  that.
\<close>

partial_function (option) WaitForCacheSync :: "(nat \<Rightarrow> bool) \<Rightarrow> (nat \<Rightarrow> bool) \<Rightarrow> nat \<Rightarrow> bool option" where
  "WaitForCacheSync stopped synced k =
     (if synced k then Some True else if stopped k then Some False else WaitForCacheSync stopped synced (Suc k))"

text \<open>
  \<open>syncService\<close> polls the lister until the service is there or the counter \<open>d\<close>, which grows by 20 with
  every poll, passes two minutes.  \<open>k\<close> counts the polls; \<open>d\<close> stays far below the bound of an \<open>int64\<close>.
\<close>

definition two_minutes :: int where "two_minutes = 120000000000"

function (sequential) syncService_loop ::
    "(nat \<Rightarrow> k8s_obj thread_safe_map) \<Rightarrow> string \<Rightarrow> string \<Rightarrow> nat \<Rightarrow> int \<Rightarrow> service option outcome" where
  "syncService_loop services ns i k d =
     bind_outcome (Services_lister_Get (services k) ns i) (\<lambda>r.
       case r of
         Inr svc \<Rightarrow> Return (Some svc)
       | Inl err \<Rightarrow>
           (if two_minutes < d + 20 then Return None else syncService_loop services ns i (Suc k) (d + 20)))"
  by pat_completeness auto
termination
  by (relation "measure (\<lambda>(_, _, _, _, d). nat (two_minutes + 1 - d))") auto

declare syncService_loop.simps [simp del]

text \<open>The wait for the cache is on a channel of its own, which nobody closes.\<close>

definition ServiceGet ::
    "service_informer \<Rightarrow> string \<Rightarrow> string \<Rightarrow> 'w infra_backend \<Rightarrow> (go_error option \<times> 'w infra_backend) waiting" where
  "ServiceGet services ns i st =
     (case WaitForCacheSync (\<lambda>_. False) (wt_HasSynced services) 0 of
        None \<Rightarrow> None
      | Some ok \<Rightarrow>
          if \<not> ok then Some (Return (Some (Errorf ''failed to wait for caches to sync service'' []), st))
          else Some (bind_outcome (syncService_loop (wt_cache services) ns i 0 0) (\<lambda>found.
            Return (None, case found of None \<Rightarrow> st | Some svc \<Rightarrow> st\<lparr>ib_Service := Some svc\<rparr>))))"

section \<open>The operations\<close>

text \<open>An unknown kind and names that are not set up yet are both a \<open>nil\<close> pointer.\<close>

definition getInfra :: "string \<Rightarrow> 'w infra_backend \<Rightarrow> infra_keys option outcome" where
  "getInfra kind st =
     (if kind \<in> {DashboardName, LonghornName, RancherVMName} then
        (case ib_Infrastructures st of
           None \<Rightarrow> nil_deref
         | Some is \<Rightarrow> Return (Some
             (if kind = DashboardName then in_dashboard is
              else if kind = LonghornName then in_longhorn is else in_rancherVM is)))
      else Return None)"

text \<open>What every operation on one infrastructure begins with: the keys, then the config map.\<close>

definition with_infra ::
    "'w api_server \<Rightarrow> string \<Rightarrow> 'w infra_backend
       \<Rightarrow> (go_error \<Rightarrow> 'w infra_backend \<Rightarrow> ('a \<times> 'w infra_backend) waiting)
       \<Rightarrow> (infra_keys \<Rightarrow> string_map \<Rightarrow> 'w infra_backend \<Rightarrow> ('a \<times> 'w infra_backend) waiting)
       \<Rightarrow> ('a \<times> 'w infra_backend) waiting" where
  "with_infra srv kind st failed run =
     bind_waiting (Some (getInfra kind st)) (\<lambda>infraInfo.
       case getConfigMapInfo srv st of
         ((info, Some err), st1) \<Rightarrow> failed err st1
       | ((info, None), st1) \<Rightarrow>
           (case (infraInfo, info) of
              (Some ks, Some cm) \<Rightarrow> run ks (cm_Data cm) st1
            | _ \<Rightarrow> Some nil_deref))"

definition backend_InfrastructureList ::
    "'w api_server \<Rightarrow> 'w infra_backend \<Rightarrow> (infrastructure list \<times> go_error option) \<times> 'w infra_backend" where
  "backend_InfrastructureList srv st =
     (case Infrastructures_List srv [] (ib_world st) of (r, w) \<Rightarrow> (r, st\<lparr>ib_world := w\<rparr>))"

definition backend_InfrastructureGet ::
    "'w api_server \<Rightarrow> service_informer \<Rightarrow> string \<Rightarrow> bool \<Rightarrow> 'w infra_backend
       \<Rightarrow> ((infrastructure option \<times> go_error option) \<times> 'w infra_backend) waiting" where
  "backend_InfrastructureGet srv services kind isBaseInfo st =
     with_infra srv kind st (\<lambda>err st1. Some (Return ((None, Some err), st1))) (\<lambda>ks data st1.
       case Infrastructures_Get srv (map_get data (ik_namespace ks)) (map_get data (ik_name ks)) (ib_world st1) of
         ((infra, err), w) \<Rightarrow>
           (let st2 = st1\<lparr>ib_world := w\<rparr> in
            if err \<noteq> None then Some (Return ((None, err), st2))
            else if \<not> isBaseInfo then
              bind_waiting (ServiceGet services (map_get data (ik_namespace ks)) (map_get data (ik_name ks)) st2)
                (\<lambda>(err1, st3).
                   if err1 \<noteq> None then Some (Return ((None, Wrap err1 ''failed to get infrastructure service:%s''), st3))
                   else Some (Return ((Some infra, None), st3)))
            else Some (Return ((Some infra, None), st2))))"

definition new_infrastructure :: "infra_images \<Rightarrow> infra_keys \<Rightarrow> string_map \<Rightarrow> infrastructure" where
  "new_infrastructure images ks data = zero_infra\<lparr>
     i_meta := zero_meta\<lparr>om_Name := map_get data (ik_name ks), om_Namespace := map_get data (ik_namespace ks)\<rparr>,
     i_Spec := \<lparr>is_DisplayName = map_get data (ik_name ks), is_Description = map_get data (ik_desc ks),
       is_Icon = map_get data (ik_icon ks), is_Replicas = Some 1, is_InfraKind = map_get data (ik_kind ks),
       is_Images = images\<rparr>\<rparr>"

definition InfrastructureDeploy ::
    "'w api_server \<Rightarrow> infra_images \<Rightarrow> service_informer \<Rightarrow> string \<Rightarrow> 'w infra_backend
       \<Rightarrow> ((infrastructure option \<times> go_error option) \<times> 'w infra_backend) waiting" where
  "InfrastructureDeploy srv images services kind st =
     with_infra srv kind st (\<lambda>err st1. Some (Return ((None, Some err), st1))) (\<lambda>ks data st1.
       case backend_ensureNamespaceExists srv (map_get data (ik_namespace ks)) (ib_world st1) of
         (err, w1) \<Rightarrow>
           if err \<noteq> None \<and> \<not> IsAlreadyExists err then Some (Return ((None, err), st1\<lparr>ib_world := w1\<rparr>))
           else
             (case Infrastructures_Create srv (map_get data (ik_namespace ks)) (new_infrastructure images ks data) w1 of
                ((db, err1), w2) \<Rightarrow>
                  (let st2 = st1\<lparr>ib_world := w2\<rparr> in
                   if err1 \<noteq> None then Some (Return ((None, err1), st2))
                   else
                     bind_waiting (ServiceGet services (map_get data (ik_namespace ks)) (map_get data (ik_name ks)) st2)
                       (\<lambda>(err2, st3).
                          if err2 \<noteq> None then Some (Return ((None, Wrap err2 ''failed to get infrastructure service:%s''), st3))
                          else Some (Return ((Some db, None), st3))))))"

definition backend_InfrastructureDelete ::
    "'w api_server \<Rightarrow> (string \<Rightarrow> string_map \<Rightarrow> 'w \<Rightarrow> 'w) \<Rightarrow> string \<Rightarrow> 'w infra_backend
       \<Rightarrow> (go_error option \<times> 'w infra_backend) waiting" where
  "backend_InfrastructureDelete srv delete_daemon_sets kind st =
     with_infra srv kind st (\<lambda>err st1. Some (Return (Some err, st1))) (\<lambda>ks data st1.
       (let w1 = (if LonghornName = kind
                    then delete_daemon_sets LonghornNamespace [(''longhorn'', ''engine-image'')] (ib_world st1)
                  else ib_world st1)
        in case Infrastructures_Delete srv (map_get data (ik_namespace ks)) (map_get data (ik_name ks)) w1 of
             (err, w2) \<Rightarrow> Some (Return (err, st1\<lparr>ib_world := w2\<rparr>))))"

section \<open>The status page\<close>

definition checkStatus :: "infrastructure option \<Rightarrow> string \<Rightarrow> 'w infra_backend \<Rightarrow> 'w infra_backend" where
  "checkStatus item name st =
     (case item of
        Some infra \<Rightarrow> st\<lparr>ib_status := (name, ''True'') # ib_status st,
          ib_state := (name, st_State (i_Status infra)) # ib_state st\<rparr>
      | None \<Rightarrow> st\<lparr>ib_status := (name, ''False'') # ib_status st, ib_state := (name, []) # ib_state st\<rparr>)"

definition status_step ::
    "'w api_server \<Rightarrow> service_informer \<Rightarrow> string \<Rightarrow> 'w infra_backend \<Rightarrow> 'w infra_backend waiting" where
  "status_step srv services name st =
     bind_waiting (backend_InfrastructureGet srv services name True st) (\<lambda>((infra, err), st1).
       Some (Return (checkStatus (if err \<noteq> None then None else infra) name st1)))"

definition statusGet ::
    "'w api_server \<Rightarrow> service_informer \<Rightarrow> 'w infra_backend \<Rightarrow> 'w infra_backend waiting" where
  "statusGet srv services st =
     bind_waiting (status_step srv services DashboardName (st\<lparr>ib_status := [], ib_state := []\<rparr>)) (\<lambda>st1.
     bind_waiting (status_step srv services LonghornName st1) (\<lambda>st2.
       status_step srv services RancherVMName st2))"

definition base_info_entry :: "string \<Rightarrow> infra_keys \<Rightarrow> string_map \<Rightarrow> 'w infra_backend \<Rightarrow> string_map" where
  "base_info_entry name ks data st =
     [(''name'', name),
      (''kind'', map_get data (ik_name ks)),
      (''icon'', map_get data (ik_icon ks)),
      (''desc'', map_get data (ik_desc ks)),
      (''status'', map_get (ib_status st) (map_get data (ik_name ks))),
      (''state'', map_get (ib_state st) (map_get data (ik_name ks))),
      (''url'', ''/infrastructures'')]"

definition backend_BaseInfoGet ::
    "'w api_server \<Rightarrow> service_informer \<Rightarrow> 'w infra_backend
       \<Rightarrow> ((string_map list \<times> go_error option) \<times> 'w infra_backend) waiting" where
  "backend_BaseInfoGet srv services st =
     (case getConfigMapInfo srv st of
        ((info, Some err), st1) \<Rightarrow> Some (Return (([], Some err), st1))
      | ((info, None), st1) \<Rightarrow>
          bind_waiting (statusGet srv services st1) (\<lambda>st2.
            case (ib_Infrastructures st2, info) of
              (Some is, Some cm) \<Rightarrow>
                Some (Return (([base_info_entry ''Dashboard'' (in_dashboard is) (cm_Data cm) st2,
                          base_info_entry ''Longhorn'' (in_longhorn is) (cm_Data cm) st2,
                          base_info_entry ''RancherVM'' (in_rancherVM is) (cm_Data cm) st2], None), st2))
            | _ \<Rightarrow> Some nil_deref))"

section \<open>The wait ends\<close>

definition service_at ::
    "(nat \<Rightarrow> k8s_obj thread_safe_map) \<Rightarrow> string \<Rightarrow> string \<Rightarrow> nat \<Rightarrow> service \<Rightarrow> bool" where
  "service_at services ns i k svc \<longleftrightarrow> Services_lister_Get (services k) ns i = Return (Inr svc)"

definition missing_at :: "(nat \<Rightarrow> k8s_obj thread_safe_map) \<Rightarrow> string \<Rightarrow> string \<Rightarrow> nat \<Rightarrow> bool" where
  "missing_at services ns i k \<longleftrightarrow> (\<exists>e. Services_lister_Get (services k) ns i = Return (Inl e))"

lemma syncService_polls:
  assumes answers: "\<And>k. \<exists>r. Services_lister_Get (services k) ns i = Return r"
  shows "d = 20 * int k \<Longrightarrow> k \<le> 6000000000 \<Longrightarrow>
    \<exists>n. k \<le> n \<and> n \<le> 6000000000 \<and> (\<forall>j. k \<le> j \<and> j < n \<longrightarrow> missing_at services ns i j) \<and>
      ((\<exists>svc. service_at services ns i n svc \<and> syncService_loop services ns i k d = Return (Some svc))
       \<or> n = 6000000000 \<and> missing_at services ns i n \<and> syncService_loop services ns i k d = Return None)"
proof (induction "6000000000 - k" arbitrary: k d)
  case 0
  then have k: "k = 6000000000" "d = 120000000000" by simp_all
  obtain r where r: "Services_lister_Get (services k) ns i = Return r" using answers by blast
  show ?case
  proof (cases r)
    case (Inl e)
    with r have "missing_at services ns i k" "syncService_loop services ns i k d = Return None"
      by (simp_all add: missing_at_def syncService_loop.simps k(2) two_minutes_def)
    then show ?thesis using k(1) by (intro exI [of _ k]) auto
  next
    case (Inr svc)
    with r have "service_at services ns i k svc" "syncService_loop services ns i k d = Return (Some svc)"
      by (simp_all add: service_at_def syncService_loop.simps)
    then show ?thesis using k(1) by (intro exI [of _ k]) auto
  qed
next
  case (Suc m)
  obtain r where r: "Services_lister_Get (services k) ns i = Return r" using answers by blast
  show ?case
  proof (cases r)
    case (Inl e)
    have later: "d + 20 = 20 * int (Suc k)" "Suc k \<le> 6000000000" "m = 6000000000 - Suc k" using Suc.hyps(2) Suc.prems by auto
    have again: "syncService_loop services ns i k d = syncService_loop services ns i (Suc k) (d + 20)"
      using r Inl later by (subst syncService_loop.simps) (simp add: two_minutes_def)
    have missing: "missing_at services ns i k" using r Inl by (simp add: missing_at_def)
    obtain n where n: "Suc k \<le> n" "n \<le> 6000000000" "\<forall>j. Suc k \<le> j \<and> j < n \<longrightarrow> missing_at services ns i j"
      "(\<exists>svc. service_at services ns i n svc \<and> syncService_loop services ns i (Suc k) (d + 20) = Return (Some svc))
       \<or> n = 6000000000 \<and> missing_at services ns i n \<and> syncService_loop services ns i (Suc k) (d + 20) = Return None"
      using Suc.hyps(1) [OF later(3,1,2)] by blast
    have "missing_at services ns i j" if "k \<le> j" "j < n" for j
      using that missing n(3) by (cases "j = k") auto
    then show ?thesis using n(1,2,4) unfolding again by (intro exI [of _ n]) auto
  next
    case (Inr svc)
    with r have "service_at services ns i k svc" "syncService_loop services ns i k d = Return (Some svc)"
      by (simp_all add: service_at_def syncService_loop.simps)
    then show ?thesis using Suc.prems(2) by (intro exI [of _ k]) auto
  qed
qed

lemma WaitForCacheSync_returns:
  "WaitForCacheSync stopped synced k = Some r \<Longrightarrow> \<exists>n. synced n \<or> stopped n"
  by (rule WaitForCacheSync.raw_induct [of "\<lambda>stopped synced k r. \<exists>n. synced n \<or> stopped n"]) (auto split: if_splits)

lemma WaitForCacheSync_never:
  "(\<And>k. \<not> synced k) \<Longrightarrow> WaitForCacheSync (\<lambda>_. False) synced k = None"
  using WaitForCacheSync_returns [of "\<lambda>_. False" synced k] by (cases "WaitForCacheSync (\<lambda>_. False) synced k") auto

lemma WaitForCacheSync_synced:
  assumes "synced n" "k \<le> n"
  shows "WaitForCacheSync (\<lambda>_. False) synced k = Some True"
  using assms(2)
proof (induction rule: inc_induct)
  case base
  then show ?case by (subst WaitForCacheSync.simps) (simp add: assms(1))
next
  case (step k)
  then show ?case by (subst WaitForCacheSync.simps) simp
qed

text \<open>What is left of the wait once the cache has synced.\<close>

lemma ServiceGet_synced:
  "wt_HasSynced services n \<Longrightarrow> ServiceGet services ns i st =
     Some (bind_outcome (syncService_loop (wt_cache services) ns i 0 0) (\<lambda>found.
       Return (None, case found of None \<Rightarrow> st | Some svc \<Rightarrow> st\<lparr>ib_Service := Some svc\<rparr>)))"
  by (simp add: ServiceGet_def WaitForCacheSync_synced [where n = n])

text \<open>
  C27. Waiting for a service ends exactly if the cache of the services ever syncs: before that it waits
  on a channel that nobody closes, not even the end of the server.  Once the cache has synced it always
  ends.  It hands over the service that the first successful poll finds, and gives up after six
  thousand million polls and one: what the counter takes for two minutes.  Giving up is no error,
  and leaves the service of the last successful wait in place; the error of the wait for the cache is
  never seen.
\<close>

theorem ServiceGet_ends:
  assumes "\<And>k. \<exists>r. Services_lister_Get (wt_cache services k) ns i = Return r"
  shows "if \<forall>k. \<not> wt_HasSynced services k then ServiceGet services ns i st = None
    else \<exists>n st'. n \<le> 6000000000 \<and> ServiceGet services ns i st = Some (Return (None, st'))
      \<and> (\<forall>j < n. missing_at (wt_cache services) ns i j)
      \<and> ((\<exists>svc. service_at (wt_cache services) ns i n svc \<and> st' = st\<lparr>ib_Service := Some svc\<rparr>)
         \<or> n = 6000000000 \<and> missing_at (wt_cache services) ns i n \<and> st' = st)"
proof (cases "\<forall>k. \<not> wt_HasSynced services k")
  case True
  then show ?thesis by (simp add: ServiceGet_def WaitForCacheSync_never)
next
  case False
  then obtain t where t: "wt_HasSynced services t" by blast
  obtain n where n: "n \<le> 6000000000" "\<forall>j < n. missing_at (wt_cache services) ns i j"
    "(\<exists>svc. service_at (wt_cache services) ns i n svc \<and> syncService_loop (wt_cache services) ns i 0 0 = Return (Some svc))
     \<or> n = 6000000000 \<and> missing_at (wt_cache services) ns i n \<and> syncService_loop (wt_cache services) ns i 0 0 = Return None"
    using syncService_polls [where services = "wt_cache services" and ns = ns and i = i and k = 0 and d = 0, OF assms] by auto
  from n(3) have "\<exists>st'. ServiceGet services ns i st = Some (Return (None, st'))
      \<and> ((\<exists>svc. service_at (wt_cache services) ns i n svc \<and> st' = st\<lparr>ib_Service := Some svc\<rparr>)
         \<or> n = 6000000000 \<and> missing_at (wt_cache services) ns i n \<and> st' = st)"
    by (auto simp: ServiceGet_synced [OF t])
  with False n(1,2) show ?thesis by auto
qed

section \<open>A cluster that knows its infrastructures\<close>

text \<open>After the start the names are set up, and the config map, read or not, is the one deployed then.\<close>

definition infra_backend_ok :: "tracker infra_backend \<Rightarrow> bool" where
  "infra_backend_ok st \<longleftrightarrow>
     tracker_ok (ib_world st) \<and> ib_Infrastructures st = Some initInfrastructures
     \<and> (ib_configMap st = Some cube_config_map \<or> ib_configMap st = None
          \<and> tracker_stored (ib_world st) RConfigMaps DashboardNamespace ConfigMapName = Some (ObjConfigMap cube_config_map))"

lemma kube_names_ok: "path_segment_ok DashboardNamespace" "path_segment_ok ConfigMapName" "DashboardNamespace \<noteq> []"
    "ConfigMapName \<noteq> []"
  by (simp_all add: path_segment_ok_def bundle_names ConfigMapName_def)

lemma cube_config_map_sel [simp]: "om_Name (cm_meta cube_config_map) = ConfigMapName"
    "om_Namespace (cm_meta cube_config_map) = DashboardNamespace" "cm_Data cube_config_map = config_data initInfrastructures"
  by (simp_all add: cube_config_map_def)

lemma getConfigMapInfo_ok:
  assumes "infra_backend_ok st"
  shows "getConfigMapInfo ObjectReaction st = ((Some cube_config_map, None), st\<lparr>ib_configMap := Some cube_config_map\<rparr>)"
proof (cases "ib_configMap st")
  case None
  with assms have w: "tracker_ok (ib_world st)"
    "tracker_stored (ib_world st) RConfigMaps DashboardNamespace ConfigMapName = Some (ObjConfigMap cube_config_map)"
    by (simp_all add: infra_backend_ok_def)
  have "ConfigMapGet ObjectReaction DashboardNamespace ConfigMapName (ib_world st) = ((cube_config_map, None), ib_world st)"
    using client_get_tracker [OF w(1) kube_names_ok(4,2), of RConfigMaps DashboardNamespace] w(2) kube_names_ok
    by (simp add: ConfigMapGet_def ConfigMaps_Get_def api_simps)
  with None show ?thesis by (simp add: getConfigMapInfo_def)
next
  case (Some cm)
  with assms show ?thesis by (auto simp: getConfigMapInfo_def infra_backend_ok_def)
qed

lemma infra_backend_ok_upd:
  assumes "infra_backend_ok st" "tracker_ok w"
  shows "infra_backend_ok (st\<lparr>ib_configMap := Some cube_config_map, ib_world := w\<rparr>)"
  using assms by (simp add: infra_backend_ok_def)

lemma ConfigMapDeploy_present:
  assumes "tracker_ok (ib_world st)"
    and "tracker_stored (ib_world st) RConfigMaps DashboardNamespace ConfigMapName = Some (ObjConfigMap cube_config_map)"
  shows "ConfigMapDeploy ObjectReaction st = ((Some cube_config_map, None), st\<lparr>ib_Infrastructures := Some initInfrastructures\<rparr>)"
proof -
  have wn: "well_named RConfigMaps DashboardNamespace (ObjConfigMap cube_config_map)"
    using kube_names_ok by (simp add: well_named_def)
  have "client_create ObjectReaction RConfigMaps DashboardNamespace (ObjConfigMap cube_config_map) (ib_world st) =
      (Inl (StatusError StatusReasonAlreadyExists ConfigMapName), ib_world st)"
    using client_create_tracker_exists [OF assms(1) wn] assms(2) kube_names_ok by simp
  moreover have "ConfigMapGet ObjectReaction DashboardNamespace ConfigMapName (ib_world st) = ((cube_config_map, None), ib_world st)"
    using client_get_tracker [OF assms(1) kube_names_ok(4,2), of RConfigMaps DashboardNamespace] assms(2) kube_names_ok
    by (simp add: ConfigMapGet_def ConfigMaps_Get_def api_simps)
  ultimately show ?thesis by (simp add: ConfigMapDeploy_def ConfigMaps_Create_def api_simps go_err)
qed

text \<open>
  Starting the server on a cluster without the config map, or with the one of an earlier start,
  leads to such a state.
\<close>

lemma ConfigMapDeploy_ok:
  assumes "tracker_ok (ib_world st)" "ib_configMap st = None"
    and "tracker_stored (ib_world st) RConfigMaps DashboardNamespace ConfigMapName \<in> {None, Some (ObjConfigMap cube_config_map)}"
  obtains st' where "ConfigMapDeploy ObjectReaction st = ((Some cube_config_map, None), st')" "infra_backend_ok st'"
    "same_outside {(RConfigMaps, DashboardNamespace, ConfigMapName)} (tracker_stored (ib_world st)) (tracker_stored (ib_world st'))"
proof (cases "tracker_stored (ib_world st) RConfigMaps DashboardNamespace ConfigMapName")
  case None
  have wn: "well_named RConfigMaps DashboardNamespace (ObjConfigMap cube_config_map)"
    using kube_names_ok by (simp add: well_named_def)
  have free: "tracker_stored (ib_world st) RConfigMaps DashboardNamespace (om_Name (obj_meta (ObjConfigMap cube_config_map))) = None"
    using None by simp
  have put: "propagate_namespace DashboardNamespace (ObjConfigMap cube_config_map) = ObjConfigMap cube_config_map"
    by (rule propagate_namespace_id) simp
  obtain w where w: "client_create ObjectReaction RConfigMaps DashboardNamespace (ObjConfigMap cube_config_map) (ib_world st) =
      (Inr (ObjConfigMap cube_config_map), w)" "tracker_ok w"
    "tracker_stored w = stored_put RConfigMaps DashboardNamespace ConfigMapName (ObjConfigMap cube_config_map) (tracker_stored (ib_world st))"
    by (rule client_create_tracker [OF assms(1) wn _ free, unfolded put]) (use kube_names_ok in auto)
  show thesis
    by (rule that [of "st\<lparr>ib_Infrastructures := Some initInfrastructures, ib_world := w\<rparr>"])
      (use w assms(2) in \<open>simp_all add: ConfigMapDeploy_def ConfigMaps_Create_def api_simps infra_backend_ok_def same_outside_def\<close>)
next
  case (Some x)
  with assms(3) have x: "tracker_stored (ib_world st) RConfigMaps DashboardNamespace ConfigMapName = Some (ObjConfigMap cube_config_map)" by simp
  from ConfigMapDeploy_present [OF assms(1) this]
  show thesis using that assms(1,2) x by (simp add: infra_backend_ok_def)
qed

section \<open>Deploying an infrastructure\<close>

definition keys_of :: "string \<Rightarrow> infra_keys" where
  "keys_of kind =
     (if kind = DashboardName then in_dashboard initInfrastructures
      else if kind = LonghornName then in_longhorn initInfrastructures else in_rancherVM initInfrastructures)"

definition namespace_of :: "string \<Rightarrow> string" where
  "namespace_of kind =
     (if kind = DashboardName then DashboardNamespace
      else if kind = LonghornName then LonghornNamespace else RancherVMNamespace)"

definition known_kind :: "string \<Rightarrow> bool" where
  "known_kind kind \<longleftrightarrow> kind \<in> {DashboardName, LonghornName, RancherVMName}"

lemma known_kind_cases:
  assumes "known_kind kind"
  obtains "kind = ''kubernetes-dashboard''" | "kind = ''longhorn-frontend''" | "kind = ''ranchervm-frontend''"
  using assms by (auto simp: known_kind_def bundle_names)

lemma config_lookup:
  assumes "known_kind kind"
  shows "map_get (config_data initInfrastructures) (ik_name (keys_of kind)) = kind"
    "map_get (config_data initInfrastructures) (ik_namespace (keys_of kind)) = namespace_of kind"
  using assms
  by (rule known_kind_cases;
      simp add: map_get_def config_data_def keys_of_def namespace_of_def initInfrastructures_def bundle_names)+

lemma with_infra_ok:
  assumes "infra_backend_ok st" "known_kind kind"
  shows "with_infra ObjectReaction kind st failed run =
    run (keys_of kind) (config_data initInfrastructures) (st\<lparr>ib_configMap := Some cube_config_map\<rparr>)"
proof -
  have "getInfra kind st = Return (Some (keys_of kind))"
    using assms by (auto simp: getInfra_def keys_of_def known_kind_def infra_backend_ok_def)
  then show ?thesis by (simp add: with_infra_def getConfigMapInfo_ok [OF assms(1)])
qed

abbreviation deployed_infra :: "infra_images \<Rightarrow> string \<Rightarrow> infrastructure" where
  "deployed_infra images kind \<equiv> new_infrastructure images (keys_of kind) (config_data initInfrastructures)"

lemma deployed_infra_meta:
  assumes "known_kind kind"
  shows "om_Name (i_meta (deployed_infra images kind)) = kind"
    "om_Namespace (i_meta (deployed_infra images kind)) = namespace_of kind"
  using config_lookup [OF assms] by (simp_all add: new_infrastructure_def)

lemma known_kind_segments:
  assumes "known_kind kind"
  shows "kind \<noteq> []" "path_segment_ok kind" "namespace_of kind \<noteq> []" "path_segment_ok (namespace_of kind)"
  using assms by (rule known_kind_cases; simp add: namespace_of_def bundle_names path_segment_ok_def)+

text \<open>
  The bundle of a deployed infrastructure, and the deployment of the bundle under the very name by
  which the controller looks for it.
\<close>

lemma frontend_names:
  "om_Name (de_meta (dashboard_deployment i)) = DashboardName"
  "om_Name (de_meta (longhorn_frontend i)) = LonghornName"
  "om_Name (de_meta (ranchervm_frontend i)) = RancherVMName"
  by (simp_all add: dashboard_deployment_def longhorn_frontend_def ranchervm_frontend_def bundle_names)

lemma deployed_infra_kind:
  "is_InfraKind (i_Spec (deployed_infra images DashboardName)) = ''Dashboard''"
  "is_InfraKind (i_Spec (deployed_infra images LonghornName)) = ''Longhorn''"
  "is_InfraKind (i_Spec (deployed_infra images RancherVMName)) = ''RancherVM''"
  by (simp_all add: new_infrastructure_def keys_of_def config_data_def map_get_def initInfrastructures_def
      bundle_names config_constants)

lemma deployed_infra_bundle:
  assumes "known_kind kind"
  obtains items d where "bundle_of (deployed_infra images kind) = Some (namespace_of kind, items, d)"
    "om_Name (de_meta d) = kind"
proof -
  have ns: "namespace_of DashboardName = InfrastructureNamespace" "namespace_of LonghornName = LonghornNamespace"
    "namespace_of RancherVMName = RancherVMNamespace" by (simp_all add: namespace_of_def bundle_names)
  consider "kind = DashboardName" | "kind = LonghornName" | "kind = RancherVMName"
    using assms by (auto simp: known_kind_def)
  then show thesis
  proof cases
    case 1
    then have "bundle_of (deployed_infra images kind) =
        Some (namespace_of kind, dashboard_items (deployed_infra images kind), dashboard_deployment (deployed_infra images kind))"
      by (simp only: bundle_of_def deployed_infra_kind ns if_True simp_thms)
    then show thesis by (rule that) (simp only: 1 frontend_names)
  next
    case 2
    then have "bundle_of (deployed_infra images kind) =
        Some (namespace_of kind, longhorn_items (deployed_infra images kind), longhorn_frontend (deployed_infra images kind))"
      by (simp add: bundle_of_def deployed_infra_kind ns)
    then show thesis by (rule that) (simp only: 2 frontend_names)
  next
    case 3
    then have "bundle_of (deployed_infra images kind) =
        Some (namespace_of kind, ranchervm_items (deployed_infra images kind), ranchervm_frontend (deployed_infra images kind))"
      by (simp add: bundle_of_def deployed_infra_kind ns)
    then show thesis by (rule that) (simp only: 3 frontend_names)
  qed
qed

lemma InfrastructureDeploy_stores:
  assumes "infra_backend_ok st" "known_kind kind"
    and "tracker_stored (ib_world st) RInfrastructures (namespace_of kind) kind = None"
    and "\<And>k. \<exists>r. Services_lister_Get (wt_cache services k) (namespace_of kind) kind = Return r"
    and "InfrastructureDeploy ObjectReaction images services kind st \<noteq> None \<or> (\<exists>t. wt_HasSynced services t)"
  obtains st' where
    "InfrastructureDeploy ObjectReaction images services kind st = Some (Return ((Some (deployed_infra images kind), None), st'))"
    "infra_backend_ok st'"
    "tracker_stored (ib_world st') RInfrastructures (namespace_of kind) kind = Some (ObjInfra (deployed_infra images kind))"
    "tracker_stored (ib_world st') RNamespaces [] (namespace_of kind) \<noteq> None"
    "same_outside {(RNamespaces, [], namespace_of kind), (RInfrastructures, namespace_of kind, kind)}
       (tracker_stored (ib_world st)) (tracker_stored (ib_world st'))"
proof -
  let ?ns = "namespace_of kind" and ?i = "deployed_infra images kind"
  note seg = known_kind_segments [OF assms(2)] and meta = deployed_infra_meta [OF assms(2), of images]
  have w: "tracker_ok (ib_world st)" using assms(1) by (simp add: infra_backend_ok_def)
  obtain err w1 where e: "create_err ObjectReaction [] (ObjNamespace \<lparr>ns_meta = zero_meta\<lparr>om_Name := ?ns\<rparr>\<rparr>) (ib_world st) = (err, w1)"
    "err = None \<or> IsAlreadyExists err" "tracker_ok w1" "tracker_stored w1 RNamespaces [] ?ns \<noteq> None"
    "same_outside {(RNamespaces, [], ?ns)} (tracker_stored (ib_world st)) (tracker_stored w1)"
    by (rule tracker_ensure_namespace [OF w seg(3)])
  have wn: "well_named RInfrastructures ?ns (ObjInfra ?i)" using seg meta by (simp add: well_named_def)
  have free: "tracker_stored w1 RInfrastructures ?ns (om_Name (obj_meta (ObjInfra ?i))) = None"
    using e(5) assms(3) by (simp add: meta same_outside_def)
  have put: "propagate_namespace ?ns (ObjInfra ?i) = ObjInfra ?i" by (rule propagate_namespace_id) (simp add: meta)
  obtain w2 where c: "client_create ObjectReaction RInfrastructures ?ns (ObjInfra ?i) w1 = (Inr (ObjInfra ?i), w2)" "tracker_ok w2"
    "tracker_stored w2 = stored_put RInfrastructures ?ns kind (ObjInfra ?i) (tracker_stored w1)"
    by (rule client_create_tracker [OF e(3) wn _ free, unfolded put]) (use seg meta in auto)
  let ?st2 = "st\<lparr>ib_configMap := Some cube_config_map, ib_world := w2\<rparr>"
  have sent: "InfrastructureDeploy ObjectReaction images services kind st =
      bind_waiting (ServiceGet services ?ns kind ?st2) (\<lambda>(err2, st3).
        if err2 \<noteq> None then Some (Return ((None, Wrap err2 ''failed to get infrastructure service:%s''), st3))
        else Some (Return ((Some ?i, None), st3)))"
    using e(1,2) c(1)
    by (auto simp: InfrastructureDeploy_def with_infra_ok [OF assms(1,2)] config_lookup [OF assms(2)]
        backend_ensureNamespaceExists_def Infrastructures_Create_def api_simps Let_def)
  have "\<exists>t. wt_HasSynced services t"
  proof (rule ccontr)
    assume never: "\<nexists>t. wt_HasSynced services t"
    then have "ServiceGet services ?ns kind ?st2 = None" by (simp add: ServiceGet_def WaitForCacheSync_never)
    then have "InfrastructureDeploy ObjectReaction images services kind st = None" by (simp add: sent)
    with assms(5) never show False by simp
  qed
  then obtain t where t: "wt_HasSynced services t" by blast
  obtain found where s: "syncService_loop (wt_cache services) ?ns kind 0 0 = Return found"
    using syncService_polls [where services = "wt_cache services" and ns = ?ns and i = kind and k = 0 and d = 0, OF assms(4)] by auto
  define st' where "st' = (case found of None \<Rightarrow> ?st2 | Some svc \<Rightarrow> ?st2\<lparr>ib_Service := Some svc\<rparr>)"
  have st': "ib_world st' = w2" "infra_backend_ok st'"
    using infra_backend_ok_upd [OF assms(1) c(2)] unfolding st'_def
    by (simp_all add: infra_backend_ok_def split: option.splits)
  have "InfrastructureDeploy ObjectReaction images services kind st = Some (Return ((Some ?i, None), st'))"
    unfolding sent by (simp add: ServiceGet_synced [OF t] s st'_def)
  moreover have "same_outside {(RNamespaces, [], ?ns), (RInfrastructures, ?ns, kind)}
       (tracker_stored (ib_world st)) (tracker_stored (ib_world st'))"
    using e(5) by (auto simp: st'(1) c(3) same_outside_def)
  ultimately show thesis using that st' e(4) c(3) by simp
qed

text \<open>
  C25. An infrastructure that is asked for through the API comes up: the request stores one
  infrastructure object, and the pass of the controller over this object, which looks for its
  deployment under the name and namespace that the request took from the config map, installs every
  object of the bundle, the deployment with one replica among them, and reports \<open>UnHealthy\<close> and no
  available replica, since nothing of the new deployment runs yet.
\<close>

theorem InfrastructureDeploy_comes_up:
  assumes "infra_backend_ok st" "known_kind kind"
    and "tracker_stored (ib_world st) RInfrastructures (namespace_of kind) kind = None"
    and "\<And>k. \<exists>r. Services_lister_Get (wt_cache services k) (namespace_of kind) kind = Return r"
    and "InfrastructureDeploy ObjectReaction images services kind st = Some (Return ((Some infra, err), st'))"
    and "bundle_of infra = Some (ns, items, d)"
    and "\<forall>(m, x) \<in> set (items @ [(ns, ObjDeployment d)]).
      tracker_stored (ib_world st') (obj_resource x) m (om_Name (obj_meta x)) = None"
    and "services_typed cs" "tsm_Get (infra_key infra) (ic_infras cs) = Some (ObjInfra infra)"
    and "tsm_Get (infra_key infra) (ic_deployments cs) = None"
  shows "err = None \<and> om_Name (i_meta infra) = kind \<and> is_Images (i_Spec infra) = images
    \<and> tracker_stored (ib_world st') RInfrastructures (namespace_of kind) kind = Some (ObjInfra infra)
    \<and> lister_key ns (om_Name (de_meta d)) = infra_key infra \<and> de_Replicas d = Some 1
    \<and> (\<exists>w' s. infra_syncHandler ObjectReaction cs (infra_key infra) \<lparr>ct_world = ib_world st', ct_events = evs\<rparr> =
          Return (None, \<lparr>ct_world = w', ct_events = evs @ [infra_synced_event]\<rparr>)
        \<and> (\<forall>(m, x) \<in> set (items @ [(ns, ObjDeployment d)]).
             tracker_stored w' (obj_resource x) m (om_Name (obj_meta x)) = Some x)
        \<and> tracker_stored w' RInfrastructures (namespace_of kind) kind = Some (ObjInfra (infra\<lparr>i_Status := s\<rparr>))
        \<and> st_State s = ''UnHealthy'' \<and> st_AvailableReplicas s = 0)"
proof -
  note seg = known_kind_segments [OF assms(2)] and meta = deployed_infra_meta [OF assms(2), of images]
  have "InfrastructureDeploy ObjectReaction images services kind st \<noteq> None \<or> (\<exists>t. wt_HasSynced services t)"
    using assms(5) by simp
  then obtain st2 where st2: "InfrastructureDeploy ObjectReaction images services kind st =
      Some (Return ((Some (deployed_infra images kind), None), st2))"
    "infra_backend_ok st2"
    "tracker_stored (ib_world st2) RInfrastructures (namespace_of kind) kind = Some (ObjInfra (deployed_infra images kind))"
    by (rule InfrastructureDeploy_stores [where services = services, OF assms(1-4)])
  then have eq: "infra = deployed_infra images kind" "err = None" "st' = st2" using assms(5) by simp_all
  obtain items' d' where b: "bundle_of infra = Some (namespace_of kind, items', d')" "om_Name (de_meta d') = kind"
    using deployed_infra_bundle [OF assms(2), of images] eq(1) by metis
  with assms(6) have ns: "ns = namespace_of kind" "om_Name (de_meta d) = kind" by simp_all
  have v: "valid_infra infra" using seg by (simp add: valid_infra_def eq(1) meta)
  have w: "tracker_ok (ib_world st')" using st2(2) by (simp add: eq(3) infra_backend_ok_def)
  have there: "tracker_stored (ib_world st') RInfrastructures (om_Namespace (i_meta infra)) (om_Name (i_meta infra)) \<noteq> None"
    using st2(3) by (simp add: eq meta)
  obtain w' s where run: "infra_syncHandler ObjectReaction cs (infra_key infra) \<lparr>ct_world = ib_world st', ct_events = evs\<rparr> =
      Return (None, \<lparr>ct_world = w', ct_events = evs @ [infra_synced_event]\<rparr>)"
    "\<forall>(m, x) \<in> set (items @ [(ns, ObjDeployment d)]). tracker_stored w' (obj_resource x) m (om_Name (obj_meta x)) = Some x"
    "tracker_stored w' RInfrastructures (om_Namespace (i_meta infra)) (om_Name (i_meta infra)) = Some (ObjInfra (infra\<lparr>i_Status := s\<rparr>))"
    "st_State s = ''UnHealthy''" "st_AvailableReplicas s = 0"
    using infra_sync_installs [OF v assms(8,6,9,10) w there assms(7), of evs] by blast
  have "om_Name (i_meta infra) = kind" "om_Namespace (i_meta infra) = namespace_of kind" "is_Images (i_Spec infra) = images"
    "is_Replicas (i_Spec infra) = Some 1"
    using meta by (simp_all add: eq(1)) (simp_all add: new_infrastructure_def)
  moreover from this have "lister_key ns (om_Name (de_meta d)) = infra_key infra" "de_Replicas d = Some 1"
    using ns bundle_of_deployment(1) [OF assms(6)] by (simp_all add: infra_key_def)
  ultimately show ?thesis using run eq(2) st2(3) unfolding eq(3) by (simp add: eq(1)) blast
qed

section \<open>The status page\<close>

definition present_infra :: "tracker \<Rightarrow> string \<Rightarrow> infrastructure option" where
  "present_infra w kind =
     (case tracker_stored w RInfrastructures (namespace_of kind) kind of None \<Rightarrow> None | Some x \<Rightarrow> as_infra x)"

lemma stored_infra:
  assumes "tracker_ok w" "tracker_stored w RInfrastructures ns n = Some x"
  obtains infra where "x = ObjInfra infra"
proof -
  have "x \<in> set (tr_objects w RInfrastructures)"
    using assms(2) by (auto simp: tracker_stored_def find_Some_iff)
  with assms(1) have "obj_resource x = RInfrastructures" by (simp add: tracker_ok_def)
  then show thesis using that by (cases x) auto
qed

lemma InfrastructureGet_status:
  assumes "infra_backend_ok st" "known_kind kind"
  shows "\<exists>r err. backend_InfrastructureGet ObjectReaction services kind True st =
      Some (Return ((r, err), st\<lparr>ib_configMap := Some cube_config_map\<rparr>))
    \<and> (if err \<noteq> None then None else r) = present_infra (ib_world st) kind"
proof -
  note seg = known_kind_segments [OF assms(2)]
  have w: "tracker_ok (ib_world st)" using assms(1) by (simp add: infra_backend_ok_def)
  have get: "client_get ObjectReaction RInfrastructures (namespace_of kind) kind (ib_world st) =
      ((case tracker_stored (ib_world st) RInfrastructures (namespace_of kind) kind of
          None \<Rightarrow> Inl (StatusError StatusReasonNotFound kind) | Some x \<Rightarrow> Inr x), ib_world st)"
    using client_get_tracker [OF w seg(1,2), of RInfrastructures "namespace_of kind"] seg(3,4) by simp
  show ?thesis
  proof (cases "tracker_stored (ib_world st) RInfrastructures (namespace_of kind) kind")
    case None
    with get show ?thesis
      by (simp add: backend_InfrastructureGet_def with_infra_ok [OF assms] config_lookup [OF assms(2)]
          Infrastructures_Get_def api_simps present_infra_def Let_def)
  next
    case (Some x)
    then obtain infra where "x = ObjInfra infra" by (rule stored_infra [OF w])
    with Some get show ?thesis
      by (simp add: backend_InfrastructureGet_def with_infra_ok [OF assms] config_lookup [OF assms(2)]
          Infrastructures_Get_def api_simps present_infra_def Let_def)
  qed
qed

lemma status_step_ok:
  assumes "infra_backend_ok st" "known_kind kind"
  shows "status_step ObjectReaction services kind st =
    Some (Return (checkStatus (present_infra (ib_world st) kind) kind (st\<lparr>ib_configMap := Some cube_config_map\<rparr>)))"
proof -
  obtain r err where "backend_InfrastructureGet ObjectReaction services kind True st =
      Some (Return ((r, err), st\<lparr>ib_configMap := Some cube_config_map\<rparr>))"
    "(if err \<noteq> None then None else r) = present_infra (ib_world st) kind"
    using InfrastructureGet_status [OF assms] by blast
  then show ?thesis by (simp only: status_step_def bind_waiting.simps prod.case)
qed

lemma checkStatus_sel [simp]:
  "ib_world (checkStatus item name st) = ib_world st" "ib_configMap (checkStatus item name st) = ib_configMap st"
  "ib_Infrastructures (checkStatus item name st) = ib_Infrastructures st"
  "ib_status (checkStatus item name st) = (name, if item = None then ''False'' else ''True'') # ib_status st"
  "ib_state (checkStatus item name st) =
     (name, case item of None \<Rightarrow> [] | Some infra \<Rightarrow> st_State (i_Status infra)) # ib_state st"
  by (simp_all add: checkStatus_def split: option.splits)

lemma checkStatus_ok: "infra_backend_ok (checkStatus item name st) \<longleftrightarrow> infra_backend_ok st"
  by (simp add: infra_backend_ok_def)

lemma statusGet_ok:
  assumes "infra_backend_ok st" "ib_configMap st = Some cube_config_map"
  obtains st' where "statusGet ObjectReaction services st = Some (Return st')" "ib_world st' = ib_world st"
    "ib_configMap st' = Some cube_config_map" "ib_Infrastructures st' = Some initInfrastructures"
    "\<And>kind. known_kind kind \<Longrightarrow> map_get (ib_status st') kind =
       (if present_infra (ib_world st) kind = None then ''False'' else ''True'')"
    "\<And>kind. known_kind kind \<Longrightarrow> map_get (ib_state st') kind =
       (case present_infra (ib_world st) kind of None \<Rightarrow> [] | Some infra \<Rightarrow> st_State (i_Status infra))"
proof -
  let ?w = "ib_world st"
  let ?cm = "\<lambda>s. s\<lparr>ib_configMap := Some cube_config_map\<rparr>"
  let ?st0 = "st\<lparr>ib_status := [], ib_state := []\<rparr>"
  let ?st1 = "checkStatus (present_infra ?w DashboardName) DashboardName (?cm ?st0)"
  let ?st2 = "checkStatus (present_infra ?w LonghornName) LonghornName (?cm ?st1)"
  let ?st3 = "checkStatus (present_infra ?w RancherVMName) RancherVMName (?cm ?st2)"
  have ok: "infra_backend_ok ?st0" "infra_backend_ok ?st1" "infra_backend_ok ?st2"
    using assms by (auto simp: infra_backend_ok_def)
  have k: "known_kind DashboardName" "known_kind LonghornName" "known_kind RancherVMName" by (simp_all add: known_kind_def)
  have run: "statusGet ObjectReaction services st = Some (Return ?st3)"
    using status_step_ok [OF ok(1) k(1), of services] status_step_ok [OF ok(2) k(2), of services]
      status_step_ok [OF ok(3) k(3), of services] by (simp add: statusGet_def)
  have inf: "ib_Infrastructures ?st3 = Some initInfrastructures" using assms by (simp add: infra_backend_ok_def)
  have lookup: "map_get (ib_status ?st3) kind = (if present_infra ?w kind = None then ''False'' else ''True'')"
    "map_get (ib_state ?st3) kind = (case present_infra ?w kind of None \<Rightarrow> [] | Some infra \<Rightarrow> st_State (i_Status infra))"
    if "known_kind kind" for kind
    using that by (auto simp: known_kind_def map_get_def bundle_names)
  have "ib_world ?st3 = ib_world st" "ib_configMap ?st3 = Some cube_config_map" by simp_all
  then show thesis by (rule that [OF run _ _ inf lookup])
qed

text \<open>
  C26. The status page: it lists the three infrastructures, each as \<open>True\<close> exactly when its object is
  stored, with the state that the controller wrote into it, and reading it changes nothing in the
  cluster.
\<close>

theorem BaseInfoGet_exact:
  assumes "infra_backend_ok st"
  shows "\<exists>st'. backend_BaseInfoGet ObjectReaction services st = Some (Return ((
      map (\<lambda>(title, kind).
        [(''name'', title), (''kind'', kind),
         (''icon'', map_get (config_data initInfrastructures) (ik_icon (keys_of kind))),
         (''desc'', map_get (config_data initInfrastructures) (ik_desc (keys_of kind))),
         (''status'', if present_infra (ib_world st) kind = None then ''False'' else ''True''),
         (''state'', case present_infra (ib_world st) kind of None \<Rightarrow> [] | Some infra \<Rightarrow> st_State (i_Status infra)),
         (''url'', ''/infrastructures'')])
        [(''Dashboard'', DashboardName), (''Longhorn'', LonghornName), (''RancherVM'', RancherVMName)], None), st'))
    \<and> ib_world st' = ib_world st"
proof -
  let ?st1 = "st\<lparr>ib_configMap := Some cube_config_map\<rparr>"
  have ok: "infra_backend_ok ?st1" using assms by (simp add: infra_backend_ok_def)
  obtain st' where s: "statusGet ObjectReaction services ?st1 = Some (Return st')" "ib_world st' = ib_world st"
    "ib_Infrastructures st' = Some initInfrastructures"
    "\<And>kind. known_kind kind \<Longrightarrow> map_get (ib_status st') kind =
       (if present_infra (ib_world st) kind = None then ''False'' else ''True'')"
    "\<And>kind. known_kind kind \<Longrightarrow> map_get (ib_state st') kind =
       (case present_infra (ib_world st) kind of None \<Rightarrow> [] | Some infra \<Rightarrow> st_State (i_Status infra))"
    by (rule statusGet_ok [OF ok, of services]) simp_all
  have k: "known_kind DashboardName" "known_kind LonghornName" "known_kind RancherVMName" by (simp_all add: known_kind_def)
  have keys: "in_dashboard initInfrastructures = keys_of DashboardName" "in_longhorn initInfrastructures = keys_of LonghornName"
    "in_rancherVM initInfrastructures = keys_of RancherVMName" by (simp_all add: keys_of_def bundle_names)
  show ?thesis
    unfolding backend_BaseInfoGet_def getConfigMapInfo_ok [OF assms]
    by (intro exI [of _ st'])
      (simp add: s(1-3) base_info_entry_def keys config_lookup(1) [OF k(1)] config_lookup(1) [OF k(2)]
        config_lookup(1) [OF k(3)] s(4,5) [OF k(1)] s(4,5) [OF k(2)] s(4,5) [OF k(3)])
qed

section \<open>A failure that stays\<close>

text \<open>
  One failed read of the config map breaks the deployment of infrastructures until the server is
  restarted: the empty answer is kept as the config map, so every later deployment, whatever the API
  server answers then, asks for the empty namespace and is refused.
\<close>

theorem config_map_failure_sticks:
  assumes "ib_configMap st = None" "getConfigMapInfo srv st = ((info, Some e), st1)" "\<not> IsNotFound (Some e)"
    and "ib_Infrastructures st1 = Some is" "known_kind kind" "ib_configMap st2 = ib_configMap st1"
    and "ib_Infrastructures st2 = ib_Infrastructures st1"
  shows "\<exists>err st3. InfrastructureDeploy srv' images services kind st2 = Some (Return ((None, Some err), st3))"
proof -
  have "ib_configMap st1 = Some zero_config_map"
  proof (cases "ConfigMapGet srv DashboardNamespace ConfigMapName (ib_world st)")
    case (Pair r w)
    obtain cm err where r: "r = (cm, err)" by (cases r)
    have "err \<noteq> None \<Longrightarrow> cm = zero_config_map"
      using Pair into_err [of zero_config_map as_config_map _ cm err w] unfolding r ConfigMapGet_def ConfigMaps_Get_def by blast
    moreover have "err \<noteq> None \<and> (\<not> IsNotFound err \<longrightarrow> ib_configMap st1 = Some cm)"
      using assms(1,2) Pair r by (auto simp: getConfigMapInfo_def Let_def split: if_splits)
    moreover have "IsNotFound err \<Longrightarrow> ib_configMap st1 = Some cm"
      using assms(1,2) Pair r by (auto simp: getConfigMapInfo_def ConfigMapDeploy_def Let_def split: if_splits prod.splits)
    ultimately show ?thesis by blast
  qed
  then have cm: "ib_configMap st2 = Some zero_config_map" using assms(6) by simp
  have "\<exists>ks. getInfra kind st2 = Return (Some ks)"
    using assms(4,5,7) by (auto simp: getInfra_def known_kind_def)
  then obtain ks where ks: "getInfra kind st2 = Return (Some ks)" ..
  have empty: "map_get (cm_Data zero_config_map) k = []" for k by (simp add: map_get_def zero_config_map_def)
  have "rest_error POST RInfrastructures [] None \<noteq> None" using rest_error_POST [of RInfrastructures "[]"] by simp
  then have "\<exists>err. client_create srv' RInfrastructures [] x w = (Inl err, w)" for x w
    by (auto simp: client_create_def)
  then have refused: "\<exists>err. Infrastructures_Create srv' [] i w = ((zero_infra, Some err), w)" for i w
    by (metis Infrastructures_Create_def into_Inl)
  show ?thesis
  proof (cases "backend_ensureNamespaceExists srv' [] (ib_world st2)")
    case (Pair err w1)
    obtain e1 where "Infrastructures_Create srv' [] (new_infrastructure images ks (cm_Data zero_config_map)) w1 =
        ((zero_infra, Some e1), w1)" using refused by blast
    with Pair show ?thesis
      by (cases err) (auto simp: InfrastructureDeploy_def with_infra_def ks getConfigMapInfo_def cm empty Let_def)
  qed
qed

section \<open>Examples\<close>

text \<open>A cluster after the start, before the config map is read, and a service cache that stays empty.\<close>

definition fresh_backend :: "k8s_obj list \<Rightarrow> tracker infra_backend" where
  "fresh_backend xs =
     \<lparr>ib_world = tracker_with (ObjConfigMap cube_config_map # xs), ib_configMap = None,
      ib_Infrastructures = Some initInfrastructures, ib_Service = None, ib_status = [], ib_state = []\<rparr>"

definition no_services :: service_informer where
  "no_services = \<lparr>wt_HasSynced = (\<lambda>k. 2 \<le> k), wt_cache = (\<lambda>_. informer_with [] [])\<rparr>"

abbreviation no_images :: infra_images where
  "no_images \<equiv> is_Images (i_Spec zero_infra)"

lemma no_services_answers: "\<exists>r. Services_lister_Get (wt_cache no_services k) ns i = Return r"
  by (simp add: no_services_def Services_lister_Get_def lister_Get_def tsm_Get_def informer_plain)

lemma fresh_backend_ok:
  assumes "tracker_ok (tracker_with (ObjConfigMap cube_config_map # xs))"
  shows "infra_backend_ok (fresh_backend xs)"
  using assms by (simp add: infra_backend_ok_def fresh_backend_def tracker_with_stored same_key_def)

lemma fresh_backend_dash: "infra_backend_ok (fresh_backend [ObjInfra dash])"
  by (rule fresh_backend_ok, rule tracker_with_ok) (simp_all add: bundle_names)

theorem ServiceGet_ends_witness:
  "(\<exists>n st'. n \<le> 6000000000 \<and> ServiceGet no_services ''kube-system'' ''web'' (fresh_backend []) = Some (Return (None, st'))
      \<and> (\<forall>j < n. missing_at (wt_cache no_services) ''kube-system'' ''web'' j))
    \<and> ServiceGet (no_services\<lparr>wt_HasSynced := \<lambda>_. False\<rparr>) ''kube-system'' ''web'' (fresh_backend []) = None"
proof -
  have s: "\<not> (\<forall>k. \<not> wt_HasSynced no_services k)" by (simp add: no_services_def exI [of _ "2::nat"])
  have a: "\<exists>r. Services_lister_Get (wt_cache (no_services\<lparr>wt_HasSynced := \<lambda>_. False\<rparr>) k) ns i = Return r" for k ns i
    using no_services_answers by simp
  show ?thesis
  proof
    show "\<exists>n st'. n \<le> 6000000000 \<and> ServiceGet no_services ''kube-system'' ''web'' (fresh_backend []) = Some (Return (None, st'))
        \<and> (\<forall>j < n. missing_at (wt_cache no_services) ''kube-system'' ''web'' j)"
      using ServiceGet_ends [of no_services "''kube-system''" "''web''" "fresh_backend []", OF no_services_answers, unfolded if_not_P [OF s]]
      by (elim exE conjE) (intro exI conjI, assumption+)
    show "ServiceGet (no_services\<lparr>wt_HasSynced := \<lambda>_. False\<rparr>) ''kube-system'' ''web'' (fresh_backend []) = None"
      using ServiceGet_ends [of "no_services\<lparr>wt_HasSynced := \<lambda>_. False\<rparr>" "''kube-system''" "''web''" "fresh_backend []", OF a]
      by simp
  qed
qed

theorem BaseInfoGet_exact_witness:
  "\<exists>xs st'. backend_BaseInfoGet ObjectReaction no_services (fresh_backend [ObjInfra dash]) = Some (Return ((xs, None), st'))
    \<and> map (\<lambda>x. map_get x ''status'') xs = [''True'', ''False'', ''False'']"
proof -
  have "present_infra (ib_world (fresh_backend [ObjInfra dash])) DashboardName = Some dash"
    "present_infra (ib_world (fresh_backend [ObjInfra dash])) LonghornName = None"
    "present_infra (ib_world (fresh_backend [ObjInfra dash])) RancherVMName = None"
    by (simp_all add: present_infra_def fresh_backend_def tracker_with_stored same_key_def namespace_of_def bundle_names)
  then show ?thesis
    using BaseInfoGet_exact [OF fresh_backend_dash, of no_services] by (auto simp: map_get_def)
qed

theorem InfrastructureDeploy_comes_up_witness:
  "\<exists>infra st' w'. InfrastructureDeploy ObjectReaction no_images no_services DashboardName (fresh_backend []) =
      Some (Return ((Some infra, None), st'))
    \<and> infra_syncHandler ObjectReaction (sample_infra_caches infra []) (infra_key infra)
        \<lparr>ct_world = ib_world st', ct_events = []\<rparr> = Return (None, \<lparr>ct_world = w', ct_events = [infra_synced_event]\<rparr>)
    \<and> tracker_stored w' RDeployments InfrastructureNamespace DashboardName = Some (ObjDeployment (dashboard_deployment infra))
    \<and> (\<exists>s. tracker_stored w' RInfrastructures InfrastructureNamespace DashboardName = Some (ObjInfra (infra\<lparr>i_Status := s\<rparr>))
      \<and> st_State s = ''UnHealthy'')"
proof -
  let ?i = "deployed_infra no_images DashboardName"
  have k: "known_kind DashboardName" by (simp add: known_kind_def)
  have ok: "infra_backend_ok (fresh_backend [])"
    by (rule fresh_backend_ok, rule tracker_with_ok) (simp_all add: bundle_names)
  have only: "tracker_stored (ib_world (fresh_backend [])) r ns n = None" if "r \<noteq> RConfigMaps" for r ns n
    using that by (simp add: fresh_backend_def tracker_with_stored)
  have synced: "\<exists>t. wt_HasSynced no_services t" by (rule exI [of _ 2]) (simp add: no_services_def)
  obtain st' where d: "InfrastructureDeploy ObjectReaction no_images no_services DashboardName (fresh_backend []) =
      Some (Return ((Some ?i, None), st'))"
    "same_outside {(RNamespaces, [], namespace_of DashboardName), (RInfrastructures, namespace_of DashboardName, DashboardName)}
       (tracker_stored (ib_world (fresh_backend []))) (tracker_stored (ib_world st'))"
    using InfrastructureDeploy_stores [where services = no_services and images = no_images, OF ok k only no_services_answers disjI2 [OF synced]]
    by (metis resource.distinct)
  have b: "bundle_of ?i = Some (InfrastructureNamespace, dashboard_items ?i, dashboard_deployment ?i)"
    by (simp add: bundle_of_def deployed_infra_kind)
  have v: "valid_infra ?i"
    using known_kind_segments [OF k] deployed_infra_meta [OF k, of no_images] by (simp add: valid_infra_def)
  have "tracker_stored (ib_world st') r m n = None" if "r \<notin> {RNamespaces, RInfrastructures, RConfigMaps}" for r m n
    using d(2) that only by (simp add: same_outside_def)
  then have "\<forall>(m, x) \<in> set (dashboard_items ?i @ [(InfrastructureNamespace, ObjDeployment (dashboard_deployment ?i))]).
      tracker_stored (ib_world st') (obj_resource x) m (om_Name (obj_meta x)) = None"
    by (simp add: dashboard_items_def)
  from InfrastructureDeploy_comes_up [where services = no_services, OF ok k only no_services_answers d(1) b this
      sample_infra_caches_get(4,1,2) [OF v], of "[]"]
  obtain w' s where w: "infra_syncHandler ObjectReaction (sample_infra_caches ?i []) (infra_key ?i) \<lparr>ct_world = ib_world st', ct_events = []\<rparr> =
      Return (None, \<lparr>ct_world = w', ct_events = [infra_synced_event]\<rparr>)"
    "tracker_stored w' RDeployments InfrastructureNamespace DashboardName = Some (ObjDeployment (dashboard_deployment ?i))"
    "tracker_stored w' RInfrastructures (namespace_of DashboardName) DashboardName = Some (ObjInfra (?i\<lparr>i_Status := s\<rparr>))"
    "st_State s = ''UnHealthy''"
    using frontend_names(1) [of ?i] by auto
  then show ?thesis using d(1) by (auto simp: namespace_of_def bundle_names)
qed

text \<open>A server that is out of order.\<close>

definition broken_server :: "tracker api_server" where
  "broken_server = ObjectReaction\<lparr>api_get := \<lambda>r ns n w. (Inl (StatusError StatusReasonUnknown n), w)\<rparr>"

theorem config_map_failure_sticks_witness:
  "\<exists>info e st1 err st3. getConfigMapInfo broken_server (fresh_backend []) = ((info, Some e), st1)
    \<and> InfrastructureDeploy ObjectReaction no_images no_services DashboardName st1 = Some (Return ((None, Some err), st3))"
proof -
  have "client_get broken_server RConfigMaps DashboardNamespace ConfigMapName w =
      (Inl (StatusError StatusReasonUnknown ConfigMapName), w)" for w
    using kube_names_ok by (simp add: client_get_def broken_server_def rest_error_def)
  then have g: "getConfigMapInfo broken_server (fresh_backend []) =
      ((None, Some (StatusError StatusReasonUnknown ConfigMapName)), (fresh_backend [])\<lparr>ib_configMap := Some zero_config_map\<rparr>)"
    by (simp add: getConfigMapInfo_def ConfigMapGet_def ConfigMaps_Get_def api_simps fresh_backend_def go_err)
  have "ib_configMap (fresh_backend []) = None" by (simp add: fresh_backend_def)
  from config_map_failure_sticks [OF this g _ _ _ refl refl, of initInfrastructures DashboardName ObjectReaction no_images no_services]
  show ?thesis using g by (auto simp: fresh_backend_def known_kind_def go_err)
qed

end
