(* ===== verification/Cube_Cluster.thy ===== *)
theory Cube_Cluster
  imports Cube_Api "HOL-Library.AList" "HOL-Library.Multiset"
begin

text \<open>
  The resources of the cluster: \<open>backend/cluster.go\<close>, \<open>backend/node.go\<close> and \<open>NodeIPGet\<close> of
  \<open>backend/service.go\<close>.

  The requests to the API server and \<open>fields.ParseSelector\<close> are arguments, as is the order in which a
  Go map is visited: \<open>visit\<close> takes the entries of a map to the sequence of the visit, and all that is
  ever assumed of it is that every entry is visited once.
\<close>

section \<open>Quantities\<close>

text \<open>
  Addition and comparison of quantities are exact: beyond the range of an \<open>int64\<close> the source goes over
  to decimals of unbounded size.
\<close>

instantiation quantity :: comm_monoid_add
begin

definition zero_quantity :: quantity where "0 = Quantity 0"

definition plus_quantity :: "quantity \<Rightarrow> quantity \<Rightarrow> quantity" where
  "x + y = Quantity (nanos x + nanos y)"

instance
  by standard (simp_all add: zero_quantity_def plus_quantity_def)

end

instantiation quantity :: linorder
begin

definition less_eq_quantity :: "quantity \<Rightarrow> quantity \<Rightarrow> bool" where "x \<le> y \<longleftrightarrow> nanos x \<le> nanos y"

definition less_quantity :: "quantity \<Rightarrow> quantity \<Rightarrow> bool" where "x < y \<longleftrightarrow> nanos x < nanos y"

instance
  by standard (auto simp: less_eq_quantity_def less_quantity_def intro: quantity.expand)

end

definition NewQuantity :: "int \<Rightarrow> quantity" where
  "NewQuantity n = Quantity (n * 1000000000)"

text \<open>\<open>Pods()\<close>, \<open>Memory()\<close> and \<open>Cpu()\<close> of a resource list: a missing key is zero.\<close>

definition amount :: "resource_list \<Rightarrow> string \<Rightarrow> quantity" where
  "amount m k = (case m k of None \<Rightarrow> 0 | Some q \<Rightarrow> q)"

section \<open>What the pods of a node ask for\<close>

text \<open>Every key of the first list is visited once, and writes only its own entry of the second one.\<close>

definition addMap :: "resource_list \<Rightarrow> resource_list \<Rightarrow> resource_list" where
  "addMap data1 data2 = (\<lambda>k.
     case data1 k of
       None \<Rightarrow> data2 k
     | Some q \<Rightarrow> (case data2 k of None \<Rightarrow> Some q | Some v \<Rightarrow> Some (v + q)))"

definition addMapForInit :: "resource_list \<Rightarrow> resource_list \<Rightarrow> resource_list" where
  "addMapForInit data1 data2 = (\<lambda>k.
     case data1 k of
       None \<Rightarrow> data2 k
     | Some q \<Rightarrow> (case data2 k of None \<Rightarrow> Some q | Some v \<Rightarrow> (if v < q then Some q else Some v)))"

definition getPodData :: "pod \<Rightarrow> resource_list \<times> resource_list" where
  "getPodData p =
     fold (\<lambda>c (requests, limits). (addMapForInit (co_Requests c) requests, addMapForInit (co_Limits c) limits))
       (ps_InitContainers (po_Spec p))
       (fold (\<lambda>c (requests, limits). (addMap (co_Requests c) requests, addMap (co_Limits c) limits))
          (ps_Containers (po_Spec p)) (Map.empty, Map.empty))"

type_synonym pods_data = "(string \<times> resource_list \<times> resource_list) list"

definition podsData :: "pod list \<Rightarrow> pods_data" where
  "podsData ps = fold (\<lambda>p. AList.update (om_Name (po_meta p)) (getPodData p)) ps []"

definition aggregateRequestAndLimitsForNode ::
    "(pods_data \<Rightarrow> pods_data) \<Rightarrow> pod list option \<Rightarrow> resource_list \<times> resource_list" where
  "aggregateRequestAndLimitsForNode visit pods =
     (let requests = (case pods of None \<Rightarrow> Map.empty | Some ps \<Rightarrow> [''pods'' \<mapsto> NewQuantity (int (length ps))]);
          pd = (case pods of None \<Rightarrow> [] | Some ps \<Rightarrow> podsData ps)
      in fold (\<lambda>(_, podRequests, podLimits) (requests, limits). (addMap podRequests requests, addMap podLimits limits))
           (visit pd) (requests, Map.empty))"

section \<open>The nodes of the cluster\<close>

record component_status =
  cst_meta :: object_meta
  cst_conditions :: "(string \<times> string) list"

record 'w cluster_server =
  cs_Nodes_List :: "'w \<Rightarrow> (go_error + node list) \<times> 'w"
  cs_Nodes_Get :: "string \<Rightarrow> 'w \<Rightarrow> (go_error + node) \<times> 'w"
  cs_Pods_List :: "string \<Rightarrow> 'w \<Rightarrow> (go_error + pod list) \<times> 'w"
  cs_ComponentStatuses_List :: "'w \<Rightarrow> (go_error + component_status list) \<times> 'w"
  cs_ComponentStatuses_Get :: "string \<Rightarrow> 'w \<Rightarrow> (go_error + component_status) \<times> 'w"
  cs_ParseSelector :: "string \<Rightarrow> go_error + string"

definition ClusterNodes :: "'w cluster_server \<Rightarrow> 'w \<Rightarrow> (go_error + node list) \<times> 'w" where
  "ClusterNodes srv w = cs_Nodes_List srv w"

definition ClusterNode :: "'w cluster_server \<Rightarrow> string \<Rightarrow> 'w \<Rightarrow> (go_error + node) \<times> 'w" where
  "ClusterNode srv i w = cs_Nodes_Get srv i w"

definition ClusterComponentStatuses :: "'w cluster_server \<Rightarrow> 'w \<Rightarrow> (go_error + component_status list) \<times> 'w" where
  "ClusterComponentStatuses srv w = cs_ComponentStatuses_List srv w"

definition ClusterComponentStatus ::
    "'w cluster_server \<Rightarrow> string \<Rightarrow> 'w \<Rightarrow> (go_error + component_status) \<times> 'w" where
  "ClusterComponentStatus srv component w = cs_ComponentStatuses_Get srv component w"

definition node_selector :: "node \<Rightarrow> string" where
  "node_selector n = ''spec.nodeName='' @ om_Name (no_meta n) @ '',status.phase!='' @ ''Succeeded''
     @ '',status.phase!='' @ ''Failed''"

definition matches_pod :: "pod \<Rightarrow> bool" where
  "matches_pod p \<longleftrightarrow>
     \<not> (ps_NodeName (po_Spec p) = [] \<or> om_DeletionTimestamp (po_meta p) \<noteq> None)
     \<and> \<not> (po_Phase p = ''Succeeded'' \<or> po_Phase p = ''Failed'')"

definition getNodePods :: "'w cluster_server \<Rightarrow> node \<Rightarrow> 'w \<Rightarrow> (go_error + pod list) \<times> 'w" where
  "getNodePods srv n w =
     (case cs_ParseSelector srv (node_selector n) of
        Inl e \<Rightarrow> (Inl e, w)
      | Inr sel \<Rightarrow>
          (case cs_Pods_List srv sel w of
             (Inl e, w1) \<Rightarrow> (Inl e, w1)
           | (Inr pods, w1) \<Rightarrow> (Inr (filter matches_pod pods), w1)))"

text \<open>\<open>None\<close> is the nil map of a resource list that was never set.\<close>

record cluster_resource =
  cr_Capacity :: "resource_list option"
  cr_Allocatable :: "resource_list option"
  cr_Requested :: "resource_list option"
  cr_Limits :: "resource_list option"

definition zero_cluster_resource :: cluster_resource where
  "zero_cluster_resource = \<lparr>cr_Capacity = None, cr_Allocatable = None, cr_Requested = None, cr_Limits = None\<rparr>"

definition node_resource :: "(pods_data \<Rightarrow> pods_data) \<Rightarrow> node \<Rightarrow> pod list \<Rightarrow> cluster_resource" where
  "node_resource visit n pods =
     (case aggregateRequestAndLimitsForNode visit (Some pods) of (requests, limits) \<Rightarrow>
        \<lparr>cr_Capacity = no_Capacity n, cr_Allocatable = no_Allocatable n,
         cr_Requested = Some requests, cr_Limits = Some limits\<rparr>)"

fun node_resources ::
    "'w cluster_server \<Rightarrow> (pods_data \<Rightarrow> pods_data) \<Rightarrow> node list \<Rightarrow> cluster_resource list \<Rightarrow> 'w
       \<Rightarrow> cluster_resource list \<times> 'w" where
  "node_resources srv visit [] acc w = (acc, w)"
| "node_resources srv visit (n # ns) acc w =
     (case getNodePods srv n w of
        (Inl e, w1) \<Rightarrow> node_resources srv visit ns acc w1
      | (Inr pods, w1) \<Rightarrow> node_resources srv visit ns (acc @ [node_resource visit n pods]) w1)"

text \<open>The three sums of one column: pods, memory, CPU.\<close>

definition add_column :: "resource_list option \<Rightarrow> quantity \<times> quantity \<times> quantity \<Rightarrow> quantity \<times> quantity \<times> quantity" where
  "add_column column = (\<lambda>(pods, mem, cpu).
     case column of
       None \<Rightarrow> (pods, mem, cpu)
     | Some m \<Rightarrow> (pods + amount m ''pods'', mem + amount m ''memory'', cpu + amount m ''cpu''))"

definition column_total :: "(cluster_resource \<Rightarrow> resource_list option) \<Rightarrow> cluster_resource list \<Rightarrow> resource_list" where
  "column_total column crs =
     (case fold (\<lambda>c. add_column (column c)) crs (0, 0, 0) of
        (pods, mem, cpu) \<Rightarrow> [''pods'' \<mapsto> pods, ''memory'' \<mapsto> mem, ''cpu'' \<mapsto> cpu])"

definition ClusterResources ::
    "'w cluster_server \<Rightarrow> (pods_data \<Rightarrow> pods_data) \<Rightarrow> 'w \<Rightarrow> (go_error + cluster_resource) \<times> 'w" where
  "ClusterResources srv visit w =
     (case cs_Nodes_List srv w of
        (Inl e, w1) \<Rightarrow> (Inl e, w1)
      | (Inr nodes, w1) \<Rightarrow>
          (case node_resources srv visit nodes (replicate (length nodes) zero_cluster_resource) w1 of
             (crs, w2) \<Rightarrow>
               (Inr \<lparr>cr_Capacity = Some (column_total cr_Capacity crs),
                 cr_Allocatable = Some (column_total cr_Allocatable crs),
                 cr_Requested = Some (column_total cr_Requested crs),
                 cr_Limits = Some (column_total cr_Limits crs)\<rparr>, w2)))"

text \<open>
  The address of the first node: the external one, else the last internal one.  Without any node the
  index expression panics.
\<close>

fun node_ip :: "node_address list \<Rightarrow> string \<Rightarrow> string" where
  "node_ip [] ip = ip"
| "node_ip (a # as) ip =
     (if na_Type a = ''ExternalIP'' then na_Address a
      else node_ip as (if na_Type a = ''InternalIP'' then na_Address a else ip))"

definition NodeIPGet :: "'w cluster_server \<Rightarrow> 'w \<Rightarrow> ((string \<times> go_error option) \<times> 'w) outcome" where
  "NodeIPGet srv w =
     (case ClusterNodes srv w of
        (Inl e, w1) \<Rightarrow> Return (([], Wrap (Some e) ''RancherCUBE: fail to read nodes''), w1)
      | (Inr nodes, w1) \<Rightarrow>
          (case nodes of
             [] \<Rightarrow> Panic ''index out of range''
           | n # _ \<Rightarrow> Return ((node_ip (no_Addresses n) [], None), w1)))"

section \<open>Sums of quantities\<close>

instance quantity :: ordered_comm_monoid_add
  by standard (simp add: less_eq_quantity_def plus_quantity_def)

lemma quantity_add_less: "(a :: quantity) < b \<Longrightarrow> c + a < c + b"
  by (simp add: less_quantity_def plus_quantity_def)

lemma quantity_nonneg_sum_zero: "0 \<le> a \<Longrightarrow> 0 \<le> b \<Longrightarrow> (a :: quantity) + b = 0 \<longleftrightarrow> a = 0 \<and> b = 0"
  by (cases a; cases b) (simp add: less_eq_quantity_def plus_quantity_def zero_quantity_def; linarith)

lemma quantity_add_cancel: "(a :: quantity) + b = a \<longleftrightarrow> b = 0"
  by (cases a; cases b) (simp add: plus_quantity_def zero_quantity_def)

definition nonneg :: "resource_list \<Rightarrow> bool" where
  "nonneg m \<longleftrightarrow> (\<forall>k q. m k = Some q \<longrightarrow> 0 \<le> q)"

lemma amount_simps [simp]: "amount Map.empty k = 0" "amount (m(k \<mapsto> q)) k' = (if k' = k then q else amount m k')"
  by (simp_all add: amount_def)

lemma amount_nonneg: "nonneg m \<Longrightarrow> 0 \<le> amount m k"
  by (auto simp: nonneg_def amount_def split: option.split)

lemma amount_addMap: "amount (addMap a b) k = amount b k + amount a k"
  by (simp add: amount_def addMap_def split: option.split)

lemma amount_addMapForInit:
  assumes "nonneg a" "nonneg b"
  shows "amount (addMapForInit a b) k = max (amount b k) (amount a k)"
  using assms by (auto simp: nonneg_def amount_def addMapForInit_def max_def split: option.split intro: order_antisym)

lemma nonneg_addMap: "nonneg a \<Longrightarrow> nonneg b \<Longrightarrow> nonneg (addMap a b)"
  by (auto simp: nonneg_def addMap_def split: option.splits intro: add_nonneg_nonneg)

lemma nonneg_addMapForInit: "nonneg a \<Longrightarrow> nonneg b \<Longrightarrow> nonneg (addMapForInit a b)"
  by (auto simp: nonneg_def addMapForInit_def split: option.splits if_splits)

lemma fold_pair:
  "fold (\<lambda>c (x, y). (f c x, g c y)) cs (x, y) = (fold f cs x, fold g cs y)"
  by (induction cs arbitrary: x y) simp_all

lemma amount_fold_addMap:
  "amount (fold (\<lambda>c. addMap (f c)) cs m) k = amount m k + (\<Sum>c\<leftarrow>cs. amount (f c) k)"
  by (induction cs arbitrary: m) (simp_all add: amount_addMap add.assoc)

lemma nonneg_fold_addMap:
  "nonneg m \<Longrightarrow> \<forall>c \<in> set cs. nonneg (f c) \<Longrightarrow> nonneg (fold (\<lambda>c. addMap (f c)) cs m)"
  by (induction cs arbitrary: m) (simp_all add: nonneg_addMap)

lemma amount_fold_init:
  "nonneg m \<Longrightarrow> \<forall>c \<in> set cs. nonneg (f c) \<Longrightarrow>
     amount (fold (\<lambda>c. addMapForInit (f c)) cs m) k = Max (insert (amount m k) ((\<lambda>c. amount (f c) k) ` set cs))"
proof (induction cs arbitrary: m)
  case (Cons c cs)
  have "nonneg (addMapForInit (f c) m)" using Cons.prems by (simp add: nonneg_addMapForInit)
  with Cons show ?case
    by (cases "cs = []") (simp_all add: amount_addMapForInit max.assoc insert_commute max.commute max.left_commute)
qed simp

section \<open>The reference: what a pod asks for\<close>

text \<open>
  The containers of a pod run side by side, its init containers one after the other before them: the
  pod asks for the larger of the sum over the containers and the largest init container.
\<close>

definition effective :: "(container \<Rightarrow> resource_list) \<Rightarrow> pod \<Rightarrow> string \<Rightarrow> quantity" where
  "effective col p k =
     Max (insert (\<Sum>c\<leftarrow>ps_Containers (po_Spec p). amount (col c) k)
       ((\<lambda>c. amount (col c) k) ` set (ps_InitContainers (po_Spec p))))"

definition pod_ok :: "pod \<Rightarrow> bool" where
  "pod_ok p \<longleftrightarrow> (\<forall>c \<in> set (ps_Containers (po_Spec p)) \<union> set (ps_InitContainers (po_Spec p)).
     nonneg (co_Requests c) \<and> nonneg (co_Limits c))"

lemma getPodData_effective:
  assumes "pod_ok p"
  shows "amount (fst (getPodData p)) k = effective co_Requests p k"
    "amount (snd (getPodData p)) k = effective co_Limits p k"
proof -
  let ?cs = "ps_Containers (po_Spec p)" and ?is = "ps_InitContainers (po_Spec p)"
  have start: "nonneg Map.empty" by (simp add: nonneg_def)
  have ok: "\<forall>c \<in> set ?cs. nonneg (co_Requests c)" "\<forall>c \<in> set ?is. nonneg (co_Requests c)"
    "\<forall>c \<in> set ?cs. nonneg (co_Limits c)" "\<forall>c \<in> set ?is. nonneg (co_Limits c)"
    using assms by (auto simp: pod_ok_def)
  show "amount (fst (getPodData p)) k = effective co_Requests p k"
    using amount_fold_init [OF nonneg_fold_addMap [OF start ok(1)] ok(2), of k]
    by (simp add: getPodData_def fold_pair amount_fold_addMap effective_def)
  show "amount (snd (getPodData p)) k = effective co_Limits p k"
    using amount_fold_init [OF nonneg_fold_addMap [OF start ok(3)] ok(4), of k]
    by (simp add: getPodData_def fold_pair amount_fold_addMap effective_def)
qed

lemma sum_list_nonneg_quantity: "\<forall>x \<in> set xs. 0 \<le> f x \<Longrightarrow> (0 :: quantity) \<le> (\<Sum>x\<leftarrow>xs. f x)"
  by (induction xs) (simp_all add: add_nonneg_nonneg)

lemma effective_nonneg:
  assumes "pod_ok p" "col \<in> {co_Requests, co_Limits}"
  shows "0 \<le> effective col p k"
proof -
  have "0 \<le> (\<Sum>c\<leftarrow>ps_Containers (po_Spec p). amount (col c) k)"
    using assms by (intro sum_list_nonneg_quantity) (auto simp: pod_ok_def intro: amount_nonneg)
  then show ?thesis by (simp add: effective_def Max_ge_iff)
qed

section \<open>Pods of one name\<close>

text \<open>
  The data are kept under the name of the pod alone, so that of several pods of one name, in
  different namespaces, only the last one is counted.
\<close>

abbreviation pod_name :: "pod \<Rightarrow> string" where "pod_name p \<equiv> om_Name (po_meta p)"

fun last_named :: "pod list \<Rightarrow> pod list" where
  "last_named [] = []"
| "last_named (p # ps) = (if \<exists>q \<in> set ps. pod_name q = pod_name p then last_named ps else p # last_named ps)"

lemma last_named_distinct: "distinct (map pod_name ps) \<Longrightarrow> last_named ps = ps"
  by (induction ps) (auto simp: image_iff)

lemma set_last_named: "set (last_named ps) \<subseteq> set ps"
  by (induction ps) auto

lemma last_named_snoc: "last_named (ps @ [p]) = filter (\<lambda>q. pod_name q \<noteq> pod_name p) (last_named ps) @ [p]"
  by (induction ps) auto

lemma mset_update:
  "distinct (map fst al) \<Longrightarrow> mset (AList.update k v al) = add_mset (k, v) (filter_mset (\<lambda>e. fst e \<noteq> k) (mset al))"
proof (induction al)
  case (Cons e al)
  have "fst e = k \<Longrightarrow> filter_mset (\<lambda>e. fst e \<noteq> k) (mset al) = mset al"
    using Cons.prems by (auto simp: filter_mset_eq_conv image_iff)
  with Cons show ?case by (cases e) auto
qed simp

lemma filter_mset_pairs:
  "filter_mset (\<lambda>e. fst e \<noteq> k) (mset (map (\<lambda>p. (f p, g p)) xs)) = mset (map (\<lambda>p. (f p, g p)) (filter (\<lambda>p. f p \<noteq> k) xs))"
  by (induction xs) auto

lemma podsData_last_named: "mset (podsData ps) = mset (map (\<lambda>p. (pod_name p, getPodData p)) (last_named ps))
    \<and> distinct (map fst (podsData ps))"
proof (induction ps rule: rev_induct)
  case (snoc p ps)
  have step: "podsData (ps @ [p]) = AList.update (pod_name p) (getPodData p) (podsData ps)" by (simp add: podsData_def)
  have "filter_mset (\<lambda>e. fst e \<noteq> pod_name p) (mset (podsData ps)) =
      mset (map (\<lambda>q. (pod_name q, getPodData q)) (filter (\<lambda>q. pod_name q \<noteq> pod_name p) (last_named ps)))"
    using snoc filter_mset_pairs [of "pod_name p" pod_name getPodData "last_named ps"] by (simp del: mset_map)
  with snoc show ?case by (simp add: step mset_update last_named_snoc distinct_update)
qed (simp add: podsData_def)

section \<open>The sums of a node\<close>

lemma sum_list_perm: "mset xs = mset ys \<Longrightarrow> (\<Sum>x\<leftarrow>xs. f x) = (\<Sum>y\<leftarrow>ys. (f y :: quantity))"
  by (metis mset_map sum_mset_sum_list)

lemma aggregate_sums:
  assumes visit: "\<And>xs. mset (visit xs) = mset xs" and ok: "\<forall>p \<in> set ps. pod_ok p"
    and agg: "aggregateRequestAndLimitsForNode visit (Some ps) = (requests, limits)"
  shows "amount requests k =
      (if k = ''pods'' then NewQuantity (int (length ps)) else 0) + (\<Sum>p\<leftarrow>last_named ps. effective co_Requests p k)"
    "amount limits k = (\<Sum>p\<leftarrow>last_named ps. effective co_Limits p k)"
proof -
  let ?pd = "visit (podsData ps)"
  have steps: "(\<lambda>(_, podRequests, podLimits) (requests, limits). (addMap podRequests requests, addMap podLimits limits)) =
      (\<lambda>e (x, y). (addMap (fst (snd e)) x, addMap (snd (snd e)) y))"
    by (auto simp: fun_eq_iff)
  have perm: "mset ?pd = mset (map (\<lambda>p. (pod_name p, getPodData p)) (last_named ps))"
    using visit podsData_last_named by simp
  have res: "requests = fold (\<lambda>e. addMap (fst (snd e))) ?pd [''pods'' \<mapsto> NewQuantity (int (length ps))]"
    "limits = fold (\<lambda>e. addMap (snd (snd e))) ?pd Map.empty"
    using agg by (simp_all add: aggregateRequestAndLimitsForNode_def steps fold_pair Let_def)
  have ok': "\<forall>p \<in> set (last_named ps). pod_ok p" using ok set_last_named by blast
  have "(\<Sum>e\<leftarrow>?pd. amount (fst (snd e)) k) = (\<Sum>p\<leftarrow>last_named ps. amount (fst (getPodData p)) k)"
    using sum_list_perm [OF perm, of "\<lambda>e. amount (fst (snd e)) k"] by (simp add: comp_def)
  moreover have "(\<Sum>p\<leftarrow>last_named ps. amount (fst (getPodData p)) k) = (\<Sum>p\<leftarrow>last_named ps. effective co_Requests p k)"
    using ok' by (intro arg_cong [where f = sum_list] map_cong) (simp_all add: getPodData_effective)
  ultimately show "amount requests k = (if k = ''pods'' then NewQuantity (int (length ps)) else 0)
      + (\<Sum>p\<leftarrow>last_named ps. effective co_Requests p k)"
    by (simp add: res amount_fold_addMap)
  have "(\<Sum>e\<leftarrow>?pd. amount (snd (snd e)) k) = (\<Sum>p\<leftarrow>last_named ps. amount (snd (getPodData p)) k)"
    using sum_list_perm [OF perm, of "\<lambda>e. amount (snd (snd e)) k"] by (simp add: comp_def)
  moreover have "(\<Sum>p\<leftarrow>last_named ps. amount (snd (getPodData p)) k) = (\<Sum>p\<leftarrow>last_named ps. effective co_Limits p k)"
    using ok' by (intro arg_cong [where f = sum_list] map_cong) (simp_all add: getPodData_effective)
  ultimately show "amount limits k = (\<Sum>p\<leftarrow>last_named ps. effective co_Limits p k)"
    by (simp add: res amount_fold_addMap)
qed

section \<open>The sums of the cluster\<close>

definition list_amount :: "resource_list option \<Rightarrow> string \<Rightarrow> quantity" where
  "list_amount m k = (case m of None \<Rightarrow> 0 | Some m' \<Rightarrow> amount m' k)"

lemma list_amount_simps [simp]: "list_amount None k = 0" "list_amount (Some m) k = amount m k"
  by (simp_all add: list_amount_def)

lemma add_column_sums:
  "fold (\<lambda>c. add_column (column c)) crs (a, b, d) =
     (a + (\<Sum>c\<leftarrow>crs. list_amount (column c) ''pods''), b + (\<Sum>c\<leftarrow>crs. list_amount (column c) ''memory''),
      d + (\<Sum>c\<leftarrow>crs. list_amount (column c) ''cpu''))"
  by (induction crs arbitrary: a b d) (auto simp: add_column_def add.assoc split: option.split)

definition totals :: "string set" where "totals = {''pods'', ''memory'', ''cpu''}"

lemma column_total_sums:
  "k \<in> totals \<Longrightarrow> amount (column_total column crs) k = (\<Sum>c\<leftarrow>crs. list_amount (column c) k)"
  "dom (column_total column crs) = totals"
  by (auto simp: column_total_def add_column_sums totals_def)

lemma zero_rows: "(\<Sum>c\<leftarrow>replicate n zero_cluster_resource. list_amount (column c) k) =
    (\<Sum>i\<leftarrow>[0 ..< n]. list_amount (column zero_cluster_resource) k)"
  by (induction n) (simp_all add: replicate_append_same [symmetric])

text \<open>The nodes whose pods could be listed, and their pods.\<close>

definition listed :: "(node \<Rightarrow> go_error + pod list) \<Rightarrow> node list \<Rightarrow> (node \<times> pod list) list" where
  "listed pods nodes = [(n, projr (pods n)). n \<leftarrow> nodes, \<not> isl (pods n)]"

lemma node_resources_listed:
  "(\<And>n. n \<in> set nodes \<Longrightarrow> getNodePods srv n w = (pods n, w)) \<Longrightarrow>
     node_resources srv visit nodes acc w = (acc @ map (\<lambda>(n, ps). node_resource visit n ps) (listed pods nodes), w)"
  by (induction nodes arbitrary: acc) (auto simp: listed_def split: sum.split)

lemma listed_iff: "(n, ps) \<in> set (listed pods nodes) \<longleftrightarrow> n \<in> set nodes \<and> pods n = Inr ps"
  by (auto simp: listed_def isl_def)

lemma column_of_nodes:
  assumes "list_amount (column zero_cluster_resource) k = 0"
    and "\<And>n ps. (n, ps) \<in> set xs \<Longrightarrow> list_amount (column (node_resource visit n ps)) k = f n ps"
  shows "(\<Sum>c\<leftarrow>replicate m zero_cluster_resource @ map (\<lambda>(n, ps). node_resource visit n ps) xs. list_amount (column c) k) =
    (\<Sum>(n, ps)\<leftarrow>xs. f n ps)"
proof -
  have "(\<Sum>i\<leftarrow>[0 ..< m]. list_amount (column zero_cluster_resource) k) = 0"
    by (induction m) (simp_all add: assms(1))
  moreover have "(\<Sum>x\<leftarrow>xs. list_amount (column (case x of (n, ps) \<Rightarrow> node_resource visit n ps)) k) = (\<Sum>(n, ps)\<leftarrow>xs. f n ps)"
    using assms(2) by (intro arg_cong [where f = sum_list] map_cong) auto
  ultimately show ?thesis by (simp add: zero_rows comp_def del: map_replicate)
qed

text \<open>
  The figures of the cluster page are the sums over the nodes: capacity and allocatable as the
  nodes report them, requests and limits as the pods on them ask for, the larger of the containers
  together and any init container, in whatever order the maps of the program are visited.  Two things
  are left out: nodes whose pods could not be listed, and, on one node, all pods of one name but
  the last listed one; the number of pods alone counts those as well.
\<close>

theorem ClusterResources_totals:
  assumes "\<And>xs. mset (visit xs) = mset xs"
    and "cs_Nodes_List srv w = (Inr nodes, w)" "\<And>n. n \<in> set nodes \<Longrightarrow> getNodePods srv n w = (pods n, w)"
    and "\<And>n ps p. (n, ps) \<in> set (listed pods nodes) \<Longrightarrow> p \<in> set ps \<Longrightarrow> pod_ok p"
  shows "\<exists>capacity allocatable requested limits.
      ClusterResources srv visit w = (Inr \<lparr>cr_Capacity = Some capacity, cr_Allocatable = Some allocatable,
        cr_Requested = Some requested, cr_Limits = Some limits\<rparr>, w)
    \<and> dom capacity = totals \<and> dom allocatable = totals \<and> dom requested = totals \<and> dom limits = totals
    \<and> (\<forall>k \<in> totals.
        amount capacity k = (\<Sum>(n, ps)\<leftarrow>listed pods nodes. list_amount (no_Capacity n) k)
      \<and> amount allocatable k = (\<Sum>(n, ps)\<leftarrow>listed pods nodes. list_amount (no_Allocatable n) k)
      \<and> amount requested k = (\<Sum>(n, ps)\<leftarrow>listed pods nodes.
          (if k = ''pods'' then NewQuantity (int (length ps)) else 0) + (\<Sum>p\<leftarrow>last_named ps. effective co_Requests p k))
      \<and> amount limits k = (\<Sum>(n, ps)\<leftarrow>listed pods nodes. \<Sum>p\<leftarrow>last_named ps. effective co_Limits p k))"
proof -
  let ?crs = "replicate (length nodes) zero_cluster_resource @ map (\<lambda>(n, ps). node_resource visit n ps) (listed pods nodes)"
  have run: "ClusterResources srv visit w = (Inr \<lparr>cr_Capacity = Some (column_total cr_Capacity ?crs),
      cr_Allocatable = Some (column_total cr_Allocatable ?crs), cr_Requested = Some (column_total cr_Requested ?crs),
      cr_Limits = Some (column_total cr_Limits ?crs)\<rparr>, w)"
    by (simp add: ClusterResources_def assms(2) node_resources_listed [OF assms(3)])
  have row: "list_amount (cr_Capacity (node_resource visit n ps)) k = list_amount (no_Capacity n) k"
    "list_amount (cr_Allocatable (node_resource visit n ps)) k = list_amount (no_Allocatable n) k" for n ps k
    by (simp_all add: node_resource_def split: prod.split)
  have pods: "list_amount (cr_Requested (node_resource visit n ps)) k =
        (if k = ''pods'' then NewQuantity (int (length ps)) else 0) + (\<Sum>p\<leftarrow>last_named ps. effective co_Requests p k)"
    "list_amount (cr_Limits (node_resource visit n ps)) k = (\<Sum>p\<leftarrow>last_named ps. effective co_Limits p k)"
    if "(n, ps) \<in> set (listed pods nodes)" for n ps k
  proof -
    obtain r l where rl: "aggregateRequestAndLimitsForNode visit (Some ps) = (r, l)" by fastforce
    have ok: "\<forall>p \<in> set ps. pod_ok p" using assms(4) that by blast
    from aggregate_sums [OF assms(1) ok rl, of k]
    show "list_amount (cr_Requested (node_resource visit n ps)) k =
        (if k = ''pods'' then NewQuantity (int (length ps)) else 0) + (\<Sum>p\<leftarrow>last_named ps. effective co_Requests p k)"
      "list_amount (cr_Limits (node_resource visit n ps)) k = (\<Sum>p\<leftarrow>last_named ps. effective co_Limits p k)"
      by (simp_all add: node_resource_def rl)
  qed
  have zero: "list_amount (cr_Capacity zero_cluster_resource) k = 0" "list_amount (cr_Allocatable zero_cluster_resource) k = 0"
    "list_amount (cr_Requested zero_cluster_resource) k = 0" "list_amount (cr_Limits zero_cluster_resource) k = 0" for k
    by (simp_all add: zero_cluster_resource_def)
  note nodes = column_of_nodes [where xs = "listed pods nodes" and visit = visit and m = "length nodes"]
  show ?thesis
    by (intro exI conjI ballI, rule run)
      (simp_all only: column_total_sums nodes [OF zero(1) row(1)] nodes [OF zero(2) row(2)]
        nodes [OF zero(3) pods(1)] nodes [OF zero(4) pods(2)])
qed

section \<open>When the figures are right\<close>

fun overwritten :: "pod list \<Rightarrow> pod list" where
  "overwritten [] = []"
| "overwritten (p # ps) = (if \<exists>q \<in> set ps. pod_name q = pod_name p then p # overwritten ps else overwritten ps)"

lemma overwritten_distinct: "distinct (map pod_name ps) \<Longrightarrow> overwritten ps = []"
  by (induction ps) (auto simp: image_iff)

lemma set_overwritten: "set (overwritten ps) \<subseteq> set ps"
  by (induction ps) auto

lemma sum_overwritten: "(\<Sum>p\<leftarrow>ps. f p) = (\<Sum>p\<leftarrow>last_named ps. f p) + (\<Sum>p\<leftarrow>overwritten ps. (f p :: quantity))"
  by (induction ps) (auto simp: ac_simps)

lemma sum_zero_iff:
  "\<forall>x \<in> set xs. (0 :: quantity) \<le> f x \<Longrightarrow> (\<Sum>x\<leftarrow>xs. f x) = 0 \<longleftrightarrow> (\<forall>x \<in> set xs. f x = 0)"
  by (induction xs) (simp_all add: quantity_nonneg_sum_zero sum_list_nonneg_quantity)

text \<open>
  C28. The requests and limits of a node never exceed what its pods ask for together, and agree with it
  exactly when the pods that a later one of the same name overwrites ask for nothing; with pods of
  different names they always agree.
\<close>

theorem aggregate_reference:
  assumes "\<And>xs. mset (visit xs) = mset xs" "\<forall>p \<in> set ps. pod_ok p"
    and "aggregateRequestAndLimitsForNode visit (Some ps) = (requests, limits)"
  shows "(k \<noteq> ''pods'' \<longrightarrow> amount requests k \<le> (\<Sum>p\<leftarrow>ps. effective co_Requests p k)
      \<and> (amount requests k = (\<Sum>p\<leftarrow>ps. effective co_Requests p k)
          \<longleftrightarrow> (\<forall>p \<in> set (overwritten ps). effective co_Requests p k = 0)))
    \<and> (amount limits k \<le> (\<Sum>p\<leftarrow>ps. effective co_Limits p k)
      \<and> (amount limits k = (\<Sum>p\<leftarrow>ps. effective co_Limits p k)
          \<longleftrightarrow> (\<forall>p \<in> set (overwritten ps). effective co_Limits p k = 0)))
    \<and> (distinct (map pod_name ps) \<longrightarrow> overwritten ps = [])"
proof -
  have key: "a \<le> (\<Sum>p\<leftarrow>ps. effective col p k)
      \<and> (a = (\<Sum>p\<leftarrow>ps. effective col p k) \<longleftrightarrow> (\<forall>p \<in> set (overwritten ps). effective col p k = 0))"
    if "a = (\<Sum>p\<leftarrow>last_named ps. effective col p k)" "col \<in> {co_Requests, co_Limits}" for a col
  proof -
    have nn: "\<forall>p \<in> set (overwritten ps). 0 \<le> effective col p k"
      using assms(2) set_overwritten effective_nonneg [OF _ that(2)] by blast
    have sum: "(\<Sum>p\<leftarrow>ps. effective col p k) = a + (\<Sum>p\<leftarrow>overwritten ps. effective col p k)"
      unfolding that(1) by (rule sum_overwritten)
    have "a + 0 \<le> a + (\<Sum>p\<leftarrow>overwritten ps. effective col p k)"
      by (rule add_left_mono) (rule sum_list_nonneg_quantity [OF nn])
    moreover have "a = a + (\<Sum>p\<leftarrow>overwritten ps. effective col p k) \<longleftrightarrow> (\<forall>p \<in> set (overwritten ps). effective col p k = 0)"
      using sum_zero_iff [OF nn] quantity_add_cancel by metis
    ultimately show ?thesis unfolding sum by simp
  qed
  show ?thesis
    using key [of "amount requests k" co_Requests] key [of "amount limits k" co_Limits]
      aggregate_sums [OF assms, of k] by (simp add: overwritten_distinct)
qed

section \<open>Examples\<close>

definition sample_pod :: "string \<Rightarrow> string \<Rightarrow> int \<Rightarrow> pod" where
  "sample_pod ns n q =
     \<lparr>po_meta = zero_meta\<lparr>om_Name := n, om_Namespace := ns\<rparr>,
      po_Spec = zero_pod_spec\<lparr>ps_NodeName := ''node-1'',
        ps_Containers := [zero_container\<lparr>co_Requests := [''memory'' \<mapsto> Quantity q]\<rparr>],
        ps_InitContainers := [zero_container\<lparr>co_Requests := [''memory'' \<mapsto> Quantity 7]\<rparr>]\<rparr>,
      po_Phase = ''Running''\<rparr>"

definition sample_node :: "string \<Rightarrow> node" where
  "sample_node n = \<lparr>no_meta = zero_meta\<lparr>om_Name := n\<rparr>, no_Capacity = Some [''memory'' \<mapsto> Quantity 100],
     no_Allocatable = None, no_Addresses = []\<rparr>"

text \<open>Pods can only be listed on the first node, which holds two pods of one name.\<close>

definition sample_server :: "unit cluster_server" where
  "sample_server =
     \<lparr>cs_Nodes_List = (\<lambda>w. (Inr [sample_node ''node-1'', sample_node ''node-2''], w)),
      cs_Nodes_Get = (\<lambda>n w. (Inr (sample_node n), w)),
      cs_Pods_List = (\<lambda>sel w. (if sel = node_selector (sample_node ''node-1'')
        then Inr [sample_pod ''a'' ''web'' 40, sample_pod ''b'' ''web'' 5, sample_pod ''b'' ''db'' 20]
        else Inl (Errorf ''timeout'' []), w)),
      cs_ComponentStatuses_List = (\<lambda>w. (Inr [], w)),
      cs_ComponentStatuses_Get = (\<lambda>n w. (Inl (StatusError StatusReasonNotFound n), w)),
      cs_ParseSelector = Inr\<rparr>"

lemma sample_pod_sel [simp]:
  "pod_name (sample_pod ns n q) = n" "matches_pod (sample_pod ns n q)" "0 \<le> q \<Longrightarrow> pod_ok (sample_pod ns n q)"
  "effective co_Requests (sample_pod ns n q) ''memory'' = max (Quantity q) (Quantity 7)"
  by (auto simp: sample_pod_def matches_pod_def pod_ok_def nonneg_def zero_container_def effective_def
      less_eq_quantity_def zero_quantity_def plus_quantity_def amount_def max.commute)

theorem aggregate_reference_witness:
  "amount (fst (aggregateRequestAndLimitsForNode (\<lambda>xs. xs) (Some [sample_pod ''a'' ''web'' 40, sample_pod ''b'' ''web'' 5]))) ''memory''
    < (\<Sum>p\<leftarrow>[sample_pod ''a'' ''web'' 40, sample_pod ''b'' ''web'' 5]. effective co_Requests p ''memory'')"
proof -
  let ?ps = "[sample_pod ''a'' ''web'' 40, sample_pod ''b'' ''web'' 5]"
  obtain r l where rl: "aggregateRequestAndLimitsForNode (\<lambda>xs. xs) (Some ?ps) = (r, l)" by fastforce
  have "\<not> (\<forall>p \<in> set (overwritten ?ps). effective co_Requests p ''memory'' = 0)"
    by (simp add: max_def less_eq_quantity_def zero_quantity_def)
  with aggregate_reference [OF refl _ rl, of "''memory''"] show ?thesis
    by (simp add: rl less_le)
qed

theorem ClusterResources_totals_witness:
  "\<exists>c. fst (ClusterResources sample_server rev ()) = Inr c
    \<and> amount (the (cr_Requested c)) ''memory'' = Quantity 27 \<and> amount (the (cr_Capacity c)) ''memory'' = Quantity 100"
proof -
  let ?pods = "\<lambda>n. if n = sample_node ''node-1''
    then Inr [sample_pod ''a'' ''web'' 40, sample_pod ''b'' ''web'' 5, sample_pod ''b'' ''db'' 20] else Inl (Errorf ''timeout'' [])"
  have ne: "sample_node ''node-2'' \<noteq> sample_node ''node-1''"
    "node_selector (sample_node ''node-2'') \<noteq> node_selector (sample_node ''node-1'')"
    by (simp_all add: sample_node_def node_selector_def zero_meta_def)
  have nodes: "cs_Nodes_List sample_server () = (Inr [sample_node ''node-1'', sample_node ''node-2''], ())"
    by (simp add: sample_server_def)
  have pods: "getNodePods sample_server n () = (?pods n, ())" if "n \<in> set [sample_node ''node-1'', sample_node ''node-2'']" for n
    using that ne by (auto simp: getNodePods_def sample_server_def)
  have l: "listed ?pods [sample_node ''node-1'', sample_node ''node-2''] =
      [(sample_node ''node-1'', [sample_pod ''a'' ''web'' 40, sample_pod ''b'' ''web'' 5, sample_pod ''b'' ''db'' 20])]"
    using ne by (simp add: listed_def)
  have cap: "list_amount (no_Capacity (sample_node n)) ''memory'' = Quantity 100" for n by (simp add: sample_node_def)
  have sum: "(\<Sum>p\<leftarrow>last_named [sample_pod ''a'' ''web'' 40, sample_pod ''b'' ''web'' 5, sample_pod ''b'' ''db'' 20].
      effective co_Requests p ''memory'') = Quantity 27"
    by (simp add: max_def less_eq_quantity_def plus_quantity_def zero_quantity_def)
  have "''memory'' \<in> totals" by (simp add: totals_def)
  with ClusterResources_totals [where visit = rev, OF mset_rev nodes pods] l sum cap show ?thesis
    by fastforce
qed

end
