(* ===== verification/Cube_Api_Handlers.thy ===== *)
theory Cube_Api_Handlers
  imports Cube_Infra_Backend Cube_Cluster Cube_Util
begin

text \<open>
  The handlers of \<open>api/infra.go\<close> and \<open>api/node.go\<close> and the answers they build in \<open>api/model.go\<close>.

  What a handler passes to \<open>apiContext.Write\<close> is part of its result; \<open>apiContext.Read\<close>, which decodes
  the body of a request, is an argument.  The backend and its state are those of
  \<open>Cube_Infra_Backend\<close>, the requests about nodes those of \<open>Cube_Cluster\<close>.
\<close>

section \<open>Answers\<close>

record schema_type =
  sty_Configmap :: string
  sty_BaseInfo :: string
  sty_Infrastructure :: string

definition GetSchemaType :: schema_type where
  "GetSchemaType = \<lparr>sty_Configmap = ''configmap'', sty_BaseInfo = ''baseinfo'', sty_Infrastructure = ''infrastructure''\<rparr>"

record infra_answer =
  ia_Id :: string
  ia_Type :: string
  ia_Host :: string
  ia_Kind :: string
  ia_Infra :: infrastructure

record result_answer =
  ra_Id :: string
  ra_Type :: string
  ra_Message :: string

record base_info_answer =
  ba_Id :: string
  ba_Type :: string
  ba_BaseInfo :: "string_map list"

record cluster_answer =
  ca_Id :: string
  ca_Type :: string
  ca_Name :: string
  ca_Resources :: cluster_resource
  ca_ComponentStatuses :: "component_status list"

text \<open>A node answer holds a pointer to its node.\<close>

record 'p node_answer =
  na_Id :: string
  na_AnswerType :: string
  na_Node :: 'p

record 'a collection =
  co_Data :: "'a list"
  co_ResourceType :: string

text \<open>The text of the node port follows the address; a service without a port panics, name or not.\<close>

definition toInfrastructureResource ::
    "infrastructure \<Rightarrow> service option \<Rightarrow> string \<Rightarrow> infra_answer option outcome" where
  "toInfrastructureResource infra svc ip =
     bind_outcome
       (case svc of
          None \<Rightarrow> Return ip
        | Some s \<Rightarrow>
            (case sv_Ports s of
               [] \<Rightarrow> index_out_of_range
             | p # _ \<Rightarrow> bind_outcome (Int32ToString (sp_NodePort p)) (\<lambda>port. Return (ip @ '':'' @ port))))
       (\<lambda>host.
          if om_Name (i_meta infra) = [] then Return None
          else Return (Some \<lparr>ia_Id = om_Name (i_meta infra), ia_Type = sty_Infrastructure GetSchemaType,
            ia_Host = host, ia_Kind = [], ia_Infra = infra\<rparr>))"

fun infra_collection_loop ::
    "infrastructure list \<Rightarrow> infra_answer option list \<Rightarrow> infra_answer option list outcome" where
  "infra_collection_loop [] acc = Return acc"
| "infra_collection_loop (item # items) acc =
     bind_outcome (toInfrastructureResource item None []) (\<lambda>x. infra_collection_loop items (acc @ [x]))"

definition toInfrastructureCollection :: "infrastructure list \<Rightarrow> infra_answer option collection outcome" where
  "toInfrastructureCollection items =
     bind_outcome (infra_collection_loop items []) (\<lambda>xs.
       Return \<lparr>co_Data = xs, co_ResourceType = sty_Infrastructure GetSchemaType\<rparr>)"

definition toDeleteResource :: result_answer where
  "toDeleteResource = \<lparr>ra_Id = ''delete success'', ra_Type = sty_Infrastructure GetSchemaType, ra_Message = ''delete success''\<rparr>"

definition toBaseInfo :: "string_map list option \<Rightarrow> base_info_answer option" where
  "toBaseInfo baseInfo =
     (case baseInfo of
        None \<Rightarrow> None
      | Some xs \<Rightarrow> Some \<lparr>ba_Id = ''baseInfo'', ba_Type = sty_BaseInfo GetSchemaType, ba_BaseInfo = xs\<rparr>)"

text \<open>
  The loop over the nodes has one variable, and every answer takes its address: \<open>store\<close> gives the
  node that lies at an address.
\<close>

datatype node_ref = Argument | LoopVariable

definition toNodeResource :: "(node_ref \<Rightarrow> node) \<Rightarrow> node_ref \<Rightarrow> node_ref node_answer option" where
  "toNodeResource store p =
     (if om_Name (no_meta (store p)) = [] then None
      else Some \<lparr>na_Id = om_Name (no_meta (store p)), na_AnswerType = ''node'', na_Node = p\<rparr>)"

fun node_collection_loop ::
    "node list \<Rightarrow> (node_ref \<Rightarrow> node) \<times> node_ref node_answer option list \<Rightarrow> (node_ref \<Rightarrow> node) \<times> node_ref node_answer option list" where
  "node_collection_loop [] s = s"
| "node_collection_loop (n # ns) (store, acc) =
     (let store1 = store(LoopVariable := n) in node_collection_loop ns (store1, acc @ [toNodeResource store1 LoopVariable]))"

definition toNodeCollection ::
    "(node_ref \<Rightarrow> node) \<Rightarrow> node list \<Rightarrow> (node_ref \<Rightarrow> node) \<times> node_ref node_answer option collection" where
  "toNodeCollection store nodes =
     (case node_collection_loop nodes (store, []) of
        (store1, data) \<Rightarrow> (store1, \<lparr>co_Data = data, co_ResourceType = ''node''\<rparr>))"

text \<open>Writing an answer reads the nodes behind the pointers.\<close>

definition written_node :: "(node_ref \<Rightarrow> node) \<Rightarrow> node_ref node_answer \<Rightarrow> node node_answer" where
  "written_node store a = \<lparr>na_Id = na_Id a, na_AnswerType = na_AnswerType a, na_Node = store (na_Node a)\<rparr>"

definition toClusterResource :: "cluster_resource \<Rightarrow> component_status list \<Rightarrow> cluster_answer" where
  "toClusterResource r cs = \<lparr>ca_Id = ''cube'', ca_Type = ''cluster'', ca_Name = ''cube'', ca_Resources = r, ca_ComponentStatuses = cs\<rparr>"

definition toClusterCollection :: "cluster_resource \<Rightarrow> component_status list \<Rightarrow> cluster_answer collection" where
  "toClusterCollection r cs = \<lparr>co_Data = [toClusterResource r cs], co_ResourceType = ''cluster''\<rparr>"

datatype answer =
    InfraCollection "infra_answer option collection"
  | InfraAnswer "infra_answer option"
  | DeleteAnswer result_answer
  | NodeCollection "node node_answer option collection"
  | NodeAnswer "node node_answer option"

type_synonym 's handled = "((answer option \<times> go_error option) \<times> 's) outcome"

text \<open>Handlers that may wait for the service of an infrastructure may never be done.\<close>

type_synonym 's handling = "((answer option \<times> go_error option) \<times> 's) waiting"

section \<open>Handlers\<close>

definition api_InfrastructureList :: "'w api_server \<Rightarrow> 'w infra_backend \<Rightarrow> 'w infra_backend handled" where
  "api_InfrastructureList srv st =
     (case backend_InfrastructureList srv st of
        ((items, Some e), st1) \<Rightarrow> Return ((None, Wrap (Some e) ''failed to read infrastructures''), st1)
      | ((items, None), st1) \<Rightarrow>
          bind_outcome (toInfrastructureCollection items) (\<lambda>c. Return ((Some (InfraCollection c), None), st1)))"

text \<open>The node address is asked for last; both \<open>Get\<close> and \<open>Create\<close> answer with the service found last.\<close>

definition answer_with_host ::
    "'w cluster_server \<Rightarrow> infrastructure \<Rightarrow> 'w infra_backend \<Rightarrow> 'w infra_backend handled" where
  "answer_with_host csrv infra st =
     bind_outcome (NodeIPGet csrv (ib_world st)) (\<lambda>((ip, err), w).
       (let st1 = st\<lparr>ib_world := w\<rparr> in
        if err \<noteq> None then Return ((None, Wrap err ''failed to get node ip''), st1)
        else bind_outcome (toInfrastructureResource infra (ib_Service st1) ip) (\<lambda>a.
          Return ((Some (InfraAnswer a), None), st1))))"

definition api_InfrastructureGet ::
    "'w api_server \<Rightarrow> 'w cluster_server \<Rightarrow> service_informer \<Rightarrow> string \<Rightarrow> 'w infra_backend
       \<Rightarrow> 'w infra_backend handling" where
  "api_InfrastructureGet srv csrv services kind st =
     bind_waiting (backend_InfrastructureGet srv services kind False st) (\<lambda>((infra, err), st1).
       case (infra, err) of
         (Some i, None) \<Rightarrow> Some (answer_with_host csrv i st1)
       | _ \<Rightarrow> Some (Return ((None, Wrap err ''failed to read infrastructure''), st1)))"

definition api_InfrastructureCreate ::
    "'w api_server \<Rightarrow> 'w cluster_server \<Rightarrow> infra_images \<Rightarrow> service_informer \<Rightarrow> go_error + string
       \<Rightarrow> 'w infra_backend \<Rightarrow> 'w infra_backend handling" where
  "api_InfrastructureCreate srv csrv images services input st =
     (case input of
        Inl e \<Rightarrow> Some (Return ((None, Some e), st))
      | Inr kind \<Rightarrow>
          bind_waiting (InfrastructureDeploy srv images services kind st) (\<lambda>((infra, err), st1).
            if err \<noteq> None then Some (Return ((None, Wrap err ''failed to create infrastructure''), st1))
            else Some (case infra of None \<Rightarrow> nil_deref | Some i \<Rightarrow> answer_with_host csrv i st1)))"

definition api_InfrastructureDelete ::
    "'w api_server \<Rightarrow> (string \<Rightarrow> string_map \<Rightarrow> 'w \<Rightarrow> 'w) \<Rightarrow> string \<Rightarrow> 'w infra_backend \<Rightarrow> 'w infra_backend handling" where
  "api_InfrastructureDelete srv delete_daemon_sets kind st =
     bind_waiting (backend_InfrastructureDelete srv delete_daemon_sets kind st) (\<lambda>(err, st1).
       if err \<noteq> None then Some (Return ((None, Wrap err (''failed to delete infrastructure '' @ kind)), st1))
       else Some (Return ((Some (DeleteAnswer toDeleteResource), None), st1)))"

text \<open>
  The handlers for nodes send their requests as the user of the token: \<open>client_for\<close> is the connection
  that impersonates a user.
\<close>

definition api_NodeList ::
    "(string \<Rightarrow> 'w cluster_server) \<Rightarrow> (node_ref \<Rightarrow> node) \<Rightarrow> http_request \<Rightarrow> 'w \<Rightarrow> 'w handled" where
  "api_NodeList client_for store r w =
     (case ClusterNodes (client_for (rq_ImpersonateUser r)) w of
        (Inl e, w1) \<Rightarrow> Return ((None, Wrap (Some e) ''RancherCUBE: fail to read nodes''), w1)
      | (Inr nodes, w1) \<Rightarrow>
          (case toNodeCollection store nodes of
             (store1, c) \<Rightarrow> Return ((Some (NodeCollection
                \<lparr>co_Data = map (map_option (written_node store1)) (co_Data c), co_ResourceType = co_ResourceType c\<rparr>), None), w1)))"

definition api_NodeGet ::
    "(string \<Rightarrow> 'w cluster_server) \<Rightarrow> http_request \<Rightarrow> string \<Rightarrow> 'w \<Rightarrow> 'w handled" where
  "api_NodeGet client_for r nodeID w =
     (case ClusterNode (client_for (rq_ImpersonateUser r)) nodeID w of
        (Inl e, w1) \<Rightarrow> Return ((None, Wrap (Some e) ''RancherCUBE: fail to read node''), w1)
      | (Inr n, w1) \<Rightarrow> Return ((Some (NodeAnswer (map_option (written_node (\<lambda>_. n)) (toNodeResource (\<lambda>_. n) Argument))), None), w1))"

section \<open>The list of nodes\<close>

lemma node_collection_loop_result:
  "node_collection_loop nodes (store, acc) =
     (if nodes = [] then store else store(LoopVariable := last nodes),
      acc @ map (\<lambda>n. if om_Name (no_meta n) = [] then None
        else Some \<lparr>na_Id = om_Name (no_meta n), na_AnswerType = ''node'', na_Node = LoopVariable\<rparr>) nodes)"
  by (induction nodes arbitrary: store acc) (simp_all add: Let_def toNodeResource_def)

text \<open>
  The list of nodes names every node of the cluster in order, but every entry shows the data of the
  last node: all of them point to the variable of the loop.  The single node of \<open>NodeGet\<close> is right.
  Both are asked for as the user of the token.
\<close>

theorem NodeList_shows_last:
  assumes "ClusterNodes (client_for (rq_ImpersonateUser r)) w = (Inr nodes, w1)"
    and "ClusterNode (client_for (rq_ImpersonateUser r)) i w = (Inr n, w2)"
  shows "api_NodeList client_for store r w = Return ((Some (NodeCollection
      \<lparr>co_Data = map (\<lambda>n. if om_Name (no_meta n) = [] then None
          else Some \<lparr>na_Id = om_Name (no_meta n), na_AnswerType = ''node'', na_Node = last nodes\<rparr>) nodes,
       co_ResourceType = ''node''\<rparr>), None), w1)
    \<and> (om_Name (no_meta n) \<noteq> [] \<longrightarrow> api_NodeGet client_for r i w =
        Return ((Some (NodeAnswer (Some \<lparr>na_Id = om_Name (no_meta n), na_AnswerType = ''node'', na_Node = n\<rparr>)), None), w2))"
  using assms by (cases "nodes = []")
    (simp_all add: api_NodeList_def api_NodeGet_def toNodeCollection_def node_collection_loop_result toNodeResource_def
      written_node_def comp_def if_distrib [of "map_option f" for f] cong: if_cong)

abbreviation node_request :: http_request where
  "node_request \<equiv> \<lparr>rq_Authorization = ''Bearer token-x:k3y'', rq_Cookie = None, rq_Scheme = ''http'', rq_ImpersonateUser = ''ann''\<rparr>"

theorem NodeList_shows_last_witness:
  "\<exists>c. api_NodeList (\<lambda>_. sample_server) (\<lambda>_. sample_node []) node_request () = Return ((Some (NodeCollection c), None), ())
    \<and> map (map_option (\<lambda>a. (na_Id a, na_Node a))) (co_Data c) =
        [Some (''node-1'', sample_node ''node-2''), Some (''node-2'', sample_node ''node-2'')]"
proof -
  have "ClusterNodes sample_server () = (Inr [sample_node ''node-1'', sample_node ''node-2''], ())"
    "ClusterNode sample_server ''node-1'' () = (Inr (sample_node ''node-1''), ())"
    by (simp_all add: ClusterNodes_def ClusterNode_def sample_server_def)
  from NodeList_shows_last [where client_for = "\<lambda>_. sample_server" and store = "\<lambda>_. sample_node []" and r = node_request, OF this]
  show ?thesis by (simp add: sample_node_def)
qed

section \<open>One infrastructure\<close>

definition port_text :: "service \<Rightarrow> string" where
  "port_text s = (let n = sint (sp_NodePort (hd (sv_Ports s))) in (if n < 0 then ''-'' else []) @ decimal (nat \<bar>n\<bar>))"

definition host_of :: "string \<Rightarrow> service option \<Rightarrow> string" where
  "host_of ip svc = (case svc of None \<Rightarrow> ip | Some s \<Rightarrow> ip @ '':'' @ port_text s)"

definition portless :: "service option \<Rightarrow> bool" where
  "portless svc \<longleftrightarrow> (\<exists>s. svc = Some s \<and> sv_Ports s = [])"

lemma toInfrastructureResource_host:
  "toInfrastructureResource infra svc ip =
     (if portless svc then index_out_of_range
      else Return (if om_Name (i_meta infra) = [] then None
        else Some \<lparr>ia_Id = om_Name (i_meta infra), ia_Type = ''infrastructure'', ia_Host = host_of ip svc, ia_Kind = [], ia_Infra = infra\<rparr>))"
proof (cases svc)
  case (Some s)
  then show ?thesis
    using Int32ToString_decimal [of "sp_NodePort (hd (sv_Ports s))"]
    by (cases "sv_Ports s")
      (auto simp: toInfrastructureResource_def portless_def host_of_def port_text_def GetSchemaType_def Let_def)
qed (simp add: toInfrastructureResource_def portless_def host_of_def GetSchemaType_def)

lemma answer_with_host_cases:
  assumes "ClusterNodes csrv (ib_world st) = (Inr (n # ns), ib_world st)"
  shows "answer_with_host csrv infra st =
    (if portless (ib_Service st) then index_out_of_range
     else Return ((Some (InfraAnswer (if om_Name (i_meta infra) = [] then None
        else Some \<lparr>ia_Id = om_Name (i_meta infra), ia_Type = ''infrastructure'',
          ia_Host = host_of (node_ip (no_Addresses n) []) (ib_Service st), ia_Kind = [], ia_Infra = infra\<rparr>)), None), st))"
  by (simp add: answer_with_host_def NodeIPGet_def assms Let_def toInfrastructureResource_host)

text \<open>The address: an external one if there is any, else the last internal one, else none.\<close>

lemma node_ip_external:
  "(\<exists>a \<in> set as. na_Type a = ''ExternalIP'') \<Longrightarrow>
     node_ip as ip = na_Address (hd (filter (\<lambda>a. na_Type a = ''ExternalIP'') as))"
  by (induction as arbitrary: ip) auto

lemma node_ip_internal:
  "\<forall>a \<in> set as. na_Type a \<noteq> ''ExternalIP'' \<Longrightarrow>
     node_ip as ip = (case filter (\<lambda>a. na_Type a = ''InternalIP'') as of [] \<Rightarrow> ip | bs \<Rightarrow> na_Address (last bs))"
  by (induction as arbitrary: ip) (auto split: list.split)

text \<open>How a wait ends: with the service of the first successful poll, or with none after the last one.\<close>

definition polled :: "(nat \<Rightarrow> k8s_obj thread_safe_map) \<Rightarrow> string \<Rightarrow> string \<Rightarrow> service option \<Rightarrow> bool" where
  "polled services ns i found \<longleftrightarrow>
     (\<exists>n \<le> 6000000000. (\<forall>j < n. missing_at services ns i j)
       \<and> (case found of Some svc \<Rightarrow> service_at services ns i n svc
          | None \<Rightarrow> n = 6000000000 \<and> missing_at services ns i n))"

lemma syncService_polled:
  assumes "\<And>k. \<exists>r. Services_lister_Get (services k) ns i = Return r"
  obtains found where "syncService_loop services ns i 0 0 = Return found" "polled services ns i found"
proof -
  from syncService_polls [where services = services and ns = ns and i = i and k = 0 and d = 0, OF assms]
  obtain n where n: "n \<le> 6000000000" "\<forall>j < n. missing_at services ns i j"
    "(\<exists>svc. service_at services ns i n svc \<and> syncService_loop services ns i 0 0 = Return (Some svc))
     \<or> n = 6000000000 \<and> missing_at services ns i n \<and> syncService_loop services ns i 0 0 = Return None"
    by auto
  from n(3) show thesis
  proof
    assume "\<exists>svc. service_at services ns i n svc \<and> syncService_loop services ns i 0 0 = Return (Some svc)"
    then obtain svc where svc: "service_at services ns i n svc" "syncService_loop services ns i 0 0 = Return (Some svc)" by blast
    have "polled services ns i (Some svc)" unfolding polled_def using n(1,2) svc(1) by (intro exI [of _ n]) simp
    with svc(2) show thesis by (rule that)
  next
    assume none: "n = 6000000000 \<and> missing_at services ns i n \<and> syncService_loop services ns i 0 0 = Return None"
    then have "polled services ns i None" unfolding polled_def using n(1,2) by (intro exI [of _ n]) auto
    with none show thesis using that by blast
  qed
qed

definition service_after :: "service option \<Rightarrow> service option \<Rightarrow> service option" where
  "service_after found earlier = (case found of None \<Rightarrow> earlier | Some s \<Rightarrow> Some s)"

lemma backend_InfrastructureGet_waits:
  assumes "infra_backend_ok st" "known_kind kind"
    and "\<And>k. \<exists>r. Services_lister_Get (wt_cache services k) (namespace_of kind) kind = Return r"
    and "tracker_stored (ib_world st) RInfrastructures (namespace_of kind) kind = Some (ObjInfra infra)"
    and "wt_HasSynced services t"
  obtains found st' where "polled (wt_cache services) (namespace_of kind) kind found"
    "backend_InfrastructureGet ObjectReaction services kind False st = Some (Return ((Some infra, None), st'))"
    "ib_world st' = ib_world st" "ib_Service st' = service_after found (ib_Service st)"
proof -
  note seg = known_kind_segments [OF assms(2)]
  have w: "tracker_ok (ib_world st)" using assms(1) by (simp add: infra_backend_ok_def)
  have get: "client_get ObjectReaction RInfrastructures (namespace_of kind) kind (ib_world st) = (Inr (ObjInfra infra), ib_world st)"
    using client_get_tracker [OF w seg(1,2), of RInfrastructures "namespace_of kind"] seg(3,4) assms(4) by simp
  obtain found where f: "syncService_loop (wt_cache services) (namespace_of kind) kind 0 0 = Return found"
    "polled (wt_cache services) (namespace_of kind) kind found" by (rule syncService_polled [OF assms(3)])
  let ?st1 = "st\<lparr>ib_configMap := Some cube_config_map\<rparr>"
  have "backend_InfrastructureGet ObjectReaction services kind False st =
      Some (Return ((Some infra, None), case found of None \<Rightarrow> ?st1 | Some svc \<Rightarrow> ?st1\<lparr>ib_Service := Some svc\<rparr>))"
    using get f(1) by (simp add: backend_InfrastructureGet_def with_infra_ok [OF assms(1,2)] config_lookup [OF assms(2)]
        Infrastructures_Get_def api_simps ServiceGet_synced [OF assms(5)] Let_def split: option.split)
  from f(2) this show thesis by (rule that) (simp_all add: service_after_def split: option.splits)
qed

lemma stored_infra_name:
  "tracker_stored w RInfrastructures ns n = Some (ObjInfra infra) \<Longrightarrow> om_Name (i_meta infra) = n"
proof -
  assume "tracker_stored w RInfrastructures ns n = Some (ObjInfra infra)"
  then have "same_key ns n (ObjInfra infra)" by (auto simp: tracker_stored_def find_Some_iff)
  then show ?thesis by (simp add: same_key_def)
qed

text \<open>
  Asking for a stored infrastructure never ends while the cache of the services has not synced; else it
  waits for its service and answers with the stored object and with the address of the first node and the node port of the service; it changes nothing in the
  cluster.  When the wait ends without the service, the one found last is taken in its place, be it of
  another infrastructure; and a service without ports makes the request panic.
\<close>

theorem InfrastructureGet_answers:
  assumes "infra_backend_ok st" "known_kind kind"
    and "\<And>k. \<exists>r. Services_lister_Get (wt_cache services k) (namespace_of kind) kind = Return r"
    and "tracker_stored (ib_world st) RInfrastructures (namespace_of kind) kind = Some (ObjInfra infra)"
    and "ClusterNodes csrv (ib_world st) = (Inr (n # ns), ib_world st)"
    and "wt_HasSynced services t"
  shows "\<exists>found st'. polled (wt_cache services) (namespace_of kind) kind found
    \<and> ib_world st' = ib_world st \<and> ib_Service st' = service_after found (ib_Service st)
    \<and> api_InfrastructureGet ObjectReaction csrv services kind st =
       Some (if portless (ib_Service st') then Panic ''index out of range''
        else Return ((Some (InfraAnswer (Some \<lparr>ia_Id = kind, ia_Type = ''infrastructure'',
          ia_Host = host_of (node_ip (no_Addresses n) []) (ib_Service st'), ia_Kind = [], ia_Infra = infra\<rparr>)), None), st'))"
proof -
  have name: "om_Name (i_meta infra) = kind" "kind \<noteq> []"
    using stored_infra_name [OF assms(4)] known_kind_segments [OF assms(2)] by simp_all
  obtain found st' where r: "polled (wt_cache services) (namespace_of kind) kind found"
    "backend_InfrastructureGet ObjectReaction services kind False st = Some (Return ((Some infra, None), st'))"
    "ib_world st' = ib_world st" "ib_Service st' = service_after found (ib_Service st)"
    by (rule backend_InfrastructureGet_waits [OF assms(1-4,6)])
  have nodes: "ClusterNodes csrv (ib_world st') = (Inr (n # ns), ib_world st')" using assms(5) r(3) by simp
  show ?thesis
    using r name by (intro exI [of _ found] exI [of _ st'])
      (simp add: api_InfrastructureGet_def answer_with_host_cases [OF nodes])
qed

text \<open>
  Requests the handlers do not survive: every one about an infrastructure kind that is not one of
  the three panics, whatever the body or the state of the cluster, and so does every answer about an
  infrastructure while the cluster has no node.  An infrastructure that is not deployed is answered
  with the error NotFound.
\<close>

theorem api_infrastructures_fail:
  assumes "infra_backend_ok st"
  shows "(\<not> known_kind kind \<longrightarrow> api_InfrastructureGet ObjectReaction csrv services kind st = Some nil_deref
      \<and> api_InfrastructureCreate ObjectReaction csrv images services (Inr kind) st = Some nil_deref
      \<and> api_InfrastructureDelete ObjectReaction dcol kind st = Some nil_deref)
    \<and> (ClusterNodes csrv (ib_world st) = (Inr [], w) \<longrightarrow> answer_with_host csrv infra st = Panic ''index out of range'')
    \<and> (known_kind kind \<and> tracker_stored (ib_world st) RInfrastructures (namespace_of kind) kind = None \<longrightarrow>
        (\<exists>e st'. api_InfrastructureGet ObjectReaction csrv services kind st = Some (Return ((None, Some e), st'))
          \<and> IsNotFound (Cause (Some e)) \<and> ib_world st' = ib_world st))"
proof (intro conjI impI)
  assume "\<not> known_kind kind"
  then have u: "with_infra ObjectReaction kind st failed run = Some nil_deref" for failed run
    using assms by (simp add: with_infra_def getInfra_def known_kind_def getConfigMapInfo_ok)
  show "api_InfrastructureGet ObjectReaction csrv services kind st = Some nil_deref"
    by (simp add: api_InfrastructureGet_def backend_InfrastructureGet_def u)
  show "api_InfrastructureCreate ObjectReaction csrv images services (Inr kind) st = Some nil_deref"
    by (simp add: api_InfrastructureCreate_def InfrastructureDeploy_def u)
  show "api_InfrastructureDelete ObjectReaction dcol kind st = Some nil_deref"
    by (simp add: api_InfrastructureDelete_def backend_InfrastructureDelete_def u)
next
  assume "ClusterNodes csrv (ib_world st) = (Inr [], w)"
  then show "answer_with_host csrv infra st = Panic ''index out of range''"
    by (simp add: answer_with_host_def NodeIPGet_def)
next
  assume k: "known_kind kind \<and> tracker_stored (ib_world st) RInfrastructures (namespace_of kind) kind = None"
  have w: "tracker_ok (ib_world st)" using assms by (simp add: infra_backend_ok_def)
  from k have seg: "kind \<noteq> []" "path_segment_ok kind" "namespace_of kind \<noteq> []" "path_segment_ok (namespace_of kind)"
    using known_kind_segments by blast+
  have "client_get ObjectReaction RInfrastructures (namespace_of kind) kind (ib_world st) =
      (Inl (StatusError StatusReasonNotFound kind), ib_world st)"
    using client_get_tracker [OF w seg(1,2), of RInfrastructures "namespace_of kind"] seg(3,4) k by simp
  then have "api_InfrastructureGet ObjectReaction csrv services kind st =
      Some (Return ((None, Some (WithMessage (StatusError StatusReasonNotFound kind) ''failed to read infrastructure'')),
        st\<lparr>ib_configMap := Some cube_config_map\<rparr>))"
    using k assms by (simp add: api_InfrastructureGet_def backend_InfrastructureGet_def with_infra_ok config_lookup
        Infrastructures_Get_def api_simps Let_def)
  then show "\<exists>e st'. api_InfrastructureGet ObjectReaction csrv services kind st = Some (Return ((None, Some e), st'))
      \<and> IsNotFound (Cause (Some e)) \<and> ib_world st' = ib_world st"
    by (auto simp: Cause_def go_err)
qed

section \<open>Examples\<close>

definition dash_service :: service where
  "dash_service = zero_service\<lparr>sv_meta := zero_meta\<lparr>om_Name := DashboardName, om_Namespace := DashboardNamespace\<rparr>,
     sv_Ports := [zero_port\<lparr>sp_NodePort := 30080\<rparr>]\<rparr>"

definition dash_services :: service_informer where
  "dash_services = \<lparr>wt_HasSynced = (\<lambda>k. 4 \<le> k),
     wt_cache = (\<lambda>k. if k < 3 then informer_with [] [] else informer_with [] [ObjService dash_service])\<rparr>"

lemma dash_services_get:
  "Services_lister_Get (wt_cache dash_services k) DashboardNamespace DashboardName =
     Return (if k < 3 then Inl (StatusError StatusReasonNotFound DashboardName) else Inr dash_service)"
  by (simp add: dash_services_def Services_lister_Get_def lister_Get_def tsm_Get_def informer_plain type_assert_def
      MetaNamespaceKeyFunc_def lister_key_def dash_service_def bundle_names)

definition one_node :: "'w cluster_server" where
  "one_node = \<lparr>cs_Nodes_List = (\<lambda>w. (Inr [(sample_node ''node-1'')\<lparr>no_Addresses :=
        [\<lparr>na_Type = ''InternalIP'', na_Address = ''10.0.0.7''\<rparr>]\<rparr>], w)),
     cs_Nodes_Get = (\<lambda>n w. (Inr (sample_node n), w)), cs_Pods_List = (\<lambda>sel w. (Inr [], w)),
     cs_ComponentStatuses_List = (\<lambda>w. (Inr [], w)),
     cs_ComponentStatuses_Get = (\<lambda>n w. (Inl (StatusError StatusReasonNotFound n), w)), cs_ParseSelector = Inr\<rparr>"

lemma polled_dash: "polled (wt_cache dash_services) DashboardNamespace DashboardName found \<Longrightarrow> found = Some dash_service"
  by (auto simp: polled_def service_at_def missing_at_def dash_services_get split: option.splits if_splits)

theorem InfrastructureGet_answers_witness:
  "\<exists>st'. api_InfrastructureGet ObjectReaction one_node dash_services DashboardName (fresh_backend [ObjInfra dash]) =
      Some (Return ((Some (InfraAnswer (Some \<lparr>ia_Id = DashboardName, ia_Type = ''infrastructure'',
        ia_Host = ''10.0.0.7:30080'', ia_Kind = [], ia_Infra = dash\<rparr>)), None), st'))"
proof -
  have k: "known_kind DashboardName" and ns: "namespace_of DashboardName = DashboardNamespace"
    by (simp_all add: known_kind_def namespace_of_def)
  have there: "tracker_stored (ib_world (fresh_backend [ObjInfra dash])) RInfrastructures (namespace_of DashboardName)
      DashboardName = Some (ObjInfra dash)"
    by (simp add: fresh_backend_def tracker_with_stored same_key_def namespace_of_def bundle_names)
  have answers: "\<exists>r. Services_lister_Get (wt_cache dash_services j) (namespace_of DashboardName) DashboardName = Return r" for j
    by (simp add: ns dash_services_get)
  have nodes: "ClusterNodes one_node w = (Inr [(sample_node ''node-1'')\<lparr>no_Addresses :=
        [\<lparr>na_Type = ''InternalIP'', na_Address = ''10.0.0.7''\<rparr>]\<rparr>], w)" for w
    by (simp add: ClusterNodes_def one_node_def)
  have synced: "wt_HasSynced dash_services 4" by (simp add: dash_services_def)
  have port: "port_text dash_service = ''30080''"
    by (simp add: port_text_def dash_service_def decimal.simps ascii_digit_def Let_def) code_simp
  from InfrastructureGet_answers [where services = dash_services, OF fresh_backend_dash k answers there nodes synced]
  obtain found st' where f: "polled (wt_cache dash_services) DashboardNamespace DashboardName found"
    "ib_Service st' = service_after found (ib_Service (fresh_backend [ObjInfra dash]))"
    "api_InfrastructureGet ObjectReaction one_node dash_services DashboardName (fresh_backend [ObjInfra dash]) =
       Some (if portless (ib_Service st') then Panic ''index out of range''
        else Return ((Some (InfraAnswer (Some \<lparr>ia_Id = DashboardName, ia_Type = ''infrastructure'',
          ia_Host = host_of (node_ip [\<lparr>na_Type = ''InternalIP'', na_Address = ''10.0.0.7''\<rparr>] []) (ib_Service st'),
          ia_Kind = [], ia_Infra = dash\<rparr>)), None), st'))"
    unfolding ns by auto
  have svc: "ib_Service st' = Some dash_service" using f(2) polled_dash [OF f(1)] by (simp add: service_after_def)
  then have "\<not> portless (ib_Service st')" by (simp add: portless_def dash_service_def)
  moreover have "host_of ''10.0.0.7'' (ib_Service st') = ''10.0.0.7:30080''" using svc port by (simp add: host_of_def)
  ultimately show ?thesis using f(3) by simp
qed

theorem api_infrastructures_fail_witness:
  "api_InfrastructureGet ObjectReaction one_node no_services ''mesh'' (fresh_backend [ObjInfra dash]) = Some nil_deref
    \<and> (\<exists>e st'. api_InfrastructureGet ObjectReaction one_node no_services LonghornName (fresh_backend [ObjInfra dash]) =
        Some (Return ((None, Some e), st')) \<and> IsNotFound (Cause (Some e)))"
proof -
  have "\<not> known_kind ''mesh''" "known_kind LonghornName" by (simp_all add: known_kind_def bundle_names)
  moreover have "tracker_stored (ib_world (fresh_backend [ObjInfra dash])) RInfrastructures (namespace_of LonghornName) LonghornName = None"
    by (simp add: fresh_backend_def tracker_with_stored same_key_def namespace_of_def bundle_names)
  ultimately show ?thesis
    using api_infrastructures_fail [OF fresh_backend_dash, where csrv = one_node and services = no_services and kind = "''mesh''"]
      api_infrastructures_fail [OF fresh_backend_dash, where csrv = one_node and services = no_services and kind = LonghornName]
    by blast
qed

end
