(* ===== verification/Cube_Stream.thy ===== *)
theory Cube_Stream
  imports Cube_Api_Handlers "HOL-Library.Sublist"
begin

text \<open>
  The event streams of \<open>api/baseinfo.go\<close> and \<open>api/cluster.go\<close>.

  A stream is an HTTP connection that stays open.  Its loop waits for the client to go, for thirty
  seconds to pass, or for an answer on the unbuffered channel \<open>eventc\<close>; handlers registered at the
  informers run in goroutines of their own, one per registration, and send the answers.  The two kinds
  of goroutine are interleaved step by step; an informer calls the functions of one registration one
  after another, so that each is at one place at a time.  A panic in a handler ends the process:
  \<open>HandleCrash\<close> of client-go panics again.
\<close>

section \<open>The state of a stream\<close>

text \<open>A frame carries the listener it comes from, \<open>None\<close> for the first one of the connection.\<close>

datatype 'p chunk = Frame "nat option" 'p | PingChunk

datatype 'p phase = Idle | Checking 'p | Sending 'p

record 'p stream =
  sm_headers :: "(string \<times> string) list"
  sm_written :: "'p chunk list"
  sm_phase :: "nat \<Rightarrow> 'p phase"
  sm_running :: bool
  sm_done :: bool
  sm_closed :: bool
  sm_panicked :: bool
  sm_fired :: "nat \<Rightarrow> 'p list"

text \<open>The bytes of the frames: \<open>Encode\<close> ends its text with a newline.\<close>

definition newline :: char where "newline = CHR 0x0A"

fun chunk_bytes :: "('p \<Rightarrow> string) \<Rightarrow> 'p chunk \<Rightarrow> string" where
  "chunk_bytes encode (Frame l p) = ''data: '' @ encode p @ [newline] @ [newline, newline]"
| "chunk_bytes encode PingChunk = '': ping'' @ [newline, newline]"

definition stream_headers :: "(string \<times> string) list" where
  "stream_headers = [(''Content-Type'', ''text/event-stream''), (''Cache-Control'', ''no-cache''),
     (''Connection'', ''keep-alive''), (''X-Accel-Buffering'', ''no'')]"

definition open_stream :: "'p \<Rightarrow> 'p stream" where
  "open_stream p = \<lparr>sm_headers = stream_headers, sm_written = [Frame None p], sm_phase = (\<lambda>_. Idle), sm_running = True, sm_done = False,
     sm_closed = False, sm_panicked = False, sm_fired = (\<lambda>_. [])\<rparr>"

section \<open>Steps\<close>

text \<open>
  \<open>produces l p\<close> says that the handler of listener \<open>l\<close> can come up with the answer \<open>p\<close>.  The handler
  then looks whether the context is done: if so it drops the answer, else it sends, which completes
  when the loop receives.  When the client is gone the loop returns; the deferred function cancels the
  context and closes the channel, and a handler still waiting to send panics.
\<close>

inductive stream_step :: "(nat \<Rightarrow> 'p \<Rightarrow> bool) \<Rightarrow> 'p stream \<Rightarrow> 'p stream \<Rightarrow> bool" for produces where
  fire: "\<not> sm_panicked s \<Longrightarrow> sm_phase s l = Idle \<Longrightarrow> produces l p \<Longrightarrow>
    stream_step produces s (s\<lparr>sm_phase := (sm_phase s)(l := Checking p), sm_fired := (sm_fired s)(l := sm_fired s l @ [p])\<rparr>)"
| drop: "\<not> sm_panicked s \<Longrightarrow> sm_phase s l = Checking p \<Longrightarrow> sm_done s \<Longrightarrow>
    stream_step produces s (s\<lparr>sm_phase := (sm_phase s)(l := Idle)\<rparr>)"
| begin_send: "\<not> sm_panicked s \<Longrightarrow> sm_phase s l = Checking p \<Longrightarrow> \<not> sm_done s \<Longrightarrow>
    stream_step produces s (s\<lparr>sm_phase := (sm_phase s)(l := Sending p)\<rparr>)"
| receive: "\<not> sm_panicked s \<Longrightarrow> sm_running s \<Longrightarrow> sm_phase s l = Sending p \<Longrightarrow>
    stream_step produces s (s\<lparr>sm_phase := (sm_phase s)(l := Idle), sm_written := sm_written s @ [Frame (Some l) p]\<rparr>)"
| ping: "\<not> sm_panicked s \<Longrightarrow> sm_running s \<Longrightarrow>
    stream_step produces s (s\<lparr>sm_written := sm_written s @ [PingChunk]\<rparr>)"
| leave: "\<not> sm_panicked s \<Longrightarrow> sm_running s \<Longrightarrow>
    stream_step produces s (s\<lparr>sm_running := False\<rparr>)"
| cancel: "\<not> sm_panicked s \<Longrightarrow> \<not> sm_running s \<Longrightarrow> \<not> sm_done s \<Longrightarrow>
    stream_step produces s (s\<lparr>sm_done := True\<rparr>)"
| close: "\<not> sm_panicked s \<Longrightarrow> sm_done s \<Longrightarrow> \<not> sm_closed s \<Longrightarrow>
    stream_step produces s (s\<lparr>sm_closed := True\<rparr>)"
| crash: "\<not> sm_panicked s \<Longrightarrow> sm_closed s \<Longrightarrow> sm_phase s l = Sending p \<Longrightarrow>
    stream_step produces s (s\<lparr>sm_panicked := True\<rparr>)"

inductive_cases stream_stepE: "stream_step produces s t"

text \<open>The states of a connection that began with the answer \<open>p\<close>.\<close>

inductive stream_reachable :: "(nat \<Rightarrow> 'p \<Rightarrow> bool) \<Rightarrow> 'p stream \<Rightarrow> 'p stream \<Rightarrow> bool" for produces s where
  start: "stream_reachable produces s s"
| step: "stream_reachable produces s t \<Longrightarrow> stream_step produces t u \<Longrightarrow> stream_reachable produces s u"

lemma stream_reachable_trans:
  "stream_reachable produces t u \<Longrightarrow> stream_reachable produces s t \<Longrightarrow> stream_reachable produces s u"
  by (induction rule: stream_reachable.induct) (auto intro: stream_reachable.intros)

section \<open>What the handlers send\<close>

text \<open>The base information: sent again when the state of an infrastructure changes or one is deleted.\<close>

definition baseinfo_on_update ::
    "infrastructure \<Rightarrow> infrastructure \<Rightarrow> go_error + string_map list \<Rightarrow> base_info_answer option option" where
  "baseinfo_on_update old new answer =
     (if st_State (i_Status new) \<noteq> st_State (i_Status old) then
        (case answer of Inl e \<Rightarrow> None | Inr baseInfo \<Rightarrow> Some (toBaseInfo (Some baseInfo)))
      else None)"

definition baseinfo_on_delete :: "go_error + string_map list \<Rightarrow> base_info_answer option option" where
  "baseinfo_on_delete answer = (case answer of Inl e \<Rightarrow> None | Inr baseInfo \<Rightarrow> Some (toBaseInfo (Some baseInfo)))"

definition baseinfo_produces :: "nat \<Rightarrow> base_info_answer option \<Rightarrow> bool" where
  "baseinfo_produces l p \<longleftrightarrow>
     l = 0 \<and> (\<exists>old new answer. baseinfo_on_update old new answer = Some p \<or> baseinfo_on_delete answer = Some p)"

text \<open>
  The cluster: a new component status is sent with the resources of the start of the connection, new
  resources with the component statuses of its start.
\<close>

definition cluster_on_status ::
    "cluster_resource \<Rightarrow> component_status \<Rightarrow> component_status \<Rightarrow> go_error + component_status list
       \<Rightarrow> cluster_answer collection option" where
  "cluster_on_status resources old new answer =
     (if om_ResourceVersion (cst_meta new) \<noteq> om_ResourceVersion (cst_meta old) then
        (case answer of Inl e \<Rightarrow> None | Inr componentStatuses \<Rightarrow> Some (toClusterCollection resources componentStatuses))
      else None)"

definition cluster_on_pod ::
    "component_status list \<Rightarrow> pod \<Rightarrow> pod \<Rightarrow> go_error + cluster_resource \<Rightarrow> cluster_answer collection option" where
  "cluster_on_pod componentStatuses old new answer =
     (if om_ResourceVersion (po_meta new) \<noteq> om_ResourceVersion (po_meta old) then
        (case answer of Inl e \<Rightarrow> None | Inr resources \<Rightarrow> Some (toClusterCollection resources componentStatuses))
      else None)"

definition cluster_produces ::
    "cluster_resource \<Rightarrow> component_status list \<Rightarrow> nat \<Rightarrow> cluster_answer collection \<Rightarrow> bool" where
  "cluster_produces resources componentStatuses l p \<longleftrightarrow>
     l = 0 \<and> (\<exists>old new answer. cluster_on_status resources old new answer = Some p)
     \<or> l = 1 \<and> (\<exists>old new answer. cluster_on_pod componentStatuses old new answer = Some p)"

section \<open>The beginning of a connection\<close>

definition api_BaseInfoGet ::
    "'w api_server \<Rightarrow> service_informer \<Rightarrow> bool \<Rightarrow> 'w infra_backend
       \<Rightarrow> ((go_error + base_info_answer option stream) \<times> 'w infra_backend) waiting" where
  "api_BaseInfoGet srv services flusher st =
     (if \<not> flusher then Some (Return (Inl (Errorf ''Streaming not supported'' []), st))
      else bind_waiting (backend_BaseInfoGet srv services st) (\<lambda>((baseInfo, err), st1).
        case err of
          Some e \<Rightarrow> Some (Return (Inl e, st1))
        | None \<Rightarrow> Some (Return (Inr (open_stream (toBaseInfo (Some baseInfo))), st1))))"

definition api_ClusterList ::
    "(string \<Rightarrow> 'w cluster_server) \<Rightarrow> 'w cluster_server \<Rightarrow> (pods_data \<Rightarrow> pods_data) \<Rightarrow> bool \<Rightarrow> http_request \<Rightarrow> 'w
       \<Rightarrow> (go_error option + cluster_answer collection stream) \<times> 'w" where
  "api_ClusterList client_for csrv visit flusher r w =
     (if \<not> flusher then (Inl (Some (Errorf ''Streaming not supported'' [])), w)
      else
        (case ClusterResources (client_for (rq_ImpersonateUser r)) visit w of
           (Inl e, w1) \<Rightarrow> (Inl (Wrap (Some e) ''RancherCUBE: fail to read clusters resources''), w1)
         | (Inr resources, w1) \<Rightarrow>
             (case ClusterComponentStatuses csrv w1 of
                (Inl e, w2) \<Rightarrow> (Inl (Wrap (Some e) ''RancherCUBE: fail to read clusters component statuses''), w2)
              | (Inr componentStatuses, w2) \<Rightarrow> (Inr (open_stream (toClusterCollection resources componentStatuses)), w2))))"

section \<open>The invariant of a stream\<close>

fun sent_by :: "nat \<Rightarrow> 'p chunk list \<Rightarrow> 'p list" where
  "sent_by l [] = []"
| "sent_by l (Frame (Some l') p # cs) = (if l' = l then p # sent_by l cs else sent_by l cs)"
| "sent_by l (Frame None p # cs) = sent_by l cs"
| "sent_by l (PingChunk # cs) = sent_by l cs"

lemma sent_by_append [simp]: "sent_by l (cs @ ds) = sent_by l cs @ sent_by l ds"
  by (induction l cs rule: sent_by.induct) simp_all

fun pending :: "'p phase \<Rightarrow> 'p list" where
  "pending Idle = []" | "pending (Checking p) = [p]" | "pending (Sending p) = [p]"

text \<open>The order in which a connection ends.\<close>

definition ending_inv :: "'p stream \<Rightarrow> bool" where
  "ending_inv s \<longleftrightarrow> (sm_done s \<longrightarrow> \<not> sm_running s) \<and> (sm_closed s \<longrightarrow> sm_done s) \<and> (sm_panicked s \<longrightarrow> sm_closed s)"

text \<open>What is written, and what waits to be written, comes from the handlers.\<close>

definition frames_inv :: "(nat \<Rightarrow> 'p \<Rightarrow> bool) \<Rightarrow> 'p \<Rightarrow> 'p stream \<Rightarrow> bool" where
  "frames_inv produces p0 s \<longleftrightarrow>
     (\<exists>cs. sm_written s = Frame None p0 # cs \<and> (\<forall>l p. Frame l p \<in> set cs \<longrightarrow> (\<exists>l'. l = Some l' \<and> produces l' p)))
     \<and> (\<forall>l p. p \<in> set (pending (sm_phase s l)) \<longrightarrow> produces l p)"

text \<open>Until the end every answer of a handler is written or waits.\<close>

definition history_inv :: "'p stream \<Rightarrow> bool" where
  "history_inv s \<longleftrightarrow>
     (\<forall>l. prefix (sent_by l (sm_written s)) (sm_fired s l)
       \<and> (\<not> sm_done s \<longrightarrow> sm_fired s l = sent_by l (sm_written s) @ pending (sm_phase s l)))"

lemma ending_inv_step: "stream_step produces s t \<Longrightarrow> ending_inv s \<Longrightarrow> ending_inv t"
  by (induction rule: stream_step.induct) (auto simp: ending_inv_def)

lemma frames_inv_step: "stream_step produces s t \<Longrightarrow> frames_inv produces p0 s \<Longrightarrow> frames_inv produces p0 t"
  by (induction rule: stream_step.induct) (fastforce simp: frames_inv_def split: if_splits)+

lemma history_inv_step: "stream_step produces s t \<Longrightarrow> ending_inv s \<Longrightarrow> history_inv s \<Longrightarrow> history_inv t"
proof (induction rule: stream_step.induct)
  case (receive s l p)
  then have "\<not> sm_done s" by (auto simp: ending_inv_def)
  with receive show ?case by (simp add: history_inv_def)
qed (auto simp: history_inv_def ending_inv_def)

lemmas stream_invs = ending_inv_def frames_inv_def history_inv_def

lemma stream_start_invs: "ending_inv (open_stream p)" "frames_inv produces p (open_stream p)" "history_inv (open_stream p)"
  by (simp_all add: stream_invs open_stream_def)

lemma stream_reachable_invs:
  "stream_reachable produces (open_stream p0) s \<Longrightarrow> ending_inv s \<and> frames_inv produces p0 s \<and> history_inv s"
  by (induction rule: stream_reachable.induct)
    (auto intro: stream_start_invs ending_inv_step frames_inv_step history_inv_step)

section \<open>What the client sees\<close>

text \<open>
  C36. The answers that reach the client: the first frame is the answer of the start of the connection,
  every later one comes from a handler, and for every handler the frames are its answers in their
  order, none twice and none left out; until the connection ends all of them are written but the one
  that waits to be sent.
\<close>

theorem stream_faithful:
  assumes "stream_reachable produces (open_stream p0) s"
  shows "(\<exists>cs. sm_written s = Frame None p0 # cs \<and> (\<forall>l p. Frame l p \<in> set cs \<longrightarrow> (\<exists>l'. l = Some l' \<and> produces l' p)))
    \<and> prefix (sent_by l (sm_written s)) (sm_fired s l)
    \<and> (\<not> sm_done s \<longrightarrow> sm_fired s l = sent_by l (sm_written s) @ pending (sm_phase s l))"
  using stream_reachable_invs [OF assms] by (simp add: frames_inv_def history_inv_def)

section \<open>Progress\<close>

lemma pending_phase: "pending ph = [p] \<longleftrightarrow> ph = Checking p \<or> ph = Sending p"
  by (cases ph) auto

text \<open>
  While a connection is open an answer that waits is never stuck: the next step of its handler, or
  of the loop that receives it, can be taken in every state, and no step of anybody else takes it away;
  only the end of the connection does.  So under any schedule that gives every goroutine its turn it
  is written after two turns.
\<close>

theorem stream_progress:
  assumes "stream_reachable produces (open_stream p0) s" "sm_running s" "pending (sm_phase s l) = [p]"
  shows "(sm_phase s l = Checking p \<longrightarrow> (\<exists>t. stream_step produces s t \<and> sm_phase t l = Sending p))
    \<and> (sm_phase s l = Sending p \<longrightarrow>
        (\<exists>t. stream_step produces s t \<and> sm_written t = sm_written s @ [Frame (Some l) p] \<and> sm_phase t l = Idle))
    \<and> (\<forall>t. stream_step produces s t \<and> sm_running t \<longrightarrow>
        sm_phase t l = sm_phase s l \<or> sm_phase s l = Checking p \<and> sm_phase t l = Sending p
        \<or> sm_phase s l = Sending p \<and> sm_written t = sm_written s @ [Frame (Some l) p] \<and> sm_phase t l = Idle)"
proof (intro conjI impI allI)
  have up: "\<not> sm_panicked s" "\<not> sm_done s"
    using stream_reachable_invs [OF assms(1)] assms(2) by (auto simp: ending_inv_def)
  show "\<exists>t. stream_step produces s t \<and> sm_phase t l = Sending p" if "sm_phase s l = Checking p"
    by (rule exI, rule conjI, rule stream_step.begin_send [where l = l]) (use up that in simp_all)
  show "\<exists>t. stream_step produces s t \<and> sm_written t = sm_written s @ [Frame (Some l) p] \<and> sm_phase t l = Idle"
    if "sm_phase s l = Sending p"
    by (rule exI, rule conjI, rule stream_step.receive [where l = l]) (use up assms(2) that in simp_all)
  fix t assume t: "stream_step produces s t \<and> sm_running t"
  then have "stream_step produces s t" ..
  then show "sm_phase t l = sm_phase s l \<or> sm_phase s l = Checking p \<and> sm_phase t l = Sending p
        \<or> sm_phase s l = Sending p \<and> sm_written t = sm_written s @ [Frame (Some l) p] \<and> sm_phase t l = Idle"
    by (cases rule: stream_step.cases) (use up assms(3) in \<open>auto simp: pending_phase split: if_splits\<close>)
qed

section \<open>Leaving at the wrong moment\<close>

definition nobody_sending :: "'p stream \<Rightarrow> bool" where
  "nobody_sending s \<longleftrightarrow> (\<forall>l p. sm_phase s l \<noteq> Sending p)"

lemma quiet_step:
  "stream_step produces s t \<Longrightarrow> sm_done s \<and> \<not> sm_panicked s \<and> nobody_sending s \<Longrightarrow> sm_done t \<and> \<not> sm_panicked t \<and> nobody_sending t"
  by (induction rule: stream_step.induct) (auto simp: nobody_sending_def)

lemma quiet_reachable:
  "stream_reachable produces s t \<Longrightarrow> sm_done s \<and> \<not> sm_panicked s \<and> nobody_sending s \<Longrightarrow>
     sm_done t \<and> \<not> sm_panicked t \<and> nobody_sending t"
  by (induction rule: stream_reachable.induct) (auto dest: quiet_step)

text \<open>
  C37. A client that leaves can take the whole server down: while a handler waits to send, the end of the
  connection closes the channel under it, and the handler panics outside every recovery.  This is the
  only way: once the context is cancelled with no handler waiting, nothing panics any more.
\<close>

theorem stream_crash:
  assumes "stream_reachable produces (open_stream p0) s"
  shows "(sm_running s \<and> sm_phase s l = Sending p \<longrightarrow> (\<exists>t. stream_reachable produces s t \<and> sm_panicked t))
    \<and> (sm_done s \<and> \<not> sm_panicked s \<longrightarrow>
        (\<exists>t. stream_reachable produces s t \<and> sm_panicked t) = (\<exists>l p. sm_phase s l = Sending p))"
proof -
  have crash: "\<exists>t. stream_reachable produces u t \<and> sm_panicked t"
    if "sm_done u" "\<not> sm_panicked u" "sm_phase u l = Sending p" for u l p
  proof -
    let ?c = "u\<lparr>sm_closed := True\<rparr>"
    have closed: "stream_reachable produces u ?c"
    proof (cases "sm_closed u")
      case True
      then have "?c = u" by simp
      then show ?thesis using stream_reachable.start [of produces u] by metis
    qed (use that in \<open>auto intro: stream_reachable.intros stream_step.close\<close>)
    have "stream_step produces ?c (?c\<lparr>sm_panicked := True\<rparr>)"
      by (rule stream_step.crash [where l = l and p = p]) (use that in simp_all)
    with closed have "stream_reachable produces u (?c\<lparr>sm_panicked := True\<rparr>)" by (rule stream_reachable.step)
    moreover have "sm_panicked (?c\<lparr>sm_panicked := True\<rparr>)" by simp
    ultimately show ?thesis by blast
  qed
  have "\<exists>t. stream_reachable produces s t \<and> sm_panicked t" if run: "sm_running s" "sm_phase s l = Sending p"
  proof -
    have up: "\<not> sm_panicked s" "\<not> sm_done s"
      using stream_reachable_invs [OF assms] run(1) by (auto simp: ending_inv_def)
    let ?a = "s\<lparr>sm_running := False\<rparr>" and ?b = "s\<lparr>sm_running := False, sm_done := True\<rparr>"
    have "stream_step produces s ?a" by (rule stream_step.leave) (use up run in simp_all)
    moreover have "stream_step produces ?a ?b" by (rule stream_step.cancel [of ?a, simplified]) (use up in simp_all)
    ultimately have b: "stream_reachable produces s ?b" by (blast intro: stream_reachable.intros)
    have "\<exists>t. stream_reachable produces ?b t \<and> sm_panicked t" by (rule crash) (use up run(2) in simp_all)
    with b show ?thesis by (blast intro: stream_reachable_trans)
  qed
  moreover have "(\<exists>t. stream_reachable produces s t \<and> sm_panicked t) = (\<exists>l p. sm_phase s l = Sending p)"
    if "sm_done s \<and> \<not> sm_panicked s"
    using that crash quiet_reachable [of produces s] unfolding nobody_sending_def by blast
  ultimately show ?thesis by blast
qed

section \<open>The cluster page forgets\<close>

text \<open>
  No frame of the cluster page after the start shows news of both kinds: each has the resources or
  the component statuses of the start of the connection, so that a change of the one seen by the client
  is taken back by the next change of the other.
\<close>

theorem cluster_stream_stale:
  assumes "api_ClusterList client_for csrv visit True r w = (Inr s0, w')"
    and "ClusterResources (client_for (rq_ImpersonateUser r)) visit w = (Inr resources, w1)"
    and "ClusterComponentStatuses csrv w1 = (Inr statuses, w')"
    and "stream_reachable (cluster_produces resources statuses) s0 s" "Frame l p \<in> set (sm_written s)"
  shows "\<exists>r c. p = toClusterCollection r c \<and> (l = None \<longrightarrow> r = resources \<and> c = statuses)
    \<and> (l = Some 0 \<longrightarrow> r = resources) \<and> (l = Some 1 \<longrightarrow> c = statuses) \<and> (r = resources \<or> c = statuses)"
proof -
  have s0: "s0 = open_stream (toClusterCollection resources statuses)"
    using assms(1-3) by (simp add: api_ClusterList_def)
  have "frames_inv (cluster_produces resources statuses) (toClusterCollection resources statuses) s"
    using stream_reachable_invs [OF assms(4) [unfolded s0]] by blast
  then consider "l = None" "p = toClusterCollection resources statuses"
    | l' where "l = Some l'" "cluster_produces resources statuses l' p"
    using assms(5) by (auto simp: frames_inv_def) blast
  then show ?thesis
  proof cases
    case 2
    then show ?thesis
      by (auto simp: cluster_produces_def cluster_on_status_def cluster_on_pod_def split: if_splits sum.splits)
  qed blast
qed

section \<open>Examples\<close>

text \<open>A handler that waits to send its first answer.\<close>

definition waiting :: "'p \<Rightarrow> 'p \<Rightarrow> nat \<Rightarrow> 'p stream" where
  "waiting p0 p l = (open_stream p0)\<lparr>sm_phase := (\<lambda>_. Idle)(l := Sending p), sm_fired := (\<lambda>_. [])(l := [p])\<rparr>"

lemma waiting_reachable:
  assumes "produces l p"
  shows "stream_reachable produces (open_stream p0) (waiting p0 p l)"
proof -
  let ?c = "(open_stream p0)\<lparr>sm_phase := (\<lambda>_. Idle)(l := Checking p), sm_fired := (\<lambda>_. [])(l := [p])\<rparr>"
  have "stream_step produces (open_stream p0) ?c"
    using stream_step.fire [of "open_stream p0" l produces p] assms by (simp add: open_stream_def)
  moreover have "stream_step produces ?c (waiting p0 p l)"
    using stream_step.begin_send [of ?c l p produces] by (simp add: open_stream_def waiting_def)
  ultimately show ?thesis by (blast intro: stream_reachable.intros)
qed

lemma waiting_sel [simp]: "sm_running (waiting p0 p l)" "sm_phase (waiting p0 p l) l = Sending p"
    "\<not> sm_done (waiting p0 p l)" "sm_written (waiting p0 p l) = [Frame None p0]" "sm_fired (waiting p0 p l) l = [p]"
  by (simp_all add: waiting_def open_stream_def)

theorem stream_faithful_witness:
  "\<exists>cs. sm_written (waiting (0 :: nat) 5 1) = Frame None 0 # cs \<and> prefix (sent_by 1 (sm_written (waiting (0 :: nat) 5 1))) [5]"
  using stream_faithful [OF waiting_reachable [of "\<lambda>l p. l = 1 \<and> p < 9" 1 5 "0 :: nat"], of 1]
  by (auto simp del: waiting_sel(4))

theorem stream_progress_witness:
  "\<exists>t. stream_step (\<lambda>l p. l = 1 \<and> p < 9) (waiting (0 :: nat) 5 1) t \<and> sm_written t = [Frame None 0, Frame (Some 1) 5]"
  using stream_progress [OF waiting_reachable [of "\<lambda>l p. l = 1 \<and> p < 9" 1 5 "0 :: nat"], of 1 5] by auto

theorem stream_crash_witness:
  "\<exists>t. stream_reachable (\<lambda>l p. l = 1 \<and> p < 9) (waiting (0 :: nat) 5 1) t \<and> sm_panicked t"
  using stream_crash [OF waiting_reachable [of "\<lambda>l p. l = 1 \<and> p < 9" 1 5 "0 :: nat"], of 1 5] by simp

definition quiet_server :: "unit cluster_server" where
  "quiet_server = sample_server\<lparr>cs_Nodes_List := \<lambda>w. (Inr [], w)\<rparr>"

theorem cluster_stream_stale_witness:
  "\<exists>s p r. stream_reachable (cluster_produces r []) (open_stream (toClusterCollection r [])) s
    \<and> Frame (Some 0) p \<in> set (sm_written s) \<and> (\<exists>c. p = toClusterCollection r c \<and> c \<noteq> [])"
proof -
  define r where "r = \<lparr>cr_Capacity = Some (column_total cr_Capacity []), cr_Allocatable = Some (column_total cr_Allocatable []),
    cr_Requested = Some (column_total cr_Requested []), cr_Limits = Some (column_total cr_Limits [])\<rparr>"
  let ?st = "\<lambda>v. \<lparr>cst_meta = zero_meta\<lparr>om_ResourceVersion := v\<rparr>, cst_conditions = []\<rparr>"
  let ?first = "toClusterCollection r []" and ?fresh = "toClusterCollection r [?st ''2'']"
  let ?produces = "cluster_produces r []"
  have cr: "ClusterResources ((\<lambda>_. quiet_server) (rq_ImpersonateUser node_request)) rev () = (Inr r, ())"
    by (simp add: ClusterResources_def quiet_server_def r_def)
  have cs: "ClusterComponentStatuses quiet_server () = (Inr [], ())"
    by (simp add: ClusterComponentStatuses_def quiet_server_def sample_server_def)
  have start: "api_ClusterList (\<lambda>_. quiet_server) quiet_server rev True node_request () = (Inr (open_stream ?first), ())"
    using cr cs by (simp add: api_ClusterList_def)
  have "cluster_on_status r (?st ''1'') (?st ''2'') (Inr [?st ''2'']) = Some ?fresh" by (simp add: cluster_on_status_def)
  then have news: "?produces 0 ?fresh" unfolding cluster_produces_def by blast
  let ?s = "(waiting ?first ?fresh 0)\<lparr>sm_phase := (sm_phase (waiting ?first ?fresh 0))(0 := Idle), sm_written := [Frame None ?first, Frame (Some 0) ?fresh]\<rparr>"
  have "stream_step ?produces (waiting ?first ?fresh 0) ?s"
    using stream_step.receive [of "waiting ?first ?fresh 0" 0 ?fresh ?produces] by (simp add: waiting_def open_stream_def)
  with waiting_reachable [of ?produces, OF news] have s: "stream_reachable ?produces (open_stream ?first) ?s"
    by (rule stream_reachable.step)
  have frame: "Frame (Some 0) ?fresh \<in> set (sm_written ?s)" by simp
  from cluster_stream_stale [OF start cr cs s frame]
  obtain r' c where rc: "?fresh = toClusterCollection r' c" "r' = r" by auto
  then have "c \<noteq> []" by (auto simp: toClusterCollection_def toClusterResource_def)
  with s frame rc show ?thesis by blast
qed

end
