(* ===== verification/Cube_App.thy ===== *)
theory Cube_App
  imports Cube_Infra_Backend Cube_Backend Cube_Util
begin

text \<open>
  The start of the server, \<open>app/apiserver.go\<close>, and its daemon that deletes expired tokens,
  \<open>app/purge.go\<close>.  Reading a file and decoding YAML are arguments; what the server starts after its
  resources are deployed (informers, controllers, router) runs in goroutines modelled on their own.
\<close>

section \<open>Configuration\<close>

record cube_config =
  cc_KubeConfig :: string
  cc_InfraImages :: infra_images

definition set_image :: "string \<Rightarrow> string \<Rightarrow> string" where
  "set_image custom standard = (if [] \<noteq> custom then custom else standard)"

text \<open>The loop over the fields by reflection, field by field.\<close>

definition buildConfig :: "cube_config \<Rightarrow> cube_config \<Rightarrow> cube_config" where
  "buildConfig config cusConfig =
     (let config1 = (if cc_KubeConfig cusConfig \<noteq> [] then config\<lparr>cc_KubeConfig := cc_KubeConfig cusConfig\<rparr> else config);
          custom = cc_InfraImages cusConfig; standard = cc_InfraImages config1
      in config1\<lparr>cc_InfraImages :=
        \<lparr>im_Dashboard = set_image (im_Dashboard custom) (im_Dashboard standard),
         im_LonghornManager = set_image (im_LonghornManager custom) (im_LonghornManager standard),
         im_LonghornEngine = set_image (im_LonghornEngine custom) (im_LonghornEngine standard),
         im_LonghornFlexvolumeDriver = set_image (im_LonghornFlexvolumeDriver custom) (im_LonghornFlexvolumeDriver standard),
         im_LonghornUI = set_image (im_LonghornUI custom) (im_LonghornUI standard),
         im_RancherVM = set_image (im_RancherVM custom) (im_RancherVM standard),
         im_RancherVMFrontend = set_image (im_RancherVMFrontend custom) (im_RancherVMFrontend standard)\<rparr>\<rparr>)"

definition ConfigFile :: string where "ConfigFile = ''config.yml''"

record start_env =
  se_abs :: "string \<Rightarrow> go_error + string"
  se_open :: "string \<Rightarrow> go_error + (go_error + string)"
  se_unmarshal :: "string \<Rightarrow> go_error + cube_config"

definition resolveClusterFile :: "start_env \<Rightarrow> string \<Rightarrow> go_error + string" where
  "resolveClusterFile env clusterFile =
     (case se_abs env clusterFile of
        Inl e \<Rightarrow> Inl e
      | Inr fp \<Rightarrow> (case se_open env fp of Inl e \<Rightarrow> Inl e | Inr contents \<Rightarrow> contents))"

definition ParseConfig :: "start_env \<Rightarrow> string \<Rightarrow> go_error + cube_config" where
  "ParseConfig env clusterFile = se_unmarshal env clusterFile"

definition read_config :: "start_env \<Rightarrow> string \<Rightarrow> go_error + cube_config" where
  "read_config env f = (case resolveClusterFile env f of Inl e \<Rightarrow> Inl e | Inr text \<Rightarrow> ParseConfig env text)"

text \<open>The first half of \<open>startAPIServer\<close>: the configuration, and the two values it cannot do without.\<close>

definition start_config :: "start_env \<Rightarrow> string \<Rightarrow> string \<Rightarrow> go_error + cube_config" where
  "start_config env filePath listenAddr =
     (case read_config env ConfigFile of
        Inl e \<Rightarrow> Inl e
      | Inr config \<Rightarrow>
          (case (if filePath \<noteq> ConfigFile then map_sum id (buildConfig config) (read_config env filePath) else Inr config) of
             Inl e \<Rightarrow> Inl e
           | Inr config1 \<Rightarrow>
               if [] = listenAddr then Inl (Errorf ''RancherCUBE: require %v'' [''listen-addr''])
               else if [] = cc_KubeConfig config1 then Inl (Errorf ''RancherCUBE: require %v'' [''kube-config''])
               else Inr config1))"

section \<open>Deploying the resources\<close>

text \<open>No answer of a deployment is looked at.\<close>

definition deploy_resources ::
    "'w api_server \<Rightarrow> (string \<Rightarrow> go_error + string) \<Rightarrow> 'w infra_backend \<Rightarrow> 'w infra_backend outcome" where
  "deploy_resources srv bcrypt st =
     bind_outcome (UserCRDDeploy srv bcrypt (ib_world st)) (\<lambda>(_, w1).
       (let w2 = snd (InfrastructureCRDDeploy srv w1);
            w3 = snd (LonghornEngineCRDDeploy srv w2);
            w4 = snd (LonghornReplicaCRDDeploy srv w3);
            w5 = snd (LonghornSettingCRDDeploy srv w4);
            w6 = snd (LonghornVolumeCRDDeploy srv w5);
            w7 = snd (LonghornEngineImageCRDDeploy srv w6);
            w8 = snd (CredentialCRDDeploy srv w7);
            w9 = snd (ArptableCRDDeploy srv w8);
            w10 = snd (VirtualMachineCRDDeploy srv w9)
        in Return (snd (ConfigMapDeploy srv (st\<lparr>ib_world := w10\<rparr>)))))"

section \<open>Purging tokens\<close>

text \<open>
  \<open>now k\<close> is the time when the token number \<open>k\<close> of the list is looked at.  The result counts the
  tokens that are gone and lists the names of those it failed to delete.
\<close>

fun purge_loop ::
    "'w api_server \<Rightarrow> (int \<Rightarrow> real) \<Rightarrow> (nat \<Rightarrow> int) \<Rightarrow> nat \<Rightarrow> token list \<Rightarrow> nat \<Rightarrow> string list \<Rightarrow> 'w
       \<Rightarrow> nat \<times> string list \<times> 'w" where
  "purge_loop srv seconds now k [] count failed w = (count, failed, w)"
| "purge_loop srv seconds now k (t # ts) count failed w =
     (if IsExpired seconds (now k) t then
        (case Tokens_Delete srv (om_Namespace (t_meta t)) (om_Name (t_meta t)) w of
           (err, w1) \<Rightarrow>
             if err \<noteq> None \<and> \<not> IsNotFound err
               then purge_loop srv seconds now (Suc k) ts count (failed @ [om_Name (t_meta t)]) w1
             else purge_loop srv seconds now (Suc k) ts (count + 1) failed w1)
      else purge_loop srv seconds now (Suc k) ts count failed w)"

definition purge ::
    "'w api_server \<Rightarrow> (int \<Rightarrow> real) \<Rightarrow> (nat \<Rightarrow> int) \<Rightarrow> k8s_obj thread_safe_map \<Rightarrow> 'w
       \<Rightarrow> (nat \<times> string list \<times> 'w) outcome" where
  "purge srv seconds now tokenLister w =
     bind_outcome (lister_List_all as_token tokenLister) (\<lambda>tokens.
       Return (purge_loop srv seconds now 0 tokens 0 [] w))"

section \<open>What a purge deletes\<close>

definition expired_tokens :: "(int \<Rightarrow> real) \<Rightarrow> (nat \<Rightarrow> int) \<Rightarrow> nat \<Rightarrow> token list \<Rightarrow> token list" where
  "expired_tokens seconds now k ts = map snd (filter (\<lambda>(j, t). IsExpired seconds (now j) t) (enumerate k ts))"

lemma expired_tokens_simps [simp]:
  "expired_tokens seconds now k [] = []"
  "expired_tokens seconds now k (t # ts) =
     (if IsExpired seconds (now k) t then t # expired_tokens seconds now (Suc k) ts
      else expired_tokens seconds now (Suc k) ts)"
  by (simp_all add: expired_tokens_def)

lemma set_expired_tokens: "set (expired_tokens seconds now k ts) \<subseteq> set ts"
  by (induction ts arbitrary: k) auto

definition token_key :: "token \<Rightarrow> resource \<times> string \<times> string" where
  "token_key t = (RTokens, om_Namespace (t_meta t), om_Name (t_meta t))"

definition token_named :: "token \<Rightarrow> bool" where
  "token_named t \<longleftrightarrow>
     om_Name (t_meta t) \<noteq> [] \<and> om_Namespace (t_meta t) \<noteq> []
     \<and> path_segment_ok (om_Name (t_meta t)) \<and> path_segment_ok (om_Namespace (t_meta t))"

lemma token_named_request:
  "token_named t \<Longrightarrow> Tokens_Delete srv (om_Namespace (t_meta t)) (om_Name (t_meta t)) w =
     api_delete srv RTokens (om_Namespace (t_meta t)) (om_Name (t_meta t)) w"
  by (simp add: Tokens_Delete_def client_delete_def token_named_def rest_error_def)

definition without :: "(resource \<times> string \<times> string) set \<Rightarrow> view \<Rightarrow> view" where
  "without K f = (\<lambda>r m n. if (r, m, n) \<in> K then None else f r m n)"

lemma without_simps [simp]:
  "without {} f = f" "without K (without K' f) = without (K \<union> K') f"
  by (auto simp: without_def fun_eq_iff)

text \<open>Against any server that keeps the contract.\<close>

context api_store
begin

lemma token_delete_step:
  assumes "inv w" "token_named t"
    and "Tokens_Delete srv (om_Namespace (t_meta t)) (om_Name (t_meta t)) w = (err, w')"
  shows "inv w'" "err = None \<or> IsNotFound err \<Longrightarrow> stored w' = without {token_key t} (stored w)"
    "\<not> (err = None \<or> IsNotFound err) \<Longrightarrow> stored w' = stored w"
proof -
  have named: "om_Name (t_meta t) \<noteq> []" "namespaced RTokens \<longleftrightarrow> om_Namespace (t_meta t) \<noteq> []"
    using assms(2) by (simp_all add: token_named_def)
  have req: "api_delete srv RTokens (om_Namespace (t_meta t)) (om_Name (t_meta t)) w = (err, w')"
    using assms(3) unfolding token_named_request [OF assms(2)] .
  show "inv w'" using delete_ok [OF assms(1) named] delete_failed [OF assms(1) named] req by (cases err) auto
  show "stored w' = without {token_key t} (stored w)" if "err = None \<or> IsNotFound err"
    using delete_ok [OF assms(1) named] delete_failed [OF assms(1) named] req that
    by (cases err) (auto simp: without_def token_key_def fun_eq_iff)
  show "stored w' = stored w" if "\<not> (err = None \<or> IsNotFound err)"
    using delete_failed [OF assms(1) named] req that by (cases err) auto
qed

lemma purge_loop_confined:
  assumes "inv w" "\<forall>t \<in> set ts. token_named t" "purge_loop srv seconds now k ts count failed w = (count', failed', w')"
  shows "inv w' \<and> (\<exists>gone names. set gone \<subseteq> set (expired_tokens seconds now k ts) \<and> count' = count + length gone
    \<and> stored w' = without (token_key ` set gone) (stored w)
    \<and> failed' = failed @ names \<and> length names + length gone = length (expired_tokens seconds now k ts)
    \<and> (names = [] \<longrightarrow> gone = expired_tokens seconds now k ts))"
  using assms
proof (induction ts arbitrary: k count failed w)
  case Nil
  then show ?case by simp
next
  case (Cons t ts)
  show ?case
  proof (cases "IsExpired seconds (now k) t")
    case False
    with Cons.prems Cons.IH [of w "Suc k" count failed] show ?thesis by simp
  next
    case True
    obtain err w1 where d: "Tokens_Delete srv (om_Namespace (t_meta t)) (om_Name (t_meta t)) w = (err, w1)" by fastforce
    note step = token_delete_step [OF Cons.prems(1) _ d]
    have named: "token_named t" "\<forall>t \<in> set ts. token_named t" using Cons.prems(2) by simp_all
    show ?thesis
    proof (cases "err = None \<or> IsNotFound err")
      case ok: True
      have "purge_loop srv seconds now (Suc k) ts (count + 1) failed w1 = (count', failed', w')"
        using Cons.prems(3) True d ok by auto
      from Cons.IH [OF step(1) [OF named(1)] named(2) this] obtain gone names where g:
        "inv w'" "set gone \<subseteq> set (expired_tokens seconds now (Suc k) ts)" "count' = count + 1 + length gone"
        "stored w' = without (token_key ` set gone) (stored w1)"
        "failed' = failed @ names" "length names + length gone = length (expired_tokens seconds now (Suc k) ts)"
        "names = [] \<longrightarrow> gone = expired_tokens seconds now (Suc k) ts" by blast
      show ?thesis
        by (intro conjI exI [of _ "t # gone"] exI [of _ names]) (use g step(2) [OF named(1) ok] True in auto)
    next
      case bad: False
      have "purge_loop srv seconds now (Suc k) ts count (failed @ [om_Name (t_meta t)]) w1 = (count', failed', w')"
        using Cons.prems(3) True d bad by auto
      from Cons.IH [OF step(1) [OF named(1)] named(2) this] obtain gone names where g:
        "inv w'" "set gone \<subseteq> set (expired_tokens seconds now (Suc k) ts)" "count' = count + length gone"
        "stored w' = without (token_key ` set gone) (stored w1)"
        "failed' = failed @ [om_Name (t_meta t)] @ names"
        "length names + length gone = length (expired_tokens seconds now (Suc k) ts)" by auto
      show ?thesis
        by (intro conjI exI [of _ gone] exI [of _ "om_Name (t_meta t) # names"]) (use g step(3) [OF named(1) bad] True in auto)
    qed
  qed
qed

end

lemma tracker_token_delete:
  assumes "tracker_ok w" "token_named t"
    and "Tokens_Delete ObjectReaction (om_Namespace (t_meta t)) (om_Name (t_meta t)) w = (err, w')"
  shows "err = None \<or> IsNotFound err"
  using assms(1,3) unfolding token_named_request [OF assms(2)]
  by (auto simp: tracker_Delete_stored go_err split: if_splits)

lemma tracker_purge_complete:
  assumes "tracker_ok w" "\<forall>t \<in> set ts. token_named t"
    and "purge_loop ObjectReaction seconds now k ts count failed w = (count', failed', w')"
  shows "failed' = failed"
  using assms
proof (induction ts arbitrary: k count w)
  case (Cons t ts)
  show ?case
  proof (cases "IsExpired seconds (now k) t")
    case True
    obtain err w1 where d: "Tokens_Delete ObjectReaction (om_Namespace (t_meta t)) (om_Name (t_meta t)) w = (err, w1)" by fastforce
    have t: "token_named t" using Cons.prems(2) by simp
    have "purge_loop ObjectReaction seconds now (Suc k) ts (count + 1) failed w1 = (count', failed', w')"
      using Cons.prems(3) True d tracker_token_delete [OF Cons.prems(1) t d] by auto
    then show ?thesis using Cons.IH [OF tr.token_delete_step(1) [OF Cons.prems(1) t d]] Cons.prems(2) by simp
  qed (use Cons in simp)
qed simp

text \<open>
  C38. A purge deletes exactly the cached tokens that are expired at the moment they are looked at, in
  all namespaces, and no other object; a token that is gone already does no harm, and all of them are
  counted.
\<close>

theorem purge_deletes_expired:
  assumes "tracker_ok w" "list_all (\<lambda>x. as_token x \<noteq> None) (tsm_List cache)"
    and "tokens = List.map_filter as_token (tsm_List cache)" "\<forall>t \<in> set tokens. token_named t"
  shows "\<exists>w'. purge ObjectReaction seconds now cache w = Return (length (expired_tokens seconds now 0 tokens), [], w')
    \<and> tracker_ok w'
    \<and> tracker_stored w' = without (token_key ` set (expired_tokens seconds now 0 tokens)) (tracker_stored w)"
proof -
  obtain count failed w' where run: "purge_loop ObjectReaction seconds now 0 tokens 0 [] w = (count, failed, w')"
    by (cases "purge_loop ObjectReaction seconds now 0 tokens 0 [] w")
  have "failed = []" by (rule tracker_purge_complete [OF assms(1,4) run])
  with tr.purge_loop_confined [OF assms(1,4) run] have
    "tracker_ok w' \<and> count = length (expired_tokens seconds now 0 tokens)
     \<and> tracker_stored w' = without (token_key ` set (expired_tokens seconds now 0 tokens)) (tracker_stored w)"
    by auto
  moreover have "purge ObjectReaction seconds now cache w = Return (count, failed, w')"
    using run assms(3) by (simp add: purge_def lister_List_all_def assert_all_ok [OF assms(2)])
  ultimately show ?thesis using \<open>failed = []\<close> by blast
qed

section \<open>A start installs everything\<close>

definition deploy_crds :: "crd list \<Rightarrow> tracker \<Rightarrow> tracker" where
  "deploy_crds cs w = fold (\<lambda>c w. snd (crd_deploy ObjectReaction c w)) cs w"

definition crd_keys :: "crd list \<Rightarrow> (resource \<times> string \<times> string) set" where
  "crd_keys cs = (\<lambda>c. (RCustomResourceDefinitions, [], om_Name (crd_meta c))) ` set cs"

text \<open>What is there stays, and only the given keys may be filled.\<close>

definition grows :: "(resource \<times> string \<times> string) set \<Rightarrow> tracker \<Rightarrow> tracker \<Rightarrow> bool" where
  "grows K w w' \<longleftrightarrow> tracker_ok w' \<and> same_outside K (tracker_stored w) (tracker_stored w')
     \<and> (\<forall>r m n y. tracker_stored w r m n = Some y \<longrightarrow> tracker_stored w' r m n = Some y)"

lemma grows_trans: "grows K w w' \<Longrightarrow> grows L w' w'' \<Longrightarrow> grows (K \<union> L) w w''"
  by (auto simp: grows_def same_outside_def)

lemma grows_refl: "tracker_ok w \<Longrightarrow> grows K w w"
  by (simp add: grows_def)

definition filled :: "(resource \<times> string \<times> string) set \<Rightarrow> tracker \<Rightarrow> bool" where
  "filled K w \<longleftrightarrow> (\<forall>(r, m, n) \<in> K. tracker_stored w r m n \<noteq> None)"

lemma grows_single:
  assumes "tracker_ok w'" "same_outside {(r0, m0, n0)} (tracker_stored w) (tracker_stored w')"
    and "tracker_stored w' r0 m0 n0 = Some z" "tracker_stored w r0 m0 n0 \<in> {None, Some z}"
  shows "grows {(r0, m0, n0)} w w'"
proof -
  have "tracker_stored w' r m n = Some y" if "tracker_stored w r m n = Some y" for r m n y
    using assms(2-4) that by (cases "(r, m, n) = (r0, m0, n0)") (auto simp: same_outside_def)
  with assms(1,2) show ?thesis by (simp add: grows_def)
qed

lemma filled_grows: "filled K w \<Longrightarrow> grows L w w' \<Longrightarrow> filled K w'"
  by (fastforce simp: filled_def grows_def)

lemma filled_Un: "filled (K \<union> L) w \<longleftrightarrow> filled K w \<and> filled L w"
  by (simp add: filled_def ball_Un)

lemma deploy_crds_installs:
  "tracker_ok w \<Longrightarrow> list_all crd_ok cs \<Longrightarrow>
     grows (crd_keys cs) w (deploy_crds cs w) \<and> filled (crd_keys cs) (deploy_crds cs w)"
proof (induction cs arbitrary: w)
  case Nil
  then show ?case by (simp add: deploy_crds_def crd_keys_def filled_def grows_refl)
next
  case (Cons c cs)
  obtain w1 where w1: "crd_deploy ObjectReaction c w = (None, w1)" "tracker_ok w1"
    "tracker_stored w1 RCustomResourceDefinitions [] (om_Name (crd_meta c)) \<noteq> None"
    "same_outside {(RCustomResourceDefinitions, [], om_Name (crd_meta c))} (tracker_stored w) (tracker_stored w1)"
    "\<forall>r m n y. tracker_stored w r m n = Some y \<longrightarrow> tracker_stored w1 r m n = Some y"
    using crd_deploy_tracker [OF Cons.prems(1), of c] Cons.prems(2) by auto
  then have first: "grows (crd_keys [c]) w w1" "filled (crd_keys [c]) w1"
    by (simp_all add: grows_def crd_keys_def filled_def)
  have rest: "grows (crd_keys cs) w1 (deploy_crds cs w1)" "filled (crd_keys cs) (deploy_crds cs w1)"
    using Cons.IH [OF w1(2)] Cons.prems(2) by simp_all
  have "deploy_crds (c # cs) w = deploy_crds cs w1" by (simp add: deploy_crds_def w1(1))
  moreover have "crd_keys (c # cs) = crd_keys [c] \<union> crd_keys cs" by (auto simp: crd_keys_def)
  ultimately show ?case
    using grows_trans [OF first(1) rest(1)] filled_grows [OF first(2) rest(1)] rest(2) by (simp add: filled_Un)
qed

lemma deploy_crds_again:
  "tracker_ok w \<Longrightarrow> list_all crd_ok cs \<Longrightarrow> filled (crd_keys cs) w \<Longrightarrow> deploy_crds cs w = w"
  by (induction cs) (auto simp: deploy_crds_def crd_keys_def filled_def crd_create_tracker(2))

definition start_keys :: "(resource \<times> string \<times> string) set" where
  "start_keys = user_start_objects \<union> crd_keys all_crds \<union> {(RConfigMaps, DashboardNamespace, ConfigMapName)}"

abbreviation late_crds :: "crd list" where
  "late_crds \<equiv> infrastructure_crd # longhorn_crds @ ranchervm_crds"

lemma start_keys_split:
  "start_keys = user_start_objects \<union> (crd_keys late_crds \<union> {(RConfigMaps, DashboardNamespace, ConfigMapName)})"
  by (auto simp: start_keys_def crd_keys_def all_crds_def cube_crds_def user_start_objects_def cube_crd_names)

lemma late_crds_ok: "list_all crd_ok late_crds"
  using crds_consistent by (simp add: all_crds_def cube_crds_def)

lemma deploy_resources_steps:
  "deploy_resources ObjectReaction bcrypt st =
     bind_outcome (UserCRDDeploy ObjectReaction bcrypt (ib_world st)) (\<lambda>(_, w1).
       Return (snd (ConfigMapDeploy ObjectReaction (st\<lparr>ib_world := deploy_crds late_crds w1\<rparr>))))"
  by (simp add: deploy_resources_def deploy_crds_def longhorn_crds_def ranchervm_crds_def crd_deploy_defs Let_def)

lemma ConfigMapDeploy_sel:
  "ib_configMap (snd (ConfigMapDeploy srv st)) = ib_configMap st"
  by (simp add: ConfigMapDeploy_def Let_def split: prod.split)

lemma deploy_resources_installs:
  assumes "tracker_ok (ib_world st)" "bcrypt ''admin'' = Inr h" "ib_configMap st = None"
    and "tracker_stored (ib_world st) RConfigMaps DashboardNamespace ConfigMapName \<in> {None, Some (ObjConfigMap cube_config_map)}"
  obtains st' where "deploy_resources ObjectReaction bcrypt st = Return st'" "infra_backend_ok st'"
    "grows start_keys (ib_world st) (ib_world st')" "filled start_keys (ib_world st')"
    "tracker_stored (ib_world st') RConfigMaps DashboardNamespace ConfigMapName = Some (ObjConfigMap cube_config_map)"
    "tracker_stored (ib_world st) RUsers ''kube-system'' ''cube-admin'' = None \<longrightarrow>
        tracker_stored (ib_world st') RUsers ''kube-system'' ''cube-admin'' = Some (ObjUser (cube_admin h))"
proof -
  obtain w1 where w1: "UserCRDDeploy ObjectReaction bcrypt (ib_world st) = Return (None, w1)" "tracker_ok w1"
    "\<forall>(r, ns, n) \<in> user_start_objects. tracker_stored w1 r ns n \<noteq> None"
    "same_outside user_start_objects (tracker_stored (ib_world st)) (tracker_stored w1)"
    "\<forall>r ns n y. tracker_stored (ib_world st) r ns n = Some y \<longrightarrow> tracker_stored w1 r ns n = Some y"
    "tracker_stored (ib_world st) RUsers ''kube-system'' ''cube-admin'' = None \<longrightarrow>
       tracker_stored w1 RUsers ''kube-system'' ''cube-admin'' = Some (ObjUser (cube_admin h))"
    by (rule UserCRDDeploy_installs [where bcrypt = bcrypt, OF assms(1,2)])
  then have g1: "grows user_start_objects (ib_world st) w1" "filled user_start_objects w1"
    by (simp_all add: grows_def filled_def)
  let ?w2 = "deploy_crds late_crds w1" and ?cm = "{(RConfigMaps, DashboardNamespace, ConfigMapName)}"
  have g2: "grows (crd_keys late_crds) w1 ?w2" "filled (crd_keys late_crds) ?w2"
    using deploy_crds_installs [OF w1(2) late_crds_ok] by blast+
  let ?st1 = "st\<lparr>ib_world := ?w2\<rparr>"
  have ok: "tracker_ok (ib_world ?st1)" "ib_configMap ?st1 = None"
    using g2(1) assms(3) by (simp_all add: grows_def)
  have cm: "tracker_stored (ib_world ?st1) RConfigMaps DashboardNamespace ConfigMapName \<in> {None, Some (ObjConfigMap cube_config_map)}"
  proof -
    have "(RConfigMaps, DashboardNamespace, ConfigMapName) \<notin> crd_keys late_crds \<union> user_start_objects"
      by (auto simp: crd_keys_def user_start_objects_def)
    then show ?thesis using assms(4) g1(1) g2(1) by (simp add: grows_def same_outside_def)
  qed
  obtain st' where st': "ConfigMapDeploy ObjectReaction ?st1 = ((Some cube_config_map, None), st')" "infra_backend_ok st'"
    "same_outside ?cm (tracker_stored (ib_world ?st1)) (tracker_stored (ib_world st'))"
    by (rule ConfigMapDeploy_ok [OF ok cm])
  have none: "ib_configMap st' = None" using ConfigMapDeploy_sel [of ObjectReaction ?st1] st'(1) ok(2) by simp
  then have own: "tracker_stored (ib_world st') RConfigMaps DashboardNamespace ConfigMapName = Some (ObjConfigMap cube_config_map)"
    using st'(2) by (simp add: infra_backend_ok_def)
  have ok': "tracker_ok (ib_world st')" using st'(2) by (simp add: infra_backend_ok_def)
  have g3: "grows ?cm ?w2 (ib_world st')" "filled ?cm (ib_world st')"
    using grows_single [OF ok' st'(3) own] cm own by (simp_all add: filled_def)
  have all: "grows start_keys (ib_world st) (ib_world st')" "filled start_keys (ib_world st')"
    unfolding start_keys_split using grows_trans [OF g1(1) grows_trans [OF g2(1) g3(1)]]
      filled_grows [OF g1(2) grows_trans [OF g2(1) g3(1)]] filled_grows [OF g2(2) g3(1)] g3(2)
    by (simp_all only: filled_Un)
  have run: "deploy_resources ObjectReaction bcrypt st = Return st'"
    by (simp add: deploy_resources_steps w1(1) st'(1))
  have admin: "tracker_stored (ib_world st') RUsers ''kube-system'' ''cube-admin'' = Some (ObjUser (cube_admin h))"
    if "tracker_stored (ib_world st) RUsers ''kube-system'' ''cube-admin'' = None"
    using w1(6) that g2(1) g3(1) by (simp add: grows_def)
  from run st'(2) all own show thesis by (rule that) (use admin in blast)
qed

text \<open>
  C39. The start of the server is complete and can be repeated.  On every cluster whose config map of
  this name is missing or is the server's own, it registers all twelve kinds, the administrator and the
  config map, after which the infrastructures are ready for use; it writes nothing else and overwrites
  nothing.  A second start, with another hash of the password, leaves the cluster as it is.
\<close>

theorem start_installs:
  assumes "tracker_ok (ib_world st)" "bcrypt ''admin'' = Inr h" "bcrypt' ''admin'' = Inr h'"
    and "ib_configMap st = None" "ib_configMap st2 = None"
    and "tracker_stored (ib_world st) RConfigMaps DashboardNamespace ConfigMapName \<in> {None, Some (ObjConfigMap cube_config_map)}"
  shows "\<exists>st'. deploy_resources ObjectReaction bcrypt st = Return st' \<and> infra_backend_ok st'
    \<and> grows start_keys (ib_world st) (ib_world st') \<and> filled start_keys (ib_world st')
    \<and> (tracker_stored (ib_world st) RUsers ''kube-system'' ''cube-admin'' = None \<longrightarrow>
        tracker_stored (ib_world st') RUsers ''kube-system'' ''cube-admin'' = Some (ObjUser (cube_admin h)))
    \<and> (ib_world st2 = ib_world st' \<longrightarrow>
        (\<exists>st3. deploy_resources ObjectReaction bcrypt' st2 = Return st3 \<and> infra_backend_ok st3 \<and> ib_world st3 = ib_world st'))"
proof -
  obtain st' where st': "deploy_resources ObjectReaction bcrypt st = Return st'" "infra_backend_ok st'"
    "grows start_keys (ib_world st) (ib_world st')" "filled start_keys (ib_world st')"
    and own: "tracker_stored (ib_world st') RConfigMaps DashboardNamespace ConfigMapName = Some (ObjConfigMap cube_config_map)"
    and admin: "tracker_stored (ib_world st) RUsers ''kube-system'' ''cube-admin'' = None \<longrightarrow>
        tracker_stored (ib_world st') RUsers ''kube-system'' ''cube-admin'' = Some (ObjUser (cube_admin h))"
    by (rule deploy_resources_installs [where bcrypt = bcrypt, OF assms(1,2,4,6)])
  have ok': "tracker_ok (ib_world st')" using st'(2) by (simp add: infra_backend_ok_def)
  have again: "\<exists>st3. deploy_resources ObjectReaction bcrypt' st2 = Return st3 \<and> infra_backend_ok st3 \<and> ib_world st3 = ib_world st'"
    if w: "ib_world st2 = ib_world st'"
  proof -
    have parts: "filled user_start_objects (ib_world st')" "filled (crd_keys late_crds) (ib_world st')"
      using st'(4) unfolding start_keys_split filled_Un by simp_all
    have same: "UserCRDDeploy ObjectReaction bcrypt' (ib_world st2) = Return (None, ib_world st')"
      unfolding w by (rule UserCRDDeploy_again [where bcrypt = bcrypt', OF ok' assms(3) parts(1) [unfolded filled_def]])
    have "deploy_crds late_crds (ib_world st') = ib_world st'"
      by (rule deploy_crds_again [OF ok' late_crds_ok parts(2)])
    then have "deploy_resources ObjectReaction bcrypt' st2 = Return (st2\<lparr>ib_world := ib_world st', ib_Infrastructures := Some initInfrastructures\<rparr>)"
      using ConfigMapDeploy_present [of "st2\<lparr>ib_world := ib_world st'\<rparr>"] ok' own by (simp add: deploy_resources_steps same)
    moreover have "infra_backend_ok (st2\<lparr>ib_world := ib_world st', ib_Infrastructures := Some initInfrastructures\<rparr>)"
      using ok' own assms(5) by (simp add: infra_backend_ok_def)
    ultimately show ?thesis by auto
  qed
  show ?thesis
    by (rule exI [of _ st'], intro conjI) (fact st' admin | rule impI, erule again)+
qed

section \<open>What the configuration decides\<close>

text \<open>A value of the custom file wins exactly where it is not empty; a second merge changes nothing.\<close>

lemma buildConfig_wins:
  "cc_KubeConfig (buildConfig a b) = set_image (cc_KubeConfig b) (cc_KubeConfig a)"
  "im_Dashboard (cc_InfraImages (buildConfig a b)) = set_image (im_Dashboard (cc_InfraImages b)) (im_Dashboard (cc_InfraImages a))"
  "im_RancherVMFrontend (cc_InfraImages (buildConfig a b)) =
     set_image (im_RancherVMFrontend (cc_InfraImages b)) (im_RancherVMFrontend (cc_InfraImages a))"
  by (simp_all add: buildConfig_def set_image_def Let_def)

lemma buildConfig_again: "buildConfig (buildConfig a b) b = buildConfig a b"
  by (cases a; cases b) (simp add: buildConfig_def set_image_def Let_def)

lemma start_config_complete:
  "start_config env filePath listenAddr = Inr config \<Longrightarrow> listenAddr \<noteq> [] \<and> cc_KubeConfig config \<noteq> []"
  by (auto simp: start_config_def split: sum.splits if_splits)

section \<open>Examples\<close>

definition old_token :: "string \<Rightarrow> int64 \<Rightarrow> token" where
  "old_token n ttl = zero_token\<lparr>t_meta := zero_meta\<lparr>om_Name := n, om_Namespace := ''kube-system''\<rparr>, t_TTLMillis := ttl\<rparr>"

lemma old_token_sel [simp]: "om_Name (t_meta (old_token n ttl)) = n" "om_Namespace (t_meta (old_token n ttl)) = ''kube-system''"
    "t_TTLMillis (old_token n ttl) = ttl" "om_CreationTimestamp (t_meta (old_token n ttl)) = 0"
  by (simp_all add: old_token_def)

lemma old_token_expired:
  "IsExpired exact_seconds 2000000000 (old_token n 1000)" "\<not> IsExpired exact_seconds 2000000000 (old_token n 0)"
proof -
  show "IsExpired exact_seconds 2000000000 (old_token n 1000)"
    using IsExpired_in_range [of "old_token n 1000" 2000000000 2000000000 exact_seconds]
    by (simp add: exact_seconds_def)
  show "\<not> IsExpired exact_seconds 2000000000 (old_token n 0)" by (rule IsExpired_zero) simp
qed

theorem purge_deletes_expired_witness:
  "\<exists>w'. purge ObjectReaction exact_seconds (\<lambda>_. 2000000000)
      (informer_with [] [ObjToken (old_token ''a'' 1000), ObjToken (old_token ''b'' 0)])
      (tracker_with [ObjToken (old_token ''a'' 1000), ObjToken (old_token ''b'' 0)]) = Return (1, [], w')
    \<and> tracker_stored w' RTokens ''kube-system'' ''a'' = None
    \<and> tracker_stored w' RTokens ''kube-system'' ''b'' = Some (ObjToken (old_token ''b'' 0))"
proof -
  let ?xs = "[ObjToken (old_token ''a'' 1000), ObjToken (old_token ''b'' 0)]"
  let ?ts = "[old_token ''a'' 1000, old_token ''b'' 0]"
  have w: "tracker_ok (tracker_with ?xs)" by (rule tracker_with_ok) (simp_all add: obj_key_def)
  have items: "tsm_List (informer_with [] ?xs) = ?xs"
    by (simp add: tsm_List_def informer_plain MetaNamespaceKeyFunc_def)
  have ex: "expired_tokens exact_seconds (\<lambda>_. 2000000000) 0 ?ts = [old_token ''a'' 1000]"
    by (simp add: old_token_expired)
  have "?ts = List.map_filter as_token (tsm_List (informer_with [] ?xs))" unfolding items by (simp add: map_filter_simps)
  moreover have "list_all (\<lambda>x. as_token x \<noteq> None) (tsm_List (informer_with [] ?xs))" unfolding items by simp
  moreover have "\<forall>t \<in> set ?ts. token_named t" by (simp add: token_named_def path_segment_ok_def)
  ultimately show ?thesis
    using purge_deletes_expired [OF w, of "informer_with [] ?xs" ?ts exact_seconds "\<lambda>_. 2000000000"] unfolding ex
    by (auto simp: without_def token_key_def tracker_with_stored same_key_def)
qed

definition process_start :: "tracker \<Rightarrow> tracker infra_backend" where
  "process_start w = \<lparr>ib_world = w, ib_configMap = None, ib_Infrastructures = None, ib_Service = None, ib_status = [], ib_state = []\<rparr>"

theorem start_installs_witness:
  "\<exists>st' st3. deploy_resources ObjectReaction Inr (process_start NewObjectTracker) = Return st' \<and> infra_backend_ok st'
    \<and> tracker_stored (ib_world st') RUsers ''kube-system'' ''cube-admin'' = Some (ObjUser (cube_admin ''admin''))
    \<and> deploy_resources ObjectReaction (\<lambda>p. Inr (p @ p)) (process_start (ib_world st')) = Return st3 \<and> ib_world st3 = ib_world st'"
proof -
  have new: "tracker_ok (ib_world (process_start NewObjectTracker))" "\<And>r m n. tracker_stored (ib_world (process_start NewObjectTracker)) r m n = None"
    by (simp_all add: process_start_def tracker_ok_def tracker_stored_def NewObjectTracker_def)
  have none: "ib_configMap (process_start w) = None" "ib_world (process_start w) = w" for w by (simp_all add: process_start_def)
  have again: "(\<lambda>p. Inr (p @ p) :: go_error + string) ''admin'' = Inr ''adminadmin''" by simp
  have first: "(Inr :: string \<Rightarrow> go_error + string) ''admin'' = Inr ''admin''" by simp
  from start_installs [where bcrypt = Inr and bcrypt' = "\<lambda>p. Inr (p @ p)", OF new(1) first again none(1)]
  obtain st' where st': "deploy_resources ObjectReaction Inr (process_start NewObjectTracker) = Return st'" "infra_backend_ok st'"
    "tracker_stored (ib_world st') RUsers ''kube-system'' ''cube-admin'' = Some (ObjUser (cube_admin ''admin''))"
    using new(2) none by blast
  from start_installs [where bcrypt = Inr and bcrypt' = "\<lambda>p. Inr (p @ p)" and ?st2.0 = "process_start (ib_world st')",
      OF new(1) first again none(1) none(1)] new(2) st'(1) none(2)
  obtain st3 where "deploy_resources ObjectReaction (\<lambda>p. Inr (p @ p)) (process_start (ib_world st')) = Return st3" "ib_world st3 = ib_world st'"
    by auto
  with st' show ?thesis by blast
qed

end
