(* ===== verification/Cube_Secret.thy ===== *)
theory Cube_Secret
  imports Cube_Tracker Cube_Common
begin

text \<open>
  The RSA key pair that signs and checks session tokens: \<open>backend/secret.go\<close>, the key files of
  \<open>util/util.go\<close> and \<open>generateRSAKey\<close> of \<open>api/router.go\<close>.  The pair lives in a secret of the
  cluster; when there is none, in two files; when there are none, it is made.

  Making, encoding and reading keys are operations of Go's \<open>crypto\<close> packages and of \<open>jwt-go\<close>,
  gathered in the record \<open>rsa_lib\<close>; \<open>faults\<close> says which operation on the file system fails, and how many
  bytes a write that fails has written by then.
\<close>

section \<open>Files\<close>

record file_system =
  fs_files :: string_map
  fs_dirs :: "string set"

datatype fs_op = MkdirAllOp string | OpenOp string | WriteOp string | ReadOp string | RemoveOp string

record faults =
  ft_error :: "fs_op \<Rightarrow> go_error option"
  ft_written :: "string \<Rightarrow> nat"

definition os_exists :: "string \<Rightarrow> file_system \<Rightarrow> bool" where
  "os_exists path fs \<longleftrightarrow> map_of (fs_files fs) path \<noteq> None \<or> path \<in> fs_dirs fs"

definition os_MkdirAll :: "faults \<Rightarrow> string \<Rightarrow> file_system \<Rightarrow> go_error option \<times> file_system" where
  "os_MkdirAll faults path fs =
     (case ft_error faults (MkdirAllOp path) of Some e \<Rightarrow> (Some e, fs) | None \<Rightarrow> (None, fs\<lparr>fs_dirs := insert path (fs_dirs fs)\<rparr>))"

definition os_Remove :: "faults \<Rightarrow> string \<Rightarrow> file_system \<Rightarrow> go_error option \<times> file_system" where
  "os_Remove faults path fs =
     (case ft_error faults (RemoveOp path) of
        Some e \<Rightarrow> (Some e, fs)
      | None \<Rightarrow> (if map_of (fs_files fs) path = None then (Some (Errorf ''no such file or directory'' [path]), fs)
                 else (None, fs\<lparr>fs_files := filter (\<lambda>(p, _). p \<noteq> path) (fs_files fs)\<rparr>)))"

text \<open>\<open>ioutil.WriteFile\<close> empties the file when it opens it; what is written before an error stays.\<close>

definition WriteKeyToFile :: "faults \<Rightarrow> string \<Rightarrow> string \<Rightarrow> file_system \<Rightarrow> go_error option \<times> file_system" where
  "WriteKeyToFile faults keyBytes path fs =
     (case ft_error faults (OpenOp path) of
        Some e \<Rightarrow> (Some e, fs)
      | None \<Rightarrow>
          (case ft_error faults (WriteOp path) of
             Some e \<Rightarrow> (Some e, fs\<lparr>fs_files := (path, take (ft_written faults path) keyBytes) # fs_files fs\<rparr>)
           | None \<Rightarrow> (None, fs\<lparr>fs_files := (path, keyBytes) # fs_files fs\<rparr>)))"

definition os_ReadFile :: "faults \<Rightarrow> string \<Rightarrow> file_system \<Rightarrow> go_error + string" where
  "os_ReadFile faults path fs =
     (case ft_error faults (ReadOp path) of
        Some e \<Rightarrow> Inl e
      | None \<Rightarrow> (case map_of (fs_files fs) path of
          None \<Rightarrow> Inl (Errorf ''no such file or directory'' [path]) | Some s \<Rightarrow> Inr s))"

section \<open>Making the keys\<close>

record ('k, 'p) rsa_lib =
  rl_GenerateKey :: "nat \<Rightarrow> go_error + 'k"
  rl_Validate :: "'k \<Rightarrow> go_error option"
  rl_Public :: "'k \<Rightarrow> 'p"
  rl_MarshalPKCS1PrivateKey :: "'k \<Rightarrow> string"
  rl_MarshalPKIXPublicKey :: "'p \<Rightarrow> go_error + string"
  rl_EncodeToMemory :: "string \<Rightarrow> string \<Rightarrow> string"
  rl_ParseRSAPrivateKeyFromPEM :: "string \<Rightarrow> go_error + 'k"
  rl_ParseRSAPublicKeyFromPEM :: "string \<Rightarrow> go_error + 'p"

definition RsaDirectory :: string where "RsaDirectory = ''/var/lib/rancher/cube''"
definition RsaBitSize :: nat where "RsaBitSize = 4096"
definition PrivateKeyPath :: string where "PrivateKeyPath = RsaDirectory @ ''/id_rsa''"
definition PublicKeyPath :: string where "PublicKeyPath = RsaDirectory @ ''/id_rsa.pub''"
definition SecretName :: string where "SecretName = ''cube-rancher-token''"
definition PrivateKey :: string where "PrivateKey = ''privateKey''"
definition PublicKey :: string where "PublicKey = ''publicKey''"

lemmas secret_constants = RsaDirectory_def RsaBitSize_def PrivateKeyPath_def PublicKeyPath_def SecretName_def
  PrivateKey_def PublicKey_def

definition GeneratePrivateKey :: "('k, 'p) rsa_lib \<Rightarrow> go_error + 'k" where
  "GeneratePrivateKey lib =
     (case rl_GenerateKey lib RsaBitSize of
        Inl e \<Rightarrow> Inl e
      | Inr privateKey \<Rightarrow> (case rl_Validate lib privateKey of Some e \<Rightarrow> Inl e | None \<Rightarrow> Inr privateKey))"

definition PrivateKeyToPEM :: "('k, 'p) rsa_lib \<Rightarrow> 'k \<Rightarrow> string" where
  "PrivateKeyToPEM lib k = rl_EncodeToMemory lib ''RSA PRIVATE KEY'' (rl_MarshalPKCS1PrivateKey lib k)"

definition GeneratePublicKey :: "('k, 'p) rsa_lib \<Rightarrow> 'k \<Rightarrow> go_error + string" where
  "GeneratePublicKey lib k =
     (case rl_MarshalPKIXPublicKey lib (rl_Public lib k) of
        Inl e \<Rightarrow> Inl e | Inr der \<Rightarrow> Inr (rl_EncodeToMemory lib ''RSA PUBLIC KEY'' der))"

text \<open>A private key file alone is removed; the removal of the missing public one fails, unnoticed.\<close>

definition CheckRSAKeyFileExist :: "faults \<Rightarrow> file_system \<Rightarrow> bool \<times> file_system" where
  "CheckRSAKeyFileExist faults fs =
     (if os_exists PrivateKeyPath fs then
        (if os_exists PublicKeyPath fs then (True, fs)
         else (case os_Remove faults PublicKeyPath fs of (_, fs1) \<Rightarrow>
                 (case os_Remove faults PrivateKeyPath fs1 of (_, fs2) \<Rightarrow> (False, fs2))))
      else (False, fs))"

definition GenerateRSA256 :: "('k, 'p) rsa_lib \<Rightarrow> faults \<Rightarrow> file_system \<Rightarrow> go_error option \<times> file_system" where
  "GenerateRSA256 lib faults fs =
     (case (if os_exists RsaDirectory fs then (None, fs) else os_MkdirAll faults RsaDirectory fs) of
        (Some e, fs1) \<Rightarrow> (Some e, fs1)
      | (None, fs1) \<Rightarrow>
          (case CheckRSAKeyFileExist faults fs1 of
             (True, fs2) \<Rightarrow> (None, fs2)
           | (False, fs2) \<Rightarrow>
               (case GeneratePrivateKey lib of
                  Inl e \<Rightarrow> (Some e, fs2)
                | Inr privateKey \<Rightarrow>
                    (case GeneratePublicKey lib privateKey of
                       Inl e \<Rightarrow> (Some e, fs2)
                     | Inr publicKeyBytes \<Rightarrow>
                         (case WriteKeyToFile faults (PrivateKeyToPEM lib privateKey) PrivateKeyPath fs2 of
                            (Some e, fs3) \<Rightarrow> (Some e, fs3)
                          | (None, fs3) \<Rightarrow> WriteKeyToFile faults publicKeyBytes PublicKeyPath fs3)))))"

definition readRSAKey :: "faults \<Rightarrow> file_system \<Rightarrow> go_error + string \<times> string" where
  "readRSAKey faults fs =
     (case os_ReadFile faults PrivateKeyPath fs of
        Inl e \<Rightarrow> Inl e
      | Inr signBytes \<Rightarrow>
          (case os_ReadFile faults PublicKeyPath fs of Inl e \<Rightarrow> Inl e | Inr verifyBytes \<Rightarrow> Inr (signBytes, verifyBytes)))"

section \<open>The secret\<close>

fun as_secret :: "k8s_obj \<Rightarrow> secret option" where
  "as_secret (ObjSecret x) = Some x" | "as_secret _ = None"

definition zero_secret :: secret where
  "zero_secret = \<lparr>se_meta = zero_meta, se_Type = [], se_Data = []\<rparr>"

definition SecretGet :: "'w api_server \<Rightarrow> string \<Rightarrow> string \<Rightarrow> 'w \<Rightarrow> (secret \<times> go_error option) \<times> 'w" where
  "SecretGet srv ns i w = into zero_secret as_secret (client_get srv RSecrets ns i w)"

definition Secrets_Create :: "'w api_server \<Rightarrow> string \<Rightarrow> secret \<Rightarrow> 'w \<Rightarrow> (secret \<times> go_error option) \<times> 'w" where
  "Secrets_Create srv ns x w = into zero_secret as_secret (client_create srv RSecrets ns (ObjSecret x) w)"

definition data_of :: "secret \<Rightarrow> string \<Rightarrow> string" where
  "data_of s k = (case map_of (se_Data s) k of None \<Rightarrow> [] | Some v \<Rightarrow> v)"

text \<open>A key that cannot be read ends the program; a secret that is being deleted gives two nil keys.\<close>

definition ParseRSAKey :: "('k, 'p) rsa_lib \<Rightarrow> secret \<Rightarrow> ('k option \<times> 'p option) outcome" where
  "ParseRSAKey lib s =
     (if om_DeletionTimestamp (se_meta s) = None then
        (case rl_ParseRSAPrivateKeyFromPEM lib (data_of s PrivateKey) of
           Inl _ \<Rightarrow> Panic ''exit status 1''
         | Inr k \<Rightarrow>
             (case rl_ParseRSAPublicKeyFromPEM lib (data_of s PublicKey) of
                Inl _ \<Rightarrow> Panic ''exit status 1'' | Inr p \<Rightarrow> Return (Some k, Some p)))
      else Return (None, None))"

definition key_secret :: "string \<Rightarrow> string \<Rightarrow> secret" where
  "key_secret privateKey publicKey =
     \<lparr>se_meta = zero_meta\<lparr>om_Name := SecretName, om_Namespace := UserNamespace\<rparr>, se_Type = ''Opaque'',
      se_Data = [(PrivateKey, privateKey), (PublicKey, publicKey)]\<rparr>"

definition GetRSAKey ::
    "'w api_server \<Rightarrow> ('k, 'p) rsa_lib \<Rightarrow> faults \<Rightarrow> file_system \<times> 'w
       \<Rightarrow> (('k option \<times> 'p option \<times> go_error option) \<times> file_system \<times> 'w) outcome" where
  "GetRSAKey srv lib faults st =
     (case st of (fs, w) \<Rightarrow>
        (case SecretGet srv UserNamespace SecretName w of
           ((secret, None), w1) \<Rightarrow>
             bind_outcome (ParseRSAKey lib secret) (\<lambda>(k, p). Return ((k, p, None), fs, w1))
         | ((_, Some err), w1) \<Rightarrow>
             if \<not> IsNotFound (Some err) then Return ((None, None, Some err), fs, w1)
             else
               (case GenerateRSA256 lib faults fs of
                  (Some e, fs1) \<Rightarrow> Return ((None, None, Some e), fs1, w1)
                | (None, fs1) \<Rightarrow>
                    (case readRSAKey faults fs1 of
                       Inl e \<Rightarrow> Return ((None, None, Some e), fs1, w1)
                     | Inr (privateKey, publicKey) \<Rightarrow>
                         (case Secrets_Create srv UserNamespace (key_secret privateKey publicKey) w1 of
                            ((_, Some e), w2) \<Rightarrow> Return ((None, None, Some e), fs1, w2)
                          | ((secret1, None), w2) \<Rightarrow>
                              bind_outcome (ParseRSAKey lib secret1) (\<lambda>(k, p). Return ((k, p, None), fs1, w2)))))))"

text \<open>\<open>api/router.go\<close>: without the keys there is no server.\<close>

definition generateRSAKey ::
    "'w api_server \<Rightarrow> ('k, 'p) rsa_lib \<Rightarrow> faults \<Rightarrow> file_system \<times> 'w \<Rightarrow> (('k option \<times> 'p option) \<times> file_system \<times> 'w) outcome" where
  "generateRSAKey srv lib faults st =
     bind_outcome (GetRSAKey srv lib faults st) (\<lambda>((k, p, err), st1).
       if err \<noteq> None then Panic ''exit status 1'' else Return ((k, p), st1))"

section \<open>The keys survive\<close>

text \<open>What the libraries promise: a valid key is read back from its encoding.\<close>

definition rsa_lib_ok :: "('k, 'p) rsa_lib \<Rightarrow> bool" where
  "rsa_lib_ok lib \<longleftrightarrow>
     (\<forall>k. rl_Validate lib k = None \<longrightarrow> rl_ParseRSAPrivateKeyFromPEM lib (PrivateKeyToPEM lib k) = Inr k)
     \<and> (\<forall>k pub. rl_Validate lib k = None \<and> GeneratePublicKey lib k = Inr pub \<longrightarrow>
          rl_ParseRSAPublicKeyFromPEM lib pub = Inr (rl_Public lib k))"

definition no_faults :: faults where "no_faults = \<lparr>ft_error = (\<lambda>_. None), ft_written = (\<lambda>_. 0)\<rparr>"

text \<open>The files hold a pair that belongs together.\<close>

definition holds_pair :: "('k, 'p) rsa_lib \<Rightarrow> file_system \<Rightarrow> 'k \<Rightarrow> string \<Rightarrow> bool" where
  "holds_pair lib fs k pub \<longleftrightarrow>
     rl_Validate lib k = None \<and> GeneratePublicKey lib k = Inr pub
     \<and> map_of (fs_files fs) PrivateKeyPath = Some (PrivateKeyToPEM lib k) \<and> map_of (fs_files fs) PublicKeyPath = Some pub"

text \<open>What every start keeps of the files: a public key file is there only beside its private key.\<close>

definition key_files_ok :: "('k, 'p) rsa_lib \<Rightarrow> file_system \<Rightarrow> bool" where
  "key_files_ok lib fs \<longleftrightarrow>
     PrivateKeyPath \<notin> fs_dirs fs \<and> PublicKeyPath \<notin> fs_dirs fs
     \<and> (map_of (fs_files fs) PublicKeyPath = None \<or> (\<exists>k pub. holds_pair lib fs k pub))"

definition both_files :: "file_system \<Rightarrow> bool" where
  "both_files fs \<longleftrightarrow> map_of (fs_files fs) PrivateKeyPath \<noteq> None \<and> map_of (fs_files fs) PublicKeyPath \<noteq> None"

lemma key_paths: "PrivateKeyPath \<noteq> PublicKeyPath" "RsaDirectory \<noteq> PrivateKeyPath" "RsaDirectory \<noteq> PublicKeyPath"
  by (simp_all add: secret_constants)

lemma readRSAKey_files:
  "map_of (fs_files fs) PrivateKeyPath = Some a \<Longrightarrow> map_of (fs_files fs) PublicKeyPath = Some b \<Longrightarrow>
     readRSAKey no_faults fs = Inr (a, b)"
  by (simp add: readRSAKey_def os_ReadFile_def no_faults_def)

lemma WriteKeyToFile_works:
  "WriteKeyToFile no_faults s p fs = (None, fs\<lparr>fs_files := (p, s) # fs_files fs\<rparr>)"
  by (simp add: WriteKeyToFile_def no_faults_def)

lemma map_of_filter_key: "map_of (filter (\<lambda>(p, _). p \<noteq> q) xs) r = (if r = q then None else map_of xs r)"
  by (induction xs) auto

lemma os_Remove_files:
  "fs_dirs (snd (os_Remove faults q fs)) = fs_dirs fs"
  "r \<noteq> q \<Longrightarrow> map_of (fs_files (snd (os_Remove faults q fs))) r = map_of (fs_files fs) r"
  "map_of (fs_files fs) r = None \<Longrightarrow> map_of (fs_files (snd (os_Remove faults q fs))) r = None"
  by (auto simp: os_Remove_def map_of_filter_key split: option.split)

text \<open>The check finds the pair and leaves it, or does not find it, and then no public key file is there.\<close>

lemma CheckRSAKeyFileExist_keeps:
  assumes "key_files_ok lib fs"
  shows "if both_files fs then CheckRSAKeyFileExist faults fs = (True, fs)
    else \<exists>fs2. CheckRSAKeyFileExist faults fs = (False, fs2) \<and> fs_dirs fs2 = fs_dirs fs
      \<and> map_of (fs_files fs2) PublicKeyPath = None"
proof (cases "both_files fs")
  case True
  with assms show ?thesis by (simp add: both_files_def key_files_ok_def CheckRSAKeyFileExist_def os_exists_def)
next
  case False
  then have none: "map_of (fs_files fs) PublicKeyPath = None"
    using assms by (auto simp: both_files_def key_files_ok_def holds_pair_def)
  show ?thesis
  proof (cases "map_of (fs_files fs) PrivateKeyPath")
    case None
    with assms False none show ?thesis by (simp add: key_files_ok_def CheckRSAKeyFileExist_def os_exists_def)
  next
    case (Some x)
    let ?fs1 = "snd (os_Remove faults PublicKeyPath fs)"
    have "CheckRSAKeyFileExist faults fs = (False, snd (os_Remove faults PrivateKeyPath ?fs1))"
      using assms Some none by (simp add: key_files_ok_def CheckRSAKeyFileExist_def os_exists_def split: prod.split)
    with False none show ?thesis by (simp add: os_Remove_files)
  qed
qed

lemma WriteKeyToFile_cases:
  obtains (unopened) e where "WriteKeyToFile faults bs p fs = (Some e, fs)" "faults \<noteq> no_faults"
    | (torn) e n where "WriteKeyToFile faults bs p fs = (Some e, fs\<lparr>fs_files := (p, take n bs) # fs_files fs\<rparr>)"
        "ft_error faults (WriteOp p) = Some e" "faults \<noteq> no_faults"
    | (written) "WriteKeyToFile faults bs p fs = (None, fs\<lparr>fs_files := (p, bs) # fs_files fs\<rparr>)"
proof (cases "ft_error faults (OpenOp p)")
  case (Some e)
  then have "faults \<noteq> no_faults" by (auto simp: no_faults_def)
  with Some show thesis by (intro unopened [of e]) (simp_all add: WriteKeyToFile_def)
next
  case opened: None
  show thesis
  proof (cases "ft_error faults (WriteOp p)")
    case (Some e)
    then have "faults \<noteq> no_faults" by (auto simp: no_faults_def)
    with opened Some show thesis by (intro torn [of e "ft_written faults p"]) (simp_all add: WriteKeyToFile_def)
  next
    case None
    with opened show thesis by (intro written) (simp add: WriteKeyToFile_def)
  qed
qed

lemma GeneratePrivateKey_valid: "GeneratePrivateKey lib = Inr k \<Longrightarrow> rl_Validate lib k = None"
  by (auto simp: GeneratePrivateKey_def split: sum.splits option.splits)

text \<open>
  Whatever goes wrong on the disk but the writing of the public key, the files stay in order; when nothing
  does, they hold a pair.
\<close>

lemma GenerateRSA256_keeps:
  assumes "key_files_ok lib fs" "ft_error faults (WriteOp PublicKeyPath) = None"
  obtains (failed) e fs' where "GenerateRSA256 lib faults fs = (Some e, fs')" "key_files_ok lib fs'"
      "faults = no_faults \<longrightarrow> \<not> both_files fs \<and> (\<forall>k pub. GeneratePrivateKey lib = Inr k \<longrightarrow> GeneratePublicKey lib k \<noteq> Inr pub)"
    | (pair) k pub fs' where "GenerateRSA256 lib faults fs = (None, fs')" "key_files_ok lib fs'" "holds_pair lib fs' k pub"
      "if both_files fs then holds_pair lib fs k pub else GeneratePrivateKey lib = Inr k"
proof (cases "if os_exists RsaDirectory fs then (None, fs) else os_MkdirAll faults RsaDirectory fs")
  case (Pair err fs1)
  then have fs1: "fs_files fs1 = fs_files fs" "PrivateKeyPath \<notin> fs_dirs fs1" "PublicKeyPath \<notin> fs_dirs fs1"
    "faults = no_faults \<longrightarrow> err = None"
    using assms key_paths by (auto simp: key_files_ok_def os_MkdirAll_def no_faults_def split: if_splits option.splits)
  then have ok1: "key_files_ok lib fs1" "both_files fs1 = both_files fs" "holds_pair lib fs1 = holds_pair lib fs"
    using assms by (auto simp: key_files_ok_def both_files_def holds_pair_def fun_eq_iff)
  show thesis
  proof (cases err)
    case (Some e)
    with Pair fs1(4) ok1(1) show thesis by (intro failed [of e fs1]) (simp_all add: GenerateRSA256_def)
  next
    case None
    note check = CheckRSAKeyFileExist_keeps [OF ok1(1), of faults, unfolded ok1(2)]
    show thesis
    proof (cases "both_files fs")
      case True
      then obtain k pub where h: "holds_pair lib fs1 k pub" using ok1(1,2) by (auto simp: both_files_def key_files_ok_def)
      show thesis by (rule pair [of fs1 k pub]) (use Pair None check True ok1 h in \<open>simp_all add: GenerateRSA256_def\<close>)
    next
      case False
      then obtain fs2 where fs2: "CheckRSAKeyFileExist faults fs1 = (False, fs2)" "fs_dirs fs2 = fs_dirs fs1"
        "map_of (fs_files fs2) PublicKeyPath = None" using check by auto
      then have ok2: "key_files_ok lib fs2" using fs1 by (simp add: key_files_ok_def)
      show thesis
      proof (cases "\<exists>k pub. GeneratePrivateKey lib = Inr k \<and> GeneratePublicKey lib k = Inr pub")
        case False
        then have "\<exists>e. GenerateRSA256 lib faults fs = (Some e, fs2)"
          using Pair None fs2(1) by (auto simp: GenerateRSA256_def split: sum.splits)
        then obtain e where "GenerateRSA256 lib faults fs = (Some e, fs2)" by blast
        then show thesis using failed ok2 False \<open>\<not> both_files fs\<close> by blast
      next
        case True
        then obtain k pub where key: "GeneratePrivateKey lib = Inr k" "GeneratePublicKey lib k = Inr pub" by blast
        let ?fs3 = "fs2\<lparr>fs_files := (PrivateKeyPath, PrivateKeyToPEM lib k) # fs_files fs2\<rparr>"
        let ?fs4 = "?fs3\<lparr>fs_files := (PublicKeyPath, pub) # fs_files ?fs3\<rparr>"
        have run: "GenerateRSA256 lib faults fs =
            (case WriteKeyToFile faults (PrivateKeyToPEM lib k) PrivateKeyPath fs2 of
               (Some e, fs3) \<Rightarrow> (Some e, fs3) | (None, fs3) \<Rightarrow> WriteKeyToFile faults pub PublicKeyPath fs3)"
          using Pair None fs2(1) key by (simp add: GenerateRSA256_def)
        have ok3: "key_files_ok lib ?fs3" using fs1 fs2 key_paths by (simp add: key_files_ok_def)
        have h4: "holds_pair lib ?fs4 k pub"
          using key GeneratePrivateKey_valid key_paths by (simp add: holds_pair_def)
        have ok4: "key_files_ok lib ?fs4" using fs1 fs2 h4 unfolding key_files_ok_def by auto
        show thesis
        proof (cases rule: WriteKeyToFile_cases [of faults "PrivateKeyToPEM lib k" PrivateKeyPath fs2])
          case (unopened e)
          then show thesis using run ok2 by (intro failed [of e fs2]) auto
        next
          case (torn e n)
          have "key_files_ok lib (fs2\<lparr>fs_files := (PrivateKeyPath, take n (PrivateKeyToPEM lib k)) # fs_files fs2\<rparr>)"
            using fs1 fs2 key_paths by (simp add: key_files_ok_def)
          with torn show thesis using run
            by (intro failed [of e "fs2\<lparr>fs_files := (PrivateKeyPath, take n (PrivateKeyToPEM lib k)) # fs_files fs2\<rparr>"]) auto
        next
          case written
          show thesis
          proof (cases rule: WriteKeyToFile_cases [of faults pub PublicKeyPath ?fs3])
            case (unopened e)
            then show thesis using run written ok3 by (intro failed [of e ?fs3]) auto
          next
            case (torn e n)
            with assms(2) show thesis by simp
          next
            case written': written
            show thesis by (rule pair [of ?fs4 k pub]) (use run written written' h4 ok4 key False in simp_all)
          qed
        qed
      qed
    qed
  qed
qed

lemma ParseRSAKey_secret:
  assumes "rsa_lib_ok lib" "rl_Validate lib k = None" "GeneratePublicKey lib k = Inr pub"
  shows "ParseRSAKey lib (key_secret (PrivateKeyToPEM lib k) pub) = Return (Some k, Some (rl_Public lib k))"
  using assms by (simp add: ParseRSAKey_def key_secret_def data_of_def rsa_lib_ok_def secret_constants)

lemma secret_names: "SecretName \<noteq> []" "path_segment_ok SecretName" "UserNamespace \<noteq> []" "path_segment_ok UserNamespace"
  by (simp_all add: secret_constants UserNamespace_def path_segment_ok_def)

lemma SecretGet_tracker:
  assumes "tracker_ok w"
  shows "tracker_stored w RSecrets UserNamespace SecretName = Some (ObjSecret s) \<Longrightarrow>
      SecretGet ObjectReaction UserNamespace SecretName w = ((s, None), w)"
    and "tracker_stored w RSecrets UserNamespace SecretName = None \<Longrightarrow>
      SecretGet ObjectReaction UserNamespace SecretName w = ((zero_secret, Some (StatusError StatusReasonNotFound SecretName)), w)"
  using client_get_tracker [OF assms secret_names(1,2), of RSecrets UserNamespace] secret_names
  by (simp_all add: SecretGet_def api_simps)

lemma GetRSAKey_stored:
  assumes "tracker_ok w" "rsa_lib_ok lib" "rl_Validate lib k = None" "GeneratePublicKey lib k = Inr pub"
    and "tracker_stored w RSecrets UserNamespace SecretName = Some (ObjSecret (key_secret (PrivateKeyToPEM lib k) pub))"
  shows "GetRSAKey ObjectReaction lib faults (fs, w) = Return ((Some k, Some (rl_Public lib k), None), fs, w)"
  using ParseRSAKey_secret [OF assms(2-4)] SecretGet_tracker(1) [OF assms(1,5)] by (simp add: GetRSAKey_def)

text \<open>Two files are read as they are.\<close>

lemma two_files:
  assumes "map_of (fs_files fs) PrivateKeyPath = Some a" "map_of (fs_files fs) PublicKeyPath = Some b" "RsaDirectory \<in> fs_dirs fs"
  shows "GenerateRSA256 lib faults fs = (None, fs)" "readRSAKey no_faults fs = Inr (a, b)"
  using assms by (simp_all add: GenerateRSA256_def CheckRSAKeyFileExist_def os_exists_def readRSAKey_files)

lemma readRSAKey_pair:
  assumes "holds_pair lib fs k pub"
  obtains (failed) e where "readRSAKey faults fs = Inl e" "faults \<noteq> no_faults"
    | (read) "readRSAKey faults fs = Inr (PrivateKeyToPEM lib k, pub)"
proof (cases "ft_error faults (ReadOp PrivateKeyPath) = None \<and> ft_error faults (ReadOp PublicKeyPath) = None")
  case True
  with assms show thesis by (intro read) (simp add: readRSAKey_def os_ReadFile_def holds_pair_def)
next
  case False
  then have "faults \<noteq> no_faults" by (auto simp: no_faults_def)
  moreover have "\<exists>e. readRSAKey faults fs = Inl e"
    using assms False by (cases "ft_error faults (ReadOp PrivateKeyPath)"; cases "ft_error faults (ReadOp PublicKeyPath)")
      (simp_all add: readRSAKey_def os_ReadFile_def holds_pair_def)
  ultimately show thesis using failed by blast
qed

text \<open>The secret of a pair is stored, and then parsed.\<close>

lemma store_key_secret:
  assumes "tracker_ok w" "tracker_stored w RSecrets UserNamespace SecretName = None"
  obtains w' where "Secrets_Create ObjectReaction UserNamespace (key_secret a b) w = ((key_secret a b, None), w')" "tracker_ok w'"
    "tracker_stored w' = stored_put RSecrets UserNamespace SecretName (ObjSecret (key_secret a b)) (tracker_stored w)"
proof -
  let ?s = "key_secret a b"
  have name: "om_Name (se_meta ?s) = SecretName" "om_Namespace (se_meta ?s) = UserNamespace" by (simp_all add: key_secret_def)
  have wn: "well_named RSecrets UserNamespace (ObjSecret ?s)" using secret_names name by (simp add: well_named_def)
  have free: "tracker_stored w RSecrets UserNamespace (om_Name (obj_meta (ObjSecret ?s))) = None" using assms(2) name by simp
  have put: "propagate_namespace UserNamespace (ObjSecret ?s) = ObjSecret ?s" by (rule propagate_namespace_id) (simp add: name)
  obtain w' where w': "client_create ObjectReaction RSecrets UserNamespace (ObjSecret ?s) w = (Inr (ObjSecret ?s), w')" "tracker_ok w'"
    "tracker_stored w' = stored_put RSecrets UserNamespace SecretName (ObjSecret ?s) (tracker_stored w)"
    by (rule client_create_tracker [OF assms(1) wn _ free, unfolded put]) (use secret_names name in auto)
  show thesis by (rule that [OF _ w'(2,3)]) (simp add: Secrets_Create_def w'(1) api_simps)
qed

text \<open>
  C40. The keys outlive the server.  Take a start on a cluster without the secret, with files in order: a
  public key file lies beside its private key only.  Whatever goes wrong on its disk, short of an
  interrupted write of the public key file, it leaves the files in order, and fails and stores nothing, or
  stores a pair that belongs together, the one of the key files or a new one when not both are there.  It
  fails only when the disk does or no key can be made.  And every later start, on whatever machine, with
  whatever files and faults, works with the stored pair: a public key that a later start checks tokens with
  is the one of the private key that signed them.  Nothing else in the cluster is touched.
\<close>

theorem GetRSAKey_persistent:
  assumes "tracker_ok w" "rsa_lib_ok lib" "key_files_ok lib fs" "ft_error faults (WriteOp PublicKeyPath) = None"
    and "tracker_stored w RSecrets UserNamespace SecretName = None"
  shows "\<exists>key pub err fs' w'. GetRSAKey ObjectReaction lib faults (fs, w) = Return ((key, pub, err), fs', w')
    \<and> key_files_ok lib fs'
    \<and> (if err \<noteq> None then w' = w else
         \<exists>k b. key = Some k \<and> pub = Some (rl_Public lib k) \<and> holds_pair lib fs' k b
           \<and> (if both_files fs then holds_pair lib fs k b else GeneratePrivateKey lib = Inr k)
           \<and> same_outside {(RSecrets, UserNamespace, SecretName)} (tracker_stored w) (tracker_stored w')
           \<and> (\<forall>faults2 fs2. generateRSAKey ObjectReaction lib faults2 (fs2, w') =
                Return ((Some k, Some (rl_Public lib k)), fs2, w')))
    \<and> (faults = no_faults \<and> (both_files fs \<or> (\<exists>k b. GeneratePrivateKey lib = Inr k \<and> GeneratePublicKey lib k = Inr b))
         \<longrightarrow> err = None)"
  using assms(3,4)
proof (cases rule: GenerateRSA256_keeps [where faults = faults])
  case (failed e fs')
  then show ?thesis using SecretGet_tracker(2) [OF assms(1,5)] by (auto simp: GetRSAKey_def go_err)
next
  case (pair k pub fs')
  from pair(3) show ?thesis
  proof (cases rule: readRSAKey_pair [where faults = faults])
    case (failed e)
    then show ?thesis using SecretGet_tracker(2) [OF assms(1,5)] pair(1,2) by (simp add: GetRSAKey_def go_err)
  next
    case read
    have valid: "rl_Validate lib k = None" "GeneratePublicKey lib k = Inr pub" using pair(3) by (simp_all add: holds_pair_def)
    obtain w' where w': "Secrets_Create ObjectReaction UserNamespace (key_secret (PrivateKeyToPEM lib k) pub) w =
        ((key_secret (PrivateKeyToPEM lib k) pub, None), w')" "tracker_ok w'"
      "tracker_stored w' = stored_put RSecrets UserNamespace SecretName (ObjSecret (key_secret (PrivateKeyToPEM lib k) pub)) (tracker_stored w)"
      by (rule store_key_secret [OF assms(1,5)])
    have first: "GetRSAKey ObjectReaction lib faults (fs, w) = Return ((Some k, Some (rl_Public lib k), None), fs', w')"
      using SecretGet_tracker(2) [OF assms(1,5)] pair(1) read w'(1) ParseRSAKey_secret [OF assms(2) valid]
      by (simp add: GetRSAKey_def go_err)
    have later: "generateRSAKey ObjectReaction lib faults2 (fs2, w') = Return ((Some k, Some (rl_Public lib k)), fs2, w')"
      for faults2 fs2
      using GetRSAKey_stored [OF w'(2) assms(2) valid, of faults2 fs2] by (simp add: w'(3) generateRSAKey_def)
    have "same_outside {(RSecrets, UserNamespace, SecretName)} (tracker_stored w) (tracker_stored w')"
      by (auto simp: w'(3) same_outside_def)
    then show ?thesis using first later pair(2,3,4) by auto
  qed
qed

text \<open>
  Files out of order are not noticed.  Beside a public key file without a private one, left over from
  before, a start that cannot open the public key file leaves the new private key with the old public one;
  the next start takes the two for a pair and stores them.
\<close>

theorem stale_public_key_stored:
  assumes "tracker_ok w" "tracker_stored w RSecrets UserNamespace SecretName = None"
    and "GeneratePrivateKey lib = Inr k" "GeneratePublicKey lib k = Inr pub"
    and "rl_ParseRSAPrivateKeyFromPEM lib (PrivateKeyToPEM lib k) = Inr k" "rl_ParseRSAPublicKeyFromPEM lib stale = Inr p"
    and "fs = \<lparr>fs_files = [(PublicKeyPath, stale)], fs_dirs = {RsaDirectory}\<rparr>"
    and "denied = no_faults\<lparr>ft_error := (\<lambda>op. if op = OpenOp PublicKeyPath then Some e else None)\<rparr>"
  shows "\<exists>fs1 w2. GetRSAKey ObjectReaction lib denied (fs, w) = Return ((None, None, Some e), fs1, w)
    \<and> GetRSAKey ObjectReaction lib no_faults (fs1, w) = Return ((Some k, Some p, None), fs1, w2)"
proof -
  let ?fs1 = "fs\<lparr>fs_files := (PrivateKeyPath, PrivateKeyToPEM lib k) # fs_files fs\<rparr>"
  have paths: "os_exists RsaDirectory fs" "\<not> os_exists PrivateKeyPath fs" using key_paths by (simp_all add: assms(7) os_exists_def)
  have "GenerateRSA256 lib denied fs = (Some e, ?fs1)"
    using key_paths paths assms(3,4,8)
    by (simp add: GenerateRSA256_def CheckRSAKeyFileExist_def WriteKeyToFile_def no_faults_def)
  then have one: "GetRSAKey ObjectReaction lib denied (fs, w) = Return ((None, None, Some e), ?fs1, w)"
    using SecretGet_tracker(2) [OF assms(1,2)] by (simp add: GetRSAKey_def go_err)
  have files: "GenerateRSA256 lib no_faults ?fs1 = (None, ?fs1)" "readRSAKey no_faults ?fs1 = Inr (PrivateKeyToPEM lib k, stale)"
    using key_paths by (auto simp: assms(7) intro!: two_files)
  obtain w2 where "Secrets_Create ObjectReaction UserNamespace (key_secret (PrivateKeyToPEM lib k) stale) w =
      ((key_secret (PrivateKeyToPEM lib k) stale, None), w2)"
    by (rule store_key_secret [OF assms(1,2)])
  moreover have "ParseRSAKey lib (key_secret (PrivateKeyToPEM lib k) stale) = Return (Some k, Some p)"
    using assms(5,6) by (simp add: ParseRSAKey_def key_secret_def data_of_def secret_constants)
  ultimately have "GetRSAKey ObjectReaction lib no_faults (?fs1, w) = Return ((Some k, Some p, None), ?fs1, w2)"
    using files SecretGet_tracker(2) [OF assms(1,2)] by (simp add: GetRSAKey_def go_err)
  with one show ?thesis by blast
qed

text \<open>
  Nor is an interrupted write.  A start on an empty directory whose write of the public key breaks off
  after \<open>n\<close> bytes, which are no key, fails; the next one stores the secret with these bytes and ends the
  process, and so does every start after it, on any machine: the secret is there.
\<close>

theorem torn_public_key_stored:
  assumes "tracker_ok w" "tracker_stored w RSecrets UserNamespace SecretName = None"
    and "GeneratePrivateKey lib = Inr k" "GeneratePublicKey lib k = Inr pub"
    and "rl_ParseRSAPrivateKeyFromPEM lib (PrivateKeyToPEM lib k) = Inr k"
    and "rl_ParseRSAPublicKeyFromPEM lib (take n pub) = Inl unreadable"
    and "fs = \<lparr>fs_files = [], fs_dirs = {RsaDirectory}\<rparr>"
    and "full = \<lparr>ft_error = (\<lambda>op. if op = WriteOp PublicKeyPath then Some e else None), ft_written = (\<lambda>_. n)\<rparr>"
  shows "\<exists>fs1 secret w2. GetRSAKey ObjectReaction lib full (fs, w) = Return ((None, None, Some e), fs1, w)
    \<and> GenerateRSA256 lib no_faults fs1 = (None, fs1) \<and> readRSAKey no_faults fs1 = Inr (PrivateKeyToPEM lib k, take n pub)
    \<and> Secrets_Create ObjectReaction UserNamespace (key_secret (PrivateKeyToPEM lib k) (take n pub)) w = ((secret, None), w2)
    \<and> GetRSAKey ObjectReaction lib no_faults (fs1, w) = Panic ''exit status 1''
    \<and> (\<forall>faults fs2. GetRSAKey ObjectReaction lib faults (fs2, w2) = Panic ''exit status 1'')"
proof -
  let ?fs1 = "fs\<lparr>fs_files := [(PublicKeyPath, take n pub), (PrivateKeyPath, PrivateKeyToPEM lib k)]\<rparr>"
  let ?s = "key_secret (PrivateKeyToPEM lib k) (take n pub)"
  have paths: "os_exists RsaDirectory fs" "\<not> os_exists PrivateKeyPath fs" using key_paths by (simp_all add: assms(7) os_exists_def)
  have "GenerateRSA256 lib full fs = (Some e, ?fs1)"
    using key_paths paths assms(3,4,7,8)
    by (simp add: GenerateRSA256_def CheckRSAKeyFileExist_def WriteKeyToFile_def)
  then have one: "GetRSAKey ObjectReaction lib full (fs, w) = Return ((None, None, Some e), ?fs1, w)"
    using SecretGet_tracker(2) [OF assms(1,2)] by (simp add: GetRSAKey_def go_err)
  have files: "GenerateRSA256 lib no_faults ?fs1 = (None, ?fs1)" "readRSAKey no_faults ?fs1 = Inr (PrivateKeyToPEM lib k, take n pub)"
    using key_paths by (auto simp: assms(7) intro!: two_files)
  obtain w2 where c: "Secrets_Create ObjectReaction UserNamespace ?s w = ((?s, None), w2)" "tracker_ok w2"
    "tracker_stored w2 = stored_put RSecrets UserNamespace SecretName (ObjSecret ?s) (tracker_stored w)"
    by (rule store_key_secret [OF assms(1,2)])
  have parse: "ParseRSAKey lib ?s = Panic ''exit status 1''"
    using assms(5,6) by (simp add: ParseRSAKey_def key_secret_def data_of_def secret_constants)
  have two: "GetRSAKey ObjectReaction lib no_faults (?fs1, w) = Panic ''exit status 1''"
    using files c(1) parse SecretGet_tracker(2) [OF assms(1,2)] by (simp add: GetRSAKey_def go_err)
  have "SecretGet ObjectReaction UserNamespace SecretName w2 = ((?s, None), w2)"
    by (rule SecretGet_tracker(1) [OF c(2)]) (simp add: c(3))
  then have "GetRSAKey ObjectReaction lib faults (fs2, w2) = Panic ''exit status 1''" for faults fs2
    using parse by (simp add: GetRSAKey_def)
  with one two files c(1) show ?thesis by blast
qed

section \<open>Examples\<close>

text \<open>Keys that are numbers, encoded by as many letters.\<close>

definition toy_lib :: "(nat, nat) rsa_lib" where
  "toy_lib = \<lparr>rl_GenerateKey = \<lambda>n. Inr (n + 1), rl_Validate = \<lambda>_. None, rl_Public = \<lambda>k. 2 * k,
     rl_MarshalPKCS1PrivateKey = \<lambda>k. replicate k CHR ''k'', rl_MarshalPKIXPublicKey = \<lambda>p. Inr (replicate p CHR ''p''),
     rl_EncodeToMemory = \<lambda>t der. der,
     rl_ParseRSAPrivateKeyFromPEM = \<lambda>s. Inr (length s), rl_ParseRSAPublicKeyFromPEM = \<lambda>s. Inr (length s)\<rparr>"

lemma toy_lib_facts:
  "rsa_lib_ok toy_lib" "GeneratePrivateKey toy_lib = Inr 4097" "GeneratePublicKey toy_lib 4097 = Inr (replicate 8194 CHR ''p'')"
  "rl_Public toy_lib k = 2 * k"
  by (auto simp: rsa_lib_ok_def toy_lib_def PrivateKeyToPEM_def GeneratePublicKey_def GeneratePrivateKey_def RsaBitSize_def)

lemma new_tracker_no_secret:
  "tracker_ok NewObjectTracker" "tracker_stored NewObjectTracker RSecrets UserNamespace SecretName = None"
  by (simp_all add: tracker_ok_def tracker_stored_def NewObjectTracker_def)

text \<open>A private key file alone is replaced by a new pair, which a start on a full disk then works with.\<close>

theorem GetRSAKey_persistent_witness:
  "\<exists>fs' w'. GetRSAKey ObjectReaction toy_lib no_faults
      (\<lparr>fs_files = [(PrivateKeyPath, ''half'')], fs_dirs = {}\<rparr>, NewObjectTracker) = Return ((Some 4097, Some 8194, None), fs', w')
    \<and> generateRSAKey ObjectReaction toy_lib \<lparr>ft_error = (\<lambda>_. Some (Errorf ''no space left on device'' [])), ft_written = (\<lambda>_. 0)\<rparr>
      (\<lparr>fs_files = [], fs_dirs = {}\<rparr>, w') = Return ((Some 4097, Some 8194), \<lparr>fs_files = [], fs_dirs = {}\<rparr>, w')"
proof -
  let ?fs = "\<lparr>fs_files = [(PrivateKeyPath, ''half'')], fs_dirs = {}\<rparr>"
  have files: "key_files_ok toy_lib ?fs" "\<not> both_files ?fs" using key_paths by (simp_all add: key_files_ok_def both_files_def)
  have "rl_Public toy_lib 4097 = 8194" by (simp add: toy_lib_def)
  moreover have "ft_error no_faults (WriteOp PublicKeyPath) = None" by (simp add: no_faults_def)
  ultimately show ?thesis
    using GetRSAKey_persistent [OF new_tracker_no_secret(1) toy_lib_facts(1) files(1) _ new_tracker_no_secret(2), of no_faults]
      files(2) toy_lib_facts(2,3) by auto
qed

theorem stale_public_key_stored_witness:
  "\<exists>fs1 w2. GetRSAKey ObjectReaction toy_lib no_faults (fs1, NewObjectTracker) = Return ((Some 4097, Some 5, None), fs1, w2)
    \<and> rl_Public toy_lib 4097 \<noteq> 5"
proof -
  have read: "rl_ParseRSAPrivateKeyFromPEM toy_lib (PrivateKeyToPEM toy_lib 4097) = Inr 4097"
    "rl_ParseRSAPublicKeyFromPEM toy_lib ''stale'' = Inr 5" by (simp_all add: toy_lib_def PrivateKeyToPEM_def)
  show ?thesis
    using stale_public_key_stored [OF new_tracker_no_secret toy_lib_facts(2,3) read refl refl, of "Errorf ''no space left on device'' []"]
    by (auto simp: toy_lib_facts(4))
qed

end
