(* ===== verification/Cube_Heap.thy ===== *)
theory Cube_Heap
  imports Main
begin

text \<open>
  Go values that share memory.  A struct holds strings, numbers, other structs, and references: a
  slice, a map or a pointer is \<open>nil\<close> or the address of a cell, and two structs may hold the same
  address.  A slice is the whole of its array; capacities and slices of parts of an array are left out.

  A type is read as a finite tree of references.  \<open>view\<close> is the value one sees through a type,
  \<open>reach\<close> the cells that are looked at on the way.  \<open>copies t f\<close> says that \<open>f\<close> is a deep copy at the
  type \<open>t\<close>; there is one rule for every shape of code that the generator of deep copies writes.
\<close>

type_synonym addr = nat

datatype ref_kind = KSlice | KMap | KPtr

datatype gval =
    VStr string | VBool bool | VInt int
  | VStruct "(string \<times> gval) list"
  | VRef "addr option"

text \<open>The elements of an array (their keys are empty), the entries of a map, or the one target of a pointer.\<close>

datatype cell = Cell ref_kind "(string \<times> gval) list"

abbreviation Elems :: "gval list \<Rightarrow> cell" where "Elems xs \<equiv> Cell KSlice (map (Pair []) xs)"
abbreviation Boxed :: "gval \<Rightarrow> cell" where "Boxed x \<equiv> Cell KPtr [([], x)]"

record go_heap =
  hp_cells :: "addr \<Rightarrow> cell option"
  hp_next :: addr

definition heap_ok :: "go_heap \<Rightarrow> bool" where
  "heap_ok h \<longleftrightarrow> (\<forall>a. hp_next h \<le> a \<longrightarrow> hp_cells h a = None)"

definition extends :: "go_heap \<Rightarrow> go_heap \<Rightarrow> bool" where
  "extends h h' \<longleftrightarrow> hp_next h \<le> hp_next h' \<and> (\<forall>a < hp_next h. hp_cells h' a = hp_cells h a)"

definition put_cell :: "addr \<Rightarrow> cell \<Rightarrow> go_heap \<Rightarrow> go_heap" where
  "put_cell a c h = h\<lparr>hp_cells := (hp_cells h)(a \<mapsto> c)\<rparr>"

definition alloc :: "cell \<Rightarrow> go_heap \<Rightarrow> addr \<times> go_heap" where
  "alloc c h = (hp_next h, h\<lparr>hp_cells := (hp_cells h)(hp_next h \<mapsto> c), hp_next := Suc (hp_next h)\<rparr>)"

fun field :: "string \<Rightarrow> gval \<Rightarrow> gval" where
  "field n (VStruct vs) = (case map_of vs n of None \<Rightarrow> VRef None | Some x \<Rightarrow> x)"
| "field n _ = VRef None"

fun set_field :: "string \<Rightarrow> gval \<Rightarrow> gval \<Rightarrow> gval" where
  "set_field n x (VStruct vs) = VStruct (map (\<lambda>(k, y). (k, if k = n then x else y)) vs)"
| "set_field n x v = v"

section \<open>Types\<close>

datatype gty = TStr | TBool | TInt | TStruct "(string \<times> gty) list" | TRef ref_kind gty

abbreviation TSlice :: "gty \<Rightarrow> gty" where "TSlice \<equiv> TRef KSlice"
abbreviation TMap :: "gty \<Rightarrow> gty" where "TMap \<equiv> TRef KMap"
abbreviation TPtr :: "gty \<Rightarrow> gty" where "TPtr \<equiv> TRef KPtr"

datatype dval = DStr string | DBool bool | DInt int | DStruct "(string \<times> dval) list"
  | DNil | DRef ref_kind "(string \<times> dval) list" | DBad

text \<open>What a reference of a kind refers to.\<close>

definition targets :: "ref_kind \<Rightarrow> go_heap \<Rightarrow> gval \<Rightarrow> (addr \<times> (string \<times> gval) list) option" where
  "targets k h v =
     (case v of
        VRef (Some a) \<Rightarrow> (case hp_cells h a of
           Some (Cell k' xs) \<Rightarrow> if k' = k then Some (a, xs) else None | None \<Rightarrow> None)
      | _ \<Rightarrow> None)"

lemma targets_nil [simp]: "targets k h (VRef None) = None"
  by (simp add: targets_def)

fun typed :: "gty \<Rightarrow> go_heap \<Rightarrow> gval \<Rightarrow> bool" where
  "typed TStr h v = (case v of VStr _ \<Rightarrow> True | _ \<Rightarrow> False)"
| "typed TBool h v = (case v of VBool _ \<Rightarrow> True | _ \<Rightarrow> False)"
| "typed TInt h v = (case v of VInt _ \<Rightarrow> True | _ \<Rightarrow> False)"
| "typed (TStruct tys) h v = (case v of VStruct vs \<Rightarrow> map fst vs = map fst tys
     \<and> list_all (\<lambda>(n, t). typed t h (field n v)) tys | _ \<Rightarrow> False)"
| "typed (TRef k t) h v = (v = VRef None \<or>
     (case targets k h v of Some (a, xs) \<Rightarrow> (k = KPtr \<longrightarrow> length xs = 1) \<and> list_all (\<lambda>e. typed t h (snd e)) xs
      | None \<Rightarrow> False))"

fun view :: "gty \<Rightarrow> go_heap \<Rightarrow> gval \<Rightarrow> dval" where
  "view TStr h v = (case v of VStr s \<Rightarrow> DStr s | _ \<Rightarrow> DBad)"
| "view TBool h v = (case v of VBool b \<Rightarrow> DBool b | _ \<Rightarrow> DBad)"
| "view TInt h v = (case v of VInt i \<Rightarrow> DInt i | _ \<Rightarrow> DBad)"
| "view (TStruct tys) h v = DStruct (map (\<lambda>(n, t). (n, view t h (field n v))) tys)"
| "view (TRef k t) h v = (if v = VRef None then DNil else
     (case targets k h v of Some (a, xs) \<Rightarrow> DRef k (map (\<lambda>e. (fst e, view t h (snd e))) xs) | None \<Rightarrow> DBad))"

fun reach :: "gty \<Rightarrow> go_heap \<Rightarrow> gval \<Rightarrow> addr set" where
  "reach TStr h v = {}"
| "reach TBool h v = {}"
| "reach TInt h v = {}"
| "reach (TStruct tys) h v = \<Union> (set (map (\<lambda>(n, t). reach t h (field n v)) tys))"
| "reach (TRef k t) h v =
     (case v of VRef (Some a) \<Rightarrow> {a} | _ \<Rightarrow> {})
     \<union> (case targets k h v of Some (a, xs) \<Rightarrow> \<Union> (set (map (\<lambda>e. reach t h (snd e)) xs)) | None \<Rightarrow> {})"

text \<open>A type without references.\<close>

fun flat :: "gty \<Rightarrow> bool" where
  "flat (TStruct tys) = list_all (\<lambda>(n, t). flat t) tys"
| "flat (TRef k t) = False"
| "flat t = True"

section \<open>Frames\<close>

text \<open>What one sees through a type depends on the cells it reaches only.\<close>

definition sees_same :: "gty \<Rightarrow> go_heap \<Rightarrow> go_heap \<Rightarrow> gval \<Rightarrow> bool" where
  "sees_same t h h' v \<longleftrightarrow> view t h' v = view t h v \<and> reach t h' v = reach t h v \<and> (typed t h' v \<longleftrightarrow> typed t h v)"

lemma map_cong_UN: "\<forall>x \<in> set xs. f x = g x \<Longrightarrow> \<Union> (set (map f xs)) = \<Union> (set (map g xs))"
  by (metis map_cong)

lemma list_all_cong_iff: "\<forall>x \<in> set xs. P x \<longleftrightarrow> Q x \<Longrightarrow> list_all P xs \<longleftrightarrow> list_all Q xs"
  by (simp add: list_all_iff)

lemma targets_same:
  assumes "\<forall>a \<in> reach (TRef k t) h v. hp_cells h' a = hp_cells h a"
  shows "targets k h' v = targets k h v"
  using assms by (auto simp: targets_def split: gval.splits option.splits)

lemma frame:
  assumes "\<forall>a \<in> reach t h v. hp_cells h' a = hp_cells h a"
  shows "sees_same t h h' v"
  using assms
proof (induction t arbitrary: v)
  case (TStruct tys)
  have e: "sees_same t h h' (field n v)" if "(n, t) \<in> set tys" for n t
    using TStruct.prems that by (intro TStruct.IH [OF that]) force+
  then have "\<forall>x \<in> set tys. (\<lambda>(n, t). (n, view t h' (field n v))) x = (\<lambda>(n, t). (n, view t h (field n v))) x"
    "\<forall>x \<in> set tys. (\<lambda>(n, t). reach t h' (field n v)) x = (\<lambda>(n, t). reach t h (field n v)) x"
    "\<forall>x \<in> set tys. (\<lambda>(n, t). typed t h' (field n v)) x \<longleftrightarrow> (\<lambda>(n, t). typed t h (field n v)) x"
    by (auto simp: sees_same_def)
  from map_cong [OF refl this(1) [rule_format]] map_cong_UN [OF this(2)] list_all_cong_iff [OF this(3)]
  show ?case unfolding sees_same_def view.simps reach.simps typed.simps by (cases v) simp_all
next
  case (TRef k t)
  note tg = targets_same [OF TRef.prems]
  show ?case
  proof (cases "targets k h v")
    case None
    then show ?thesis by (simp add: sees_same_def tg)
  next
    case (Some p)
    obtain a xs where p: "p = (a, xs)" by (cases p)
    have "\<forall>e \<in> set xs. sees_same t h h' (snd e)" using TRef.prems Some by (auto intro!: TRef.IH simp: p)
    then show ?thesis using Some by (simp add: sees_same_def tg p list_all_iff)
  qed
qed (simp_all add: sees_same_def)

lemma typed_reach:
  assumes "typed t h v" "a \<in> reach t h v"
  shows "hp_cells h a \<noteq> None"
  using assms
proof (induction t arbitrary: v)
  case (TStruct tys)
  then obtain n t where "(n, t) \<in> set tys" "a \<in> reach t h (field n v)" by auto
  moreover from this TStruct.prems(1) have "typed t h (field n v)" by (auto simp: list_all_iff split: gval.splits)
  ultimately show ?case using TStruct.IH [of "(n, t)" t] by auto
next
  case (TRef k t)
  then obtain b xs where v: "targets k h v = Some (b, xs)" by (auto split: option.splits gval.splits)
  then have b: "v = VRef (Some b)" "hp_cells h b \<noteq> None" by (auto simp: targets_def split: gval.splits option.splits cell.splits if_splits)
  show ?case
  proof (cases "a = b")
    case False
    then obtain e where "e \<in> set xs" "a \<in> reach t h (snd e)" using TRef.prems(2) v b(1) by auto
    moreover from this TRef.prems(1) v b(1) have "typed t h (snd e)" by (auto simp: list_all_iff)
    ultimately show ?thesis by (intro TRef.IH)
  qed (use b in simp)
qed simp_all

lemma flat_reach: "flat t \<Longrightarrow> reach t h v = {}"
  by (induction t arbitrary: v) (auto simp: list_all_iff)

lemma extends_refl [simp]: "extends h h"
  by (simp add: extends_def)

lemma extends_trans: "extends h h' \<Longrightarrow> extends h' h'' \<Longrightarrow> extends h h''"
  by (auto simp: extends_def)

lemma below_next:
  assumes "heap_ok h" "typed t h v"
  shows "reach t h v \<subseteq> {..< hp_next h}"
proof
  fix a assume "a \<in> reach t h v"
  from typed_reach [OF assms(2) this] assms(1) show "a \<in> {..< hp_next h}" by (auto simp: heap_ok_def not_le [symmetric])
qed

lemma extends_frame:
  assumes "reach t h v \<subseteq> {..< hp_next h}" "extends h h'"
  shows "sees_same t h h' v"
  using assms by (intro frame) (auto simp: extends_def)

section \<open>Deep copies\<close>

type_synonym copier = "gval \<Rightarrow> go_heap \<Rightarrow> gval \<times> go_heap"

text \<open>\<open>y\<close> in the heap \<open>h'\<close> is a copy of \<open>x\<close> in the heap \<open>h\<close>, made of cells that are new since \<open>h0\<close>.\<close>

definition copied :: "gty \<Rightarrow> go_heap \<Rightarrow> go_heap \<Rightarrow> gval \<Rightarrow> go_heap \<Rightarrow> gval \<Rightarrow> bool" where
  "copied t h0 h x h' y \<longleftrightarrow> typed t h' y \<and> view t h' y = view t h x \<and> reach t h' y \<subseteq> {hp_next h0 ..< hp_next h'}"

definition copies :: "gty \<Rightarrow> copier \<Rightarrow> bool" where
  "copies t f \<longleftrightarrow> (\<forall>h x h' y. heap_ok h \<and> typed t h x \<and> f x h = (y, h') \<longrightarrow>
     heap_ok h' \<and> extends h h' \<and> copied t h h x h' y)"

lemma copiesD:
  assumes "copies t f" "heap_ok h" "typed t h x" "f x h = (y, h')"
  shows "heap_ok h'" "extends h h'" "copied t h h x h' y"
  using assms unfolding copies_def by blast+

lemma copied_later:
  assumes "copied t h0 h x h' y" "extends h' h''"
  shows "copied t h0 h x h'' y"
proof -
  have "reach t h' y \<subseteq> {..< hp_next h'}" using assms(1) by (auto simp: copied_def)
  from extends_frame [OF this assms(2)] assms show ?thesis
    by (auto simp: copied_def sees_same_def extends_def)
qed

lemma copied_from:
  assumes "heap_ok h" "typed t h x" "extends h h1" "copied t h1 h1 x h' y"
  shows "copied t h h x h' y"
  using assms(4) extends_frame [OF below_next [OF assms(1,2)] assms(3)] assms(3)
  by (auto simp: copied_def sees_same_def extends_def)

text \<open>Assignment, for types without references.\<close>

definition assign :: copier where
  "assign x h = (x, h)"

lemma copies_assign: "flat t \<Longrightarrow> copies t assign"
  by (auto simp: copies_def copied_def assign_def flat_reach)

text \<open>
  A new cell with the same contents: \<open>make\<close> and \<open>copy\<close> for an array of strings, \<open>make\<close> and an
  insertion of every entry for a map of strings, \<open>new\<close> and an assignment for a number.
\<close>

definition copy_cell :: copier where
  "copy_cell x h =
     (case x of
        VRef (Some a) \<Rightarrow> (case hp_cells h a of
           Some c \<Rightarrow> (case alloc c h of (b, h1) \<Rightarrow> (VRef (Some b), h1)) | None \<Rightarrow> (x, h))
      | _ \<Rightarrow> (x, h))"

text \<open>
  A new cell whose contents are made by another copier, one after the other: \<open>make\<close> and
  \<open>for i := range *in { (*in)[i].DeepCopyInto(&(*out)[i]) }\<close> for an array of structs, \<open>new\<close> and
  \<open>DeepCopyInto\<close> for a pointer to a struct.  The zero values it holds first are not looked at.
\<close>

fun copy_all :: "copier \<Rightarrow> (string \<times> gval) list \<Rightarrow> go_heap \<Rightarrow> (string \<times> gval) list \<times> go_heap" where
  "copy_all f [] h = ([], h)"
| "copy_all f ((n, x) # xs) h =
     (case f x h of (y, h1) \<Rightarrow> (case copy_all f xs h1 of (ys, h2) \<Rightarrow> ((n, y) # ys, h2)))"

definition copy_each :: "copier \<Rightarrow> copier" where
  "copy_each f x h =
     (case x of
        VRef (Some a) \<Rightarrow> (case hp_cells h a of
           Some (Cell k xs) \<Rightarrow>
             (case alloc (Cell k (map (\<lambda>(n, _). (n, VRef None)) xs)) h of (b, h1) \<Rightarrow>
               (case copy_all f xs h1 of (ys, h2) \<Rightarrow> (VRef (Some b), put_cell b (Cell k ys) h2)))
         | None \<Rightarrow> (x, h))
      | _ \<Rightarrow> (x, h))"

text \<open>\<open>*out = *in\<close>, and then the fields of the list, one after the other.\<close>

fun copy_fields :: "(string \<times> copier) list \<Rightarrow> gval \<Rightarrow> gval \<Rightarrow> go_heap \<Rightarrow> gval \<times> go_heap" where
  "copy_fields [] x out h = (out, h)"
| "copy_fields ((n, f) # fs) x out h =
     (case f (field n x) h of (y, h1) \<Rightarrow> copy_fields fs x (set_field n y out) h1)"

definition copy_struct :: "(string \<times> copier) list \<Rightarrow> copier" where
  "copy_struct fs x h = copy_fields fs x x h"

lemma heap_ok_alloc:
  assumes "heap_ok h" "alloc c h = (b, h1)"
  shows "heap_ok h1" "extends h h1" "b = hp_next h" "hp_next h1 = Suc b" "hp_cells h1 b = Some c"
  using assms by (auto simp: alloc_def heap_ok_def extends_def)

lemma typed_targets:
  assumes "typed (TRef k t) h v" "v \<noteq> VRef None"
  obtains a xs where "v = VRef (Some a)" "hp_cells h a = Some (Cell k xs)" "\<forall>e \<in> set xs. typed t h (snd e)"
    "targets k h v = Some (a, xs)" "k = KPtr \<longrightarrow> length xs = 1"
proof -
  obtain a xs where t: "targets k h v = Some (a, xs)" using assms by (auto split: option.splits)
  moreover from this have "v = VRef (Some a)" "hp_cells h a = Some (Cell k xs)"
    by (auto simp: targets_def split: gval.splits option.splits cell.splits if_splits)
  moreover have "\<forall>e \<in> set xs. typed t h (snd e)" "k = KPtr \<longrightarrow> length xs = 1" using assms t by (auto simp: list_all_iff)
  ultimately show thesis using that by blast
qed

lemma copied_ref:
  assumes "hp_cells h' b = Some (Cell k ys)" "hp_next h0 \<le> b" "b < hp_next h'" "targets k h v = Some (a, xs)" "v \<noteq> VRef None"
    and "k = KPtr \<longrightarrow> length xs = 1" "map fst ys = map fst xs" "\<forall>(e, e') \<in> set (zip xs ys). copied t h0 h (snd e) h' (snd e')"
  shows "copied (TRef k t) h0 h v h' (VRef (Some b))"
proof -
  have tg: "targets k h' (VRef (Some b)) = Some (b, ys)" by (simp add: targets_def assms(1))
  have len: "length ys = length xs" using assms(7) by (metis length_map)
  have each: "copied t h0 h (snd (xs ! i)) h' (snd (ys ! i))" if "i < length xs" for i
  proof -
    have "(xs ! i, ys ! i) \<in> set (zip xs ys)" using that len by (auto simp: set_zip)
    with assms(8) show ?thesis by auto
  qed
  have "typed t h' (snd e) \<and> reach t h' (snd e) \<subseteq> {hp_next h0 ..< hp_next h'}" if e: "e \<in> set ys" for e
  proof -
    obtain i where "i < length ys" "ys ! i = e" using e by (auto simp: in_set_conv_nth)
    with each [of i] len show ?thesis by (simp add: copied_def)
  qed
  note each_new = this
  have "list_all (\<lambda>e. typed t h' (snd e)) ys" unfolding list_all_iff using each_new by blast
  moreover have "(\<Union>e \<in> set ys. reach t h' (snd e)) \<subseteq> {hp_next h0 ..< hp_next h'}" by (rule UN_least) (rule each_new [THEN conjunct2])
  ultimately have "typed (TRef k t) h' (VRef (Some b))" "reach (TRef k t) h' (VRef (Some b)) \<subseteq> {hp_next h0 ..< hp_next h'}"
    using assms(2,3,6) len by (simp_all add: tg)
  moreover have "map (\<lambda>e. (fst e, view t h' (snd e))) ys = map (\<lambda>e. (fst e, view t h (snd e))) xs"
  proof (rule nth_equalityI)
    fix i assume i: "i < length (map (\<lambda>e. (fst e, view t h' (snd e))) ys)"
    have "fst (ys ! i) = fst (xs ! i)" using arg_cong [OF assms(7), of "\<lambda>l. l ! i"] i len by simp
    with each [of i] i len show "map (\<lambda>e. (fst e, view t h' (snd e))) ys ! i = map (\<lambda>e. (fst e, view t h (snd e))) xs ! i"
      by (simp add: copied_def)
  qed (simp add: len)
  then have "view (TRef k t) h' (VRef (Some b)) = view (TRef k t) h v" using assms(4,5) by (simp add: tg)
  ultimately show ?thesis by (simp add: copied_def)
qed

section \<open>One rule per shape of code\<close>

lemma copied_flat:
  assumes "heap_ok h" "flat t" "typed t h x" "extends h h'"
  shows "copied t h h x h' x"
  using extends_frame [OF below_next [OF assms(1,3)] assms(4)] assms(2,3)
  by (simp add: copied_def sees_same_def flat_reach)

lemma copies_cell:
  assumes "flat t"
  shows "copies (TRef k t) copy_cell"
  unfolding copies_def
proof (intro allI impI, elim conjE)
  fix h x h' y assume h: "heap_ok h" "typed (TRef k t) h x" "copy_cell x h = (y, h')"
  show "heap_ok h' \<and> extends h h' \<and> copied (TRef k t) h h x h' y"
  proof (cases "x = VRef None")
    case True
    then show ?thesis using h by (auto simp: copy_cell_def copied_def)
  next
    case False
    obtain a xs where x: "x = VRef (Some a)" "hp_cells h a = Some (Cell k xs)" "\<forall>e \<in> set xs. typed t h (snd e)"
      "targets k h x = Some (a, xs)" "k = KPtr \<longrightarrow> length xs = 1" by (rule typed_targets [OF h(2) False])
    obtain b h1 where al: "alloc (Cell k xs) h = (b, h1)" by (cases "alloc (Cell k xs) h")
    then have y: "y = VRef (Some b)" "h' = h1" using h(3) x(1,2) by (simp_all add: copy_cell_def)
    note h1 = heap_ok_alloc [OF h(1) al]
    have "\<forall>(e, e') \<in> set (zip xs xs). copied t h h (snd e) h1 (snd e')"
      using x(3) copied_flat [OF h(1) assms _ h1(2)] by (fastforce simp: zip_same)
    from copied_ref [OF h1(5) _ _ x(4) False x(5) refl this] h1 show ?thesis by (simp add: y)
  qed
qed

lemma copy_all_copies:
  assumes "copies t f" "heap_ok h" "\<forall>e \<in> set xs. typed t h (snd e)" "copy_all f xs h = (ys, h')"
  shows "heap_ok h' \<and> extends h h' \<and> map fst ys = map fst xs
    \<and> (\<forall>(e, e') \<in> set (zip xs ys). copied t h h (snd e) h' (snd e'))"
  using assms(2-)
proof (induction xs arbitrary: h ys)
  case (Cons e xs)
  obtain n x where e: "e = (n, x)" by (cases e)
  obtain y h1 where y: "f x h = (y, h1)" by (cases "f x h")
  obtain zs h2 where zs: "copy_all f xs h1 = (zs, h2)" by (cases "copy_all f xs h1")
  have r: "ys = (n, y) # zs" "h2 = h'" using Cons.prems(3) y zs by (simp_all add: e)
  have x: "typed t h x" using Cons.prems(2) by (simp add: e)
  note c = copiesD [OF assms(1) Cons.prems(1) x y]
  have old: "typed t h (snd e')" if "e' \<in> set xs" for e' using Cons.prems(2) that by simp
  have "\<forall>e' \<in> set xs. typed t h1 (snd e')"
    using old extends_frame [OF below_next [OF Cons.prems(1) old] c(2)] by (simp add: sees_same_def)
  from Cons.IH [OF c(1) this zs [unfolded r(2)]]
  have rest: "heap_ok h'" "extends h1 h'" "map fst zs = map fst xs"
    "\<And>e1 e2. (e1, e2) \<in> set (zip xs zs) \<Longrightarrow> copied t h1 h1 (snd e1) h' (snd e2)" by auto
  have "copied t h h (snd e1) h' (snd e2)" if z: "(e1, e2) \<in> set (zip xs zs)" for e1 e2
    using copied_from [OF Cons.prems(1) old c(2) rest(4) [OF z]] set_zip_leftD [OF z] by simp
  with copied_later [OF c(3) rest(2)] rest(1,3) extends_trans [OF c(2) rest(2)] show ?case by (auto simp: r(1) e)
qed simp

lemma put_new_cell:
  assumes "heap_ok h" "b < hp_next h"
  shows "heap_ok (put_cell b c h)" "hp_next (put_cell b c h) = hp_next h" "hp_cells (put_cell b c h) b = Some c"
    "a \<noteq> b \<Longrightarrow> hp_cells (put_cell b c h) a = hp_cells h a"
  using assms by (auto simp: heap_ok_def put_cell_def)

lemma copies_each:
  assumes "copies t f"
  shows "copies (TRef k t) (copy_each f)"
  unfolding copies_def
proof (intro allI impI, elim conjE)
  fix h x h' y assume h: "heap_ok h" "typed (TRef k t) h x" "copy_each f x h = (y, h')"
  show "heap_ok h' \<and> extends h h' \<and> copied (TRef k t) h h x h' y"
  proof (cases "x = VRef None")
    case True
    then show ?thesis using h by (auto simp: copy_each_def copied_def)
  next
    case False
    obtain a xs where x: "x = VRef (Some a)" "hp_cells h a = Some (Cell k xs)" "\<forall>e \<in> set xs. typed t h (snd e)"
      "targets k h x = Some (a, xs)" "k = KPtr \<longrightarrow> length xs = 1" by (rule typed_targets [OF h(2) False])
    let ?c = "Cell k (map (\<lambda>(n, _). (n, VRef None)) xs)"
    obtain b h1 where al: "alloc ?c h = (b, h1)" by (cases "alloc ?c h")
    obtain ys h2 where ys: "copy_all f xs h1 = (ys, h2)" by (cases "copy_all f xs h1")
    have y: "y = VRef (Some b)" "h' = put_cell b (Cell k ys) h2" using h(3) x(1,2) al ys by (simp_all add: copy_each_def)
    note h1 = heap_ok_alloc [OF h(1) al]
    have old: "typed t h (snd e)" if "e \<in> set xs" for e using x(3) that by simp
    have "\<forall>e \<in> set xs. typed t h1 (snd e)"
      using old extends_frame [OF below_next [OF h(1) old] h1(2)] by (simp add: sees_same_def)
    from copy_all_copies [OF assms h1(1) this ys]
    have all: "heap_ok h2" "extends h1 h2" "map fst ys = map fst xs"
      "\<And>e1 e2. (e1, e2) \<in> set (zip xs ys) \<Longrightarrow> copied t h1 h1 (snd e1) h2 (snd e2)" by auto
    have b: "b < hp_next h2" "b = hp_next h" using h1(3,4) all(2) by (auto simp: extends_def)
    note put = put_new_cell [OF all(1) b(1), where c = "Cell k ys", folded y(2)]
    have each: "copied t h h (snd e1) h' (snd e2)" if z: "(e1, e2) \<in> set (zip xs ys)" for e1 e2
    proof -
      note c = all(4) [OF z]
      have "\<forall>a \<in> reach t h2 (snd e2). hp_cells h' a = hp_cells h2 a"
        using c h1(4) put(4) by (auto simp: copied_def)
      from frame [OF this] c have "copied t h1 h1 (snd e1) h' (snd e2)" by (simp add: copied_def sees_same_def put(2))
      with copied_from [OF h(1) old h1(2)] set_zip_leftD [OF z] show ?thesis by blast
    qed
    have "extends h h'" using extends_trans [OF h1(2) all(2)] b put(2,4) by (auto simp: extends_def)
    moreover have "copied (TRef k t) h h x h' y"
      unfolding y(1) by (rule copied_ref [OF put(3) _ _ x(4) False x(5) all(3)]) (use b each put(2) in auto)
    ultimately show ?thesis using put(1) by simp
  qed
qed

text \<open>The fields of a struct, one copier each; a field that has none is a plain value.\<close>

lemma map_fst_set_field: "map fst (map (\<lambda>(k, y). (k, if k = n then x else y)) vs) = map fst vs"
  by (induction vs) auto

lemma map_of_set_field:
  "map_of (map (\<lambda>(k, y). (k, if k = n then x else y)) vs) m = (if m = n \<and> n \<in> fst ` set vs then Some x else map_of vs m)"
proof (induction vs)
  case (Cons p vs)
  obtain k y where "p = (k, y)" by (cases p)
  then show ?case by (cases "k = n"; cases "m = k"; simp add: Cons.IH)
qed simp

lemma field_set_field:
  assumes "n \<in> fst ` set vs"
  shows "field m (set_field n x (VStruct vs)) = (if m = n then x else field m (VStruct vs))"
  using assms by (simp add: map_of_set_field)

definition copies_fields :: "(string \<times> gty) list \<Rightarrow> (string \<times> copier) list \<Rightarrow> bool" where
  "copies_fields tys fs \<longleftrightarrow> distinct (map fst fs) \<and> (\<forall>(n, f) \<in> set fs. \<exists>t. (n, t) \<in> set tys \<and> copies t f)"

lemma typed_field: "typed (TStruct tys) h x \<Longrightarrow> (n, t) \<in> set tys \<Longrightarrow> typed t h (field n x)"
  by (auto simp: list_all_iff split: gval.splits)

lemma copy_fields_inv:
  assumes "heap_ok h0" "typed (TStruct tys) h0 x" "distinct (map fst tys)"
    and "copies_fields tys fs" "heap_ok h" "extends h0 h" "map fst vs = map fst tys" "copy_fields fs x (VStruct vs) h = (y, h')"
  shows "heap_ok h' \<and> extends h h' \<and> (\<exists>ws. y = VStruct ws \<and> map fst ws = map fst tys)
    \<and> (\<forall>n. n \<notin> fst ` set fs \<longrightarrow> field n y = field n (VStruct vs))
    \<and> (\<forall>(n, t) \<in> set tys. n \<in> fst ` set fs \<longrightarrow> copied t h0 h0 (field n x) h' (field n y))"
  using assms(4-)
proof (induction fs arbitrary: h vs)
  case (Cons g fs)
  obtain n f where g: "g = (n, f)" by (cases g)
  obtain z h1 where z: "f (field n x) h = (z, h1)" by (cases "f (field n x) h")
  obtain t where t: "(n, t) \<in> set tys" "copies t f" using Cons.prems(1) by (auto simp: copies_fields_def g)
  note x0 = typed_field [OF assms(2) t(1)]
  have x1: "typed t h (field n x)"
    using extends_frame [OF below_next [OF assms(1) x0] Cons.prems(3)] x0 by (simp add: sees_same_def)
  note c = copiesD [OF t(2) Cons.prems(2) x1 z]
  note cz = copied_from [OF assms(1) x0 Cons.prems(3) c(3)]
  let ?vs = "map (\<lambda>(k, y). (k, if k = n then z else y)) vs"
  have fs: "copies_fields tys fs" "n \<notin> fst ` set fs" using Cons.prems(1) by (auto simp: copies_fields_def g image_iff)
  have names: "map fst ?vs = map fst tys" using Cons.prems(4) by (simp only: map_fst_set_field)
  have run: "copy_fields fs x (VStruct ?vs) h1 = (y, h')" using Cons.prems(5) by (simp add: g z)
  note ih = Cons.IH [OF fs(1) c(1) extends_trans [OF Cons.prems(3) c(2)] names run]
  have "n \<in> fst ` set vs" using t(1) Cons.prems(4) by (metis image_eqI fst_conv set_map)
  note upd = field_set_field [OF this, of _ z, unfolded set_field.simps]
  have only: "t' = t" if "(n, t') \<in> set tys" for t' using eq_key_imp_eq_value [OF assms(3) that t(1)] .
  have "field n y = z" using ih fs(2) upd by simp
  then have "copied t h0 h0 (field n x) h' (field n y)" using copied_later [OF cz] ih by simp
  with ih show ?case using extends_trans [OF c(2)] upd only by (auto simp: g)
qed auto

lemma copies_struct:
  assumes "distinct (map fst tys)" "copies_fields tys fs" "\<forall>(n, t) \<in> set tys. n \<in> fst ` set fs \<or> flat t"
  shows "copies (TStruct tys) (copy_struct fs)"
  unfolding copies_def
proof (intro allI impI, elim conjE)
  fix h x h' y assume h: "heap_ok h" "typed (TStruct tys) h x" "copy_struct fs x h = (y, h')"
  obtain vs where vs: "x = VStruct vs" "map fst vs = map fst tys" using h(2) by (auto split: gval.splits)
  have "copy_fields fs x (VStruct vs) h = (y, h')" using h(3) by (simp add: copy_struct_def vs(1))
  note inv = copy_fields_inv [OF h(1,2) assms(1,2) h(1) extends_refl vs(2) this, folded vs(1)]
  have each: "copied t h h (field n x) h' (field n y)" if t: "(n, t) \<in> set tys" for n t
  proof (cases "n \<in> fst ` set fs")
    case False
    then have "flat t" "field n y = field n x" using assms(3) t inv by auto
    with copied_flat [OF h(1) _ typed_field [OF h(2) t]] inv show ?thesis by simp
  qed (use inv t in auto)
  have "typed (TStruct tys) h' y" using inv each by (auto simp: list_all_iff copied_def)
  moreover have "view (TStruct tys) h' y = view (TStruct tys) h x"
    using each by (auto simp: copied_def)
  moreover have "reach (TStruct tys) h' y \<subseteq> {hp_next h ..< hp_next h'}"
  proof
    fix a assume "a \<in> reach (TStruct tys) h' y"
    then obtain n t where "(n, t) \<in> set tys" "a \<in> reach t h' (field n y)" by auto
    with each [of n t] show "a \<in> {hp_next h ..< hp_next h'}" by (auto simp: copied_def)
  qed
  ultimately show "heap_ok h' \<and> extends h h' \<and> copied (TStruct tys) h h x h' y"
    using inv unfolding copied_def by blast
qed

text \<open>The same with conditions that evaluate.\<close>

named_theorems copies_rules \<open>the deep copies of the types\<close>

declare copies_assign [copies_rules] copies_cell [copies_rules] copies_each [copies_rules]

lemma copies_structI:
  assumes "distinct (map fst tys)" "distinct (map fst fs)"
    and "list_all (\<lambda>(n, f). case map_of tys n of Some t \<Rightarrow> copies t f | None \<Rightarrow> False) fs"
    and "list_all (\<lambda>(n, t). flat t \<or> n \<in> set (map fst fs)) tys"
  shows "copies (TStruct tys) (copy_struct fs)"
proof (rule copies_struct [OF assms(1)])
  have "\<exists>t. (n, t) \<in> set tys \<and> copies t f" if "(n, f) \<in> set fs" for n f
    using assms(3) that by (fastforce simp: list_all_iff dest: map_of_SomeD split: option.splits)
  then show "copies_fields tys fs" using assms(2) by (auto simp: copies_fields_def)
qed (use assms(4) in \<open>auto simp: list_all_iff\<close>)

section \<open>What a copy is good for\<close>

text \<open>Whatever is written to the cells of a copy, or to new ones, is not seen in what was there before.\<close>

lemma copies_private:
  assumes "copies t f" "heap_ok h" "typed t h x" "f x h = (y, h')"
    and "\<forall>a. a \<notin> reach t h' y \<longrightarrow> a < hp_next h' \<longrightarrow> hp_cells h'' a = hp_cells h' a"
    and "typed t' h z"
  shows "view t' h'' z = view t' h z"
proof -
  note c = copiesD [OF assms(1-4)]
  have "\<forall>a \<in> reach t' h z. hp_cells h'' a = hp_cells h a"
  proof
    fix a assume "a \<in> reach t' h z"
    with below_next [OF assms(2,6)] have a: "a < hp_next h" by auto
    moreover have "a \<notin> reach t h' y" using c(3) a by (auto simp: copied_def)
    ultimately show "hp_cells h'' a = hp_cells h a" using c(2) assms(5) by (auto simp: extends_def)
  qed
  from frame [OF this] show ?thesis by (simp add: sees_same_def)
qed

text \<open>And the other way round: what is written to the old cells is not seen in the copy.\<close>

lemma copies_own:
  assumes "copies t f" "heap_ok h" "typed t h x" "f x h = (y, h')"
    and "\<forall>a. hp_next h \<le> a \<longrightarrow> a < hp_next h' \<longrightarrow> hp_cells h'' a = hp_cells h' a"
  shows "view t h'' y = view t h x"
proof -
  note c = copiesD [OF assms(1-4)]
  have "\<forall>a \<in> reach t h' y. hp_cells h'' a = hp_cells h' a" using c(3) assms(5) by (auto simp: copied_def)
  from frame [OF this] c(3) show ?thesis by (simp add: sees_same_def copied_def)
qed

text \<open>
  A copy behind a pointer: one new cell for the struct, and everything the struct refers to was made
  later, so that the struct is not among it.
\<close>

lemma copy_each_box:
  assumes "copies t f" "heap_ok h" "typed (TPtr t) h x" "x \<noteq> VRef None" "copy_each f x h = (y, h')"
  obtains n u where "y = VRef (Some (hp_next h))" "hp_cells h' (hp_next h) = Some (Cell KPtr [(n, u)])"
    "typed t h' u" "reach t h' u \<subseteq> {Suc (hp_next h) ..< hp_next h'}"
proof -
  obtain a xs where x: "x = VRef (Some a)" "hp_cells h a = Some (Cell KPtr xs)" "\<forall>e \<in> set xs. typed t h (snd e)"
    "targets KPtr h x = Some (a, xs)" "KPtr = KPtr \<longrightarrow> length xs = 1" by (rule typed_targets [OF assms(3,4)])
  then obtain n e where xs: "xs = [(n, e)]" by (cases xs) auto
  let ?c = "Cell KPtr [(n, VRef None)]"
  obtain b h1 where al: "alloc ?c h = (b, h1)" by (cases "alloc ?c h")
  note h1 = heap_ok_alloc [OF assms(2) al]
  obtain z h2 where z: "f e h1 = (z, h2)" by (cases "f e h1")
  have e: "typed t h e" using x(3) xs by simp
  have "typed t h1 e" using extends_frame [OF below_next [OF assms(2) e] h1(2)] e by (simp add: sees_same_def)
  note c = copiesD [OF assms(1) h1(1) this z]
  have y: "y = VRef (Some b)" "h' = put_cell b (Cell KPtr [(n, z)]) h2" using assms(5) x(1,2) xs al z by (simp_all add: copy_each_def)
  have b: "b < hp_next h2" using h1(3,4) c(2) by (auto simp: extends_def)
  note put = put_new_cell [OF c(1) b, where c = "Cell KPtr [(n, z)]", folded y(2)]
  have "\<forall>a \<in> reach t h2 z. hp_cells h' a = hp_cells h2 a" using c(3) h1(4) put(4) by (auto simp: copied_def)
  from frame [OF this] c(3) have "typed t h' z" "reach t h' z \<subseteq> {Suc b ..< hp_next h'}"
    by (simp_all add: sees_same_def copied_def put(2) h1(4))
  then show thesis using that put(3) y(1) h1(3) by simp
qed

end
