(* ===== verification/Cube_DeepCopy.thy ===== *)
theory Cube_DeepCopy
  imports Cube_Heap Cube_User_Controller
begin

text \<open>
  The deep copies of \<open>k8s/pkg/apis/cube/v1alpha1/zz_generated.deepcopy.go\<close> and of the metadata they
  contain (\<open>zz_generated.deepcopy.go\<close> of \<open>apimachinery/pkg/apis/meta/v1\<close>), on the memory of
  \<open>Cube_Heap\<close>.  For every type there is its layout \<open>T_ty\<close>, \<open>T_DeepCopyInto\<close> with the fields in the
  order of the code, \<open>T_DeepCopy\<close>, and \<open>T_DeepCopyObject\<close> for the kinds.  An instant is a number; it is
  copied by assignment.  At the end \<open>updateUser\<close> of the user controller is run on this memory.
\<close>

section \<open>Metadata\<close>

definition TypeMeta_ty :: gty where
  "TypeMeta_ty = TStruct
    [(''Kind'', TStr), (''APIVersion'', TStr)]"

lemma flat_TypeMeta [simp]: "flat TypeMeta_ty"
  by (simp add: TypeMeta_ty_def)

definition ListMeta_ty :: gty where
  "ListMeta_ty = TStruct
    [(''SelfLink'', TStr), (''ResourceVersion'', TStr), (''Continue'', TStr)]"

lemma flat_ListMeta [simp]: "flat ListMeta_ty"
  by (simp add: ListMeta_ty_def)

definition OwnerReference_ty :: gty where
  "OwnerReference_ty = TStruct
    [(''APIVersion'', TStr), (''Kind'', TStr), (''Name'', TStr), (''UID'', TStr),
     (''Controller'', TPtr TBool), (''BlockOwnerDeletion'', TPtr TBool)]"

definition OwnerReference_DeepCopyInto :: copier where
  "OwnerReference_DeepCopyInto = copy_struct
    [(''Controller'', copy_cell), (''BlockOwnerDeletion'', copy_cell)]"

lemma OwnerReference_copies [copies_rules]: "copies OwnerReference_ty OwnerReference_DeepCopyInto"
  unfolding OwnerReference_ty_def OwnerReference_DeepCopyInto_def by (rule copies_structI) (simp_all add: copies_rules)

definition Initializer_ty :: gty where
  "Initializer_ty = TStruct
    [(''Name'', TStr)]"

lemma flat_Initializer [simp]: "flat Initializer_ty"
  by (simp add: Initializer_ty_def)

definition StatusCause_ty :: gty where
  "StatusCause_ty = TStruct
    [(''Type'', TStr), (''Message'', TStr), (''Field'', TStr)]"

lemma flat_StatusCause [simp]: "flat StatusCause_ty"
  by (simp add: StatusCause_ty_def)

definition StatusDetails_ty :: gty where
  "StatusDetails_ty = TStruct
    [(''Name'', TStr), (''Group'', TStr), (''Kind'', TStr), (''UID'', TStr),
     (''Causes'', TSlice StatusCause_ty), (''RetryAfterSeconds'', TInt)]"

definition StatusDetails_DeepCopyInto :: copier where
  "StatusDetails_DeepCopyInto = copy_struct
    [(''Causes'', copy_cell)]"

lemma StatusDetails_copies [copies_rules]: "copies StatusDetails_ty StatusDetails_DeepCopyInto"
  unfolding StatusDetails_ty_def StatusDetails_DeepCopyInto_def by (rule copies_structI) (simp_all add: copies_rules)

definition Status_ty :: gty where
  "Status_ty = TStruct
    [(''TypeMeta'', TypeMeta_ty), (''ListMeta'', ListMeta_ty), (''Status'', TStr),
     (''Message'', TStr), (''Reason'', TStr), (''Details'', TPtr StatusDetails_ty),
     (''Code'', TInt)]"

definition Status_DeepCopyInto :: copier where
  "Status_DeepCopyInto = copy_struct
    [(''TypeMeta'', assign), (''ListMeta'', assign),
     (''Details'', copy_each StatusDetails_DeepCopyInto)]"

lemma Status_copies [copies_rules]: "copies Status_ty Status_DeepCopyInto"
  unfolding Status_ty_def Status_DeepCopyInto_def by (rule copies_structI) (simp_all add: copies_rules)

definition Initializers_ty :: gty where
  "Initializers_ty = TStruct
    [(''Pending'', TSlice Initializer_ty), (''Result'', TPtr Status_ty)]"

definition Initializers_DeepCopyInto :: copier where
  "Initializers_DeepCopyInto = copy_struct
    [(''Pending'', copy_cell), (''Result'', copy_each Status_DeepCopyInto)]"

lemma Initializers_copies [copies_rules]: "copies Initializers_ty Initializers_DeepCopyInto"
  unfolding Initializers_ty_def Initializers_DeepCopyInto_def by (rule copies_structI) (simp_all add: copies_rules)

definition ObjectMeta_ty :: gty where
  "ObjectMeta_ty = TStruct
    [(''Name'', TStr), (''GenerateName'', TStr), (''Namespace'', TStr), (''SelfLink'', TStr),
     (''UID'', TStr), (''ResourceVersion'', TStr), (''Generation'', TInt),
     (''CreationTimestamp'', TInt), (''DeletionTimestamp'', TPtr TInt),
     (''DeletionGracePeriodSeconds'', TPtr TInt), (''Labels'', TMap TStr),
     (''Annotations'', TMap TStr), (''OwnerReferences'', TSlice OwnerReference_ty),
     (''Initializers'', TPtr Initializers_ty), (''Finalizers'', TSlice TStr),
     (''ClusterName'', TStr)]"

definition ObjectMeta_DeepCopyInto :: copier where
  "ObjectMeta_DeepCopyInto = copy_struct
    [(''CreationTimestamp'', assign), (''DeletionTimestamp'', copy_cell),
     (''DeletionGracePeriodSeconds'', copy_cell), (''Labels'', copy_cell),
     (''Annotations'', copy_cell), (''OwnerReferences'', copy_each OwnerReference_DeepCopyInto),
     (''Initializers'', copy_each Initializers_DeepCopyInto), (''Finalizers'', copy_cell)]"

lemma ObjectMeta_copies [copies_rules]: "copies ObjectMeta_ty ObjectMeta_DeepCopyInto"
  unfolding ObjectMeta_ty_def ObjectMeta_DeepCopyInto_def by (rule copies_structI) (simp_all add: copies_rules)

section \<open>The kinds of the server\<close>

definition Group_ty :: gty where
  "Group_ty = TStruct
    [(''TypeMeta'', TypeMeta_ty), (''ObjectMeta'', ObjectMeta_ty), (''DisplayName'', TStr)]"

definition Group_DeepCopyInto :: copier where
  "Group_DeepCopyInto = copy_struct
    [(''TypeMeta'', assign), (''ObjectMeta'', ObjectMeta_DeepCopyInto)]"

lemma Group_copies [copies_rules]: "copies Group_ty Group_DeepCopyInto"
  unfolding Group_ty_def Group_DeepCopyInto_def by (rule copies_structI) (simp_all add: copies_rules)

definition GroupMember_ty :: gty where
  "GroupMember_ty = TStruct
    [(''TypeMeta'', TypeMeta_ty), (''ObjectMeta'', ObjectMeta_ty), (''GroupName'', TStr),
     (''PrincipalID'', TStr)]"

definition GroupMember_DeepCopyInto :: copier where
  "GroupMember_DeepCopyInto = copy_struct
    [(''TypeMeta'', assign), (''ObjectMeta'', ObjectMeta_DeepCopyInto)]"

lemma GroupMember_copies [copies_rules]: "copies GroupMember_ty GroupMember_DeepCopyInto"
  unfolding GroupMember_ty_def GroupMember_DeepCopyInto_def by (rule copies_structI) (simp_all add: copies_rules)

definition InfraImages_ty :: gty where
  "InfraImages_ty = TStruct
    [(''Dashboard'', TStr), (''LonghornManager'', TStr), (''LonghornEngine'', TStr),
     (''LonghornFlexvolumeDriver'', TStr), (''LonghornUI'', TStr), (''RancherVM'', TStr),
     (''RancherVMFrontend'', TStr)]"

definition InfraImages_DeepCopyInto :: copier where
  "InfraImages_DeepCopyInto = copy_struct []"

lemma flat_InfraImages [simp]: "flat InfraImages_ty"
  by (simp add: InfraImages_ty_def)

lemma InfraImages_copies [copies_rules]: "copies InfraImages_ty InfraImages_DeepCopyInto"
  unfolding InfraImages_ty_def InfraImages_DeepCopyInto_def by (rule copies_structI) (simp_all add: copies_rules)

definition InfraSpec_ty :: gty where
  "InfraSpec_ty = TStruct
    [(''DisplayName'', TStr), (''Description'', TStr), (''Icon'', TStr),
     (''Replicas'', TPtr TInt), (''InfraKind'', TStr), (''Images'', InfraImages_ty)]"

definition InfraSpec_DeepCopyInto :: copier where
  "InfraSpec_DeepCopyInto = copy_struct
    [(''Replicas'', copy_cell), (''Images'', assign)]"

lemma InfraSpec_copies [copies_rules]: "copies InfraSpec_ty InfraSpec_DeepCopyInto"
  unfolding InfraSpec_ty_def InfraSpec_DeepCopyInto_def by (rule copies_structI) (simp_all add: copies_rules)

definition InfraStatus_ty :: gty where
  "InfraStatus_ty = TStruct
    [(''State'', TStr), (''AvailableReplicas'', TInt), (''Message'', TStr)]"

definition InfraStatus_DeepCopyInto :: copier where
  "InfraStatus_DeepCopyInto = copy_struct []"

lemma flat_InfraStatus [simp]: "flat InfraStatus_ty"
  by (simp add: InfraStatus_ty_def)

lemma InfraStatus_copies [copies_rules]: "copies InfraStatus_ty InfraStatus_DeepCopyInto"
  unfolding InfraStatus_ty_def InfraStatus_DeepCopyInto_def by (rule copies_structI) (simp_all add: copies_rules)

definition Infrastructure_ty :: gty where
  "Infrastructure_ty = TStruct
    [(''TypeMeta'', TypeMeta_ty), (''ObjectMeta'', ObjectMeta_ty), (''Spec'', InfraSpec_ty),
     (''Status'', InfraStatus_ty)]"

definition Infrastructure_DeepCopyInto :: copier where
  "Infrastructure_DeepCopyInto = copy_struct
    [(''TypeMeta'', assign), (''ObjectMeta'', ObjectMeta_DeepCopyInto),
     (''Spec'', InfraSpec_DeepCopyInto), (''Status'', assign)]"

lemma Infrastructure_copies [copies_rules]: "copies Infrastructure_ty Infrastructure_DeepCopyInto"
  unfolding Infrastructure_ty_def Infrastructure_DeepCopyInto_def by (rule copies_structI) (simp_all add: copies_rules)

definition AuthConfig_ty :: gty where
  "AuthConfig_ty = TStruct
    [(''TypeMeta'', TypeMeta_ty), (''ObjectMeta'', ObjectMeta_ty), (''Type'', TStr),
     (''Enabled'', TBool), (''AccessMode'', TStr), (''AllowedPrincipalIDs'', TSlice TStr)]"

definition AuthConfig_DeepCopyInto :: copier where
  "AuthConfig_DeepCopyInto = copy_struct
    [(''TypeMeta'', assign), (''ObjectMeta'', ObjectMeta_DeepCopyInto),
     (''AllowedPrincipalIDs'', copy_cell)]"

lemma AuthConfig_copies [copies_rules]: "copies AuthConfig_ty AuthConfig_DeepCopyInto"
  unfolding AuthConfig_ty_def AuthConfig_DeepCopyInto_def by (rule copies_structI) (simp_all add: copies_rules)

definition LocalConfig_ty :: gty where
  "LocalConfig_ty = TStruct
    [(''TypeMeta'', TypeMeta_ty), (''ObjectMeta'', ObjectMeta_ty),
     (''AuthConfig'', AuthConfig_ty)]"

definition LocalConfig_DeepCopyInto :: copier where
  "LocalConfig_DeepCopyInto = copy_struct
    [(''TypeMeta'', assign), (''ObjectMeta'', ObjectMeta_DeepCopyInto),
     (''AuthConfig'', AuthConfig_DeepCopyInto)]"

lemma LocalConfig_copies [copies_rules]: "copies LocalConfig_ty LocalConfig_DeepCopyInto"
  unfolding LocalConfig_ty_def LocalConfig_DeepCopyInto_def by (rule copies_structI) (simp_all add: copies_rules)

definition Principal_ty :: gty where
  "Principal_ty = TStruct
    [(''TypeMeta'', TypeMeta_ty), (''ObjectMeta'', ObjectMeta_ty), (''DisplayName'', TStr),
     (''LoginName'', TStr), (''ProfilePicture'', TStr), (''ProfileURL'', TStr),
     (''PrincipalType'', TStr), (''Me'', TBool), (''MemberOf'', TBool), (''Provider'', TStr),
     (''ExtraInfo'', TMap TStr)]"

definition Principal_DeepCopyInto :: copier where
  "Principal_DeepCopyInto = copy_struct
    [(''TypeMeta'', assign), (''ObjectMeta'', ObjectMeta_DeepCopyInto),
     (''ExtraInfo'', copy_cell)]"

lemma Principal_copies [copies_rules]: "copies Principal_ty Principal_DeepCopyInto"
  unfolding Principal_ty_def Principal_DeepCopyInto_def by (rule copies_structI) (simp_all add: copies_rules)

definition Token_ty :: gty where
  "Token_ty = TStruct
    [(''TypeMeta'', TypeMeta_ty), (''ObjectMeta'', ObjectMeta_ty), (''Token'', TStr),
     (''UserPrincipal'', Principal_ty), (''GroupPrincipals'', TSlice Principal_ty),
     (''ProviderInfo'', TMap TStr), (''UserID'', TStr), (''AuthProvider'', TStr),
     (''TTLMillis'', TInt), (''LastUpdateTime'', TStr), (''IsDerived'', TBool),
     (''Description'', TStr), (''Expired'', TBool), (''ExpiresAt'', TStr)]"

definition Token_DeepCopyInto :: copier where
  "Token_DeepCopyInto = copy_struct
    [(''TypeMeta'', assign), (''ObjectMeta'', ObjectMeta_DeepCopyInto),
     (''UserPrincipal'', Principal_DeepCopyInto),
     (''GroupPrincipals'', copy_each Principal_DeepCopyInto), (''ProviderInfo'', copy_cell)]"

lemma Token_copies [copies_rules]: "copies Token_ty Token_DeepCopyInto"
  unfolding Token_ty_def Token_DeepCopyInto_def by (rule copies_structI) (simp_all add: copies_rules)

definition User_ty :: gty where
  "User_ty = TStruct
    [(''TypeMeta'', TypeMeta_ty), (''ObjectMeta'', ObjectMeta_ty), (''DisplayName'', TStr),
     (''Description'', TStr), (''Username'', TStr), (''Password'', TStr),
     (''MustChangePassword'', TBool), (''PrincipalIDs'', TSlice TStr), (''Me'', TBool)]"

definition User_DeepCopyInto :: copier where
  "User_DeepCopyInto = copy_struct
    [(''TypeMeta'', assign), (''ObjectMeta'', ObjectMeta_DeepCopyInto),
     (''PrincipalIDs'', copy_cell)]"

lemma User_copies [copies_rules]: "copies User_ty User_DeepCopyInto"
  unfolding User_ty_def User_DeepCopyInto_def by (rule copies_structI) (simp_all add: copies_rules)

section \<open>Lists\<close>

definition GroupList_ty :: gty where
  "GroupList_ty = TStruct
    [(''TypeMeta'', TypeMeta_ty), (''ListMeta'', ListMeta_ty), (''Items'', TSlice Group_ty)]"

definition GroupList_DeepCopyInto :: copier where
  "GroupList_DeepCopyInto = copy_struct
    [(''TypeMeta'', assign), (''ListMeta'', assign), (''Items'', copy_each Group_DeepCopyInto)]"

lemma GroupList_copies [copies_rules]: "copies GroupList_ty GroupList_DeepCopyInto"
  unfolding GroupList_ty_def GroupList_DeepCopyInto_def by (rule copies_structI) (simp_all add: copies_rules)

definition GroupMemberList_ty :: gty where
  "GroupMemberList_ty = TStruct
    [(''TypeMeta'', TypeMeta_ty), (''ListMeta'', ListMeta_ty),
     (''Items'', TSlice GroupMember_ty)]"

definition GroupMemberList_DeepCopyInto :: copier where
  "GroupMemberList_DeepCopyInto = copy_struct
    [(''TypeMeta'', assign), (''ListMeta'', assign),
     (''Items'', copy_each GroupMember_DeepCopyInto)]"

lemma GroupMemberList_copies [copies_rules]: "copies GroupMemberList_ty GroupMemberList_DeepCopyInto"
  unfolding GroupMemberList_ty_def GroupMemberList_DeepCopyInto_def by (rule copies_structI) (simp_all add: copies_rules)

definition InfrastructureList_ty :: gty where
  "InfrastructureList_ty = TStruct
    [(''TypeMeta'', TypeMeta_ty), (''ListMeta'', ListMeta_ty),
     (''Items'', TSlice Infrastructure_ty)]"

definition InfrastructureList_DeepCopyInto :: copier where
  "InfrastructureList_DeepCopyInto = copy_struct
    [(''TypeMeta'', assign), (''ListMeta'', assign),
     (''Items'', copy_each Infrastructure_DeepCopyInto)]"

lemma InfrastructureList_copies [copies_rules]: "copies InfrastructureList_ty InfrastructureList_DeepCopyInto"
  unfolding InfrastructureList_ty_def InfrastructureList_DeepCopyInto_def by (rule copies_structI) (simp_all add: copies_rules)

definition LocalConfigList_ty :: gty where
  "LocalConfigList_ty = TStruct
    [(''TypeMeta'', TypeMeta_ty), (''ListMeta'', ListMeta_ty),
     (''Items'', TSlice LocalConfig_ty)]"

definition LocalConfigList_DeepCopyInto :: copier where
  "LocalConfigList_DeepCopyInto = copy_struct
    [(''TypeMeta'', assign), (''ListMeta'', assign),
     (''Items'', copy_each LocalConfig_DeepCopyInto)]"

lemma LocalConfigList_copies [copies_rules]: "copies LocalConfigList_ty LocalConfigList_DeepCopyInto"
  unfolding LocalConfigList_ty_def LocalConfigList_DeepCopyInto_def by (rule copies_structI) (simp_all add: copies_rules)

definition PrincipalList_ty :: gty where
  "PrincipalList_ty = TStruct
    [(''TypeMeta'', TypeMeta_ty), (''ListMeta'', ListMeta_ty), (''Items'', TSlice Principal_ty)]"

definition PrincipalList_DeepCopyInto :: copier where
  "PrincipalList_DeepCopyInto = copy_struct
    [(''TypeMeta'', assign), (''ListMeta'', assign),
     (''Items'', copy_each Principal_DeepCopyInto)]"

lemma PrincipalList_copies [copies_rules]: "copies PrincipalList_ty PrincipalList_DeepCopyInto"
  unfolding PrincipalList_ty_def PrincipalList_DeepCopyInto_def by (rule copies_structI) (simp_all add: copies_rules)

definition TokenList_ty :: gty where
  "TokenList_ty = TStruct
    [(''TypeMeta'', TypeMeta_ty), (''ListMeta'', ListMeta_ty), (''Items'', TSlice Token_ty)]"

definition TokenList_DeepCopyInto :: copier where
  "TokenList_DeepCopyInto = copy_struct
    [(''TypeMeta'', assign), (''ListMeta'', assign), (''Items'', copy_each Token_DeepCopyInto)]"

lemma TokenList_copies [copies_rules]: "copies TokenList_ty TokenList_DeepCopyInto"
  unfolding TokenList_ty_def TokenList_DeepCopyInto_def by (rule copies_structI) (simp_all add: copies_rules)

definition UserList_ty :: gty where
  "UserList_ty = TStruct
    [(''TypeMeta'', TypeMeta_ty), (''ListMeta'', ListMeta_ty), (''Items'', TSlice User_ty)]"

definition UserList_DeepCopyInto :: copier where
  "UserList_DeepCopyInto = copy_struct
    [(''TypeMeta'', assign), (''ListMeta'', assign), (''Items'', copy_each User_DeepCopyInto)]"

lemma UserList_copies [copies_rules]: "copies UserList_ty UserList_DeepCopyInto"
  unfolding UserList_ty_def UserList_DeepCopyInto_def by (rule copies_structI) (simp_all add: copies_rules)

section \<open>Copies behind a pointer\<close>

text \<open>\<open>DeepCopy\<close>: \<open>nil\<close> for \<open>nil\<close>, otherwise a \<open>new\<close> value filled by \<open>DeepCopyInto\<close>.\<close>

definition Group_DeepCopy :: copier where
  "Group_DeepCopy = copy_each Group_DeepCopyInto"

definition GroupMember_DeepCopy :: copier where
  "GroupMember_DeepCopy = copy_each GroupMember_DeepCopyInto"

definition InfraImages_DeepCopy :: copier where
  "InfraImages_DeepCopy = copy_each InfraImages_DeepCopyInto"

definition InfraSpec_DeepCopy :: copier where
  "InfraSpec_DeepCopy = copy_each InfraSpec_DeepCopyInto"

definition InfraStatus_DeepCopy :: copier where
  "InfraStatus_DeepCopy = copy_each InfraStatus_DeepCopyInto"

definition Infrastructure_DeepCopy :: copier where
  "Infrastructure_DeepCopy = copy_each Infrastructure_DeepCopyInto"

definition AuthConfig_DeepCopy :: copier where
  "AuthConfig_DeepCopy = copy_each AuthConfig_DeepCopyInto"

definition LocalConfig_DeepCopy :: copier where
  "LocalConfig_DeepCopy = copy_each LocalConfig_DeepCopyInto"

definition Principal_DeepCopy :: copier where
  "Principal_DeepCopy = copy_each Principal_DeepCopyInto"

definition Token_DeepCopy :: copier where
  "Token_DeepCopy = copy_each Token_DeepCopyInto"

definition User_DeepCopy :: copier where
  "User_DeepCopy = copy_each User_DeepCopyInto"

definition GroupList_DeepCopy :: copier where
  "GroupList_DeepCopy = copy_each GroupList_DeepCopyInto"

definition GroupMemberList_DeepCopy :: copier where
  "GroupMemberList_DeepCopy = copy_each GroupMemberList_DeepCopyInto"

definition InfrastructureList_DeepCopy :: copier where
  "InfrastructureList_DeepCopy = copy_each InfrastructureList_DeepCopyInto"

definition LocalConfigList_DeepCopy :: copier where
  "LocalConfigList_DeepCopy = copy_each LocalConfigList_DeepCopyInto"

definition PrincipalList_DeepCopy :: copier where
  "PrincipalList_DeepCopy = copy_each PrincipalList_DeepCopyInto"

definition TokenList_DeepCopy :: copier where
  "TokenList_DeepCopy = copy_each TokenList_DeepCopyInto"

definition UserList_DeepCopy :: copier where
  "UserList_DeepCopy = copy_each UserList_DeepCopyInto"

text \<open>
  \<open>DeepCopyObject\<close>: the copy as an interface value, which is \<open>nil\<close> itself for a \<open>nil\<close> pointer and
  not an interface that holds one.
\<close>

definition as_object :: "copier \<Rightarrow> gval \<Rightarrow> go_heap \<Rightarrow> gval option \<times> go_heap" where
  "as_object f x h = (case f x h of (c, h1) \<Rightarrow> (if c \<noteq> VRef None then Some c else None, h1))"

definition Group_DeepCopyObject :: "gval \<Rightarrow> go_heap \<Rightarrow> gval option \<times> go_heap" where
  "Group_DeepCopyObject = as_object Group_DeepCopy"

definition GroupMember_DeepCopyObject :: "gval \<Rightarrow> go_heap \<Rightarrow> gval option \<times> go_heap" where
  "GroupMember_DeepCopyObject = as_object GroupMember_DeepCopy"

definition Infrastructure_DeepCopyObject :: "gval \<Rightarrow> go_heap \<Rightarrow> gval option \<times> go_heap" where
  "Infrastructure_DeepCopyObject = as_object Infrastructure_DeepCopy"

definition LocalConfig_DeepCopyObject :: "gval \<Rightarrow> go_heap \<Rightarrow> gval option \<times> go_heap" where
  "LocalConfig_DeepCopyObject = as_object LocalConfig_DeepCopy"

definition Principal_DeepCopyObject :: "gval \<Rightarrow> go_heap \<Rightarrow> gval option \<times> go_heap" where
  "Principal_DeepCopyObject = as_object Principal_DeepCopy"

definition Token_DeepCopyObject :: "gval \<Rightarrow> go_heap \<Rightarrow> gval option \<times> go_heap" where
  "Token_DeepCopyObject = as_object Token_DeepCopy"

definition User_DeepCopyObject :: "gval \<Rightarrow> go_heap \<Rightarrow> gval option \<times> go_heap" where
  "User_DeepCopyObject = as_object User_DeepCopy"

definition GroupList_DeepCopyObject :: "gval \<Rightarrow> go_heap \<Rightarrow> gval option \<times> go_heap" where
  "GroupList_DeepCopyObject = as_object GroupList_DeepCopy"

definition GroupMemberList_DeepCopyObject :: "gval \<Rightarrow> go_heap \<Rightarrow> gval option \<times> go_heap" where
  "GroupMemberList_DeepCopyObject = as_object GroupMemberList_DeepCopy"

definition InfrastructureList_DeepCopyObject :: "gval \<Rightarrow> go_heap \<Rightarrow> gval option \<times> go_heap" where
  "InfrastructureList_DeepCopyObject = as_object InfrastructureList_DeepCopy"

definition LocalConfigList_DeepCopyObject :: "gval \<Rightarrow> go_heap \<Rightarrow> gval option \<times> go_heap" where
  "LocalConfigList_DeepCopyObject = as_object LocalConfigList_DeepCopy"

definition PrincipalList_DeepCopyObject :: "gval \<Rightarrow> go_heap \<Rightarrow> gval option \<times> go_heap" where
  "PrincipalList_DeepCopyObject = as_object PrincipalList_DeepCopy"

definition TokenList_DeepCopyObject :: "gval \<Rightarrow> go_heap \<Rightarrow> gval option \<times> go_heap" where
  "TokenList_DeepCopyObject = as_object TokenList_DeepCopy"

definition UserList_DeepCopyObject :: "gval \<Rightarrow> go_heap \<Rightarrow> gval option \<times> go_heap" where
  "UserList_DeepCopyObject = as_object UserList_DeepCopy"

definition deep_copies :: "(gty \<times> copier) list" where
  "deep_copies =
    [(Group_ty, Group_DeepCopy), (GroupMember_ty, GroupMember_DeepCopy),
     (InfraImages_ty, InfraImages_DeepCopy), (InfraSpec_ty, InfraSpec_DeepCopy),
     (InfraStatus_ty, InfraStatus_DeepCopy), (Infrastructure_ty, Infrastructure_DeepCopy),
     (AuthConfig_ty, AuthConfig_DeepCopy), (LocalConfig_ty, LocalConfig_DeepCopy),
     (Principal_ty, Principal_DeepCopy), (Token_ty, Token_DeepCopy), (User_ty, User_DeepCopy),
     (GroupList_ty, GroupList_DeepCopy), (GroupMemberList_ty, GroupMemberList_DeepCopy),
     (InfrastructureList_ty, InfrastructureList_DeepCopy),
     (LocalConfigList_ty, LocalConfigList_DeepCopy), (PrincipalList_ty, PrincipalList_DeepCopy),
     (TokenList_ty, TokenList_DeepCopy), (UserList_ty, UserList_DeepCopy)]"

definition deep_copy_objects :: "(gty \<times> copier \<times> (gval \<Rightarrow> go_heap \<Rightarrow> gval option \<times> go_heap)) list" where
  "deep_copy_objects =
    [(Group_ty, Group_DeepCopy, Group_DeepCopyObject),
     (GroupMember_ty, GroupMember_DeepCopy, GroupMember_DeepCopyObject),
     (Infrastructure_ty, Infrastructure_DeepCopy, Infrastructure_DeepCopyObject),
     (LocalConfig_ty, LocalConfig_DeepCopy, LocalConfig_DeepCopyObject),
     (Principal_ty, Principal_DeepCopy, Principal_DeepCopyObject),
     (Token_ty, Token_DeepCopy, Token_DeepCopyObject),
     (User_ty, User_DeepCopy, User_DeepCopyObject),
     (GroupList_ty, GroupList_DeepCopy, GroupList_DeepCopyObject),
     (GroupMemberList_ty, GroupMemberList_DeepCopy, GroupMemberList_DeepCopyObject),
     (InfrastructureList_ty, InfrastructureList_DeepCopy, InfrastructureList_DeepCopyObject),
     (LocalConfigList_ty, LocalConfigList_DeepCopy, LocalConfigList_DeepCopyObject),
     (PrincipalList_ty, PrincipalList_DeepCopy, PrincipalList_DeepCopyObject),
     (TokenList_ty, TokenList_DeepCopy, TokenList_DeepCopyObject),
     (UserList_ty, UserList_DeepCopy, UserList_DeepCopyObject)]"

lemmas DeepCopy_defs = Group_DeepCopy_def GroupMember_DeepCopy_def InfraImages_DeepCopy_def InfraSpec_DeepCopy_def
  InfraStatus_DeepCopy_def Infrastructure_DeepCopy_def AuthConfig_DeepCopy_def
  LocalConfig_DeepCopy_def Principal_DeepCopy_def Token_DeepCopy_def User_DeepCopy_def
  GroupList_DeepCopy_def GroupMemberList_DeepCopy_def InfrastructureList_DeepCopy_def
  LocalConfigList_DeepCopy_def PrincipalList_DeepCopy_def TokenList_DeepCopy_def
  UserList_DeepCopy_def

lemmas DeepCopyObject_defs = Group_DeepCopyObject_def GroupMember_DeepCopyObject_def Infrastructure_DeepCopyObject_def
  LocalConfig_DeepCopyObject_def Principal_DeepCopyObject_def Token_DeepCopyObject_def
  User_DeepCopyObject_def GroupList_DeepCopyObject_def GroupMemberList_DeepCopyObject_def
  InfrastructureList_DeepCopyObject_def LocalConfigList_DeepCopyObject_def
  PrincipalList_DeepCopyObject_def TokenList_DeepCopyObject_def UserList_DeepCopyObject_def

lemma deep_copies_copies: "list_all (\<lambda>(t, f). copies (TPtr t) f) deep_copies"
  by (simp add: deep_copies_def DeepCopy_defs copies_rules)

section \<open>What every copy promises\<close>

lemma deep_copies_in: "(t, f) \<in> set deep_copies \<Longrightarrow> copies (TPtr t) f"
  using deep_copies_copies by (auto simp: list_all_iff)

text \<open>
  C14. Deep copies are deep.  For every type of the API group the copy looks like the original, and whatever is written to the copy, or to memory that is
  allocated later, is seen through nothing that existed before.
\<close>

theorem deep_copies_independent:
  assumes "(t, f) \<in> set deep_copies" "heap_ok h" "typed (TPtr t) h x" "f x h = (y, h')"
  shows "view (TPtr t) h' y = view (TPtr t) h x \<and>
    (\<forall>h'' t' z. typed t' h z
       \<and> (\<forall>a. a \<notin> reach (TPtr t) h' y \<longrightarrow> a < hp_next h' \<longrightarrow> hp_cells h'' a = hp_cells h' a)
       \<longrightarrow> view t' h'' z = view t' h z)"
  using copiesD(3) [OF deep_copies_in [OF assms(1)] assms(2-)]
    copies_private [OF deep_copies_in [OF assms(1)] assms(2-)]
  by (auto simp: copied_def)

text \<open>The pointer that a copy returns is nil exactly for nil.\<close>

lemma copy_nil:
  assumes "copies (TPtr t) f" "heap_ok h" "typed (TPtr t) h x" "f x h = (y, h')"
  shows "y = VRef None \<longleftrightarrow> x = VRef None"
  using copiesD(3) [OF assms] assms(3)
  by (auto simp: copied_def split: option.splits if_splits)

lemma deep_copy_objects_same:
  "list_all (\<lambda>(t, f, g). (t, f) \<in> set deep_copies \<and> g = as_object f) deep_copy_objects"
  by (simp add: deep_copy_objects_def deep_copies_def DeepCopyObject_defs)

lemma deep_copy_object_nil:
  assumes "(t, f, g) \<in> set deep_copy_objects" "heap_ok h" "typed (TPtr t) h x"
  shows "g x h = (if x = VRef None then (None, snd (f x h)) else (Some (fst (f x h)), snd (f x h)))"
proof -
  have g: "(t, f) \<in> set deep_copies" "g = as_object f" using deep_copy_objects_same assms(1) by (auto simp: list_all_iff)
  obtain y h' where "f x h = (y, h')" by (cases "f x h")
  with copy_nil [OF deep_copies_in [OF g(1)] assms(2,3) this] show ?thesis by (auto simp: g(2) as_object_def)
qed

section \<open>The object behind a value\<close>

fun dfield :: "string \<Rightarrow> dval \<Rightarrow> dval" where
  "dfield n (DStruct fs) = (case map_of fs n of None \<Rightarrow> DBad | Some x \<Rightarrow> x)"
| "dfield n _ = DBad"

fun dstr :: "dval \<Rightarrow> string" where "dstr (DStr s) = s" | "dstr _ = []"
fun dbool :: "dval \<Rightarrow> bool" where "dbool (DBool b) = b" | "dbool _ = False"
fun dint :: "dval \<Rightarrow> int" where "dint (DInt i) = i" | "dint _ = 0"
fun dlist :: "dval \<Rightarrow> (string \<times> dval) list" where "dlist (DRef k xs) = xs" | "dlist _ = []"

definition dptr :: "(dval \<Rightarrow> 'a) \<Rightarrow> dval \<Rightarrow> 'a option" where
  "dptr f v = (case dlist v of [] \<Rightarrow> None | e # _ \<Rightarrow> Some (f (snd e)))"

definition owner_of :: "dval \<Rightarrow> owner_reference" where
  "owner_of v = \<lparr>or_APIVersion = dstr (dfield ''APIVersion'' v), or_Kind = dstr (dfield ''Kind'' v),
     or_Name = dstr (dfield ''Name'' v), or_UID = dstr (dfield ''UID'' v),
     or_BlockOwnerDeletion = dptr dbool (dfield ''BlockOwnerDeletion'' v),
     or_Controller = dptr dbool (dfield ''Controller'' v)\<rparr>"

definition meta_of :: "dval \<Rightarrow> object_meta" where
  "meta_of v = \<lparr>om_Name = dstr (dfield ''Name'' v), om_GenerateName = dstr (dfield ''GenerateName'' v),
     om_Namespace = dstr (dfield ''Namespace'' v), om_UID = dstr (dfield ''UID'' v),
     om_ResourceVersion = dstr (dfield ''ResourceVersion'' v),
     om_CreationTimestamp = dint (dfield ''CreationTimestamp'' v),
     om_DeletionTimestamp = dptr dint (dfield ''DeletionTimestamp'' v),
     om_Labels = map (\<lambda>e. (fst e, dstr (snd e))) (dlist (dfield ''Labels'' v)),
     om_OwnerReferences = map (\<lambda>e. owner_of (snd e)) (dlist (dfield ''OwnerReferences'' v))\<rparr>"

definition user_of :: "dval \<Rightarrow> user" where
  "user_of v = \<lparr>u_meta = meta_of (dfield ''ObjectMeta'' v), u_DisplayName = dstr (dfield ''DisplayName'' v),
     u_Description = dstr (dfield ''Description'' v), u_Username = dstr (dfield ''Username'' v),
     u_Password = dstr (dfield ''Password'' v),
     u_MustChangePassword = dbool (dfield ''MustChangePassword'' v),
     u_PrincipalIDs = map (\<lambda>e. dstr (snd e)) (dlist (dfield ''PrincipalIDs'' v)),
     u_Me = dbool (dfield ''Me'' v)\<rparr>"

text \<open>The user at the end of a pointer.\<close>

definition user_at :: "go_heap \<Rightarrow> gval \<Rightarrow> user option" where
  "user_at h x = dptr user_of (view (TPtr User_ty) h x)"

section \<open>updateUser in memory\<close>

definition slice_strings :: "go_heap \<Rightarrow> gval \<Rightarrow> string list" where
  "slice_strings h v = (case targets KSlice h v of
     Some (_, xs) \<Rightarrow> map (\<lambda>e. case snd e of VStr s \<Rightarrow> s | _ \<Rightarrow> []) xs | None \<Rightarrow> [])"

text \<open>
  \<open>append\<close> to a slice without spare capacity, which the slice of a fresh copy is
  (\<open>make([]string, len(*in))\<close>, or nil): a new array.
\<close>

definition append_string :: "gval \<Rightarrow> string \<Rightarrow> go_heap \<Rightarrow> gval \<times> go_heap" where
  "append_string v i h =
     (case alloc (Elems (map VStr (slice_strings h v @ [i]))) h of (b, h1) \<Rightarrow> (VRef (Some b), h1))"

text \<open>What \<open>updateUser\<close> does before it sends the copy; the nil pointer panics.\<close>

definition updateUser_memory :: "string \<Rightarrow> gval \<Rightarrow> go_heap \<Rightarrow> (gval \<times> go_heap) option" where
  "updateUser_memory i x h =
     (case User_DeepCopy x h of (userCopy, h1) \<Rightarrow>
        (case targets KPtr h1 userCopy of
           Some (a, [(n, u)]) \<Rightarrow>
             (let ids = field ''PrincipalIDs'' u in
              if last_index i (- 1) (slice_strings h1 ids) 0 = - 1
              then (case append_string ids i h1 of (s, h2) \<Rightarrow>
                Some (userCopy, put_cell a (Cell KPtr [(n, set_field ''PrincipalIDs'' s u)]) h2))
              else Some (userCopy, h1))
         | _ \<Rightarrow> None))"

lemma dlist_strings: "map (\<lambda>e. dstr (snd e)) (dlist (view (TSlice TStr) h v)) = slice_strings h v"
  by (auto simp: slice_strings_def split: option.splits gval.splits)

text \<open>A user seen through its type: one view for every field.\<close>

lemma dfield_view:
  assumes "(n, t) \<in> set tys" "distinct (map fst tys)"
  shows "dfield n (view (TStruct tys) h v) = view t h (field n v)"
proof -
  have "map fst (map (\<lambda>(n, t). (n, view t h (field n v))) tys) = map fst tys" by (induction tys) auto
  then have "distinct (map fst (map (\<lambda>(n, t). (n, view t h (field n v))) tys))" using assms(2) by (simp only:)
  moreover have "(n, view t h (field n v)) \<in> set (map (\<lambda>(n, t). (n, view t h (field n v))) tys)"
    using assms(1) by (auto intro!: image_eqI [of _ _ "(n, t)"])
  ultimately have "map_of (map (\<lambda>(n, t). (n, view t h (field n v))) tys) n = Some (view t h (field n v))"
    by (rule map_of_is_SomeI)
  then show ?thesis by simp
qed

definition User_fields :: "(string \<times> gty) list" where
  "User_fields = (case User_ty of TStruct tys \<Rightarrow> tys | _ \<Rightarrow> [])"

lemma User_ty_eq: "User_ty = TStruct User_fields"
  by (simp add: User_fields_def User_ty_def)

lemma User_fields_distinct: "distinct (map fst User_fields)"
  by (simp add: User_fields_def User_ty_def)

lemma User_fields_ids: "(''PrincipalIDs'', TSlice TStr) \<in> set User_fields"
  by (simp add: User_fields_def User_ty_def)

lemma user_of_same:
  assumes "\<forall>(n, t) \<in> set User_fields. n \<noteq> ''PrincipalIDs'' \<longrightarrow> view t h' (field n u') = view t h (field n u)"
  shows "user_of (view User_ty h' u') = (user_of (view User_ty h u))
    \<lparr>u_PrincipalIDs := slice_strings h' (field ''PrincipalIDs'' u')\<rparr>"
proof -
  have "dfield n (view User_ty h' u') = dfield n (view User_ty h u)" if "(n, t) \<in> set User_fields" "n \<noteq> ''PrincipalIDs''" for n t
    unfolding User_ty_eq dfield_view [OF that(1) User_fields_distinct] using assms that by fastforce
  note same = this [of "''ObjectMeta''"] this [of "''DisplayName''"] this [of "''Description''"] this [of "''Username''"]
    this [of "''Password''"] this [of "''MustChangePassword''"] this [of "''Me''"]
  have "dfield ''PrincipalIDs'' (view User_ty h' u') = view (TSlice TStr) h' (field ''PrincipalIDs'' u')"
    unfolding User_ty_eq by (rule dfield_view [OF _ User_fields_distinct]) (rule User_fields_ids)
  with same show ?thesis by (simp add: user_of_def dlist_strings User_fields_def User_ty_def del: view.simps)
qed

lemma user_ids: "u_PrincipalIDs (user_of (view User_ty h u)) = slice_strings h (field ''PrincipalIDs'' u)"
  by (subst user_of_same [of h u h u]) auto

lemma user_at_box:
  assumes "hp_cells h a = Some (Cell KPtr [(n, u)])"
  shows "user_at h (VRef (Some a)) = Some (user_of (view User_ty h u))"
  using assms by (simp add: user_at_def dptr_def targets_def)

text \<open>
  C13. The user controller leaves the cache alone.  The code warns never to modify an object of the store;
  \<open>updateUser\<close> edits a deep copy in place.  On the memory of the process that edit is the edit of the
  model on the user, and nothing that was there before is seen to change, the cached user included.
\<close>

theorem updateUser_memory_refines:
  assumes "heap_ok h" "typed (TPtr User_ty) h x" "x \<noteq> VRef None"
  shows "\<exists>y h'. updateUser_memory i x h = Some (y, h')
    \<and> user_at h' y = map_option (with_principal_id i) (user_at h x)
    \<and> (\<forall>t z. typed t h z \<longrightarrow> view t h' z = view t h z)"
proof -
  obtain c h1 where c: "User_DeepCopy x h = (c, h1)" by (cases "User_DeepCopy x h")
  note cp = deep_copies_in [of User_ty User_DeepCopy, unfolded deep_copies_def, simplified]
  note ok = copiesD [OF cp assms(1,2) c]
  let ?a = "hp_next h"
  obtain n u where box: "c = VRef (Some ?a)" "hp_cells h1 ?a = Some (Cell KPtr [(n, u)])"
    "typed User_ty h1 u" "reach User_ty h1 u \<subseteq> {Suc ?a ..< hp_next h1}"
    by (rule copy_each_box [OF User_copies assms c [unfolded User_DeepCopy_def]])
  have seen: "user_at h x = Some (user_of (view User_ty h1 u))"
    using user_at_box [OF box(2)] ok(3) by (simp add: user_at_def copied_def box(1))
  have tg: "targets KPtr h1 c = Some (?a, [(n, u)])" using box(1,2) by (simp add: targets_def)
  let ?ids = "field ''PrincipalIDs'' u"
  have old: "view t h1 z = view t h z" if "typed t h z" for t z
    using copies_private [OF cp assms(1,2) c _ that] by simp
  show ?thesis
  proof (cases "i \<in> set (slice_strings h1 ?ids)")
    case True
    then have "updateUser_memory i x h = Some (c, h1)"
      by (simp add: updateUser_memory_def c tg last_index_found Let_def)
    moreover have "user_at h1 c = map_option (with_principal_id i) (user_at h x)"
      using True by (simp add: seen box(1) user_at_box [OF box(2)] with_principal_id_def user_ids)
    ultimately show ?thesis using old by blast
  next
    case False
    obtain s h2 where s: "append_string ?ids i h1 = (s, h2)" by (cases "append_string ?ids i h1")
    let ?u = "set_field ''PrincipalIDs'' s u"
    let ?h = "put_cell ?a (Cell KPtr [(n, ?u)]) h2"
    have run: "updateUser_memory i x h = Some (c, ?h)"
      using False by (simp add: updateUser_memory_def c tg last_index_found Let_def s)
    have new: "s = VRef (Some (hp_next h1))" "hp_cells h2 = (hp_cells h1)(hp_next h1 \<mapsto> Elems (map VStr (slice_strings h1 ?ids @ [i])))"
      using s by (auto simp: append_string_def alloc_def)
    have a: "?a < hp_next h1" using box(2) ok(1) by (auto simp: heap_ok_def not_le [symmetric])
    have cells: "hp_cells ?h b = hp_cells h1 b" if "b \<noteq> ?a" "b < hp_next h1" for b
      using that new(2) by (simp add: put_cell_def)
    have fields: "field m ?u = (if m = ''PrincipalIDs'' then s else field m u)" for m
    proof -
      obtain vs where "u = VStruct vs" "map fst vs = map fst User_fields" using box(3) by (auto simp: User_ty_eq split: gval.splits)
      moreover from this(2) have "''PrincipalIDs'' \<in> fst ` set vs" by (metis User_fields_ids image_eqI fst_conv set_map)
      ultimately show ?thesis using field_set_field by blast
    qed
    have "view t ?h (field m ?u) = view t h1 (field m u)" if "(m, t) \<in> set User_fields" "m \<noteq> ''PrincipalIDs''" for m t
    proof -
      have "reach t h1 (field m u) \<subseteq> reach User_ty h1 u" using that(1) by (auto simp: User_ty_eq)
      then have "\<forall>b \<in> reach t h1 (field m u). hp_cells ?h b = hp_cells h1 b" using box(4) cells by fastforce
      from frame [OF this] that(2) show ?thesis by (simp add: sees_same_def fields)
    qed
    then have "user_of (view User_ty ?h ?u) = (user_of (view User_ty h1 u))\<lparr>u_PrincipalIDs := slice_strings ?h s\<rparr>"
      using user_of_same [of ?h ?u h1 u] by (auto simp: fields)
    moreover have "slice_strings ?h s = slice_strings h1 ?ids @ [i]"
      using a new by (simp add: slice_strings_def targets_def put_cell_def comp_def)
    moreover have "hp_cells ?h ?a = Some (Cell KPtr [(n, ?u)])" by (simp add: put_cell_def)
    ultimately have "user_at ?h c = map_option (with_principal_id i) (user_at h x)"
      using False by (simp add: seen box(1) user_at_box with_principal_id_def user_ids)
    moreover have "view t ?h z = view t h z" if "typed t h z" for t z
    proof (rule copies_private [OF cp assms(1,2) c _ that])
      have "?a \<in> reach (TPtr User_ty) h1 c" by (simp add: box(1))
      then show "\<forall>b. b \<notin> reach (TPtr User_ty) h1 c \<longrightarrow> b < hp_next h1 \<longrightarrow> hp_cells ?h b = hp_cells h1 b" using cells by metis
    qed
    ultimately show ?thesis using run by blast
  qed
qed

section \<open>A user in memory\<close>

fun zero_gval :: "gty \<Rightarrow> gval" where
  "zero_gval TStr = VStr []"
| "zero_gval TBool = VBool False"
| "zero_gval TInt = VInt 0"
| "zero_gval (TStruct tys) = VStruct (map (\<lambda>(n, t). (n, zero_gval t)) tys)"
| "zero_gval (TRef k t) = VRef None"

definition sample_heap :: go_heap where
  "sample_heap = \<lparr>hp_cells = [0 \<mapsto> Boxed (set_field ''PrincipalIDs'' (VRef (Some 1)) (zero_gval User_ty)), 1 \<mapsto> Elems [VStr ''p'']],
     hp_next = 2\<rparr>"

lemma sample_heap_ok: "heap_ok sample_heap"
  by (auto simp: heap_ok_def sample_heap_def)

lemma sample_heap_typed: "typed (TPtr User_ty) sample_heap (VRef (Some 0))"
  by (simp add: sample_heap_def targets_def User_ty_def ObjectMeta_ty_def TypeMeta_ty_def)

lemma sample_heap_user: "map_option u_PrincipalIDs (user_at sample_heap (VRef (Some 0))) = Some [''p'']"
proof -
  have "hp_cells sample_heap 0 = Some (Cell KPtr [([], set_field ''PrincipalIDs'' (VRef (Some 1)) (zero_gval User_ty))])"
    by (simp add: sample_heap_def)
  moreover have "slice_strings sample_heap (field ''PrincipalIDs'' (set_field ''PrincipalIDs'' (VRef (Some 1)) (zero_gval User_ty))) = [''p'']"
    by (simp add: slice_strings_def targets_def sample_heap_def User_ty_def)
  ultimately show ?thesis by (simp only: user_at_box option.map user_ids)
qed

theorem deep_copies_independent_witness:
  "view (TPtr User_ty) (snd (User_DeepCopy (VRef (Some 0)) sample_heap)) (fst (User_DeepCopy (VRef (Some 0)) sample_heap))
     = view (TPtr User_ty) sample_heap (VRef (Some 0))"
proof -
  have "(User_ty, User_DeepCopy) \<in> set deep_copies" by (simp add: deep_copies_def)
  from deep_copies_independent [OF this sample_heap_ok sample_heap_typed surjective_pairing]
  show ?thesis by simp
qed

theorem updateUser_memory_refines_witness:
  "\<exists>y h'. updateUser_memory ''q'' (VRef (Some 0)) sample_heap = Some (y, h')
     \<and> map_option u_PrincipalIDs (user_at h' y) = Some [''p'', ''q'']
     \<and> map_option u_PrincipalIDs (user_at h' (VRef (Some 0))) = Some [''p'']"
proof -
  obtain y h' where r: "updateUser_memory ''q'' (VRef (Some 0)) sample_heap = Some (y, h')"
    "user_at h' y = map_option (with_principal_id ''q'') (user_at sample_heap (VRef (Some 0)))"
    "\<forall>t z. typed t sample_heap z \<longrightarrow> view t h' z = view t sample_heap z"
    using updateUser_memory_refines [OF sample_heap_ok sample_heap_typed, of "''q''"] by blast
  have "user_at h' (VRef (Some 0)) = user_at sample_heap (VRef (Some 0))"
    using r(3) [rule_format, OF sample_heap_typed] by (simp only: user_at_def)
  moreover obtain z where "user_at sample_heap (VRef (Some 0)) = Some z" "u_PrincipalIDs z = [''p'']"
    using sample_heap_user by auto
  ultimately show ?thesis using r(1,2) by (simp add: with_principal_id_def)
qed

end
