(* ===== verification/Cube_Requests.thy ===== *)
theory Cube_Requests
  imports Cube_Api
begin

text \<open>
  The typed clients of the cube API group (\<open>k8s/pkg/client/clientset/versioned/typed/cube/v1alpha1\<close>) at
  the level of the requests they send: every method of the seven clients is a chain of calls on the
  request builder of \<open>client-go/rest/request.go\<close>, which keeps the first error until the request is sent.
  The object that is sent or comes back, the query options and the patch stay values; encoding them is
  left to the libraries.  The lemmas relate the requests to the checks of \<open>Cube_Api\<close> and show which
  object a URL names.
\<close>

section \<open>The request builder\<close>

record list_options =
  lo_LabelSelector :: string
  lo_FieldSelector :: string
  lo_IncludeUninitialized :: bool
  lo_Watch :: bool
  lo_ResourceVersion :: string
  lo_TimeoutSeconds :: "int64 option"
  lo_Limit :: int64
  lo_Continue :: string

record get_options =
  go_ResourceVersion :: string
  go_IncludeUninitialized :: bool

datatype query = QGet get_options | QList list_options

text \<open>The options of a deletion are a pointer; only whether it is nil matters to the builder.\<close>

datatype ('x, 'd) request_body = BObject 'x | BDeleteOptions "'d option" | BPatch string string

record ('x, 'd) request =
  rq_verb :: string
  rq_pathPrefix :: "string list"
  rq_namespace :: string
  rq_namespaceSet :: bool
  rq_resource :: string
  rq_resourceName :: string
  rq_subresource :: "string list"
  rq_params :: "query list"
  rq_err :: "go_error option"
  rq_body :: "('x, 'd) request_body option"

text \<open>
  \<open>path.Join\<close> on a rooted path, which is kept as its elements: empty elements and single dots are
  dropped, and two dots take the last element away.
\<close>

fun clean_onto :: "string list \<Rightarrow> string list \<Rightarrow> string list" where
  "clean_onto p [] = p"
| "clean_onto p (s # ss) =
     (if s = [] \<or> s = ''.'' then clean_onto p ss
      else if s = ''..'' then clean_onto (butlast p) ss
      else clean_onto (p @ [s]) ss)"

definition path_Join :: "string list \<Rightarrow> string list \<Rightarrow> string list" where
  "path_Join p elems = clean_onto p (concat (map (split_on CHR ''/'') elems))"

definition path_string :: "string list \<Rightarrow> string" where
  "path_string p = (if p = [] then ''/'' else concat (map (\<lambda>s. CHR ''/'' # s) p))"

definition DefaultVersionedAPIPath :: "string \<Rightarrow> string \<Rightarrow> string \<Rightarrow> string list" where
  "DefaultVersionedAPIPath apiPath grp version =
     (let versionedAPIPath = path_Join [] [apiPath] in
      if 0 < length grp then path_Join versionedAPIPath [grp, version]
      else path_Join versionedAPIPath [version])"

text \<open>The client of the group, set up by \<open>setConfigDefaults\<close>; the server's address is left out.\<close>

definition cube_path :: "string list" where
  "cube_path = DefaultVersionedAPIPath ''/apis'' ''cube.rancher.io'' ''v1alpha1''"

definition new_request :: "string \<Rightarrow> ('x, 'd) request" where
  "new_request verb =
     \<lparr>rq_verb = verb, rq_pathPrefix = cube_path, rq_namespace = [], rq_namespaceSet = False,
      rq_resource = [], rq_resourceName = [], rq_subresource = [], rq_params = [], rq_err = None, rq_body = None\<rparr>"

definition req_fail :: "string \<Rightarrow> string list \<Rightarrow> ('x, 'd) request \<Rightarrow> ('x, 'd) request" where
  "req_fail f xs r = r\<lparr>rq_err := Some (Errorf f xs)\<rparr>"

definition req_Namespace :: "string \<Rightarrow> ('x, 'd) request \<Rightarrow> ('x, 'd) request" where
  "req_Namespace ns r =
     (if rq_err r \<noteq> None then r
      else if rq_namespaceSet r
        then req_fail ''namespace already set to %q, cannot change to %q'' [rq_namespace r, ns] r
      else if \<not> path_segment_ok ns then req_fail ''invalid namespace %q: %v'' [ns] r
      else r\<lparr>rq_namespaceSet := True, rq_namespace := ns\<rparr>)"

definition req_Resource :: "string \<Rightarrow> ('x, 'd) request \<Rightarrow> ('x, 'd) request" where
  "req_Resource res r =
     (if rq_err r \<noteq> None then r
      else if rq_resource r \<noteq> []
        then req_fail ''resource already set to %q, cannot change to %q'' [rq_resource r, res] r
      else if \<not> path_segment_ok res then req_fail ''invalid resource %q: %v'' [res] r
      else r\<lparr>rq_resource := res\<rparr>)"

definition req_Name :: "string \<Rightarrow> ('x, 'd) request \<Rightarrow> ('x, 'd) request" where
  "req_Name name r =
     (if rq_err r \<noteq> None then r
      else if name = [] then req_fail ''resource name may not be empty'' [] r
      else if rq_resourceName r \<noteq> []
        then req_fail ''resource name already set to %q, cannot change to %q'' [rq_resourceName r, name] r
      else if \<not> path_segment_ok name then req_fail ''invalid resource name %q: %v'' [name] r
      else r\<lparr>rq_resourceName := name\<rparr>)"

text \<open>The elements that are not empty; the builder keeps them joined.\<close>

definition req_SubResource :: "string list \<Rightarrow> ('x, 'd) request \<Rightarrow> ('x, 'd) request" where
  "req_SubResource subs r =
     (if rq_err r \<noteq> None then r
      else if rq_subresource r \<noteq> []
        then req_fail ''subresource already set to %q, cannot change to %q'' [rq_resource r] r
      else (case filter (\<lambda>s. \<not> path_segment_ok s) subs of
          s # _ \<Rightarrow> req_fail ''invalid subresource %q: %v'' [s] r
        | [] \<Rightarrow> r\<lparr>rq_subresource := filter (\<lambda>s. s \<noteq> []) subs\<rparr>))"

definition req_VersionedParams :: "query \<Rightarrow> ('x, 'd) request \<Rightarrow> ('x, 'd) request" where
  "req_VersionedParams q r = (if rq_err r \<noteq> None then r else r\<lparr>rq_params := rq_params r @ [q]\<rparr>)"

definition req_Body :: "('x, 'd) request_body \<Rightarrow> ('x, 'd) request \<Rightarrow> ('x, 'd) request" where
  "req_Body b r = (if rq_err r \<noteq> None \<or> b = BDeleteOptions None then r else r\<lparr>rq_body := Some b\<rparr>)"

definition request_URL :: "('x, 'd) request \<Rightarrow> string list" where
  "request_URL r =
     (let p = rq_pathPrefix r;
          p = (if rq_namespaceSet r \<and> rq_namespace r \<noteq> [] then path_Join p [''namespaces'', rq_namespace r] else p);
          p = (if rq_resource r \<noteq> [] then path_Join p [map ascii_lower (rq_resource r)] else p)
      in if rq_resourceName r \<noteq> [] \<or> rq_subresource r \<noteq> []
         then path_Join p (rq_resourceName r # rq_subresource r) else p)"

text \<open>What \<open>Do\<close> looks at before anything is sent.\<close>

definition request_check :: "('x, 'd) request \<Rightarrow> go_error option" where
  "request_check r =
     (if rq_err r \<noteq> None then rq_err r
      else if rq_verb r \<in> {''GET'', ''PUT'', ''DELETE''} \<and> rq_namespaceSet r \<and> rq_resourceName r \<noteq> [] \<and> rq_namespace r = []
        then Some (Errorf ''an empty namespace may not be set when a resource name is provided'' [])
      else if rq_verb r = ''POST'' \<and> rq_namespaceSet r \<and> rq_namespace r = []
        then Some (Errorf ''an empty namespace may not be set during creation'' [])
      else None)"

section \<open>The clients\<close>

record ('x, 'd) client_requests =
  cl_Get :: "string \<Rightarrow> get_options \<Rightarrow> ('x, 'd) request"
  cl_List :: "list_options \<Rightarrow> ('x, 'd) request"
  cl_Watch :: "list_options \<Rightarrow> ('x, 'd) request"
  cl_Create :: "'x \<Rightarrow> ('x, 'd) request"
  cl_Update :: "'x \<Rightarrow> ('x, 'd) request"
  cl_Delete :: "string \<Rightarrow> 'd option \<Rightarrow> ('x, 'd) request"
  cl_DeleteCollection :: "'d option \<Rightarrow> list_options \<Rightarrow> ('x, 'd) request"
  cl_Patch :: "string \<Rightarrow> string \<Rightarrow> string \<Rightarrow> string list \<Rightarrow> ('x, 'd) request"

definition groups_client :: "string \<Rightarrow> (group, 'd) client_requests" where
  "groups_client ns = \<lparr>
     cl_Get = (\<lambda>name options. req_VersionedParams (QGet options) (req_Name name
       (req_Resource ''groups'' (req_Namespace ns (new_request ''GET''))))),
     cl_List = (\<lambda>opts. req_VersionedParams (QList opts)
       (req_Resource ''groups'' (req_Namespace ns (new_request ''GET'')))),
     cl_Watch = (\<lambda>opts. req_VersionedParams (QList (opts\<lparr>lo_Watch := True\<rparr>))
       (req_Resource ''groups'' (req_Namespace ns (new_request ''GET'')))),
     cl_Create = (\<lambda>x. req_Body (BObject x)
       (req_Resource ''groups'' (req_Namespace ns (new_request ''POST'')))),
     cl_Update = (\<lambda>x. req_Body (BObject x) (req_Name (om_Name (g_meta x))
       (req_Resource ''groups'' (req_Namespace ns (new_request ''PUT''))))),
     cl_Delete = (\<lambda>name options. req_Body (BDeleteOptions options) (req_Name name
       (req_Resource ''groups'' (req_Namespace ns (new_request ''DELETE''))))),
     cl_DeleteCollection = (\<lambda>options listOptions. req_Body (BDeleteOptions options)
       (req_VersionedParams (QList listOptions)
       (req_Resource ''groups'' (req_Namespace ns (new_request ''DELETE''))))),
     cl_Patch = (\<lambda>name pt data subresources. req_Body (BPatch pt data) (req_Name name
       (req_SubResource subresources (req_Resource ''groups'' (req_Namespace ns (new_request ''PATCH'')))))) \<rparr>"

definition groupMembers_client :: "string \<Rightarrow> (group_member, 'd) client_requests" where
  "groupMembers_client ns = \<lparr>
     cl_Get = (\<lambda>name options. req_VersionedParams (QGet options) (req_Name name
       (req_Resource ''groupmembers'' (req_Namespace ns (new_request ''GET''))))),
     cl_List = (\<lambda>opts. req_VersionedParams (QList opts)
       (req_Resource ''groupmembers'' (req_Namespace ns (new_request ''GET'')))),
     cl_Watch = (\<lambda>opts. req_VersionedParams (QList (opts\<lparr>lo_Watch := True\<rparr>))
       (req_Resource ''groupmembers'' (req_Namespace ns (new_request ''GET'')))),
     cl_Create = (\<lambda>x. req_Body (BObject x)
       (req_Resource ''groupmembers'' (req_Namespace ns (new_request ''POST'')))),
     cl_Update = (\<lambda>x. req_Body (BObject x) (req_Name (om_Name (gm_meta x))
       (req_Resource ''groupmembers'' (req_Namespace ns (new_request ''PUT''))))),
     cl_Delete = (\<lambda>name options. req_Body (BDeleteOptions options) (req_Name name
       (req_Resource ''groupmembers'' (req_Namespace ns (new_request ''DELETE''))))),
     cl_DeleteCollection = (\<lambda>options listOptions. req_Body (BDeleteOptions options)
       (req_VersionedParams (QList listOptions)
       (req_Resource ''groupmembers'' (req_Namespace ns (new_request ''DELETE''))))),
     cl_Patch = (\<lambda>name pt data subresources. req_Body (BPatch pt data) (req_Name name
       (req_SubResource subresources (req_Resource ''groupmembers'' (req_Namespace ns (new_request ''PATCH'')))))) \<rparr>"

definition infrastructures_client :: "string \<Rightarrow> (infrastructure, 'd) client_requests" where
  "infrastructures_client ns = \<lparr>
     cl_Get = (\<lambda>name options. req_VersionedParams (QGet options) (req_Name name
       (req_Resource ''infrastructures'' (req_Namespace ns (new_request ''GET''))))),
     cl_List = (\<lambda>opts. req_VersionedParams (QList opts)
       (req_Resource ''infrastructures'' (req_Namespace ns (new_request ''GET'')))),
     cl_Watch = (\<lambda>opts. req_VersionedParams (QList (opts\<lparr>lo_Watch := True\<rparr>))
       (req_Resource ''infrastructures'' (req_Namespace ns (new_request ''GET'')))),
     cl_Create = (\<lambda>x. req_Body (BObject x)
       (req_Resource ''infrastructures'' (req_Namespace ns (new_request ''POST'')))),
     cl_Update = (\<lambda>x. req_Body (BObject x) (req_Name (om_Name (i_meta x))
       (req_Resource ''infrastructures'' (req_Namespace ns (new_request ''PUT''))))),
     cl_Delete = (\<lambda>name options. req_Body (BDeleteOptions options) (req_Name name
       (req_Resource ''infrastructures'' (req_Namespace ns (new_request ''DELETE''))))),
     cl_DeleteCollection = (\<lambda>options listOptions. req_Body (BDeleteOptions options)
       (req_VersionedParams (QList listOptions)
       (req_Resource ''infrastructures'' (req_Namespace ns (new_request ''DELETE''))))),
     cl_Patch = (\<lambda>name pt data subresources. req_Body (BPatch pt data) (req_Name name
       (req_SubResource subresources (req_Resource ''infrastructures'' (req_Namespace ns (new_request ''PATCH'')))))) \<rparr>"

definition localConfigs_client :: "string \<Rightarrow> (local_config, 'd) client_requests" where
  "localConfigs_client ns = \<lparr>
     cl_Get = (\<lambda>name options. req_VersionedParams (QGet options) (req_Name name
       (req_Resource ''localconfigs'' (req_Namespace ns (new_request ''GET''))))),
     cl_List = (\<lambda>opts. req_VersionedParams (QList opts)
       (req_Resource ''localconfigs'' (req_Namespace ns (new_request ''GET'')))),
     cl_Watch = (\<lambda>opts. req_VersionedParams (QList (opts\<lparr>lo_Watch := True\<rparr>))
       (req_Resource ''localconfigs'' (req_Namespace ns (new_request ''GET'')))),
     cl_Create = (\<lambda>x. req_Body (BObject x)
       (req_Resource ''localconfigs'' (req_Namespace ns (new_request ''POST'')))),
     cl_Update = (\<lambda>x. req_Body (BObject x) (req_Name (om_Name (lc_meta x))
       (req_Resource ''localconfigs'' (req_Namespace ns (new_request ''PUT''))))),
     cl_Delete = (\<lambda>name options. req_Body (BDeleteOptions options) (req_Name name
       (req_Resource ''localconfigs'' (req_Namespace ns (new_request ''DELETE''))))),
     cl_DeleteCollection = (\<lambda>options listOptions. req_Body (BDeleteOptions options)
       (req_VersionedParams (QList listOptions)
       (req_Resource ''localconfigs'' (req_Namespace ns (new_request ''DELETE''))))),
     cl_Patch = (\<lambda>name pt data subresources. req_Body (BPatch pt data) (req_Name name
       (req_SubResource subresources (req_Resource ''localconfigs'' (req_Namespace ns (new_request ''PATCH'')))))) \<rparr>"

definition principals_client :: "string \<Rightarrow> (principal, 'd) client_requests" where
  "principals_client ns = \<lparr>
     cl_Get = (\<lambda>name options. req_VersionedParams (QGet options) (req_Name name
       (req_Resource ''principals'' (req_Namespace ns (new_request ''GET''))))),
     cl_List = (\<lambda>opts. req_VersionedParams (QList opts)
       (req_Resource ''principals'' (req_Namespace ns (new_request ''GET'')))),
     cl_Watch = (\<lambda>opts. req_VersionedParams (QList (opts\<lparr>lo_Watch := True\<rparr>))
       (req_Resource ''principals'' (req_Namespace ns (new_request ''GET'')))),
     cl_Create = (\<lambda>x. req_Body (BObject x)
       (req_Resource ''principals'' (req_Namespace ns (new_request ''POST'')))),
     cl_Update = (\<lambda>x. req_Body (BObject x) (req_Name (om_Name (p_meta x))
       (req_Resource ''principals'' (req_Namespace ns (new_request ''PUT''))))),
     cl_Delete = (\<lambda>name options. req_Body (BDeleteOptions options) (req_Name name
       (req_Resource ''principals'' (req_Namespace ns (new_request ''DELETE''))))),
     cl_DeleteCollection = (\<lambda>options listOptions. req_Body (BDeleteOptions options)
       (req_VersionedParams (QList listOptions)
       (req_Resource ''principals'' (req_Namespace ns (new_request ''DELETE''))))),
     cl_Patch = (\<lambda>name pt data subresources. req_Body (BPatch pt data) (req_Name name
       (req_SubResource subresources (req_Resource ''principals'' (req_Namespace ns (new_request ''PATCH'')))))) \<rparr>"

definition tokens_client :: "string \<Rightarrow> (token, 'd) client_requests" where
  "tokens_client ns = \<lparr>
     cl_Get = (\<lambda>name options. req_VersionedParams (QGet options) (req_Name name
       (req_Resource ''tokens'' (req_Namespace ns (new_request ''GET''))))),
     cl_List = (\<lambda>opts. req_VersionedParams (QList opts)
       (req_Resource ''tokens'' (req_Namespace ns (new_request ''GET'')))),
     cl_Watch = (\<lambda>opts. req_VersionedParams (QList (opts\<lparr>lo_Watch := True\<rparr>))
       (req_Resource ''tokens'' (req_Namespace ns (new_request ''GET'')))),
     cl_Create = (\<lambda>x. req_Body (BObject x)
       (req_Resource ''tokens'' (req_Namespace ns (new_request ''POST'')))),
     cl_Update = (\<lambda>x. req_Body (BObject x) (req_Name (om_Name (t_meta x))
       (req_Resource ''tokens'' (req_Namespace ns (new_request ''PUT''))))),
     cl_Delete = (\<lambda>name options. req_Body (BDeleteOptions options) (req_Name name
       (req_Resource ''tokens'' (req_Namespace ns (new_request ''DELETE''))))),
     cl_DeleteCollection = (\<lambda>options listOptions. req_Body (BDeleteOptions options)
       (req_VersionedParams (QList listOptions)
       (req_Resource ''tokens'' (req_Namespace ns (new_request ''DELETE''))))),
     cl_Patch = (\<lambda>name pt data subresources. req_Body (BPatch pt data) (req_Name name
       (req_SubResource subresources (req_Resource ''tokens'' (req_Namespace ns (new_request ''PATCH'')))))) \<rparr>"

definition users_client :: "string \<Rightarrow> (user, 'd) client_requests" where
  "users_client ns = \<lparr>
     cl_Get = (\<lambda>name options. req_VersionedParams (QGet options) (req_Name name
       (req_Resource ''users'' (req_Namespace ns (new_request ''GET''))))),
     cl_List = (\<lambda>opts. req_VersionedParams (QList opts)
       (req_Resource ''users'' (req_Namespace ns (new_request ''GET'')))),
     cl_Watch = (\<lambda>opts. req_VersionedParams (QList (opts\<lparr>lo_Watch := True\<rparr>))
       (req_Resource ''users'' (req_Namespace ns (new_request ''GET'')))),
     cl_Create = (\<lambda>x. req_Body (BObject x)
       (req_Resource ''users'' (req_Namespace ns (new_request ''POST'')))),
     cl_Update = (\<lambda>x. req_Body (BObject x) (req_Name (om_Name (u_meta x))
       (req_Resource ''users'' (req_Namespace ns (new_request ''PUT''))))),
     cl_Delete = (\<lambda>name options. req_Body (BDeleteOptions options) (req_Name name
       (req_Resource ''users'' (req_Namespace ns (new_request ''DELETE''))))),
     cl_DeleteCollection = (\<lambda>options listOptions. req_Body (BDeleteOptions options)
       (req_VersionedParams (QList listOptions)
       (req_Resource ''users'' (req_Namespace ns (new_request ''DELETE''))))),
     cl_Patch = (\<lambda>name pt data subresources. req_Body (BPatch pt data) (req_Name name
       (req_SubResource subresources (req_Resource ''users'' (req_Namespace ns (new_request ''PATCH'')))))) \<rparr>"

lemmas client_defs = groups_client_def groupMembers_client_def infrastructures_client_def localConfigs_client_def
  principals_client_def tokens_client_def users_client_def

lemmas builder_defs = new_request_def req_Namespace_def req_Resource_def req_Name_def req_SubResource_def
  req_VersionedParams_def req_Body_def req_fail_def

section \<open>The checks\<close>

text \<open>A client sends the requests of a resource exactly when the model's checks let them pass.\<close>

definition checked_as :: "resource \<Rightarrow> string \<Rightarrow> ('x \<Rightarrow> string) \<Rightarrow> ('x, 'd) client_requests \<Rightarrow> bool" where
  "checked_as r ns name cl \<longleftrightarrow>
     (\<forall>n. (\<forall>options. request_check (cl_Get cl n options) = rest_error GET r ns (Some n))
       \<and> (\<forall>options. request_check (cl_Delete cl n options) = rest_error DELETE r ns (Some n)))
     \<and> (\<forall>x. request_check (cl_Create cl x) = rest_error POST r ns None
       \<and> request_check (cl_Update cl x) = rest_error PUT r ns (Some (name x)))
     \<and> (\<forall>opts. request_check (cl_List cl opts) = rest_error GET r ns None)"

lemma segment_ok_resource [simp]:
  "path_segment_ok ''groups''" "path_segment_ok ''groupmembers''" "path_segment_ok ''infrastructures''"
  "path_segment_ok ''localconfigs''" "path_segment_ok ''principals''" "path_segment_ok ''tokens''" "path_segment_ok ''users''"
  by (simp_all add: path_segment_ok_def)

text \<open>What the seven clients have in common: everything but the name of the resource.\<close>

definition api_client :: "string \<Rightarrow> ('x \<Rightarrow> string) \<Rightarrow> string \<Rightarrow> ('x, 'd) client_requests \<Rightarrow> bool" where
  "api_client res name ns cl \<longleftrightarrow> (let base = (\<lambda>verb. req_Resource res (req_Namespace ns (new_request verb))) in
     (\<forall>n o'. cl_Get cl n o' = req_VersionedParams (QGet o') (req_Name n (base ''GET'')))
     \<and> (\<forall>o'. cl_List cl o' = req_VersionedParams (QList o') (base ''GET''))
     \<and> (\<forall>o'. cl_Watch cl o' = req_VersionedParams (QList (o'\<lparr>lo_Watch := True\<rparr>)) (base ''GET''))
     \<and> (\<forall>x. cl_Create cl x = req_Body (BObject x) (base ''POST''))
     \<and> (\<forall>x. cl_Update cl x = req_Body (BObject x) (req_Name (name x) (base ''PUT'')))
     \<and> (\<forall>n o'. cl_Delete cl n o' = req_Body (BDeleteOptions o') (req_Name n (base ''DELETE''))))"

lemma clients_api:
  "api_client ''groups'' (\<lambda>x. om_Name (g_meta x)) ns (groups_client ns)"
  "api_client ''groupmembers'' (\<lambda>x. om_Name (gm_meta x)) ns (groupMembers_client ns)"
  "api_client ''infrastructures'' (\<lambda>x. om_Name (i_meta x)) ns (infrastructures_client ns)"
  "api_client ''localconfigs'' (\<lambda>x. om_Name (lc_meta x)) ns (localConfigs_client ns)"
  "api_client ''principals'' (\<lambda>x. om_Name (p_meta x)) ns (principals_client ns)"
  "api_client ''tokens'' (\<lambda>x. om_Name (t_meta x)) ns (tokens_client ns)"
  "api_client ''users'' (\<lambda>x. om_Name (u_meta x)) ns (users_client ns)"
  by (simp_all add: api_client_def client_defs)

text \<open>The base of a request, and its name.\<close>

lemma base_request:
  assumes "path_segment_ok res" "res \<noteq> []"
  shows "req_Resource res (req_Namespace ns (new_request verb)) =
    (if path_segment_ok ns then (new_request verb)\<lparr>rq_namespaceSet := True, rq_namespace := ns, rq_resource := res\<rparr>
     else (new_request verb)\<lparr>rq_err := Some (Errorf ''invalid namespace %q: %v'' [ns])\<rparr>)"
  using assms by (simp add: builder_defs)

lemma check_params [simp]: "request_check (req_VersionedParams q r) = request_check r"
  by (auto simp: request_check_def req_VersionedParams_def)

lemma check_body [simp]: "request_check (req_Body b r) = request_check r"
  by (auto simp: request_check_def req_Body_def)

lemma check_list:
  assumes "path_segment_ok res" "res \<noteq> []" "namespaced r"
  shows "request_check (req_Resource res (req_Namespace ns (new_request ''GET''))) = rest_error GET r ns None"
    "request_check (req_Resource res (req_Namespace ns (new_request ''POST''))) = rest_error POST r ns None"
  unfolding base_request [OF assms(1,2)] using assms(3) by (simp_all add: request_check_def rest_error_def new_request_def)

lemma check_named:
  assumes "path_segment_ok res" "res \<noteq> []" "namespaced r" "(verb, v) \<in> {(''GET'', GET), (''PUT'', PUT), (''DELETE'', DELETE)}"
  shows "request_check (req_Name n (req_Resource res (req_Namespace ns (new_request verb)))) = rest_error v r ns (Some n)"
proof -
  have v: "verb \<in> {''GET'', ''PUT'', ''DELETE''}" "v \<noteq> POST" "verb \<noteq> ''POST''" using assms(4) by auto
  show ?thesis unfolding base_request [OF assms(1,2)]
    by (cases "path_segment_ok ns"; cases "n = []"; cases "path_segment_ok n"; cases "ns = []")
      (use assms(3) v in \<open>simp_all add: request_check_def rest_error_def new_request_def req_Name_def req_fail_def\<close>)
qed

lemma api_client_checked:
  fixes cl :: "('x, 'd) client_requests"
  assumes "api_client res name ns cl" "path_segment_ok res" "res \<noteq> []" "namespaced r"
  shows "checked_as r ns name cl"
proof -
  have "request_check (req_Name n (req_Resource res (req_Namespace ns (new_request ''GET''))) :: ('x, 'd) request) = rest_error GET r ns (Some n)"
    "request_check (req_Name n (req_Resource res (req_Namespace ns (new_request ''PUT''))) :: ('x, 'd) request) = rest_error PUT r ns (Some n)"
    "request_check (req_Name n (req_Resource res (req_Namespace ns (new_request ''DELETE''))) :: ('x, 'd) request) = rest_error DELETE r ns (Some n)" for n
    by (rule check_named [OF assms(2-4)], simp)+
  then show ?thesis using assms(1) check_list [OF assms(2-4), of ns] by (simp add: checked_as_def api_client_def Let_def)
qed

text \<open>
  The checks of the model are those of the clients.  For the seven kinds of the group every
  request of the typed client is refused before it is sent exactly when, and with the error with which,
  the model's request is.
\<close>

theorem clients_checked:
  "checked_as RUsers ns (\<lambda>x. om_Name (u_meta x)) (users_client ns)
   \<and> checked_as RPrincipals ns (\<lambda>x. om_Name (p_meta x)) (principals_client ns)
   \<and> checked_as RTokens ns (\<lambda>x. om_Name (t_meta x)) (tokens_client ns)
   \<and> checked_as RInfrastructures ns (\<lambda>x. om_Name (i_meta x)) (infrastructures_client ns)
   \<and> checked_as RGroups ns (\<lambda>x. om_Name (g_meta x)) (groups_client ns)
   \<and> checked_as RGroupMembers ns (\<lambda>x. om_Name (gm_meta x)) (groupMembers_client ns)
   \<and> checked_as RLocalConfigs ns (\<lambda>x. om_Name (lc_meta x)) (localConfigs_client ns)"
  by (intro conjI api_client_checked [OF clients_api(7)] api_client_checked [OF clients_api(5)]
    api_client_checked [OF clients_api(6)] api_client_checked [OF clients_api(3)] api_client_checked [OF clients_api(1)]
    api_client_checked [OF clients_api(2)] api_client_checked [OF clients_api(4)]) simp_all

section \<open>Which object a URL names\<close>

definition sent :: "('x, 'd) request \<Rightarrow> go_error option \<times> string" where
  "sent r = (request_check r, path_string (request_URL r))"

text \<open>The requests for one object: to read it and to delete it.\<close>

definition sent_for :: "('x, unit) client_requests \<Rightarrow> string \<Rightarrow> get_options \<Rightarrow> unit option \<Rightarrow> (go_error option \<times> string) list" where
  "sent_for cl n options d = [sent (cl_Get cl n options), sent (cl_Delete cl n d)]"

definition cube_named :: "(string \<times> (string \<Rightarrow> string \<Rightarrow> get_options \<Rightarrow> unit option \<Rightarrow> (go_error option \<times> string) list)) list" where
  "cube_named =
    [(''groups'', \<lambda>ns. sent_for (groups_client ns)), (''groupmembers'', \<lambda>ns. sent_for (groupMembers_client ns)),
     (''infrastructures'', \<lambda>ns. sent_for (infrastructures_client ns)), (''localconfigs'', \<lambda>ns. sent_for (localConfigs_client ns)),
     (''principals'', \<lambda>ns. sent_for (principals_client ns)), (''tokens'', \<lambda>ns. sent_for (tokens_client ns)),
     (''users'', \<lambda>ns. sent_for (users_client ns))]"

text \<open>Reading the URL of a named object back.\<close>

definition parse_URL :: "string \<Rightarrow> (string \<times> string \<times> string) option" where
  "parse_URL u =
     (case split_on CHR ''/'' u of
        [e, apis, grp, version, namespaces, ns, res, n] \<Rightarrow>
          if [e, apis, grp, version, namespaces] = [[], ''apis'', ''cube.rancher.io'', ''v1alpha1'', ''namespaces'']
          then Some (res, ns, n) else None
      | _ \<Rightarrow> None)"

lemma path_Join_ok:
  assumes "\<forall>s \<in> set ss. s \<noteq> [] \<and> path_segment_ok s"
  shows "path_Join p ss = p @ ss"
proof -
  have c: "concat (map (split_on CHR ''/'') ss) = ss"
    using assms by (induction ss) (auto simp: path_segment_ok_def split_on_no_sep)
  have "clean_onto p ss = p @ ss" using assms by (induction ss arbitrary: p) (auto simp: path_segment_ok_def)
  then show ?thesis by (simp add: path_Join_def c)
qed

lemma cube_path_eq: "cube_path = [''apis'', ''cube.rancher.io'', ''v1alpha1'']"
  by (simp add: cube_path_def DefaultVersionedAPIPath_def path_Join_def)

lemma split_path:
  assumes "\<forall>s \<in> set p. CHR ''/'' \<notin> set s" "p \<noteq> []"
  shows "split_on CHR ''/'' (path_string p) = [] # p"
proof -
  have "split_on CHR ''/'' (concat (map (\<lambda>s. CHR ''/'' # s) p)) = [] # p" if "p \<noteq> []"
    using assms(1) that
  proof (induction p)
    case (Cons s p)
    show ?case
    proof (cases p)
      case Nil
      then show ?thesis using Cons.prems by (simp add: split_on_no_sep)
    next
      case (Cons t q)
      then have "split_on CHR ''/'' (s @ concat (map (\<lambda>s. CHR ''/'' # s) p)) = s # p"
        using Cons.IH Cons.prems split_on_append [of "CHR ''/''" s] by simp
      then show ?thesis by simp
    qed
  qed simp
  with assms(2) show ?thesis by (simp add: path_string_def)
qed

text \<open>The name of a kind is a path element of its own and in small letters.\<close>

definition kind_segment :: "string \<Rightarrow> bool" where
  "kind_segment res \<longleftrightarrow> path_segment_ok res \<and> res \<noteq> [] \<and> map ascii_lower res = res"

lemma kind_segments:
  "kind_segment ''groups''" "kind_segment ''groupmembers''" "kind_segment ''infrastructures''" "kind_segment ''localconfigs''"
  "kind_segment ''principals''" "kind_segment ''tokens''" "kind_segment ''users''"
  by code_simp+

lemma kind_segmentD: "kind_segment res \<Longrightarrow> path_segment_ok res" "kind_segment res \<Longrightarrow> res \<noteq> []"
    "kind_segment res \<Longrightarrow> map ascii_lower res = res"
  by (simp_all add: kind_segment_def)

lemma named_URL:
  assumes "path_segment_ok res" "res \<noteq> []" "map ascii_lower res = res" "(verb, v) \<in> {(''GET'', GET), (''DELETE'', DELETE)}"
    and "r = req_Name n (req_Resource res (req_Namespace ns (new_request verb)))" "request_check r = None"
  shows "parse_URL (path_string (request_URL r)) = Some (res, ns, n)"
proof -
  have "rest_error v RUsers ns (Some n) = None"
    by (rule trans [OF check_named [OF assms(1,2), symmetric] assms(6) [unfolded assms(5)]]) (use assms(4) in auto)
  then have ok: "n \<noteq> []" "path_segment_ok n" "path_segment_ok ns" "ns \<noteq> []"
    using assms(4) by (auto simp: rest_error_named)
  let ?p = "[''apis'', ''cube.rancher.io'', ''v1alpha1'', ''namespaces'', ns, res, n]"
  have "path_segment_ok ''namespaces''" by (simp add: path_segment_ok_def)
  with ok assms(1-3) have "request_URL r = ?p"
    unfolding assms(5) base_request [OF assms(1,2)]
    by (simp add: req_Name_def new_request_def request_URL_def path_Join_ok cube_path_eq)
  moreover have "split_on CHR ''/'' (path_string ?p) = [] # ?p"
    using ok assms(1) by (intro split_path) (auto simp: path_segment_ok_def)
  ultimately show ?thesis by (simp add: parse_URL_def)
qed

lemma URL_params [simp]: "request_URL (req_VersionedParams q r) = request_URL r"
  by (cases "rq_err r") (simp_all add: request_URL_def req_VersionedParams_def Let_def)

lemma URL_body [simp]: "request_URL (req_Body b r) = request_URL r"
  by (cases "rq_err r \<noteq> None \<or> b = BDeleteOptions None") (simp_all add: request_URL_def req_Body_def Let_def)

lemma sent_for_URL:
  fixes cl :: "('x, unit) client_requests"
  assumes "api_client res name ns cl" "kind_segment res" "(None, u) \<in> set (sent_for cl n options d)"
  shows "parse_URL u = Some (res, ns, n)"
proof -
  have get: "request_URL (cl_Get cl n options) = request_URL (req_Name n (req_Resource res (req_Namespace ns (new_request ''GET''))) :: ('x, unit) request)"
    "request_check (cl_Get cl n options) = request_check (req_Name n (req_Resource res (req_Namespace ns (new_request ''GET''))) :: ('x, unit) request)"
    and del: "request_URL (cl_Delete cl n d) = request_URL (req_Name n (req_Resource res (req_Namespace ns (new_request ''DELETE''))) :: ('x, unit) request)"
    "request_check (cl_Delete cl n d) = request_check (req_Name n (req_Resource res (req_Namespace ns (new_request ''DELETE''))) :: ('x, unit) request)"
    using assms(1) by (simp_all add: api_client_def Let_def)
  from assms(3) consider "request_check (cl_Get cl n options) = None" "u = path_string (request_URL (cl_Get cl n options))"
    | "request_check (cl_Delete cl n d) = None" "u = path_string (request_URL (cl_Delete cl n d))"
    by (auto simp: sent_for_def sent_def)
  then show ?thesis
  proof cases
    case 1
    then show ?thesis using named_URL [OF kind_segmentD [OF assms(2)] _ refl, of "''GET''" GET n ns, where 'a = 'x and 'b = unit] by (simp add: get)
  next
    case 2
    then show ?thesis using named_URL [OF kind_segmentD [OF assms(2)] _ refl, of "''DELETE''" DELETE n ns, where 'a = 'x and 'b = unit] by (simp add: del)
  qed
qed

text \<open>
  A URL names one object.  What any of the seven clients sends to read or to delete an object, once
  its checks have let it pass, goes to a URL from which the kind, the namespace and the name can be read
  back: no name or namespace reaches another object, another namespace or another kind.
\<close>

theorem named_requests_exact:
  assumes "(res, f) \<in> set cube_named" "(None, u) \<in> set (f ns n options d)"
  shows "parse_URL u = Some (res, ns, n)"
  using assms by (auto simp: cube_named_def intro: sent_for_URL clients_api kind_segments)

theorem named_requests_exact_witness:
  "parse_URL ''/apis/cube.rancher.io/v1alpha1/namespaces/kube-system/tokens/token-1'' = Some (''tokens'', ''kube-system'', ''token-1'')"
proof -
  have "(None, ''/apis/cube.rancher.io/v1alpha1/namespaces/kube-system/tokens/token-1'')
    \<in> set (sent_for (tokens_client ''kube-system'') ''token-1'' \<lparr>go_ResourceVersion = [], go_IncludeUninitialized = False\<rparr> None)"
    by code_simp
  then show ?thesis
    by (rule named_requests_exact [where f = "\<lambda>ns. sent_for (tokens_client ns)", rotated]) (simp add: cube_named_def)
qed

end
