(* ===== verification/Cube_Listers.thy ===== *)
theory Cube_Listers
  imports Cube_Common Cube_Requests "HOL-Library.Multiset"
begin

text \<open>
  The listers of the cube API group (\<open>k8s/pkg/client/listers/cube/v1alpha1\<close>) over the informer caches of
  \<open>Cube_Indexer\<close>, with \<open>ListAll\<close> and \<open>ListAllByNamespace\<close> of \<open>client-go/tools/cache/listers.go\<close>.  An
  object of a cache is an \<open>interface{}\<close>: \<open>meta\<close> reads its metadata and \<open>cast\<close> is the type assertion.  A
  label selector is the predicate \<open>Matches\<close>.
\<close>

type_synonym selector = "string_map \<Rightarrow> bool"

definition NewNotFound :: "string \<Rightarrow> string \<Rightarrow> go_error" where
  "NewNotFound res name = StatusError StatusReasonNotFound name"

definition assert_type :: "('o \<Rightarrow> 'x option) \<Rightarrow> 'o \<Rightarrow> 'x outcome" where
  "assert_type cast obj = (case cast obj of None \<Rightarrow> Panic ''interface conversion'' | Some v \<Rightarrow> Return v)"

text \<open>The loop of the two functions; a missing object has no metadata, and what was found so far is returned with the error.\<close>

fun append_matching ::
    "('o \<Rightarrow> object_meta) \<Rightarrow> ('o \<Rightarrow> 'x option) \<Rightarrow> (object_meta \<Rightarrow> bool) \<Rightarrow> 'o option list \<Rightarrow> ('x list \<times> go_error option) outcome" where
  "append_matching meta cast keep [] = Return ([], None)"
| "append_matching meta cast keep (None # ms) = Return ([], Some (Errorf ''object does not implement the Object interfaces'' []))"
| "append_matching meta cast keep (Some m # ms) =
     (if keep (meta m)
      then bind_outcome (assert_type cast m) (\<lambda>x.
           bind_outcome (append_matching meta cast keep ms) (\<lambda>(xs, err). Return (x # xs, err)))
      else append_matching meta cast keep ms)"

definition ListAll ::
    "('o \<Rightarrow> object_meta) \<Rightarrow> ('o \<Rightarrow> 'x option) \<Rightarrow> 'o thread_safe_map \<Rightarrow> selector \<Rightarrow> ('x list \<times> go_error option) outcome" where
  "ListAll meta cast store sel = append_matching meta cast (\<lambda>m. sel (om_Labels m)) (map Some (tsm_List store))"

text \<open>The index function of the namespace, applied to bare metadata, is the namespace itself.\<close>

definition ListAllByNamespace ::
    "('o \<Rightarrow> object_meta) \<Rightarrow> ('o \<Rightarrow> 'x option) \<Rightarrow> 'o thread_safe_map \<Rightarrow> string \<Rightarrow> selector \<Rightarrow> ('x list \<times> go_error option) outcome" where
  "ListAllByNamespace meta cast cache ns sel =
     (if ns = [] then append_matching meta cast (\<lambda>m. sel (om_Labels m)) (map Some (tsm_List cache))
      else (case tsm_ByIndex NamespaceIndex ns cache of
          Inl err \<Rightarrow> append_matching meta cast (\<lambda>m. om_Namespace m = ns \<and> sel (om_Labels m)) (map Some (tsm_List cache))
        | Inr items \<Rightarrow> append_matching meta cast (\<lambda>m. sel (om_Labels m)) items))"

section \<open>The listers\<close>

record 'x namespace_lister =
  nl_List :: "selector \<Rightarrow> ('x list \<times> go_error option) outcome"
  nl_Get :: "string \<Rightarrow> (go_error + 'x) outcome"

record 'x lister =
  li_List :: "selector \<Rightarrow> ('x list \<times> go_error option) outcome"
  li_Namespace :: "string \<Rightarrow> 'x namespace_lister"

definition groups_lister :: "('o \<Rightarrow> object_meta) \<Rightarrow> ('o \<Rightarrow> group option) \<Rightarrow> 'o thread_safe_map \<Rightarrow> group lister" where
  "groups_lister meta cast cache = \<lparr>
     li_List = (\<lambda>selector. ListAll meta cast cache selector),
     li_Namespace = (\<lambda>namespace. \<lparr>
       nl_List = (\<lambda>selector. ListAllByNamespace meta cast cache namespace selector),
       nl_Get = (\<lambda>name. case tsm_Get (lister_key namespace name) cache of
           None \<Rightarrow> Return (Inl (NewNotFound ''group'' name))
         | Some obj \<Rightarrow> bind_outcome (assert_type cast obj) (\<lambda>v. Return (Inr v)))\<rparr>)\<rparr>"

definition groupMembers_lister :: "('o \<Rightarrow> object_meta) \<Rightarrow> ('o \<Rightarrow> group_member option) \<Rightarrow> 'o thread_safe_map \<Rightarrow> group_member lister" where
  "groupMembers_lister meta cast cache = \<lparr>
     li_List = (\<lambda>selector. ListAll meta cast cache selector),
     li_Namespace = (\<lambda>namespace. \<lparr>
       nl_List = (\<lambda>selector. ListAllByNamespace meta cast cache namespace selector),
       nl_Get = (\<lambda>name. case tsm_Get (lister_key namespace name) cache of
           None \<Rightarrow> Return (Inl (NewNotFound ''groupmember'' name))
         | Some obj \<Rightarrow> bind_outcome (assert_type cast obj) (\<lambda>v. Return (Inr v)))\<rparr>)\<rparr>"

definition infrastructures_lister :: "('o \<Rightarrow> object_meta) \<Rightarrow> ('o \<Rightarrow> infrastructure option) \<Rightarrow> 'o thread_safe_map \<Rightarrow> infrastructure lister" where
  "infrastructures_lister meta cast cache = \<lparr>
     li_List = (\<lambda>selector. ListAll meta cast cache selector),
     li_Namespace = (\<lambda>namespace. \<lparr>
       nl_List = (\<lambda>selector. ListAllByNamespace meta cast cache namespace selector),
       nl_Get = (\<lambda>name. case tsm_Get (lister_key namespace name) cache of
           None \<Rightarrow> Return (Inl (NewNotFound ''infrastructure'' name))
         | Some obj \<Rightarrow> bind_outcome (assert_type cast obj) (\<lambda>v. Return (Inr v)))\<rparr>)\<rparr>"

definition localConfigs_lister :: "('o \<Rightarrow> object_meta) \<Rightarrow> ('o \<Rightarrow> local_config option) \<Rightarrow> 'o thread_safe_map \<Rightarrow> local_config lister" where
  "localConfigs_lister meta cast cache = \<lparr>
     li_List = (\<lambda>selector. ListAll meta cast cache selector),
     li_Namespace = (\<lambda>namespace. \<lparr>
       nl_List = (\<lambda>selector. ListAllByNamespace meta cast cache namespace selector),
       nl_Get = (\<lambda>name. case tsm_Get (lister_key namespace name) cache of
           None \<Rightarrow> Return (Inl (NewNotFound ''localconfig'' name))
         | Some obj \<Rightarrow> bind_outcome (assert_type cast obj) (\<lambda>v. Return (Inr v)))\<rparr>)\<rparr>"

definition principals_lister :: "('o \<Rightarrow> object_meta) \<Rightarrow> ('o \<Rightarrow> principal option) \<Rightarrow> 'o thread_safe_map \<Rightarrow> principal lister" where
  "principals_lister meta cast cache = \<lparr>
     li_List = (\<lambda>selector. ListAll meta cast cache selector),
     li_Namespace = (\<lambda>namespace. \<lparr>
       nl_List = (\<lambda>selector. ListAllByNamespace meta cast cache namespace selector),
       nl_Get = (\<lambda>name. case tsm_Get (lister_key namespace name) cache of
           None \<Rightarrow> Return (Inl (NewNotFound ''principal'' name))
         | Some obj \<Rightarrow> bind_outcome (assert_type cast obj) (\<lambda>v. Return (Inr v)))\<rparr>)\<rparr>"

definition tokens_lister :: "('o \<Rightarrow> object_meta) \<Rightarrow> ('o \<Rightarrow> token option) \<Rightarrow> 'o thread_safe_map \<Rightarrow> token lister" where
  "tokens_lister meta cast cache = \<lparr>
     li_List = (\<lambda>selector. ListAll meta cast cache selector),
     li_Namespace = (\<lambda>namespace. \<lparr>
       nl_List = (\<lambda>selector. ListAllByNamespace meta cast cache namespace selector),
       nl_Get = (\<lambda>name. case tsm_Get (lister_key namespace name) cache of
           None \<Rightarrow> Return (Inl (NewNotFound ''token'' name))
         | Some obj \<Rightarrow> bind_outcome (assert_type cast obj) (\<lambda>v. Return (Inr v)))\<rparr>)\<rparr>"

definition users_lister :: "('o \<Rightarrow> object_meta) \<Rightarrow> ('o \<Rightarrow> user option) \<Rightarrow> 'o thread_safe_map \<Rightarrow> user lister" where
  "users_lister meta cast cache = \<lparr>
     li_List = (\<lambda>selector. ListAll meta cast cache selector),
     li_Namespace = (\<lambda>namespace. \<lparr>
       nl_List = (\<lambda>selector. ListAllByNamespace meta cast cache namespace selector),
       nl_Get = (\<lambda>name. case tsm_Get (lister_key namespace name) cache of
           None \<Rightarrow> Return (Inl (NewNotFound ''user'' name))
         | Some obj \<Rightarrow> bind_outcome (assert_type cast obj) (\<lambda>v. Return (Inr v)))\<rparr>)\<rparr>"

text \<open>The listers the controllers call are these.\<close>

lemma lister_Get_same:
  "Users_lister_Get c ns n = nl_Get (li_Namespace (users_lister obj_meta as_user c) ns) n"
  "Infrastructures_lister_Get c ns n = nl_Get (li_Namespace (infrastructures_lister obj_meta as_infra c) ns) n"
  by (auto simp: Users_lister_Get_def Infrastructures_lister_Get_def lister_Get_def users_lister_def infrastructures_lister_def
    NewNotFound_def type_assert_def assert_type_def split: option.splits)

section \<open>What a list contains\<close>

definition castable :: "('o \<Rightarrow> 'x option) \<Rightarrow> 'o thread_safe_map \<Rightarrow> bool" where
  "castable cast c \<longleftrightarrow> list_all (\<lambda>x. cast x \<noteq> None) (tsm_List c)"

definition namespace_index :: "('o \<Rightarrow> object_meta) \<Rightarrow> 'o thread_safe_map \<Rightarrow> bool" where
  "namespace_index meta c \<longleftrightarrow>
     (case map_of (ts_indexers c) NamespaceIndex of None \<Rightarrow> True | Some f \<Rightarrow> \<forall>x. fst (f x) = [om_Namespace (meta x)])"

lemma append_matching_ok:
  "list_all (\<lambda>x. cast x \<noteq> None) xs \<Longrightarrow>
     append_matching meta cast keep (map Some xs) = Return (map (the \<circ> cast) (filter (\<lambda>x. keep (meta x)) xs), None)"
  by (induction xs) (auto simp: assert_type_def)

lemma lister_List_all_same:
  assumes "castable cast c"
  shows "ListAll obj_meta cast c (\<lambda>_. True) = bind_outcome (lister_List_all cast c) (\<lambda>xs. Return (xs, None))"
proof -
  have "List.map_filter cast xs = map (the \<circ> cast) xs" if "list_all (\<lambda>x. cast x \<noteq> None) xs" for xs
    using that by (induction xs) (auto simp: map_filter_simps)
  with assms show ?thesis
    by (simp add: ListAll_def lister_List_all_def append_matching_ok assert_all_ok castable_def)
qed

text \<open>The objects of an index are those of the items, once each.\<close>

lemma mset_by_keys:
  assumes "distinct (map fst kxs)" "distinct ks" "\<forall>k. k \<in> set ks \<longleftrightarrow> (\<exists>x. map_of kxs k = Some x \<and> P x)"
  shows "mset (map (the \<circ> map_of kxs) ks) = mset (filter P (map snd kxs))"
proof -
  let ?in = "filter (\<lambda>e. P (snd e)) kxs"
  have "distinct (map fst ?in)" using assms(1) by (simp add: distinct_map_filter)
  moreover have "k \<in> set ks \<longleftrightarrow> k \<in> set (map fst ?in)" for k
    unfolding assms(3) [rule_format] map_of_eq_Some_iff [OF assms(1)] by (auto intro: rev_image_eqI)
  then have "set ks = set (map fst ?in)" by (rule set_eqI)
  ultimately have "mset ks = mset (map fst ?in)" using assms(2) set_eq_iff_mset_eq_distinct by blast
  then have "mset (map (the \<circ> map_of kxs) ks) = mset (map (the \<circ> map_of kxs) (map fst ?in))" by (simp only: mset_map)
  also have "map (the \<circ> map_of kxs) (map fst ?in) = map snd ?in"
    using assms(1) by (auto simp: map_of_eq_Some_iff intro!: arg_cong [of _ _ the])
  also have "\<dots> = filter P (map snd kxs)" by (simp add: filter_map comp_def)
  finally show ?thesis .
qed

text \<open>
  C35. Listing by namespace is exact.  With the namespace index and without it, a list of a namespace
  holds exactly the cached objects of the namespace (of all of them for the empty one) whose labels
  match, once each.
\<close>

theorem namespace_list_exact:
  assumes "tsm_ok c" "namespace_index meta c" "castable cast c"
  shows "\<exists>xs. ListAllByNamespace meta cast c ns sel = Return (xs, None)
    \<and> mset xs = mset (map (the \<circ> cast) (filter (\<lambda>x. (ns = [] \<or> om_Namespace (meta x) = ns) \<and> sel (om_Labels (meta x))) (tsm_List c)))"
proof (cases "ns = [] \<or> map_of (ts_indexers c) NamespaceIndex = None")
  case True
  then show ?thesis
    using append_matching_ok [OF assms(3) [unfolded castable_def]]
    by (auto simp: ListAllByNamespace_def tsm_ByIndex_def)
next
  case False
  then obtain f where f: "map_of (ts_indexers c) NamespaceIndex = Some f" "\<forall>x. fst (f x) = [om_Namespace (meta x)]"
    using assms(2) by (auto simp: namespace_index_def)
  from tsm.by_index_law [OF assms(1) f(1), of ns] obtain ks where
    ks: "tsm_ByIndex NamespaceIndex ns c = Inr (map (map_of (ts_items c)) ks)" "distinct ks"
    "\<forall>k. k \<in> set ks \<longleftrightarrow> (\<exists>x. map_of (ts_items c) k = Some x \<and> ns \<in> set (fst (f x)))" by blast
  let ?xs = "map (the \<circ> map_of (ts_items c)) ks"
  have items: "map (map_of (ts_items c)) ks = map Some ?xs" using ks(3) by auto
  have m: "mset ?xs = mset (filter (\<lambda>x. om_Namespace (meta x) = ns) (tsm_List c))"
    unfolding tsm_List_def by (rule mset_by_keys) (use assms(1) ks(2,3) f(2) in \<open>auto simp: tsm_ok_def\<close>)
  have "list_all (\<lambda>x. cast x \<noteq> None) ?xs"
    using assms(3) mset_eq_setD [OF m] by (auto simp: castable_def list_all_iff)
  from append_matching_ok [OF this] have
    "ListAllByNamespace meta cast c ns sel = Return (map (the \<circ> cast) (filter (\<lambda>x. sel (om_Labels (meta x))) ?xs), None)"
    using False by (simp add: ListAllByNamespace_def ks(1) items)
  moreover have "mset (filter (\<lambda>x. sel (om_Labels (meta x))) ?xs)
    = mset (filter (\<lambda>x. om_Namespace (meta x) = ns \<and> sel (om_Labels (meta x))) (tsm_List c))"
    unfolding mset_filter m by (simp add: filter_filter_mset conj_commute)
  ultimately show ?thesis using False by (simp add: mset_map)
qed

theorem namespace_list_exact_witness:
  "\<exists>c. tsm_Add ''cube/u'' (ObjUser (zero_user\<lparr>u_meta := zero_meta\<lparr>om_Name := ''u'', om_Namespace := ''cube''\<rparr>\<rparr>))
         (NewThreadSafeStore [(NamespaceIndex, MetaNamespaceIndexFunc)]) = Return c
     \<and> (\<exists>xs. ListAllByNamespace obj_meta as_user c ''cube'' (\<lambda>_. True) = Return (xs, None)
       \<and> mset xs = {#zero_user\<lparr>u_meta := zero_meta\<lparr>om_Name := ''u'', om_Namespace := ''cube''\<rparr>\<rparr>#})"
proof -
  let ?u = "zero_user\<lparr>u_meta := zero_meta\<lparr>om_Name := ''u'', om_Namespace := ''cube''\<rparr>\<rparr>"
  let ?c = "NewThreadSafeStore [(NamespaceIndex, MetaNamespaceIndexFunc)]"
  have "pure_index MetaNamespaceIndexFunc" by (simp add: pure_index_def MetaNamespaceIndexFunc_def)
  then have "tsm_ok ?c" by (intro tsm_ok_init) auto
  from tsm.add_law [OF this, of "''cube/u''" "ObjUser ?u"] obtain c where
    c: "tsm_Add ''cube/u'' (ObjUser ?u) ?c = Return c" "tsm_ok c" "map_of (ts_indexers c) = map_of (ts_indexers ?c)" by blast
  have items: "tsm_List c = [ObjUser ?u]"
    using c(1) by (auto simp: tsm_Add_def NewThreadSafeStore_def updateIndices_def run_index_def MetaNamespaceIndexFunc_def tsm_List_def)
  have "namespace_index obj_meta c" "castable as_user c"
    by (simp_all add: namespace_index_def c(3) NewThreadSafeStore_def MetaNamespaceIndexFunc_def castable_def items)
  from namespace_list_exact [OF c(2) this, of "''cube''" "\<lambda>_. True"] show ?thesis using c(1) items by auto
qed

end
