(* ===== verification/Cube_Factory.thy ===== *)
theory Cube_Factory
  imports Cube_Listers
begin

text \<open>
  The shared informers of the cube API group (\<open>k8s/pkg/client/informers/externalversions\<close>): the factory
  that makes at most one informer for a type and starts each of them once, the informer of every kind
  with the requests it lists and watches with, and the generic access by resource.  The same code makes
  the informers of the core kinds in \<open>client-go/informers/factory.go\<close>, so the second half follows both
  factories through the start of the server (\<open>NewClientGenerator\<close>, the two controllers, the two calls of
  \<open>Start\<close> in \<open>startAPIServer\<close>) and what the API handlers ask of them later.

  A type is its name; a Go map from types is an association list or a function.  What \<open>Run\<close> does, and
  the lock around every operation, belong to the library.
\<close>

section \<open>Informers\<close>

text \<open>What a request puts on the wire: the error of its checks, or verb, URL and options.\<close>

type_synonym wire = "go_error option \<times> string \<times> string \<times> query list"

definition wire :: "('x, unit) request \<Rightarrow> wire" where
  "wire r = (request_check r, rq_verb r, path_string (request_URL r), rq_params r)"

text \<open>A watch looks at the errors of the builder only.\<close>

definition watch_wire :: "('x, unit) request \<Rightarrow> wire" where
  "watch_wire r = (rq_err r, rq_verb r, path_string (request_URL r), rq_params r)"

type_synonym tweak = "list_options \<Rightarrow> list_options"

record shared_informer =
  si_List :: "list_options \<Rightarrow> wire"
  si_Watch :: "list_options \<Rightarrow> wire"
  si_objType :: string
  si_resyncPeriod :: int
  si_indexers :: "string list"

definition tweaked :: "tweak option \<Rightarrow> list_options \<Rightarrow> list_options" where
  "tweaked tweakListOptions options = (case tweakListOptions of None \<Rightarrow> options | Some t \<Rightarrow> t options)"

section \<open>The factory\<close>

record factory =
  fa_namespace :: string
  fa_tweakListOptions :: "tweak option"
  fa_defaultResync :: int
  fa_customResync :: "string \<Rightarrow> int option"
  fa_informers :: "(string \<times> shared_informer) list"
  fa_startedInformers :: "string \<Rightarrow> bool"

type_synonym factory_option = "factory \<Rightarrow> factory"

definition WithCustomResyncConfig :: "(string \<times> int) list \<Rightarrow> factory_option" where
  "WithCustomResyncConfig resyncConfig f =
     f\<lparr>fa_customResync := fold (\<lambda>(k, v) m. m(k \<mapsto> v)) resyncConfig (fa_customResync f)\<rparr>"

definition WithTweakListOptions :: "tweak option \<Rightarrow> factory_option" where
  "WithTweakListOptions tweakListOptions f = f\<lparr>fa_tweakListOptions := tweakListOptions\<rparr>"

definition WithNamespace :: "string \<Rightarrow> factory_option" where
  "WithNamespace namespace f = f\<lparr>fa_namespace := namespace\<rparr>"

definition NewSharedInformerFactoryWithOptions :: "int \<Rightarrow> factory_option list \<Rightarrow> factory" where
  "NewSharedInformerFactoryWithOptions defaultResync options =
     fold (\<lambda>opt f. opt f) options
       \<lparr>fa_namespace = [], fa_tweakListOptions = None, fa_defaultResync = defaultResync,
        fa_customResync = (\<lambda>_. None), fa_informers = [], fa_startedInformers = (\<lambda>_. False)\<rparr>"

definition NewSharedInformerFactory :: "int \<Rightarrow> factory" where
  "NewSharedInformerFactory defaultResync = NewSharedInformerFactoryWithOptions defaultResync []"

definition NewFilteredSharedInformerFactory :: "int \<Rightarrow> string \<Rightarrow> tweak option \<Rightarrow> factory" where
  "NewFilteredSharedInformerFactory defaultResync namespace tweakListOptions =
     NewSharedInformerFactoryWithOptions defaultResync [WithNamespace namespace, WithTweakListOptions tweakListOptions]"

definition InformerFor :: "string \<Rightarrow> (int \<Rightarrow> shared_informer) \<Rightarrow> factory \<Rightarrow> shared_informer \<times> factory" where
  "InformerFor informerType newFunc f =
     (case map_of (fa_informers f) informerType of
        Some informer \<Rightarrow> (informer, f)
      | None \<Rightarrow>
          (let resyncPeriod = (case fa_customResync f informerType of Some r \<Rightarrow> r | None \<Rightarrow> fa_defaultResync f);
               informer = newFunc resyncPeriod
           in (informer, f\<lparr>fa_informers := (informerType, informer) # fa_informers f\<rparr>)))"

text \<open>\<open>Start\<close>: the types whose informer is run now, in the order of the map.\<close>

fun start_loop :: "(string \<times> shared_informer) list \<Rightarrow> (string \<Rightarrow> bool) \<Rightarrow> string list \<times> (string \<Rightarrow> bool)" where
  "start_loop [] started = ([], started)"
| "start_loop ((t, informer) # infs) started =
     (if \<not> started t
      then (case start_loop infs (started(t := True)) of (ts, s) \<Rightarrow> (t # ts, s))
      else start_loop infs started)"

definition factory_Start :: "factory \<Rightarrow> string list \<times> factory" where
  "factory_Start f =
     (case start_loop (fa_informers f) (fa_startedInformers f) of (ts, s) \<Rightarrow> (ts, f\<lparr>fa_startedInformers := s\<rparr>))"

text \<open>The caches of the started informers, each waited for.\<close>

definition factory_WaitForCacheSync :: "(string \<Rightarrow> bool) \<Rightarrow> factory \<Rightarrow> (string \<times> bool) list" where
  "factory_WaitForCacheSync wait f =
     map (\<lambda>(t, _). (t, wait t)) (filter (\<lambda>(t, _). fa_startedInformers f t) (fa_informers f))"

section \<open>The informers of the group\<close>

text \<open>A group, a version of it, and the informer of a kind carry the same two values of the factory.\<close>

record kind_informer =
  ki_namespace :: string
  ki_tweakListOptions :: "tweak option"

definition group_New :: "string \<Rightarrow> tweak option \<Rightarrow> kind_informer" where
  "group_New namespace tweakListOptions = \<lparr>ki_namespace = namespace, ki_tweakListOptions = tweakListOptions\<rparr>"

definition factory_Cube :: "factory \<Rightarrow> kind_informer" where
  "factory_Cube f = group_New (fa_namespace f) (fa_tweakListOptions f)"

definition group_V1alpha1 :: "kind_informer \<Rightarrow> kind_informer" where
  "group_V1alpha1 g = \<lparr>ki_namespace = ki_namespace g, ki_tweakListOptions = ki_tweakListOptions g\<rparr>"

definition version_groups :: "kind_informer \<Rightarrow> kind_informer" where
  "version_groups v = \<lparr>ki_namespace = ki_namespace v, ki_tweakListOptions = ki_tweakListOptions v\<rparr>"

definition NewFilteredGroupInformer :: "string \<Rightarrow> int \<Rightarrow> string list \<Rightarrow> tweak option \<Rightarrow> shared_informer" where
  "NewFilteredGroupInformer namespace resyncPeriod indexers tweakListOptions =
     \<lparr>si_List = (\<lambda>options. wire (cl_List (groups_client namespace) (tweaked tweakListOptions options))),
      si_Watch = (\<lambda>options. watch_wire (cl_Watch (groups_client namespace) (tweaked tweakListOptions options))),
      si_objType = ''Group'', si_resyncPeriod = resyncPeriod, si_indexers = indexers\<rparr>"

definition NewGroupInformer :: "string \<Rightarrow> int \<Rightarrow> string list \<Rightarrow> shared_informer" where
  "NewGroupInformer namespace resyncPeriod indexers = NewFilteredGroupInformer namespace resyncPeriod indexers None"

definition groups_defaultInformer :: "kind_informer \<Rightarrow> int \<Rightarrow> shared_informer" where
  "groups_defaultInformer i resyncPeriod =
     NewFilteredGroupInformer (ki_namespace i) resyncPeriod [NamespaceIndex] (ki_tweakListOptions i)"

definition groups_Informer :: "kind_informer \<Rightarrow> factory \<Rightarrow> shared_informer \<times> factory" where
  "groups_Informer i = InformerFor ''Group'' (groups_defaultInformer i)"

definition version_groupMembers :: "kind_informer \<Rightarrow> kind_informer" where
  "version_groupMembers v = \<lparr>ki_namespace = ki_namespace v, ki_tweakListOptions = ki_tweakListOptions v\<rparr>"

definition NewFilteredGroupMemberInformer :: "string \<Rightarrow> int \<Rightarrow> string list \<Rightarrow> tweak option \<Rightarrow> shared_informer" where
  "NewFilteredGroupMemberInformer namespace resyncPeriod indexers tweakListOptions =
     \<lparr>si_List = (\<lambda>options. wire (cl_List (groupMembers_client namespace) (tweaked tweakListOptions options))),
      si_Watch = (\<lambda>options. watch_wire (cl_Watch (groupMembers_client namespace) (tweaked tweakListOptions options))),
      si_objType = ''GroupMember'', si_resyncPeriod = resyncPeriod, si_indexers = indexers\<rparr>"

definition NewGroupMemberInformer :: "string \<Rightarrow> int \<Rightarrow> string list \<Rightarrow> shared_informer" where
  "NewGroupMemberInformer namespace resyncPeriod indexers = NewFilteredGroupMemberInformer namespace resyncPeriod indexers None"

definition groupMembers_defaultInformer :: "kind_informer \<Rightarrow> int \<Rightarrow> shared_informer" where
  "groupMembers_defaultInformer i resyncPeriod =
     NewFilteredGroupMemberInformer (ki_namespace i) resyncPeriod [NamespaceIndex] (ki_tweakListOptions i)"

definition groupMembers_Informer :: "kind_informer \<Rightarrow> factory \<Rightarrow> shared_informer \<times> factory" where
  "groupMembers_Informer i = InformerFor ''GroupMember'' (groupMembers_defaultInformer i)"

definition version_infrastructures :: "kind_informer \<Rightarrow> kind_informer" where
  "version_infrastructures v = \<lparr>ki_namespace = ki_namespace v, ki_tweakListOptions = ki_tweakListOptions v\<rparr>"

definition NewFilteredInfrastructureInformer :: "string \<Rightarrow> int \<Rightarrow> string list \<Rightarrow> tweak option \<Rightarrow> shared_informer" where
  "NewFilteredInfrastructureInformer namespace resyncPeriod indexers tweakListOptions =
     \<lparr>si_List = (\<lambda>options. wire (cl_List (infrastructures_client namespace) (tweaked tweakListOptions options))),
      si_Watch = (\<lambda>options. watch_wire (cl_Watch (infrastructures_client namespace) (tweaked tweakListOptions options))),
      si_objType = ''Infrastructure'', si_resyncPeriod = resyncPeriod, si_indexers = indexers\<rparr>"

definition NewInfrastructureInformer :: "string \<Rightarrow> int \<Rightarrow> string list \<Rightarrow> shared_informer" where
  "NewInfrastructureInformer namespace resyncPeriod indexers = NewFilteredInfrastructureInformer namespace resyncPeriod indexers None"

definition infrastructures_defaultInformer :: "kind_informer \<Rightarrow> int \<Rightarrow> shared_informer" where
  "infrastructures_defaultInformer i resyncPeriod =
     NewFilteredInfrastructureInformer (ki_namespace i) resyncPeriod [NamespaceIndex] (ki_tweakListOptions i)"

definition infrastructures_Informer :: "kind_informer \<Rightarrow> factory \<Rightarrow> shared_informer \<times> factory" where
  "infrastructures_Informer i = InformerFor ''Infrastructure'' (infrastructures_defaultInformer i)"

definition version_localConfigs :: "kind_informer \<Rightarrow> kind_informer" where
  "version_localConfigs v = \<lparr>ki_namespace = ki_namespace v, ki_tweakListOptions = ki_tweakListOptions v\<rparr>"

definition NewFilteredLocalConfigInformer :: "string \<Rightarrow> int \<Rightarrow> string list \<Rightarrow> tweak option \<Rightarrow> shared_informer" where
  "NewFilteredLocalConfigInformer namespace resyncPeriod indexers tweakListOptions =
     \<lparr>si_List = (\<lambda>options. wire (cl_List (localConfigs_client namespace) (tweaked tweakListOptions options))),
      si_Watch = (\<lambda>options. watch_wire (cl_Watch (localConfigs_client namespace) (tweaked tweakListOptions options))),
      si_objType = ''LocalConfig'', si_resyncPeriod = resyncPeriod, si_indexers = indexers\<rparr>"

definition NewLocalConfigInformer :: "string \<Rightarrow> int \<Rightarrow> string list \<Rightarrow> shared_informer" where
  "NewLocalConfigInformer namespace resyncPeriod indexers = NewFilteredLocalConfigInformer namespace resyncPeriod indexers None"

definition localConfigs_defaultInformer :: "kind_informer \<Rightarrow> int \<Rightarrow> shared_informer" where
  "localConfigs_defaultInformer i resyncPeriod =
     NewFilteredLocalConfigInformer (ki_namespace i) resyncPeriod [NamespaceIndex] (ki_tweakListOptions i)"

definition localConfigs_Informer :: "kind_informer \<Rightarrow> factory \<Rightarrow> shared_informer \<times> factory" where
  "localConfigs_Informer i = InformerFor ''LocalConfig'' (localConfigs_defaultInformer i)"

definition version_principals :: "kind_informer \<Rightarrow> kind_informer" where
  "version_principals v = \<lparr>ki_namespace = ki_namespace v, ki_tweakListOptions = ki_tweakListOptions v\<rparr>"

definition NewFilteredPrincipalInformer :: "string \<Rightarrow> int \<Rightarrow> string list \<Rightarrow> tweak option \<Rightarrow> shared_informer" where
  "NewFilteredPrincipalInformer namespace resyncPeriod indexers tweakListOptions =
     \<lparr>si_List = (\<lambda>options. wire (cl_List (principals_client namespace) (tweaked tweakListOptions options))),
      si_Watch = (\<lambda>options. watch_wire (cl_Watch (principals_client namespace) (tweaked tweakListOptions options))),
      si_objType = ''Principal'', si_resyncPeriod = resyncPeriod, si_indexers = indexers\<rparr>"

definition NewPrincipalInformer :: "string \<Rightarrow> int \<Rightarrow> string list \<Rightarrow> shared_informer" where
  "NewPrincipalInformer namespace resyncPeriod indexers = NewFilteredPrincipalInformer namespace resyncPeriod indexers None"

definition principals_defaultInformer :: "kind_informer \<Rightarrow> int \<Rightarrow> shared_informer" where
  "principals_defaultInformer i resyncPeriod =
     NewFilteredPrincipalInformer (ki_namespace i) resyncPeriod [NamespaceIndex] (ki_tweakListOptions i)"

definition principals_Informer :: "kind_informer \<Rightarrow> factory \<Rightarrow> shared_informer \<times> factory" where
  "principals_Informer i = InformerFor ''Principal'' (principals_defaultInformer i)"

definition version_tokens :: "kind_informer \<Rightarrow> kind_informer" where
  "version_tokens v = \<lparr>ki_namespace = ki_namespace v, ki_tweakListOptions = ki_tweakListOptions v\<rparr>"

definition NewFilteredTokenInformer :: "string \<Rightarrow> int \<Rightarrow> string list \<Rightarrow> tweak option \<Rightarrow> shared_informer" where
  "NewFilteredTokenInformer namespace resyncPeriod indexers tweakListOptions =
     \<lparr>si_List = (\<lambda>options. wire (cl_List (tokens_client namespace) (tweaked tweakListOptions options))),
      si_Watch = (\<lambda>options. watch_wire (cl_Watch (tokens_client namespace) (tweaked tweakListOptions options))),
      si_objType = ''Token'', si_resyncPeriod = resyncPeriod, si_indexers = indexers\<rparr>"

definition NewTokenInformer :: "string \<Rightarrow> int \<Rightarrow> string list \<Rightarrow> shared_informer" where
  "NewTokenInformer namespace resyncPeriod indexers = NewFilteredTokenInformer namespace resyncPeriod indexers None"

definition tokens_defaultInformer :: "kind_informer \<Rightarrow> int \<Rightarrow> shared_informer" where
  "tokens_defaultInformer i resyncPeriod =
     NewFilteredTokenInformer (ki_namespace i) resyncPeriod [NamespaceIndex] (ki_tweakListOptions i)"

definition tokens_Informer :: "kind_informer \<Rightarrow> factory \<Rightarrow> shared_informer \<times> factory" where
  "tokens_Informer i = InformerFor ''Token'' (tokens_defaultInformer i)"

definition version_users :: "kind_informer \<Rightarrow> kind_informer" where
  "version_users v = \<lparr>ki_namespace = ki_namespace v, ki_tweakListOptions = ki_tweakListOptions v\<rparr>"

definition NewFilteredUserInformer :: "string \<Rightarrow> int \<Rightarrow> string list \<Rightarrow> tweak option \<Rightarrow> shared_informer" where
  "NewFilteredUserInformer namespace resyncPeriod indexers tweakListOptions =
     \<lparr>si_List = (\<lambda>options. wire (cl_List (users_client namespace) (tweaked tweakListOptions options))),
      si_Watch = (\<lambda>options. watch_wire (cl_Watch (users_client namespace) (tweaked tweakListOptions options))),
      si_objType = ''User'', si_resyncPeriod = resyncPeriod, si_indexers = indexers\<rparr>"

definition NewUserInformer :: "string \<Rightarrow> int \<Rightarrow> string list \<Rightarrow> shared_informer" where
  "NewUserInformer namespace resyncPeriod indexers = NewFilteredUserInformer namespace resyncPeriod indexers None"

definition users_defaultInformer :: "kind_informer \<Rightarrow> int \<Rightarrow> shared_informer" where
  "users_defaultInformer i resyncPeriod =
     NewFilteredUserInformer (ki_namespace i) resyncPeriod [NamespaceIndex] (ki_tweakListOptions i)"

definition users_Informer :: "kind_informer \<Rightarrow> factory \<Rightarrow> shared_informer \<times> factory" where
  "users_Informer i = InformerFor ''User'' (users_defaultInformer i)"


section \<open>Access by resource\<close>

text \<open>The informer of a resource of the group; any other resource is refused.\<close>

definition ForResource :: "string \<Rightarrow> string \<Rightarrow> string \<Rightarrow> factory \<Rightarrow> (go_error + shared_informer) \<times> factory" where
  "ForResource grp version res f =
     (let v = group_V1alpha1 (factory_Cube f); ok = (\<lambda>(i, f'). (Inr i, f')) in
      if grp = ''cube.rancher.io'' \<and> version = ''v1alpha1'' then
        if res = ''groups'' then ok (groups_Informer (version_groups v) f)
        else if res = ''groupmembers'' then ok (groupMembers_Informer (version_groupMembers v) f)
        else if res = ''infrastructures'' then ok (infrastructures_Informer (version_infrastructures v) f)
        else if res = ''localconfigs'' then ok (localConfigs_Informer (version_localConfigs v) f)
        else if res = ''principals'' then ok (principals_Informer (version_principals v) f)
        else if res = ''tokens'' then ok (tokens_Informer (version_tokens v) f)
        else if res = ''users'' then ok (users_Informer (version_users v) f)
        else (Inl (Errorf ''no informer found for %v'' [grp, version, res]), f)
      else (Inl (Errorf ''no informer found for %v'' [grp, version, res]), f))"

lemmas informer_defs = groups_Informer_def groups_defaultInformer_def NewFilteredGroupInformer_def version_groups_def
  groupMembers_Informer_def groupMembers_defaultInformer_def NewFilteredGroupMemberInformer_def version_groupMembers_def
  infrastructures_Informer_def infrastructures_defaultInformer_def NewFilteredInfrastructureInformer_def version_infrastructures_def
  localConfigs_Informer_def localConfigs_defaultInformer_def NewFilteredLocalConfigInformer_def version_localConfigs_def
  principals_Informer_def principals_defaultInformer_def NewFilteredPrincipalInformer_def version_principals_def
  tokens_Informer_def tokens_defaultInformer_def NewFilteredTokenInformer_def version_tokens_def
  users_Informer_def users_defaultInformer_def NewFilteredUserInformer_def version_users_def

section \<open>One informer for a type, run once\<close>

lemma InformerFor_same:
  assumes "InformerFor t new f = (i, f')"
  shows "map_of (fa_informers f') t = Some i" "InformerFor t new' f' = (i, f')"
  using assms by (auto simp: InformerFor_def Let_def split: option.splits)

lemma InformerFor_types:
  assumes "InformerFor t new f = (i, f')"
  shows "fst ` set (fa_informers f') = insert t (fst ` set (fa_informers f))"
    "fa_startedInformers f' = fa_startedInformers f"
    "distinct (map fst (fa_informers f)) \<Longrightarrow> distinct (map fst (fa_informers f'))"
  using assms by (auto simp: InformerFor_def Let_def map_of_eq_None_iff split: option.splits
      dest: map_of_SomeD intro: rev_image_eqI)

lemma start_loop_exact:
  assumes "start_loop infs started = (ts, s)" "distinct (map fst infs)"
  shows "set ts = {t \<in> fst ` set infs. \<not> started t} \<and> distinct ts \<and> s = (\<lambda>t. started t \<or> t \<in> fst ` set infs)"
  using assms
proof (induction infs arbitrary: started ts s)
  case (Cons e infs)
  obtain t i where e: "e = (t, i)" by (cases e)
  show ?case
  proof (cases "started t")
    case True
    then have "start_loop infs started = (ts, s)" using Cons.prems(1) by (simp add: e)
    with Cons.IH [OF this] Cons.prems(2) True show ?thesis by (auto simp: e fun_eq_iff)
  next
    case False
    obtain us s' where r: "start_loop infs (started(t := True)) = (us, s')" by (cases "start_loop infs (started(t := True))")
    define T where "T = fst ` set infs"
    have "t \<notin> T" "distinct (map fst infs)" using Cons.prems(2) by (simp_all add: e T_def)
    moreover have "ts = t # us" "s = s'" using Cons.prems(1) False r by (simp_all add: e)
    ultimately show ?thesis using Cons.IH [OF r, folded T_def] False by (auto simp: e fun_eq_iff T_def [symmetric])
  qed
qed (simp add: fun_eq_iff)

section \<open>Both factories in the server\<close>

datatype origin = Core | Cube

datatype server_op = Ask origin string | Start origin

text \<open>The factories of the client generator, and the informers that were run, in order.\<close>

record client_gen =
  cg_factory :: "origin \<Rightarrow> factory"
  cg_running :: "(origin \<times> string) list"

definition new_client_gen :: "int \<Rightarrow> client_gen" where
  "new_client_gen resync = \<lparr>cg_factory = (\<lambda>_. NewSharedInformerFactory resync), cg_running = []\<rparr>"

text \<open>How an informer is made, \<open>new\<close>, is the business of its kind.\<close>

fun server_step :: "(origin \<Rightarrow> string \<Rightarrow> int \<Rightarrow> shared_informer) \<Rightarrow> server_op \<Rightarrow> client_gen \<Rightarrow> client_gen" where
  "server_step new (Ask w t) s =
     s\<lparr>cg_factory := (cg_factory s)(w := snd (InformerFor t (new w t) (cg_factory s w)))\<rparr>"
| "server_step new (Start w) s =
     (case factory_Start (cg_factory s w) of (ts, f) \<Rightarrow>
        s\<lparr>cg_factory := (cg_factory s)(w := f), cg_running := cg_running s @ map (Pair w) ts\<rparr>)"

definition server_run :: "(origin \<Rightarrow> string \<Rightarrow> int \<Rightarrow> shared_informer) \<Rightarrow> server_op list \<Rightarrow> client_gen \<Rightarrow> client_gen" where
  "server_run new ops s = fold (server_step new) ops s"

text \<open>Only the calls that reach a factory; \<open>Lister\<close> asks for the informer as well.\<close>

definition NewClientGenerator_asks :: "server_op list" where
  "NewClientGenerator_asks = [Ask Core ''Service'', Ask Core ''Service'']"

definition NewInfraController_asks :: "server_op list" where
  "NewInfraController_asks =
    [Ask Core ''Deployment'', Ask Core ''Deployment'', Ask Cube ''Infrastructure'', Ask Cube ''Infrastructure'',
     Ask Core ''Service'', Ask Core ''Service'', Ask Cube ''Infrastructure'', Ask Core ''Deployment'', Ask Core ''Pod'']"

definition NewUserController_asks :: "server_op list" where
  "NewUserController_asks =
    [Ask Cube ''User'', Ask Cube ''Token'', Ask Cube ''Principal'', Ask Core ''ClusterRoleBinding'', Ask Core ''ClusterRole'',
     Ask Cube ''User'', Ask Cube ''User'', Ask Cube ''User'', Ask Cube ''Token'', Ask Cube ''Token'', Ask Cube ''Token'',
     Ask Cube ''Principal'', Ask Cube ''Principal'', Ask Cube ''Principal'', Ask Core ''ClusterRoleBinding'',
     Ask Core ''ClusterRoleBinding'', Ask Core ''ClusterRoleBinding'', Ask Core ''ClusterRole'', Ask Core ''ClusterRole'',
     Ask Core ''ClusterRole'', Ask Cube ''User'', Ask Cube ''Token'', Ask Cube ''Principal'', Ask Core ''ClusterRoleBinding'',
     Ask Core ''ClusterRole'']"

definition start_ops :: "server_op list" where
  "start_ops = NewClientGenerator_asks @ NewInfraController_asks @ NewUserController_asks @ [Start Core, Start Cube]"

text \<open>The page of the cluster, for every connection.\<close>

definition ClusterList_asks :: "server_op list" where
  "ClusterList_asks = [Ask Core ''ComponentStatus'', Ask Core ''Pod'']"

section \<open>Which informers run\<close>

definition asked_before_start :: "origin \<Rightarrow> string \<Rightarrow> server_op list \<Rightarrow> bool" where
  "asked_before_start w t ops \<longleftrightarrow> (\<exists>pre post. ops = pre @ post \<and> Ask w t \<in> set pre \<and> Start w \<in> set post)"

lemma asked_before_start_Nil [simp]: "\<not> asked_before_start w t []"
  by (simp add: asked_before_start_def)

lemma asked_before_start_Cons:
  "asked_before_start w t (op # ops) \<longleftrightarrow> op = Ask w t \<and> Start w \<in> set ops \<or> asked_before_start w t ops"
proof
  assume "asked_before_start w t (op # ops)"
  then obtain pre post where p: "op # ops = pre @ post" "Ask w t \<in> set pre" "Start w \<in> set post"
    by (auto simp: asked_before_start_def)
  then obtain pre' where pre: "pre = op # pre'" "ops = pre' @ post" by (cases pre) auto
  with p show "op = Ask w t \<and> Start w \<in> set ops \<or> asked_before_start w t ops"
    by (cases "op = Ask w t") (auto simp: asked_before_start_def)
next
  assume "op = Ask w t \<and> Start w \<in> set ops \<or> asked_before_start w t ops"
  then show "asked_before_start w t (op # ops)"
  proof
    assume "op = Ask w t \<and> Start w \<in> set ops"
    then show ?thesis unfolding asked_before_start_def by (intro exI [of _ "[op]"] exI [of _ ops]) simp
  next
    assume "asked_before_start w t ops"
    then obtain pre post where "ops = pre @ post" "Ask w t \<in> set pre" "Start w \<in> set post"
      by (auto simp: asked_before_start_def)
    then show ?thesis unfolding asked_before_start_def by (intro exI [of _ "op # pre"] exI [of _ post]) simp
  qed
qed

definition gen_types :: "client_gen \<Rightarrow> origin \<Rightarrow> string set" where
  "gen_types s w = fst ` set (fa_informers (cg_factory s w))"

definition gen_ok :: "client_gen \<Rightarrow> bool" where
  "gen_ok s \<longleftrightarrow> distinct (cg_running s) \<and> (\<forall>w. distinct (map fst (fa_informers (cg_factory s w)))
     \<and> (\<forall>t. fa_startedInformers (cg_factory s w) t \<longleftrightarrow> (w, t) \<in> set (cg_running s))
     \<and> (\<forall>t. (w, t) \<in> set (cg_running s) \<longrightarrow> t \<in> gen_types s w))"

lemma gen_ok_new: "gen_ok (new_client_gen r)" "gen_types (new_client_gen r) w = {}" "cg_running (new_client_gen r) = []"
  by (simp_all add: gen_ok_def gen_types_def new_client_gen_def NewSharedInformerFactory_def NewSharedInformerFactoryWithOptions_def)

lemma step_Ask:
  assumes "gen_ok s"
  shows "gen_ok (server_step new (Ask w t) s)" "cg_running (server_step new (Ask w t) s) = cg_running s"
    "gen_types (server_step new (Ask w t) s) w' = (if w' = w then insert t (gen_types s w) else gen_types s w')"
proof -
  obtain i f where f: "InformerFor t (new w t) (cg_factory s w) = (i, f)" by (cases "InformerFor t (new w t) (cg_factory s w)")
  note ty = InformerFor_types [OF f]
  show "cg_running (server_step new (Ask w t) s) = cg_running s" by simp
  show "gen_types (server_step new (Ask w t) s) w' = (if w' = w then insert t (gen_types s w) else gen_types s w')"
    using ty(1) by (simp add: gen_types_def f)
  show "gen_ok (server_step new (Ask w t) s)"
    using assms ty by (auto simp: gen_ok_def gen_types_def f)
qed

lemma step_Start:
  assumes "gen_ok s"
  shows "gen_ok (server_step new (Start w) s)"
    "set (cg_running (server_step new (Start w) s)) = set (cg_running s) \<union> Pair w ` gen_types s w"
    "gen_types (server_step new (Start w) s) = gen_types s"
proof -
  obtain ts st where r: "start_loop (fa_informers (cg_factory s w)) (fa_startedInformers (cg_factory s w)) = (ts, st)"
    by (cases "start_loop (fa_informers (cg_factory s w)) (fa_startedInformers (cg_factory s w))")
  have "distinct (map fst (fa_informers (cg_factory s w)))" using assms by (simp add: gen_ok_def)
  note ex = start_loop_exact [OF r this]
  define s' where "s' = s\<lparr>cg_factory := (cg_factory s)(w := (cg_factory s w)\<lparr>fa_startedInformers := st\<rparr>),
      cg_running := cg_running s @ map (Pair w) ts\<rparr>"
  have s: "server_step new (Start w) s = s'" by (simp add: factory_Start_def r s'_def)
  have ty: "gen_types s' = gen_types s" by (auto simp: s'_def gen_types_def fun_eq_iff)
  have started: "fa_startedInformers (cg_factory s w) t \<longleftrightarrow> (w, t) \<in> set (cg_running s)" for t
    using assms by (simp add: gen_ok_def)
  have ts: "set ts = {t \<in> gen_types s w. (w, t) \<notin> set (cg_running s)}" "distinct ts"
    "st = (\<lambda>t. (w, t) \<in> set (cg_running s) \<or> t \<in> gen_types s w)"
    using ex started by (simp_all add: gen_types_def)
  have run: "set (cg_running s') = set (cg_running s) \<union> Pair w ` gen_types s w"
    using ts(1) by (auto simp: s'_def)
  have "distinct (cg_running s')"
    using assms ts(1,2) by (auto simp: s'_def gen_ok_def distinct_map intro: inj_onI)
  moreover have "fa_startedInformers (cg_factory s' w') t \<longleftrightarrow> (w', t) \<in> set (cg_running s')" for w' t
    using assms unfolding run by (auto simp: s'_def ts(3) gen_ok_def)
  moreover have "(w', t) \<in> set (cg_running s') \<Longrightarrow> t \<in> gen_types s' w'" for w' t
    using assms unfolding run ty by (auto simp: gen_ok_def)
  moreover have "distinct (map fst (fa_informers (cg_factory s' w')))" for w' using assms by (simp add: s'_def gen_ok_def)
  ultimately show "gen_ok (server_step new (Start w) s)" unfolding s by (simp add: gen_ok_def)
  show "set (cg_running (server_step new (Start w) s)) = set (cg_running s) \<union> Pair w ` gen_types s w"
    "gen_types (server_step new (Start w) s) = gen_types s" unfolding s by (rule run, rule ty)
qed

lemma server_run_exact:
  assumes "gen_ok s"
  shows "gen_ok (server_run new ops s)
    \<and> ((w, t) \<in> set (cg_running (server_run new ops s)) \<longleftrightarrow>
        (w, t) \<in> set (cg_running s) \<or> t \<in> gen_types s w \<and> Start w \<in> set ops \<or> asked_before_start w t ops)"
  using assms
proof (induction ops arbitrary: s)
  case (Cons op ops)
  have run: "server_run new (op # ops) s = server_run new ops (server_step new op s)" by (simp add: server_run_def)
  show ?case
  proof (cases op)
    case (Ask w' t')
    with Cons.IH [OF step_Ask(1) [OF Cons.prems]] step_Ask(2,3) [OF Cons.prems] show ?thesis
      unfolding run by (auto simp: asked_before_start_Cons)
  next
    case (Start w')
    with Cons.IH [OF step_Start(1) [OF Cons.prems]] step_Start(2,3) [OF Cons.prems] show ?thesis
      unfolding run by (auto simp: asked_before_start_Cons)
  qed
qed (simp add: server_run_def)

text \<open>
  An informer runs once, and only if somebody asked in time.  Whatever is asked of the two factories
  and however often they are started: the informers that run are exactly those asked for before some
  start of their factory, and none of them is run twice.
\<close>

theorem informers_run_once:
  "distinct (cg_running (server_run new ops (new_client_gen r)))
   \<and> (\<forall>w t. (w, t) \<in> set (cg_running (server_run new ops (new_client_gen r))) \<longleftrightarrow> asked_before_start w t ops)"
  using server_run_exact [OF gen_ok_new(1)] by (simp add: gen_ok_def gen_ok_new)

lemma asked_before_start_append:
  "Start w \<notin> set later \<Longrightarrow> asked_before_start w t (ops @ later) \<longleftrightarrow> asked_before_start w t ops"
proof (induction ops)
  case Nil
  have "set post \<subseteq> set later" if "later = pre @ post" for pre post using that by auto
  with Nil show ?case by (auto simp: asked_before_start_def)
qed (auto simp: asked_before_start_Cons)

lemma start_ops_asked:
  "asked_before_start w t start_ops \<longleftrightarrow> (w, t) \<in> {(Core, ''Service''), (Core, ''Deployment''), (Core, ''Pod''),
     (Core, ''ClusterRole''), (Core, ''ClusterRoleBinding''),
     (Cube, ''Infrastructure''), (Cube, ''User''), (Cube, ''Token''), (Cube, ''Principal'')}"
  by (cases w) (auto simp: start_ops_def NewClientGenerator_asks_def NewInfraController_asks_def NewUserController_asks_def
      asked_before_start_Cons)

lemma server_running_set:
  assumes "\<forall>w. Start w \<notin> set later"
  shows "set (cg_running (server_run new (start_ops @ later) (new_client_gen r)))
    = {(Core, ''Service''), (Core, ''Deployment''), (Core, ''Pod''), (Core, ''ClusterRole''), (Core, ''ClusterRoleBinding''),
       (Cube, ''Infrastructure''), (Cube, ''User''), (Cube, ''Token''), (Cube, ''Principal'')}"
proof -
  have "(w, t) \<in> set (cg_running (server_run new (start_ops @ later) (new_client_gen r))) \<longleftrightarrow> asked_before_start w t start_ops" for w t
    using server_run_exact [OF gen_ok_new(1), of new "start_ops @ later" r w t] asked_before_start_append [of w later t start_ops] assms
    by (simp add: gen_ok_new)
  then show ?thesis unfolding start_ops_asked by (intro set_eqI) (simp add: split_paired_all)
qed

text \<open>
  C29. The server's caches, and one that stays empty.  After the start exactly nine informers run, for
  everything the controllers, the login and the pages read from a cache; the factories are not started
  again, so whatever the API handlers ask for later changes nothing.  In particular the informer of the
  component statuses, which the page of the cluster asks for when a client connects, never runs: its
  handler is never called.
\<close>

theorem server_informers_running:
  assumes "\<forall>w. Start w \<notin> set later"
  shows "set (cg_running (server_run new (start_ops @ later) (new_client_gen r)))
    = {(Core, ''Service''), (Core, ''Deployment''), (Core, ''Pod''), (Core, ''ClusterRole''), (Core, ''ClusterRoleBinding''),
       (Cube, ''Infrastructure''), (Cube, ''User''), (Cube, ''Token''), (Cube, ''Principal'')}"
  using assms by (rule server_running_set)

theorem server_informers_running_witness:
  "(Core, ''ComponentStatus'') \<notin> set (cg_running (server_run (\<lambda>_ t resync. NewUserInformer [] resync [])
     (start_ops @ ClusterList_asks) (new_client_gen 30)))"
  by (subst server_informers_running) (simp_all add: ClusterList_asks_def)

section \<open>What the informers list\<close>

lemma list_wire:
  fixes cl :: "('x, unit) client_requests"
  assumes "api_client res name [] cl" "kind_segment res"
  shows "wire (cl_List cl opts) = (None, ''GET'', ''/apis/cube.rancher.io/v1alpha1/'' @ res, [QList opts])"
    "watch_wire (cl_Watch cl opts) = (None, ''GET'', ''/apis/cube.rancher.io/v1alpha1/'' @ res, [QList (opts\<lparr>lo_Watch := True\<rparr>)])"
proof -
  have "path_Join cube_path [res] = cube_path @ [res]" using kind_segmentD [OF assms(2)] by (simp add: path_Join_ok)
  moreover have "path_segment_ok []" by (simp add: path_segment_ok_def)
  ultimately show "wire (cl_List cl opts) = (None, ''GET'', ''/apis/cube.rancher.io/v1alpha1/'' @ res, [QList opts])"
    "watch_wire (cl_Watch cl opts) = (None, ''GET'', ''/apis/cube.rancher.io/v1alpha1/'' @ res, [QList (opts\<lparr>lo_Watch := True\<rparr>)])"
    using assms(1) kind_segmentD [OF assms(2)] base_request [OF kind_segmentD(1,2) [OF assms(2)], of "[]" "''GET''", where 'a = 'x and 'b = unit]
    by (simp_all add: api_client_def wire_def watch_wire_def req_VersionedParams_def new_request_def request_check_def request_URL_def
        path_string_def cube_path_eq)
qed

text \<open>The informer of a kind made by a factory without options.\<close>

definition lists_kind :: "string \<Rightarrow> shared_informer \<Rightarrow> bool" where
  "lists_kind res i \<longleftrightarrow> si_indexers i = [NamespaceIndex]
     \<and> (\<forall>opts. si_List i opts = (None, ''GET'', ''/apis/cube.rancher.io/v1alpha1/'' @ res, [QList opts])
       \<and> si_Watch i opts = (None, ''GET'', ''/apis/cube.rancher.io/v1alpha1/'' @ res, [QList (opts\<lparr>lo_Watch := True\<rparr>)]))"

lemma default_informers:
  assumes "v = \<lparr>ki_namespace = [], ki_tweakListOptions = None\<rparr>"
  shows "lists_kind ''groups'' (groups_defaultInformer v r)" "lists_kind ''groupmembers'' (groupMembers_defaultInformer v r)"
    "lists_kind ''infrastructures'' (infrastructures_defaultInformer v r)" "lists_kind ''localconfigs'' (localConfigs_defaultInformer v r)"
    "lists_kind ''principals'' (principals_defaultInformer v r)" "lists_kind ''tokens'' (tokens_defaultInformer v r)"
    "lists_kind ''users'' (users_defaultInformer v r)"
  using list_wire [OF clients_api(1) kind_segments(1)] list_wire [OF clients_api(2) kind_segments(2)]
    list_wire [OF clients_api(3) kind_segments(3)] list_wire [OF clients_api(4) kind_segments(4)]
    list_wire [OF clients_api(5) kind_segments(5)] list_wire [OF clients_api(6) kind_segments(6)]
    list_wire [OF clients_api(7) kind_segments(7)] assms
  by (simp_all add: lists_kind_def informer_defs tweaked_def)

text \<open>
  A cache sees every object of its kind.  The informer that a new factory gives for a resource of the
  group lists and watches this resource in all namespaces, with the options of the library unchanged
  but for the flag that tells a watch, and with requests that no check refuses.
\<close>

theorem informers_list_kind:
  assumes "res \<in> {''groups'', ''groupmembers'', ''infrastructures'', ''localconfigs'', ''principals'', ''tokens'', ''users''}"
  shows "\<exists>i f. ForResource ''cube.rancher.io'' ''v1alpha1'' res (NewSharedInformerFactory resync) = (Inr i, f) \<and> lists_kind res i"
proof -
  let ?f = "NewSharedInformerFactory resync"
  define v where "v = \<lparr>ki_namespace = [], ki_tweakListOptions = None\<rparr>"
  have v: "group_V1alpha1 (factory_Cube ?f) = v"
    by (simp add: group_V1alpha1_def factory_Cube_def group_New_def NewSharedInformerFactory_def NewSharedInformerFactoryWithOptions_def v_def)
  have new: "InformerFor t new ?f = (new resync, ?f\<lparr>fa_informers := [(t, new resync)]\<rparr>)" for t new
    by (simp add: InformerFor_def Let_def NewSharedInformerFactory_def NewSharedInformerFactoryWithOptions_def)
  have "version_groups v = v" "version_groupMembers v = v" "version_infrastructures v = v" "version_localConfigs v = v"
    "version_principals v = v" "version_tokens v = v" "version_users v = v"
    by (simp_all add: informer_defs v_def)
  with assms default_informers [OF v_def, of resync] show ?thesis
    by (auto simp: ForResource_def v new groups_Informer_def groupMembers_Informer_def infrastructures_Informer_def
        localConfigs_Informer_def principals_Informer_def tokens_Informer_def users_Informer_def)
qed

theorem informers_list_kind_witness:
  "\<exists>i f. ForResource ''cube.rancher.io'' ''v1alpha1'' ''tokens'' (NewSharedInformerFactory 30) = (Inr i, f) \<and> lists_kind ''tokens'' i"
  by (rule informers_list_kind) simp

end
