(* ===== verification/Cube_Run.thy ===== *)
theory Cube_Run
  imports Cube_Factory Cube_User_Controller Cube_Infra_Controller
begin

text \<open>
  The life of a controller: \<open>Run\<close> of both controllers, which waits for the informer caches, starts the
  workers and ends with the server, and \<open>runWorker\<close>, the loop around \<open>processNextWorkItem\<close>.  What
  happens outside is a list of events: a cache has synced, the stop channel is closed.
\<close>

section \<open>Run\<close>

datatype run_event = HasSynced origin string | StopClosed

text \<open>The deferred \<open>ShutDown\<close> of the queue has run exactly when \<open>Run\<close> has ended.\<close>

datatype run_phase = WaitingForSync | Working nat | Ended "go_error option"

definition all_synced :: "(origin \<times> string) list \<Rightarrow> (origin \<times> string) list \<Rightarrow> bool" where
  "all_synced waits synced \<longleftrightarrow> list_all (\<lambda>x. x \<in> set synced) waits"

text \<open>The caches are polled; whichever comes first, the last of them or the end, decides.\<close>

fun controller_Run :: "(origin \<times> string) list \<Rightarrow> nat \<Rightarrow> (origin \<times> string) list \<Rightarrow> run_event list \<Rightarrow> run_phase" where
  "controller_Run waits threadiness synced [] =
     (if all_synced waits synced then Working threadiness else WaitingForSync)"
| "controller_Run waits threadiness synced (StopClosed # es) =
     (if all_synced waits synced then Ended None
      else Ended (Some (Errorf ''failed to wait for caches to sync'' [])))"
| "controller_Run waits threadiness synced (HasSynced w t # es) =
     controller_Run waits threadiness ((w, t) # synced) es"

definition infra_Run :: "nat \<Rightarrow> run_event list \<Rightarrow> run_phase" where
  "infra_Run threadiness =
     controller_Run [(Core, ''Deployment''), (Cube, ''Infrastructure''), (Core, ''Service'')] threadiness []"

definition user_Run :: "nat \<Rightarrow> run_event list \<Rightarrow> run_phase" where
  "user_Run threadiness =
     controller_Run [(Cube, ''User''), (Cube, ''Token''), (Cube, ''Principal''), (Core, ''ClusterRoleBinding''), (Core, ''ClusterRole'')]
       threadiness []"

lemma controller_Run_working:
  assumes "StopClosed \<notin> set es" "\<forall>(w, t) \<in> set waits. (w, t) \<in> set synced \<or> HasSynced w t \<in> set es"
  shows "controller_Run waits n synced es = Working n"
  using assms
proof (induction es arbitrary: synced)
  case Nil
  then show ?case by (auto simp: all_synced_def list_all_iff)
next
  case (Cons e es)
  then obtain w t where e: "e = HasSynced w t" by (cases e) auto
  have "\<forall>(w', t') \<in> set waits. (w', t') \<in> set ((w, t) # synced) \<or> HasSynced w' t' \<in> set es"
    using Cons.prems(2) by (auto simp: e)
  from Cons.IH [OF _ this] Cons.prems(1) show ?case by (simp add: e)
qed

lemma controller_Run_waiting:
  assumes "StopClosed \<notin> set es" "(w, t) \<in> set waits" "(w, t) \<notin> set synced" "HasSynced w t \<notin> set es"
  shows "controller_Run waits n synced es = WaitingForSync"
  using assms
proof (induction es arbitrary: synced)
  case Nil
  then show ?case by (auto simp: all_synced_def list_all_iff)
next
  case (Cons e es)
  then obtain w' t' where e: "e = HasSynced w' t'" by (cases e) auto
  with Cons.IH [of "(w', t') # synced"] Cons.prems show ?case by auto
qed

text \<open>
  C30. The controllers come to work.  Every cache a controller waits for belongs to an informer that the
  start of the server runs: once the running informers have synced, and unless the server is stopped
  before, both controllers have their two workers.
\<close>

theorem controllers_start:
  assumes "\<forall>w. Start w \<notin> set later" "StopClosed \<notin> set es"
    and "\<forall>(w, t) \<in> set (cg_running (server_run new (start_ops @ later) (new_client_gen r))). HasSynced w t \<in> set es"
  shows "infra_Run 2 es = Working 2 \<and> user_Run 2 es = Working 2"
  using assms(3) unfolding server_running_set [OF assms(1)] infra_Run_def user_Run_def
  by (intro conjI controller_Run_working assms(2)) auto

definition running_synced :: "run_event list" where
  "running_synced =
    [HasSynced Core ''Service'', HasSynced Core ''Deployment'', HasSynced Core ''Pod'', HasSynced Core ''ClusterRole'',
     HasSynced Core ''ClusterRoleBinding'', HasSynced Cube ''Infrastructure'', HasSynced Cube ''User'', HasSynced Cube ''Token'',
     HasSynced Cube ''Principal'']"

theorem controllers_start_witness: "infra_Run 2 running_synced = Working 2 \<and> user_Run 2 running_synced = Working 2"
  by (rule controllers_start [of ClusterList_asks _ "\<lambda>_ t resync. NewUserInformer [] resync []" 30])
    (auto simp: ClusterList_asks_def running_synced_def server_running_set)

section \<open>runWorker\<close>

datatype 'w worker_end = WorkerWaits delaying_queue 'w | WorkerEnds delaying_queue 'w | WorkerCrashes string

text \<open>The loop, with nobody else at the queue; not to return is \<open>None\<close>.\<close>

partial_function (option) runWorker ::
    "(string \<Rightarrow> 'w \<Rightarrow> (go_error option \<times> 'w) outcome) \<Rightarrow> delaying_queue \<Rightarrow> 'w \<Rightarrow> 'w worker_end option" where
  "runWorker syncHandler d w =
     (case process_next syncHandler [] d w of
        Panic m \<Rightarrow> Some (WorkerCrashes m)
      | Return it \<Rightarrow> (case it of
            Blocked \<Rightarrow> Some (WorkerWaits d w)
          | Stopped \<Rightarrow> Some (WorkerEnds d w)
          | Iterated d' w' err \<Rightarrow> runWorker syncHandler d' w'))"

definition user_runWorker where "user_runWorker srv cs = runWorker (user_syncHandler srv cs)"

definition infra_runWorker where "infra_runWorker srv cs = runWorker (infra_syncHandler srv cs)"

text \<open>One call of the handler for every key, in order, whatever its error; a panic ends it.\<close>

fun work_all :: "(string \<Rightarrow> 'w \<Rightarrow> (go_error option \<times> 'w) outcome) \<Rightarrow> work_item list \<Rightarrow> 'w \<Rightarrow> 'w outcome" where
  "work_all h [] w = Return w"
| "work_all h (NotAString # items) w = work_all h items w"
| "work_all h (Key key # items) w = bind_outcome (h key w) (\<lambda>(err, w'). work_all h items w')"

lemma process_next_empty:
  assumes "wq_queue (dq_queue d) = []"
  shows "process_next h [] d w = Return (if wq_shuttingDown (dq_queue d) then Stopped else Blocked)"
  using assms by (simp add: process_next_def wq_Get_def)

text \<open>One pass takes the head off the queue and leaves the rest.\<close>

lemma one_pass_rest:
  assumes "wq_ok q" "wq_queue q = item # items"
  obtains q1 where "wq_Get q = (Got item, q1)" "wq_ok (wq_Done item q1)" "wq_queue (wq_Done item q1) = items"
    "wq_shuttingDown (wq_Done item q1) = wq_shuttingDown q"
proof -
  obtain q1 where q1: "wq_Get q = (Got item, q1)" using assms(2) by (simp add: wq_Get_def)
  moreover have "wq_ok (wq_Done item q1)" using wq.one_pass(1) [OF assms(1) q1, of "[]"] by simp
  moreover have "wq_queue (wq_Done item q1) = items" "wq_shuttingDown (wq_Done item q1) = wq_shuttingDown q"
    using q1 assms(2) by (auto simp: wq_Get_def wq_Done_def Let_def)
  ultimately show thesis by (rule that)
qed

text \<open>
  C31. A worker works the queue off.  With nobody else at the queue the loop always comes back: it has
  called the handler once for every queued key, in the order of the queue and whatever errors there
  were, the queue is empty, and the worker ends exactly if the queue is shut down and otherwise waits;
  only a panic of the handler stops it before.
\<close>

theorem worker_drains:
  assumes "wq_ok (dq_queue d)"
  shows "\<exists>d'. wq_queue (dq_queue d') = [] \<and> runWorker h d w = Some
    (case work_all h (wq_queue (dq_queue d)) w of Panic m \<Rightarrow> WorkerCrashes m
     | Return w' \<Rightarrow> if wq_shuttingDown (dq_queue d) then WorkerEnds d' w' else WorkerWaits d' w')"
  using assms
proof (induction "wq_queue (dq_queue d)" arbitrary: d w)
  case Nil
  then have "runWorker h d w = Some (if wq_shuttingDown (dq_queue d) then WorkerEnds d w else WorkerWaits d w)"
    by (subst runWorker.simps) (simp add: process_next_empty)
  with Nil show ?case by (intro exI [of _ d]) simp
next
  case (Cons item items)
  from one_pass_rest [OF Cons.prems Cons.hyps(2) [symmetric]] obtain q1 where
    q1: "wq_Get (dq_queue d) = (Got item, q1)" "wq_ok (wq_Done item q1)" "wq_queue (wq_Done item q1) = items"
    "wq_shuttingDown (wq_Done item q1) = wq_shuttingDown (dq_queue d)" .
  note ih = Cons.hyps(1) [where d = "e\<lparr>dq_queue := wq_Done item q1\<rparr>" for e, simplified, OF q1(3) [symmetric] q1(2)]
  show ?case
  proof (cases item)
    case NotAString
    have "runWorker h d w = runWorker h ((Forget item d)\<lparr>dq_queue := wq_Done item q1\<rparr>) w"
      by (subst runWorker.simps) (simp add: process_next_def q1(1) NotAString)
    with ih [of "Forget item d" w] show ?thesis
      by (cases "work_all h items w") (simp_all add: Cons.hyps(2) [symmetric] NotAString q1 [unfolded NotAString])
  next
    case (Key key)
    show ?thesis
    proof (cases "h key w")
      case (Panic m)
      then have "runWorker h d w = Some (WorkerCrashes m)"
        by (subst runWorker.simps) (simp add: process_next_def q1(1) Key)
      then show ?thesis
        using q1 by (simp add: Cons.hyps(2) [symmetric] Key Panic) (metis ih q1(3))
    next
      case (Return p)
      obtain err w' where p: "p = (err, w')" by (cases p)
      have "runWorker h d w = runWorker h ((if err = None then Forget item d else d)\<lparr>dq_queue := wq_Done item q1\<rparr>) w'"
        by (subst runWorker.simps) (simp add: process_next_def q1(1) Key Return p)
      with ih [of "if err = None then Forget item d else d" w'] show ?thesis
        by (cases err; cases "work_all h items w'") (simp_all add: Cons.hyps(2) [symmetric] Key Return p q1 [unfolded Key])
    qed
  qed
qed


theorem worker_drains_witness:
  "\<exists>d. wq_queue (dq_queue d) = [] \<and> runWorker (\<lambda>key n. Return (None, Suc n)) (dq_New\<lparr>dq_queue := wq_Add (Key ''a'') (wq_Add (Key ''b'') wq_New)\<rparr>) (0 :: nat)
     = Some (WorkerWaits d 2)"
proof -
  have "wq_ok (wq_Add (Key ''a'') (wq_Add (Key ''b'') wq_New))" by (intro wq.add_inv wq_ok_New)
  then show ?thesis
    using worker_drains [of "dq_New\<lparr>dq_queue := wq_Add (Key ''a'') (wq_Add (Key ''b'') wq_New)\<rparr>" "\<lambda>key n. Return (None, Suc n)" 0]
    by (simp add: wq_Add_def wq_New_def numeral_2_eq_2)
qed

end
