(* ===== verification/Cube_Fake.thy ===== *)
theory Cube_Fake
  imports Cube_Tracker Cube_Requests
begin

text \<open>
  The fake clients of the group (\<open>k8s/pkg/client/clientset/versioned/fake\<close> and
  \<open>typed/cube/v1alpha1/fake\<close>): every method records an action and hands it to the reactor, which
  \<open>NewSimpleClientset\<close> makes from an object tracker.  A method can answer with a nil object, and its
  type assertions can panic.  The lemmas compare the fakes with the real clients on the same tracker:
  this is how far a test with the fakes speaks about the program.
\<close>

section \<open>Actions and reactors\<close>

datatype action =
    GetAction resource string string
  | ListAction resource string string list_options
  | WatchAction resource string list_options
  | CreateAction resource string k8s_obj
  | UpdateAction resource string k8s_obj
  | DeleteAction resource string string
  | DeleteCollectionAction resource string list_options
  | PatchAction resource string string string "string list"

datatype answer = AnObject k8s_obj | AList "k8s_obj list"

type_synonym 'w reactor = "action \<Rightarrow> 'w \<Rightarrow> (bool \<times> answer option \<times> go_error option) \<times> 'w"

record 'w fake =
  fk_actions :: "action list"
  fk_world :: 'w

text \<open>\<open>Invokes\<close> with the one reactor of \<open>NewSimpleClientset\<close>; the error of a reactor that does not handle the action is dropped.\<close>

definition Invokes :: "'w reactor \<Rightarrow> action \<Rightarrow> answer \<Rightarrow> 'w fake \<Rightarrow> (answer option \<times> go_error option) \<times> 'w fake" where
  "Invokes react action dflt c =
     (case react action (fk_world c) of ((handled, ret, err), w) \<Rightarrow>
        (if handled then (ret, err) else (Some dflt, None),
         c\<lparr>fk_actions := fk_actions c @ [action], fk_world := w\<rparr>))"

definition answered :: "(go_error + k8s_obj) \<times> 'w \<Rightarrow> (bool \<times> answer option \<times> go_error option) \<times> 'w" where
  "answered res = (case res of (Inl e, w) \<Rightarrow> ((True, None, Some e), w) | (Inr x, w) \<Rightarrow> ((True, Some (AnObject x), None), w))"

definition object_reaction :: "tracker reactor" where
  "object_reaction action t =
     (case action of
        ListAction gvr kind ns opts \<Rightarrow> ((True, Some (AList (tracker_List gvr ns t)), None), t)
      | GetAction gvr ns name \<Rightarrow> answered (tracker_Get gvr ns name t, t)
      | CreateAction gvr ns obj \<Rightarrow> answered (react_add False gvr ns obj t)
      | UpdateAction gvr ns obj \<Rightarrow> answered (react_add True gvr ns obj t)
      | DeleteAction gvr ns name \<Rightarrow> (case tracker_Delete gvr ns name t of (err, t') \<Rightarrow> ((True, None, err), t'))
      | _ \<Rightarrow> ((False, None, Some (Errorf ''no reaction implemented for %s'' [])), t))"

text \<open>A clientset that holds some objects already.\<close>

fun add_objects :: "k8s_obj list \<Rightarrow> tracker \<Rightarrow> tracker outcome" where
  "add_objects [] t = Return t"
| "add_objects (obj # objs) t =
     (case tracker_add (obj_resource obj) obj (om_Namespace (obj_meta obj)) False t of
        (Some err, _) \<Rightarrow> Panic ''cannot add'' | (None, t') \<Rightarrow> add_objects objs t')"

definition NewSimpleClientset :: "k8s_obj list \<Rightarrow> tracker fake outcome" where
  "NewSimpleClientset objects =
     bind_outcome (add_objects objects NewObjectTracker) (\<lambda>o'. Return \<lparr>fk_actions = [], fk_world = o'\<rparr>)"

section \<open>The clients\<close>

text \<open>\<open>if obj == nil { return nil, err }; return obj.(*T), err\<close>\<close>

definition returned ::
    "(k8s_obj \<Rightarrow> 'x option) \<Rightarrow> (answer option \<times> go_error option) \<times> 'w fake
       \<Rightarrow> ('x option \<times> go_error option) outcome \<times> 'w fake" where
  "returned sel res =
     (case res of ((obj, err), c) \<Rightarrow>
        (case obj of
           None \<Rightarrow> Return (None, err)
         | Some (AnObject x) \<Rightarrow> (case sel x of None \<Rightarrow> Panic ''interface conversion'' | Some y \<Rightarrow> Return (Some y, err))
         | Some (AList _) \<Rightarrow> Panic ''interface conversion'', c))"

text \<open>
  The items of a list whose labels match.  Reading the selectors (\<open>ExtractFromListOptions\<close>) panics on
  text that is none.
\<close>

definition returned_list ::
    "(k8s_obj \<Rightarrow> 'x option) \<Rightarrow> (string_map \<Rightarrow> bool) \<Rightarrow> (answer option \<times> go_error option) \<times> 'w fake
       \<Rightarrow> ('x list option \<times> go_error option) outcome \<times> 'w fake" where
  "returned_list sel label res =
     (case res of ((obj, err), c) \<Rightarrow>
        (case obj of
           None \<Rightarrow> Return (None, err)
         | Some (AList xs) \<Rightarrow>
             (if list_all (\<lambda>x. sel x \<noteq> None) xs
              then Return (Some (List.map_filter sel (filter (\<lambda>x. label (om_Labels (obj_meta x))) xs)), err)
              else Panic ''interface conversion'')
         | Some (AnObject _) \<Rightarrow> Panic ''interface conversion'', c))"

record ('x, 'w) fake_client =
  fc_Get :: "string \<Rightarrow> get_options \<Rightarrow> 'w fake \<Rightarrow> ('x option \<times> go_error option) outcome \<times> 'w fake"
  fc_List :: "list_options \<Rightarrow> 'w fake \<Rightarrow> ('x list option \<times> go_error option) outcome \<times> 'w fake"
  fc_Watch :: "list_options \<Rightarrow> action outcome"
  fc_Create :: "'x \<Rightarrow> 'w fake \<Rightarrow> ('x option \<times> go_error option) outcome \<times> 'w fake"
  fc_Update :: "'x \<Rightarrow> 'w fake \<Rightarrow> ('x option \<times> go_error option) outcome \<times> 'w fake"
  fc_Delete :: "string \<Rightarrow> 'w fake \<Rightarrow> go_error option \<times> 'w fake"
  fc_DeleteCollection :: "list_options \<Rightarrow> 'w fake \<Rightarrow> go_error option outcome \<times> 'w fake"
  fc_Patch :: "string \<Rightarrow> string \<Rightarrow> string list \<Rightarrow> 'w fake \<Rightarrow> ('x option \<times> go_error option) outcome \<times> 'w fake"

text \<open>\<open>extract\<close> is \<open>ExtractFromListOptions\<close>; \<open>Watch\<close> is given by the action it invokes.\<close>

type_synonym read_options = "list_options \<Rightarrow> (string_map \<Rightarrow> bool) outcome"

definition FakeGroups :: "read_options \<Rightarrow> 'w reactor \<Rightarrow> string \<Rightarrow> (group, 'w) fake_client" where
  "FakeGroups extract react ns = \<lparr>
     fc_Get = (\<lambda>name options c. returned as_group (Invokes react (GetAction RGroups ns name) (AnObject (ObjGroup zero_group)) c)),
     fc_List = (\<lambda>opts c. case extract opts of Panic m \<Rightarrow> (Panic m, c)
       | Return label \<Rightarrow> returned_list as_group label (Invokes react (ListAction RGroups ''Group'' ns opts) (AList []) c)),
     fc_Watch = (\<lambda>opts. bind_outcome (extract opts) (\<lambda>_. Return (WatchAction RGroups ns opts))),
     fc_Create = (\<lambda>x c. returned as_group (Invokes react (CreateAction RGroups ns (ObjGroup x)) (AnObject (ObjGroup zero_group)) c)),
     fc_Update = (\<lambda>x c. returned as_group (Invokes react (UpdateAction RGroups ns (ObjGroup x)) (AnObject (ObjGroup zero_group)) c)),
     fc_Delete = (\<lambda>name c. case Invokes react (DeleteAction RGroups ns name) (AnObject (ObjGroup zero_group)) c of
       ((_, err), c') \<Rightarrow> (err, c')),
     fc_DeleteCollection = (\<lambda>listOptions c. case extract listOptions of Panic m \<Rightarrow> (Panic m, c)
       | Return _ \<Rightarrow> (case Invokes react (DeleteCollectionAction RGroups ns listOptions) (AList []) c of
           ((_, err), c') \<Rightarrow> (Return err, c'))),
     fc_Patch = (\<lambda>name data subresources c. returned as_group
       (Invokes react (PatchAction RGroups ns name data subresources) (AnObject (ObjGroup zero_group)) c))\<rparr>"

definition FakeGroupMembers :: "read_options \<Rightarrow> 'w reactor \<Rightarrow> string \<Rightarrow> (group_member, 'w) fake_client" where
  "FakeGroupMembers extract react ns = \<lparr>
     fc_Get = (\<lambda>name options c. returned as_group_member (Invokes react (GetAction RGroupMembers ns name) (AnObject (ObjGroupMember zero_group_member)) c)),
     fc_List = (\<lambda>opts c. case extract opts of Panic m \<Rightarrow> (Panic m, c)
       | Return label \<Rightarrow> returned_list as_group_member label (Invokes react (ListAction RGroupMembers ''GroupMember'' ns opts) (AList []) c)),
     fc_Watch = (\<lambda>opts. bind_outcome (extract opts) (\<lambda>_. Return (WatchAction RGroupMembers ns opts))),
     fc_Create = (\<lambda>x c. returned as_group_member (Invokes react (CreateAction RGroupMembers ns (ObjGroupMember x)) (AnObject (ObjGroupMember zero_group_member)) c)),
     fc_Update = (\<lambda>x c. returned as_group_member (Invokes react (UpdateAction RGroupMembers ns (ObjGroupMember x)) (AnObject (ObjGroupMember zero_group_member)) c)),
     fc_Delete = (\<lambda>name c. case Invokes react (DeleteAction RGroupMembers ns name) (AnObject (ObjGroupMember zero_group_member)) c of
       ((_, err), c') \<Rightarrow> (err, c')),
     fc_DeleteCollection = (\<lambda>listOptions c. case extract listOptions of Panic m \<Rightarrow> (Panic m, c)
       | Return _ \<Rightarrow> (case Invokes react (DeleteCollectionAction RGroupMembers ns listOptions) (AList []) c of
           ((_, err), c') \<Rightarrow> (Return err, c'))),
     fc_Patch = (\<lambda>name data subresources c. returned as_group_member
       (Invokes react (PatchAction RGroupMembers ns name data subresources) (AnObject (ObjGroupMember zero_group_member)) c))\<rparr>"

definition FakeInfrastructures :: "read_options \<Rightarrow> 'w reactor \<Rightarrow> string \<Rightarrow> (infrastructure, 'w) fake_client" where
  "FakeInfrastructures extract react ns = \<lparr>
     fc_Get = (\<lambda>name options c. returned as_infra (Invokes react (GetAction RInfrastructures ns name) (AnObject (ObjInfra zero_infra)) c)),
     fc_List = (\<lambda>opts c. case extract opts of Panic m \<Rightarrow> (Panic m, c)
       | Return label \<Rightarrow> returned_list as_infra label (Invokes react (ListAction RInfrastructures ''Infrastructure'' ns opts) (AList []) c)),
     fc_Watch = (\<lambda>opts. bind_outcome (extract opts) (\<lambda>_. Return (WatchAction RInfrastructures ns opts))),
     fc_Create = (\<lambda>x c. returned as_infra (Invokes react (CreateAction RInfrastructures ns (ObjInfra x)) (AnObject (ObjInfra zero_infra)) c)),
     fc_Update = (\<lambda>x c. returned as_infra (Invokes react (UpdateAction RInfrastructures ns (ObjInfra x)) (AnObject (ObjInfra zero_infra)) c)),
     fc_Delete = (\<lambda>name c. case Invokes react (DeleteAction RInfrastructures ns name) (AnObject (ObjInfra zero_infra)) c of
       ((_, err), c') \<Rightarrow> (err, c')),
     fc_DeleteCollection = (\<lambda>listOptions c. case extract listOptions of Panic m \<Rightarrow> (Panic m, c)
       | Return _ \<Rightarrow> (case Invokes react (DeleteCollectionAction RInfrastructures ns listOptions) (AList []) c of
           ((_, err), c') \<Rightarrow> (Return err, c'))),
     fc_Patch = (\<lambda>name data subresources c. returned as_infra
       (Invokes react (PatchAction RInfrastructures ns name data subresources) (AnObject (ObjInfra zero_infra)) c))\<rparr>"

definition FakeLocalConfigs :: "read_options \<Rightarrow> 'w reactor \<Rightarrow> string \<Rightarrow> (local_config, 'w) fake_client" where
  "FakeLocalConfigs extract react ns = \<lparr>
     fc_Get = (\<lambda>name options c. returned as_local_config (Invokes react (GetAction RLocalConfigs ns name) (AnObject (ObjLocalConfig zero_local_config)) c)),
     fc_List = (\<lambda>opts c. case extract opts of Panic m \<Rightarrow> (Panic m, c)
       | Return label \<Rightarrow> returned_list as_local_config label (Invokes react (ListAction RLocalConfigs ''LocalConfig'' ns opts) (AList []) c)),
     fc_Watch = (\<lambda>opts. bind_outcome (extract opts) (\<lambda>_. Return (WatchAction RLocalConfigs ns opts))),
     fc_Create = (\<lambda>x c. returned as_local_config (Invokes react (CreateAction RLocalConfigs ns (ObjLocalConfig x)) (AnObject (ObjLocalConfig zero_local_config)) c)),
     fc_Update = (\<lambda>x c. returned as_local_config (Invokes react (UpdateAction RLocalConfigs ns (ObjLocalConfig x)) (AnObject (ObjLocalConfig zero_local_config)) c)),
     fc_Delete = (\<lambda>name c. case Invokes react (DeleteAction RLocalConfigs ns name) (AnObject (ObjLocalConfig zero_local_config)) c of
       ((_, err), c') \<Rightarrow> (err, c')),
     fc_DeleteCollection = (\<lambda>listOptions c. case extract listOptions of Panic m \<Rightarrow> (Panic m, c)
       | Return _ \<Rightarrow> (case Invokes react (DeleteCollectionAction RLocalConfigs ns listOptions) (AList []) c of
           ((_, err), c') \<Rightarrow> (Return err, c'))),
     fc_Patch = (\<lambda>name data subresources c. returned as_local_config
       (Invokes react (PatchAction RLocalConfigs ns name data subresources) (AnObject (ObjLocalConfig zero_local_config)) c))\<rparr>"

definition FakePrincipals :: "read_options \<Rightarrow> 'w reactor \<Rightarrow> string \<Rightarrow> (principal, 'w) fake_client" where
  "FakePrincipals extract react ns = \<lparr>
     fc_Get = (\<lambda>name options c. returned as_principal (Invokes react (GetAction RPrincipals ns name) (AnObject (ObjPrincipal zero_principal)) c)),
     fc_List = (\<lambda>opts c. case extract opts of Panic m \<Rightarrow> (Panic m, c)
       | Return label \<Rightarrow> returned_list as_principal label (Invokes react (ListAction RPrincipals ''Principal'' ns opts) (AList []) c)),
     fc_Watch = (\<lambda>opts. bind_outcome (extract opts) (\<lambda>_. Return (WatchAction RPrincipals ns opts))),
     fc_Create = (\<lambda>x c. returned as_principal (Invokes react (CreateAction RPrincipals ns (ObjPrincipal x)) (AnObject (ObjPrincipal zero_principal)) c)),
     fc_Update = (\<lambda>x c. returned as_principal (Invokes react (UpdateAction RPrincipals ns (ObjPrincipal x)) (AnObject (ObjPrincipal zero_principal)) c)),
     fc_Delete = (\<lambda>name c. case Invokes react (DeleteAction RPrincipals ns name) (AnObject (ObjPrincipal zero_principal)) c of
       ((_, err), c') \<Rightarrow> (err, c')),
     fc_DeleteCollection = (\<lambda>listOptions c. case extract listOptions of Panic m \<Rightarrow> (Panic m, c)
       | Return _ \<Rightarrow> (case Invokes react (DeleteCollectionAction RPrincipals ns listOptions) (AList []) c of
           ((_, err), c') \<Rightarrow> (Return err, c'))),
     fc_Patch = (\<lambda>name data subresources c. returned as_principal
       (Invokes react (PatchAction RPrincipals ns name data subresources) (AnObject (ObjPrincipal zero_principal)) c))\<rparr>"

definition FakeTokens :: "read_options \<Rightarrow> 'w reactor \<Rightarrow> string \<Rightarrow> (token, 'w) fake_client" where
  "FakeTokens extract react ns = \<lparr>
     fc_Get = (\<lambda>name options c. returned as_token (Invokes react (GetAction RTokens ns name) (AnObject (ObjToken zero_token)) c)),
     fc_List = (\<lambda>opts c. case extract opts of Panic m \<Rightarrow> (Panic m, c)
       | Return label \<Rightarrow> returned_list as_token label (Invokes react (ListAction RTokens ''Token'' ns opts) (AList []) c)),
     fc_Watch = (\<lambda>opts. bind_outcome (extract opts) (\<lambda>_. Return (WatchAction RTokens ns opts))),
     fc_Create = (\<lambda>x c. returned as_token (Invokes react (CreateAction RTokens ns (ObjToken x)) (AnObject (ObjToken zero_token)) c)),
     fc_Update = (\<lambda>x c. returned as_token (Invokes react (UpdateAction RTokens ns (ObjToken x)) (AnObject (ObjToken zero_token)) c)),
     fc_Delete = (\<lambda>name c. case Invokes react (DeleteAction RTokens ns name) (AnObject (ObjToken zero_token)) c of
       ((_, err), c') \<Rightarrow> (err, c')),
     fc_DeleteCollection = (\<lambda>listOptions c. case extract listOptions of Panic m \<Rightarrow> (Panic m, c)
       | Return _ \<Rightarrow> (case Invokes react (DeleteCollectionAction RTokens ns listOptions) (AList []) c of
           ((_, err), c') \<Rightarrow> (Return err, c'))),
     fc_Patch = (\<lambda>name data subresources c. returned as_token
       (Invokes react (PatchAction RTokens ns name data subresources) (AnObject (ObjToken zero_token)) c))\<rparr>"

definition FakeUsers :: "read_options \<Rightarrow> 'w reactor \<Rightarrow> string \<Rightarrow> (user, 'w) fake_client" where
  "FakeUsers extract react ns = \<lparr>
     fc_Get = (\<lambda>name options c. returned as_user (Invokes react (GetAction RUsers ns name) (AnObject (ObjUser zero_user)) c)),
     fc_List = (\<lambda>opts c. case extract opts of Panic m \<Rightarrow> (Panic m, c)
       | Return label \<Rightarrow> returned_list as_user label (Invokes react (ListAction RUsers ''User'' ns opts) (AList []) c)),
     fc_Watch = (\<lambda>opts. bind_outcome (extract opts) (\<lambda>_. Return (WatchAction RUsers ns opts))),
     fc_Create = (\<lambda>x c. returned as_user (Invokes react (CreateAction RUsers ns (ObjUser x)) (AnObject (ObjUser zero_user)) c)),
     fc_Update = (\<lambda>x c. returned as_user (Invokes react (UpdateAction RUsers ns (ObjUser x)) (AnObject (ObjUser zero_user)) c)),
     fc_Delete = (\<lambda>name c. case Invokes react (DeleteAction RUsers ns name) (AnObject (ObjUser zero_user)) c of
       ((_, err), c') \<Rightarrow> (err, c')),
     fc_DeleteCollection = (\<lambda>listOptions c. case extract listOptions of Panic m \<Rightarrow> (Panic m, c)
       | Return _ \<Rightarrow> (case Invokes react (DeleteCollectionAction RUsers ns listOptions) (AList []) c of
           ((_, err), c') \<Rightarrow> (Return err, c'))),
     fc_Patch = (\<lambda>name data subresources c. returned as_user
       (Invokes react (PatchAction RUsers ns name data subresources) (AnObject (ObjUser zero_user)) c))\<rparr>"

lemmas fake_defs = FakeGroups_def FakeGroupMembers_def FakeInfrastructures_def FakeLocalConfigs_def FakePrincipals_def FakeTokens_def FakeUsers_def

section \<open>The fakes and the real clients\<close>

text \<open>The same answer, but for the object that comes with an error: nil for the fake, empty for the real client.\<close>

definition agrees :: "('x option \<times> go_error option) outcome \<times> 'w fake \<Rightarrow> ('x \<times> go_error option) \<times> 'w \<Rightarrow> bool" where
  "agrees res real \<longleftrightarrow> fst res = Return (if snd (fst real) = None then Some (fst (fst real)) else None, snd (fst real))
     \<and> fk_world (snd res) = snd real"

text \<open>
  On the requests \<open>Get\<close>, \<open>Create\<close>, \<open>Update\<close>, \<open>Delete\<close> and \<open>List\<close>, when the real client sends them; a list is asked
  for with a selector of labels.
\<close>

definition fake_agrees ::
    "read_options \<Rightarrow> resource \<Rightarrow> 'x \<Rightarrow> (k8s_obj \<Rightarrow> 'x option) \<Rightarrow> ('x \<Rightarrow> k8s_obj) \<Rightarrow> string
       \<Rightarrow> ('x, tracker) fake_client \<Rightarrow> bool" where
  "fake_agrees extract r zero sel obj ns fc \<longleftrightarrow> (\<forall>c. tracker_ok (fk_world c) \<longrightarrow>
     (\<forall>n options. rest_error GET r ns (Some n) = None \<longrightarrow>
        agrees (fc_Get fc n options c) (into zero sel (client_get ObjectReaction r ns n (fk_world c))))
     \<and> (\<forall>x. rest_error POST r ns None = None \<longrightarrow>
        agrees (fc_Create fc x c) (into zero sel (client_create ObjectReaction r ns (obj x) (fk_world c))))
     \<and> (\<forall>x. rest_error PUT r ns (Some (om_Name (obj_meta (obj x)))) = None \<longrightarrow>
        agrees (fc_Update fc x c) (into zero sel (client_update ObjectReaction r ns (obj x) (fk_world c))))
     \<and> (\<forall>n. rest_error DELETE r ns (Some n) = None \<longrightarrow>
        (case fc_Delete fc n c of (err, c') \<Rightarrow> (err, fk_world c')) = client_delete ObjectReaction r ns n (fk_world c))
     \<and> (\<forall>opts labels. extract opts = Return (matches_labels labels) \<and> rest_error GET r ns None = None \<longrightarrow>
        (\<exists>xs. client_list ObjectReaction r ns labels (fk_world c) = (Inr xs, fk_world c)
          \<and> fst (fc_List fc opts c) = Return (Some (List.map_filter sel xs), None)
          \<and> fk_world (snd (fc_List fc opts c)) = fk_world c)))"

text \<open>
  \<open>Patch\<close> and \<open>DeleteCollection\<close> do nothing and say that they did: the reactor does not handle them, and
  its error is dropped.
\<close>

definition fake_silent :: "read_options \<Rightarrow> 'x \<Rightarrow> ('x, tracker) fake_client \<Rightarrow> bool" where
  "fake_silent extract zero fc \<longleftrightarrow> (\<forall>c.
     (\<forall>name data subs. fst (fc_Patch fc name data subs c) = Return (Some zero, None)
        \<and> fk_world (snd (fc_Patch fc name data subs c)) = fk_world c)
     \<and> (\<forall>opts label. extract opts = Return label \<longrightarrow> fst (fc_DeleteCollection fc opts c) = Return None
        \<and> fk_world (snd (fc_DeleteCollection fc opts c)) = fk_world c))"

lemma tracker_Get_member: "tracker_Get gvr ns n t = Inr y \<Longrightarrow> y \<in> set (tr_objects t gvr)"
proof -
  assume "tracker_Get gvr ns n t = Inr y"
  then have "filterByNamespaceAndName (tr_objects t gvr) ns n = [y]" by (auto simp: tracker_Get_def split: list.splits)
  then have "y \<in> set (filterByNamespaceAndName (tr_objects t gvr) ns n)" by simp
  then show ?thesis by (auto simp: filterByNamespaceAndName_def)
qed

lemma obj_resource_propagate: "obj_resource (propagate_namespace ns x) = obj_resource x"
  by (simp add: propagate_namespace_def)

lemma tracker_add_member:
  assumes "tracker_add gvr obj ns rep t = (err, t')" "y \<in> set (tr_objects t' gvr)"
  shows "y \<in> set (tr_objects t gvr) \<or> y = propagate_namespace ns obj"
  using assms set_replace_first by (auto simp: tracker_add_def Let_def split: if_splits) fastforce+

lemma react_add_kind:
  assumes "react_add rep gvr ns obj t = (Inr y, t')" "\<forall>z \<in> set (tr_objects t gvr). obj_resource z = gvr" "obj_resource obj = gvr"
  shows "obj_resource y = gvr"
proof -
  obtain t1 where t1: "tracker_add gvr obj ns rep t = (None, t1)" "tracker_Get gvr ns (om_Name (obj_meta obj)) t1 = Inr y"
    using assms(1) by (auto simp: react_add_def split: prod.splits option.splits)
  from tracker_add_member [OF t1(1) tracker_Get_member [OF t1(2)]] assms(2,3) show ?thesis
    by (auto simp: obj_resource_propagate)
qed

lemma agrees_answered:
  assumes "\<And>y. fst res = Inr y \<Longrightarrow> sel y \<noteq> None"
    and "react action (fk_world c) = answered res"
  shows "agrees (returned sel (Invokes react action d c)) (into zero sel res)"
proof (cases res)
  case (Pair r w)
  show ?thesis
  proof (cases r)
    case (Inl e)
    with Pair assms(2) show ?thesis by (simp add: agrees_def returned_def Invokes_def answered_def into_def)
  next
    case (Inr y)
    then obtain x where "sel y = Some x" using assms(1) Pair by auto
    with Pair Inr assms(2) show ?thesis by (simp add: agrees_def returned_def Invokes_def answered_def into_def)
  qed
qed

text \<open>What the seven fakes have in common.\<close>

definition fake_like :: "read_options \<Rightarrow> resource \<Rightarrow> 'x \<Rightarrow> (k8s_obj \<Rightarrow> 'x option) \<Rightarrow> ('x \<Rightarrow> k8s_obj) \<Rightarrow> string \<Rightarrow> ('x, tracker) fake_client \<Rightarrow> bool" where
  "fake_like extract r zero sel obj ns fc \<longleftrightarrow> (\<exists>d kind.
     (\<forall>n options c. fc_Get fc n options c = returned sel (Invokes object_reaction (GetAction r ns n) d c))
     \<and> (\<forall>x c. fc_Create fc x c = returned sel (Invokes object_reaction (CreateAction r ns (obj x)) d c))
     \<and> (\<forall>x c. fc_Update fc x c = returned sel (Invokes object_reaction (UpdateAction r ns (obj x)) d c))
     \<and> (\<forall>n c. fc_Delete fc n c = (case Invokes object_reaction (DeleteAction r ns n) d c of ((_, err), c') \<Rightarrow> (err, c')))
     \<and> (\<forall>opts c. fc_List fc opts c = (case extract opts of Panic m \<Rightarrow> (Panic m, c)
          | Return label \<Rightarrow> returned_list sel label (Invokes object_reaction (ListAction r kind ns opts) (AList []) c)))
     \<and> (\<forall>opts c. fc_DeleteCollection fc opts c = (case extract opts of Panic m \<Rightarrow> (Panic m, c)
          | Return _ \<Rightarrow> (case Invokes object_reaction (DeleteCollectionAction r ns opts) (AList []) c of
              ((_, err), c') \<Rightarrow> (Return err, c'))))
     \<and> (\<forall>name data subs c. fc_Patch fc name data subs c = returned sel
          (Invokes object_reaction (PatchAction r ns name data subs) (AnObject (obj zero)) c)))
     \<and> (\<forall>x. obj_resource (obj x) = r \<and> sel (obj x) = Some x) \<and> (\<forall>y. obj_resource y = r \<longrightarrow> sel y \<noteq> None)"

text \<open>The list: all objects of the kind are of the type, so no assertion panics.\<close>

lemma returned_list_all:
  assumes "\<And>x. x \<in> set (tracker_List r ns (fk_world c)) \<Longrightarrow> sel x \<noteq> None"
  shows "fst (returned_list sel label (Invokes object_reaction (ListAction r kind ns opts) d c)) =
      Return (Some (List.map_filter sel (filter (\<lambda>x. label (om_Labels (obj_meta x))) (tracker_List r ns (fk_world c)))), None)"
    "fk_world (snd (returned_list sel label (Invokes object_reaction (ListAction r kind ns opts) d c))) = fk_world c"
proof -
  have "list_all (\<lambda>x. sel x \<noteq> None) (tracker_List r ns (fk_world c))" using assms by (simp add: list_all_iff)
  then show "fst (returned_list sel label (Invokes object_reaction (ListAction r kind ns opts) d c)) =
      Return (Some (List.map_filter sel (filter (\<lambda>x. label (om_Labels (obj_meta x))) (tracker_List r ns (fk_world c)))), None)"
    "fk_world (snd (returned_list sel label (Invokes object_reaction (ListAction r kind ns opts) d c))) = fk_world c"
    by (simp_all add: returned_list_def Invokes_def object_reaction_def)
qed

lemma tracker_List_kind:
  "tracker_ok t \<Longrightarrow> x \<in> set (tracker_List r ns t) \<Longrightarrow> obj_resource x = r"
  by (auto simp: tracker_List_def filterByNamespaceAndName_def tracker_ok_def)

lemma fake_like_silent:
  assumes "fake_like extract r zero sel obj ns fc"
  shows "fake_silent extract zero fc"
  using assms by (auto simp: fake_silent_def fake_like_def Invokes_def object_reaction_def returned_def)

lemma fake_like_agrees:
  assumes "fake_like extract r zero sel obj ns fc"
  shows "fake_agrees extract r zero sel obj ns fc"
  unfolding fake_agrees_def
proof (intro allI impI conjI, goal_cases)
  case (1 c n options)
  have "agrees (returned sel (Invokes object_reaction (GetAction r ns n) d c))
      (into zero sel (tracker_Get r ns n (fk_world c), fk_world c))" for d
    by (rule agrees_answered) (use assms 1 tracker_Get_member in \<open>auto simp: object_reaction_def fake_like_def tracker_ok_def\<close>)
  with assms 1 show ?case by (auto simp: fake_like_def client_get_def)
next
  case (2 c x)
  have "agrees (returned sel (Invokes object_reaction (CreateAction r ns (obj x)) d c))
      (into zero sel (react_add False r ns (obj x) (fk_world c)))" for d
    by (rule agrees_answered)
      (use assms 2 react_add_kind [of False r ns "obj x" "fk_world c"] in
        \<open>auto simp: object_reaction_def fake_like_def tracker_ok_def prod_eq_iff\<close>)
  with assms 2 show ?case by (auto simp: fake_like_def client_create_def)
next
  case (3 c x)
  have "agrees (returned sel (Invokes object_reaction (UpdateAction r ns (obj x)) d c))
      (into zero sel (react_add True r ns (obj x) (fk_world c)))" for d
    by (rule agrees_answered)
      (use assms 3 react_add_kind [of True r ns "obj x" "fk_world c"] in
        \<open>auto simp: object_reaction_def fake_like_def tracker_ok_def prod_eq_iff\<close>)
  with assms 3 show ?case by (auto simp: fake_like_def client_update_def)
next
  case (4 c n)
  obtain err t where del: "tracker_Delete r ns n (fk_world c) = (err, t)" by (cases "tracker_Delete r ns n (fk_world c)")
  obtain d where "fc_Delete fc n c = (case Invokes object_reaction (DeleteAction r ns n) d c of ((_, err), c') \<Rightarrow> (err, c'))"
    using assms by (auto simp: fake_like_def)
  with 4 show ?case by (simp add: client_delete_def Invokes_def object_reaction_def del)
next
  case (5 c opts labels)
  have "sel x \<noteq> None" if "x \<in> set (tracker_List r ns (fk_world c))" for x
    using tracker_List_kind [OF 5(1) that] assms by (auto simp: fake_like_def)
  note all = returned_list_all [OF this, where label = "matches_labels labels" and opts = opts and d = "AList []"]
  obtain kind where "fc_List fc opts c = returned_list sel (matches_labels labels)
      (Invokes object_reaction (ListAction r kind ns opts) (AList []) c)"
    using assms 5(2) by (auto simp: fake_like_def)
  with all 5(2) show ?case by (simp add: client_list_def)
qed

lemma cast_kind:
  "obj_resource y = RGroups \<Longrightarrow> as_group y \<noteq> None" "obj_resource y = RGroupMembers \<Longrightarrow> as_group_member y \<noteq> None"
  "obj_resource y = RInfrastructures \<Longrightarrow> as_infra y \<noteq> None" "obj_resource y = RLocalConfigs \<Longrightarrow> as_local_config y \<noteq> None"
  "obj_resource y = RPrincipals \<Longrightarrow> as_principal y \<noteq> None" "obj_resource y = RTokens \<Longrightarrow> as_token y \<noteq> None"
  "obj_resource y = RUsers \<Longrightarrow> as_user y \<noteq> None"
  by (cases y; simp)+

lemma fakes_like:
  "fake_like extract RGroups zero_group as_group ObjGroup ns (FakeGroups extract object_reaction ns)"
  "fake_like extract RGroupMembers zero_group_member as_group_member ObjGroupMember ns (FakeGroupMembers extract object_reaction ns)"
  "fake_like extract RInfrastructures zero_infra as_infra ObjInfra ns (FakeInfrastructures extract object_reaction ns)"
  "fake_like extract RLocalConfigs zero_local_config as_local_config ObjLocalConfig ns (FakeLocalConfigs extract object_reaction ns)"
  "fake_like extract RPrincipals zero_principal as_principal ObjPrincipal ns (FakePrincipals extract object_reaction ns)"
  "fake_like extract RTokens zero_token as_token ObjToken ns (FakeTokens extract object_reaction ns)"
  "fake_like extract RUsers zero_user as_user ObjUser ns (FakeUsers extract object_reaction ns)"
  unfolding fake_like_def
  by (intro conjI exI allI impI; (simp add: fake_defs cast_kind; fail | rule refl))+

text \<open>
  C32. A test with the fakes sees what the program would, for reading and for changing one object.  For
  every kind of the group: each \<open>Get\<close>, \<open>Create\<close>, \<open>Update\<close>, \<open>Delete\<close>, and each \<open>List\<close> by labels, that the real client
  sends is answered by the fake client as by the real one on the same objects, with the same error and
  the same objects afterwards; only the object beside an error is nil and not empty.  Not so for
  \<open>Patch\<close> and \<open>DeleteCollection\<close>: whatever is stored, the fake answers with an empty object and with
  success, and changes nothing.
\<close>

theorem fakes_agree:
  "fake_agrees extract RUsers zero_user as_user ObjUser ns (FakeUsers extract object_reaction ns)
   \<and> fake_agrees extract RPrincipals zero_principal as_principal ObjPrincipal ns (FakePrincipals extract object_reaction ns)
   \<and> fake_agrees extract RTokens zero_token as_token ObjToken ns (FakeTokens extract object_reaction ns)
   \<and> fake_agrees extract RInfrastructures zero_infra as_infra ObjInfra ns (FakeInfrastructures extract object_reaction ns)
   \<and> fake_agrees extract RGroups zero_group as_group ObjGroup ns (FakeGroups extract object_reaction ns)
   \<and> fake_agrees extract RGroupMembers zero_group_member as_group_member ObjGroupMember ns
       (FakeGroupMembers extract object_reaction ns)
   \<and> fake_agrees extract RLocalConfigs zero_local_config as_local_config ObjLocalConfig ns
       (FakeLocalConfigs extract object_reaction ns)
   \<and> fake_silent extract zero_user (FakeUsers extract object_reaction ns)
   \<and> fake_silent extract zero_principal (FakePrincipals extract object_reaction ns)
   \<and> fake_silent extract zero_token (FakeTokens extract object_reaction ns)
   \<and> fake_silent extract zero_infra (FakeInfrastructures extract object_reaction ns)
   \<and> fake_silent extract zero_group (FakeGroups extract object_reaction ns)
   \<and> fake_silent extract zero_group_member (FakeGroupMembers extract object_reaction ns)
   \<and> fake_silent extract zero_local_config (FakeLocalConfigs extract object_reaction ns)"
  by (intro conjI fake_like_agrees fakes_like fakes_like [THEN fake_like_silent])

end
