(* ===== verification/Cube_Client.thy ===== *)
theory Cube_Client
  imports Cube_Requests Cube_Factory
begin

text \<open>
  The connection to the cluster: \<open>backend/client.go\<close>, \<open>backend/impersonate.go\<close>, the client sets of
  \<open>k8s/pkg/client/clientset/versioned\<close>, and of \<open>client-go\<close> what decides in whose name a request is sent
  (\<open>rest/config.go\<close>, \<open>rest/transport.go\<close>, \<open>transport/round_trippers.go\<close>).

  A configuration holds what the program and these files read; the timeout and the dialer are left out.
  How a configuration is found in files or in a pod, how a server address is parsed, how TLS is set up
  and how serializers are made are arguments.  A transport is the change it makes to the headers of
  a request on the way out.
\<close>

section \<open>Headers\<close>

type_synonym header = "string \<Rightarrow> string list"

definition ascii_upper :: "char \<Rightarrow> char" where
  "ascii_upper c = (let n = (of_char c :: nat) in if 97 \<le> n \<and> n \<le> 122 then char_of (n - 32) else c)"

definition header_char :: "char \<Rightarrow> bool" where
  "header_char c \<longleftrightarrow> (let n = (of_char c :: nat) in
     65 \<le> n \<and> n \<le> 90 \<or> 97 \<le> n \<and> n \<le> 122 \<or> 48 \<le> n \<and> n \<le> 57) \<or> c \<in> set ''!#$%&*+-.^_`|~'' \<or> c = CHR 0x27"

fun canonical_from :: "bool \<Rightarrow> string \<Rightarrow> string" where
  "canonical_from up [] = []"
| "canonical_from up (c # s) = (if up then ascii_upper c else ascii_lower c) # canonical_from (c = CHR ''-'') s"

definition CanonicalMIMEHeaderKey :: "string \<Rightarrow> string" where
  "CanonicalMIMEHeaderKey k = (if list_all header_char k then canonical_from True k else k)"

definition header_Get :: "header \<Rightarrow> string \<Rightarrow> string" where
  "header_Get h k = (case h (CanonicalMIMEHeaderKey k) of [] \<Rightarrow> [] | v # _ \<Rightarrow> v)"

definition header_Set :: "string \<Rightarrow> string \<Rightarrow> header \<Rightarrow> header" where
  "header_Set k v h = h(CanonicalMIMEHeaderKey k := [v])"

definition header_Add :: "string \<Rightarrow> string \<Rightarrow> header \<Rightarrow> header" where
  "header_Add k v h = h(CanonicalMIMEHeaderKey k := h (CanonicalMIMEHeaderKey k) @ [v])"

section \<open>Configurations\<close>

text \<open>The map of extra fields is listed in the order in which it is visited.\<close>

record impersonation =
  im_UserName :: string
  im_Groups :: "string list"
  im_Extra :: "(string \<times> string list) list"

definition no_impersonation :: impersonation where
  "no_impersonation = \<lparr>im_UserName = [], im_Groups = [], im_Extra = []\<rparr>"

record tls_client_config =
  tl_Insecure :: bool
  tl_ServerName :: string
  tl_CertFile :: string
  tl_KeyFile :: string
  tl_CAFile :: string
  tl_CertData :: string
  tl_KeyData :: string
  tl_CAData :: string

datatype limiter = TokenBucket int int | OtherLimiter nat

text \<open>
  Rates are \<open>float32\<close>; a finite one is counted in units of \<open>2 ^ -149\<close>, its least step.  A plugin that
  takes part in the authentication fails to load or changes the headers.
\<close>

record rest_config =
  cf_Host :: string
  cf_APIPath :: string
  cf_ContentType :: string
  cf_GroupVersion :: "(string \<times> string) option"
  cf_NegotiatedSerializer :: "string option"
  cf_Username :: string
  cf_Password :: string
  cf_BearerToken :: string
  cf_Impersonate :: impersonation
  cf_AuthProvider :: "(go_error + (header \<Rightarrow> header)) option"
  cf_ExecProvider :: "(go_error + (header \<Rightarrow> header)) option"
  cf_TLS :: tls_client_config
  cf_UserAgent :: string
  cf_Transport :: "(header \<Rightarrow> header) option"
  cf_WrapTransport :: "(header \<Rightarrow> header) option"
  cf_QPS :: int
  cf_Burst :: int
  cf_RateLimiter :: "limiter option"

definition DefaultQPS :: int where "DefaultQPS = 5 * 2 ^ 149"
definition DefaultBurst :: int where "DefaultBurst = 10"

text \<open>
  What comes from outside: the configuration of a pod, the configuration file at a path (the empty path
  stands for the default places), the base address for a host, the TLS cache, the encoding of basic
  authentication, the name of the process, and how an informer is made.
\<close>

record connection_env =
  ce_InClusterConfig :: "go_error + rest_config"
  ce_ClientConfig :: "string \<Rightarrow> go_error + rest_config"
  ce_DefaultServerURL :: "string \<Rightarrow> bool \<Rightarrow> go_error + string"
  ce_tls_cache :: "tls_client_config \<Rightarrow> go_error option"
  ce_serializers :: "string \<Rightarrow> string \<Rightarrow> go_error option"
  ce_basic_auth :: "string \<Rightarrow> string \<Rightarrow> string"
  ce_UserAgent :: string
  ce_new_informer :: "origin \<Rightarrow> string \<Rightarrow> int \<Rightarrow> shared_informer"

definition BuildConfigFromFlags :: "connection_env \<Rightarrow> string \<Rightarrow> go_error + rest_config" where
  "BuildConfigFromFlags env kubeconfigPath =
     (if kubeconfigPath = [] then
        (case ce_InClusterConfig env of Inr c \<Rightarrow> Inr c | Inl _ \<Rightarrow> ce_ClientConfig env kubeconfigPath)
      else ce_ClientConfig env kubeconfigPath)"

section \<open>The way of a request out\<close>

definition ImpersonateUserHeader :: string where "ImpersonateUserHeader = ''Impersonate-User''"
definition ImpersonateGroupHeader :: string where "ImpersonateGroupHeader = ''Impersonate-Group''"
definition ImpersonateUserExtraHeaderPrefix :: string where "ImpersonateUserExtraHeaderPrefix = ''Impersonate-Extra-''"

definition impersonating_RoundTrip :: "impersonation \<Rightarrow> header \<Rightarrow> header" where
  "impersonating_RoundTrip imp h =
     (if header_Get h ImpersonateUserHeader \<noteq> [] then h
      else let h1 = header_Set ImpersonateUserHeader (im_UserName imp) h;
               h2 = fold (header_Add ImpersonateGroupHeader) (im_Groups imp) h1
           in fold (\<lambda>(k, vv). fold (header_Add (ImpersonateUserExtraHeaderPrefix @ k)) vv) (im_Extra imp) h2)"

definition userAgent_RoundTrip :: "string \<Rightarrow> header \<Rightarrow> header" where
  "userAgent_RoundTrip agent h =
     (if header_Get h ''User-Agent'' \<noteq> [] then h else header_Set ''User-Agent'' agent h)"

definition bearerAuth_RoundTrip :: "string \<Rightarrow> header \<Rightarrow> header" where
  "bearerAuth_RoundTrip bearer h =
     (if header_Get h ''Authorization'' \<noteq> [] then h
      else header_Set ''Authorization'' (''Bearer '' @ bearer) h)"

definition basicAuth_RoundTrip :: "connection_env \<Rightarrow> string \<Rightarrow> string \<Rightarrow> header \<Rightarrow> header" where
  "basicAuth_RoundTrip env username password h =
     (if header_Get h ''Authorization'' \<noteq> [] then h
      else header_Set ''Authorization'' (''Basic '' @ ce_basic_auth env username password) h)"

text \<open>The wrapper that is put on last sees a request first.\<close>

definition through :: "(header \<Rightarrow> header) option \<Rightarrow> header \<Rightarrow> header" where
  "through w h = (case w of None \<Rightarrow> h | Some f \<Rightarrow> f h)"

definition wrapped_by :: "(go_error + (header \<Rightarrow> header)) option \<Rightarrow> (header \<Rightarrow> header) option
    \<Rightarrow> go_error + (header \<Rightarrow> header) option" where
  "wrapped_by plugin wt =
     (case plugin of None \<Rightarrow> Inr wt | Some (Inl e) \<Rightarrow> Inl e | Some (Inr p) \<Rightarrow> Inr (Some (\<lambda>h. through wt (p h))))"

definition TransportConfig :: "rest_config \<Rightarrow> go_error + (header \<Rightarrow> header) option" where
  "TransportConfig c =
     (case wrapped_by (cf_ExecProvider c) (cf_WrapTransport c) of
        Inl e \<Rightarrow> Inl e | Inr wt \<Rightarrow> wrapped_by (cf_AuthProvider c) wt)"

definition HTTPWrappersForConfig ::
    "connection_env \<Rightarrow> rest_config \<Rightarrow> (header \<Rightarrow> header) option \<Rightarrow> (header \<Rightarrow> header) \<Rightarrow> go_error + (header \<Rightarrow> header)" where
  "HTTPWrappersForConfig env c wt rt =
     (let rt = (\<lambda>h. rt (through wt h)) in
      if cf_Username c \<noteq> [] \<and> cf_BearerToken c \<noteq> [] then
        Inl (Errorf ''username/password or bearer token may be set, but not both'' [])
      else
        let rt = (if cf_BearerToken c \<noteq> [] then \<lambda>h. rt (bearerAuth_RoundTrip (cf_BearerToken c) h)
                  else if cf_Username c \<noteq> [] then \<lambda>h. rt (basicAuth_RoundTrip env (cf_Username c) (cf_Password c) h)
                  else rt);
            rt = (if 0 < length (cf_UserAgent c) then \<lambda>h. rt (userAgent_RoundTrip (cf_UserAgent c) h) else rt)
        in Inr (if 0 < length (im_UserName (cf_Impersonate c)) \<or> 0 < length (im_Groups (cf_Impersonate c))
                   \<or> 0 < length (im_Extra (cf_Impersonate c))
                then \<lambda>h. rt (impersonating_RoundTrip (cf_Impersonate c) h) else rt))"

definition hasCA :: "rest_config \<Rightarrow> bool" where
  "hasCA c \<longleftrightarrow> tl_CAFile (cf_TLS c) \<noteq> [] \<or> tl_CAData (cf_TLS c) \<noteq> []"

definition hasCert :: "rest_config \<Rightarrow> bool" where
  "hasCert c \<longleftrightarrow> tl_CertFile (cf_TLS c) \<noteq> [] \<or> tl_CertData (cf_TLS c) \<noteq> []"

definition TransportFor :: "connection_env \<Rightarrow> rest_config \<Rightarrow> go_error + (header \<Rightarrow> header)" where
  "TransportFor env c =
     (case TransportConfig c of
        Inl e \<Rightarrow> Inl e
      | Inr wt \<Rightarrow>
          if cf_Transport c \<noteq> None \<and> (hasCA c \<or> hasCert c \<or> tl_Insecure (cf_TLS c)) then
            Inl (Errorf ''using a custom transport with TLS certificate options or the insecure flag is not allowed'' [])
          else (case cf_Transport c of
              Some f \<Rightarrow> HTTPWrappersForConfig env c wt f
            | None \<Rightarrow> (case ce_tls_cache env (cf_TLS c) of
                Some e \<Rightarrow> Inl e | None \<Rightarrow> HTTPWrappersForConfig env c wt (\<lambda>h. h))))"

section \<open>REST clients\<close>

record rest_client =
  rc_base :: string
  rc_versionedAPIPath :: "string list"
  rc_GroupVersion :: "string \<times> string"
  rc_Throttle :: "limiter option"
  rc_RoundTrip :: "header \<Rightarrow> header"

text \<open>\<open>defaultServerUrlFor\<close>: without a group version the path has no version either.\<close>

definition defaultServerUrlFor :: "connection_env \<Rightarrow> rest_config \<Rightarrow> go_error + string \<times> string list" where
  "defaultServerUrlFor env c =
     (let host = (if cf_Host c = [] then ''localhost'' else cf_Host c);
          (g, v) = (case cf_GroupVersion c of Some gv \<Rightarrow> gv | None \<Rightarrow> ([], []))
      in case ce_DefaultServerURL env host (hasCA c \<or> hasCert c \<or> tl_Insecure (cf_TLS c)) of
           Inl e \<Rightarrow> Inl e | Inr base \<Rightarrow> Inr (base, DefaultVersionedAPIPath (cf_APIPath c) g v))"

definition NewRESTClient ::
    "connection_env \<Rightarrow> string \<Rightarrow> string list \<Rightarrow> string \<Rightarrow> (string \<times> string) \<Rightarrow> string \<Rightarrow> int \<Rightarrow> int \<Rightarrow> limiter option
       \<Rightarrow> (header \<Rightarrow> header) \<Rightarrow> go_error + rest_client" where
  "NewRESTClient env base versionedAPIPath contentType gv serializer maxQPS maxBurst rateLimiter rt =
     (let base = (if base \<noteq> [] \<and> last base = CHR ''/'' then base else base @ ''/'');
          contentType = (if contentType = [] then ''application/json'' else contentType)
      in case ce_serializers env contentType serializer of
           Some e \<Rightarrow> Inl e
         | None \<Rightarrow> Inr \<lparr>rc_base = base, rc_versionedAPIPath = versionedAPIPath, rc_GroupVersion = gv,
             rc_Throttle = (if 0 < maxQPS \<and> rateLimiter = None then Some (TokenBucket maxQPS maxBurst) else rateLimiter),
             rc_RoundTrip = rt\<rparr>)"

definition RESTClientFor :: "connection_env \<Rightarrow> rest_config \<Rightarrow> go_error + rest_client" where
  "RESTClientFor env c =
     (case cf_GroupVersion c of
        None \<Rightarrow> Inl (Errorf ''GroupVersion is required when initializing a RESTClient'' [])
      | Some gv \<Rightarrow>
        (case cf_NegotiatedSerializer c of
           None \<Rightarrow> Inl (Errorf ''NegotiatedSerializer is required when initializing a RESTClient'' [])
         | Some s \<Rightarrow>
           (let qps = (if cf_QPS c = 0 then DefaultQPS else cf_QPS c);
                burst = (if cf_Burst c = 0 then DefaultBurst else cf_Burst c)
            in case defaultServerUrlFor env c of
                 Inl e \<Rightarrow> Inl e
               | Inr (base, p) \<Rightarrow>
                   (case TransportFor env c of
                      Inl e \<Rightarrow> Inl e
                    | Inr rt \<Rightarrow> NewRESTClient env base p (cf_ContentType c) gv s qps burst (cf_RateLimiter c) rt))))"

definition UnversionedRESTClientFor :: "connection_env \<Rightarrow> rest_config \<Rightarrow> go_error + rest_client" where
  "UnversionedRESTClientFor env c =
     (case cf_NegotiatedSerializer c of
        None \<Rightarrow> Inl (Errorf ''NeogitatedSerializer is required when initializing a RESTClient'' [])
      | Some s \<Rightarrow>
        (case defaultServerUrlFor env c of
           Inl e \<Rightarrow> Inl e
         | Inr (base, p) \<Rightarrow>
             (case TransportFor env c of
                Inl e \<Rightarrow> Inl e
              | Inr rt \<Rightarrow> NewRESTClient env base p (cf_ContentType c)
                  (case cf_GroupVersion c of Some gv \<Rightarrow> gv | None \<Rightarrow> (''meta.k8s.io'', ''v1'')) s
                  (cf_QPS c) (cf_Burst c) (cf_RateLimiter c) rt)))"

section \<open>Typed clients and client sets\<close>

text \<open>
  The client of one API group: \<open>setConfigDefaults\<close> and \<open>NewForConfig\<close>, which all groups share but for
  the group version and the root of the path.
\<close>

definition setConfigDefaults :: "connection_env \<Rightarrow> string \<times> string \<Rightarrow> string \<Rightarrow> rest_config \<Rightarrow> rest_config" where
  "setConfigDefaults env gv apiPath c =
     c\<lparr>cf_GroupVersion := Some gv, cf_APIPath := apiPath, cf_NegotiatedSerializer := Some ''DirectCodecFactory'',
       cf_UserAgent := (if cf_UserAgent c = [] then ce_UserAgent env else cf_UserAgent c)\<rparr>"

definition group_NewForConfig :: "connection_env \<Rightarrow> string \<times> string \<Rightarrow> string \<Rightarrow> rest_config \<Rightarrow> go_error + rest_client" where
  "group_NewForConfig env gv apiPath c = RESTClientFor env (setConfigDefaults env gv apiPath c)"

definition setDiscoveryDefaults :: "connection_env \<Rightarrow> rest_config \<Rightarrow> rest_config" where
  "setDiscoveryDefaults env c =
     c\<lparr>cf_APIPath := [], cf_GroupVersion := None, cf_NegotiatedSerializer := Some ''NoopEncoder'',
       cf_UserAgent := (if cf_UserAgent c = [] then ce_UserAgent env else cf_UserAgent c)\<rparr>"

definition NewDiscoveryClientForConfig :: "connection_env \<Rightarrow> rest_config \<Rightarrow> go_error + rest_client" where
  "NewDiscoveryClientForConfig env c = UnversionedRESTClientFor env (setDiscoveryDefaults env c)"

text \<open>A rate in the configuration makes one limiter for all the clients of the set.\<close>

definition shared_limiter :: "rest_config \<Rightarrow> rest_config" where
  "shared_limiter c =
     (if cf_RateLimiter c = None \<and> 0 < cf_QPS c
        then c\<lparr>cf_RateLimiter := Some (TokenBucket (cf_QPS c) (cf_Burst c))\<rparr> else c)"

fun new_groups :: "connection_env \<Rightarrow> rest_config \<Rightarrow> ((string \<times> string) \<times> string) list \<Rightarrow> go_error + rest_client list" where
  "new_groups env c [] = Inr []"
| "new_groups env c ((gv, apiPath) # gs) =
     (case group_NewForConfig env gv apiPath c of
        Inl e \<Rightarrow> Inl e
      | Inr rc \<Rightarrow> (case new_groups env c gs of Inl e \<Rightarrow> Inl e | Inr rcs \<Rightarrow> Inr (rc # rcs)))"

text \<open>A client set: the clients of its groups in order, and the discovery client.\<close>

record client_set =
  cs_groups :: "rest_client list"
  cs_DiscoveryClient :: rest_client

definition clientset_NewForConfig ::
    "((string \<times> string) \<times> string) list \<Rightarrow> connection_env \<Rightarrow> rest_config \<Rightarrow> go_error + client_set" where
  "clientset_NewForConfig groups env c =
     (let configShallowCopy = shared_limiter c in
      case new_groups env configShallowCopy groups of
        Inl e \<Rightarrow> Inl e
      | Inr rcs \<Rightarrow>
          (case NewDiscoveryClientForConfig env configShallowCopy of
             Inl e \<Rightarrow> Inl e | Inr d \<Rightarrow> Inr \<lparr>cs_groups = rcs, cs_DiscoveryClient = d\<rparr>))"

definition core_groups :: "((string \<times> string) \<times> string) list" where
  "core_groups =
     [((''admissionregistration.k8s.io'', ''v1alpha1''), ''/apis''),
      ((''admissionregistration.k8s.io'', ''v1beta1''), ''/apis''),
      ((''apps'', ''v1beta1''), ''/apis''), ((''apps'', ''v1beta2''), ''/apis''), ((''apps'', ''v1''), ''/apis''),
      ((''authentication.k8s.io'', ''v1''), ''/apis''), ((''authentication.k8s.io'', ''v1beta1''), ''/apis''),
      ((''authorization.k8s.io'', ''v1''), ''/apis''), ((''authorization.k8s.io'', ''v1beta1''), ''/apis''),
      ((''autoscaling'', ''v1''), ''/apis''), ((''autoscaling'', ''v2beta1''), ''/apis''),
      ((''batch'', ''v1''), ''/apis''), ((''batch'', ''v1beta1''), ''/apis''), ((''batch'', ''v2alpha1''), ''/apis''),
      ((''certificates.k8s.io'', ''v1beta1''), ''/apis''), (([], ''v1''), ''/api''),
      ((''events.k8s.io'', ''v1beta1''), ''/apis''), ((''extensions'', ''v1beta1''), ''/apis''),
      ((''networking.k8s.io'', ''v1''), ''/apis''), ((''policy'', ''v1beta1''), ''/apis''),
      ((''rbac.authorization.k8s.io'', ''v1''), ''/apis''), ((''rbac.authorization.k8s.io'', ''v1beta1''), ''/apis''),
      ((''rbac.authorization.k8s.io'', ''v1alpha1''), ''/apis''), ((''scheduling.k8s.io'', ''v1alpha1''), ''/apis''),
      ((''settings.k8s.io'', ''v1alpha1''), ''/apis''), ((''storage.k8s.io'', ''v1beta1''), ''/apis''),
      ((''storage.k8s.io'', ''v1''), ''/apis''), ((''storage.k8s.io'', ''v1alpha1''), ''/apis'')]"

definition kubernetes_NewForConfig :: "connection_env \<Rightarrow> rest_config \<Rightarrow> go_error + client_set" where
  "kubernetes_NewForConfig = clientset_NewForConfig core_groups"

definition apiextensions_NewForConfig :: "connection_env \<Rightarrow> rest_config \<Rightarrow> go_error + client_set" where
  "apiextensions_NewForConfig = clientset_NewForConfig [((''apiextensions.k8s.io'', ''v1beta1''), ''/apis'')]"

section \<open>The client set of the cube group\<close>

text \<open>\<open>cube_client.go\<close>: a pointer to a client that may be nil.\<close>

definition cube_setConfigDefaults :: "connection_env \<Rightarrow> rest_config \<Rightarrow> rest_config" where
  "cube_setConfigDefaults env c =
     c\<lparr>cf_GroupVersion := Some (''cube.rancher.io'', ''v1alpha1''), cf_APIPath := ''/apis'',
       cf_NegotiatedSerializer := Some ''DirectCodecFactory'',
       cf_UserAgent := (if cf_UserAgent c = [] then ce_UserAgent env else cf_UserAgent c)\<rparr>"

record cube_v1alpha1_client =
  cc_restClient :: rest_client

definition cube_New :: "rest_client \<Rightarrow> cube_v1alpha1_client" where
  "cube_New c = \<lparr>cc_restClient = c\<rparr>"

definition cube_NewForConfig :: "connection_env \<Rightarrow> rest_config \<Rightarrow> go_error + cube_v1alpha1_client" where
  "cube_NewForConfig env c =
     (case RESTClientFor env (cube_setConfigDefaults env c) of Inl e \<Rightarrow> Inl e | Inr client \<Rightarrow> Inr \<lparr>cc_restClient = client\<rparr>)"

definition cube_NewForConfigOrDie :: "connection_env \<Rightarrow> rest_config \<Rightarrow> cube_v1alpha1_client outcome" where
  "cube_NewForConfigOrDie env c = (case cube_NewForConfig env c of Inl e \<Rightarrow> Panic ''panic(err)'' | Inr client \<Rightarrow> Return client)"

definition cube_RESTClient :: "cube_v1alpha1_client option \<Rightarrow> rest_client option" where
  "cube_RESTClient c = map_option cc_restClient c"

record ('x, 'd) typed_client =
  ty_client :: "rest_client option"
  ty_requests :: "('x, 'd) client_requests"

definition newGroups :: "cube_v1alpha1_client option \<Rightarrow> string \<Rightarrow> (group, 'd) typed_client" where
  "newGroups c namespace = \<lparr>ty_client = cube_RESTClient c, ty_requests = groups_client namespace\<rparr>"

definition newGroupMembers :: "cube_v1alpha1_client option \<Rightarrow> string \<Rightarrow> (group_member, 'd) typed_client" where
  "newGroupMembers c namespace = \<lparr>ty_client = cube_RESTClient c, ty_requests = groupMembers_client namespace\<rparr>"

definition newInfrastructures :: "cube_v1alpha1_client option \<Rightarrow> string \<Rightarrow> (infrastructure, 'd) typed_client" where
  "newInfrastructures c namespace = \<lparr>ty_client = cube_RESTClient c, ty_requests = infrastructures_client namespace\<rparr>"

definition newLocalConfigs :: "cube_v1alpha1_client option \<Rightarrow> string \<Rightarrow> (local_config, 'd) typed_client" where
  "newLocalConfigs c namespace = \<lparr>ty_client = cube_RESTClient c, ty_requests = localConfigs_client namespace\<rparr>"

definition newPrincipals :: "cube_v1alpha1_client option \<Rightarrow> string \<Rightarrow> (principal, 'd) typed_client" where
  "newPrincipals c namespace = \<lparr>ty_client = cube_RESTClient c, ty_requests = principals_client namespace\<rparr>"

definition newTokens :: "cube_v1alpha1_client option \<Rightarrow> string \<Rightarrow> (token, 'd) typed_client" where
  "newTokens c namespace = \<lparr>ty_client = cube_RESTClient c, ty_requests = tokens_client namespace\<rparr>"

definition newUsers :: "cube_v1alpha1_client option \<Rightarrow> string \<Rightarrow> (user, 'd) typed_client" where
  "newUsers c namespace = \<lparr>ty_client = cube_RESTClient c, ty_requests = users_client namespace\<rparr>"

text \<open>The methods of the client of the group; they give the interface of the typed client.\<close>

definition cube_Groups :: "cube_v1alpha1_client option \<Rightarrow> string \<Rightarrow> (group, 'd) typed_client" where
  "cube_Groups c namespace = newGroups c namespace"

definition cube_GroupMembers :: "cube_v1alpha1_client option \<Rightarrow> string \<Rightarrow> (group_member, 'd) typed_client" where
  "cube_GroupMembers c namespace = newGroupMembers c namespace"

definition cube_Infrastructures :: "cube_v1alpha1_client option \<Rightarrow> string \<Rightarrow> (infrastructure, 'd) typed_client" where
  "cube_Infrastructures c namespace = newInfrastructures c namespace"

definition cube_LocalConfigs :: "cube_v1alpha1_client option \<Rightarrow> string \<Rightarrow> (local_config, 'd) typed_client" where
  "cube_LocalConfigs c namespace = newLocalConfigs c namespace"

definition cube_Principals :: "cube_v1alpha1_client option \<Rightarrow> string \<Rightarrow> (principal, 'd) typed_client" where
  "cube_Principals c namespace = newPrincipals c namespace"

definition cube_Tokens :: "cube_v1alpha1_client option \<Rightarrow> string \<Rightarrow> (token, 'd) typed_client" where
  "cube_Tokens c namespace = newTokens c namespace"

definition cube_Users :: "cube_v1alpha1_client option \<Rightarrow> string \<Rightarrow> (user, 'd) typed_client" where
  "cube_Users c namespace = newUsers c namespace"

text \<open>\<open>clientset.go\<close>.\<close>

record cube_clientset =
  ci_DiscoveryClient :: rest_client
  ci_cubeV1alpha1 :: cube_v1alpha1_client

definition CubeV1alpha1 :: "cube_clientset \<Rightarrow> cube_v1alpha1_client" where
  "CubeV1alpha1 c = ci_cubeV1alpha1 c"

definition clientset_Cube :: "cube_clientset \<Rightarrow> cube_v1alpha1_client" where
  "clientset_Cube c = ci_cubeV1alpha1 c"

definition clientset_Discovery :: "cube_clientset option \<Rightarrow> rest_client option" where
  "clientset_Discovery c = map_option ci_DiscoveryClient c"

definition versioned_NewForConfig :: "connection_env \<Rightarrow> rest_config \<Rightarrow> go_error + cube_clientset" where
  "versioned_NewForConfig env c =
     (let configShallowCopy =
        (if cf_RateLimiter c = None \<and> 0 < cf_QPS c
           then c\<lparr>cf_RateLimiter := Some (TokenBucket (cf_QPS c) (cf_Burst c))\<rparr> else c)
      in case cube_NewForConfig env configShallowCopy of
           Inl e \<Rightarrow> Inl e
         | Inr cube \<Rightarrow>
             (case NewDiscoveryClientForConfig env configShallowCopy of
                Inl e \<Rightarrow> Inl e | Inr d \<Rightarrow> Inr \<lparr>ci_DiscoveryClient = d, ci_cubeV1alpha1 = cube\<rparr>))"

definition versioned_NewForConfigOrDie :: "connection_env \<Rightarrow> rest_config \<Rightarrow> cube_clientset outcome" where
  "versioned_NewForConfigOrDie env c =
     bind_outcome (cube_NewForConfigOrDie env c) (\<lambda>cube.
       case NewDiscoveryClientForConfig env c of
         Inl e \<Rightarrow> Panic ''panic(err)'' | Inr d \<Rightarrow> Return \<lparr>ci_DiscoveryClient = d, ci_cubeV1alpha1 = cube\<rparr>)"

definition versioned_New :: "rest_client \<Rightarrow> cube_clientset" where
  "versioned_New c = \<lparr>ci_DiscoveryClient = c, ci_cubeV1alpha1 = cube_New c\<rparr>"

section \<open>The generators\<close>

text \<open>
  A generator has a copy of every client set, and its informer factories.  The listers and informers
  it keeps beside them are handles into these factories.
\<close>

record client_generator =
  gn_CubeImages :: "infra_images option"
  gn_Clientset :: client_set
  gn_Apiclientset :: client_set
  gn_Infraclientset :: cube_clientset
  gn_factories :: client_gen

definition exits :: "'a outcome" where "exits = Panic ''exit status 1''"

text \<open>With no path the configuration of the pod is read twice; the first one counts only when it fails.\<close>

definition generator_config :: "connection_env \<Rightarrow> string \<Rightarrow> rest_config outcome" where
  "generator_config env kubeConfig =
     (if kubeConfig = [] \<and> isl (ce_InClusterConfig env) then exits
      else (case BuildConfigFromFlags env kubeConfig of Inl _ \<Rightarrow> exits | Inr config \<Rightarrow> Return config))"

definition resync :: int where "resync = 30 * 10 ^ 9"

text \<open>The singleton of the process is the state.\<close>

definition NewClientGenerator ::
    "connection_env \<Rightarrow> string \<Rightarrow> infra_images option \<Rightarrow> client_generator option
       \<Rightarrow> (client_generator \<times> client_generator option) outcome" where
  "NewClientGenerator env kubeConfig images clientGenerator =
     (case clientGenerator of
        Some g \<Rightarrow> Return (g, clientGenerator)
      | None \<Rightarrow>
          bind_outcome (generator_config env kubeConfig) (\<lambda>config.
            case kubernetes_NewForConfig env config of
              Inl _ \<Rightarrow> exits
            | Inr clientset \<Rightarrow>
              (case apiextensions_NewForConfig env config of
                 Inl _ \<Rightarrow> exits
               | Inr apiclientset \<Rightarrow>
                 (case versioned_NewForConfig env config of
                    Inl _ \<Rightarrow> exits
                  | Inr infraclientset \<Rightarrow>
                    (let g = \<lparr>gn_CubeImages = images, gn_Clientset = clientset, gn_Apiclientset = apiclientset,
                         gn_Infraclientset = infraclientset,
                         gn_factories = server_run (ce_new_informer env) NewClientGenerator_asks (new_client_gen resync)\<rparr>
                     in Return (g, Some g))))))"

definition NewImpersonateGenerator :: "connection_env \<Rightarrow> string \<Rightarrow> string \<Rightarrow> client_generator outcome" where
  "NewImpersonateGenerator env kubeConfig userName =
     bind_outcome (generator_config env kubeConfig) (\<lambda>config.
       let config = (if userName \<noteq> [] then config\<lparr>cf_Impersonate := (cf_Impersonate config)\<lparr>im_UserName := userName\<rparr>\<rparr> else config) in
       case kubernetes_NewForConfig env config of
         Inl _ \<Rightarrow> exits
       | Inr clientset \<Rightarrow>
         (case apiextensions_NewForConfig env config of
            Inl _ \<Rightarrow> exits
          | Inr apiclientset \<Rightarrow>
            (case versioned_NewForConfig env config of
               Inl _ \<Rightarrow> exits
             | Inr infraclientset \<Rightarrow>
               Return \<lparr>gn_CubeImages = None, gn_Clientset = clientset, gn_Apiclientset = apiclientset,
                   gn_Infraclientset = infraclientset, gn_factories = new_client_gen resync\<rparr>)))"

text \<open>
  \<open>NewServer\<close> keeps the shared generator, and the path of the configuration for the handlers that make
  a generator of their own.
\<close>

definition NewServer :: "client_generator \<Rightarrow> string \<Rightarrow> client_generator \<times> string" where
  "NewServer c kubeConfig = (let KubeConfigLocation = kubeConfig in (c, KubeConfigLocation))"

section \<open>In whose name requests are sent\<close>

lemma header_keys [simp]:
  "CanonicalMIMEHeaderKey ''Impersonate-User'' = ''Impersonate-User''"
  "CanonicalMIMEHeaderKey ''User-Agent'' = ''User-Agent''"
  "CanonicalMIMEHeaderKey ''Authorization'' = ''Authorization''"
  by code_simp+

text \<open>A transport that neither reads nor writes the user to impersonate.\<close>

definition keeps_user :: "(header \<Rightarrow> header) \<Rightarrow> bool" where
  "keeps_user f \<longleftrightarrow> (\<forall>h v. f (h(''Impersonate-User'' := v)) = (f h)(''Impersonate-User'' := v))"

lemma keeps_userD: "keeps_user f \<Longrightarrow> f (h(''Impersonate-User'' := v)) = (f h)(''Impersonate-User'' := v)"
  by (simp add: keeps_user_def)

lemma keeps_user_fixed: "keeps_user f \<Longrightarrow> f h ''Impersonate-User'' = h ''Impersonate-User''"
  using keeps_userD [of f h "h ''Impersonate-User''"] by (metis fun_upd_same fun_upd_triv)

lemma keeps_user_id: "keeps_user (\<lambda>h. h)" by (simp add: keeps_user_def)

lemma keeps_user_comp: "keeps_user f \<Longrightarrow> keeps_user g \<Longrightarrow> keeps_user (\<lambda>h. f (g h))"
  by (simp add: keeps_user_def)

lemma keeps_user_through: "(\<And>f. w = Some f \<Longrightarrow> keeps_user f) \<Longrightarrow> keeps_user (through w)"
  by (cases w) (simp_all add: through_def keeps_user_def)

lemma keeps_user_RoundTrip:
  "keeps_user (userAgent_RoundTrip a)" "keeps_user (bearerAuth_RoundTrip b)" "keeps_user (basicAuth_RoundTrip env n p)"
  by (simp_all add: keeps_user_def userAgent_RoundTrip_def bearerAuth_RoundTrip_def basicAuth_RoundTrip_def
      header_Get_def header_Set_def fun_upd_twist)

text \<open>The plugins and the transport a configuration brings along are no business of this program.\<close>

definition plain_config :: "rest_config \<Rightarrow> bool" where
  "plain_config c \<longleftrightarrow> cf_Impersonate c = no_impersonation
     \<and> (\<forall>f. cf_ExecProvider c = Some (Inr f) \<longrightarrow> keeps_user f) \<and> (\<forall>f. cf_AuthProvider c = Some (Inr f) \<longrightarrow> keeps_user f)
     \<and> (\<forall>f. cf_Transport c = Some f \<longrightarrow> keeps_user f) \<and> (\<forall>f. cf_WrapTransport c = Some f \<longrightarrow> keeps_user f)"

definition config_as :: "string \<Rightarrow> rest_config \<Rightarrow> rest_config" where
  "config_as u c = (if u \<noteq> [] then c\<lparr>cf_Impersonate := (cf_Impersonate c)\<lparr>im_UserName := u\<rparr>\<rparr> else c)"

lemma config_as_simps [simp]:
  "cf_ExecProvider (config_as u c) = cf_ExecProvider c" "cf_AuthProvider (config_as u c) = cf_AuthProvider c"
  "cf_WrapTransport (config_as u c) = cf_WrapTransport c" "cf_Transport (config_as u c) = cf_Transport c"
  "cf_TLS (config_as u c) = cf_TLS c" "cf_Host (config_as u c) = cf_Host c" "cf_APIPath (config_as u c) = cf_APIPath c"
  "cf_GroupVersion (config_as u c) = cf_GroupVersion c" "cf_Username (config_as u c) = cf_Username c"
  "cf_Password (config_as u c) = cf_Password c" "cf_BearerToken (config_as u c) = cf_BearerToken c"
  "cf_UserAgent (config_as u c) = cf_UserAgent c" "cf_QPS (config_as u c) = cf_QPS c" "cf_Burst (config_as u c) = cf_Burst c"
  "cf_RateLimiter (config_as u c) = cf_RateLimiter c" "cf_ContentType (config_as u c) = cf_ContentType c"
  "cf_NegotiatedSerializer (config_as u c) = cf_NegotiatedSerializer c"
  by (simp_all add: config_as_def)

lemma config_as_defaults:
  "setConfigDefaults env gv p (config_as u c) = config_as u (setConfigDefaults env gv p c)"
  "cube_setConfigDefaults env (config_as u c) = config_as u (cube_setConfigDefaults env c)"
  "setDiscoveryDefaults env (config_as u c) = config_as u (setDiscoveryDefaults env c)"
  "shared_limiter (config_as u c) = config_as u (shared_limiter c)"
  by (simp_all add: setConfigDefaults_def cube_setConfigDefaults_def setDiscoveryDefaults_def shared_limiter_def config_as_def)

lemma plain_config_defaults:
  assumes "plain_config c"
  shows "plain_config (setConfigDefaults env gv p c)" "plain_config (cube_setConfigDefaults env c)"
    "plain_config (setDiscoveryDefaults env c)" "plain_config (shared_limiter c)"
  using assms by (simp_all add: plain_config_def setConfigDefaults_def cube_setConfigDefaults_def setDiscoveryDefaults_def
      shared_limiter_def)

text \<open>A transport that sends as a user what another one sends as the server itself.\<close>

definition sends_as :: "string \<Rightarrow> (header \<Rightarrow> header) \<Rightarrow> (header \<Rightarrow> header) \<Rightarrow> bool" where
  "sends_as u f f0 \<longleftrightarrow> (\<forall>h. h ''Impersonate-User'' = [] \<longrightarrow>
     f0 h ''Impersonate-User'' = [] \<and> f h = (f0 h)(''Impersonate-User'' := (if u = [] then [] else [u])))"

lemma impersonating_as:
  assumes "h ''Impersonate-User'' = []"
  shows "impersonating_RoundTrip (no_impersonation\<lparr>im_UserName := u\<rparr>) h = h(''Impersonate-User'' := [u])"
  using assms by (simp add: impersonating_RoundTrip_def no_impersonation_def ImpersonateUserHeader_def header_Get_def header_Set_def)

text \<open>What the server's own credentials do to a request.\<close>

definition own_wrappers :: "connection_env \<Rightarrow> rest_config \<Rightarrow> (header \<Rightarrow> header) option \<Rightarrow> (header \<Rightarrow> header) \<Rightarrow> header \<Rightarrow> header" where
  "own_wrappers env c wt rt h =
     (let h1 = (if cf_UserAgent c \<noteq> [] then userAgent_RoundTrip (cf_UserAgent c) h else h);
          h2 = (if cf_BearerToken c \<noteq> [] then bearerAuth_RoundTrip (cf_BearerToken c) h1
            else if cf_Username c \<noteq> [] then basicAuth_RoundTrip env (cf_Username c) (cf_Password c) h1 else h1)
      in rt (through wt h2))"

lemma HTTPWrappers_own:
  "HTTPWrappersForConfig env c wt rt =
     (if cf_Username c \<noteq> [] \<and> cf_BearerToken c \<noteq> [] then
        Inl (Errorf ''username/password or bearer token may be set, but not both'' [])
      else Inr (if im_UserName (cf_Impersonate c) \<noteq> [] \<or> im_Groups (cf_Impersonate c) \<noteq> [] \<or> im_Extra (cf_Impersonate c) \<noteq> []
        then \<lambda>h. own_wrappers env c wt rt (impersonating_RoundTrip (cf_Impersonate c) h) else own_wrappers env c wt rt))"
  by (auto simp: HTTPWrappersForConfig_def own_wrappers_def Let_def fun_eq_iff)

lemma own_wrappers_config_as: "own_wrappers env (config_as u c) wt rt = own_wrappers env c wt rt"
  by (simp add: own_wrappers_def fun_eq_iff)

lemma keeps_user_own:
  assumes "keeps_user (through wt)" "keeps_user rt"
  shows "keeps_user (own_wrappers env c wt rt)"
  using assms keeps_user_RoundTrip [unfolded keeps_user_def]
  by (simp add: keeps_user_def own_wrappers_def Let_def)

lemma wrappers_as:
  assumes "plain_config c" "keeps_user (through wt)" "keeps_user rt"
  shows "rel_sum (=) (sends_as u) (HTTPWrappersForConfig env (config_as u c) wt rt) (HTTPWrappersForConfig env c wt rt)"
proof -
  let ?own = "own_wrappers env c wt rt"
  have k: "keeps_user ?own" by (rule keeps_user_own [OF assms(2,3)])
  have plain: "cf_Impersonate c = no_impersonation" using assms(1) by (simp add: plain_config_def)
  have "sends_as u (if u \<noteq> [] then \<lambda>h. ?own (impersonating_RoundTrip (no_impersonation\<lparr>im_UserName := u\<rparr>) h) else ?own) ?own"
    using keeps_user_fixed [OF k] keeps_userD [OF k] by (auto simp: sends_as_def impersonating_as fun_eq_iff)
  moreover have "cf_Impersonate (config_as u c) = (if u \<noteq> [] then no_impersonation\<lparr>im_UserName := u\<rparr> else no_impersonation)"
    by (simp add: config_as_def plain)
  ultimately show ?thesis
    by (cases "u = []") (auto simp: HTTPWrappers_own own_wrappers_config_as plain no_impersonation_def)
qed

lemma wrapped_by_keeps:
  assumes "wrapped_by plugin wt = Inr wt'" "keeps_user (through wt)" "\<And>f. plugin = Some (Inr f) \<Longrightarrow> keeps_user f"
  shows "keeps_user (through wt')"
proof (cases plugin)
  case (Some r)
  with assms(1) obtain f where f: "r = Inr f" "wt' = Some (\<lambda>h. through wt (f h))"
    by (cases r) (auto simp: wrapped_by_def)
  with Some keeps_user_comp [OF assms(2) assms(3)] show ?thesis by (simp add: through_def keeps_user_def)
qed (use assms in \<open>simp add: wrapped_by_def\<close>)

lemma TransportConfig_keeps:
  assumes "plain_config c" "TransportConfig c = Inr wt"
  shows "keeps_user (through wt)"
proof -
  obtain w1 where w1: "wrapped_by (cf_ExecProvider c) (cf_WrapTransport c) = Inr w1" "wrapped_by (cf_AuthProvider c) w1 = Inr wt"
    using assms(2) by (auto simp: TransportConfig_def split: sum.splits)
  have "keeps_user (through w1)"
    by (rule wrapped_by_keeps [OF w1(1)]) (use assms(1) in \<open>auto simp: plain_config_def intro: keeps_user_through\<close>)
  then show ?thesis by (rule wrapped_by_keeps [OF w1(2)]) (use assms(1) in \<open>auto simp: plain_config_def\<close>)
qed

lemma TransportFor_as:
  assumes "plain_config c"
  shows "rel_sum (=) (sends_as u) (TransportFor env (config_as u c)) (TransportFor env c)"
proof (cases "TransportConfig c")
  case (Inl e)
  then have "TransportConfig (config_as u c) = Inl e" by (simp only: TransportConfig_def config_as_simps)
  with Inl show ?thesis by (simp add: TransportFor_def)
next
  case (Inr wt)
  note keeps = TransportConfig_keeps [OF assms Inr]
  have custom: "keeps_user f" if "cf_Transport c = Some f" for f using assms that by (simp add: plain_config_def)
  have "TransportConfig (config_as u c) = Inr wt" using Inr by (simp only: TransportConfig_def config_as_simps)
  with Inr show ?thesis
    using wrappers_as [OF assms keeps custom] wrappers_as [OF assms keeps keeps_user_id]
    by (simp add: TransportFor_def hasCA_def hasCert_def split: option.splits)
qed

text \<open>The clients in order: the same but for the user.\<close>

definition client_as :: "string \<Rightarrow> rest_client \<Rightarrow> rest_client \<Rightarrow> bool" where
  "client_as u rc rc0 \<longleftrightarrow> sends_as u (rc_RoundTrip rc) (rc_RoundTrip rc0) \<and> rc = rc0\<lparr>rc_RoundTrip := rc_RoundTrip rc\<rparr>"

lemma NewRESTClient_as:
  assumes "sends_as u rt rt0"
  shows "rel_sum (=) (client_as u) (NewRESTClient env b p ct gv s q m l rt) (NewRESTClient env b p ct gv s q m l rt0)"
  using assms by (simp add: NewRESTClient_def Let_def client_as_def split: option.splits)

lemma defaultServerUrlFor_as [simp]: "defaultServerUrlFor env (config_as u c) = defaultServerUrlFor env c"
  by (simp only: defaultServerUrlFor_def hasCA_def hasCert_def config_as_simps)

lemma transports_as:
  assumes "plain_config c"
  obtains (fails) e where "TransportFor env (config_as u c) = Inl e" "TransportFor env c = Inl e"
    | (works) rt rt0 where "TransportFor env (config_as u c) = Inr rt" "TransportFor env c = Inr rt0" "sends_as u rt rt0"
  using TransportFor_as [OF assms, of u env] by (cases rule: rel_sum.cases) auto

lemma RESTClientFor_as:
  assumes "plain_config c"
  shows "rel_sum (=) (client_as u) (RESTClientFor env (config_as u c)) (RESTClientFor env c)"
  by (rule transports_as [OF assms, of env u])
    (auto simp: RESTClientFor_def Let_def NewRESTClient_as split: option.splits sum.splits)

lemma UnversionedRESTClientFor_as:
  assumes "plain_config c"
  shows "rel_sum (=) (client_as u) (UnversionedRESTClientFor env (config_as u c)) (UnversionedRESTClientFor env c)"
  by (rule transports_as [OF assms, of env u])
    (auto simp: UnversionedRESTClientFor_def NewRESTClient_as split: option.splits sum.splits)

section \<open>The generators and the user\<close>

lemma group_NewForConfig_as:
  assumes "plain_config c"
  shows "rel_sum (=) (client_as u) (group_NewForConfig env gv p (config_as u c)) (group_NewForConfig env gv p c)"
  unfolding group_NewForConfig_def config_as_defaults by (rule RESTClientFor_as [OF plain_config_defaults(1) [OF assms]])

lemma new_groups_as:
  assumes "plain_config c"
  shows "rel_sum (=) (list_all2 (client_as u)) (new_groups env (config_as u c) gs) (new_groups env c gs)"
proof (induction gs)
  case (Cons g gs)
  obtain gv p where g: "g = (gv, p)" by (cases g)
  from group_NewForConfig_as [OF assms, of u env gv p] Cons.IH show ?case
    by (cases rule: rel_sum.cases; cases rule: rel_sum.cases) (auto simp: g elim: rel_sum.cases)
qed simp

definition set_clients :: "client_set \<Rightarrow> rest_client list" where
  "set_clients cs = cs_groups cs @ [cs_DiscoveryClient cs]"

definition cube_clients :: "cube_clientset \<Rightarrow> rest_client list" where
  "cube_clients c = [cc_restClient (ci_cubeV1alpha1 c), ci_DiscoveryClient c]"

lemma discovery_as:
  assumes "plain_config c"
  shows "rel_sum (=) (client_as u) (NewDiscoveryClientForConfig env (config_as u c)) (NewDiscoveryClientForConfig env c)"
  unfolding NewDiscoveryClientForConfig_def config_as_defaults
  by (rule UnversionedRESTClientFor_as [OF plain_config_defaults(3) [OF assms]])

lemma clientset_as:
  assumes "plain_config c"
  shows "rel_sum (=) (\<lambda>cs cs0. list_all2 (client_as u) (set_clients cs) (set_clients cs0))
    (clientset_NewForConfig gs env (config_as u c)) (clientset_NewForConfig gs env c)"
proof -
  let ?c = "shared_limiter c"
  have plain: "plain_config ?c" by (rule plain_config_defaults(4) [OF assms])
  from new_groups_as [OF plain, of u env gs] discovery_as [OF plain, of u env] show ?thesis
    by (auto simp: clientset_NewForConfig_def Let_def config_as_defaults set_clients_def list_all2_appendI elim!: rel_sum.cases)
qed

lemma versioned_as:
  assumes "plain_config c"
  shows "rel_sum (=) (\<lambda>cs cs0. list_all2 (client_as u) (cube_clients cs) (cube_clients cs0))
    (versioned_NewForConfig env (config_as u c)) (versioned_NewForConfig env c)"
proof -
  let ?c = "shared_limiter c"
  have plain: "plain_config ?c" by (rule plain_config_defaults(4) [OF assms])
  have cube: "rel_sum (=) (client_as u) (RESTClientFor env (cube_setConfigDefaults env (config_as u ?c)))
      (RESTClientFor env (cube_setConfigDefaults env ?c))"
    unfolding config_as_defaults by (rule RESTClientFor_as [OF plain_config_defaults(2) [OF plain]])
  have unfold: "versioned_NewForConfig env d = (case cube_NewForConfig env (shared_limiter d) of
      Inl e \<Rightarrow> Inl e
    | Inr cube \<Rightarrow> (case NewDiscoveryClientForConfig env (shared_limiter d) of
        Inl e \<Rightarrow> Inl e | Inr d \<Rightarrow> Inr \<lparr>ci_DiscoveryClient = d, ci_cubeV1alpha1 = cube\<rparr>))" for d
    by (simp only: versioned_NewForConfig_def shared_limiter_def Let_def)
  from cube discovery_as [OF plain, of u env] show ?thesis
    by (auto simp: unfold cube_NewForConfig_def config_as_defaults cube_clients_def elim!: rel_sum.cases)
qed

definition generator_clients :: "client_generator \<Rightarrow> rest_client list" where
  "generator_clients g = set_clients (gn_Clientset g) @ set_clients (gn_Apiclientset g) @ cube_clients (gn_Infraclientset g)"

lemma generators_as:
  assumes "generator_config env kubeConfig = Return c" "plain_config c"
  obtains (exit) "NewImpersonateGenerator env kubeConfig u = exits" "NewClientGenerator env kubeConfig images None = exits"
    | (run) g g0 where "NewImpersonateGenerator env kubeConfig u = Return g"
      "NewClientGenerator env kubeConfig images None = Return (g0, Some g0)"
      "list_all2 (client_as u) (generator_clients g) (generator_clients g0)"
proof -
  have u: "(if u \<noteq> [] then c\<lparr>cf_Impersonate := (cf_Impersonate c)\<lparr>im_UserName := u\<rparr>\<rparr> else c) = config_as u c"
    by (simp add: config_as_def)
  note unf = NewImpersonateGenerator_def NewClientGenerator_def kubernetes_NewForConfig_def apiextensions_NewForConfig_def
  note core = clientset_as [OF assms(2), of u core_groups env, folded kubernetes_NewForConfig_def]
  note api = clientset_as [OF assms(2), of u "[((''apiextensions.k8s.io'', ''v1beta1''), ''/apis'')]" env,
      folded apiextensions_NewForConfig_def]
  note cube = versioned_as [OF assms(2), of u env]
  show thesis
  proof (cases "kubernetes_NewForConfig env c")
    case (Inl e)
    with core have "kubernetes_NewForConfig env (config_as u c) = Inl e" by (auto elim: rel_sum.cases)
    with Inl show thesis by (intro exit) (simp_all add: NewImpersonateGenerator_def NewClientGenerator_def assms(1) u Let_def)
  next
    case k0: (Inr k0)
    with core obtain k where k: "kubernetes_NewForConfig env (config_as u c) = Inr k"
      "list_all2 (client_as u) (set_clients k) (set_clients k0)" by (auto elim: rel_sum.cases)
    show thesis
    proof (cases "apiextensions_NewForConfig env c")
      case (Inl e)
      with api have "apiextensions_NewForConfig env (config_as u c) = Inl e" by (auto elim: rel_sum.cases)
      with Inl k0 k(1) show thesis
        by (intro exit) (simp_all add: NewImpersonateGenerator_def NewClientGenerator_def assms(1) u Let_def)
    next
      case a0: (Inr a0)
      with api obtain a where a: "apiextensions_NewForConfig env (config_as u c) = Inr a"
        "list_all2 (client_as u) (set_clients a) (set_clients a0)" by (auto elim: rel_sum.cases)
      show thesis
      proof (cases "versioned_NewForConfig env c")
        case (Inl e)
        with cube have "versioned_NewForConfig env (config_as u c) = Inl e" by (auto elim: rel_sum.cases)
        with Inl k0 k(1) a0 a(1) show thesis
          by (intro exit) (simp_all add: NewImpersonateGenerator_def NewClientGenerator_def assms(1) u Let_def)
      next
        case v0: (Inr v0)
        with cube obtain v where v: "versioned_NewForConfig env (config_as u c) = Inr v"
          "list_all2 (client_as u) (cube_clients v) (cube_clients v0)" by (auto elim: rel_sum.cases)
        with k0 k a0 a v0 show thesis
          by (intro run) (auto simp: NewImpersonateGenerator_def NewClientGenerator_def assms(1) u Let_def
              generator_clients_def list_all2_appendI)
      qed
    qed
  qed
qed

text \<open>
  C33. A request of a handler reaches the cluster in the name of its user and of nobody else.  The clients
  made for a user are, one by one, the clients of the server itself: with the same address, path, version
  and limit of requests, and the same changes to every header but one.  That one names the user, on
  every request that does not name a user already, while the server's own clients never name one;
  without a user the request is one of the server.  The clients of the server are made once: later
  calls return them whatever they are called with.  And where the server cannot connect, neither can
  a handler: its process ends.
\<close>

theorem impersonation_exact:
  assumes "generator_config env kubeConfig = Return c" "plain_config c"
  shows "NewImpersonateGenerator env kubeConfig u = exits \<and> NewClientGenerator env kubeConfig images None = exits
    \<or> (\<exists>g g0. NewImpersonateGenerator env kubeConfig u = Return g
      \<and> NewClientGenerator env kubeConfig images None = Return (g0, Some g0)
      \<and> (\<forall>kubeConfig' images'. NewClientGenerator env kubeConfig' images' (Some g0) = Return (g0, Some g0))
      \<and> list_all2 (\<lambda>rc rc0. rc = rc0\<lparr>rc_RoundTrip := rc_RoundTrip rc\<rparr> \<and> (\<forall>h. h ''Impersonate-User'' = [] \<longrightarrow>
            rc_RoundTrip rc0 h ''Impersonate-User'' = []
          \<and> rc_RoundTrip rc h = (rc_RoundTrip rc0 h)(''Impersonate-User'' := (if u = [] then [] else [u]))))
        (generator_clients g) (generator_clients g0))"
proof (rule generators_as [OF assms, of u images])
  assume "NewImpersonateGenerator env kubeConfig u = exits" "NewClientGenerator env kubeConfig images None = exits"
  then show ?thesis by simp
next
  fix g g0
  assume g: "NewImpersonateGenerator env kubeConfig u = Return g"
    "NewClientGenerator env kubeConfig images None = Return (g0, Some g0)"
    "list_all2 (client_as u) (generator_clients g) (generator_clients g0)"
  from g(3) have "list_all2 (\<lambda>rc rc0. rc = rc0\<lparr>rc_RoundTrip := rc_RoundTrip rc\<rparr> \<and> (\<forall>h. h ''Impersonate-User'' = [] \<longrightarrow>
            rc_RoundTrip rc0 h ''Impersonate-User'' = []
          \<and> rc_RoundTrip rc h = (rc_RoundTrip rc0 h)(''Impersonate-User'' := (if u = [] then [] else [u]))))
        (generator_clients g) (generator_clients g0)"
    by (rule list_all2_mono) (simp add: client_as_def sends_as_def)
  with g show ?thesis
    by (intro disjI2 exI [of _ g] exI [of _ g0] conjI allI) (assumption | simp add: NewClientGenerator_def)+
qed

definition pod_config :: rest_config where
  "pod_config = \<lparr>cf_Host = ''https://10.0.0.1:443'', cf_APIPath = [], cf_ContentType = [], cf_GroupVersion = None,
     cf_NegotiatedSerializer = None, cf_Username = [], cf_Password = [], cf_BearerToken = ''sa-token'',
     cf_Impersonate = no_impersonation, cf_AuthProvider = None, cf_ExecProvider = None,
     cf_TLS = \<lparr>tl_Insecure = False, tl_ServerName = [], tl_CertFile = [], tl_KeyFile = [],
       tl_CAFile = ''/var/run/secrets/ca.crt'', tl_CertData = [], tl_KeyData = [], tl_CAData = []\<rparr>,
     cf_UserAgent = [], cf_Transport = None, cf_WrapTransport = None, cf_QPS = 0, cf_Burst = 0, cf_RateLimiter = None\<rparr>"

definition pod_env :: connection_env where
  "pod_env = \<lparr>ce_InClusterConfig = Inr pod_config, ce_ClientConfig = (\<lambda>_. Inl (Errorf ''no configuration'' [])),
     ce_DefaultServerURL = (\<lambda>host _. Inr host), ce_tls_cache = (\<lambda>_. None), ce_serializers = (\<lambda>_ _. None),
     ce_basic_auth = (\<lambda>n p. n @ CHR '':'' # p), ce_UserAgent = ''cube-apiserver/v1 (linux/amd64)'',
     ce_new_informer = (\<lambda>_ t d. \<lparr>si_List = (\<lambda>_. (None, [], [], [])), si_Watch = (\<lambda>_. (None, [], [], [])),
       si_objType = t, si_resyncPeriod = d, si_indexers = []\<rparr>)\<rparr>"

lemma new_groups_Inr:
  assumes "\<And>gv p. \<exists>rc. group_NewForConfig env gv p c = Inr rc"
  shows "\<exists>rcs. new_groups env c gs = Inr rcs \<and> length rcs = length gs"
proof (induction gs)
  case (Cons g gs)
  obtain gv p where g: "g = (gv, p)" by (cases g)
  obtain rc where "group_NewForConfig env gv p c = Inr rc" using assms by blast
  with Cons.IH show ?case by (auto simp: g)
qed simp

lemma pod_transport: "cf_TLS d = cf_TLS pod_config \<Longrightarrow> cf_Username d = [] \<Longrightarrow> cf_Transport d = None \<Longrightarrow>
    cf_ExecProvider d = None \<Longrightarrow> cf_AuthProvider d = None \<Longrightarrow> \<exists>rt. TransportFor pod_env d = Inr rt"
  by (auto simp: TransportFor_def TransportConfig_def wrapped_by_def HTTPWrappers_own pod_env_def)

lemma pod_client:
  assumes "cf_TLS d = cf_TLS pod_config" "cf_Username d = []" "cf_Transport d = None" "cf_ExecProvider d = None"
    "cf_AuthProvider d = None" "cf_NegotiatedSerializer d = Some s"
  shows "cf_GroupVersion d = Some gv \<Longrightarrow> \<exists>rc. RESTClientFor pod_env d = Inr rc" "\<exists>rc. UnversionedRESTClientFor pod_env d = Inr rc"
  using pod_transport [OF assms(1-5)] assms(6)
  by (auto simp: RESTClientFor_def UnversionedRESTClientFor_def defaultServerUrlFor_def NewRESTClient_def Let_def pod_env_def
      split: prod.splits option.splits)

lemma pod_clientset:
  "\<exists>cs. clientset_NewForConfig gs pod_env (config_as u pod_config) = Inr cs \<and> length (set_clients cs) = Suc (length gs)"
proof -
  let ?c = "config_as u pod_config"
  have l: "shared_limiter ?c = ?c" by (simp add: shared_limiter_def pod_config_def config_as_def)
  have "\<exists>rc. group_NewForConfig pod_env gv p ?c = Inr rc" for gv p unfolding group_NewForConfig_def
    by (rule pod_client(1) [where s = "''DirectCodecFactory''"]) (simp_all add: setConfigDefaults_def config_as_def pod_config_def)
  from new_groups_Inr [OF this, of gs] obtain rcs where "new_groups pod_env ?c gs = Inr rcs" "length rcs = length gs" by blast
  moreover have "\<exists>rc. NewDiscoveryClientForConfig pod_env ?c = Inr rc" unfolding NewDiscoveryClientForConfig_def
    by (rule pod_client(2) [where s = "''NoopEncoder''"]) (simp_all add: setDiscoveryDefaults_def config_as_def pod_config_def)
  ultimately show ?thesis by (auto simp: clientset_NewForConfig_def Let_def l set_clients_def)
qed

lemma pod_cube: "\<exists>cs. versioned_NewForConfig pod_env (config_as u pod_config) = Inr cs"
proof -
  let ?c = "config_as u pod_config"
  have "\<exists>rc. RESTClientFor pod_env (cube_setConfigDefaults pod_env ?c) = Inr rc"
    by (rule pod_client(1) [where s = "''DirectCodecFactory''"]) (simp_all add: cube_setConfigDefaults_def config_as_def pod_config_def)
  moreover have "\<exists>rc. NewDiscoveryClientForConfig pod_env ?c = Inr rc" unfolding NewDiscoveryClientForConfig_def
    by (rule pod_client(2) [where s = "''NoopEncoder''"]) (simp_all add: setDiscoveryDefaults_def config_as_def pod_config_def)
  moreover have "cf_QPS pod_config = 0" by (simp add: pod_config_def)
  ultimately show ?thesis by (auto simp: versioned_NewForConfig_def cube_NewForConfig_def)
qed

lemma pod_runs: "\<exists>g. NewImpersonateGenerator pod_env [] ''ann'' = Return g \<and> length (generator_clients g) = 33"
proof -
  have c: "generator_config pod_env [] = Return pod_config" by (simp add: generator_config_def BuildConfigFromFlags_def pod_env_def)
  have u: "pod_config\<lparr>cf_Impersonate := (cf_Impersonate pod_config)\<lparr>im_UserName := ''ann''\<rparr>\<rparr> = config_as ''ann'' pod_config"
    by (simp add: config_as_def)
  obtain k where k: "kubernetes_NewForConfig pod_env (config_as ''ann'' pod_config) = Inr k" "length (set_clients k) = 29"
    using pod_clientset [of core_groups "''ann''"] by (auto simp: kubernetes_NewForConfig_def core_groups_def)
  obtain a where a: "apiextensions_NewForConfig pod_env (config_as ''ann'' pod_config) = Inr a" "length (set_clients a) = 2"
    using pod_clientset [of "[((''apiextensions.k8s.io'', ''v1beta1''), ''/apis'')]" "''ann''"]
    by (auto simp: apiextensions_NewForConfig_def)
  obtain v where v: "versioned_NewForConfig pod_env (config_as ''ann'' pod_config) = Inr v" using pod_cube by blast
  have "\<exists>g. NewImpersonateGenerator pod_env [] ''ann'' = Return g \<and> generator_clients g = set_clients k @ set_clients a @ cube_clients v"
    by (simp add: NewImpersonateGenerator_def c u k(1) a(1) v generator_clients_def)
  with k(2) a(2) show ?thesis by (force simp: cube_clients_def)
qed

theorem impersonation_exact_witness:
  "\<exists>g. NewImpersonateGenerator pod_env [] ''ann'' = Return g \<and> length (generator_clients g) = 33
    \<and> (\<forall>rc \<in> set (generator_clients g). rc_RoundTrip rc (\<lambda>_. []) ''Impersonate-User'' = [''ann''])"
proof -
  have c: "generator_config pod_env [] = Return pod_config" by (simp add: generator_config_def BuildConfigFromFlags_def pod_env_def)
  have p: "plain_config pod_config" by (simp add: plain_config_def pod_config_def)
  from pod_runs have "NewImpersonateGenerator pod_env [] ''ann'' \<noteq> exits" by (auto simp: exits_def)
  with impersonation_exact [OF c p, of "''ann''" None] obtain g g0 where g: "NewImpersonateGenerator pod_env [] ''ann'' = Return g"
    "list_all2 (\<lambda>rc rc0. rc = rc0\<lparr>rc_RoundTrip := rc_RoundTrip rc\<rparr> \<and> (\<forall>h. h ''Impersonate-User'' = [] \<longrightarrow>
            rc_RoundTrip rc0 h ''Impersonate-User'' = []
          \<and> rc_RoundTrip rc h = (rc_RoundTrip rc0 h)(''Impersonate-User'' := (if ''ann'' = [] then [] else [''ann'']))))
        (generator_clients g) (generator_clients g0)" by blast
  from g(2) have "\<forall>rc \<in> set (generator_clients g). rc_RoundTrip rc (\<lambda>_. []) ''Impersonate-User'' = [''ann'']"
    by (auto simp: list_all2_conv_all_nth in_set_conv_nth)
  with g(1) pod_runs show ?thesis by auto
qed

text \<open>
  What ends the process at the start ends it just as well while a request is served: a configuration
  file that cannot be read any more, or a pod whose credentials are gone.
\<close>

theorem handler_exits:
  assumes "BuildConfigFromFlags env kubeConfig = Inl e"
  shows "NewImpersonateGenerator env kubeConfig u = exits"
  using assms by (simp add: NewImpersonateGenerator_def generator_config_def exits_def)

text \<open>The client of the group is the one whose requests \<open>Cube_Requests\<close> models.\<close>

lemma cube_client_path:
  assumes "cube_NewForConfig env c = Inr cl"
  shows "rc_versionedAPIPath (cc_restClient cl) = cube_path" "rc_GroupVersion (cc_restClient cl) = (''cube.rancher.io'', ''v1alpha1'')"
  using assms by (auto simp: cube_NewForConfig_def RESTClientFor_def cube_setConfigDefaults_def Let_def NewRESTClient_def
      defaultServerUrlFor_def cube_path_def split: option.splits sum.splits prod.splits)

end
