(* ===== verification/Cube_Impersonation.thy ===== *)
theory Cube_Impersonation
  imports Cube_Client Cube_Router Cube_Api_Handlers
begin

text \<open>
  The handlers for nodes from the router to the cluster: \<open>NodeList\<close> and \<open>NodeGet\<close> of \<open>api/node.go\<close> make
  clients for the user of the request and ask through them.  A cluster is a function of the headers it
  is asked with; this is where a request that passed the token check meets the rights of its user.
\<close>

section \<open>The handlers\<close>

record 'w connection =
  cn_env :: connection_env
  cn_kubeConfig :: string
  cn_cluster :: "header \<Rightarrow> 'w cluster_server"
  cn_headers :: header

text \<open>The client of the core group, the sixteenth of its set; nodes and pods are asked for with it.\<close>

definition core_v1 :: "client_generator \<Rightarrow> rest_client" where
  "core_v1 g = cs_groups (gn_Clientset g) ! 15"

definition asked_with :: "'w connection \<Rightarrow> rest_client \<Rightarrow> 'w cluster_server" where
  "asked_with conn rc = cn_cluster conn (rc_RoundTrip rc (cn_headers conn))"

definition answered :: "(answer \<Rightarrow> http_response \<Rightarrow> http_response) \<Rightarrow> ('w \<Rightarrow> 'w handled)
    \<Rightarrow> 'w http_state \<Rightarrow> (go_error option \<times> 'w http_state) outcome" where
  "answered write_answer f = (\<lambda>(rw, b).
     bind_outcome (f (be_world b)) (\<lambda>((ans, err), w).
       Return (err, (case ans of None \<Rightarrow> rw | Some a \<Rightarrow> write_answer a rw), b\<lparr>be_world := w\<rparr>)))"

definition NodeList_handler ::
    "'w connection \<Rightarrow> (answer \<Rightarrow> http_response \<Rightarrow> http_response) \<Rightarrow> (node_ref \<Rightarrow> node) \<Rightarrow> 'w handler" where
  "NodeList_handler conn write_answer store vars r s =
     bind_outcome (NewImpersonateGenerator (cn_env conn) (cn_kubeConfig conn) (rq_ImpersonateUser r)) (\<lambda>c.
       answered write_answer (api_NodeList (\<lambda>_. asked_with conn (core_v1 c)) store r) s)"

definition NodeGet_handler ::
    "'w connection \<Rightarrow> (answer \<Rightarrow> http_response \<Rightarrow> http_response) \<Rightarrow> 'w handler" where
  "NodeGet_handler conn write_answer vars r s =
     (let nodeID = (case map_of vars ''id'' of None \<Rightarrow> [] | Some i \<Rightarrow> i) in
      bind_outcome (NewImpersonateGenerator (cn_env conn) (cn_kubeConfig conn) (rq_ImpersonateUser r)) (\<lambda>c.
        answered write_answer (api_NodeGet (\<lambda>_. asked_with conn (core_v1 c)) r nodeID) s))"

section \<open>Asked as the user\<close>

lemma new_groups_length: "new_groups env c gs = Inr rcs \<Longrightarrow> length rcs = length gs"
  by (induction gs arbitrary: rcs) (auto split: sum.splits)

lemma kubernetes_clients:
  assumes "kubernetes_NewForConfig env c = Inr cs"
  shows "length (cs_groups cs) = 28"
proof -
  have "new_groups env (shared_limiter c) core_groups = Inr (cs_groups cs)"
    using assms by (auto simp: kubernetes_NewForConfig_def clientset_NewForConfig_def Let_def split: sum.splits)
  from new_groups_length [OF this] show ?thesis by (simp add: core_groups_def)
qed

lemma generator_core:
  assumes "NewClientGenerator env kc images None = Return (g0, s)"
  shows "core_v1 g0 = generator_clients g0 ! 15" "15 < length (generator_clients g0)"
proof -
  obtain c where c: "generator_config env kc = Return c" using assms by (auto simp: NewClientGenerator_def bind_outcome_Return_iff)
  have "kubernetes_NewForConfig env c = Inr (gn_Clientset g0)"
    using assms by (cases "kubernetes_NewForConfig env c"; cases "apiextensions_NewForConfig env c"; cases "versioned_NewForConfig env c")
      (auto simp: NewClientGenerator_def c exits_def Let_def)
  then have "length (cs_groups (gn_Clientset g0)) = 28" by (rule kubernetes_clients)
  then show "core_v1 g0 = generator_clients g0 ! 15" "15 < length (generator_clients g0)"
    by (simp_all add: core_v1_def generator_clients_def set_clients_def nth_append)
qed

lemma impersonated_core:
  assumes "NewImpersonateGenerator env kc u = Return g"
  shows "core_v1 g = generator_clients g ! 15"
proof -
  obtain c where c: "generator_config env kc = Return c" using assms by (auto simp: NewImpersonateGenerator_def bind_outcome_Return_iff)
  define d where "d = (if u \<noteq> [] then c\<lparr>cf_Impersonate := (cf_Impersonate c)\<lparr>im_UserName := u\<rparr>\<rparr> else c)"
  have "kubernetes_NewForConfig env d = Inr (gn_Clientset g)"
    using assms unfolding NewImpersonateGenerator_def c bind_outcome.simps Let_def d_def [symmetric]
    by (cases "kubernetes_NewForConfig env d"; cases "apiextensions_NewForConfig env d"; cases "versioned_NewForConfig env d")
      (auto simp: exits_def)
  then have "length (cs_groups (gn_Clientset g)) = 28" by (rule kubernetes_clients)
  then show ?thesis by (simp add: core_v1_def generator_clients_def set_clients_def nth_append)
qed

text \<open>What the cluster sees when the handlers' client asks for a user.\<close>

lemma asked_as_user:
  assumes "generator_config (cn_env conn) (cn_kubeConfig conn) = Return c" "plain_config c"
    and "NewClientGenerator (cn_env conn) (cn_kubeConfig conn) images None = Return (g0, shared)"
    and "cn_headers conn ''Impersonate-User'' = []" "u \<noteq> []"
  obtains g where "NewImpersonateGenerator (cn_env conn) (cn_kubeConfig conn) u = Return g"
    "asked_with conn (core_v1 g) =
       cn_cluster conn ((rc_RoundTrip (core_v1 g0) (cn_headers conn))(''Impersonate-User'' := [u]))"
proof (rule generators_as [OF assms(1,2), of u images])
  assume "NewClientGenerator (cn_env conn) (cn_kubeConfig conn) images None = exits"
  with assms(3) show thesis by (simp add: exits_def)
next
  fix g g1
  assume g: "NewImpersonateGenerator (cn_env conn) (cn_kubeConfig conn) u = Return g"
    "NewClientGenerator (cn_env conn) (cn_kubeConfig conn) images None = Return (g1, Some g1)"
    "list_all2 (client_as u) (generator_clients g) (generator_clients g1)"
  from g(2) assms(3) have "g1 = g0" by simp
  with g(3) generator_core [OF assms(3)] have "client_as u (generator_clients g ! 15) (core_v1 g0)"
    by (auto dest: list_all2_nthD2)
  with impersonated_core [OF g(1)] have "client_as u (core_v1 g) (core_v1 g0)" by simp
  with assms(4,5) have "rc_RoundTrip (core_v1 g) (cn_headers conn) =
      (rc_RoundTrip (core_v1 g0) (cn_headers conn))(''Impersonate-User'' := [u])"
    by (simp add: client_as_def sends_as_def)
  then show thesis by (intro that [OF g(1)]) (simp add: asked_with_def)
qed

lemma api_route_nodes:
  "find_route (map (\<lambda>(m, p, x). (m, ''/v1'' @ p, x)) (api_routes h)) ''GET'' ''/v1/nodes'' = Some ([], hd_NodeList h, True)"
  by (simp add: api_routes_def match_path_def path_variable_def)

lemma api_route_node:
  "i \<noteq> [] \<Longrightarrow> CHR ''/'' \<notin> set i \<Longrightarrow>
   find_route (map (\<lambda>(m, p, x). (m, ''/v1'' @ p, x)) (api_routes h)) ''GET'' (''/v1/nodes/'' @ i) =
     Some ([(''id'', i)], hd_NodeGet h, True)"
  by (simp add: api_routes_def match_path_def path_variable_def split_on_no_sep)

text \<open>The request as it is passed on for a token.\<close>

definition as_token_user :: "login_request \<Rightarrow> token \<Rightarrow> http_request" where
  "as_token_user r t = (http_request.truncate r)\<lparr>rq_Authorization := ''Bearer '' @ t_Token t, rq_ImpersonateUser := t_UserID t\<rparr>"

text \<open>
  C5. Whoever asks for nodes asks the cluster in the own name.  A request below \<open>/v1/nodes\<close> with a good
  token, one that the cache of tokens grants and whose key the JWT check accepts, is answered with what
  the cluster says to the user of that token: the request that reaches the cluster carries the server's
  own headers, and names this user as the one to act for, whatever the client had written into its
  headers.  So the server shows nobody what the cluster would not.
\<close>

theorem nodes_asked_as_user:
  assumes "backend_ok b" "t_UserID t \<noteq> []"
    and "grants (le_seconds (si_env site)) (le_now (si_env site)) (be_tokens b)
      (GetTokenAuthFromRequest (http_request.truncate r)) t"
    and "\<And>p. si_static site ''GET'' p = None" "CheckJWT generatePrivateKey (si_jwt site) ''GET'' (as_token_user r t) = None"
    and "hd_NodeList (si_handlers site) = NodeList_handler conn write_answer store"
    and "hd_NodeGet (si_handlers site) = NodeGet_handler conn write_answer"
    and "generator_config (cn_env conn) (cn_kubeConfig conn) = Return c" "plain_config c"
    and "NewClientGenerator (cn_env conn) (cn_kubeConfig conn) images None = Return (own, shared)"
    and "cn_headers conn ''Impersonate-User'' = []" "i \<noteq> []" "CHR ''/'' \<notin> set i"
    and "srv = cn_cluster conn ((rc_RoundTrip (core_v1 own) (cn_headers conn))(''Impersonate-User'' := [t_UserID t]))"
  shows "serve site ''GET'' ''/v1/nodes'' r (w, b) =
      HandleError (si_write_err site) (answered write_answer (api_NodeList (\<lambda>_. srv) store (as_token_user r t))) (w, b)
    \<and> serve site ''GET'' (''/v1/nodes/'' @ i) r (w, b) =
      HandleError (si_write_err site) (answered write_answer (api_NodeGet (\<lambda>_. srv) (as_token_user r t) i)) (w, b)"
proof -
  have user: "rq_ImpersonateUser (as_token_user r t) = t_UserID t" by (simp add: as_token_user_def)
  obtain g where g: "NewImpersonateGenerator (cn_env conn) (cn_kubeConfig conn) (t_UserID t) = Return g"
    "asked_with conn (core_v1 g) = srv"
    using asked_as_user [OF assms(8,9,10,11,2)] unfolding assms(14) by blast
  have pre: "HasPrefix (''/v1/nodes'' @ x) ''/v1''" for x by (simp add: HasPrefix_def)
  have list: "serve site ''GET'' ''/v1/nodes'' r (w, b) =
      jwtMiddleware site ''GET'' (apiRouter site ''GET'' ''/v1/nodes'') (as_token_user r t) (w, b)"
    using serve_granted [OF assms(1) _ assms(4,3)] pre [of "[]"] by (simp add: as_token_user_def)
  have get: "serve site ''GET'' (''/v1/nodes/'' @ i) r (w, b) =
      jwtMiddleware site ''GET'' (apiRouter site ''GET'' (''/v1/nodes/'' @ i)) (as_token_user r t) (w, b)"
    using serve_granted [OF assms(1) _ assms(4,3)] pre [of "CHR ''/'' # i"] by (simp add: as_token_user_def)
  show ?thesis
    unfolding list get jwtMiddleware_def assms(5) apiRouter_def api_route_nodes api_route_node [OF assms(12,13)]
    by (simp add: assms(6,7) NodeList_handler_def [abs_def] NodeGet_handler_def [abs_def] user g)
qed

section \<open>Example\<close>

text \<open>A cluster that shows its nodes to \<open>u-1\<close> only.\<close>

definition guarded_cluster :: "header \<Rightarrow> 'w cluster_server" where
  "guarded_cluster h =
     (let allowed = (h ''Impersonate-User'' = [''u-1'']); forbidden = StatusError (StatusReasonOther ''Forbidden'') ''nodes'' in
      \<lparr>cs_Nodes_List = (\<lambda>w. (if allowed then Inr [sample_node ''node-1''] else Inl forbidden, w)),
       cs_Nodes_Get = (\<lambda>n w. (if allowed then Inr (sample_node n) else Inl forbidden, w)),
       cs_Pods_List = (\<lambda>_ w. (Inr [], w)), cs_ComponentStatuses_List = (\<lambda>w. (Inr [], w)),
       cs_ComponentStatuses_Get = (\<lambda>_ w. (Inl forbidden, w)), cs_ParseSelector = Inr\<rparr>)"

definition pod_connection :: "tracker connection" where
  "pod_connection = \<lparr>cn_env = pod_env, cn_kubeConfig = [], cn_cluster = guarded_cluster, cn_headers = (\<lambda>_. [])\<rparr>"

definition count_nodes :: "answer \<Rightarrow> http_response \<Rightarrow> http_response" where
  "count_nodes a = http_Write (Bytes (case a of NodeCollection c \<Rightarrow> replicate (length (co_Data c)) CHR ''n'' | _ \<Rightarrow> []))"

definition nodes_site :: "tracker site" where
  "nodes_site = sample_site\<lparr>si_handlers := (si_handlers sample_site)
     \<lparr>hd_NodeList := NodeList_handler pod_connection count_nodes (\<lambda>_. sample_node []),
      hd_NodeGet := NodeGet_handler pod_connection count_nodes\<rparr>\<rparr>"

lemma pod_connection_simps [simp]:
  "cn_env pod_connection = pod_env" "cn_kubeConfig pod_connection = []" "cn_cluster pod_connection = guarded_cluster"
  "cn_headers pod_connection = (\<lambda>_. [])"
  by (simp_all add: pod_connection_def)

theorem nodes_asked_as_user_witness:
  "serve nodes_site ''GET'' ''/v1/nodes'' (sample_request\<lparr>rq_Cookie := Some ''token-x7k2p:eyh.eyc.s'', rq_ImpersonateUser := ''root''\<rparr>)
     (new_response, sample_backend [] [] [issued_token settled_user ''eyh.eyc.s'' 57600000 [] ''token-x7k2p'' 0] NewObjectTracker) =
   Return (http_Write (Bytes ''n'') new_response,
     sample_backend [] [] [issued_token settled_user ''eyh.eyc.s'' 57600000 [] ''token-x7k2p'' 0] NewObjectTracker)"
proof -
  let ?t = "issued_token settled_user ''eyh.eyc.s'' 57600000 [] ''token-x7k2p'' 0"
  let ?b = "sample_backend [] [] [?t] NewObjectTracker"
  let ?r = "sample_request\<lparr>rq_Cookie := Some ''token-x7k2p:eyh.eyc.s'', rq_ImpersonateUser := ''root''\<rparr>"
  have ok: "backend_ok ?b" by (rule sample_backend_ok) simp_all
  have items: "ts_items (inf_indexer (be_tokens ?b)) = [(''kube-system/token-x7k2p'', ObjToken ?t)]"
    by (simp add: sample_backend_items MetaNamespaceKeyFunc_def)
  have held: "held (be_tokens ?b) ''kube-system/token-x7k2p'' (ObjToken ?t)" by (simp add: held_def items)
  have hits: "hits (be_tokens ?b) TokenByKey ''eyh.eyc.s'' = {''kube-system/token-x7k2p''}"
    by (auto simp: hits_def items index_fun_hits split: if_splits)
  have plain: "plain_text ''token-x7k2p''" "plain_text ''eyh.eyc.s''" unfolding plain_text_def by code_simp+
  have shown: "GetTokenAuthFromRequest (http_request.truncate ?r) = token_text ?t"
    by (rule presented_text) (simp_all add: presents_def sample_request_def token_text_def plain)
  have env: "si_env nodes_site = si_env sample_site" by (simp add: nodes_site_def)
  have grants: "grants (le_seconds (si_env nodes_site)) (le_now (si_env nodes_site)) (be_tokens ?b)
      (GetTokenAuthFromRequest (http_request.truncate ?r)) ?t"
    unfolding shown env by (rule issued_token_grants [OF _ _ plain held hits])
      (simp_all add: sample_site_def seconds_exact still_valid_def)
  have user: "t_UserID ?t = ''u-1''" by simp
  have accepted: "CheckJWT generatePrivateKey sample_jwt ''GET'' (as_token_user ?r ?t) = None"
    by (rule sample_key_accepted) (simp add: as_token_user_def)
  have c: "generator_config pod_env [] = Return pod_config" by (simp add: generator_config_def BuildConfigFromFlags_def pod_env_def)
  have p: "plain_config pod_config" by (simp add: plain_config_def pod_config_def)
  obtain g0 where g0: "NewClientGenerator pod_env [] None None = Return (g0, Some g0)"
    using generators_as [OF c p, of "''ann''" None] pod_runs by (metis exits_def outcome.distinct(1))
  have "serve nodes_site ''GET'' ''/v1/nodes'' ?r (new_response, ?b) =
      HandleError (si_write_err nodes_site) (answered count_nodes (api_NodeList
        (\<lambda>_. cn_cluster pod_connection ((rc_RoundTrip (core_v1 g0) (cn_headers pod_connection))(''Impersonate-User'' := [t_UserID ?t])))
        (\<lambda>_. sample_node []) (as_token_user ?r ?t))) (new_response, ?b)"
    by (rule nodes_asked_as_user [OF ok _ grants, where i = "''n''" and conn = pod_connection and own = g0 and images = None and c = pod_config and shared = "Some g0",
        THEN conjunct1])
      (simp_all add: user nodes_site_def sample_site_def c p g0 accepted)
  also have "\<dots> = Return (http_Write (Bytes ''n'') new_response, ?b)"
    by (simp add: HandleError_def RetryCounts_def numeral_eq_Suc answered_def api_NodeList_def ClusterNodes_def
        guarded_cluster_def user Let_def toNodeCollection_def node_collection_loop_result count_nodes_def)
  finally show ?thesis .
qed

end
