(* ===== verification/Cube_Schema.thy ===== *)
theory Cube_Schema
  imports Cube_Router Cube_Api_Handlers
begin

text \<open>
  The schemas the server publishes: \<open>NewSchema\<close> of \<open>api/model.go\<close>, with \<open>AddType\<close> of
  \<open>go-rancher/client/schemas.go\<close>, which reads the fields of a Go type, and the pages and links
  \<open>go-rancher/api\<close> makes of them.  The lemmas compare what is published with the routes of the router.

  Of a field and of a schema the attributes that are set are kept; a Go map is a function to options.
\<close>

section \<open>Schemas\<close>

record field =
  fd_Type :: string
  fd_Unique :: bool
  fd_Nullable :: bool
  fd_Create :: bool
  fd_Required :: bool

definition zero_field :: field where
  "zero_field = \<lparr>fd_Type = [], fd_Unique = False, fd_Nullable = False, fd_Create = False, fd_Required = False\<rparr>"

record schema =
  sc_Id :: string
  sc_Type :: string
  sc_Links :: "string \<rightharpoonup> string"
  sc_PluralName :: string
  sc_ResourceMethods :: "string list"
  sc_ResourceFields :: "string \<rightharpoonup> field"
  sc_CollectionMethods :: "string list"

definition zero_schema :: schema where
  "zero_schema = \<lparr>sc_Id = [], sc_Type = [], sc_Links = (\<lambda>_. None), sc_PluralName = [], sc_ResourceMethods = [],
     sc_ResourceFields = (\<lambda>_. None), sc_CollectionMethods = []\<rparr>"

text \<open>The fields of a Go struct: name, \<open>json\<close> tag and kind, or the fields of an embedded struct.\<close>

datatype go_field = Named string string string | Embedded "go_field list" | EmbeddedOther

definition field_type :: "string \<Rightarrow> string" where
  "field_type kind =
     (if HasPrefix kind ''int'' \<or> HasPrefix kind ''uint'' then ''int''
      else if kind = ''bool'' then kind
      else if kind = ''float32'' \<or> kind = ''float64'' then ''float''
      else if kind = ''string'' then ''string''
      else if kind = ''map'' then ''map[string]''
      else if kind = ''slice'' then ''array[string]''
      else [])"

definition field_name :: "string \<Rightarrow> string \<Rightarrow> string" where
  "field_name name tag =
     (let n = split_on CHR '','' tag ! 0 in
      if n = [] \<and> 1 < length name then ascii_lower (hd name) # tl name
      else if n = [] then name else n)"

fun fields_loop :: "go_field list \<Rightarrow> (string \<rightharpoonup> field) \<Rightarrow> (string \<rightharpoonup> field)" where
  "fields_loop [] result = result"
| "fields_loop (Embedded fs # rest) result = fields_loop rest (fields_loop fs (\<lambda>_. None) ++ result)"
| "fields_loop (EmbeddedOther # rest) result = fields_loop rest result"
| "fields_loop (Named name tag kind # rest) result =
     fields_loop rest
       (if field_type kind \<noteq> [] then result(field_name name tag \<mapsto> zero_field\<lparr>fd_Type := field_type kind\<rparr>) else result)"

definition typeToFields :: "go_field list \<Rightarrow> (string \<rightharpoonup> field)" where
  "typeToFields t = fields_loop t (\<lambda>_. None)"

definition ends_with :: "string \<Rightarrow> string \<Rightarrow> bool" where
  "ends_with s p \<longleftrightarrow> length p \<le> length s \<and> drop (length s - length p) s = p"

definition guessPluralName :: "string \<Rightarrow> string" where
  "guessPluralName name =
     (if name = [] then []
      else if ends_with name ''s'' \<or> ends_with name ''ch'' \<or> ends_with name ''x'' then name @ ''es''
      else name @ ''s'')"

definition AddType :: "string \<Rightarrow> go_field list \<Rightarrow> (schema \<Rightarrow> schema) \<Rightarrow> schema list \<Rightarrow> schema list" where
  "AddType schemaName obj edit data =
     data @ [edit \<lparr>sc_Id = schemaName, sc_Type = ''schema'', sc_Links = (\<lambda>_. None), sc_PluralName = guessPluralName schemaName,
       sc_ResourceMethods = [''GET''], sc_ResourceFields = typeToFields obj, sc_CollectionMethods = [''GET'']\<rparr>]"

section \<open>The schemas of the server\<close>

text \<open>The types of \<open>client/types.go\<close> and the ones of the server.\<close>

definition resource_fields :: "go_field list" where
  "resource_fields = [Named ''Id'' ''id,omitempty'' ''string'', Named ''Type'' ''type,omitempty'' ''string'',
     Named ''Links'' ''links'' ''map'', Named ''Actions'' ''actions'' ''map'']"

definition schema_fields :: "go_field list" where
  "schema_fields = [Embedded resource_fields, Named ''PluralName'' ''pluralName,omitempty'' ''string'',
     Named ''ResourceMethods'' ''resourceMethods,omitempty'' ''slice'', Named ''ResourceFields'' ''resourceFields,omitempty'' ''map'',
     Named ''ResourceActions'' ''resourceActions,omitempty'' ''map'', Named ''CollectionMethods'' ''collectionMethods,omitempty'' ''slice'',
     Named ''CollectionFields'' ''collectionFields,omitempty'' ''map'', Named ''CollectionActions'' ''collectionActions,omitempty'' ''map'',
     Named ''CollectionFilters'' ''collectionFilters,omitempty'' ''map'', Named ''IncludeableLinks'' ''includeableLinks,omitempty'' ''slice'']"

definition error_fields :: "go_field list" where
  "error_fields = [Embedded resource_fields, Named ''Status'' ''status'' ''int'', Named ''Code'' ''code'' ''string'',
     Named ''Message'' ''message'' ''string'', Named ''Detail'' ''detail'' ''string'']"

definition Node_fields :: "go_field list" where
  "Node_fields = [Embedded resource_fields, Named ''Node'' ''node'' ''ptr'']"

definition BaseInfo_fields :: "go_field list" where
  "BaseInfo_fields = [Embedded resource_fields, Named ''BaseInfo'' ''baseinfo'' ''slice'']"

definition Infrastructure_fields :: "go_field list" where
  "Infrastructure_fields = [Embedded resource_fields, Named ''Host'' ''host'' ''string'', Named ''Kind'' ''kind'' ''string'',
     Named ''Infra'' ''infrastructure'' ''struct'']"

definition Cluster_fields :: "go_field list" where
  "Cluster_fields = [Embedded resource_fields, Named ''Name'' ''name'' ''string'', Named ''Resources'' ''resources'' ''ptr'',
     Named ''ComponentStatuses'' ''componentStatuses'' ''ptr'']"

definition nullable_struct :: field where
  "nullable_struct = zero_field\<lparr>fd_Type := ''struct'', fd_Nullable := True\<rparr>"

definition clusterSchema :: "schema \<Rightarrow> schema" where
  "clusterSchema cluster =
     cluster\<lparr>sc_CollectionMethods := [''GET''], sc_ResourceMethods := [''GET''],
       sc_ResourceFields := (sc_ResourceFields cluster)(''resources'' \<mapsto> nullable_struct, ''componentStatuses'' \<mapsto> nullable_struct)\<rparr>"

definition nodeSchema :: "schema \<Rightarrow> schema" where
  "nodeSchema node =
     node\<lparr>sc_CollectionMethods := [''GET''], sc_ResourceMethods := [''GET''],
       sc_ResourceFields := (sc_ResourceFields node)(''node'' \<mapsto> nullable_struct)\<rparr>"

definition baseInfoschema :: "schema \<Rightarrow> schema" where
  "baseInfoschema cm =
     cm\<lparr>sc_CollectionMethods := [''GET''], sc_ResourceMethods := [''GET''],
       sc_ResourceFields := (sc_ResourceFields cm)(sty_BaseInfo GetSchemaType \<mapsto> nullable_struct)\<rparr>"

definition infraSchema :: "schema \<Rightarrow> schema" where
  "infraSchema infra =
     (let fields = (sc_ResourceFields infra)(sty_Infrastructure GetSchemaType \<mapsto> nullable_struct);
          kind = (case fields ''kind'' of None \<Rightarrow> zero_field | Some f \<Rightarrow> f)
      in infra\<lparr>sc_CollectionMethods := [''GET'', ''POST''], sc_ResourceMethods := [''GET'', ''DELETE''],
           sc_ResourceFields := fields(''kind'' \<mapsto> kind\<lparr>fd_Create := True, fd_Required := True, fd_Unique := True\<rparr>)\<rparr>)"

definition NewSchema :: "schema list" where
  "NewSchema =
     AddType (sty_Infrastructure GetSchemaType) Infrastructure_fields infraSchema
      (AddType (sty_BaseInfo GetSchemaType) BaseInfo_fields baseInfoschema
       (AddType ''cluster'' Cluster_fields clusterSchema
        (AddType ''node'' Node_fields nodeSchema
         (AddType ''error'' error_fields (\<lambda>s. s)
          (AddType ''schema'' schema_fields (\<lambda>s. s)
           (AddType ''apiVersion'' resource_fields (\<lambda>s. s) []))))))"

section \<open>Pages and links\<close>

record url_builder =
  ub_schemas :: "schema list"
  ub_requestUrl :: string
  ub_responseUrlBase :: string
  ub_apiVersion :: string

definition parseRequestVersion :: "string \<Rightarrow> string" where
  "parseRequestVersion path =
     (if \<not> HasPrefix path ''/'' \<or> length path < 2 then [] else split_on CHR ''/'' path ! 1)"

definition Schemas_Schema :: "schema list \<Rightarrow> string \<Rightarrow> schema" where
  "Schemas_Schema data name = (case find (\<lambda>s. sc_Id s = name) data of Some s \<Rightarrow> s | None \<Rightarrow> zero_schema)"

fun url_parts :: "string \<Rightarrow> string list \<Rightarrow> string" where
  "url_parts buffer [] = buffer"
| "url_parts buffer (part # parts) = (if part = [] then [] else url_parts (buffer @ CHR ''/'' # part) parts)"

definition constructBasicUrl :: "url_builder \<Rightarrow> string list \<Rightarrow> string" where
  "constructBasicUrl u parts = url_parts (ub_responseUrlBase u @ ''/'' @ ub_apiVersion u) parts"

definition getPluralName :: "url_builder \<Rightarrow> string \<Rightarrow> string" where
  "getPluralName u resourceType =
     (let s = Schemas_Schema (ub_schemas u) resourceType in
      if sc_PluralName s = [] then map ascii_lower resourceType else map ascii_lower (sc_PluralName s))"

definition url_Collection :: "url_builder \<Rightarrow> string \<Rightarrow> string" where
  "url_Collection u resourceType = constructBasicUrl u [getPluralName u resourceType]"

definition ReferenceByIdLink :: "url_builder \<Rightarrow> string \<Rightarrow> string \<Rightarrow> string" where
  "ReferenceByIdLink u resourceType i = constructBasicUrl u [getPluralName u resourceType, i]"

definition url_Version :: "url_builder \<Rightarrow> string \<Rightarrow> string" where
  "url_Version u version = ub_responseUrlBase u @ ''/'' @ version"

record resource_page =
  rp_Id :: string
  rp_Type :: string
  rp_Links :: "string \<rightharpoonup> string"

text \<open>The page of a version links the collection of every schema that can be listed.\<close>

definition version_page :: "url_builder \<Rightarrow> string \<Rightarrow> resource_page" where
  "version_page u version =
     \<lparr>rp_Id = version, rp_Type = ''apiVersion'',
      rp_Links = fold (\<lambda>s links. if ''GET'' \<in> set (sc_CollectionMethods s)
        then links(sc_PluralName s \<mapsto> url_Collection u (sc_Id s)) else links) (ub_schemas u) (\<lambda>_. None)\<rparr>"

definition versions_page :: "url_builder \<Rightarrow> string list \<Rightarrow> resource_page list \<times> (string \<rightharpoonup> string)" where
  "versions_page u versions =
     (map (\<lambda>v. \<lparr>rp_Id = v, rp_Type = ''apiVersion'', rp_Links = [''self'' \<mapsto> url_Version u v]\<rparr>) versions,
      if versions = [] then (\<lambda>_. None) else [''latest'' \<mapsto> url_Version u (last versions)])"

definition populateSchema :: "url_builder \<Rightarrow> schema \<Rightarrow> schema" where
  "populateSchema u s =
     (if ''GET'' \<in> set (sc_CollectionMethods s)
        then s\<lparr>sc_Links := (sc_Links s)(''collection'' \<mapsto> url_Collection u (sc_Id s))\<rparr> else s)"

text \<open>The self link of an answer that has none.\<close>

definition self_link :: "url_builder \<Rightarrow> string \<Rightarrow> string \<Rightarrow> string" where
  "self_link u resourceType i =
     (let l = (if resourceType \<noteq> [] \<and> i \<noteq> [] then ReferenceByIdLink u resourceType i else [])
      in if l = [] then ub_requestUrl u else l)"

section \<open>What is published is routed\<close>

definition api_route :: "'w handlers \<Rightarrow> string \<Rightarrow> string \<Rightarrow> ((string \<times> string) list \<times> 'w handler \<times> bool) option" where
  "api_route h method path = find_route (map (\<lambda>(m, p, x). (m, ''/v1'' @ p, x)) (api_routes h)) method path"

lemma apiRouter_route:
  "apiRouter site method path r s =
     (case api_route (si_handlers site) method path of
        None \<Rightarrow> Return (si_not_found site (fst s), snd s)
      | Some (vars, h, True) \<Rightarrow> HandleError (si_write_err site) (h vars r) s
      | Some (vars, h, False) \<Rightarrow> bind_outcome (h vars r s) (\<lambda>(_, s1). Return s1))"
  by (simp add: apiRouter_def api_route_def)

text \<open>The builder of a request below \<open>/v1\<close> whose URL has nothing in front of its path.\<close>

definition v1_urls :: "string \<Rightarrow> url_builder" where
  "v1_urls requestUrl = \<lparr>ub_schemas = NewSchema, ub_requestUrl = requestUrl, ub_responseUrlBase = [], ub_apiVersion = ''v1''\<rparr>"

lemma schema_ids: "map sc_Id NewSchema = [''apiVersion'', ''schema'', ''error'', ''node'', ''cluster'', ''baseinfo'', ''infrastructure'']"
  by (simp add: NewSchema_def AddType_def clusterSchema_def nodeSchema_def baseInfoschema_def infraSchema_def Let_def GetSchemaType_def)

lemma schema_plurals: "map (\<lambda>s. map ascii_lower (sc_PluralName s)) NewSchema =
    [''apiversions'', ''schemas'', ''errors'', ''nodes'', ''clusters'', ''baseinfos'', ''infrastructures'']"
  by code_simp

lemma schema_methods: "map (\<lambda>s. (sc_CollectionMethods s, sc_ResourceMethods s)) NewSchema =
    [([''GET''], [''GET'']), ([''GET''], [''GET'']), ([''GET''], [''GET'']), ([''GET''], [''GET'']), ([''GET''], [''GET'']),
     ([''GET''], [''GET'']), ([''GET'', ''POST''], [''GET'', ''DELETE''])]"
  by (simp add: NewSchema_def AddType_def clusterSchema_def nodeSchema_def baseInfoschema_def infraSchema_def Let_def GetSchemaType_def)

lemma distinct_ids: "distinct (map sc_Id NewSchema)" by (simp add: schema_ids)

lemma Schemas_Schema_own: "s \<in> set NewSchema \<Longrightarrow> Schemas_Schema NewSchema (sc_Id s) = s"
proof -
  assume s: "s \<in> set NewSchema"
  then have "find (\<lambda>x. sc_Id x = sc_Id s) NewSchema \<noteq> None" by (auto simp: find_None_iff)
  then obtain x where x: "find (\<lambda>x. sc_Id x = sc_Id s) NewSchema = Some x" by auto
  then have "x \<in> set NewSchema" "sc_Id x = sc_Id s" by (auto simp: find_Some_iff)
  with s distinct_ids have "x = s" by (auto simp: distinct_map dest: inj_onD)
  with x show ?thesis by (simp add: Schemas_Schema_def)
qed

text \<open>Name, plural and methods of everything that is published.\<close>

definition published :: "(string \<times> string \<times> string list \<times> string list) list" where
  "published =
     [(''apiVersion'', ''apiversions'', [''GET''], [''GET'']), (''schema'', ''schemas'', [''GET''], [''GET'']),
      (''error'', ''errors'', [''GET''], [''GET'']), (''node'', ''nodes'', [''GET''], [''GET'']),
      (''cluster'', ''clusters'', [''GET''], [''GET'']), (''baseinfo'', ''baseinfos'', [''GET''], [''GET'']),
      (''infrastructure'', ''infrastructures'', [''GET'', ''POST''], [''GET'', ''DELETE''])]"

lemma NewSchema_published:
  "map (\<lambda>s. (sc_Id s, map ascii_lower (sc_PluralName s), sc_CollectionMethods s, sc_ResourceMethods s)) NewSchema = published"
proof -
  have "length NewSchema = 7" using arg_cong [OF schema_ids, of length] by simp
  then obtain a b c d e f g where N: "NewSchema = [a, b, c, d, e, f, g]"
    by (auto simp: length_Suc_conv eval_nat_numeral)
  show ?thesis using schema_ids schema_plurals schema_methods unfolding N by (simp add: published_def)
qed

lemma schema_published:
  assumes "s \<in> set NewSchema"
  obtains p where "(sc_Id s, p, sc_CollectionMethods s, sc_ResourceMethods s) \<in> set published" "p \<noteq> []"
    "url_Collection (v1_urls q) (sc_Id s) = ''/v1/'' @ p"
    "\<And>i. i \<noteq> [] \<Longrightarrow> ReferenceByIdLink (v1_urls q) (sc_Id s) i = ''/v1/'' @ p @ CHR ''/'' # i"
proof -
  let ?p = "map ascii_lower (sc_PluralName s)"
  have m: "(sc_Id s, ?p, sc_CollectionMethods s, sc_ResourceMethods s) \<in> set published"
    unfolding NewSchema_published [symmetric] using assms by (simp add: rev_image_eqI)
  then have p: "?p \<noteq> []" by (auto simp: published_def)
  then have "getPluralName (v1_urls q) (sc_Id s) = ?p"
    by (simp add: getPluralName_def v1_urls_def Schemas_Schema_own [OF assms] Let_def)
  with m p show thesis
    by (intro that [of ?p]) (simp_all add: url_Collection_def ReferenceByIdLink_def constructBasicUrl_def v1_urls_def)
qed

lemma path_variables [simp]:
  "path_variable [] = None" "path_variable ''v1'' = None" "path_variable ''apiversions'' = None" "path_variable ''schemas'' = None"
  "path_variable ''nodes'' = None" "path_variable ''clusters'' = None" "path_variable ''baseinfos'' = None"
  "path_variable ''infrastructures'' = None" "path_variable ''{id}'' = Some ''id''" "path_variable ''{kind}'' = Some ''kind''"
  by (simp_all add: path_variable_def)

text \<open>The routes as methods and segments.\<close>

definition route_table :: "(string \<times> string list) list" where
  "route_table =
     [(''GET'', []), (''GET'', [''apiversions'']), (''GET'', [''apiversions'', ''v1'']), (''GET'', [''schemas'']),
      (''GET'', [''schemas'', ''{id}'']), (''GET'', [''nodes'']), (''GET'', [''nodes'', ''{id}'']), (''GET'', [''clusters'']),
      (''GET'', [''baseinfos'']), (''GET'', [''infrastructures'']), (''POST'', [''infrastructures'']),
      (''GET'', [''infrastructures'', ''{kind}'']), (''DELETE'', [''infrastructures'', ''{kind}''])]"

lemma find_route_iff:
  "find_route rs M path \<noteq> None \<longleftrightarrow> (\<exists>(m, p, x) \<in> set rs. m = M \<and> match_path p path \<noteq> None)"
  by (induction rs M path rule: find_route.induct) (auto split: option.splits)

lemma api_route_iff:
  assumes "segs \<noteq> []" "segs \<noteq> [[]]"
  shows "split_on CHR ''/'' path = [] # ''v1'' # segs \<Longrightarrow>
    api_route h M path \<noteq> None \<longleftrightarrow> (\<exists>(m, ps) \<in> set route_table. m = M \<and> match_segments ps segs \<noteq> None)"
  using assms unfolding api_route_def find_route_iff
  by (cases segs; cases "tl segs") (simp_all add: api_routes_def match_path_def route_table_def)

lemma published_segments: "(n, p, cm, rm) \<in> set published \<Longrightarrow> CHR ''/'' \<notin> set p \<and> p \<noteq> []"
  by (auto simp: published_def)

lemma split_v1: "split_on CHR ''/'' (''/v1/'' @ s) = [] # ''v1'' # split_on CHR ''/'' s"
  by simp

lemma routed_one: "p \<noteq> [] \<Longrightarrow> (\<exists>(m, ps) \<in> set route_table. m = M \<and> match_segments ps [p] \<noteq> None) \<longleftrightarrow>
   p \<in> {''apiversions'', ''schemas'', ''nodes'', ''clusters'', ''baseinfos'', ''infrastructures''} \<and> M = ''GET''
   \<or> p = ''infrastructures'' \<and> M = ''POST''"
  by (simp add: route_table_def) blast

lemma routed_two: "i \<noteq> [] \<Longrightarrow> (\<exists>(m, ps) \<in> set route_table. m = M \<and> match_segments ps [p, i] \<noteq> None) \<longleftrightarrow>
   p \<in> {''schemas'', ''nodes'', ''infrastructures''} \<and> M = ''GET'' \<or> p = ''apiversions'' \<and> i = ''v1'' \<and> M = ''GET''
   \<or> p = ''infrastructures'' \<and> M = ''DELETE''"
  by (simp add: route_table_def) blast

lemma collection_route:
  assumes "(n, p, cm, rm) \<in> set published"
  shows "api_route h M (''/v1/'' @ p) \<noteq> None \<longleftrightarrow> M \<in> set cm \<and> n \<noteq> ''error''"
proof -
  have p: "CHR ''/'' \<notin> set p" "p \<noteq> []" using published_segments [OF assms] by auto
  have split: "split_on CHR ''/'' (''/v1/'' @ p) = [] # ''v1'' # [p]" unfolding split_v1 split_on_no_sep [OF p(1)] ..
  have "api_route h M (''/v1/'' @ p) \<noteq> None \<longleftrightarrow> (\<exists>(m, ps) \<in> set route_table. m = M \<and> match_segments ps [p] \<noteq> None)"
    by (rule api_route_iff [OF _ _ split]) (simp_all add: p(2))
  also have "\<dots> \<longleftrightarrow> M \<in> set cm \<and> n \<noteq> ''error''"
    unfolding routed_one [OF p(2)] using assms unfolding published_def list.set insert_iff empty_iff prod.inject
    by (elim disjE conjE; simp)
  finally show ?thesis .
qed

lemma resource_route:
  assumes "(n, p, cm, rm) \<in> set published" "i \<noteq> []" "CHR ''/'' \<notin> set i"
  shows "api_route h M (''/v1/'' @ p @ CHR ''/'' # i) \<noteq> None \<longleftrightarrow>
    M \<in> set rm \<and> n \<notin> {''error'', ''cluster'', ''baseinfo''} \<and> (n = ''apiVersion'' \<longrightarrow> i = ''v1'')"
proof -
  have p: "CHR ''/'' \<notin> set p" "p \<noteq> []" using published_segments [OF assms(1)] by auto
  have split: "split_on CHR ''/'' (''/v1/'' @ p @ CHR ''/'' # i) = [] # ''v1'' # [p, i]"
    unfolding split_v1 split_on_append [OF p(1)] split_on_no_sep [OF assms(3)] ..
  have "api_route h M (''/v1/'' @ p @ CHR ''/'' # i) \<noteq> None \<longleftrightarrow>
      (\<exists>(m, ps) \<in> set route_table. m = M \<and> match_segments ps [p, i] \<noteq> None)"
    by (rule api_route_iff [OF _ _ split]) simp_all
  also have "\<dots> \<longleftrightarrow> M \<in> set rm \<and> n \<notin> {''error'', ''cluster'', ''baseinfo''} \<and> (n = ''apiVersion'' \<longrightarrow> i = ''v1'')"
    unfolding routed_two [OF assms(2)] using assms(1) unfolding published_def list.set insert_iff empty_iff prod.inject
    by (elim disjE conjE; simp add: conj_commute)
  finally show ?thesis .
qed

lemma links_fold:
  assumes "distinct (map pl ss)" "s \<in> set ss" "P s"
  shows "fold (\<lambda>s links. if P s then links(pl s \<mapsto> f s) else links) ss m (pl s) = Some (f s)"
proof -
  have keep: "pl s \<notin> pl ` set ts \<Longrightarrow> fold (\<lambda>s links. if P s then links(pl s \<mapsto> f s) else links) ts m (pl s) = m (pl s)" for ts m
    by (induction ts arbitrary: m) auto
  from assms(1,2) show ?thesis
  proof (induction ss arbitrary: m)
    case (Cons t ts)
    show ?case
    proof (cases "s = t")
      case True
      with Cons.prems(1) assms(3) keep [of ts] show ?thesis by simp
    next
      case False
      with Cons show ?thesis by simp
    qed
  qed simp
qed

lemma distinct_plurals: "distinct (map sc_PluralName NewSchema)"
proof -
  have "distinct (map (map ascii_lower) (map sc_PluralName NewSchema))" using schema_plurals by (simp add: comp_def)
  then show ?thesis by (rule distinct_map [THEN iffD1, THEN conjunct1])
qed

lemma version_links:
  assumes "s \<in> set NewSchema"
  shows "rp_Links (version_page (v1_urls q) v) (sc_PluralName s) = Some (url_Collection (v1_urls q) (sc_Id s))"
proof -
  obtain p where "(sc_Id s, p, sc_CollectionMethods s, sc_ResourceMethods s) \<in> set published"
    using schema_published [OF assms] by metis
  then have "''GET'' \<in> set (sc_CollectionMethods s)" by (auto simp: published_def)
  then have "fold (\<lambda>s links. if ''GET'' \<in> set (sc_CollectionMethods s)
        then links(sc_PluralName s \<mapsto> url_Collection (v1_urls q) (sc_Id s)) else links) NewSchema (\<lambda>_. None) (sc_PluralName s) =
      Some (url_Collection (v1_urls q) (sc_Id s))"
    by (rule links_fold [OF distinct_plurals assms])
  moreover have "ub_schemas (v1_urls q) = NewSchema" by (simp add: v1_urls_def)
  ultimately show ?thesis by (simp add: version_page_def)
qed

text \<open>
  C34. The schemas the API publishes and the routes of the router belong together, with a few gaps.  A
  collection is served at the URL that the version page links for it, with exactly the methods its
  schema names, but for the errors, which are listed and have no page.  A single resource is served at the
  URL its self link names, with exactly the methods of its schema, but for errors, for the cluster and
  for the base information, whose links lead nowhere, and for versions other than the first.
\<close>

theorem schemas_match_routes:
  assumes "s \<in> set NewSchema" "i \<noteq> []" "CHR ''/'' \<notin> set i"
  shows "(api_route h M (url_Collection (v1_urls q) (sc_Id s)) \<noteq> None \<longleftrightarrow>
        M \<in> set (sc_CollectionMethods s) \<and> sc_Id s \<noteq> ''error'')
    \<and> rp_Links (version_page (v1_urls q) ''v1'') (sc_PluralName s) = Some (url_Collection (v1_urls q) (sc_Id s))
    \<and> (api_route h M (self_link (v1_urls q) (sc_Id s) i) \<noteq> None \<longleftrightarrow>
        M \<in> set (sc_ResourceMethods s) \<and> sc_Id s \<notin> {''error'', ''cluster'', ''baseinfo''}
          \<and> (sc_Id s = ''apiVersion'' \<longrightarrow> i = ''v1''))"
proof -
  obtain p where p: "(sc_Id s, p, sc_CollectionMethods s, sc_ResourceMethods s) \<in> set published" "p \<noteq> []"
    "url_Collection (v1_urls q) (sc_Id s) = ''/v1/'' @ p"
    "\<And>i. i \<noteq> [] \<Longrightarrow> ReferenceByIdLink (v1_urls q) (sc_Id s) i = ''/v1/'' @ p @ CHR ''/'' # i"
    by (rule schema_published [OF assms(1), of q]) (rule that)
  have "sc_Id s \<noteq> []" using p(1) by (auto simp: published_def)
  then have self: "self_link (v1_urls q) (sc_Id s) i = ''/v1/'' @ p @ CHR ''/'' # i"
    using assms(2) by (simp add: self_link_def p(4))
  show ?thesis
    using collection_route [OF p(1), of h M] resource_route [OF p(1) assms(2,3), of h M] version_links [OF assms(1), of q "''v1''"]
    unfolding self p(3) by blast
qed

lemma cluster_schema: "\<exists>s \<in> set NewSchema. sc_Id s = ''cluster'' \<and> sc_ResourceMethods s = [''GET''] \<and> sc_CollectionMethods s = [''GET'']"
  by (simp add: NewSchema_def AddType_def clusterSchema_def)

theorem schemas_match_routes_witness:
  "\<forall>h :: unit handlers. \<exists>s \<in> set NewSchema. sc_Id s = ''cluster'' \<and> ''GET'' \<in> set (sc_ResourceMethods s)
    \<and> api_route h ''GET'' (self_link (v1_urls ''/v1/clusters'') (sc_Id s) ''cube'') = None
    \<and> api_route h ''GET'' (url_Collection (v1_urls ''/v1/clusters'') (sc_Id s)) \<noteq> None"
proof
  fix h :: "unit handlers"
  obtain s where s: "s \<in> set NewSchema" "sc_Id s = ''cluster''" "sc_ResourceMethods s = [''GET'']" "sc_CollectionMethods s = [''GET'']"
    using cluster_schema by blast
  show "\<exists>s \<in> set NewSchema. sc_Id s = ''cluster'' \<and> ''GET'' \<in> set (sc_ResourceMethods s)
    \<and> api_route h ''GET'' (self_link (v1_urls ''/v1/clusters'') (sc_Id s) ''cube'') = None
    \<and> api_route h ''GET'' (url_Collection (v1_urls ''/v1/clusters'') (sc_Id s)) \<noteq> None"
    using schemas_match_routes [OF s(1), of "''cube''" h "''GET''" "''/v1/clusters''"] s by (intro bexI [OF _ s(1)]) (simp del: not_None_eq)
qed

text \<open>What a client has to send to ask for an infrastructure.\<close>

lemma infrastructure_kind_required:
  "\<exists>s \<in> set NewSchema. sc_Id s = ''infrastructure'' \<and>
     sc_ResourceFields s ''kind'' = Some \<lparr>fd_Type = ''string'', fd_Unique = True, fd_Nullable = False, fd_Create = True, fd_Required = True\<rparr>"
  by (rule bexI [of _ "last NewSchema"])
    (simp_all add: NewSchema_def AddType_def infraSchema_def Let_def GetSchemaType_def typeToFields_def Infrastructure_fields_def
      resource_fields_def field_type_def field_name_def HasPrefix_def zero_field_def map_add_def)

end
