(* ===== verification/Cube_System.thy ===== *)
theory Cube_System
  imports Cube_Router Cube_App
begin

text \<open>
  The components put together: the cluster, the caches that follow it, the user controller, the login
  and the API behind its token check.  What a step relies on is said of the cluster alone; the caches
  of the controller and of the backend are any that have caught up with it.
\<close>

section \<open>Caches that have caught up\<close>

definition mirrors :: "k8s_obj thread_safe_map \<Rightarrow> resource \<Rightarrow> tracker \<Rightarrow> bool" where
  "mirrors c r w \<longleftrightarrow> (\<forall>k x. map_of (ts_items c) k = Some x \<longleftrightarrow>
     k = MetaNamespaceKeyFunc (obj_meta x)
     \<and> tracker_stored w r (om_Namespace (obj_meta x)) (om_Name (obj_meta x)) = Some x)"

lemma stored_key:
  assumes "tracker_stored w r ns n = Some x"
  shows "om_Namespace (obj_meta x) = ns" "om_Name (obj_meta x) = n"
  using assms by (auto simp: tracker_stored_def find_Some_iff same_key_def)

lemma mirrors_cached:
  assumes "mirrors c r w" "map_of (ts_items c) k = Some x"
  shows "k = MetaNamespaceKeyFunc (obj_meta x)"
    "tracker_stored w r (om_Namespace (obj_meta x)) (om_Name (obj_meta x)) = Some x"
  using assms by (auto simp: mirrors_def)

lemma mirrors_stored:
  assumes "mirrors c r w" "tracker_stored w r ns n = Some x"
  shows "map_of (ts_items c) (MetaNamespaceKeyFunc (obj_meta x)) = Some x"
  using assms stored_key [OF assms(2)] by (auto simp: mirrors_def)

lemma mirrors_lister:
  assumes "mirrors c r w" "tracker_stored w r ns n = Some x" "ns \<noteq> []"
  shows "tsm_Get (lister_key ns n) c = Some x"
  using mirrors_stored [OF assms(1,2)] stored_key [OF assms(2)] assms(3)
  by (simp add: tsm_Get_def lister_key_MetaNamespaceKeyFunc [symmetric])

lemma filter_single:
  assumes "distinct (map fst kxs)" "(k, x) \<in> set kxs" "P x" "\<And>k' y. (k', y) \<in> set kxs \<Longrightarrow> P y \<Longrightarrow> y = x \<and> k' = k"
  shows "filter P (map snd kxs) = [x]"
  using assms
proof (induction kxs)
  case (Cons e kxs)
  obtain k0 x0 where e: "e = (k0, x0)" by (cases e)
  show ?case
  proof (cases "P x0")
    case True
    then have same: "x0 = x" "k0 = k" using Cons.prems(4) [of k0 x0] e by auto
    have "filter P (map snd kxs) = []"
    proof (rule ccontr)
      assume "filter P (map snd kxs) \<noteq> []"
      then obtain k' y where "(k', y) \<in> set kxs" "P y" by (auto simp: filter_empty_conv)
      then have "(k, x) \<in> set kxs" using Cons.prems(4) [of k' y] by auto
      with Cons.prems(1) show False unfolding e same by (force simp: image_iff)
    qed
    with same True show ?thesis by (simp add: e)
  next
    case False
    then have "(k, x) \<in> set kxs" using Cons.prems(2,3) e by auto
    moreover have "y = x \<and> k' = k" if "(k', y) \<in> set kxs" "P y" for k' y
      using Cons.prems(4) [of k' y] that by simp
    ultimately have "filter P (map snd kxs) = [x]"
      using Cons.IH [OF _ _ Cons.prems(3)] Cons.prems(1) by (simp add: e)
    with False show ?thesis by (simp add: e)
  qed
qed simp

lemma mirrors_single:
  assumes "mirrors c r w" "tsm_ok c" "tracker_stored w r ns n = Some x" "P x"
    and "\<And>m k y. tracker_stored w r m k = Some y \<Longrightarrow> P y \<Longrightarrow> m = ns \<and> k = n"
  shows "filter P (tsm_List c) = [x]"
proof -
  have d: "distinct (map fst (ts_items c))" using assms(2) by (simp add: tsm_ok_def)
  have "filter P (map snd (ts_items c)) = [x]"
  proof (rule filter_single [where P = P, OF d _ assms(4)])
    show "(MetaNamespaceKeyFunc (obj_meta x), x) \<in> set (ts_items c)"
      using mirrors_stored [OF assms(1,3)] by (rule map_of_SomeD)
    fix k' y assume y: "(k', y) \<in> set (ts_items c)" "P y"
    then have m: "map_of (ts_items c) k' = Some y" using d by simp
    note y' = mirrors_cached [OF assms(1) m]
    have "y = x" using assms(5) [OF y'(2) y(2)] y'(2) assms(3) by simp
    with y'(1) show "y = x \<and> k' = MetaNamespaceKeyFunc (obj_meta x)" by simp
  qed
  then show ?thesis by (simp add: tsm_List_def)
qed

lemma mirrors_absent:
  assumes "mirrors c r w" "tsm_ok c" "cached c x"
  shows "tracker_stored w r (om_Namespace (obj_meta x)) (om_Name (obj_meta x)) = Some x"
  using assms(3) mirrors_cached(2) [OF assms(1)] unfolding cached_iff [OF assms(2)] by blast

definition caches_mirror :: "caches \<Rightarrow> tracker \<Rightarrow> bool" where
  "caches_mirror cs w \<longleftrightarrow>
     mirrors (ca_users cs) RUsers w \<and> mirrors (ca_tokens cs) RTokens w \<and> mirrors (ca_principals cs) RPrincipals w
     \<and> mirrors (ca_crs cs) RClusterRoles w \<and> mirrors (ca_crbs cs) RClusterRoleBindings w"

definition backend_mirrors :: "tracker backend \<Rightarrow> bool" where
  "backend_mirrors b \<longleftrightarrow>
     mirrors (inf_indexer (be_users b)) RUsers (be_world b)
     \<and> mirrors (inf_indexer (be_principals b)) RPrincipals (be_world b)
     \<and> mirrors (inf_indexer (be_tokens b)) RTokens (be_world b)"

lemma mirrors_hits:
  assumes "mirrors (inf_indexer i) r w" "tracker_stored w r ns n = Some x" "v \<in> set (fst (f x))"
    and "\<And>m k y. tracker_stored w r m k = Some y \<Longrightarrow> v \<in> set (fst (f y)) \<Longrightarrow> m = ns \<and> k = n"
  shows "hits i f v = {MetaNamespaceKeyFunc (obj_meta x)}" "held i (MetaNamespaceKeyFunc (obj_meta x)) x"
proof -
  show h: "held i (MetaNamespaceKeyFunc (obj_meta x)) x" using mirrors_stored [OF assms(1,2)] by (simp add: held_def)
  have "k = MetaNamespaceKeyFunc (obj_meta x)" if k: "map_of (ts_items (inf_indexer i)) k = Some y" "v \<in> set (fst (f y))" for k y
  proof -
    note y = mirrors_cached [OF assms(1) k(1)]
    have "y = x" using assms(4) [OF y(2) k(2)] y(2) assms(2) by simp
    with y(1) show ?thesis by simp
  qed
  then have "k \<in> hits i f v \<Longrightarrow> k = MetaNamespaceKeyFunc (obj_meta x)" for k unfolding hits_def by blast
  moreover have "MetaNamespaceKeyFunc (obj_meta x) \<in> hits i f v" using h assms(3) by (auto simp: hits_def held_def)
  ultimately show "hits i f v = {MetaNamespaceKeyFunc (obj_meta x)}" by blast
qed

section \<open>Catching up\<close>

text \<open>Names without a slash, as the API server has them: no two objects share a key.\<close>

definition names_ok :: "tracker \<Rightarrow> bool" where
  "names_ok w \<longleftrightarrow> (\<forall>r ns n. tracker_stored w r ns n \<noteq> None \<longrightarrow> CHR ''/'' \<notin> set ns \<and> CHR ''/'' \<notin> set n)"

lemma key_inj:
  assumes "CHR ''/'' \<notin> set (om_Namespace m)" "CHR ''/'' \<notin> set (om_Name m)"
    "CHR ''/'' \<notin> set (om_Namespace m')" "CHR ''/'' \<notin> set (om_Name m')"
    and "MetaNamespaceKeyFunc m = MetaNamespaceKeyFunc m'"
  shows "om_Namespace m = om_Namespace m'" "om_Name m = om_Name m'"
  using SplitMetaNamespaceKey_MetaNamespaceKeyFunc [of m] SplitMetaNamespaceKey_MetaNamespaceKeyFunc [of m'] assms by simp_all

lemma stored_member:
  assumes "tracker_ok w" "x \<in> set (tr_objects w r)"
  shows "tracker_stored w r (om_Namespace (obj_meta x)) (om_Name (obj_meta x)) = Some x"
proof -
  have d: "distinct (map obj_key (tr_objects w r))" using assms(1) by (simp add: tracker_ok_def)
  let ?P = "same_key (om_Namespace (obj_meta x)) (om_Name (obj_meta x))"
  have "?P x" by (simp add: same_key_def)
  with assms(2) obtain y where y: "find ?P (tr_objects w r) = Some y" by (metis find_None_iff not_Some_eq)
  then have "y \<in> set (tr_objects w r)" "obj_key y = obj_key x" by (auto simp: find_Some_iff same_key_obj_key obj_key_def)
  with d assms(2) have "y = x" by (auto simp: distinct_map inj_on_def)
  with y show ?thesis by (simp add: tracker_stored_def)
qed

lemma stored_in: "tracker_stored w r ns n = Some x \<Longrightarrow> x \<in> set (tr_objects w r)"
  by (auto simp: tracker_stored_def find_Some_iff)

lemma relist_keys:
  assumes "tracker_ok w" "names_ok w"
  shows "distinct (map (\<lambda>x. MetaNamespaceKeyFunc (obj_meta x)) (tr_objects w r))"
proof -
  have d: "distinct (map obj_key (tr_objects w r))" using assms(1) by (simp add: tracker_ok_def)
  have slash: "CHR ''/'' \<notin> set (om_Namespace (obj_meta x))" "CHR ''/'' \<notin> set (om_Name (obj_meta x))"
    if "x \<in> set (tr_objects w r)" for x
    using stored_member [OF assms(1) that] assms(2) unfolding names_ok_def by fastforce+
  have "inj_on (\<lambda>x. MetaNamespaceKeyFunc (obj_meta x)) (set (tr_objects w r))"
  proof (rule inj_onI)
    fix x y assume xy: "x \<in> set (tr_objects w r)" "y \<in> set (tr_objects w r)"
      "MetaNamespaceKeyFunc (obj_meta x) = MetaNamespaceKeyFunc (obj_meta y)"
    from key_inj [OF slash [OF xy(1)] slash [OF xy(2)] xy(3)] have "obj_key x = obj_key y" by (simp add: obj_key_def)
    with d xy(1,2) show "x = y" by (auto simp: distinct_map inj_on_def)
  qed
  with d show ?thesis by (simp add: distinct_map)
qed

text \<open>The cache of an informer that has just listed its resource.\<close>

definition relist :: "k8s_obj indexers \<Rightarrow> resource \<Rightarrow> tracker \<Rightarrow> k8s_obj thread_safe_map" where
  "relist ixs r w = informer_with ixs (tr_objects w r)"

lemma relist_mirrors:
  assumes "tracker_ok w" "names_ok w"
    and "ts_items c = map (\<lambda>x. (MetaNamespaceKeyFunc (obj_meta x), x)) (tr_objects w r)"
  shows "mirrors c r w"
proof -
  have d: "distinct (map fst (ts_items c))" using relist_keys [OF assms(1,2)] by (simp add: assms(3) comp_def)
  have "map_of (ts_items c) k = Some x \<longleftrightarrow> k = MetaNamespaceKeyFunc (obj_meta x) \<and> x \<in> set (tr_objects w r)" for k x
    using map_of_eq_Some_iff [OF d] by (auto simp: assms(3))
  moreover have "x \<in> set (tr_objects w r) \<longleftrightarrow>
      tracker_stored w r (om_Namespace (obj_meta x)) (om_Name (obj_meta x)) = Some x" for x
    using stored_member [OF assms(1)] stored_in by (rule iffI)
  ultimately show ?thesis unfolding mirrors_def by simp
qed

definition relisted_caches :: "tracker \<Rightarrow> caches" where
  "relisted_caches w = \<lparr>ca_users = relist userIndexers RUsers w, ca_tokens = relist tokenIndexers RTokens w,
     ca_principals = relist principalIndexers RPrincipals w,
     ca_crbs = relist crbIndexers RClusterRoleBindings w, ca_crs = relist crIndexers RClusterRoles w\<rparr>"

definition relisted_backend :: "tracker \<Rightarrow> tracker backend" where
  "relisted_backend w =
     \<lparr>be_users = \<lparr>inf_started = True, inf_indexer = relist userIndexers RUsers w\<rparr>,
      be_principals = \<lparr>inf_started = True, inf_indexer = relist principalIndexers RPrincipals w\<rparr>,
      be_tokens = \<lparr>inf_started = True, inf_indexer = relist tokenIndexers RTokens w\<rparr>, be_world = w\<rparr>"

lemma relist_ok:
  assumes "tracker_ok w" "names_ok w"
    and "ixs \<in> {userIndexers, tokenIndexers, principalIndexers, crbIndexers, crIndexers}"
  shows "cache_ok ixs (relist ixs r w)" "mirrors (relist ixs r w) r w"
proof -
  note ok = informer_with_ok [OF assms(3) relist_keys [OF assms(1,2)], of r]
  show "cache_ok ixs (relist ixs r w)" using ok(1) by (simp add: relist_def)
  show "mirrors (relist ixs r w) r w"
    by (rule relist_mirrors [OF assms(1,2)]) (simp add: relist_def ok(2))
qed

lemma relisted_caches_ok:
  assumes "tracker_ok w" "names_ok w"
  shows "caches_ok (relisted_caches w)" "caches_mirror (relisted_caches w) w"
  using relist_ok [OF assms] by (simp_all add: relisted_caches_def caches_ok_def caches_mirror_def)

lemma relisted_backend_ok:
  assumes "tracker_ok w" "names_ok w"
  shows "backend_ok (relisted_backend w)" "backend_mirrors (relisted_backend w)" "be_world (relisted_backend w) = w"
  using relist_ok [OF assms] by (simp_all add: relisted_backend_def backend_ok_def backend_mirrors_def)

section \<open>Settled users\<close>

text \<open>
  A user of the cluster that has what the controller gives it, and that nobody is mistaken for: no
  other user has its user name or its principal id, and no other principal its name.
\<close>

definition settled :: "tracker \<Rightarrow> user \<Rightarrow> bool" where
  "settled w u \<longleftrightarrow> valid_user u \<and> GetLocalPrincipalID u \<in> set (u_PrincipalIDs u)
     \<and> tracker_stored w RUsers (om_Namespace (u_meta u)) (om_Name (u_meta u)) = Some (ObjUser u)
     \<and> (\<exists>p. tracker_stored w RPrincipals (om_Namespace (u_meta u)) (GetLocalPrincipalID u) = Some (ObjPrincipal p)
          \<and> IsControlledBy (p_meta p) (u_meta u) \<and> p_LoginName p = u_Username u)
     \<and> (\<exists>r. tracker_stored w RClusterRoles [] (om_Name (u_meta u)) = Some (ObjClusterRole r)
          \<and> IsControlledBy (ro_meta r) (u_meta u))
     \<and> (\<exists>b. tracker_stored w RClusterRoleBindings [] (om_Name (u_meta u)) = Some (ObjClusterRoleBinding b)
          \<and> IsControlledBy (rb_meta b) (u_meta u))"

definition unmistaken :: "tracker \<Rightarrow> user \<Rightarrow> bool" where
  "unmistaken w u \<longleftrightarrow>
     (\<forall>m k v. tracker_stored w RUsers m k = Some (ObjUser v)
        \<and> (u_Username v = u_Username u \<or> GetLocalPrincipalID u \<in> set (u_PrincipalIDs v))
        \<longrightarrow> m = om_Namespace (u_meta u) \<and> k = om_Name (u_meta u))
     \<and> (\<forall>m. tracker_stored w RPrincipals m (GetLocalPrincipalID u) \<noteq> None \<longrightarrow> m = om_Namespace (u_meta u))"

lemma stored_typed:
  assumes "tracker_ok w" "tracker_stored w r ns n = Some x"
  shows "obj_resource x = r" "namespaced r \<longleftrightarrow> ns \<noteq> []"
  using assms(1) stored_in [OF assms(2)] stored_key [OF assms(2)] by (auto simp: tracker_ok_def)

lemma stored_by_name:
  "tracker_stored w RPrincipals m k = Some x \<Longrightarrow> i \<in> set (fst (PrincipalByID x)) \<Longrightarrow> k = i"
  "tracker_ok w \<Longrightarrow> tracker_stored w RClusterRoles m k = Some x \<Longrightarrow> i \<in> set (fst (ClusterRoleByName x))
     \<Longrightarrow> m = [] \<and> k = i"
  "tracker_ok w \<Longrightarrow> tracker_stored w RClusterRoleBindings m k = Some x
     \<Longrightarrow> i \<in> set (fst (ClusterRoleBindingByName x)) \<Longrightarrow> m = [] \<and> k = i"
  using stored_key [of w _ m k x] stored_typed(2) [of w RClusterRoles m k x]
    stored_typed(2) [of w RClusterRoleBindings m k x] by (auto simp: index_members)

lemma mirror_caches_hold:
  assumes "tracker_ok w" "caches_ok cs" "caches_mirror cs w" "settled w u" "unmistaken w u"
  obtains p r b where "caches_hold cs u p r b" "IsControlledBy (p_meta p) (u_meta u)"
    "IsControlledBy (ro_meta r) (u_meta u)" "IsControlledBy (rb_meta b) (u_meta u)"
proof -
  let ?ns = "om_Namespace (u_meta u)" and ?n = "om_Name (u_meta u)" and ?i = "GetLocalPrincipalID u"
  have ok: "tsm_ok (ca_users cs)" "tsm_ok (ca_principals cs)" "tsm_ok (ca_crs cs)" "tsm_ok (ca_crbs cs)"
    using assms(2) by (auto simp: caches_ok_def cache_ok_def)
  have m: "mirrors (ca_users cs) RUsers w" "mirrors (ca_principals cs) RPrincipals w"
    "mirrors (ca_crs cs) RClusterRoles w" "mirrors (ca_crbs cs) RClusterRoleBindings w"
    using assms(3) by (auto simp: caches_mirror_def)
  from assms(4) obtain p r b where u: "valid_user u" "tracker_stored w RUsers ?ns ?n = Some (ObjUser u)"
    and p: "tracker_stored w RPrincipals ?ns ?i = Some (ObjPrincipal p)" "IsControlledBy (p_meta p) (u_meta u)"
    and r: "tracker_stored w RClusterRoles [] ?n = Some (ObjClusterRole r)" "IsControlledBy (ro_meta r) (u_meta u)"
    and b: "tracker_stored w RClusterRoleBindings [] ?n = Some (ObjClusterRoleBinding b)" "IsControlledBy (rb_meta b) (u_meta u)"
    by (auto simp: settled_def)
  have "tsm_Get (lister_key ?ns ?n) (ca_users cs) = Some (ObjUser u)"
    using mirrors_lister [OF m(1) u(2)] u(1) by (simp add: valid_user_def)
  moreover have "filter (\<lambda>x. ?i \<in> set (fst (PrincipalByID x))) (tsm_List (ca_principals cs)) = [ObjPrincipal p]"
  proof (rule mirrors_single [OF m(2) ok(2) p(1)])
    fix m k y assume y: "tracker_stored w RPrincipals m k = Some y" "?i \<in> set (fst (PrincipalByID y))"
    with stored_by_name(1) [OF y] assms(5) show "m = ?ns \<and> k = ?i" by (simp add: unmistaken_def)
  qed (use stored_key [OF p(1)] in \<open>simp add: index_members\<close>)
  moreover have "filter (\<lambda>x. ?n \<in> set (fst (ClusterRoleByName x))) (tsm_List (ca_crs cs)) = [ObjClusterRole r]"
    using stored_key [OF r(1)]
    by (intro mirrors_single [OF m(3) ok(3) r(1)] stored_by_name(2) [OF assms(1)]) (simp_all add: index_members)
  moreover have "filter (\<lambda>x. ?n \<in> set (fst (ClusterRoleBindingByName x))) (tsm_List (ca_crbs cs)) = [ObjClusterRoleBinding b]"
    using stored_key [OF b(1)]
    by (intro mirrors_single [OF m(4) ok(4) b(1)] stored_by_name(3) [OF assms(1)]) (simp_all add: index_members)
  ultimately have "caches_hold cs u p r b" by (simp add: caches_hold_def)
  with p(2) r(2) b(2) show thesis using that by blast
qed

lemma GetLocalPrincipalID_settled [simp]:
  "GetLocalPrincipalID (with_principal_id (GetLocalPrincipalID u) u) = GetLocalPrincipalID u"
  using GetLocalPrincipalID_local [of u]
  by (auto simp: with_principal_id_def GetLocalPrincipalID_def Let_def)

lemma with_principal_id_sel [simp]:
  "u_Username (with_principal_id i u) = u_Username u" "u_Password (with_principal_id i u) = u_Password u"
  by (simp_all add: with_principal_id_def)

lemma getLocalPrincipalID_eq:
  assumes "GetLocalPrincipalID u \<in> set (u_PrincipalIDs u)"
  shows "getLocalPrincipalID u = GetLocalPrincipalID u" "getLocalPrincipalID u \<noteq> []"
proof -
  let ?f = "filter (\<lambda>p. HasPrefix p ''local.'') (u_PrincipalIDs u)"
  have e: "getLocalPrincipalID u = last ([] # ?f)"
    unfolding getLocalPrincipalID_def ProviderName_def by (simp add: foldl_last_local)
  have "GetLocalPrincipalID u \<in> set ?f" using assms GetLocalPrincipalID_local [of u] by simp
  then have ne: "?f \<noteq> []" by (metis empty_iff empty_set)
  have "HasPrefix (last ?f) ''local.''" using last_in_set [OF ne] by simp
  then have "last ?f \<noteq> []" by (auto simp: HasPrefix_def)
  with ne e show "getLocalPrincipalID u \<noteq> []" by simp
  then show "getLocalPrincipalID u = GetLocalPrincipalID u"
    unfolding getLocalPrincipalID_def GetLocalPrincipalID_def ProviderName_def by (simp add: Let_def)
qed

lemma stored_user:
  assumes "tracker_ok w" "tracker_stored w RUsers m k = Some y"
  obtains v where "y = ObjUser v"
  using stored_typed(1) [OF assms] by (cases y) auto

lemma mirror_can_log_in:
  assumes "backend_mirrors b" "tracker_ok (be_world b)" "settled (be_world b) u" "unmistaken (be_world b) u"
  shows "can_log_in b u"
proof -
  let ?ns = "om_Namespace (u_meta u)" and ?n = "om_Name (u_meta u)" and ?i = "GetLocalPrincipalID u"
  let ?k = "MetaNamespaceKeyFunc (u_meta u)"
  have m: "mirrors (inf_indexer (be_users b)) RUsers (be_world b)"
    "mirrors (inf_indexer (be_principals b)) RPrincipals (be_world b)"
    using assms(1) by (simp_all add: backend_mirrors_def)
  from assms(3) obtain p where u: "?i \<in> set (u_PrincipalIDs u)" "tracker_stored (be_world b) RUsers ?ns ?n = Some (ObjUser u)"
    and p: "tracker_stored (be_world b) RPrincipals ?ns ?i = Some (ObjPrincipal p)" "p_LoginName p = u_Username u"
    by (auto simp: settled_def)
  have only: "k' = ?ns \<and> k = ?n"
    if "tracker_stored (be_world b) RUsers k' k = Some y" "u_Username u \<in> set (fst (UserByUsername y)) \<or> ?i \<in> set (fst (UserByPrincipal y))"
    for k' k y
  proof -
    note y = that
    obtain v where v: "y = ObjUser v" by (rule stored_user [OF assms(2) y(1)])
    have "u_Username v = u_Username u \<or> ?i \<in> set (u_PrincipalIDs v)" using y(2) by (simp add: v index_fun_hits)
    with y(1) assms(4) show ?thesis unfolding v unmistaken_def by blast
  qed
  have users: "hits (be_users b) UserByUsername (u_Username u) = {?k}" "hits (be_users b) UserByPrincipal ?i = {?k}"
    "held (be_users b) ?k (ObjUser u)"
    using mirrors_hits [OF m(1) u(2), of "u_Username u" UserByUsername] mirrors_hits [OF m(1) u(2), of ?i UserByPrincipal]
      only u(1) by (simp_all add: index_fun_hits)
  have princ: "hits (be_principals b) PrincipalByID ?i = {MetaNamespaceKeyFunc (p_meta p)}"
    "held (be_principals b) (MetaNamespaceKeyFunc (p_meta p)) (ObjPrincipal p)"
  proof -
    have one: "k' = ?ns \<and> k = ?i"
      if y: "tracker_stored (be_world b) RPrincipals k' k = Some y" "?i \<in> set (fst (PrincipalByID y))" for k' k y
      using stored_by_name(1) [OF y] y(1) assms(4) by (simp add: unmistaken_def)
    have "?i \<in> set (fst (PrincipalByID (ObjPrincipal p)))" using stored_key [OF p(1)] by (simp add: index_members)
    from mirrors_hits [where f = PrincipalByID, OF m(2) p(1) this one]
    show "hits (be_principals b) PrincipalByID ?i = {MetaNamespaceKeyFunc (p_meta p)}"
      "held (be_principals b) (MetaNamespaceKeyFunc (p_meta p)) (ObjPrincipal p)" by simp_all
  qed
  show ?thesis unfolding can_log_in_def getLocalPrincipalID_eq(1) [OF u(1)]
    using users princ p(2) getLocalPrincipalID_eq [OF u(1)] by auto
qed

lemma names_ok_outside:
  assumes "names_ok w" "same_outside K (tracker_stored w) (tracker_stored w')"
    and "\<forall>(r, ns, n) \<in> K. CHR ''/'' \<notin> set ns \<and> CHR ''/'' \<notin> set n"
  shows "names_ok w'"
  unfolding names_ok_def
proof (intro allI impI)
  fix r ns n assume s: "tracker_stored w' r ns n \<noteq> None"
  show "CHR ''/'' \<notin> set ns \<and> CHR ''/'' \<notin> set n"
  proof (cases "(r, ns, n) \<in> K")
    case True
    with assms(3) show ?thesis by blast
  next
    case False
    with assms(2) s have "tracker_stored w r ns n \<noteq> None" by (simp add: same_outside_def)
    with assms(1) show ?thesis by (simp add: names_ok_def)
  qed
qed

section \<open>The controller settles a user\<close>

text \<open>A user of the cluster that the controller has not seen yet.\<close>

definition new_user :: "tracker \<Rightarrow> user \<Rightarrow> bool" where
  "new_user w u \<longleftrightarrow> valid_user u
     \<and> tracker_stored w RUsers (om_Namespace (u_meta u)) (om_Name (u_meta u)) = Some (ObjUser u)
     \<and> tracker_stored w RPrincipals (om_Namespace (u_meta u)) (GetLocalPrincipalID u) = None
     \<and> tracker_stored w RClusterRoles [] (om_Name (u_meta u)) = None
     \<and> tracker_stored w RClusterRoleBindings [] (om_Name (u_meta u)) = None"

abbreviation settled_as :: "user \<Rightarrow> user" where
  "settled_as u \<equiv> with_principal_id (GetLocalPrincipalID u) u"

lemma user_objects_names:
  assumes "valid_user u"
  shows "\<forall>(r, ns, n) \<in> user_objects u. CHR ''/'' \<notin> set ns \<and> CHR ''/'' \<notin> set n"
  using assms by (auto simp: user_objects_def valid_user_def path_segment_ok_def UserNamespace_def)

lemma user_sync_settles:
  assumes "tracker_ok w" "new_user w u" "unmistaken w u" "caches_ok cs" "caches_mirror cs w"
  obtains w1 where "user_syncHandler ObjectReaction cs (MetaNamespaceKeyFunc (u_meta u))
      \<lparr>ct_world = w, ct_events = evs\<rparr> = Return (None, \<lparr>ct_world = w1, ct_events = evs @ [synced_event]\<rparr>)"
    "tracker_ok w1" "settled w1 (settled_as u)" "unmistaken w1 (settled_as u)"
    "same_outside (user_objects u) (tracker_stored w) (tracker_stored w1)"
proof -
  let ?ns = "om_Namespace (u_meta u)" and ?n = "om_Name (u_meta u)" and ?i = "GetLocalPrincipalID u"
  note u = assms(2) [unfolded new_user_def]
  have ok: "tsm_ok (ca_users cs)" "tsm_ok (ca_principals cs)" "tsm_ok (ca_crs cs)" "tsm_ok (ca_crbs cs)"
    using assms(4) by (auto simp: caches_ok_def cache_ok_def)
  have m: "mirrors (ca_users cs) RUsers w" "mirrors (ca_principals cs) RPrincipals w"
    "mirrors (ca_crs cs) RClusterRoles w" "mirrors (ca_crbs cs) RClusterRoleBindings w"
    using assms(5) by (auto simp: caches_mirror_def)
  have cached_user: "tsm_Get (lister_key ?ns ?n) (ca_users cs) = Some (ObjUser u)"
    using mirrors_lister [OF m(1)] u by (simp add: valid_user_def)
  have no_principal: "\<forall>p. cached (ca_principals cs) (ObjPrincipal p) \<longrightarrow> om_Name (p_meta p) \<noteq> ?i"
  proof (intro allI impI notI)
    fix p assume "cached (ca_principals cs) (ObjPrincipal p)" "om_Name (p_meta p) = ?i"
    with mirrors_absent [OF m(2) ok(2)] have "tracker_stored w RPrincipals (om_Namespace (p_meta p)) ?i = Some (ObjPrincipal p)"
      by fastforce
    with assms(3) u show False by (auto simp: unmistaken_def)
  qed
  have no_role: "\<forall>r. cached (ca_crs cs) (ObjClusterRole r) \<longrightarrow> om_Name (ro_meta r) \<noteq> ?n"
  proof (intro allI impI notI)
    fix r assume "cached (ca_crs cs) (ObjClusterRole r)" "om_Name (ro_meta r) = ?n"
    with mirrors_absent [OF m(3) ok(3)] have s: "tracker_stored w RClusterRoles (om_Namespace (ro_meta r)) ?n = Some (ObjClusterRole r)"
      by fastforce
    with stored_typed(2) [OF assms(1) s] u show False by simp
  qed
  have no_binding: "\<forall>b. cached (ca_crbs cs) (ObjClusterRoleBinding b) \<longrightarrow> om_Name (rb_meta b) \<noteq> ?n"
  proof (intro allI impI notI)
    fix b assume "cached (ca_crbs cs) (ObjClusterRoleBinding b)" "om_Name (rb_meta b) = ?n"
    with mirrors_absent [OF m(4) ok(4)] have s: "tracker_stored w RClusterRoleBindings (om_Namespace (rb_meta b)) ?n = Some (ObjClusterRoleBinding b)"
      by fastforce
    with stored_typed(2) [OF assms(1) s] u show False by simp
  qed
  have stored: "tracker_stored w RUsers ?ns ?n \<noteq> None" using u by simp
  obtain w1 where run: "user_syncHandler ObjectReaction cs (MetaNamespaceKeyFunc (u_meta u))
      \<lparr>ct_world = w, ct_events = evs\<rparr> = Return (None, \<lparr>ct_world = w1, ct_events = evs @ [synced_event]\<rparr>)"
    and w1: "tracker_ok w1" "tracker_stored w1 RPrincipals ?ns ?i = Some (ObjPrincipal (owned_principal u (principal_of u)))"
      "tracker_stored w1 RClusterRoles [] ?n = Some (ObjClusterRole (user_cluster_role ''admin'' u))"
      "tracker_stored w1 RClusterRoleBindings [] ?n = Some (ObjClusterRoleBinding (user_cluster_role_binding u))"
      "tracker_stored w1 RUsers ?ns ?n = Some (ObjUser (settled_as u))"
      "same_outside (user_objects u) (tracker_stored w) (tracker_stored w1)"
    by (rule user_sync_new [OF assms(4) _ cached_user no_principal no_role no_binding assms(1) stored, of evs]) (use u in auto)
  have "settled w1 (settled_as u)"
    using u w1(2-5) by (simp add: settled_def valid_user_def principal_of_def)
  moreover have "unmistaken w1 (settled_as u)"
  proof -
    have "m = ?ns \<and> k = ?n"
      if "tracker_stored w1 RUsers m k = Some (ObjUser v)" "u_Username v = u_Username u \<or> ?i \<in> set (u_PrincipalIDs v)" for m k v
    proof (rule ccontr)
      assume "\<not> (m = ?ns \<and> k = ?n)"
      then have "tracker_stored w RUsers m k = tracker_stored w1 RUsers m k"
        using w1(6) by (auto simp: same_outside_def user_objects_def)
      with that assms(3) \<open>\<not> (m = ?ns \<and> k = ?n)\<close> show False unfolding unmistaken_def by metis
    qed
    moreover have "m = ?ns" if "tracker_stored w1 RPrincipals m ?i \<noteq> None" for m
    proof (rule ccontr)
      assume "m \<noteq> ?ns"
      then have "tracker_stored w RPrincipals m ?i = tracker_stored w1 RPrincipals m ?i"
        using w1(6) by (auto simp: same_outside_def user_objects_def)
      with that assms(3) \<open>m \<noteq> ?ns\<close> show False by (simp add: unmistaken_def)
    qed
    ultimately show ?thesis unfolding unmistaken_def by (simp only: with_principal_id_sel with_principal_id_meta GetLocalPrincipalID_settled) blast
  qed
  ultimately show thesis using run w1(1,6) that by blast
qed

lemma user_sync_stays_settled:
  assumes "tracker_ok w" "settled w u" "unmistaken w u" "caches_ok cs" "caches_mirror cs w"
  obtains w1 where "user_syncHandler ObjectReaction cs (MetaNamespaceKeyFunc (u_meta u))
      \<lparr>ct_world = w, ct_events = evs\<rparr> = Return (None, \<lparr>ct_world = w1, ct_events = evs @ [synced_event]\<rparr>)"
    "tracker_ok w1" "tracker_stored w1 = tracker_stored w"
proof -
  obtain p r b where h: "caches_hold cs u p r b" "IsControlledBy (p_meta p) (u_meta u)"
    "IsControlledBy (ro_meta r) (u_meta u)" "IsControlledBy (rb_meta b) (u_meta u)"
    by (rule mirror_caches_hold [OF assms(1,4,5,2,3)])
  have u: "valid_user u" "GetLocalPrincipalID u \<in> set (u_PrincipalIDs u)"
    "tracker_stored w RUsers (om_Namespace (u_meta u)) (om_Name (u_meta u)) = Some (ObjUser u)"
    using assms(2) by (simp_all add: settled_def)
  show thesis by (rule user_sync_fixed [OF assms(4) u(1) h(1) u(2) h(2-4) assms(1) u(3), of evs]) (rule that)
qed

section \<open>A session\<close>

text \<open>How the login handler is set up, and a request that names a user and gives the user's password.\<close>

definition wired :: "tracker login_env \<Rightarrow> (tracker \<Rightarrow> string) \<Rightarrow> int \<Rightarrow> (string \<Rightarrow> string \<Rightarrow> go_error option) \<Rightarrow> bool" where
  "wired env suffix created compare \<longleftrightarrow>
     le_srv env = generating_server suffix created
     \<and> rg_providers (le_providers env) = [''local'' \<mapsto> local_provider (le_srv env) compare]"

definition login_as ::
    "tracker login_env \<Rightarrow> login_request \<Rightarrow> (string \<Rightarrow> string \<Rightarrow> go_error option) \<Rightarrow> user \<Rightarrow> generic_login \<Rightarrow> bool" where
  "login_as env req compare u generic \<longleftrightarrow>
     (\<exists>body input. rq_Body req = Inr body \<and> le_unmarshal_generic env body = Inr generic
        \<and> gl_ProviderType generic = ''local'' \<and> le_unmarshal_basic env body = Inr input
        \<and> bl_Username input = u_Username u \<and> compare (u_Password u) (bl_Password input) = None)"

definition only_key :: "tracker \<Rightarrow> string \<Rightarrow> string \<Rightarrow> string \<Rightarrow> bool" where
  "only_key w ns n key \<longleftrightarrow>
     (\<forall>m k t. tracker_stored w RTokens m k = Some (ObjToken t) \<and> t_Token t = key \<longrightarrow> m = ns \<and> k = n)"

lemma stored_token:
  assumes "tracker_ok w" "tracker_stored w RTokens m k = Some y"
  obtains t where "y = ObjToken t"
  using stored_typed(1) [OF assms] by (cases y) auto

lemma token_hits:
  assumes "tracker_ok (be_world b)" "backend_mirrors b" "only_key (be_world b) ns n key"
    and "tracker_stored (be_world b) RTokens ns n = Some (ObjToken tok)" "t_Token tok = key"
  shows "hits (be_tokens b) TokenByKey key = {MetaNamespaceKeyFunc (t_meta tok)}"
    "held (be_tokens b) (MetaNamespaceKeyFunc (t_meta tok)) (ObjToken tok)"
proof -
  have m: "mirrors (inf_indexer (be_tokens b)) RTokens (be_world b)" using assms(2) by (simp add: backend_mirrors_def)
  have one: "m = ns \<and> k = n"
    if y: "tracker_stored (be_world b) RTokens m k = Some y" "key \<in> set (fst (TokenByKey y))" for m k y
  proof (rule stored_token [OF assms(1) y(1)])
    fix t assume t: "y = ObjToken t"
    then have "t_Token t = key" using y(2) by (simp add: index_fun_hits)
    with y(1) assms(3) show ?thesis unfolding t only_key_def by blast
  qed
  have "key \<in> set (fst (TokenByKey (ObjToken tok)))" by (simp add: index_fun_hits assms(5))
  from mirrors_hits [where f = TokenByKey, OF m assms(4) this one]
  show "hits (be_tokens b) TokenByKey key = {MetaNamespaceKeyFunc (t_meta tok)}"
    "held (be_tokens b) (MetaNamespaceKeyFunc (t_meta tok)) (ObjToken tok)" by simp_all
qed

lemma token_no_hits:
  assumes "tracker_ok (be_world b)" "backend_mirrors b"
    and "\<And>m k t. tracker_stored (be_world b) RTokens m k = Some (ObjToken t) \<Longrightarrow> t_Token t \<noteq> key"
  shows "hits (be_tokens b) TokenByKey key = {}"
proof -
  have m: "mirrors (inf_indexer (be_tokens b)) RTokens (be_world b)" using assms(2) by (simp add: backend_mirrors_def)
  have "key \<notin> set (fst (TokenByKey y))" if y: "map_of (ts_items (inf_indexer (be_tokens b))) k = Some y" for k y
  proof (rule stored_token [OF assms(1) mirrors_cached(2) [OF m y]])
    fix t assume t: "y = ObjToken t"
    from mirrors_cached(2) [OF m y] show ?thesis unfolding t using assms(3) by (auto simp: index_fun_hits)
  qed
  then show ?thesis by (auto simp: hits_def)
qed

text \<open>A token that is a text, but whose key nobody has, is refused as unauthorized.\<close>

lemma serve_unknown_key:
  assumes "backend_ok b" "HasPrefix path ''/v1''" "si_static site method path = None"
    and "hits (be_tokens b) TokenByKey (t_Token tok) = {}" "presents r (token_text tok)"
    and "plain_text (om_Name (t_meta tok))" "plain_text (t_Token tok)"
  shows "\<exists>e. serve site method path r (w, b) = Return (JSONErrorResponse (le_marshal (si_env site)) e 401 w, b)"
proof -
  have t: "GetTokenAuthFromRequest (http_request.truncate r) = token_text tok"
    by (rule presented_text [OF assms(5-7)])
  have ne: "om_Name (t_meta tok) \<noteq> []" "t_Token tok \<noteq> []" and
    colon: "CHR '':'' \<notin> set (om_Name (t_meta tok))" "CHR '':'' \<notin> set (t_Token tok)"
    using assms(6,7) by (auto simp: plain_text_def)
  have parts: "SplitTokenParts (token_text tok) = (om_Name (t_meta tok), t_Token tok)"
    using SplitTokenParts_join [OF colon] by (simp add: token_text_def)
  have "\<exists>e. GetStoredToken (le_srv (si_env site)) (le_seconds (si_env site)) (le_now (si_env site)) (token_text tok) b =
      Return ((None, 401, Some e), b)"
    using assms(1) parts ne
    by (cases rule: GetStoredToken_found [where srv = "le_srv (si_env site)" and seconds = "le_seconds (si_env site)"
          and now = "le_now (si_env site)"]) (simp_all add: assms(4))
  moreover have "token_text tok \<noteq> []" by (simp add: token_text_def)
  ultimately show ?thesis
    using assms(2,3) t by (auto simp: serve_def TokenObtainMiddleware_def Let_def)
qed

lemma login_opens_session:
  fixes b :: "tracker backend" and u :: user
  defines "ns \<equiv> om_Namespace (u_meta u)"
  assumes "backend_ok b" "backend_mirrors b" "tracker_ok (be_world b)" "settled (be_world b) u" "unmistaken (be_world b) u"
    and "wired env suffix created compare" "login_as env req compare u generic"
    and "GenerateToken (le_sign env) (le_now_exp env) (le_now_iat env) (gl_TTLMillis generic) = Inr key"
    and "n = ''token-'' @ suffix (be_world b)" "path_segment_ok n" "tracker_stored (be_world b) RTokens ns n = None"
    and "tok = issued_token u key (gl_TTLMillis generic) (gl_Description generic) n created"
  obtains w1 where
    "Login env req (rw, b) = Return (None, login_response env req (gl_ResponseType generic) tok rw, b\<lparr>be_world := w1\<rparr>)"
    "tracker_ok w1" "tracker_stored w1 = stored_put RTokens ns n (ObjToken tok) (tracker_stored (be_world b))"
proof -
  have u: "ns \<noteq> []" "path_segment_ok ns" using assms(5) by (simp_all add: settled_def valid_user_def ns_def)
  obtain body input where l: "rq_Body req = Inr body" "le_unmarshal_generic env body = Inr generic"
    "gl_ProviderType generic = ''local''" "le_unmarshal_basic env body = Inr input" "bl_Username input = u_Username u"
    "compare (u_Password u) (bl_Password input) = None"
    using assms(8) by (auto simp: login_as_def)
  have e: "le_srv env = generating_server suffix created"
    "rg_providers (le_providers env) = [''local'' \<mapsto> local_provider (le_srv env) compare]"
    using assms(7) by (simp_all add: wired_def)
  show thesis
    by (rule Login_token [OF assms(2) mirror_can_log_in [OF assms(3-6)] assms(4) u [unfolded ns_def] e l assms(9-11)
          assms(12) [unfolded ns_def] assms(13), of rw]) (rule that, auto simp: ns_def)
qed

lemma session_open:
  assumes "backend_ok b" "backend_mirrors b" "tracker_ok (be_world b)" "only_key (be_world b) ns n key"
    and "tracker_stored (be_world b) RTokens ns n = Some (ObjToken tok)"
    and "tok = issued_token u key ttl d n created" "plain_text n" "plain_text key"
    and "seconds_ok (le_seconds (si_env site))" "still_valid ttl created (le_now (si_env site))"
    and "HasPrefix path ''/v1''" "si_static site method path = None" "presents r (token_text tok)"
  shows "serve site method path r (w, b) =
    jwtMiddleware site method (apiRouter site method path)
      ((http_request.truncate r)\<lparr>rq_Authorization := ''Bearer '' @ key, rq_ImpersonateUser := om_Name (u_meta u)\<rparr>) (w, b)"
proof -
  have "t_Token tok = key" by (simp add: assms(6))
  note h = token_hits [OF assms(3,2,4,5) this]
  have "GetTokenAuthFromRequest (http_request.truncate r) = token_text tok"
    by (rule presented_text [OF assms(13)]) (simp_all add: assms(6-8))
  then show ?thesis
    using serve_granted [OF assms(1,11,12), of r tok w] issued_token_grants [OF assms(9,10,7,8) h(2) [unfolded assms(6)]]
      h(1) by (simp add: assms(6))
qed

lemma logout_closes_session:
  assumes "backend_ok b" "backend_mirrors b" "tracker_ok (be_world b)" "only_key (be_world b) ns n key"
    and "tracker_stored (be_world b) RTokens ns n = Some (ObjToken tok)" "ns \<noteq> []" "path_segment_ok ns" "path_segment_ok n"
    and "tok = issued_token u key ttl d n created" "plain_text n" "plain_text key" "getLocalPrincipalID u \<noteq> []"
    and "wired env suffix created' compare" "seconds_ok (le_seconds env)" "still_valid ttl created (le_now env)"
    and "presents req (token_text tok)"
  obtains rw' w1 where "Logout env req (rw, b) = Return (None, rw', b\<lparr>be_world := w1\<rparr>)" "tracker_ok w1"
    "tracker_stored w1 = without_token (tracker_stored (be_world b)) ns n"
proof -
  have sel: "t_Token tok = key" "om_Name (t_meta tok) = n" "om_Namespace (t_meta tok) = ns"
    using stored_key [OF assms(5)] by (simp_all add: assms(9))
  note h = token_hits [OF assms(3,2,4,5) sel(1)]
  have t: "GetTokenAuthFromRequest (http_request.truncate req) = token_text tok"
    by (rule presented_text [OF assms(16)]) (simp_all add: assms(9-11))
  have g: "grants (le_seconds env) (le_now env) (be_tokens b) (token_text tok) tok"
    using issued_token_grants [OF assms(14,15,10,11) h(2) [unfolded assms(9)]] h(1) by (simp add: assms(9))
  have p: "rg_providers (le_providers env) (t_AuthProvider tok) = Some (local_provider (generating_server suffix created') compare)"
    using assms(12,13) getLocalPrincipalID_provider
    by (simp add: wired_def assms(9) issued_token_def new_login_token_def)
  have "token_text tok \<noteq> []" by (simp add: token_text_def)
  show thesis
    by (rule Logout_good [OF assms(1) t \<open>token_text tok \<noteq> []\<close> g p generating_delete assms(3), of rw])
      (use assms(5-8) that in \<open>auto simp: sel\<close>)
qed

section \<open>The administrator\<close>

lemma cube_admin_facts:
  "GetLocalPrincipalID (cube_admin h) = ''local.kube-system.cube-admin''" "settled_as (cube_admin h) = cube_admin h"
  "valid_user (cube_admin h)" "MetaNamespaceKeyFunc (u_meta (cube_admin h)) = ''kube-system/cube-admin''"
proof -
  show i: "GetLocalPrincipalID (cube_admin h) = ''local.kube-system.cube-admin''"
    by (simp add: GetLocalPrincipalID_def cube_admin_def HasPrefix_def)
  show "settled_as (cube_admin h) = cube_admin h" unfolding i by (simp add: with_principal_id_def cube_admin_def)
  show "valid_user (cube_admin h)" using kube_system_ok unfolding valid_user_def i by (simp add: path_segment_ok_def)
  show "MetaNamespaceKeyFunc (u_meta (cube_admin h)) = ''kube-system/cube-admin''"
    by (simp add: MetaNamespaceKeyFunc_def)
qed

lemma start_keys_untouched:
  assumes "grows start_keys w w'" "r \<notin> {RCustomResourceDefinitions, RUsers, RConfigMaps}"
  shows "tracker_stored w' r m k = tracker_stored w r m k"
proof -
  have "(r, m, k) \<notin> start_keys"
    using assms(2) by (auto simp: start_keys_def user_start_objects_def crd_keys_def)
  moreover have "same_outside start_keys (tracker_stored w) (tracker_stored w')" using assms(1) by (simp add: grows_def)
  ultimately show ?thesis unfolding same_outside_def by blast
qed

lemma admin_is_new:
  assumes "grows start_keys w w'"
    and "tracker_stored w' RUsers ''kube-system'' ''cube-admin'' = Some (ObjUser (cube_admin h))"
    and "\<And>m k. tracker_stored w RUsers m k = None" "\<And>m k. tracker_stored w RPrincipals m k = None"
    and "\<And>m k. tracker_stored w RClusterRoles m k = None" "\<And>m k. tracker_stored w RClusterRoleBindings m k = None"
  shows "new_user w' (cube_admin h)" "unmistaken w' (cube_admin h)"
proof -
  note none = start_keys_untouched [OF assms(1)]
  have so: "same_outside start_keys (tracker_stored w) (tracker_stored w')" using assms(1) by (simp add: grows_def)
  show "new_user w' (cube_admin h)"
    using assms(2,4-6) by (simp add: new_user_def cube_admin_facts none)
  have "tracker_stored w' RUsers m k = None" if "\<not> (m = ''kube-system'' \<and> k = ''cube-admin'')" for m k
  proof -
    have "(RUsers, m, k) \<notin> start_keys" using that by (auto simp: start_keys_def user_start_objects_def crd_keys_def)
    with so assms(3) show ?thesis by (simp add: same_outside_def)
  qed
  then have "m = ''kube-system'' \<and> k = ''cube-admin''" if "tracker_stored w' RUsers m k = Some (ObjUser v)" for m k v
    using that by (metis option.distinct(1))
  then show "unmistaken w' (cube_admin h)"
    using assms(4) unfolding unmistaken_def by (simp add: cube_admin_facts none) blast
qed

lemma start_names_ok:
  assumes "tracker_ok (ib_world st)" "bcrypt ''admin'' = Inr h" "ib_configMap st = None"
    and "tracker_stored (ib_world st) RConfigMaps DashboardNamespace ConfigMapName = None" "names_ok (ib_world st)"
    and "deploy_resources ObjectReaction bcrypt st = Return st1"
  shows "tracker_ok (ib_world st1) \<and> names_ok (ib_world st1)"
proof -
  have cm: "tracker_stored (ib_world st) RConfigMaps DashboardNamespace ConfigMapName \<in> {None, Some (ObjConfigMap cube_config_map)}"
    using assms(4) by simp
  have g: "grows start_keys (ib_world st) (ib_world st1)"
    by (rule deploy_resources_installs [where bcrypt = bcrypt, OF assms(1-3) cm]) (simp add: assms(6))
  have "\<forall>(r, ns, n) \<in> start_keys. CHR ''/'' \<notin> set ns \<and> CHR ''/'' \<notin> set n"
    unfolding start_keys_def user_start_objects_def crd_keys_def by code_simp
  with g names_ok_outside [OF assms(5)] show ?thesis by (auto simp: grows_def)
qed

section \<open>Examples\<close>

text \<open>The cluster of a user the controller has settled, with some tokens.\<close>

definition settled_world :: "token list \<Rightarrow> tracker" where
  "settled_world ts = tracker_with
     ([ObjUser settled_user, ObjPrincipal (owned_principal settled_user (principal_of settled_user)),
       ObjClusterRole (user_cluster_role ''admin'' settled_user), ObjClusterRoleBinding (user_cluster_role_binding settled_user)]
      @ map ObjToken ts)"

definition ann_token :: token where
  "ann_token = issued_token settled_user ''eyh.eyc.s'' 57600000 [] ''token-x7k2p'' 0"

lemma ann_token_sel [simp]:
  "om_Name (t_meta ann_token) = ''token-x7k2p''" "om_Namespace (t_meta ann_token) = ''kube-system''"
  "t_Token ann_token = ''eyh.eyc.s''"
  by (simp_all add: ann_token_def)

lemma tracker_with_in:
  assumes "tracker_stored (tracker_with xs) r m k = Some x"
  shows "x \<in> set xs" "obj_resource x = r" "om_Namespace (obj_meta x) = m" "om_Name (obj_meta x) = k"
  using assms by (auto simp: tracker_with_stored find_Some_iff same_key_def)

lemma names_ok_with:
  assumes "list_all (\<lambda>x. CHR ''/'' \<notin> set (om_Namespace (obj_meta x)) \<and> CHR ''/'' \<notin> set (om_Name (obj_meta x))) xs"
  shows "names_ok (tracker_with xs)"
  unfolding names_ok_def
proof (intro allI impI)
  fix r ns n assume "tracker_stored (tracker_with xs) r ns n \<noteq> None"
  then obtain x where "tracker_stored (tracker_with xs) r ns n = Some x" by auto
  note x = tracker_with_in [OF this]
  with assms show "CHR ''/'' \<notin> set ns \<and> CHR ''/'' \<notin> set n" by (auto simp: list_all_iff)
qed

lemma settled_world_ok:
  assumes "ts \<in> {[], [ann_token]}"
  shows "tracker_ok (settled_world ts)" "names_ok (settled_world ts)" "settled (settled_world ts) settled_user"
    "unmistaken (settled_world ts) settled_user" "only_key (settled_world ts) ''kube-system'' ''token-x7k2p'' ''eyh.eyc.s''"
proof -
  have p: "om_Name (p_meta (principal_of settled_user)) = ''local.kube-system.u-1''"
    "om_Namespace (p_meta (principal_of settled_user)) = ''kube-system''"
    "p_LoginName (principal_of settled_user) = u_Username settled_user"
    by (simp_all add: principal_of_def)
  note stored = tracker_with_stored same_key_def p
  show "tracker_ok (settled_world ts)"
    unfolding settled_world_def by (rule tracker_with_ok) (use assms in \<open>auto simp: obj_key_def p\<close>)
  show "names_ok (settled_world ts)"
    unfolding settled_world_def by (rule names_ok_with) (use assms in \<open>auto simp: p\<close>)
  show "settled (settled_world ts) settled_user"
    using sample_user_valid(2) owned_principal_sel(4) [of settled_user "principal_of settled_user"]
      user_roles_sel(3) [of "''admin''" settled_user] user_roles_sel(6) [of settled_user]
    by (simp add: settled_def settled_world_def stored)
  have users: "v = settled_user \<and> m = ''kube-system'' \<and> k = ''u-1''"
    if "tracker_stored (settled_world ts) RUsers m k = Some (ObjUser v)" for m k v
    using tracker_with_in [OF that [unfolded settled_world_def]] by auto
  have princ: "m = ''kube-system''" if "tracker_stored (settled_world ts) RPrincipals m k = Some x" for m k x
    using tracker_with_in [OF that [unfolded settled_world_def]] by (auto simp: p)
  have tokens: "m = ''kube-system'' \<and> k = ''token-x7k2p''"
    if "tracker_stored (settled_world ts) RTokens m k = Some x" for m k x
    using tracker_with_in [OF that [unfolded settled_world_def]] assms by auto
  show "unmistaken (settled_world ts) settled_user"
    unfolding unmistaken_def using users princ by auto
  show "only_key (settled_world ts) ''kube-system'' ''token-x7k2p'' ''eyh.eyc.s''"
    unfolding only_key_def using tokens by blast
qed

lemma sample_env_wired: "wired (sample_env input) (\<lambda>_. ''x7k2p'') 0 secret_compare"
  by (simp add: wired_def)

lemma sample_login_as: "login_as (sample_env ann_login) sample_request secret_compare settled_user (bl_GenericLogin ann_login)"
  unfolding login_as_def
  by (intro exI [of _ "''{}''"] exI [of _ ann_login])
    (simp add: sample_request_def ann_login_def settled_user_names secret_compare_def)

lemma sample_texts: "plain_text ''token-x7k2p''" "plain_text ''eyh.eyc.s''" "path_segment_ok ''token-x7k2p''" "path_segment_ok ''kube-system''"
  unfolding plain_text_def path_segment_ok_def by code_simp+

definition cookie_request :: login_request where
  "cookie_request = sample_request\<lparr>rq_Cookie := Some ''token-x7k2p:eyh.eyc.s''\<rparr>"

lemma cookie_presents: "presents cookie_request (token_text ann_token)"
  by (simp add: presents_def cookie_request_def sample_request_def token_text_def)

end
