(* ===== verification/Spec2Isabelle.thy ===== *)
theory Spec2Isabelle
  imports Cube_User_Controller Cube_Infra_Controller Cube_Util Cube_Base32 Cube_CRDs Cube_Backend Cube_Local_Provider Cube_Login Cube_Jwt Cube_Router Cube_Infra_Backend Cube_Cluster Cube_Stream Cube_App Cube_Secret Cube_DeepCopy Cube_Factory Cube_Run Cube_Fake Cube_Client Cube_Impersonation Cube_Schema Cube_System
begin

text \<open>
  A verification library for cube-apiserver.

  The program.  \<open>cube-apiserver\<close> is a server beside a Kubernetes cluster.  It keeps its own data
  (users, principals, tokens, groups, group members, infrastructures, local configurations) as custom
  resources of the group \<open>cube.rancher.io/v1alpha1\<close>, and talks to the cluster in three ways: it sends
  requests through typed clients, it reads caches which informers keep up to date, and event handlers
  at these informers feed the work queues of two controllers.  The user controller gives every user a
  principal, a cluster role and a binding.  The infrastructure controller installs the bundle an
  infrastructure asks for (Dashboard, Longhorn or RancherVM) and reports its state.  In front stands an
  HTTP router: logging in makes a signed session token, a token check passes requests below \<open>/v1\<close> on
  as requests of the user, and the handlers behind it deploy infrastructures, show the status page and
  stream the resources of the cluster.

  How it is modelled.  A function of the source is a function here and keeps its name where Isabelle allows it.
  A struct is a record with the fields the program uses; an answer with an error is a pair or a sum; a
  Go panic and a fatal exit are values of the result type of \<open>Cube_Go\<close>; 64-bit numbers
  are words and wrap around.  What is not under \<open>src/\<close>, or is third-party code the source only calls,
  is an argument: the API server (a record of request operations over a world of any type), RSA, the
  methods that sign a JWT, bcrypt, \<open>json\<close> and \<open>yaml\<close>, the clock and the source of randomness, the faults of the file
  system, the order in which Go visits a map, and the parsing of label selectors.

  The theories, in the order of the code.
  \<^item> Shared ground: \<open>Cube_Prelude\<close> (lemma collections, lists, strings), \<open>Cube_Go\<close> (errors, panics,
    \<open>strings\<close>), \<open>Cube_Time\<close> (package \<open>time\<close>), \<open>Cube_Meta\<close> (object metadata, ownership, cache keys),
    \<open>Cube_Types\<close> (\<open>k8s/pkg/apis/cube/v1alpha1\<close>) and \<open>Cube_K8s\<close> (the core types).
  \<^item> Talking to the cluster: \<open>Cube_Api\<close> (the clients as operations on a server and the checks they
    make), \<open>Cube_Requests\<close> (the same seven clients as requests with verb, URL and options),
    \<open>Cube_Store_Contract\<close> (what the program relies on from a server), \<open>Cube_Tracker\<close> (the object tracker
    of client-go, a server that keeps the contract), \<open>Cube_Fake\<close> (the fake clients over it),
    \<open>Cube_Client\<close> (\<open>backend/client.go\<close>, \<open>backend/impersonate.go\<close>, the client sets).
  \<^item> Caches: \<open>Cube_Indexer\<close> (the thread safe store), \<open>Cube_Listers\<close> (the listers over it) and
    \<open>Cube_Factory\<close> (the shared informers and which of them the server runs).
  \<^item> Memory: \<open>Cube_Heap\<close> (structs that share slices, maps and pointers) and \<open>Cube_DeepCopy\<close> (the
    generated deep copies, and the edit of \<open>updateUser\<close> on a cached object).
  \<^item> Controllers: \<open>Cube_Workqueue\<close> (queue, delays, worker pool), \<open>Cube_Handlers\<close> (from an event to a
    key), \<open>Cube_Common\<close> (\<open>controller/common.go\<close>), \<open>Cube_Run\<close> (\<open>Run\<close> and \<open>runWorker\<close>),
    \<open>Cube_User_Controller\<close>; \<open>Cube_Bundle\<close>, \<open>Cube_Dashboard\<close>, \<open>Cube_Longhorn\<close>, \<open>Cube_RancherVM\<close> and
    \<open>Cube_Infra_Controller\<close> for \<open>controller/infra_controller.go\<close>.
  \<^item> Users and tokens: \<open>Cube_Util\<close> and \<open>Cube_Http\<close> (\<open>util/util.go\<close>), \<open>Cube_Base32\<close> and \<open>Cube_Backend\<close>
    (\<open>backend/user.go\<close>), \<open>Cube_CRDs\<close> (the definitions the server registers), \<open>Cube_Local_Provider\<close>
    (\<open>backend/provider\<close>), \<open>Cube_Login\<close> (\<open>backend/insecure\<close>, \<open>api/insecure.go\<close>), \<open>Cube_Router\<close>
    (\<open>api/router.go\<close>), \<open>Cube_Jwt\<close> (the JWT check in front of it, with the parser and the claims of
    jwt-go), \<open>Cube_Secret\<close> (\<open>backend/secret.go\<close> and the key files).
  \<^item> The API: \<open>Cube_Infra_Backend\<close> (\<open>backend/infra.go\<close>, \<open>configmap.go\<close>, \<open>common.go\<close>, \<open>service.go\<close>),
    \<open>Cube_Cluster\<close> (\<open>backend/cluster.go\<close>, \<open>node.go\<close>), \<open>Cube_Api_Handlers\<close> (\<open>api/infra.go\<close>, \<open>node.go\<close>,
    \<open>model.go\<close>), \<open>Cube_Impersonation\<close> (the node handlers
    with the clients they make), \<open>Cube_Schema\<close> (the schemas of \<open>model.go\<close> and the links made of them), \<open>Cube_Stream\<close> (\<open>api/baseinfo.go\<close>, \<open>api/cluster.go\<close>) and \<open>Cube_App\<close> (\<open>app\<close>).
  \<^item> The whole: \<open>Cube_System\<close> and the theorems of this theory.

  Interfaces.  Where one component relies on another it does so through a locale, interpreted in the
  theory of the component that provides it:
  \<^item> \<open>indexer\<close>: the index functions of a cache; interpretation \<open>tsm\<close> on the thread safe store;
  \<^item> \<open>dedup_queue\<close>: no key is worked on twice at a time and none is lost; interpretation \<open>wq\<close>;
  \<^item> \<open>api_store\<close>: what requests change in a store of named objects; interpretation \<open>tr\<close> on the tracker,
    through which every statement about the effect of a pass or a handler on the cluster goes;
  \<^item> \<open>auth_provider\<close>: an authentication provider; interpretation \<open>lp\<close> on the local one;
  \<^item> \<open>login_service\<close>, which extends \<open>auth_provider\<close>: the login over any provider; interpretation \<open>ls\<close>.

  What is shown.
  \<^item> The components together: a new user is settled by one pass of the controller and then left alone;
    a settled user can log in and is let through the router and its JWT check to the handlers for as long
    as token and key are good, and not a second longer; a logout ends that; a fresh cluster has a usable
    administrator after its start (this theory).
  \<^item> Controllers: what one pass creates, what it can touch at most, and how it refuses objects of
    others; the consistency of the bundles, their safe and repeatable creation, and the status written
    (\<open>Cube_User_Controller\<close>, \<open>Cube_Infra_Controller\<close>); workers start after the caches have synced and a
    worker drains the queue (\<open>Cube_Run\<close>).
  \<^item> Memory: deep copies share nothing with their originals and look like them; the controller's edit
    of a cached user reaches the copy only, and agrees with the edit of the model (\<open>Cube_DeepCopy\<close>).
  \<^item> Tokens: the text of a token is read back, tokens expire when they should, labels are legal and
    determine short ids; the provider accepts exactly the right password; search with and without an
    index agree; logins, logouts and the router on every branch.
  \<^item> API: an infrastructure asked for comes up; the status page shows the store; waiting for a service
    ends exactly if the cache of the services ever syncs; sums over pods equal a reference sum under an exact condition; streams deliver every
    answer once and in order, and how they crash; schemas, links and routes agree but for a few gaps; a
    handler's requests reach the cluster in the name of its user, and nodes are shown as the cluster shows
    them to this user; purge, start and signing keys across restarts.
  \<^item> Generated code: listers equal a filter of the cache, the typed clients fail as the client model
    does and their URLs determine the object, the fakes agree with the real clients over the tracker
    on every request for one object and on lists, and ignore patches and deletions of collections,
    and the informers that run after the start are exactly known.
  Theorems about requests are stated over the tracker; those of the locales hold of every store that
  keeps the contract.

  Bounds.  There is no fuel that a run could exhaust unnoticed.  \<open>HandleError\<close> stops after five
  attempts because the source does.  \<open>ServiceGet\<close> first waits for the cache of the services, on a channel that nobody closes: the
  wait is a partial function, and everything that calls it answers in \<open>waiting\<close>, where \<open>None\<close> is a request
  that never returns.  Then it polls until a counter, which grows by 20 with every poll, passes two minutes
  in nanoseconds: \<open>ServiceGet_ends\<close> shows that it ends exactly if the cache ever syncs, and then for every
  course of the answers after at most six thousand million polls and one.  \<open>runWorker\<close> is a partial function, and \<open>worker_drains\<close> shows that
  it returns.  Streams and the worker pool are step relations of any length.

  Not modelled.
  \<^item> The \<open>ApiHandler\<close> of go-rancher around the handlers of the API, which prepares the context of the
    request, and the redirects by which gorilla/mux answers a path that is not clean.
  \<^item> Base 64, JSON, the signing methods and the clock of \<open>Cube_Jwt\<close>, and bcrypt and RSA elsewhere, are
    arguments.  That a key the server signs decodes to its claims and verifies is the hypothesis
    \<open>signs_for\<close>; that key files hold what was written is what \<open>rsa_lib_ok\<close> says of PEM.
  \<^item> How a REST configuration is read from a file or from the environment of a pod, the set-up of TLS
    and the parsing of addresses: client-go.  \<open>Cube_Client\<close> takes them as arguments.
  \<^item> \<open>main.go\<close> (the command line), the start of goroutines, of the HTTP listener and of the timer of the
    purge in \<open>app\<close>, and of \<open>util/util.go\<close> the shutdown channel and the copying of the pictures of the front end
    (\<open>CopyDir\<close>, \<open>CopyFile\<close>): signals, sockets and files.
  \<^item> The events of a watch and the effect of a patch on the server: nothing outside the vendored code
    patches an object, and an informer is modelled by the requests it sends and the cache it fills.
  \<^item> Spare capacity of slices and slices of parts of arrays in \<open>Cube_Heap\<close>: the deep copies make neither.
  \<^item> Times of delayed items in the work queue, which are an order here.
  \<^item> The vendored libraries, but for the parts of client-go, apimachinery and the standard library
    that the theories above name.
\<close>

section \<open>The components together\<close>

text \<open>
  C1. The controller converges.  A user who is new in a cluster is settled by one pass over caches
  that have caught up: the user has a principal, a role and a binding of its own, and nothing but these
  and the system namespace was touched.  Every later pass over caches that have caught up again
  succeeds and changes nothing.
\<close>

theorem user_settles:
  assumes "tracker_ok w" "new_user w u" "unmistaken w u" "caches_ok cs" "caches_mirror cs w"
  shows "\<exists>w1. user_syncHandler ObjectReaction cs (MetaNamespaceKeyFunc (u_meta u)) \<lparr>ct_world = w, ct_events = evs\<rparr> =
        Return (None, \<lparr>ct_world = w1, ct_events = evs @ [synced_event]\<rparr>)
    \<and> tracker_ok w1 \<and> settled w1 (settled_as u) \<and> same_outside (user_objects u) (tracker_stored w) (tracker_stored w1)
    \<and> (\<forall>cs1 evs1. caches_ok cs1 \<and> caches_mirror cs1 w1 \<longrightarrow>
         (\<exists>w2. user_syncHandler ObjectReaction cs1 (MetaNamespaceKeyFunc (u_meta u)) \<lparr>ct_world = w1, ct_events = evs1\<rparr> =
             Return (None, \<lparr>ct_world = w2, ct_events = evs1 @ [synced_event]\<rparr>)
           \<and> tracker_stored w2 = tracker_stored w1))"
proof -
  obtain w1 where w1: "user_syncHandler ObjectReaction cs (MetaNamespaceKeyFunc (u_meta u)) \<lparr>ct_world = w, ct_events = evs\<rparr> =
        Return (None, \<lparr>ct_world = w1, ct_events = evs @ [synced_event]\<rparr>)" "tracker_ok w1"
    "settled w1 (settled_as u)" "unmistaken w1 (settled_as u)" "same_outside (user_objects u) (tracker_stored w) (tracker_stored w1)"
    by (rule user_sync_settles [OF assms])
  have again: "\<exists>w2. user_syncHandler ObjectReaction cs1 (MetaNamespaceKeyFunc (u_meta u)) \<lparr>ct_world = w1, ct_events = evs1\<rparr> =
             Return (None, \<lparr>ct_world = w2, ct_events = evs1 @ [synced_event]\<rparr>) \<and> tracker_stored w2 = tracker_stored w1"
    if "caches_ok cs1" "caches_mirror cs1 w1" for cs1 evs1
    using user_sync_stays_settled [OF w1(2-4) that, of evs1] by (metis with_principal_id_meta)
  show ?thesis by (rule exI [of _ w1], intro conjI allI impI) (fact w1 | erule conjE, rule again, assumption+)+
qed

text \<open>
  C4. A cluster that has never seen the server is ready after its start and one pass of the controller:
  the administrator is registered with the hash of the first password, and settled, so that the
  administrator can log in.
\<close>

theorem admin_settles:
  assumes "tracker_ok (ib_world st)" "bcrypt ''admin'' = Inr h" "ib_configMap st = None"
    and "\<And>m k. tracker_stored (ib_world st) RUsers m k = None" "\<And>m k. tracker_stored (ib_world st) RPrincipals m k = None"
    and "\<And>m k. tracker_stored (ib_world st) RClusterRoles m k = None"
    and "\<And>m k. tracker_stored (ib_world st) RClusterRoleBindings m k = None"
    and "\<And>m k. tracker_stored (ib_world st) RConfigMaps m k = None"
  shows "\<exists>st1. deploy_resources ObjectReaction bcrypt st = Return st1
    \<and> (\<forall>cs evs. caches_ok cs \<and> caches_mirror cs (ib_world st1) \<longrightarrow>
         (\<exists>w1. user_syncHandler ObjectReaction cs ''kube-system/cube-admin'' \<lparr>ct_world = ib_world st1, ct_events = evs\<rparr> =
             Return (None, \<lparr>ct_world = w1, ct_events = evs @ [synced_event]\<rparr>)
           \<and> tracker_ok w1 \<and> settled w1 (cube_admin h) \<and> unmistaken w1 (cube_admin h)))"
proof -
  have cm: "tracker_stored (ib_world st) RConfigMaps DashboardNamespace ConfigMapName \<in> {None, Some (ObjConfigMap cube_config_map)}"
    using assms(8) by simp
  obtain st1 where st1: "deploy_resources ObjectReaction bcrypt st = Return st1" "infra_backend_ok st1"
    "grows start_keys (ib_world st) (ib_world st1)"
    and admin: "tracker_stored (ib_world st) RUsers ''kube-system'' ''cube-admin'' = None \<longrightarrow>
      tracker_stored (ib_world st1) RUsers ''kube-system'' ''cube-admin'' = Some (ObjUser (cube_admin h))"
    by (rule deploy_resources_installs [where bcrypt = bcrypt, OF assms(1-3) cm]) (rule that; assumption)
  have there: "tracker_stored (ib_world st1) RUsers ''kube-system'' ''cube-admin'' = Some (ObjUser (cube_admin h))"
    using admin assms(4) by simp
  have new: "new_user (ib_world st1) (cube_admin h)" "unmistaken (ib_world st1) (cube_admin h)"
    by (rule admin_is_new [OF st1(3) there assms(4-7)])+
  have ok: "tracker_ok (ib_world st1)" using st1(2) by (simp add: infra_backend_ok_def)
  have pass: "\<exists>w1. user_syncHandler ObjectReaction cs ''kube-system/cube-admin'' \<lparr>ct_world = ib_world st1, ct_events = evs\<rparr> =
        Return (None, \<lparr>ct_world = w1, ct_events = evs @ [synced_event]\<rparr>)
      \<and> tracker_ok w1 \<and> settled w1 (cube_admin h) \<and> unmistaken w1 (cube_admin h)"
    if "caches_ok cs" "caches_mirror cs (ib_world st1)" for cs evs
    by (rule user_sync_settles [OF ok new that, of evs, unfolded cube_admin_facts(2,4)]) (rule exI, intro conjI; assumption)
  show ?thesis by (rule exI [of _ st1], intro conjI allI impI) (fact st1 | erule conjE, rule pass, assumption+)+
qed

text \<open>
  C2. A settled user who logs in with the password can use the API: the login makes one token, and as
  soon as the backend's caches have caught up, every request below \<open>/v1\<close> that presents its text, in the
  header or in the cookie, reaches the handlers of the API as a request of this user, as long as the
  lifetime of the token lasts and at every second at which its key is good; at any other second the
  JWT check answers with 401.  With a lifetime of the usual size the key is good from its signing on
  until this lifetime is over.  (A login without a lifetime opens the API for the rest of the second
  only, see \<open>login_without_ttl_refused\<close>.)
\<close>

theorem session_opens:
  fixes b :: "tracker backend"
  assumes "backend_ok b" "backend_mirrors b" "tracker_ok (be_world b)" "settled (be_world b) u" "unmistaken (be_world b) u"
    and "wired env ending created compare" "login_as env req compare u generic" "login_clock_ok env"
    and "GenerateToken (le_sign env) (le_now_exp env) (le_now_iat env) (gl_TTLMillis generic) = Inr key"
    and "n = ''token-'' @ ending (be_world b)" "path_segment_ok n" "plain_text n" "plain_text key"
    and "tracker_stored (be_world b) RTokens (om_Namespace (u_meta u)) n = None"
    and "only_key (be_world b) (om_Namespace (u_meta u)) n key"
    and "tok = issued_token u key (gl_TTLMillis generic) (gl_Description generic) n created"
    and "claims = login_claims env (gl_TTLMillis generic)"
  shows "\<exists>w1. Login env req (rw, b) =
        Return (None, login_response env req (gl_ResponseType generic) tok rw, b\<lparr>be_world := w1\<rparr>)
    \<and> tracker_ok w1
    \<and> tracker_stored w1 = stored_put RTokens (om_Namespace (u_meta u)) n (ObjToken tok) (tracker_stored (be_world b))
    \<and> (\<forall>b1 site verb url r rw1.
         backend_ok b1 \<and> backend_mirrors b1 \<and> be_world b1 = w1 \<and> seconds_ok (le_seconds (si_env site))
         \<and> signs_for (si_jwt site) (le_sign env)
         \<and> still_valid (gl_TTLMillis generic) created (le_now (si_env site))
         \<and> HasPrefix url ''/v1'' \<and> si_static site verb url = None \<and> presents r (token_text tok) \<longrightarrow>
         (\<exists>err. serve site verb url r (rw1, b1) =
           (if verb = ''OPTIONS'' \<or> key_good_at claims (time_Unix (jl_now (si_jwt site))) then
              apiRouter site verb url
                ((http_request.truncate r)\<lparr>rq_Authorization := ''Bearer '' @ key, rq_ImpersonateUser := om_Name (u_meta u)\<rparr>)
                (rw1, b1)
            else Return (OnError err rw1, b1))))
    \<and> (\<forall>now. 0 \<le> sint (gl_TTLMillis generic) \<and> sint (gl_TTLMillis generic) * 1000000 < 2 ^ 63
         \<and> le_now_iat env \<le> now \<and> now \<le> le_now_exp env + sint (gl_TTLMillis generic) * 1000000 \<longrightarrow>
         key_good_at claims (time_Unix now))"
proof -
  let ?ns = "om_Namespace (u_meta u)"
  obtain w1 where w1: "Login env req (rw, b) =
        Return (None, login_response env req (gl_ResponseType generic) tok rw, b\<lparr>be_world := w1\<rparr>)" "tracker_ok w1"
    "tracker_stored w1 = stored_put RTokens ?ns n (ObjToken tok) (tracker_stored (be_world b))"
    by (rule login_opens_session [OF assms(1-7,9-11,14,16), of rw])
  have stored: "tracker_stored w1 RTokens ?ns n = Some (ObjToken tok)" "only_key w1 ?ns n key"
    using assms(15) by (simp_all add: w1(3) only_key_def)
  have key: "le_sign env (login_claims env (gl_TTLMillis generic)) = Inr key"
    using assms(9) by (simp add: GenerateToken_claims)
  show ?thesis
  proof (rule exI [of _ w1], intro conjI allI impI, rule w1(1), rule w1(2), rule w1(3); elim conjE)
    fix b1 :: "tracker backend" and site :: "tracker site" and verb url and r :: login_request and rw1
    assume b1: "backend_ok b1" "backend_mirrors b1" "be_world b1 = w1"
      and jwt: "signs_for (si_jwt site) (le_sign env)"
      and s: "seconds_ok (le_seconds (si_env site))" "still_valid (gl_TTLMillis generic) created (le_now (si_env site))"
        "HasPrefix url ''/v1''" "si_static site verb url = None" "presents r (token_text tok)"
    let ?r = "(http_request.truncate r)\<lparr>rq_Authorization := ''Bearer '' @ key, rq_ImpersonateUser := om_Name (u_meta u)\<rparr>"
    have opened: "serve site verb url r (rw1, b1) = jwtMiddleware site verb (apiRouter site verb url) ?r (rw1, b1)"
      by (rule session_open [OF b1(1,2) _ _ _ assms(16,12,13) s]) (use w1(2) stored in \<open>simp_all add: b1(3)\<close>)
    have auth: "rq_Authorization ?r = ''Bearer '' @ key" by simp
    obtain err where "jwtMiddleware site verb (apiRouter site verb url) ?r (rw1, b1) =
        (if verb = ''OPTIONS'' \<or> key_good_at (login_claims env (gl_TTLMillis generic)) (time_Unix (jl_now (si_jwt site)))
         then apiRouter site verb url ?r (rw1, b1) else Return (OnError err rw1, b1))"
      using jwtMiddleware_login [OF jwt assms(8) key assms(13) auth, of verb "apiRouter site verb url" rw1 b1] by blast
    then show "\<exists>err. serve site verb url r (rw1, b1) =
        (if verb = ''OPTIONS'' \<or> key_good_at claims (time_Unix (jl_now (si_jwt site))) then apiRouter site verb url ?r (rw1, b1)
         else Return (OnError err rw1, b1))"
      unfolding opened assms(17) by (rule exI [of _ err])
  next
    fix now
    assume "0 \<le> sint (gl_TTLMillis generic)" "sint (gl_TTLMillis generic) * 1000000 < 2 ^ 63"
      "le_now_iat env \<le> now" "now \<le> le_now_exp env + sint (gl_TTLMillis generic) * 1000000"
    then show "key_good_at claims (time_Unix now)" unfolding assms(17) by (rule key_good_lasts)
  qed
qed

text \<open>
  C3. Logging out ends the session: the token's object is deleted and nothing else, and as soon as the
  caches of a backend have caught up, a request that presents the text is refused with status 401.
\<close>

theorem session_closes:
  fixes b :: "tracker backend"
  assumes "backend_ok b" "backend_mirrors b" "tracker_ok (be_world b)"
    and "om_Namespace (u_meta u) \<noteq> []" "path_segment_ok (om_Namespace (u_meta u))" "getLocalPrincipalID u \<noteq> []"
    and "tracker_stored (be_world b) RTokens (om_Namespace (u_meta u)) n = Some (ObjToken tok)"
    and "only_key (be_world b) (om_Namespace (u_meta u)) n key" "tok = issued_token u key ttl d n created"
    and "path_segment_ok n" "plain_text n" "plain_text key"
    and "wired env ending created' compare" "seconds_ok (le_seconds env)" "still_valid ttl created (le_now env)"
    and "presents req (token_text tok)"
  shows "\<exists>rw' w1. Logout env req (rw, b) = Return (None, rw', b\<lparr>be_world := w1\<rparr>)
    \<and> tracker_ok w1 \<and> tracker_stored w1 = without_token (tracker_stored (be_world b)) (om_Namespace (u_meta u)) n
    \<and> (\<forall>b1 site verb url r rw1.
         backend_ok b1 \<and> backend_mirrors b1 \<and> be_world b1 = w1
         \<and> HasPrefix url ''/v1'' \<and> si_static site verb url = None \<and> presents r (token_text tok) \<longrightarrow>
         (\<exists>e. serve site verb url r (rw1, b1) = Return (JSONErrorResponse (le_marshal (si_env site)) e 401 rw1, b1)))"
proof -
  let ?ns = "om_Namespace (u_meta u)"
  obtain rw' w1 where w1: "Logout env req (rw, b) = Return (None, rw', b\<lparr>be_world := w1\<rparr>)" "tracker_ok w1"
    "tracker_stored w1 = without_token (tracker_stored (be_world b)) ?ns n"
    by (rule logout_closes_session [OF assms(1-3,8,7,4,5,10,9,11,12,6,13-16), of rw])
  have gone: "t_Token t \<noteq> key" if t: "tracker_stored w1 RTokens m k = Some (ObjToken t)" for m k t
  proof (cases "m = ?ns \<and> k = n")
    case True
    with t show ?thesis by (simp add: w1(3))
  next
    case False
    then have "tracker_stored (be_world b) RTokens m k = Some (ObjToken t)" using t by (auto simp: w1(3) split: if_splits)
    with False assms(8) show ?thesis unfolding only_key_def by blast
  qed
  show ?thesis
  proof (rule exI [of _ rw'], rule exI [of _ w1], intro conjI allI impI, rule w1(1), rule w1(2), rule w1(3), elim conjE)
    fix b1 :: "tracker backend" and site :: "tracker site" and verb url and r :: login_request and rw1
    assume b1: "backend_ok b1" "backend_mirrors b1" "be_world b1 = w1"
      and s: "HasPrefix url ''/v1''" "si_static site verb url = None" "presents r (token_text tok)"
    have "hits (be_tokens b1) TokenByKey (t_Token tok) = {}"
      using gone by (intro token_no_hits [OF _ b1(2)]) (simp_all add: b1(3) w1(2) assms(9))
    then show "\<exists>e. serve site verb url r (rw1, b1) = Return (JSONErrorResponse (le_marshal (si_env site)) e 401 rw1, b1)"
      by (rule serve_unknown_key [OF b1(1) s(1,2) _ s(3)]) (simp_all add: assms(9,11,12))
  qed
qed

section \<open>The components together: examples\<close>

text \<open>Two passes over Ann, who is new, each after the caches have listed the cluster again.\<close>

theorem user_settles_witness:
  "\<exists>w1 w2. user_syncHandler ObjectReaction (relisted_caches (tracker_with [ObjUser sample_user])) ''kube-system/u-1''
        \<lparr>ct_world = tracker_with [ObjUser sample_user], ct_events = []\<rparr> =
        Return (None, \<lparr>ct_world = w1, ct_events = [synced_event]\<rparr>)
    \<and> settled w1 settled_user
    \<and> user_syncHandler ObjectReaction (relisted_caches w1) ''kube-system/u-1'' \<lparr>ct_world = w1, ct_events = []\<rparr> =
        Return (None, \<lparr>ct_world = w2, ct_events = [synced_event]\<rparr>) \<and> tracker_stored w2 = tracker_stored w1"
proof -
  let ?w = "tracker_with [ObjUser sample_user]"
  have ok: "tracker_ok ?w" "names_ok ?w" by (rule sample_tracker_ok, simp, rule names_ok_with, simp)
  have new: "new_user ?w sample_user"
    using sample_user_valid(1) by (simp add: new_user_def tracker_with_stored same_key_def)
  have only: "unmistaken ?w sample_user"
  proof -
    have "m = ''kube-system'' \<and> k = ''u-1''" if "tracker_stored ?w RUsers m k = Some (ObjUser v)" for m k v
      using tracker_with_in [OF that] by auto
    moreover have "tracker_stored ?w RPrincipals m k = None" for m k by (simp add: tracker_with_stored)
    ultimately show ?thesis unfolding unmistaken_def by auto
  qed
  have settled: "settled_as sample_user = settled_user" by (simp add: settled_user_def)
  obtain w1 where w1: "user_syncHandler ObjectReaction (relisted_caches ?w) ''kube-system/u-1''
        \<lparr>ct_world = ?w, ct_events = []\<rparr> = Return (None, \<lparr>ct_world = w1, ct_events = [] @ [synced_event]\<rparr>)"
      "tracker_ok w1" "settled w1 settled_user" "same_outside (user_objects sample_user) (tracker_stored ?w) (tracker_stored w1)"
    and again: "\<And>cs1 evs1. caches_ok cs1 \<Longrightarrow> caches_mirror cs1 w1 \<Longrightarrow>
         \<exists>w2. user_syncHandler ObjectReaction cs1 ''kube-system/u-1'' \<lparr>ct_world = w1, ct_events = evs1\<rparr> =
             Return (None, \<lparr>ct_world = w2, ct_events = evs1 @ [synced_event]\<rparr>) \<and> tracker_stored w2 = tracker_stored w1"
    using user_settles [OF ok(1) new only relisted_caches_ok [OF ok], of "[]"] unfolding settled sample_user_key by metis
  have "names_ok w1" by (rule names_ok_outside [OF ok(2) w1(4) user_objects_names [OF sample_user_valid(1)]])
  from again [OF relisted_caches_ok [OF w1(2) this], of "[]"] w1(1,3) show ?thesis by auto
qed

text \<open>An empty cluster.\<close>

theorem admin_settles_witness:
  "\<exists>st1 w1. deploy_resources ObjectReaction Inr (process_start NewObjectTracker) = Return st1
    \<and> user_syncHandler ObjectReaction (relisted_caches (ib_world st1)) ''kube-system/cube-admin''
        \<lparr>ct_world = ib_world st1, ct_events = []\<rparr> = Return (None, \<lparr>ct_world = w1, ct_events = [synced_event]\<rparr>)
    \<and> settled w1 (cube_admin ''admin'')"
proof -
  let ?st = "process_start NewObjectTracker"
  have new: "tracker_ok (ib_world ?st)" "\<And>r m n. tracker_stored (ib_world ?st) r m n = None" "ib_configMap ?st = None"
    by (simp_all add: process_start_def tracker_ok_def tracker_stored_def NewObjectTracker_def)
  have hash: "(Inr :: string \<Rightarrow> go_error + string) ''admin'' = Inr ''admin''" by simp
  obtain st1 where st1: "deploy_resources ObjectReaction Inr ?st = Return st1"
    and pass: "\<And>cs evs. caches_ok cs \<Longrightarrow> caches_mirror cs (ib_world st1) \<Longrightarrow>
      \<exists>w1. user_syncHandler ObjectReaction cs ''kube-system/cube-admin'' \<lparr>ct_world = ib_world st1, ct_events = evs\<rparr> =
             Return (None, \<lparr>ct_world = w1, ct_events = evs @ [synced_event]\<rparr>)
           \<and> tracker_ok w1 \<and> settled w1 (cube_admin ''admin'') \<and> unmistaken w1 (cube_admin ''admin'')"
    using admin_settles [where bcrypt = Inr, OF new(1) hash new(3) new(2) new(2) new(2) new(2) new(2)] by blast
  have "tracker_ok (ib_world st1) \<and> names_ok (ib_world st1)"
    by (rule start_names_ok [where bcrypt = Inr, OF new(1) hash new(3) _ _ st1]) (simp_all add: new(2) names_ok_def)
  with pass [OF relisted_caches_ok, of "[]"] st1 show ?thesis by auto
qed

text \<open>
  Ann logs in, her browser presents the cookie to a backend that has listed the cluster again, and the
  request reaches the handlers; a second after the key has expired it does not.
\<close>

definition session_env :: "tracker login_env" where
  "session_env = (sample_env ann_login)\<lparr>le_sign :=
     (\<lambda>c. if c = sample_claims then Inr ''eyh.eyc.s'' else Inl (Errorf ''json: unsupported value'' []))\<rparr>"

definition late_site :: "tracker site" where
  "late_site = sample_site\<lparr>si_jwt := sample_jwt\<lparr>jl_now := 57601000000000\<rparr>\<rparr>"

lemma session_claims: "login_claims session_env 57600000 = sample_claims"
  by (simp add: login_claims_def session_env_def sample_env_def sample_claims_def time_Unix_def time_Add_def Millisecond_def Let_def)

lemma session_env_ok:
  "wired session_env (\<lambda>_. ''x7k2p'') 0 secret_compare" "login_clock_ok session_env"
  "login_as session_env sample_request secret_compare settled_user (bl_GenericLogin ann_login)"
  using sample_env_wired sample_login_as
  by (simp_all add: session_env_def wired_def login_as_def login_clock_ok_def sample_env_def time_Unix_def unix_epoch_def Let_def)

lemma session_signs:
  "signs_for (si_jwt sample_site) (le_sign session_env)" "signs_for (si_jwt late_site) (le_sign session_env)"
proof -
  have late: "signed_text (sample_jwt\<lparr>jl_now := t\<rparr>) c k \<longleftrightarrow> signed_text sample_jwt c k" for t c k
    by (simp add: signed_text_def decode_segment_def)
  show "signs_for (si_jwt sample_site) (le_sign session_env)" "signs_for (si_jwt late_site) (le_sign session_env)"
    using sample_key_signed by (auto simp: signs_for_def session_env_def sample_site_def late_site_def late split: if_splits)
qed

theorem session_opens_witness:
  "\<exists>w1 err. Login session_env sample_request (new_response, relisted_backend (settled_world [])) =
        Return (None, login_response session_env sample_request ''json'' ann_token new_response,
          (relisted_backend (settled_world []))\<lparr>be_world := w1\<rparr>)
    \<and> serve sample_site ''GET'' ''/v1/nodes'' cookie_request (new_response, relisted_backend w1) =
        apiRouter sample_site ''GET'' ''/v1/nodes''
          ((http_request.truncate cookie_request)\<lparr>rq_Authorization := ''Bearer eyh.eyc.s'', rq_ImpersonateUser := ''u-1''\<rparr>)
          (new_response, relisted_backend w1)
    \<and> serve late_site ''GET'' ''/v1/nodes'' cookie_request (new_response, relisted_backend w1) =
        Return (OnError err new_response, relisted_backend w1)"
proof -
  let ?w = "settled_world []"
  note w = settled_world_ok [of "[]", simplified] and b = relisted_backend_ok [OF w(1,2)]
  have gl: "gl_TTLMillis (bl_GenericLogin ann_login) = 57600000" "gl_ResponseType (bl_GenericLogin ann_login) = ''json''"
    "gl_Description (bl_GenericLogin ann_login) = []" by (simp_all add: ann_login_def)
  have key: "GenerateToken (le_sign session_env) (le_now_exp session_env) (le_now_iat session_env)
      (gl_TTLMillis (bl_GenericLogin ann_login)) = Inr ''eyh.eyc.s''"
    unfolding GenerateToken_claims gl session_claims by (simp add: session_env_def)
  have tok: "ann_token = issued_token settled_user ''eyh.eyc.s'' (gl_TTLMillis (bl_GenericLogin ann_login))
      (gl_Description (bl_GenericLogin ann_login)) ''token-x7k2p'' 0" by (simp add: gl ann_token_def)
  have claims: "sample_claims = login_claims session_env (gl_TTLMillis (bl_GenericLogin ann_login))"
    by (simp add: gl session_claims)
  have free: "tracker_stored ?w RTokens ''kube-system'' ''token-x7k2p'' = None"
    by (simp add: settled_world_def tracker_with_stored same_key_def)
  obtain w1 where l: "Login session_env sample_request (new_response, relisted_backend ?w) =
        Return (None, login_response session_env sample_request ''json'' ann_token new_response,
          (relisted_backend ?w)\<lparr>be_world := w1\<rparr>)" "tracker_ok w1"
      "tracker_stored w1 = stored_put RTokens ''kube-system'' ''token-x7k2p'' (ObjToken ann_token) (tracker_stored ?w)"
    and s: "\<And>b1 site verb url r rw1. backend_ok b1 \<and> backend_mirrors b1 \<and> be_world b1 = w1
         \<and> seconds_ok (le_seconds (si_env site)) \<and> signs_for (si_jwt site) (le_sign session_env)
         \<and> still_valid 57600000 0 (le_now (si_env site))
         \<and> HasPrefix url ''/v1'' \<and> si_static site verb url = None \<and> presents r (token_text ann_token) \<Longrightarrow>
         \<exists>err. serve site verb url r (rw1, b1) =
           (if verb = ''OPTIONS'' \<or> key_good_at sample_claims (time_Unix (jl_now (si_jwt site))) then
              apiRouter site verb url
                ((http_request.truncate r)\<lparr>rq_Authorization := ''Bearer '' @ ''eyh.eyc.s'', rq_ImpersonateUser := om_Name (u_meta settled_user)\<rparr>) (rw1, b1)
            else Return (OnError err rw1, b1))"
    using session_opens [OF b(1,2) _ _ _ session_env_ok(1,3,2) key _ _ _ _ _ _ tok claims, of new_response]
      w sample_texts free by (auto simp: b(3) gl)
  have "names_ok w1" using w(2) by (auto simp: names_ok_def l(3))
  note b1 = relisted_backend_ok [OF l(2) this]
  have late: "\<not> key_good_at sample_claims (time_Unix 57601000000000)"
    by (simp add: key_good_at_def sample_claims_def verifyExp_def time_Unix_def unix_epoch_def)
  have "serve sample_site ''GET'' ''/v1/nodes'' cookie_request (new_response, relisted_backend w1) =
        apiRouter sample_site ''GET'' ''/v1/nodes''
          ((http_request.truncate cookie_request)\<lparr>rq_Authorization := ''Bearer '' @ ''eyh.eyc.s'', rq_ImpersonateUser := ''u-1''\<rparr>)
          (new_response, relisted_backend w1)"
    using s [of "relisted_backend w1" sample_site "''/v1/nodes''" "''GET''" cookie_request new_response] b1 cookie_presents
      session_signs(1) sample_key_good by (simp add: sample_site_def sample_jwt_def seconds_exact still_valid_def HasPrefix_def)
  moreover have "\<exists>err. serve late_site ''GET'' ''/v1/nodes'' cookie_request (new_response, relisted_backend w1) =
        Return (OnError err new_response, relisted_backend w1)"
    using s [of "relisted_backend w1" late_site "''/v1/nodes''" "''GET''" cookie_request new_response] b1 cookie_presents
      session_signs(2) late by (simp add: late_site_def sample_site_def seconds_exact still_valid_def HasPrefix_def)
  ultimately show ?thesis using l(1) by auto
qed

text \<open>Ann logs out, and her cookie is no longer accepted.\<close>

theorem session_closes_witness:
  "\<exists>rw' w1 e. Logout (sample_env ann_login) cookie_request (new_response, relisted_backend (settled_world [ann_token])) =
        Return (None, rw', (relisted_backend (settled_world [ann_token]))\<lparr>be_world := w1\<rparr>)
    \<and> serve sample_site ''GET'' ''/v1/nodes'' cookie_request (new_response, relisted_backend w1) =
        Return (JSONErrorResponse (\<lambda>_. Inr ''{}'') e 401 new_response, relisted_backend w1)"
proof -
  let ?w = "settled_world [ann_token]"
  note w = settled_world_ok [of "[ann_token]", simplified] and b = relisted_backend_ok [OF w(1,2)]
  have there: "tracker_stored ?w RTokens ''kube-system'' ''token-x7k2p'' = Some (ObjToken ann_token)"
    by (simp add: settled_world_def tracker_with_stored same_key_def)
  have valid: "seconds_ok (le_seconds (sample_env ann_login))" "still_valid 57600000 0 (le_now (sample_env ann_login))"
    by (simp_all add: seconds_exact still_valid_def)
  obtain rw' w1 where l: "Logout (sample_env ann_login) cookie_request (new_response, relisted_backend ?w) =
        Return (None, rw', (relisted_backend ?w)\<lparr>be_world := w1\<rparr>)" "tracker_ok w1"
      "tracker_stored w1 = without_token (tracker_stored ?w) ''kube-system'' ''token-x7k2p''"
    and s: "\<And>b1 site verb url r rw1. backend_ok b1 \<and> backend_mirrors b1 \<and> be_world b1 = w1
         \<and> HasPrefix url ''/v1'' \<and> si_static site verb url = None \<and> presents r (token_text ann_token) \<Longrightarrow>
         \<exists>e. serve site verb url r (rw1, b1) = Return (JSONErrorResponse (le_marshal (si_env site)) e 401 rw1, b1)"
    using session_closes [OF b(1,2) _ _ _ _ _ _ ann_token_def _ _ _ sample_env_wired valid cookie_presents, of new_response]
      w sample_texts there by (auto simp: b(3) settled_user_names)
  have "names_ok w1" using w(2) by (auto simp: names_ok_def l(3) split: if_splits)
  note b1 = relisted_backend_ok [OF l(2) this]
  have "\<exists>e. serve sample_site ''GET'' ''/v1/nodes'' cookie_request (new_response, relisted_backend w1) =
      Return (JSONErrorResponse (le_marshal (si_env sample_site)) e 401 new_response, relisted_backend w1)"
    by (rule s) (use b1 cookie_presents in \<open>simp add: sample_site_def HasPrefix_def\<close>)
  with l(1) show ?thesis by (auto simp: sample_site_def)
qed

end
